(* ===== verification/Prelude.thy ===== *)
theory Prelude
  imports Main "HOL-Library.Finite_Map" "HOL-Library.Word"
begin

text \<open>
  Shared vocabulary of the development: the clock, finite maps with the operations of
  Rust's \<^verbatim>\<open>HashMap\<close>, the \<^verbatim>\<open>str\<close> functions the sources call, saturating integer
  arithmetic, and the automation the component theories use.

  Conventions. An \<^verbatim>\<open>Instant\<close> and a \<^verbatim>\<open>Duration\<close> are natural numbers of nanoseconds; every
  operation that reads the clock takes the reading as an argument. A Rust string is the list
  of its bytes (a \<^typ>\<open>char\<close> is a byte). A \<^verbatim>\<open>HashMap\<close> is a finite map, so that no theorem
  depends on an iteration order. A \<^verbatim>\<open>Mutex\<close> that guards a map disappears: each method that
  holds the lock throughout is one function from the old state to the new one.
\<close>

named_theorems store_defs "definitions of the store operations, unfolded by the component proofs"
named_theorems len_bounds "bounds on the number of entries of a finite map"

section \<open>The clock\<close>

type_synonym instant = nat
type_synonym duration = nat
type_synonym digest = string
type_synonym secret = string

definition from_secs :: "nat \<Rightarrow> duration" where
  "from_secs n = n * 1000000000"

definition from_mins :: "nat \<Rightarrow> duration" where
  "from_mins n = from_secs (60 * n)"

definition from_hours :: "nat \<Rightarrow> duration" where
  "from_hours n = from_secs (3600 * n)"

text \<open>The largest \<^verbatim>\<open>Instant\<close>: on Unix an \<^verbatim>\<open>i64\<close> of seconds and below \<open>10\<^sup>9\<close> nanoseconds.\<close>

definition instant_max :: instant where
  "instant_max = from_secs (2 ^ 63 - 1) + 999999999"

definition checked_add :: "instant \<Rightarrow> duration \<Rightarrow> instant option" where
  "checked_add t d = (if t + d \<le> instant_max then Some (t + d) else None)"

lemmas duration_defs = from_secs_def from_mins_def from_hours_def

lemma from_secs_mono: "a \<le> b \<Longrightarrow> from_secs a \<le> from_secs b"
  by (simp add: from_secs_def)

section \<open>Saturating arithmetic\<close>

definition u64_max :: nat where
  "u64_max = 2 ^ 64 - 1"

definition sat_add :: "nat \<Rightarrow> nat \<Rightarrow> nat" where
  "sat_add a b = min (a + b) u64_max"

definition i64_min :: int where "i64_min = - (2 ^ 63)"
definition i64_max :: int where "i64_max = 2 ^ 63 - 1"

definition sat_i64 :: "int \<Rightarrow> int" where
  "sat_i64 x = max i64_min (min i64_max x)"

lemma sat_add_le: "sat_add a b \<le> a + b"
  by (simp add: sat_add_def)

lemma sat_add_exact: "a + b \<le> u64_max \<Longrightarrow> sat_add a b = a + b"
  by (simp add: sat_add_def)

lemma sat_i64_exact: "i64_min \<le> x \<Longrightarrow> x \<le> i64_max \<Longrightarrow> sat_i64 x = x"
  by (simp add: sat_i64_def)

section \<open>Hash maps\<close>

text \<open>
  \<^verbatim>\<open>HashMap\<close>: \<open>get\<close> is \<^const>\<open>fmlookup\<close>, \<open>insert\<close> is \<^const>\<open>fmupd\<close>, \<open>remove\<close> is
  \<^const>\<open>fmdrop\<close>, \<open>len\<close> and \<open>retain\<close> are below.
\<close>

definition fmlen :: "('k, 'v) fmap \<Rightarrow> nat" where
  "fmlen m = fcard (fmdom m)"

definition retain :: "('k \<Rightarrow> 'v \<Rightarrow> bool) \<Rightarrow> ('k, 'v) fmap \<Rightarrow> ('k, 'v) fmap" where
  "retain P m = fmfilter (\<lambda>k. case fmlookup m k of None \<Rightarrow> False | Some v \<Rightarrow> P k v) m"

lemma fmlookup_retain [simp]:
  "fmlookup (retain P m) k =
     (case fmlookup m k of None \<Rightarrow> None | Some v \<Rightarrow> if P k v then Some v else None)"
  by (simp add: retain_def split: option.splits)

lemma retain_Some:
  "fmlookup (retain P m) k = Some v \<longleftrightarrow> fmlookup m k = Some v \<and> P k v"
  by (auto split: option.splits)

lemma fmdom_retain_subset: "fmdom (retain P m) |\<subseteq>| fmdom m"
  by (auto simp: retain_def)

lemma fmlen_empty [simp]: "fmlen fmempty = 0"
  by (simp add: fmlen_def)

lemma fmlen_fmupd_le [len_bounds]: "fmlen (fmupd k v m) \<le> Suc (fmlen m)"
  by (simp add: fmlen_def fcard_finsert_if)

lemma fmlen_fmupd_old: "k |\<in>| fmdom m \<Longrightarrow> fmlen (fmupd k v m) = fmlen m"
  by (simp add: fmlen_def finsert_absorb)

lemma fmlen_fmupd_new: "k |\<notin>| fmdom m \<Longrightarrow> fmlen (fmupd k v m) = Suc (fmlen m)"
  by (simp add: fmlen_def fcard_finsert_if)

lemma fmlen_fmdrop_le [len_bounds]: "fmlen (fmdrop k m) \<le> fmlen m"
  unfolding fmlen_def by (rule fcard_mono) auto

lemma fmlen_retain_le [len_bounds]: "fmlen (retain P m) \<le> fmlen m"
  unfolding fmlen_def by (rule fcard_mono) (rule fmdom_retain_subset)

lemma fmlen_subset: "fmdom m |\<subseteq>| fmdom m' \<Longrightarrow> fmlen m \<le> fmlen m'"
  unfolding fmlen_def by (rule fcard_mono)

lemma retain_id: "(\<And>k v. fmlookup m k = Some v \<Longrightarrow> P k v) \<Longrightarrow> retain P m = m"
  by (rule fmap_ext) (auto split: option.splits)

lemma retain_fmempty [simp]: "retain P fmempty = fmempty"
  by (rule fmap_ext) simp

lemma retain_fmupd:
  "retain P (fmupd k v m) =
     (if P k v then fmupd k v (retain P m) else retain P (fmdrop k m))"
  by (rule fmap_ext) (auto split: option.splits)

declare fmdrop_fmupd [simp]

lemma fmdrop_fmlookup_None: "fmlookup m k = None \<Longrightarrow> fmdrop k m = m"
  by (rule fmap_ext) auto

text \<open>\<^verbatim>\<open>values().map(f).sum()\<close>, before reduction to the width of the integer type.\<close>

definition fmsum :: "('v \<Rightarrow> nat) \<Rightarrow> ('k, 'v) fmap \<Rightarrow> nat" where
  "fmsum f m = (\<Sum>k \<in> fset (fmdom m). f (the (fmlookup m k)))"

lemma fmsum_empty [simp]: "fmsum f fmempty = 0"
  by (simp add: fmsum_def)

lemma fmsum_remove: "fmlookup m k = Some v \<Longrightarrow> fmsum f m = f v + fmsum f (fmdrop k m)"
  unfolding fmsum_def
  by (subst sum.remove [of _ k]) (auto intro!: sum.cong simp: fmlookup_dom_iff)

lemma fmsum_fmupd: "fmsum f (fmupd k v m) = f v + fmsum f (fmdrop k m)"
  using fmsum_remove [of "fmupd k v m" k v f] by simp

lemma fmsum_fmdrop_le: "fmsum f (fmdrop k m) \<le> fmsum f m"
  by (cases "fmlookup m k") (simp_all add: fmsum_remove fmdrop_fmlookup_None)

lemma fmsum_fmupd_le: "fmsum f (fmupd k v m) \<le> f v + fmsum f m"
  using fmsum_fmdrop_le [of f k m] by (simp add: fmsum_fmupd)

lemma fmsum_ge: "fmlookup m k = Some v \<Longrightarrow> f v \<le> fmsum f m"
  by (simp add: fmsum_remove)

section \<open>Strings\<close>

definition starts_with :: "string \<Rightarrow> string \<Rightarrow> bool" where
  "starts_with s p \<longleftrightarrow> take (length p) s = p"

definition ends_with :: "string \<Rightarrow> string \<Rightarrow> bool" where
  "ends_with s p \<longleftrightarrow> length p \<le> length s \<and> drop (length s - length p) s = p"

definition strip_prefix :: "string \<Rightarrow> string \<Rightarrow> string option" where
  "strip_prefix s p = (if starts_with s p then Some (drop (length p) s) else None)"

definition strip_suffix :: "string \<Rightarrow> string \<Rightarrow> string option" where
  "strip_suffix s p = (if ends_with s p then Some (take (length s - length p) s) else None)"

text \<open>\<^verbatim>\<open>str::split_once\<close>: splits at the first occurrence of the pattern.\<close>

fun split_once :: "string \<Rightarrow> string \<Rightarrow> (string \<times> string) option" where
  "split_once [] p = (if p = [] then Some ([], []) else None)"
| "split_once (c # cs) p =
     (if starts_with (c # cs) p then Some ([], drop (length p) (c # cs))
      else map_option (\<lambda>(a, b). (c # a, b)) (split_once cs p))"

definition trim_start_matches :: "char \<Rightarrow> string \<Rightarrow> string" where
  "trim_start_matches c s = dropWhile (\<lambda>x. x = c) s"

definition trim_end_matches :: "char \<Rightarrow> string \<Rightarrow> string" where
  "trim_end_matches c s = rev (dropWhile (\<lambda>x. x = c) (rev s))"

definition byte_of :: "char \<Rightarrow> nat" where
  "byte_of c = of_char c"

definition to_ascii_lower :: "char \<Rightarrow> char" where
  "to_ascii_lower c = (if 65 \<le> byte_of c \<and> byte_of c \<le> 90 then char_of (byte_of c + 32) else c)"

definition to_ascii_lowercase :: "string \<Rightarrow> string" where
  "to_ascii_lowercase s = map to_ascii_lower s"

definition eq_ignore_ascii_case :: "string \<Rightarrow> string \<Rightarrow> bool" where
  "eq_ignore_ascii_case a b \<longleftrightarrow> to_ascii_lowercase a = to_ascii_lowercase b"

text \<open>
  Whitespace. \<^verbatim>\<open>str::trim\<close> and \<^verbatim>\<open>split_whitespace\<close> use the Unicode property, whose
  one-byte members are these six; the multi-byte ones are outside the byte model.
  \<^verbatim>\<open>split_ascii_whitespace\<close> leaves out the vertical tab.
\<close>

definition is_whitespace :: "char \<Rightarrow> bool" where
  "is_whitespace c \<longleftrightarrow> byte_of c \<in> {9, 10, 11, 12, 13, 32}"

definition is_ascii_whitespace :: "char \<Rightarrow> bool" where
  "is_ascii_whitespace c \<longleftrightarrow> byte_of c \<in> {9, 10, 12, 13, 32}"

definition trim :: "string \<Rightarrow> string" where
  "trim s = rev (dropWhile is_whitespace (rev (dropWhile is_whitespace s)))"

text \<open>The non-empty maximal runs of characters outside \<open>P\<close>; \<open>acc\<close> is the current run, reversed.\<close>

fun split_runs :: "(char \<Rightarrow> bool) \<Rightarrow> string \<Rightarrow> string \<Rightarrow> string list" where
  "split_runs P acc [] = (if acc = [] then [] else [rev acc])"
| "split_runs P acc (c # cs) =
     (if P c then (if acc = [] then split_runs P [] cs else rev acc # split_runs P [] cs)
      else split_runs P (c # acc) cs)"

definition split_whitespace :: "string \<Rightarrow> string list" where
  "split_whitespace s = split_runs is_whitespace [] s"

definition split_ascii_whitespace :: "string \<Rightarrow> string list" where
  "split_ascii_whitespace s = split_runs is_ascii_whitespace [] s"

fun join :: "string \<Rightarrow> string list \<Rightarrow> string" where
  "join sep [] = []"
| "join sep [x] = x"
| "join sep (x # y # xs) = x @ sep @ join sep (y # xs)"

lemma starts_with_append [simp]: "starts_with (p @ s) p"
  by (simp add: starts_with_def)

lemma starts_withE: "starts_with s p \<Longrightarrow> (\<And>r. s = p @ r \<Longrightarrow> Q) \<Longrightarrow> Q"
  by (metis append_take_drop_id starts_with_def)

lemma strip_prefix_Some: "strip_prefix s p = Some r \<longleftrightarrow> s = p @ r"
  by (auto simp: strip_prefix_def starts_with_def) (metis append_take_drop_id)

lemma ends_with_append [simp]: "ends_with (s @ p) p"
  by (simp add: ends_with_def)

lemma strip_suffix_Some: "strip_suffix s p = Some r \<longleftrightarrow> s = r @ p"
proof
  assume "strip_suffix s p = Some r"
  then show "s = r @ p"
    by (auto simp: strip_suffix_def ends_with_def split: if_splits)
      (metis append_take_drop_id)
qed (simp add: strip_suffix_def)

lemma split_once_Some: "split_once s p = Some (a, b) \<Longrightarrow> s = a @ p @ b"
  by (induction s p arbitrary: a rule: split_once.induct)
    (auto split: if_splits elim: starts_withE)

lemma split_once_None_char: "split_once s [c] = None \<longleftrightarrow> c \<notin> set s"
  by (induction s) (auto simp: starts_with_def)

lemma split_once_char_left: "split_once s [c] = Some (a, b) \<Longrightarrow> c \<notin> set a"
  by (induction s arbitrary: a) (auto simp: starts_with_def split: if_splits)

lemma split_once_char_append: "c \<notin> set a \<Longrightarrow> split_once (a @ c # b) [c] = Some (a, b)"
  by (induction a) (auto simp: starts_with_def)

lemma split_runs_nonempty: "w \<in> set (split_runs P acc s) \<Longrightarrow> w \<noteq> []"
  by (induction P acc s rule: split_runs.induct) (auto split: if_splits)

lemma split_runs_clean:
  "\<forall>c \<in> set acc. \<not> P c \<Longrightarrow> w \<in> set (split_runs P acc s) \<Longrightarrow> c \<in> set w \<Longrightarrow> \<not> P c"
  by (induction P acc s rule: split_runs.induct) (auto split: if_split_asm)

section \<open>Unicode strings\<close>

text \<open>
  Where the code counts or classifies characters beyond ASCII, a string is the list of its Unicode
  scalar values.
\<close>

type_synonym ustr = "nat list"

text \<open>The Unicode properties \<^verbatim>\<open>White_Space\<close> and \<^verbatim>\<open>Cc\<close> that \<^verbatim>\<open>trim\<close> and \<^verbatim>\<open>is_control\<close> use.\<close>

definition is_unicode_whitespace :: "nat \<Rightarrow> bool" where
  "is_unicode_whitespace c \<longleftrightarrow>
     9 \<le> c \<and> c \<le> 13 \<or> 8192 \<le> c \<and> c \<le> 8202 \<or>
     c \<in> {32, 133, 160, 5760, 8232, 8233, 8239, 8287, 12288}"

definition is_control :: "nat \<Rightarrow> bool" where
  "is_control c \<longleftrightarrow> c \<le> 31 \<or> 127 \<le> c \<and> c \<le> 159"

definition trim_ustr :: "ustr \<Rightarrow> ustr" where
  "trim_ustr s = rev (dropWhile is_unicode_whitespace (rev (dropWhile is_unicode_whitespace s)))"

section \<open>Numbers in decimal\<close>

definition digit_char :: "nat \<Rightarrow> char" where
  "digit_char d = char_of (48 + d)"

fun nat_str :: "nat \<Rightarrow> string" where
  "nat_str n = (if n < 10 then [digit_char n] else nat_str (n div 10) @ [digit_char (n mod 10)])"

declare nat_str.simps [simp del]

definition is_ascii_digit :: "char \<Rightarrow> bool" where
  "is_ascii_digit c \<longleftrightarrow> 48 \<le> byte_of c \<and> byte_of c \<le> 57"

lemma is_ascii_digit_digit_char: "d < 10 \<Longrightarrow> is_ascii_digit (digit_char d)"
  by (simp add: is_ascii_digit_def digit_char_def byte_of_def)

lemma nat_str_digits: "c \<in> set (nat_str n) \<Longrightarrow> is_ascii_digit c"
  by (induction n rule: nat_str.induct) (subst (asm) nat_str.simps, auto simp: is_ascii_digit_digit_char split: if_splits)

lemma nat_str_nonempty [simp]: "nat_str n \<noteq> []"
  by (subst nat_str.simps) simp

end
