(* ===== verification/Bounded_Store.thy ===== *)
theory Bounded_Store
  imports Prelude
begin

text \<open>
  The helpers shared by every store of \<^verbatim>\<open>oauth/proxy/store.rs\<close>: deadlines, the digest key,
  the opaque-token mint and the sweep-then-cap admission check. The locales state once what
  a store that admits through that check promises its callers; each store theory interprets
  them on its own operations.
\<close>

text \<open>
  SHA-256 and base64url come from third-party crates: they are the two fields of this record,
  an argument of every operation that uses them.
\<close>

record crypto =
  sha256 :: "string \<Rightarrow> digest"
  base64url :: "string \<Rightarrow> string"

text \<open>An OS random-number draw: the bytes, or \<open>None\<close> when \<^verbatim>\<open>SysRng\<close> fails.\<close>

type_synonym rng = "string option"

definition expires_after :: "instant \<Rightarrow> duration \<Rightarrow> instant" where
  "expires_after now ttl = (case checked_add now ttl of Some t \<Rightarrow> t | None \<Rightarrow> now)"

definition digest :: "crypto \<Rightarrow> string \<Rightarrow> digest" where
  "digest C v = sha256 C v"

definition mint_opaque_token :: "crypto \<Rightarrow> rng \<Rightarrow> string \<Rightarrow> string option" where
  "mint_opaque_token C r pre = (case r of None \<Rightarrow> None | Some bytes \<Rightarrow> Some (pre @ base64url C bytes))"

definition hex_digit :: "nat \<Rightarrow> char" where
  "hex_digit n = (if n < 10 then char_of (48 + n) else char_of (87 + n))"

text \<open>The \<^verbatim>\<open>{byte:02x}\<close> rendering both id mints loop over.\<close>

definition hex_byte :: "char \<Rightarrow> string" where
  "hex_byte c = [hex_digit (byte_of c div 16), hex_digit (byte_of c mod 16)]"

definition hex_bytes :: "string \<Rightarrow> string" where
  "hex_bytes bytes = concat (map hex_byte bytes)"

definition MAX_ENTRIES :: nat where
  "MAX_ENTRIES = 10000"

definition sweep :: "instant \<Rightarrow> ('k, 'v \<times> instant) fmap \<Rightarrow> ('k, 'v \<times> instant) fmap" where
  "sweep now m = retain (\<lambda>_ e. snd e > now) m"

definition sweep_and_check_capacity ::
    "instant \<Rightarrow> ('k, 'v \<times> instant) fmap \<Rightarrow> 'k \<Rightarrow> bool \<times> ('k, 'v \<times> instant) fmap" where
  "sweep_and_check_capacity now m key =
     (let m' = sweep now m
      in (fmlen m' < MAX_ENTRIES \<or> key |\<in>| fmdom m', m'))"

text \<open>Whether the admission check lets \<open>key\<close> in.\<close>

definition room :: "instant \<Rightarrow> ('k, 'v \<times> instant) fmap \<Rightarrow> 'k \<Rightarrow> bool" where
  "room now m key = fst (sweep_and_check_capacity now m key)"

section \<open>Lemmas\<close>

lemma sweep_check_eq: "sweep_and_check_capacity now m key = (room now m key, sweep now m)"
  by (simp add: room_def sweep_and_check_capacity_def Let_def)

lemma room_iff: "room now m key \<longleftrightarrow> fmlen (sweep now m) < MAX_ENTRIES \<or> key |\<in>| fmdom (sweep now m)"
  by (simp add: room_def sweep_and_check_capacity_def Let_def)

lemma fmlookup_sweep:
  "fmlookup (sweep now m) k =
     (case fmlookup m k of None \<Rightarrow> None | Some e \<Rightarrow> if snd e > now then Some e else None)"
  by (simp add: sweep_def)

lemma sweep_Some: "fmlookup (sweep now m) k = Some e \<longleftrightarrow> fmlookup m k = Some e \<and> snd e > now"
  by (auto simp: sweep_def split: option.splits if_splits)

lemma sweep_empty [simp]: "sweep now fmempty = fmempty"
  by (simp add: sweep_def)

lemma sweep_sweep [simp]: "sweep now (sweep now m) = sweep now m"
  by (rule fmap_ext) (auto simp: fmlookup_sweep split: option.splits)

lemma sweep_mono: "now \<le> now' \<Longrightarrow> sweep now' (sweep now m) = sweep now' m"
  by (rule fmap_ext) (auto simp: fmlookup_sweep split: option.splits)

lemma fmlen_sweep_le [len_bounds]: "fmlen (sweep now m) \<le> fmlen m"
  unfolding sweep_def by (rule fmlen_retain_le)

lemma fmlen_admit:
  assumes "fmlen m \<le> MAX_ENTRIES" and "room now m k"
  shows "fmlen (fmupd k v (sweep now m)) \<le> MAX_ENTRIES"
proof (cases "k |\<in>| fmdom (sweep now m)")
  case True
  then show ?thesis using assms(1) fmlen_sweep_le [of now m] by (simp add: fmlen_fmupd_old)
next
  case False
  then have "fmlen (sweep now m) < MAX_ENTRIES" using assms(2) by (simp add: room_iff)
  then show ?thesis using False by (simp add: fmlen_fmupd_new)
qed

lemma expires_after_exact: "now + ttl \<le> instant_max \<Longrightarrow> expires_after now ttl = now + ttl"
  by (simp add: expires_after_def checked_add_def)

lemma expires_after_ge: "now \<le> expires_after now ttl"
  by (simp add: expires_after_def checked_add_def)

lemma expires_after_le: "expires_after now ttl \<le> now + ttl"
  by (simp add: expires_after_def checked_add_def)

lemma mint_opaque_token_prefix:
  "mint_opaque_token C r pre = Some t \<Longrightarrow> starts_with t pre"
  by (auto simp: mint_opaque_token_def split: option.splits)

lemma length_hex_bytes: "length (hex_bytes bytes) = 2 * length bytes"
  by (induction bytes) (auto simp: hex_bytes_def hex_byte_def)

lemma byte_of_less: "byte_of c < 256"
  by (simp add: byte_of_def)

lemma hex_digit_inj: "m < 16 \<Longrightarrow> n < 16 \<Longrightarrow> hex_digit m = hex_digit n \<Longrightarrow> m = n"
proof -
  assume "m < 16" "n < 16" and eq: "hex_digit m = hex_digit n"
  have code: "(of_char (hex_digit k) :: nat) = (if k < 10 then 48 + k else 87 + k)" if "k < 16" for k
    using that by (simp add: hex_digit_def)
  show "m = n" using arg_cong [OF eq, of "of_char :: char \<Rightarrow> nat"] \<open>m < 16\<close> \<open>n < 16\<close>
    by (simp add: code split: if_splits)
qed

lemma hex_byte_inj: "hex_byte a = hex_byte b \<Longrightarrow> a = b"
proof -
  assume eq: "hex_byte a = hex_byte b"
  have "byte_of a div 16 < 16" "byte_of b div 16 < 16"
    using byte_of_less [of a] byte_of_less [of b] by auto
  moreover have "byte_of a mod 16 < 16" "byte_of b mod 16 < 16" by auto
  ultimately have "byte_of a div 16 = byte_of b div 16" "byte_of a mod 16 = byte_of b mod 16"
    using eq hex_digit_inj by (auto simp: hex_byte_def)
  then have "byte_of a = byte_of b" by (metis div_mult_mod_eq)
  then show "a = b" by (simp add: byte_of_def)
qed

lemma hex_bytes_inj: "hex_bytes xs = hex_bytes ys \<Longrightarrow> xs = ys"
proof (induction xs arbitrary: ys)
  case Nil
  then show ?case by (cases ys) (auto simp: hex_bytes_def hex_byte_def)
next
  case (Cons x xs)
  then obtain y ys' where ys: "ys = y # ys'"
    by (cases ys) (auto simp: hex_bytes_def hex_byte_def)
  have "hex_byte x = hex_byte y \<and> hex_bytes xs = hex_bytes ys'"
    using Cons.prems ys by (auto simp: hex_bytes_def hex_byte_def)
  then show ?case using Cons.IH ys hex_byte_inj by blast
qed

text \<open>An instance of the two third-party functions, for the witnesses.\<close>

definition example_crypto :: crypto where
  "example_crypto = \<lparr>sha256 = (\<lambda>s. s), base64url = (\<lambda>s. s)\<rparr>"

lemma example_crypto_simps [simp]:
  "sha256 example_crypto s = s" "base64url example_crypto s = s" "digest example_crypto s = s"
  by (simp_all add: example_crypto_def digest_def)

section \<open>The contract of a store behind the admission check\<close>

text \<open>
  \<open>view\<close> is the guarded map, \<open>put now a s\<close> one insertion with argument \<open>a\<close>; \<open>key a\<close> is the
  key it inserts under (\<open>None\<close> when no key could be minted) and \<open>ent now a\<close> the value with
  its deadline.
\<close>

locale capped_map =
  fixes view :: "'s \<Rightarrow> ('k, 'v \<times> instant) fmap"
    and put :: "instant \<Rightarrow> 'a \<Rightarrow> 's \<Rightarrow> 's"
    and key :: "'a \<Rightarrow> 'k option"
    and ent :: "instant \<Rightarrow> 'a \<Rightarrow> 'v \<times> instant"
  assumes put_view:
    "view (put now a s) =
       (case key a of
          None \<Rightarrow> view s
        | Some k \<Rightarrow> if room now (view s) k then fmupd k (ent now a) (sweep now (view s))
                   else sweep now (view s))"
begin

text \<open>The capacity bound is inductive.\<close>

lemma put_bound: "fmlen (view s) \<le> MAX_ENTRIES \<Longrightarrow> fmlen (view (put now a s)) \<le> MAX_ENTRIES"
  using fmlen_sweep_le [of now "view s"]
  by (auto simp: put_view fmlen_admit split: option.split)

text \<open>No live entry is dropped to make room for another key.\<close>

lemma put_keeps_live:
  "fmlookup (view s) k = Some e \<Longrightarrow> snd e > now \<Longrightarrow> key a \<noteq> Some k \<Longrightarrow>
   fmlookup (view (put now a s)) k = Some e"
  by (auto simp: put_view fmlookup_sweep split: option.split)

text \<open>An insertion invents nothing: what is stored afterwards was stored before or is the new entry.\<close>

lemma put_origin:
  "fmlookup (view (put now a s)) k = Some e \<Longrightarrow>
   fmlookup (view s) k = Some e \<or> (key a = Some k \<and> e = ent now a)"
  by (auto simp: put_view fmlookup_sweep split: option.splits if_splits)

text \<open>The same two facts for any sequence of insertions, each with its own clock reading.\<close>

lemma puts_bound:
  "fmlen (view s) \<le> MAX_ENTRIES \<Longrightarrow>
   fmlen (view (fold (\<lambda>(now, a). put now a) ops s)) \<le> MAX_ENTRIES"
  by (induction ops arbitrary: s) (auto simp: put_bound)

lemma puts_keep_live:
  "fmlookup (view s) k = Some e \<Longrightarrow>
   \<forall>(now, a) \<in> set ops. snd e > now \<and> key a \<noteq> Some k \<Longrightarrow>
   fmlookup (view (fold (\<lambda>(now, a). put now a) ops s)) k = Some e"
  by (induction ops arbitrary: s) (auto simp: put_keeps_live)

end

text \<open>A store whose insertion also reports whether it was admitted.\<close>

locale capped_store =
  capped_map view "\<lambda>now a s. snd (issue now a s)" key ent
  for view :: "'s \<Rightarrow> ('k, 'v \<times> instant) fmap"
    and issue :: "instant \<Rightarrow> 'a \<Rightarrow> 's \<Rightarrow> 'r option \<times> 's"
    and key :: "'a \<Rightarrow> 'k option"
    and ent :: "instant \<Rightarrow> 'a \<Rightarrow> 'v \<times> instant" +
  assumes issue_None:
    "fst (issue now a s) = None \<longleftrightarrow>
       (case key a of None \<Rightarrow> True | Some k \<Rightarrow> \<not> room now (view s) k)"
begin

text \<open>A refusal means that no key could be minted or that the store is full of live entries.\<close>

lemma refused_means_full:
  "fst (issue now a s) = None \<Longrightarrow> key a = Some k \<Longrightarrow>
   MAX_ENTRIES \<le> fmlen (sweep now (view s)) \<and> k |\<notin>| fmdom (sweep now (view s))"
  by (auto simp: issue_None room_iff)

text \<open>An admitted entry is found at once.\<close>

lemma issued_lookup:
  "fst (issue now a s) = Some r \<Longrightarrow>
   \<exists>k. key a = Some k \<and> fmlookup (view (snd (issue now a s))) k = Some (ent now a)"
  using issue_None [of now a s] put_view [of now a s] by (auto split: option.splits)

text \<open>A refusal leaves the live entries as they were.\<close>

lemma refused_keeps_live:
  "fst (issue now a s) = None \<Longrightarrow> sweep now (view (snd (issue now a s))) = sweep now (view s)"
  using issue_None [of now a s] put_view [of now a s] by (auto split: option.splits)

end

end
