(* ===== verification/Client_Registry.thy ===== *)
theory Client_Registry
  imports Bounded_Store
begin

text \<open>
  The dynamic-client-registration registry (\<^verbatim>\<open>ClientRegistry\<close>): registration with the idle
  sweep under capacity pressure, lookup, the idle-clock touch and the count.
\<close>

record client_registration =
  cr_client_id :: string
  cr_redirect_uris :: "string list"
  cr_client_name :: "string option"

record registry_entry =
  re_registration :: client_registration
  re_last_seen :: instant

type_synonym client_registry = "(string, registry_entry) fmap"

definition MAX_CLIENTS :: nat where
  "MAX_CLIENTS = 1000"

definition CLIENT_IDLE_TTL :: duration where
  "CLIENT_IDLE_TTL = from_hours 1"

definition registry_new :: client_registry where
  "registry_new = fmempty"

definition mint_client_id :: "rng \<Rightarrow> string option" where
  "mint_client_id r = (case r of None \<Rightarrow> None | Some bytes \<Rightarrow> Some (hex_bytes bytes))"

text \<open>The closure of the capacity sweep: a live client, or one seen within the idle TTL, stays.\<close>

definition keep_entry :: "instant \<Rightarrow> string fset \<Rightarrow> string \<Rightarrow> registry_entry \<Rightarrow> bool" where
  "keep_entry now live client_id entry \<longleftrightarrow>
     client_id |\<in>| live \<or> now - re_last_seen entry < CLIENT_IDLE_TTL"

definition registry_register ::
    "instant \<Rightarrow> rng \<Rightarrow> string list \<Rightarrow> string option \<Rightarrow> string fset \<Rightarrow> client_registry \<Rightarrow>
     client_registration option \<times> client_registry" where
  "registry_register now r redirect_uris client_name live reg =
     (let reg1 = (if MAX_CLIENTS \<le> fmlen reg then retain (keep_entry now live) reg else reg)
      in if MAX_CLIENTS \<le> fmlen reg1 then (None, reg1)
         else case mint_client_id r of
             None \<Rightarrow> (None, reg1)
           | Some client_id \<Rightarrow>
               let registration = \<lparr>cr_client_id = client_id, cr_redirect_uris = redirect_uris,
                                   cr_client_name = client_name\<rparr>
               in (Some registration,
                   fmupd client_id \<lparr>re_registration = registration, re_last_seen = now\<rparr> reg1))"

definition registry_get :: "string \<Rightarrow> client_registry \<Rightarrow> client_registration option" where
  "registry_get client_id reg = map_option re_registration (fmlookup reg client_id)"

definition registry_touch :: "instant \<Rightarrow> string \<Rightarrow> client_registry \<Rightarrow> client_registry" where
  "registry_touch now client_id reg =
     (case fmlookup reg client_id of
        None \<Rightarrow> reg
      | Some entry \<Rightarrow> fmupd client_id (entry\<lparr>re_last_seen := now\<rparr>) reg)"

definition registry_len :: "client_registry \<Rightarrow> nat" where
  "registry_len reg = fmlen reg"

section \<open>Invariant and lemmas\<close>

text \<open>
  Every registration is stored under its own id and only under an id this registry minted
  (hexadecimal of some random bytes), and the cap holds.
\<close>

definition registry_inv :: "client_registry \<Rightarrow> bool" where
  "registry_inv reg \<longleftrightarrow> fmlen reg \<le> MAX_CLIENTS \<and>
     fmpred (\<lambda>cid e. cr_client_id (re_registration e) = cid) reg"

lemma registry_inv_new: "registry_inv registry_new"
  by (simp add: registry_inv_def registry_new_def)

lemma fmpred_retain: "fmpred Q m \<Longrightarrow> fmpred Q (retain P m)"
  by (simp add: retain_def fmpred_filter)

lemma register_inv:
  "registry_inv reg \<Longrightarrow> registry_inv (snd (registry_register now r uris name live reg))"
proof -
  assume inv: "registry_inv reg"
  let ?reg1 = "if MAX_CLIENTS \<le> fmlen reg then retain (keep_entry now live) reg else reg"
  have "registry_inv ?reg1"
    using inv fmlen_retain_le [of "keep_entry now live" reg]
    by (auto simp: registry_inv_def intro: fmpred_retain)
  then show ?thesis
    using fmlen_fmupd_le
    by (auto simp: registry_register_def Let_def registry_inv_def
        split: option.split intro: order_trans [OF fmlen_fmupd_le])
qed

lemma touch_inv: "registry_inv reg \<Longrightarrow> registry_inv (registry_touch now cid reg)"
  by (auto simp: registry_inv_def registry_touch_def fmlen_fmupd_old fmdomI
      split: option.split intro!: fmpred_upd dest: fmpredD)

text \<open>A registration that is swept is neither live nor recently seen.\<close>

lemma register_keeps:
  assumes "fmlookup reg cid = Some e" and "keep_entry now live cid e"
    and "mint_client_id r \<noteq> Some cid"
  shows "fmlookup (snd (registry_register now r uris name live reg)) cid = Some e"
  using assms by (auto simp: registry_register_def Let_def split: option.split)

lemma register_below_cap_no_sweep:
  assumes "fmlen reg < MAX_CLIENTS" and "mint_client_id r = Some cid"
  shows "registry_register now r uris name live reg =
    (let reg' = \<lparr>cr_client_id = cid, cr_redirect_uris = uris, cr_client_name = name\<rparr>
     in (Some reg', fmupd cid \<lparr>re_registration = reg', re_last_seen = now\<rparr> reg))"
  using assms by (simp add: registry_register_def Let_def)

lemma register_refused:
  "fst (registry_register now r uris name live reg) = None \<longleftrightarrow>
     r = None \<or> (MAX_CLIENTS \<le> fmlen reg \<and> MAX_CLIENTS \<le> fmlen (retain (keep_entry now live) reg))"
  by (auto simp: registry_register_def Let_def mint_client_id_def split: option.splits)

lemma touch_get [simp]: "registry_get cid (registry_touch now cid' reg) = registry_get cid reg"
  by (auto simp: registry_get_def registry_touch_def split: option.splits)

lemma register_get:
  assumes "fst (registry_register now r uris name live reg) = Some c"
  shows "registry_get (cr_client_id c) (snd (registry_register now r uris name live reg)) = Some c"
    and "cr_redirect_uris c = uris" and "cr_client_name c = name"
  using assms by (auto simp: registry_register_def registry_get_def Let_def split: if_splits option.splits)

end
