(* ===== verification/Transaction_Store.thy ===== *)
theory Transaction_Store
  imports Bounded_Store
begin

text \<open>
  In-flight authorization transactions (\<^verbatim>\<open>TransactionStore\<close>): digest-keyed, single-use,
  TTL-bounded.
\<close>

definition TRANSACTION_TTL :: duration where
  "TRANSACTION_TTL = from_mins 10"

record transaction =
  tx_client_id :: string
  tx_redirect_uri :: string
  tx_code_challenge :: string
  tx_scopes :: "string list"
  tx_client_state :: "string option"
  tx_upstream_code_verifier :: string

type_synonym transaction_store = "(digest, transaction \<times> instant) fmap"

definition txn_new :: transaction_store where
  "txn_new = fmempty"

definition txn_create ::
    "crypto \<Rightarrow> instant \<Rightarrow> rng \<Rightarrow> transaction \<Rightarrow> transaction_store \<Rightarrow>
     string option \<times> transaction_store" where
  "txn_create C now r transaction inner =
     (case mint_opaque_token C r [] of
        None \<Rightarrow> (None, inner)
      | Some tid \<Rightarrow>
          let key = digest C tid;
              (ok, inner1) = sweep_and_check_capacity now inner key
          in if \<not> ok then (None, inner1)
             else (Some tid, fmupd key (transaction, expires_after now TRANSACTION_TTL) inner1))"

definition txn_take ::
    "crypto \<Rightarrow> instant \<Rightarrow> string \<Rightarrow> transaction_store \<Rightarrow>
     transaction option \<times> transaction_store" where
  "txn_take C now state inner =
     (let key = digest C state
      in case fmlookup inner key of
           None \<Rightarrow> (None, inner)
         | Some (transaction, expires_at) \<Rightarrow>
             ((if expires_at > now then Some transaction else None), fmdrop key inner))"

section \<open>Lemmas\<close>

text \<open>The key an insertion uses, as the interface's \<open>key\<close> argument.\<close>

definition txn_key :: "crypto \<Rightarrow> rng \<times> transaction \<Rightarrow> digest option" where
  "txn_key C a = map_option (digest C) (mint_opaque_token C (fst a) [])"

interpretation txn: capped_store
  "\<lambda>s. s" "\<lambda>now a s. txn_create C now (fst a) (snd a) s" "txn_key C"
  "\<lambda>now a. (snd a, expires_after now TRANSACTION_TTL)"
  for C
  by unfold_locales
    (auto simp: txn_create_def txn_key_def sweep_check_eq Let_def split: option.split)

lemma txn_take_result:
  "fst (txn_take C now st s) = Some t \<longleftrightarrow>
     (\<exists>e. fmlookup s (digest C st) = Some (t, e) \<and> e > now)"
  by (auto simp: txn_take_def Let_def split: option.splits)

lemma txn_take_drops: "snd (txn_take C now st s) = fmdrop (digest C st) s"
  by (auto simp: txn_take_def Let_def fmdrop_fmlookup_None split: option.splits)

lemma txn_take_bound: "fmlen (snd (txn_take C now st s)) \<le> fmlen s"
  by (simp add: txn_take_drops fmlen_fmdrop_le)

lemma txn_create_lookup:
  "fst (txn_create C now r t s) = Some st \<Longrightarrow>
   fmlookup (snd (txn_create C now r t s)) (digest C st) = Some (t, expires_after now TRANSACTION_TTL)"
  unfolding txn_create_def
  by (cases "mint_opaque_token C r []") (auto simp: Let_def sweep_check_eq split: if_splits)

lemma txn_create_take:
  assumes "fst (txn_create C now r t s) = Some st" and "now' < expires_after now TRANSACTION_TTL"
  shows "fst (txn_take C now' st (snd (txn_create C now r t s))) = Some t"
  using txn_create_lookup [OF assms(1)] assms(2) by (simp add: txn_take_result)

section \<open>Properties\<close>

text \<open>
  A transaction is single use. The state that \<open>txn_create\<close> hands out returns exactly the
  stored transaction when it is taken within its ten minutes, and every later take of the same
  state, at any time, returns nothing.
\<close>

theorem txn_single_use:
  assumes "txn_create C now r t s = (Some st, s1)" and "now' < expires_after now TRANSACTION_TTL"
  shows "fst (txn_take C now' st s1) = Some t \<and>
    fst (txn_take C now'' st (snd (txn_take C now' st s1))) = None"
proof
  show "fst (txn_take C now' st s1) = Some t"
    using txn_create_take [of C now r t s st now'] assms by simp
  show "fst (txn_take C now'' st (snd (txn_take C now' st s1))) = None"
    by (cases "fst (txn_take C now'' st (snd (txn_take C now' st s1)))")
      (auto simp: txn_take_result txn_take_drops)
qed

definition example_txn :: transaction where
  "example_txn = \<lparr>tx_client_id = ''c'', tx_redirect_uri = ''http://localhost:1/'', tx_code_challenge = ''ch'',
     tx_scopes = [], tx_client_state = None, tx_upstream_code_verifier = ''v''\<rparr>"

theorem txn_single_use_witness:
  "fst (txn_take example_crypto 6 ''ab'' (snd (txn_create example_crypto 5 (Some ''ab'') example_txn txn_new)))
     = Some example_txn"
proof -
  have c: "txn_create example_crypto 5 (Some ''ab'') example_txn txn_new =
      (Some ''ab'', fmupd ''ab'' (example_txn, expires_after 5 TRANSACTION_TTL) fmempty)"
    by (simp add: txn_create_def mint_opaque_token_def sweep_check_eq Let_def room_iff txn_new_def MAX_ENTRIES_def)
  have "6 < expires_after 5 TRANSACTION_TTL"
    by (simp add: expires_after_def checked_add_def TRANSACTION_TTL_def duration_defs instant_max_def)
  then show ?thesis using txn_single_use [OF c] c by simp
qed

end
