(* ===== verification/Token_Store.thy ===== *)
theory Token_Store
  imports Bounded_Store
begin

text \<open>
  Proxy access tokens (\<^verbatim>\<open>TokenStore\<close>): the digest of a \<^verbatim>\<open>rup_at_\<close> token maps to the session
  and the client it is bound to.
\<close>

record token_entry =
  te_upstream_id :: string
  te_client_id :: string

type_synonym token_store = "(digest, token_entry \<times> instant) fmap"

definition token_new :: token_store where
  "token_new = fmempty"

definition token_mint ::
    "crypto \<Rightarrow> instant \<Rightarrow> rng \<Rightarrow> string \<Rightarrow> string \<Rightarrow> duration \<Rightarrow> token_store \<Rightarrow>
     (string \<times> digest) option \<times> token_store" where
  "token_mint C now r client_id upstream_id ttl inner =
     (case mint_opaque_token C r ''rup_at_'' of
        None \<Rightarrow> (None, inner)
      | Some token \<Rightarrow>
          let key = digest C token;
              (ok, inner1) = sweep_and_check_capacity now inner key
          in if \<not> ok then (None, inner1)
             else (Some (token, key),
                   fmupd key (\<lparr>te_upstream_id = upstream_id, te_client_id = client_id\<rparr>,
                              expires_after now ttl) inner1))"

definition token_resolve ::
    "crypto \<Rightarrow> instant \<Rightarrow> string \<Rightarrow> token_store \<Rightarrow> token_entry option \<times> token_store" where
  "token_resolve C now token inner =
     (let key = digest C token
      in case fmlookup inner key of
           None \<Rightarrow> (None, inner)
         | Some (entry, expires_at) \<Rightarrow>
             if expires_at \<le> now then (None, fmdrop key inner) else (Some entry, inner))"

definition token_delete_by_digest :: "digest \<Rightarrow> token_store \<Rightarrow> token_store" where
  "token_delete_by_digest d inner = fmdrop d inner"

definition token_take ::
    "crypto \<Rightarrow> string \<Rightarrow> token_store \<Rightarrow> token_entry option \<times> token_store" where
  "token_take C token inner =
     (let key = digest C token in (map_option fst (fmlookup inner key), fmdrop key inner))"

definition token_remove_by_upstream :: "string \<Rightarrow> token_store \<Rightarrow> token_store" where
  "token_remove_by_upstream upstream_id inner =
     retain (\<lambda>_ e. te_upstream_id (fst e) \<noteq> upstream_id) inner"

definition token_live_client_ids :: "instant \<Rightarrow> token_store \<Rightarrow> string fset" where
  "token_live_client_ids now inner =
     (\<lambda>e. te_client_id (fst e)) |`| fmran (retain (\<lambda>_ e. snd e > now) inner)"

section \<open>Lemmas\<close>

definition token_key :: "crypto \<Rightarrow> rng \<times> string \<times> string \<times> duration \<Rightarrow> digest option" where
  "token_key C a = map_option (digest C) (mint_opaque_token C (fst a) ''rup_at_'')"

interpretation tok: capped_store
  "\<lambda>s. s" "\<lambda>now (r, cid, uid, ttl) s. token_mint C now r cid uid ttl s" "token_key C"
  "\<lambda>now (r, cid, uid, ttl). (\<lparr>te_upstream_id = uid, te_client_id = cid\<rparr>, expires_after now ttl)"
  for C
  by unfold_locales
    (auto simp: token_mint_def token_key_def sweep_check_eq Let_def split: option.split)

lemma token_resolve_Some:
  "fst (token_resolve C now t s) = Some e \<longleftrightarrow>
     (\<exists>x. fmlookup s (digest C t) = Some (e, x) \<and> x > now)"
  by (auto simp: token_resolve_def Let_def split: option.splits if_splits)

text \<open>
  What a caller can observe: the live entries at a time. Resolving only drops expired
  entries, so it is the lookup of the observable map and changes nothing observable.
\<close>

lemma token_resolve_obs:
  "fst (token_resolve C now t s) = map_option fst (fmlookup (sweep now s) (digest C t))"
  "sweep now (snd (token_resolve C now t s)) = sweep now s"
  by (auto simp: token_resolve_def Let_def fmlookup_sweep split: option.split
      intro!: fmap_ext)

lemma token_mint_resolve:
  assumes "fst (token_mint C now r cid uid ttl s) = Some (t, d)"
  shows "d = digest C t" and "starts_with t ''rup_at_''"
    and "fmlookup (snd (token_mint C now r cid uid ttl s)) d =
         Some (\<lparr>te_upstream_id = uid, te_client_id = cid\<rparr>, expires_after now ttl)"
  using assms
  by (auto simp: token_mint_def Let_def sweep_check_eq mint_opaque_token_prefix
      split: option.splits if_splits)

lemma token_removed_by_upstream:
  "fst (token_resolve C now t (token_remove_by_upstream uid s)) = Some e \<Longrightarrow> te_upstream_id e \<noteq> uid"
  by (auto simp: token_resolve_Some token_remove_by_upstream_def split: option.splits if_splits)

lemma token_live_client_ids_iff:
  "cid |\<in>| token_live_client_ids now s \<longleftrightarrow>
     (\<exists>k e x. fmlookup s k = Some (e, x) \<and> x > now \<and> te_client_id e = cid)"
  by (force simp: token_live_client_ids_def fmlookup_ran_iff retain_Some
      simp del: fmlookup_retain)

lemma token_resolve_bound: "fmlen (snd (token_resolve C now t s)) \<le> fmlen s"
  by (auto simp: token_resolve_def Let_def fmlen_fmdrop_le split: option.split)

lemma token_remove_bound: "fmlen (token_remove_by_upstream uid s) \<le> fmlen s"
  by (simp add: token_remove_by_upstream_def fmlen_retain_le)

end
