(* ===== verification/Upstream_Store.thy ===== *)
theory Upstream_Store
  imports Bounded_Store
begin

text \<open>
  The upstream token sets this server holds on the users' behalf (\<^verbatim>\<open>UpstreamStore\<close>): one
  entry per session, keyed by an internal id, with its own session deadline.
\<close>

record upstream_token_set =
  us_access :: secret
  us_refresh :: "secret option"
  us_granted_scopes :: "string list"
  us_expires_at :: instant

type_synonym upstream_store = "(string, upstream_token_set \<times> instant) fmap"

definition REFRESH_TTL :: duration where
  "REFRESH_TTL = from_hours 720"

definition upstream_new :: upstream_store where
  "upstream_new = fmempty"

definition session_deadline :: "instant \<Rightarrow> upstream_token_set \<Rightarrow> instant" where
  "session_deadline now ts =
     (if us_refresh ts \<noteq> None then expires_after now REFRESH_TTL else us_expires_at ts)"

definition upstream_insert ::
    "instant \<Rightarrow> rng \<Rightarrow> upstream_token_set \<Rightarrow> upstream_store \<Rightarrow> string option \<times> upstream_store" where
  "upstream_insert now r ts inner =
     (case r of
        None \<Rightarrow> (None, inner)
      | Some bytes \<Rightarrow>
          let uid = hex_bytes bytes;
              deadline = session_deadline now ts;
              (ok, inner1) = sweep_and_check_capacity now inner uid
          in if \<not> ok then (None, inner1) else (Some uid, fmupd uid (ts, deadline) inner1))"

definition upstream_access_token :: "instant \<Rightarrow> string \<Rightarrow> upstream_store \<Rightarrow> secret option" where
  "upstream_access_token now uid inner =
     (case fmlookup inner uid of
        None \<Rightarrow> None
      | Some (ts, deadline) \<Rightarrow> if deadline > now then Some (us_access ts) else None)"

definition upstream_refresh_token :: "instant \<Rightarrow> string \<Rightarrow> upstream_store \<Rightarrow> secret option" where
  "upstream_refresh_token now uid inner =
     (case fmlookup inner uid of
        None \<Rightarrow> None
      | Some (ts, deadline) \<Rightarrow> if deadline \<le> now then None else us_refresh ts)"

definition upstream_granted_scopes :: "instant \<Rightarrow> string \<Rightarrow> upstream_store \<Rightarrow> string list option" where
  "upstream_granted_scopes now uid inner =
     (case fmlookup inner uid of
        None \<Rightarrow> None
      | Some (ts, deadline) \<Rightarrow> if deadline > now then Some (us_granted_scopes ts) else None)"

definition upstream_take ::
    "string \<Rightarrow> upstream_store \<Rightarrow> upstream_token_set option \<times> upstream_store" where
  "upstream_take uid inner = (map_option fst (fmlookup inner uid), fmdrop uid inner)"

text \<open>\<open>Inl ts\<close> is the \<^verbatim>\<open>Err(set)\<close> that hands an unused set back.\<close>

definition upstream_replace ::
    "instant \<Rightarrow> string \<Rightarrow> upstream_token_set \<Rightarrow> upstream_store \<Rightarrow>
     (upstream_token_set + unit) \<times> upstream_store" where
  "upstream_replace now uid ts inner =
     (case fmlookup inner uid of
        Some (existing, deadline) \<Rightarrow>
          if deadline > now then (Inr (), fmupd uid (ts, session_deadline now ts) inner)
          else (Inl ts, inner)
      | None \<Rightarrow> (Inl ts, inner))"

definition upstream_len :: "instant \<Rightarrow> upstream_store \<Rightarrow> nat" where
  "upstream_len now inner = fmlen (retain (\<lambda>_ e. snd e > now) inner)"

text \<open>
  \<^verbatim>\<open>extract_if\<close> returns the removed entries in the map's order; they are a finite map here.
\<close>

definition upstream_sweep_expired ::
    "instant \<Rightarrow> upstream_store \<Rightarrow> (string, upstream_token_set \<times> instant) fmap \<times> upstream_store" where
  "upstream_sweep_expired now inner =
     (retain (\<lambda>_ e. snd e \<le> now) inner, retain (\<lambda>_ e. \<not> snd e \<le> now) inner)"

section \<open>Lemmas\<close>

definition upstream_key :: "rng \<times> upstream_token_set \<Rightarrow> string option" where
  "upstream_key a = map_option hex_bytes (fst a)"

interpretation ups: capped_store
  "\<lambda>s. s" "\<lambda>now a s. upstream_insert now (fst a) (snd a) s" upstream_key
  "\<lambda>now a. (snd a, session_deadline now (snd a))"
  by unfold_locales
    (auto simp: upstream_insert_def upstream_key_def sweep_check_eq Let_def split: option.split)

lemma upstream_access_token_Some:
  "upstream_access_token now uid s = Some a \<longleftrightarrow>
     (\<exists>ts d. fmlookup s uid = Some (ts, d) \<and> d > now \<and> us_access ts = a)"
  by (auto simp: upstream_access_token_def split: option.splits)

lemma upstream_take_lookup [simp]:
  "fmlookup (snd (upstream_take uid s)) uid' = (if uid' = uid then None else fmlookup s uid')"
  by (simp add: upstream_take_def)

lemma upstream_replace_ok:
  "fst (upstream_replace now uid ts s) = Inr () \<longleftrightarrow>
     (\<exists>old d. fmlookup s uid = Some (old, d) \<and> d > now)"
  by (auto simp: upstream_replace_def split: option.splits)

lemma upstream_replace_err: "fst (upstream_replace now uid ts s) = Inl ts' \<Longrightarrow> ts' = ts"
  by (auto simp: upstream_replace_def split: option.splits if_splits)

text \<open>A refresh never brings back a session: the key set of the store does not grow.\<close>

lemma upstream_replace_dom: "fmdom (snd (upstream_replace now uid ts s)) = fmdom s"
  by (auto simp: upstream_replace_def fmlookup_dom_iff split: option.splits)

lemma upstream_replace_bound: "fmlen (snd (upstream_replace now uid ts s)) = fmlen s"
  by (simp add: fmlen_def upstream_replace_dom)

lemma upstream_sweep_partition:
  assumes "upstream_sweep_expired now s = (gone, kept)"
  shows "fmlookup s uid =
    (case fmlookup gone uid of Some e \<Rightarrow> Some e | None \<Rightarrow> fmlookup kept uid)"
    and "kept = sweep now s"
  using assms
  by (auto simp: upstream_sweep_expired_def sweep_def linorder_not_le split: option.splits if_splits)

lemma upstream_sweep_kept: "snd (upstream_sweep_expired now s) = sweep now s"
  by (simp add: upstream_sweep_expired_def sweep_def linorder_not_le)

lemma upstream_len_le: "upstream_len now s \<le> fmlen s"
  by (simp add: upstream_len_def fmlen_retain_le)

end
