(* ===== verification/Pkce.thy ===== *)
theory Pkce
  imports Bounded_Store
begin

text \<open>
  RFC 7636 primitives (\<^verbatim>\<open>oauth/proxy/pkce.rs\<close>): the verifier, its S256 challenge and the
  constant-time comparison on 8-bit words.
\<close>

unbundle bit_operations_syntax

definition generate_verifier :: "crypto \<Rightarrow> rng \<Rightarrow> string option" where
  "generate_verifier C r = (case r of None \<Rightarrow> None | Some bytes \<Rightarrow> Some (base64url C bytes))"

definition challenge_for :: "crypto \<Rightarrow> string \<Rightarrow> string" where
  "challenge_for C verifier = base64url C (sha256 C verifier)"

definition as_bytes :: "string \<Rightarrow> 8 word list" where
  "as_bytes s = map (\<lambda>c. of_nat (byte_of c)) s"

text \<open>The loop \<^verbatim>\<open>for (x, y) in a.iter().zip(b.iter())\<close> with its accumulator.\<close>

fun ct_diff :: "8 word \<Rightarrow> 8 word list \<Rightarrow> 8 word list \<Rightarrow> 8 word" where
  "ct_diff diff (x # xs) (y # ys) = ct_diff (diff OR (x XOR y)) xs ys"
| "ct_diff diff _ _ = diff"

definition constant_time_eq :: "8 word list \<Rightarrow> 8 word list \<Rightarrow> bool" where
  "constant_time_eq a b = (if length a \<noteq> length b then False else ct_diff 0 a b = 0)"

definition pkce_verify :: "crypto \<Rightarrow> string \<Rightarrow> string \<Rightarrow> bool" where
  "pkce_verify C code_challenge verifier =
     constant_time_eq (as_bytes (challenge_for C verifier)) (as_bytes code_challenge)"

section \<open>Lemmas\<close>

lemma or_xor_eq_0_iff: "(d OR (x XOR y) = (0 :: 8 word)) \<longleftrightarrow> d = 0 \<and> x = y"
proof
  assume "d OR (x XOR y) = 0"
  then have "d = 0" and "x XOR y = 0" by (simp_all add: or_eq_0_iff)
  then show "d = 0 \<and> x = y"
    by (metis xor_self_eq xor.assoc xor.right_neutral)
qed simp

lemma ct_diff_eq_0:
  "length a = length b \<Longrightarrow> ct_diff d a b = 0 \<longleftrightarrow> d = 0 \<and> a = b"
  by (induction d a b rule: ct_diff.induct) (auto simp: or_xor_eq_0_iff)

lemma constant_time_eq_iff: "constant_time_eq a b \<longleftrightarrow> a = b"
  by (auto simp: constant_time_eq_def ct_diff_eq_0)

lemma as_bytes_inj: "as_bytes a = as_bytes b \<longleftrightarrow> a = b"
proof -
  have "inj (\<lambda>c. of_nat (byte_of c) :: 8 word)"
  proof (rule injI)
    fix x y :: char
    assume "(of_nat (byte_of x) :: 8 word) = of_nat (byte_of y)"
    then have "unat (of_nat (byte_of x) :: 8 word) = unat (of_nat (byte_of y) :: 8 word)" by simp
    then have "byte_of x = byte_of y"
      using byte_of_less [of x] byte_of_less [of y] by (simp add: unat_of_nat)
    then show "x = y" by (simp add: byte_of_def)
  qed
  then show ?thesis by (auto simp: as_bytes_def inj_map_eq_map)
qed

lemma pkce_verify_eq: "pkce_verify C challenge verifier \<longleftrightarrow> challenge = challenge_for C verifier"
  by (auto simp: pkce_verify_def constant_time_eq_iff as_bytes_inj)

text \<open>
  The branch-free comparison loop decides equality of byte strings, and the verifier built
  on it accepts exactly the S256 equation of RFC 7636, whatever hash and encoding are plugged
  in: a verifier passes if and only if its challenge is the stored one.
\<close>

theorem pkce_constant_time_correct:
  "(constant_time_eq a b \<longleftrightarrow> a = b) \<and>
   (pkce_verify C code_challenge verifier \<longleftrightarrow> code_challenge = base64url C (sha256 C verifier))"
  by (simp add: constant_time_eq_iff pkce_verify_eq challenge_for_def)

end
