(* ===== verification/Code_Store.thy ===== *)
theory Code_Store
  imports Upstream_Store Pkce
begin

text \<open>
  Authorization codes (\<^verbatim>\<open>CodeStore\<close>): minting, the ordered checks of a redemption and the
  record a redemption leaves behind for replay containment. The three maps have a lock each,
  so a redemption is several critical sections; they are separate definitions here
  (\<open>redeem_peek\<close>, \<open>redeem_replay\<close>, \<open>redeem_drop_pending\<close>, \<open>redeem_take_upstream\<close>) and \<open>code_redeem\<close> runs them in order.
  The last part lets any number of redemptions interleave between those sections.
\<close>

definition CODE_TTL :: duration where
  "CODE_TTL = from_mins 1"

record pending_code =
  pc_client_id :: string
  pc_redirect_uri :: string
  pc_code_challenge :: string

record consumed_record =
  cc_minted_token_digest :: digest
  cc_minted_refresh_digest :: "digest option"
  cc_upstream_id :: string

datatype redeem_outcome =
    RedeemInvalid
  | RedeemMismatch
  | RedeemReplayed digest "digest option" string
  | RedeemOk upstream_token_set

record code_store =
  cs_pending :: "(digest, pending_code \<times> instant) fmap"
  cs_upstream :: "(digest, upstream_token_set) fmap"
  cs_consumed :: "(digest, consumed_record \<times> instant) fmap"

definition code_new :: code_store where
  "code_new = \<lparr>cs_pending = fmempty, cs_upstream = fmempty, cs_consumed = fmempty\<rparr>"

definition code_mint ::
    "crypto \<Rightarrow> instant \<Rightarrow> rng \<Rightarrow> string \<Rightarrow> string \<Rightarrow> string \<Rightarrow> upstream_token_set \<Rightarrow> code_store \<Rightarrow>
     string option \<times> code_store" where
  "code_mint C now r client_id redirect_uri code_challenge upstream s =
     (case mint_opaque_token C r ''rup_ac_'' of
        None \<Rightarrow> (None, s)
      | Some code \<Rightarrow>
          let key = digest C code;
              pending_entry = \<lparr>pc_client_id = client_id, pc_redirect_uri = redirect_uri,
                               pc_code_challenge = code_challenge\<rparr>;
              (ok, pending1) = sweep_and_check_capacity now (cs_pending s) key
          in if \<not> ok then (None, s\<lparr>cs_pending := pending1\<rparr>)
             else (Some code,
                   s\<lparr>cs_upstream := fmupd key upstream (cs_upstream s),
                     cs_pending := fmupd key (pending_entry, expires_after now CODE_TTL) pending1\<rparr>))"

text \<open>First critical section: read the pending entry, dropping it if it has expired.\<close>

definition redeem_peek ::
    "crypto \<Rightarrow> instant \<Rightarrow> string \<Rightarrow> code_store \<Rightarrow> pending_code option \<times> code_store" where
  "redeem_peek C now code s =
     (let key = digest C code
      in case fmlookup (cs_pending s) key of
           None \<Rightarrow> (None, s)
         | Some (entry, expires_at) \<Rightarrow>
             if expires_at \<le> now then (None, s\<lparr>cs_pending := fmdrop key (cs_pending s)\<rparr>)
             else (Some entry, s))"

text \<open>No pending entry: a code consumed within its TTL is a replay.\<close>

definition redeem_replay :: "crypto \<Rightarrow> instant \<Rightarrow> string \<Rightarrow> code_store \<Rightarrow> redeem_outcome" where
  "redeem_replay C now code s =
     (case fmlookup (cs_consumed s) (digest C code) of
        Some (rcd, expires_at) \<Rightarrow>
          if expires_at > now
          then RedeemReplayed (cc_minted_token_digest rcd) (cc_minted_refresh_digest rcd)
                 (cc_upstream_id rcd)
          else RedeemInvalid
      | None \<Rightarrow> RedeemInvalid)"

definition redeem_matches :: "crypto \<Rightarrow> pending_code \<Rightarrow> string \<Rightarrow> string \<Rightarrow> string \<Rightarrow> bool" where
  "redeem_matches C entry client_id redirect_uri code_verifier \<longleftrightarrow>
     \<not> (pc_client_id entry \<noteq> client_id \<or> pc_redirect_uri entry \<noteq> redirect_uri \<or>
        \<not> pkce_verify C (pc_code_challenge entry) code_verifier)"

text \<open>Two more critical sections: remove the pending half, then the upstream half, which decides.\<close>

definition redeem_drop_pending :: "crypto \<Rightarrow> string \<Rightarrow> code_store \<Rightarrow> code_store" where
  "redeem_drop_pending C code s = s\<lparr>cs_pending := fmdrop (digest C code) (cs_pending s)\<rparr>"

definition redeem_take_upstream ::
    "crypto \<Rightarrow> string \<Rightarrow> code_store \<Rightarrow> redeem_outcome \<times> code_store" where
  "redeem_take_upstream C code s =
     (let key = digest C code
      in case fmlookup (cs_upstream s) key of
           None \<Rightarrow> (RedeemInvalid, s)
         | Some upstream \<Rightarrow> (RedeemOk upstream, s\<lparr>cs_upstream := fmdrop key (cs_upstream s)\<rparr>))"

definition code_redeem ::
    "crypto \<Rightarrow> instant \<Rightarrow> string \<Rightarrow> string \<Rightarrow> string \<Rightarrow> string \<Rightarrow> code_store \<Rightarrow>
     redeem_outcome \<times> code_store" where
  "code_redeem C now code client_id redirect_uri code_verifier s =
     (case redeem_peek C now code s of
        (None, s1) \<Rightarrow> (redeem_replay C now code s1, s1)
      | (Some entry, s1) \<Rightarrow>
          if \<not> redeem_matches C entry client_id redirect_uri code_verifier
          then (RedeemMismatch, s1)
          else redeem_take_upstream C code (redeem_drop_pending C code s1))"

definition code_mark_consumed ::
    "crypto \<Rightarrow> instant \<Rightarrow> string \<Rightarrow> digest \<Rightarrow> digest option \<Rightarrow> string \<Rightarrow> code_store \<Rightarrow> code_store" where
  "code_mark_consumed C now code minted_token_digest minted_refresh_digest upstream_id s =
     (let key = digest C code;
          (ok, consumed1) = sweep_and_check_capacity now (cs_consumed s) key
      in if ok
         then s\<lparr>cs_consumed :=
                  fmupd key (\<lparr>cc_minted_token_digest = minted_token_digest,
                              cc_minted_refresh_digest = minted_refresh_digest,
                              cc_upstream_id = upstream_id\<rparr>,
                             expires_after now CODE_TTL) consumed1\<rparr>
         else s\<lparr>cs_consumed := consumed1\<rparr>)"

section \<open>Interfaces\<close>

type_synonym mint_args = "rng \<times> string \<times> string \<times> string \<times> upstream_token_set"

definition code_key :: "crypto \<Rightarrow> mint_args \<Rightarrow> digest option" where
  "code_key C a = map_option (digest C) (mint_opaque_token C (fst a) ''rup_ac_'')"

interpretation pend: capped_store
  cs_pending "\<lambda>now (r, cid, uri, ch, up) s. code_mint C now r cid uri ch up s" "code_key C"
  "\<lambda>now (r, cid, uri, ch, up). (\<lparr>pc_client_id = cid, pc_redirect_uri = uri, pc_code_challenge = ch\<rparr>,
     expires_after now CODE_TTL)"
  for C
  by unfold_locales
    (auto simp: code_mint_def code_key_def sweep_check_eq Let_def split: option.split)

interpretation cons: capped_map
  cs_consumed "\<lambda>now (code, td, rd, uid) s. code_mark_consumed C now code td rd uid s"
  "\<lambda>(code, td, rd, uid). Some (digest C code)"
  "\<lambda>now (code, td, rd, uid). (\<lparr>cc_minted_token_digest = td, cc_minted_refresh_digest = rd,
     cc_upstream_id = uid\<rparr>, expires_after now CODE_TTL)"
  for C
  by unfold_locales (auto simp: code_mark_consumed_def sweep_check_eq Let_def)

section \<open>Redemption\<close>

lemma redeem_peek_Some:
  "redeem_peek C now code s = (Some e, s') \<longleftrightarrow>
     s' = s \<and> (\<exists>x. fmlookup (cs_pending s) (digest C code) = Some (e, x) \<and> x > now)"
  by (auto simp: redeem_peek_def Let_def split: option.splits if_splits)

lemma redeem_peek_None:
  "redeem_peek C now code s = (None, s') \<Longrightarrow>
     cs_upstream s' = cs_upstream s \<and> cs_consumed s' = cs_consumed s \<and>
     cs_pending s' = (if digest C code |\<in>| fmdom (cs_pending s)
                      then fmdrop (digest C code) (cs_pending s) else cs_pending s) \<and>
     fmlookup (sweep now (cs_pending s)) (digest C code) = None"
  by (auto simp: redeem_peek_def Let_def fmlookup_sweep fmlookup_dom_iff split: option.splits if_splits)

lemma code_redeem_Ok_iff:
  "fst (code_redeem C now code cid uri v s) = RedeemOk up \<longleftrightarrow>
     (\<exists>e x. fmlookup (cs_pending s) (digest C code) = Some (e, x) \<and> x > now \<and>
        pc_client_id e = cid \<and> pc_redirect_uri e = uri \<and>
        pc_code_challenge e = challenge_for C v \<and>
        fmlookup (cs_upstream s) (digest C code) = Some up)"
  by (auto simp: code_redeem_def redeem_peek_def redeem_matches_def redeem_drop_pending_def redeem_take_upstream_def
      redeem_replay_def Let_def pkce_verify_eq split: option.splits if_splits)

lemma code_redeem_Ok_state:
  assumes "code_redeem C now code cid uri v s = (RedeemOk up, s')"
  shows "s' = s\<lparr>cs_pending := fmdrop (digest C code) (cs_pending s),
                cs_upstream := fmdrop (digest C code) (cs_upstream s)\<rparr>"
  using assms
  by (auto simp: code_redeem_def redeem_peek_def redeem_drop_pending_def redeem_take_upstream_def redeem_replay_def Let_def
      split: option.splits if_splits)

lemma code_redeem_Mismatch_state:
  "code_redeem C now code cid uri v s = (RedeemMismatch, s') \<Longrightarrow> s' = s"
  by (auto simp: code_redeem_def redeem_peek_def redeem_drop_pending_def redeem_take_upstream_def redeem_replay_def Let_def
      split: option.splits if_splits)

lemma code_redeem_Replayed_iff:
  "fst (code_redeem C now code cid uri v s) = RedeemReplayed td rd uid \<longleftrightarrow>
     fmlookup (sweep now (cs_pending s)) (digest C code) = None \<and>
     (\<exists>x. fmlookup (cs_consumed s) (digest C code) =
            Some (\<lparr>cc_minted_token_digest = td, cc_minted_refresh_digest = rd, cc_upstream_id = uid\<rparr>, x)
          \<and> x > now)"
  by (auto simp: code_redeem_def redeem_peek_def redeem_drop_pending_def redeem_take_upstream_def redeem_replay_def Let_def
      fmlookup_sweep split: option.splits if_splits)

lemma mark_consumed_lookup:
  "room now (cs_consumed s) (digest C code) \<Longrightarrow>
   fmlookup (cs_consumed (code_mark_consumed C now code td rd uid s)) (digest C code) =
     Some (\<lparr>cc_minted_token_digest = td, cc_minted_refresh_digest = rd, cc_upstream_id = uid\<rparr>,
           expires_after now CODE_TTL)"
  by (simp add: code_mark_consumed_def sweep_check_eq Let_def)

lemma mark_consumed_frame [simp]:
  "cs_pending (code_mark_consumed C now code td rd uid s) = cs_pending s"
  "cs_upstream (code_mark_consumed C now code td rd uid s) = cs_upstream s"
  by (auto simp: code_mark_consumed_def Let_def split: prod.split)

text \<open>
  The pairing invariant: a pending code always has its upstream half, so the defensive
  \<open>RedeemInvalid\<close> of the last section is never taken by a redemption that runs alone.
\<close>

definition code_inv :: "code_store \<Rightarrow> bool" where
  "code_inv s \<longleftrightarrow> fmdom (cs_pending s) |\<subseteq>| fmdom (cs_upstream s) \<and>
     fmlen (cs_pending s) \<le> MAX_ENTRIES \<and> fmlen (cs_consumed s) \<le> MAX_ENTRIES"

lemma fmdom_sweep_subset: "fmdom (sweep now m) |\<subseteq>| fmdom m"
  unfolding sweep_def by (rule fmdom_retain_subset)

lemma code_inv_new: "code_inv code_new"
  by (simp add: code_inv_def code_new_def)

lemma code_mint_inv:
  assumes "code_inv s"
  shows "code_inv (snd (code_mint C now r cid uri ch up s))"
proof -
  have "fmlen (cs_pending (snd (code_mint C now r cid uri ch up s))) \<le> MAX_ENTRIES"
    using pend.put_bound [where C = C and s = s and now = now and a = "(r, cid, uri, ch, up)"] assms by (simp add: code_inv_def)
  then show ?thesis
    using assms fmdom_sweep_subset [of now "cs_pending s"]
    by (auto simp: code_inv_def code_mint_def sweep_check_eq Let_def split: option.split)
qed

lemma code_redeem_inv:
  assumes "code_inv s" shows "code_inv (snd (code_redeem C now code cid uri v s))"
  using assms
  by (auto simp: code_inv_def code_redeem_def redeem_peek_def redeem_drop_pending_def
      redeem_take_upstream_def Let_def order_trans [OF fmlen_fmdrop_le] split: option.split)

lemma code_mark_consumed_inv:
  assumes "code_inv s" shows "code_inv (code_mark_consumed C now code td rd uid s)"
  using assms cons.put_bound [where C = C and s = s and now = now and a = "(code, td, rd, uid)"]
  by (simp add: code_inv_def)

section \<open>Interleaved redemptions\<close>

text \<open>
  Each request is a thread: it peeks, compares, drops the pending half and takes the upstream
  half, and other threads may run between any two of these. \<open>rs_used\<close> remembers the keys
  minted so far; a mint draws a fresh one.
\<close>

datatype redeem_thread =
    TIdle
  | TMissed string
  | TChecked string
  | TDropped string
  | TDone string redeem_outcome

record redeem_sys =
  rs_store :: code_store
  rs_threads :: "nat \<Rightarrow> redeem_thread"
  rs_used :: "digest set"

inductive redeem_step :: "crypto \<Rightarrow> redeem_sys \<Rightarrow> redeem_sys \<Rightarrow> bool" for C where
  step_mint: "code_mint C now r cid uri ch up (rs_store s) = (Some code, st) \<Longrightarrow>
    digest C code \<notin> rs_used s \<Longrightarrow>
    redeem_step C s (s\<lparr>rs_store := st, rs_used := insert (digest C code) (rs_used s)\<rparr>)"
| step_mint_refused: "code_mint C now r cid uri ch up (rs_store s) = (None, st) \<Longrightarrow>
    redeem_step C s (s\<lparr>rs_store := st\<rparr>)"
| step_miss: "rs_threads s t = TIdle \<Longrightarrow> redeem_peek C now code (rs_store s) = (None, st) \<Longrightarrow>
    redeem_step C s (s\<lparr>rs_store := st, rs_threads := (rs_threads s)(t := TMissed code)\<rparr>)"
| step_replay: "rs_threads s t = TMissed code \<Longrightarrow>
    redeem_step C s (s\<lparr>rs_threads := (rs_threads s)
      (t := TDone code (redeem_replay C now code (rs_store s)))\<rparr>)"
| step_mismatch: "rs_threads s t = TIdle \<Longrightarrow> redeem_peek C now code (rs_store s) = (Some e, st) \<Longrightarrow>
    \<not> redeem_matches C e cid uri v \<Longrightarrow>
    redeem_step C s (s\<lparr>rs_store := st, rs_threads := (rs_threads s)(t := TDone code RedeemMismatch)\<rparr>)"
| step_check: "rs_threads s t = TIdle \<Longrightarrow> redeem_peek C now code (rs_store s) = (Some e, st) \<Longrightarrow>
    redeem_matches C e cid uri v \<Longrightarrow>
    redeem_step C s (s\<lparr>rs_store := st, rs_threads := (rs_threads s)(t := TChecked code)\<rparr>)"
| step_drop: "rs_threads s t = TChecked code \<Longrightarrow>
    redeem_step C s (s\<lparr>rs_store := redeem_drop_pending C code (rs_store s),
      rs_threads := (rs_threads s)(t := TDropped code)\<rparr>)"
| step_take: "rs_threads s t = TDropped code \<Longrightarrow>
    redeem_take_upstream C code (rs_store s) = (oc, st) \<Longrightarrow>
    redeem_step C s (s\<lparr>rs_store := st, rs_threads := (rs_threads s)(t := TDone code oc)\<rparr>)"
| step_mark: "redeem_step C s (s\<lparr>rs_store := code_mark_consumed C now code td rd uid (rs_store s)\<rparr>)"

inductive redeem_reachable :: "crypto \<Rightarrow> redeem_sys \<Rightarrow> bool" for C where
  reach_init: "redeem_reachable C \<lparr>rs_store = code_new, rs_threads = (\<lambda>_. TIdle), rs_used = {}\<rparr>"
| reach_step: "redeem_reachable C s \<Longrightarrow> redeem_step C s s' \<Longrightarrow> redeem_reachable C s'"

text \<open>A finished success has used up the upstream half of its key, and no other thread has.\<close>

definition thread_took :: "crypto \<Rightarrow> redeem_thread \<Rightarrow> digest \<Rightarrow> bool" where
  "thread_took C th k \<longleftrightarrow> (\<exists>code up. th = TDone code (RedeemOk up) \<and> digest C code = k)"

definition redeem_sys_inv :: "crypto \<Rightarrow> redeem_sys \<Rightarrow> bool" where
  "redeem_sys_inv C s \<longleftrightarrow>
     fmdom' (cs_upstream (rs_store s)) \<subseteq> rs_used s \<and>
     (\<forall>t k. thread_took C (rs_threads s t) k \<longrightarrow>
        k \<in> rs_used s \<and> k \<notin> fmdom' (cs_upstream (rs_store s))) \<and>
     (\<forall>t t' k. thread_took C (rs_threads s t) k \<longrightarrow> thread_took C (rs_threads s t') k \<longrightarrow> t = t')"

lemma thread_took_simps [simp]:
  "\<not> thread_took C TIdle k" "\<not> thread_took C (TMissed code) k" "\<not> thread_took C (TChecked code) k"
  "\<not> thread_took C (TDropped code) k" "\<not> thread_took C (TDone code RedeemInvalid) k"
  "\<not> thread_took C (TDone code RedeemMismatch) k"
  "thread_took C (TDone code (RedeemOk up)) k \<longleftrightarrow> digest C code = k"
  by (auto simp: thread_took_def)

lemma thread_took_replay [simp]: "\<not> thread_took C (TDone code (redeem_replay C now code' s)) k"
  by (simp add: thread_took_def redeem_replay_def split: option.split)

lemma code_mint_upstream:
  "code_mint C now r cid uri ch up s = (Some code, s') \<Longrightarrow>
     cs_upstream s' = fmupd (digest C code) up (cs_upstream s)"
  "code_mint C now r cid uri ch up s = (None, s') \<Longrightarrow> cs_upstream s' = cs_upstream s"
  by (auto simp: code_mint_def sweep_check_eq Let_def split: option.splits if_splits)

lemma code_mint_lookup:
  "code_mint C now r cid uri ch up s = (Some code, s') \<Longrightarrow>
     fmlookup (cs_pending s') (digest C code) =
       Some (\<lparr>pc_client_id = cid, pc_redirect_uri = uri, pc_code_challenge = ch\<rparr>, expires_after now CODE_TTL) \<and>
     fmlookup (cs_upstream s') (digest C code) = Some up"
  by (auto simp: code_mint_def sweep_check_eq Let_def split: option.splits if_splits)

lemma redeem_peek_upstream: "redeem_peek C now code s = (e, s') \<Longrightarrow> cs_upstream s' = cs_upstream s"
  by (auto simp: redeem_peek_def Let_def split: option.splits if_splits)

lemma redeem_drop_pending_upstream [simp]: "cs_upstream (redeem_drop_pending C code s) = cs_upstream s"
  by (simp add: redeem_drop_pending_def)

lemma redeem_take_upstream_cases:
  assumes "redeem_take_upstream C code s = (oc, s')"
  obtains (Absent) "oc = RedeemInvalid" "s' = s" "digest C code \<notin> fmdom' (cs_upstream s)"
  | (Taken) up where "oc = RedeemOk up" "digest C code \<in> fmdom' (cs_upstream s)"
      "cs_upstream s' = fmdrop (digest C code) (cs_upstream s)"
  using assms
  by (auto simp: redeem_take_upstream_def Let_def fmlookup_dom'_iff split: option.splits)

lemma redeem_step_inv: "redeem_step C s s' \<Longrightarrow> redeem_sys_inv C s \<Longrightarrow> redeem_sys_inv C s'"
proof (induction rule: redeem_step.induct)
  case (step_mint now r cid uri ch up s code st)
  then show ?case
    by (auto simp: redeem_sys_inv_def code_mint_upstream(1) [OF step_mint(1)])
next
  case (step_mint_refused now r cid uri ch up s st)
  then show ?case by (simp add: redeem_sys_inv_def code_mint_upstream(2) [OF step_mint_refused(1)])
next
  case (step_miss s t now code st)
  then show ?case by (auto simp: redeem_sys_inv_def redeem_peek_upstream [OF step_miss(2)])
next
  case (step_replay s t code now)
  then show ?case by (auto simp: redeem_sys_inv_def)
next
  case (step_mismatch s t now code e st cid uri v)
  then show ?case by (auto simp: redeem_sys_inv_def redeem_peek_upstream [OF step_mismatch(2)])
next
  case (step_check s t now code e st cid uri v)
  then show ?case by (auto simp: redeem_sys_inv_def redeem_peek_upstream [OF step_check(2)])
next
  case (step_drop s t code)
  then show ?case by (auto simp: redeem_sys_inv_def)
next
  case (step_take s t code oc st)
  from step_take(2) show ?case
  proof (cases rule: redeem_take_upstream_cases)
    case Absent
    with step_take show ?thesis by (auto simp: redeem_sys_inv_def)
  next
    case (Taken up)
    with step_take show ?thesis by (auto simp: redeem_sys_inv_def)
  qed
next
  case (step_mark s now code td rd uid)
  then show ?case by (simp add: redeem_sys_inv_def)
qed

lemma redeem_reachable_inv: "redeem_reachable C s \<Longrightarrow> redeem_sys_inv C s"
proof (induction rule: redeem_reachable.induct)
  case reach_init
  show ?case by (simp add: redeem_sys_inv_def code_new_def)
next
  case (reach_step s s')
  then show ?case by (blast intro: redeem_step_inv)
qed

section \<open>Abandoned codes\<close>

text \<open>Codes minted one \<open>CODE_TTL\<close> apart and never redeemed.\<close>

fun abandon :: "crypto \<Rightarrow> upstream_token_set \<Rightarrow> instant \<Rightarrow> string list \<Rightarrow> code_store \<Rightarrow> code_store" where
  "abandon C up t [] s = s"
| "abandon C up t (b # bs) s =
     abandon C up (t + CODE_TTL) bs (snd (code_mint C t (Some b) [] [] [] up s))"

definition all_expired :: "instant \<Rightarrow> ('k, 'v \<times> instant) fmap \<Rightarrow> bool" where
  "all_expired t m \<longleftrightarrow> (\<forall>k e. fmlookup m k = Some e \<longrightarrow> snd e \<le> t)"

lemma sweep_all_expired: "all_expired t m \<Longrightarrow> sweep t m = fmempty"
  by (rule fmap_ext) (fastforce simp: all_expired_def fmlookup_sweep split: option.splits)

lemma code_mint_abandoned:
  fixes C up b
  assumes "all_expired t (cs_pending s)"
  defines "s' \<equiv> snd (code_mint C t (Some b) [] [] [] up s)"
  shows "cs_upstream s' = fmupd (digest C (''rup_ac_'' @ base64url C b)) up (cs_upstream s)"
    and "all_expired (t + CODE_TTL) (cs_pending s')" and "fmlen (cs_pending s') \<le> 1"
proof -
  have sw: "sweep t (cs_pending s) = fmempty" using assms(1) by (rule sweep_all_expired)
  have rm: "room t (cs_pending s) k" for k by (simp add: room_iff sw MAX_ENTRIES_def)
  have s': "s' = s\<lparr>cs_upstream := fmupd (digest C (''rup_ac_'' @ base64url C b)) up (cs_upstream s),
      cs_pending := fmupd (digest C (''rup_ac_'' @ base64url C b))
        (\<lparr>pc_client_id = [], pc_redirect_uri = [], pc_code_challenge = []\<rparr>, expires_after t CODE_TTL)
        fmempty\<rparr>"
    by (simp add: s'_def code_mint_def mint_opaque_token_def sweep_check_eq Let_def rm sw)
  show "cs_upstream s' = fmupd (digest C (''rup_ac_'' @ base64url C b)) up (cs_upstream s)"
    by (simp add: s')
  show "all_expired (t + CODE_TTL) (cs_pending s')"
    using expires_after_le by (simp add: s' all_expired_def)
  show "fmlen (cs_pending s') \<le> 1"
    using fmlen_fmupd_le [of _ _ fmempty] by (simp add: s')
qed

lemma abandon_keeps_all:
  assumes "inj (sha256 C)" and "inj (base64url C)" and "distinct bs"
    and "all_expired t (cs_pending s)" and "fmlen (cs_pending s) \<le> 1"
    and "\<forall>b \<in> set bs. digest C (''rup_ac_'' @ base64url C b) |\<notin>| fmdom (cs_upstream s)"
  shows "fmlen (cs_upstream (abandon C up t bs s)) = fmlen (cs_upstream s) + length bs \<and>
         fmlen (cs_pending (abandon C up t bs s)) \<le> 1"
  using assms(3-)
proof (induction bs arbitrary: t s)
  case Nil
  then show ?case by simp
next
  case (Cons b bs)
  let ?s = "snd (code_mint C t (Some b) [] [] [] up s)"
  note m = code_mint_abandoned [OF Cons.prems(2), where C = C and b = b and up = up]
  have fresh: "digest C (''rup_ac_'' @ base64url C x) \<noteq> digest C (''rup_ac_'' @ base64url C b)"
    if "x \<in> set bs" for x
    using that Cons.prems(1) assms(1,2) by (auto simp: digest_def dest: injD)
  have len: "fmlen (cs_upstream ?s) = Suc (fmlen (cs_upstream s))"
    using Cons.prems(4) by (simp add: m(1) fmlen_fmupd_new)
  have "fmlen (cs_upstream (abandon C up (t + CODE_TTL) bs ?s)) = fmlen (cs_upstream ?s) + length bs \<and>
        fmlen (cs_pending (abandon C up (t + CODE_TTL) bs ?s)) \<le> 1"
    using Cons.prems(1,4) fresh by (intro Cons.IH m(2,3)) (auto simp: m(1))
  then show ?case using len by simp
qed

section \<open>Properties\<close>

text \<open>
  Redemption of an authorization code. It succeeds exactly when the code is pending and
  unexpired, the client and the redirect URI are the ones it was minted for, the verifier solves
  the stored S256 challenge and the upstream half is there. A mismatch leaves the store as it
  was, so that the legitimate client can still redeem. After a success no redemption of that code
  succeeds again, whoever asks and whenever.
\<close>

theorem code_redeem_exact:
  "(fst (code_redeem C now code cid uri v s) = RedeemOk up \<longleftrightarrow>
      (\<exists>e x. fmlookup (cs_pending s) (digest C code) = Some (e, x) \<and> now < x \<and>
         pc_client_id e = cid \<and> pc_redirect_uri e = uri \<and>
         pc_code_challenge e = base64url C (sha256 C v) \<and>
         fmlookup (cs_upstream s) (digest C code) = Some up)) \<and>
   (code_redeem C now code cid uri v s = (RedeemMismatch, s') \<longrightarrow> s' = s) \<and>
   (code_redeem C now code cid uri v s = (RedeemOk up, s') \<longrightarrow>
      fst (code_redeem C now' code cid' uri' v' s') \<noteq> RedeemOk up')"
proof (intro conjI impI)
  show "fst (code_redeem C now code cid uri v s) = RedeemOk up \<longleftrightarrow>
      (\<exists>e x. fmlookup (cs_pending s) (digest C code) = Some (e, x) \<and> now < x \<and>
         pc_client_id e = cid \<and> pc_redirect_uri e = uri \<and>
         pc_code_challenge e = base64url C (sha256 C v) \<and>
         fmlookup (cs_upstream s) (digest C code) = Some up)"
    by (simp add: code_redeem_Ok_iff challenge_for_def)
  show "s' = s" if "code_redeem C now code cid uri v s = (RedeemMismatch, s')"
    using that by (rule code_redeem_Mismatch_state)
  show "fst (code_redeem C now' code cid' uri' v' s') \<noteq> RedeemOk up'"
    if "code_redeem C now code cid uri v s = (RedeemOk up, s')"
    using code_redeem_Ok_state [OF that] by (simp add: code_redeem_Ok_iff)
qed

definition example_set :: upstream_token_set where
  "example_set = \<lparr>us_access = ''ua'', us_refresh = Some ''ur'', us_granted_scopes = [''view_issues''],
     us_expires_at = from_secs 3600\<rparr>"

definition example_codes :: code_store where
  "example_codes = \<lparr>cs_pending = fmupd ''rup_ac_k'' (\<lparr>pc_client_id = ''c'', pc_redirect_uri = ''u'',
       pc_code_challenge = ''v''\<rparr>, from_mins 1) fmempty,
     cs_upstream = fmupd ''rup_ac_k'' example_set fmempty, cs_consumed = fmempty\<rparr>"

theorem code_redeem_exact_witness:
  "code_redeem example_crypto 0 ''rup_ac_k'' ''c'' ''u'' ''v'' example_codes = (RedeemOk example_set, code_new) \<and>
   code_redeem example_crypto 0 ''rup_ac_k'' ''c'' ''u'' ''wrong'' example_codes = (RedeemMismatch, example_codes) \<and>
   fst (code_redeem example_crypto 0 ''rup_ac_k'' ''c'' ''u'' ''v'' code_new) \<noteq> RedeemOk example_set"
proof -
  have ok: "code_redeem example_crypto 0 ''rup_ac_k'' ''c'' ''u'' ''v'' example_codes =
      (RedeemOk example_set, code_new)"
    by (simp add: code_redeem_def redeem_peek_def redeem_matches_def redeem_drop_pending_def
        redeem_take_upstream_def pkce_verify_eq challenge_for_def example_codes_def code_new_def
        duration_defs Let_def)
  have mm: "code_redeem example_crypto 0 ''rup_ac_k'' ''c'' ''u'' ''wrong'' example_codes =
      (RedeemMismatch, example_codes)"
    by (simp add: code_redeem_def redeem_peek_def redeem_matches_def
        pkce_verify_eq challenge_for_def example_codes_def duration_defs Let_def)
  show ?thesis
    using ok mm code_redeem_exact [of example_crypto 0 "''rup_ac_k''" "''c''" "''u''" "''v''" example_codes
      example_set code_new] by blast
qed

text \<open>
  C2. Concurrent redemptions. Whatever the interleaving of any number of redemption requests,
  mints and consumption records, at most one request ever comes back with success for a given
  code, although each redemption releases its locks between the check and the removal.
\<close>

theorem code_redeemed_at_most_once:
  assumes "redeem_reachable C s"
    and "rs_threads s t = TDone code (RedeemOk up)" and "rs_threads s t' = TDone code' (RedeemOk up')"
    and "digest C code = digest C code'"
  shows "t = t'"
proof -
  have "thread_took C (rs_threads s t) (digest C code)" "thread_took C (rs_threads s t') (digest C code)"
    using assms(2-4) by simp_all
  then show ?thesis
    using redeem_reachable_inv [OF assms(1)] unfolding redeem_sys_inv_def by blast
qed

text \<open>A run of mint, check, drop and take; the thread that took the code is the only one.\<close>

definition example_minted :: code_store where
  "example_minted = snd (code_mint example_crypto 0 (Some ''k'') ''c'' ''u'' ''v'' example_set code_new)"

lemma example_minted: "example_minted = example_codes"
  and example_mint: "code_mint example_crypto 0 (Some ''k'') ''c'' ''u'' ''v'' example_set code_new =
    (Some ''rup_ac_k'', example_minted)"
  by (simp_all add: example_minted_def example_codes_def code_mint_def mint_opaque_token_def
      sweep_check_eq room_iff MAX_ENTRIES_def code_new_def expires_after_def checked_add_def CODE_TTL_def
      duration_defs instant_max_def Let_def)

definition example_run_end :: redeem_sys where
  "example_run_end = \<lparr>rs_store = code_new, rs_threads = (\<lambda>_. TIdle)(7 := TDone ''rup_ac_k'' (RedeemOk example_set)),
     rs_used = {''rup_ac_k''}\<rparr>"

lemma example_run: "redeem_reachable example_crypto example_run_end"
proof -
  let ?C = example_crypto and ?k = "''rup_ac_k''"
  let ?e = "\<lparr>pc_client_id = ''c'', pc_redirect_uri = ''u'', pc_code_challenge = ''v''\<rparr>"
  let ?s1 = "\<lparr>rs_store = example_codes, rs_threads = (\<lambda>_. TIdle), rs_used = {?k}\<rparr>"
  let ?s2 = "?s1\<lparr>rs_threads := (\<lambda>_. TIdle)(7 := TChecked ?k)\<rparr>"
  let ?s3 = "?s2\<lparr>rs_store := redeem_drop_pending ?C ?k example_codes,
                 rs_threads := (\<lambda>_. TIdle)(7 := TDropped ?k)\<rparr>"
  have "redeem_reachable ?C ?s1"
    using reach_step [OF reach_init step_mint [of ?C 0 "Some ''k''" "''c''" "''u''" "''v''" example_set _ ?k example_minted]]
      example_mint by (simp add: example_minted)
  moreover have "redeem_peek ?C 0 ?k (rs_store ?s1) = (Some ?e, example_codes)"
    by (simp add: redeem_peek_def example_codes_def duration_defs Let_def)
  moreover have "redeem_matches ?C ?e ''c'' ''u'' ''v''"
    by (simp add: redeem_matches_def pkce_verify_eq challenge_for_def)
  ultimately have "redeem_reachable ?C ?s2"
    using reach_step [OF _ step_check [of ?s1 7 ?C 0 ?k ?e example_codes "''c''" "''u''" "''v''"]] by simp
  then have "redeem_reachable ?C ?s3"
    using reach_step [OF _ step_drop [of ?s2 7 ?k ?C]] by simp
  moreover have "redeem_take_upstream ?C ?k (rs_store ?s3) = (RedeemOk example_set, code_new)"
    by (simp add: redeem_take_upstream_def redeem_drop_pending_def example_codes_def code_new_def Let_def)
  ultimately show ?thesis
    using reach_step [OF _ step_take [of ?s3 7 ?k ?C "RedeemOk example_set" code_new]]
    by (simp add: example_run_end_def)
qed

theorem code_redeemed_at_most_once_witness:
  "{t. rs_threads example_run_end t = TDone ''rup_ac_k'' (RedeemOk example_set)} = {7}"
proof (intro set_eqI iffI, unfold mem_Collect_eq singleton_iff)
  fix t
  assume t: "rs_threads example_run_end t = TDone ''rup_ac_k'' (RedeemOk example_set)"
  have "rs_threads example_run_end 7 = TDone ''rup_ac_k'' (RedeemOk example_set)"
    by (simp add: example_run_end_def)
  then show "t = 7" by (rule code_redeemed_at_most_once [OF example_run t]) (rule refl)
qed (simp add: example_run_end_def)

text \<open>
  Replay. Once a redeemed code has been recorded as consumed, presenting it again within
  the code's lifetime is reported as a replay carrying exactly the token digests and the session
  recorded, whatever client, redirect URI or verifier is presented.
\<close>

theorem code_replay_detected:
  assumes "code_redeem C now code cid uri v s = (RedeemOk up, s1)"
    and "room now (cs_consumed s1) (digest C code)" and "now' < expires_after now CODE_TTL"
  shows "fst (code_redeem C now' code cid' uri' v' (code_mark_consumed C now code td rd uid s1)) =
    RedeemReplayed td rd uid"
  using code_redeem_Ok_state [OF assms(1)] mark_consumed_lookup [OF assms(2)] assms(3)
  by (auto simp: code_redeem_Replayed_iff fmlookup_sweep)

theorem code_replay_detected_witness:
  "fst (code_redeem example_crypto 1 ''rup_ac_k'' ''x'' ''y'' ''z''
     (code_mark_consumed example_crypto 0 ''rup_ac_k'' ''t'' None ''s'' code_new)) = RedeemReplayed ''t'' None ''s''"
proof -
  have ok: "code_redeem example_crypto 0 ''rup_ac_k'' ''c'' ''u'' ''v'' example_codes =
      (RedeemOk example_set, code_new)"
    by (simp add: code_redeem_def redeem_peek_def redeem_matches_def redeem_drop_pending_def
        redeem_take_upstream_def pkce_verify_eq challenge_for_def example_codes_def code_new_def
        duration_defs Let_def)
  show ?thesis
    by (rule code_replay_detected [OF ok])
      (simp_all add: room_iff code_new_def MAX_ENTRIES_def expires_after_def checked_add_def CODE_TTL_def
        duration_defs instant_max_def)
qed

text \<open>
  Abandoned codes are never forgotten. Codes that are minted one minute apart and not
  redeemed leave at most one entry in the bounded pending map, but every one of their upstream
  token sets stays in the second map: it grows by one per code, without a bound.
\<close>

theorem abandoned_codes_accumulate:
  assumes "inj (sha256 C)" and "inj (base64url C)" and "distinct bs"
  shows "fmlen (cs_upstream (abandon C up t bs code_new)) = length bs \<and>
         fmlen (cs_pending (abandon C up t bs code_new)) \<le> 1"
  using abandon_keeps_all [OF assms, of t code_new] by (simp add: code_new_def all_expired_def)

theorem abandoned_codes_accumulate_witness:
  "fmlen (cs_upstream (abandon example_crypto example_set 0 [''a'', ''b'', ''c''] code_new)) = 3"
  using abandoned_codes_accumulate [of example_crypto "[''a'', ''b'', ''c'']" example_set 0]
  by (simp add: example_crypto_def inj_def)

end
