(* ===== verification/Refresh_Store.thy ===== *)
theory Refresh_Store
  imports Upstream_Store
begin

text \<open>
  Proxy refresh tokens (\<^verbatim>\<open>RefreshStore\<close>): minting, the \<open>Active\<close>/\<open>InFlight\<close> lock a redemption
  takes, its rollback by the drop of \<^verbatim>\<open>InFlightGuard\<close>, rotation into the retired map and
  reuse detection. The last part lets any number of refresh requests interleave.
\<close>

definition RETIRED_REFRESH_TTL :: duration where
  "RETIRED_REFRESH_TTL = from_hours 24"

datatype refresh_state = Active | InFlight

record refresh_owner =
  ro_client_id :: string
  ro_upstream_id :: string
  ro_state :: refresh_state

text \<open>The \<open>Ok\<close> outcome carries the guard, which is the key it will restore.\<close>

datatype refresh_outcome =
    RefreshInvalid
  | RefreshReused string
  | RefreshOk string string digest

record refresh_store =
  rf_current :: "(digest, refresh_owner \<times> instant) fmap"
  rf_retired :: "(digest, string \<times> instant) fmap"

definition refresh_new :: refresh_store where
  "refresh_new = \<lparr>rf_current = fmempty, rf_retired = fmempty\<rparr>"

definition in_flight_guard_drop :: "digest \<Rightarrow> refresh_store \<Rightarrow> refresh_store" where
  "in_flight_guard_drop key s =
     (case fmlookup (rf_current s) key of
        Some (owner, x) \<Rightarrow>
          if ro_state owner = InFlight
          then s\<lparr>rf_current := fmupd key (owner\<lparr>ro_state := Active\<rparr>, x) (rf_current s)\<rparr>
          else s
      | None \<Rightarrow> s)"

definition refresh_mint ::
    "crypto \<Rightarrow> instant \<Rightarrow> rng \<Rightarrow> string \<Rightarrow> string \<Rightarrow> refresh_store \<Rightarrow>
     (string \<times> digest) option \<times> refresh_store" where
  "refresh_mint C now r client_id upstream_id s =
     (case mint_opaque_token C r ''rup_rt_'' of
        None \<Rightarrow> (None, s)
      | Some token \<Rightarrow>
          let key = digest C token;
              (ok, current1) = sweep_and_check_capacity now (rf_current s) key
          in if \<not> ok then (None, s\<lparr>rf_current := current1\<rparr>)
             else (Some (token, key),
                   s\<lparr>rf_current := fmupd key
                       (\<lparr>ro_client_id = client_id, ro_upstream_id = upstream_id, ro_state = Active\<rparr>,
                        expires_after now REFRESH_TTL) current1\<rparr>))"

text \<open>
  The critical section on \<^verbatim>\<open>current\<close>: \<open>None\<close> means that it falls through to the retired map.
\<close>

definition refresh_redeem_current ::
    "crypto \<Rightarrow> instant \<Rightarrow> string \<Rightarrow> refresh_store \<Rightarrow> refresh_outcome option \<times> refresh_store" where
  "refresh_redeem_current C now token s =
     (let key = digest C token
      in case fmlookup (rf_current s) key of
           None \<Rightarrow> (None, s)
         | Some (owner, expires_at) \<Rightarrow>
             if expires_at \<le> now then (None, s\<lparr>rf_current := fmdrop key (rf_current s)\<rparr>)
             else (case ro_state owner of
                 InFlight \<Rightarrow> (Some (RefreshReused (ro_upstream_id owner)), s)
               | Active \<Rightarrow>
                   (Some (RefreshOk (ro_client_id owner) (ro_upstream_id owner) key),
                    s\<lparr>rf_current := fmupd key (owner\<lparr>ro_state := InFlight\<rparr>, expires_at)
                                      (rf_current s)\<rparr>)))"

definition refresh_check_retired ::
    "crypto \<Rightarrow> instant \<Rightarrow> string \<Rightarrow> refresh_store \<Rightarrow> refresh_outcome" where
  "refresh_check_retired C now token s =
     (case fmlookup (rf_retired s) (digest C token) of
        Some (upstream_id, expires_at) \<Rightarrow>
          if expires_at > now then RefreshReused upstream_id else RefreshInvalid
      | None \<Rightarrow> RefreshInvalid)"

definition refresh_redeem ::
    "crypto \<Rightarrow> instant \<Rightarrow> string \<Rightarrow> refresh_store \<Rightarrow> refresh_outcome \<times> refresh_store" where
  "refresh_redeem C now token s =
     (case refresh_redeem_current C now token s of
        (Some oc, s1) \<Rightarrow> (oc, s1)
      | (None, s1) \<Rightarrow> (refresh_check_retired C now token s1, s1))"

definition refresh_retire ::
    "crypto \<Rightarrow> instant \<Rightarrow> string \<Rightarrow> string \<Rightarrow> refresh_store \<Rightarrow> refresh_store" where
  "refresh_retire C now old_token upstream_id s =
     (let key = digest C old_token;
          s1 = s\<lparr>rf_current := fmdrop key (rf_current s)\<rparr>;
          (ok, retired1) = sweep_and_check_capacity now (rf_retired s1) key
      in if ok
         then s1\<lparr>rf_retired := fmupd key (upstream_id, expires_after now RETIRED_REFRESH_TTL) retired1\<rparr>
         else s1\<lparr>rf_retired := retired1\<rparr>)"

definition refresh_discard :: "crypto \<Rightarrow> string \<Rightarrow> refresh_store \<Rightarrow> refresh_store" where
  "refresh_discard C old_token s = s\<lparr>rf_current := fmdrop (digest C old_token) (rf_current s)\<rparr>"

definition refresh_take ::
    "crypto \<Rightarrow> string \<Rightarrow> refresh_store \<Rightarrow> (string \<times> string) option \<times> refresh_store" where
  "refresh_take C token s =
     (let key = digest C token
      in (map_option (\<lambda>e. (ro_client_id (fst e), ro_upstream_id (fst e))) (fmlookup (rf_current s) key),
          s\<lparr>rf_current := fmdrop key (rf_current s)\<rparr>))"

definition refresh_delete_by_digest :: "digest \<Rightarrow> refresh_store \<Rightarrow> refresh_store" where
  "refresh_delete_by_digest d s = s\<lparr>rf_current := fmdrop d (rf_current s)\<rparr>"

definition refresh_remove_by_upstream :: "string \<Rightarrow> refresh_store \<Rightarrow> refresh_store" where
  "refresh_remove_by_upstream upstream_id s =
     s\<lparr>rf_current := retain (\<lambda>_ e. ro_upstream_id (fst e) \<noteq> upstream_id) (rf_current s)\<rparr>"

definition refresh_live_client_ids :: "instant \<Rightarrow> refresh_store \<Rightarrow> string fset" where
  "refresh_live_client_ids now s =
     (\<lambda>e. ro_client_id (fst e)) |`| fmran (retain (\<lambda>_ e. snd e > now) (rf_current s))"

section \<open>Interfaces\<close>

definition refresh_key :: "crypto \<Rightarrow> rng \<times> string \<times> string \<Rightarrow> digest option" where
  "refresh_key C a = map_option (digest C) (mint_opaque_token C (fst a) ''rup_rt_'')"

interpretation rcur: capped_store
  rf_current "\<lambda>now (r, cid, uid) s. refresh_mint C now r cid uid s" "refresh_key C"
  "\<lambda>now (r, cid, uid). (\<lparr>ro_client_id = cid, ro_upstream_id = uid, ro_state = Active\<rparr>,
     expires_after now REFRESH_TTL)"
  for C
  by unfold_locales
    (auto simp: refresh_mint_def refresh_key_def sweep_check_eq Let_def split: option.split)

interpretation rret: capped_map
  rf_retired "\<lambda>now (tok, uid) s. refresh_retire C now tok uid s"
  "\<lambda>(tok, uid). Some (digest C tok)"
  "\<lambda>now (tok, uid). (uid, expires_after now RETIRED_REFRESH_TTL)"
  for C
  by unfold_locales (auto simp: refresh_retire_def sweep_check_eq Let_def)

section \<open>Single operations\<close>

lemma refresh_redeem_Ok_iff:
  "fst (refresh_redeem C now tok s) = RefreshOk cid uid g \<longleftrightarrow>
     (\<exists>o' x. fmlookup (rf_current s) (digest C tok) = Some (o', x) \<and> x > now \<and>
        ro_state o' = Active \<and> ro_client_id o' = cid \<and> ro_upstream_id o' = uid \<and> g = digest C tok)"
  by (auto simp: refresh_redeem_def refresh_redeem_current_def refresh_check_retired_def Let_def
      split: option.splits if_splits refresh_state.splits)

lemma refresh_redeem_Ok_state:
  assumes "fst (refresh_redeem C now tok s) = RefreshOk cid uid g"
    and "fmlookup (rf_current s) (digest C tok) = Some (o', x)"
  shows "snd (refresh_redeem C now tok s) =
    s\<lparr>rf_current := fmupd (digest C tok) (o'\<lparr>ro_state := InFlight\<rparr>, x) (rf_current s)\<rparr>"
  using assms
  by (auto simp: refresh_redeem_def refresh_redeem_current_def refresh_check_retired_def Let_def
      split: option.splits if_splits refresh_state.splits)

lemma refresh_redeem_retired_frame [simp]:
  "rf_retired (snd (refresh_redeem C now tok s)) = rf_retired s"
  by (auto simp: refresh_redeem_def refresh_redeem_current_def Let_def
      split: option.split refresh_state.split prod.split)

lemma not_in_flight_active: "ro_state a \<noteq> InFlight \<Longrightarrow> a\<lparr>ro_state := Active\<rparr> = (a :: refresh_owner)"
  by (cases a; cases "ro_state a") auto

lemma guard_drop_lookup:
  "fmlookup (rf_current (in_flight_guard_drop key s)) k =
     (if k = key then map_option (\<lambda>(o', x). (o'\<lparr>ro_state := Active\<rparr>, x)) (fmlookup (rf_current s) k)
      else fmlookup (rf_current s) k)"
  by (cases "fmlookup (rf_current s) key")
    (auto simp: in_flight_guard_drop_def not_in_flight_active)

lemma guard_drop_retired [simp]: "rf_retired (in_flight_guard_drop key s) = rf_retired s"
  by (auto simp: in_flight_guard_drop_def split: option.split)

lemma guard_drop_dom: "fmdom (rf_current (in_flight_guard_drop key s)) = fmdom (rf_current s)"
  by (auto simp: in_flight_guard_drop_def fmdomI split: option.split)

text \<open>Every operation that commits removes the entry, so a later drop of the guard is a no-op.\<close>

lemma guard_drop_absent: "fmlookup (rf_current s) key = None \<Longrightarrow> in_flight_guard_drop key s = s"
  by (simp add: in_flight_guard_drop_def)

lemma retire_current [simp]:
  "rf_current (refresh_retire C now tok uid s) = fmdrop (digest C tok) (rf_current s)"
  by (auto simp: refresh_retire_def Let_def split: prod.split)

lemma retire_then_reused:
  assumes "room now (rf_retired s) (digest C tok)" and "now' < expires_after now RETIRED_REFRESH_TTL"
  shows "fst (refresh_redeem C now' tok (refresh_retire C now tok uid s)) = RefreshReused uid"
  using assms
  by (simp add: refresh_redeem_def refresh_redeem_current_def refresh_check_retired_def
      refresh_retire_def sweep_check_eq Let_def)

lemma remove_by_upstream_lookup:
  "fmlookup (rf_current (refresh_remove_by_upstream uid s)) k = Some (o', x) \<longleftrightarrow>
     fmlookup (rf_current s) k = Some (o', x) \<and> ro_upstream_id o' \<noteq> uid"
  by (auto simp: refresh_remove_by_upstream_def split: option.splits if_splits)

lemma refresh_live_client_ids_iff:
  "cid |\<in>| refresh_live_client_ids now s \<longleftrightarrow>
     (\<exists>k o' x. fmlookup (rf_current s) k = Some (o', x) \<and> x > now \<and> ro_client_id o' = cid)"
  by (force simp: refresh_live_client_ids_def fmlookup_ran_iff retain_Some simp del: fmlookup_retain)

section \<open>Interleaved refresh requests\<close>

text \<open>
  A refresh request redeems a token, holds the guard while it talks to Redmine, then either
  rotates the token, discards it or returns and lets the guard roll back. Between any two of
  these steps other requests, revocations and session sweeps may run. \<open>RRotated\<close> has retired
  the token and still owns the guard; \<open>RReturned k b\<close> has dropped it, with \<open>b\<close> telling whether it
  rotated. \<open>fs_used\<close> are the keys minted so far; a mint draws a fresh one.
\<close>

datatype refresh_thread =
    RIdle
  | RHolding string
  | RRotated string
  | RReturned string bool

record refresh_sys =
  fs_store :: refresh_store
  fs_threads :: "nat \<Rightarrow> refresh_thread"
  fs_used :: "digest set"

inductive refresh_step :: "crypto \<Rightarrow> refresh_sys \<Rightarrow> refresh_sys \<Rightarrow> bool" for C where
  fstep_mint: "refresh_mint C now r cid uid (fs_store s) = (Some (tok, k), st) \<Longrightarrow> k \<notin> fs_used s \<Longrightarrow>
    refresh_step C s (s\<lparr>fs_store := st, fs_used := insert k (fs_used s)\<rparr>)"
| fstep_mint_refused: "refresh_mint C now r cid uid (fs_store s) = (None, st) \<Longrightarrow>
    refresh_step C s (s\<lparr>fs_store := st\<rparr>)"
| fstep_redeem: "fs_threads s t = RIdle \<Longrightarrow>
    refresh_redeem_current C now tok (fs_store s) = (Some (RefreshOk cid uid g), st) \<Longrightarrow>
    refresh_step C s (s\<lparr>fs_store := st, fs_threads := (fs_threads s)(t := RHolding tok)\<rparr>)"
| fstep_refused: "fs_threads s t = RIdle \<Longrightarrow>
    refresh_redeem_current C now tok (fs_store s) = (oc, st) \<Longrightarrow>
    (\<And>cid uid g. oc \<noteq> Some (RefreshOk cid uid g)) \<Longrightarrow>
    refresh_step C s (s\<lparr>fs_store := st, fs_threads := (fs_threads s)(t := RReturned tok False)\<rparr>)"
| fstep_rotate: "fs_threads s t = RHolding tok \<Longrightarrow>
    refresh_step C s (s\<lparr>fs_store := refresh_retire C now tok uid (fs_store s),
      fs_threads := (fs_threads s)(t := RRotated tok)\<rparr>)"
| fstep_discard: "fs_threads s t = RHolding tok \<Longrightarrow>
    refresh_step C s (s\<lparr>fs_store := refresh_discard C tok (fs_store s)\<rparr>)"
| fstep_drop: "fs_threads s t = RHolding tok \<Longrightarrow>
    refresh_step C s (s\<lparr>fs_store := in_flight_guard_drop (digest C tok) (fs_store s),
      fs_threads := (fs_threads s)(t := RReturned tok False)\<rparr>)"
| fstep_drop_rotated: "fs_threads s t = RRotated tok \<Longrightarrow>
    refresh_step C s (s\<lparr>fs_store := in_flight_guard_drop (digest C tok) (fs_store s),
      fs_threads := (fs_threads s)(t := RReturned tok True)\<rparr>)"
| fstep_take: "refresh_step C s (s\<lparr>fs_store := snd (refresh_take C tok (fs_store s))\<rparr>)"
| fstep_delete: "refresh_step C s (s\<lparr>fs_store := refresh_delete_by_digest d (fs_store s)\<rparr>)"
| fstep_remove: "refresh_step C s (s\<lparr>fs_store := refresh_remove_by_upstream uid (fs_store s)\<rparr>)"

inductive refresh_reachable :: "crypto \<Rightarrow> refresh_sys \<Rightarrow> bool" for C where
  freach_init: "refresh_reachable C \<lparr>fs_store = refresh_new, fs_threads = (\<lambda>_. RIdle), fs_used = {}\<rparr>"
| freach_step: "refresh_reachable C s \<Longrightarrow> refresh_step C s s' \<Longrightarrow> refresh_reachable C s'"

text \<open>Who may still touch the entry of a key: the holder of its guard, and who has rotated it.\<close>

definition thread_owns :: "crypto \<Rightarrow> refresh_thread \<Rightarrow> digest \<Rightarrow> bool" where
  "thread_owns C th k \<longleftrightarrow>
     (\<exists>tok. digest C tok = k \<and> (th = RHolding tok \<or> th = RRotated tok \<or> th = RReturned tok True))"

definition thread_rotated :: "crypto \<Rightarrow> refresh_thread \<Rightarrow> digest \<Rightarrow> bool" where
  "thread_rotated C th k \<longleftrightarrow> (\<exists>tok. digest C tok = k \<and> (th = RRotated tok \<or> th = RReturned tok True))"

definition key_state :: "refresh_store \<Rightarrow> digest \<Rightarrow> refresh_state option" where
  "key_state s k = map_option (\<lambda>e. ro_state (fst e)) (fmlookup (rf_current s) k)"

definition refresh_sys_inv :: "crypto \<Rightarrow> refresh_sys \<Rightarrow> bool" where
  "refresh_sys_inv C s \<longleftrightarrow>
     (\<forall>k. key_state (fs_store s) k \<noteq> None \<longrightarrow> k \<in> fs_used s) \<and>
     (\<forall>t k. thread_owns C (fs_threads s t) k \<longrightarrow>
        k \<in> fs_used s \<and> key_state (fs_store s) k \<noteq> Some Active) \<and>
     (\<forall>t k. thread_rotated C (fs_threads s t) k \<longrightarrow> key_state (fs_store s) k = None) \<and>
     (\<forall>t t' k. thread_owns C (fs_threads s t) k \<longrightarrow> thread_owns C (fs_threads s t') k \<longrightarrow> t = t')"

lemma thread_owns_simps [simp]:
  "\<not> thread_owns C RIdle k" "thread_owns C (RHolding tok) k \<longleftrightarrow> digest C tok = k"
  "thread_owns C (RRotated tok) k \<longleftrightarrow> digest C tok = k"
  "thread_owns C (RReturned tok b) k \<longleftrightarrow> b \<and> digest C tok = k"
  by (auto simp: thread_owns_def)

lemma thread_rotated_simps [simp]:
  "\<not> thread_rotated C RIdle k" "\<not> thread_rotated C (RHolding tok) k"
  "thread_rotated C (RRotated tok) k \<longleftrightarrow> digest C tok = k"
  "thread_rotated C (RReturned tok b) k \<longleftrightarrow> b \<and> digest C tok = k"
  by (auto simp: thread_rotated_def)

lemma thread_rotated_owns: "thread_rotated C th k \<Longrightarrow> thread_owns C th k"
  by (auto simp: thread_rotated_def thread_owns_def)

text \<open>How each operation moves the state of a key.\<close>

lemma mint_key_state:
  "refresh_mint C now r cid uid s = (Some (tok, k'), s') \<Longrightarrow>
     key_state s' k = (if k = k' then Some Active else key_state s' k) \<and>
     (k \<noteq> k' \<longrightarrow> key_state s' k = key_state s k \<or> key_state s' k = None)"
  "refresh_mint C now r cid uid s = (None, s') \<Longrightarrow>
     key_state s' k = key_state s k \<or> key_state s' k = None"
  by (auto simp: refresh_mint_def key_state_def sweep_check_eq Let_def fmlookup_sweep
      split: option.splits if_splits)

lemma redeem_current_Ok_key_state:
  "refresh_redeem_current C now tok s = (Some (RefreshOk cid uid g), s') \<Longrightarrow>
     key_state s (digest C tok) = Some Active \<and>
     key_state s' k = (if k = digest C tok then Some InFlight else key_state s k)"
  by (auto simp: refresh_redeem_current_def key_state_def Let_def
      split: option.splits if_splits refresh_state.splits)

lemma redeem_current_other_key_state:
  "refresh_redeem_current C now tok s = (oc, s') \<Longrightarrow> (\<And>cid uid g. oc \<noteq> Some (RefreshOk cid uid g)) \<Longrightarrow>
     key_state s' k = key_state s k \<or> key_state s' k = None"
  by (auto simp: refresh_redeem_current_def key_state_def Let_def
      split: option.splits if_splits refresh_state.splits)

lemma removal_key_state:
  "key_state (refresh_retire C now tok uid s) k = (if k = digest C tok then None else key_state s k)"
  "key_state (refresh_discard C tok s) k = (if k = digest C tok then None else key_state s k)"
  "key_state (snd (refresh_take C tok s)) k = (if k = digest C tok then None else key_state s k)"
  "key_state (refresh_delete_by_digest d s) k = (if k = d then None else key_state s k)"
  by (simp_all add: key_state_def refresh_discard_def refresh_take_def refresh_delete_by_digest_def Let_def)

lemma remove_by_upstream_key_state:
  "key_state (refresh_remove_by_upstream uid s) k = key_state s k \<or>
   key_state (refresh_remove_by_upstream uid s) k = None"
  by (auto simp: key_state_def refresh_remove_by_upstream_def split: option.split)

lemma guard_drop_key_state:
  "key_state (in_flight_guard_drop key s) k =
     (if k = key then map_option (\<lambda>_. Active) (key_state s k) else key_state s k)"
  by (auto simp: key_state_def guard_drop_lookup split: option.split prod.split
      simp flip: option.map_comp) (auto simp: option.map_comp comp_def case_prod_beta)

text \<open>A step that can only lose entries and leaves the threads alone keeps the invariant.\<close>

lemma refresh_inv_shrink:
  assumes "refresh_sys_inv C s" and "\<And>k. key_state st k = key_state (fs_store s) k \<or> key_state st k = None"
  shows "refresh_sys_inv C (s\<lparr>fs_store := st\<rparr>)"
  using assms unfolding refresh_sys_inv_def by (simp, metis option.distinct(1))

lemma refresh_inv_return:
  assumes "refresh_sys_inv C s" and "fs_threads s t = RIdle"
  shows "refresh_sys_inv C (s\<lparr>fs_threads := (fs_threads s)(t := RReturned tok False)\<rparr>)"
  using assms by (auto simp: refresh_sys_inv_def)

lemma refresh_inv_own:
  assumes "refresh_sys_inv C s" and "thread_owns C (fs_threads s t) k"
  shows "k \<in> fs_used s" and "key_state (fs_store s) k \<noteq> Some Active"
    and "thread_owns C (fs_threads s t') k \<Longrightarrow> t' = t"
  using assms by (auto simp: refresh_sys_inv_def)

lemma refresh_step_inv: "refresh_step C s s' \<Longrightarrow> refresh_sys_inv C s \<Longrightarrow> refresh_sys_inv C s'"
proof (induction rule: refresh_step.induct)
  case (fstep_mint now r cid uid s tok k st)
  have k: "key_state st k = Some Active"
    and o: "\<And>k'. k' \<noteq> k \<Longrightarrow> key_state st k' = key_state (fs_store s) k' \<or> key_state st k' = None"
    using mint_key_state(1) [OF fstep_mint(1)] by metis+
  have no: "\<not> thread_owns C (fs_threads s t) k" for t
    using fstep_mint(2,3) by (auto simp: refresh_sys_inv_def)
  then have nr: "\<not> thread_rotated C (fs_threads s t) k" for t
    using thread_rotated_owns by blast
  show ?case
    using fstep_mint(3) k o no nr unfolding refresh_sys_inv_def
    by (simp, metis option.distinct(1))
next
  case (fstep_mint_refused now r cid uid s st)
  show ?case using fstep_mint_refused(2) mint_key_state(2) [OF fstep_mint_refused(1)]
    by (rule refresh_inv_shrink)
next
  case (fstep_redeem s t now tok cid uid g st)
  note ks = redeem_current_Ok_key_state [OF fstep_redeem(2)]
  show ?case using fstep_redeem(1,3) ks
    by (auto simp: refresh_sys_inv_def)
next
  case (fstep_refused s t now tok oc st)
  have "refresh_sys_inv C (s\<lparr>fs_store := st\<rparr>)"
    using fstep_refused(4) redeem_current_other_key_state [OF fstep_refused(2,3)]
    by (rule refresh_inv_shrink)
  then show ?case using refresh_inv_return [where s = "s\<lparr>fs_store := st\<rparr>"] fstep_refused(1) by simp
next
  case (fstep_rotate s t tok now uid)
  have "thread_owns C (fs_threads s t) (digest C tok)" using fstep_rotate(1) by simp
  note own = refresh_inv_own [OF fstep_rotate(2) this]
  show ?case using fstep_rotate own by (auto simp: refresh_sys_inv_def removal_key_state)
next
  case (fstep_discard s t tok)
  then show ?case by (intro refresh_inv_shrink) (auto simp: removal_key_state)
next
  case (fstep_drop s t tok)
  have "thread_owns C (fs_threads s t) (digest C tok)" using fstep_drop(1) by simp
  note own = refresh_inv_own [OF fstep_drop(2) this]
  show ?case using fstep_drop own by (auto simp: refresh_sys_inv_def guard_drop_key_state)
next
  case (fstep_drop_rotated s t tok)
  have "thread_rotated C (fs_threads s t) (digest C tok)" using fstep_drop_rotated(1) by simp
  then have gone: "key_state (fs_store s) (digest C tok) = None"
    using fstep_drop_rotated(2) unfolding refresh_sys_inv_def by blast
  have "thread_owns C (fs_threads s t) (digest C tok)" using fstep_drop_rotated(1) by simp
  note own = refresh_inv_own [OF fstep_drop_rotated(2) this]
  show ?case using fstep_drop_rotated own gone
    by (auto simp: refresh_sys_inv_def guard_drop_key_state)
next
  case (fstep_take s tok)
  then show ?case by (intro refresh_inv_shrink) (auto simp: removal_key_state)
next
  case (fstep_delete s d)
  then show ?case by (intro refresh_inv_shrink) (auto simp: removal_key_state)
next
  case (fstep_remove s uid)
  then show ?case by (intro refresh_inv_shrink remove_by_upstream_key_state)
qed

lemma refresh_reachable_inv: "refresh_reachable C s \<Longrightarrow> refresh_sys_inv C s"
proof (induction rule: refresh_reachable.induct)
  case freach_init
  show ?case by (simp add: refresh_sys_inv_def refresh_new_def key_state_def)
next
  case (freach_step s s')
  then show ?case by (blast intro: refresh_step_inv)
qed

section \<open>Properties\<close>

text \<open>
  C3. One refresh at a time. In every interleaving of refresh requests, rotations, discards,
  guard drops, revocations and session removals, at most one request holds a given refresh token
  while it talks to Redmine, and a token is rotated by at most one request in its whole life.
\<close>

theorem refresh_token_exclusive:
  assumes "refresh_reachable C s" and "digest C tok = digest C tok'"
  shows "(fs_threads s t = RHolding tok \<longrightarrow> fs_threads s t' = RHolding tok' \<longrightarrow> t = t') \<and>
    (fs_threads s t \<in> {RRotated tok, RReturned tok True} \<longrightarrow>
     fs_threads s t' \<in> {RHolding tok', RRotated tok', RReturned tok' True} \<longrightarrow> t = t')"
proof -
  have "thread_owns C (fs_threads s t) k \<Longrightarrow> thread_owns C (fs_threads s t') k \<Longrightarrow> t = t'" for k
    using refresh_reachable_inv [OF assms(1)] unfolding refresh_sys_inv_def by blast
  then show ?thesis using assms(2) by (metis insertE singletonD thread_owns_simps(2,3,4))
qed

definition example_refresh_end :: refresh_sys where
  "example_refresh_end =
     \<lparr>fs_store = snd (refresh_redeem_current example_crypto 1 ''rup_rt_k''
         (snd (refresh_mint example_crypto 0 (Some ''k'') ''c'' ''s'' refresh_new))),
      fs_threads = (\<lambda>_. RIdle)(7 := RHolding ''rup_rt_k''), fs_used = {''rup_rt_k''}\<rparr>"

lemma example_refresh_run: "refresh_reachable example_crypto example_refresh_end"
proof -
  let ?C = example_crypto and ?k = "''rup_rt_k''"
  define m where "m = snd (refresh_mint ?C 0 (Some ''k'') ''c'' ''s'' refresh_new)"
  define d where "d = snd (refresh_redeem_current ?C 1 ?k m)"
  let ?s1 = "\<lparr>fs_store = m, fs_threads = (\<lambda>_. RIdle), fs_used = {?k}\<rparr>"
  have mint: "refresh_mint ?C 0 (Some ''k'') ''c'' ''s'' refresh_new = (Some (?k, ?k), m)"
    by (simp add: m_def refresh_mint_def mint_opaque_token_def sweep_check_eq room_iff MAX_ENTRIES_def
        refresh_new_def Let_def)
  have red: "refresh_redeem_current ?C 1 ?k m = (Some (RefreshOk ''c'' ''s'' ?k), d)"
    by (simp add: d_def m_def refresh_redeem_current_def refresh_mint_def mint_opaque_token_def
        sweep_check_eq room_iff MAX_ENTRIES_def refresh_new_def Let_def expires_after_def checked_add_def
        REFRESH_TTL_def duration_defs instant_max_def)
  have "refresh_reachable ?C ?s1"
    using freach_step [OF freach_init fstep_mint [of ?C 0 "Some ''k''" "''c''" "''s''" _ ?k ?k m]] mint by simp
  then show ?thesis
    using freach_step [OF _ fstep_redeem [of ?s1 7 ?C 1 ?k "''c''" "''s''" ?k d]] red
    by (simp add: example_refresh_end_def m_def d_def)
qed

theorem refresh_token_exclusive_witness:
  "{t. fs_threads example_refresh_end t = RHolding ''rup_rt_k''} = {7}"
proof (intro set_eqI iffI, unfold mem_Collect_eq singleton_iff)
  fix t
  assume t: "fs_threads example_refresh_end t = RHolding ''rup_rt_k''"
  have "fs_threads example_refresh_end 7 = RHolding ''rup_rt_k''" by (simp add: example_refresh_end_def)
  then show "t = 7"
    using refresh_token_exclusive [OF example_refresh_run, of "''rup_rt_k''" "''rup_rt_k''" t 7] t by blast
qed (simp add: example_refresh_end_def)

end
