(* ===== verification/Proxy_State.thy ===== *)
theory Proxy_State
  imports Client_Registry Transaction_Store Token_Store Code_Store Refresh_Store
begin

text \<open>
  The bundle of all \<^verbatim>\<open>oauth-proxy\<close> stores (\<^verbatim>\<open>ProxyState\<close>) and the operations that cross them:
  registration with the anti-eviction live set, and session removal with its referential
  cleanup.
\<close>

record proxy_state =
  ps_registry :: client_registry
  ps_transactions :: transaction_store
  ps_codes :: code_store
  ps_tokens :: token_store
  ps_upstream_tokens :: upstream_store
  ps_refresh_tokens :: refresh_store

definition proxy_new :: proxy_state where
  "proxy_new = \<lparr>ps_registry = registry_new, ps_transactions = txn_new, ps_codes = code_new,
     ps_tokens = token_new, ps_upstream_tokens = upstream_new, ps_refresh_tokens = refresh_new\<rparr>"

definition register_client ::
    "instant \<Rightarrow> rng \<Rightarrow> string list \<Rightarrow> string option \<Rightarrow> proxy_state \<Rightarrow>
     client_registration option \<times> proxy_state" where
  "register_client now r redirect_uris client_name p =
     (let live = token_live_client_ids now (ps_tokens p)
                 |\<union>| refresh_live_client_ids now (ps_refresh_tokens p);
          (reg, registry1) = registry_register now r redirect_uris client_name live (ps_registry p)
      in (reg, p\<lparr>ps_registry := registry1\<rparr>))"

definition take_session :: "string \<Rightarrow> proxy_state \<Rightarrow> upstream_token_set option \<times> proxy_state" where
  "take_session upstream_id p =
     (case upstream_take upstream_id (ps_upstream_tokens p) of
        (None, ups1) \<Rightarrow> (None, p\<lparr>ps_upstream_tokens := ups1\<rparr>)
      | (Some ts, ups1) \<Rightarrow>
          (Some ts, p\<lparr>ps_upstream_tokens := ups1,
                      ps_tokens := token_remove_by_upstream upstream_id (ps_tokens p),
                      ps_refresh_tokens := refresh_remove_by_upstream upstream_id (ps_refresh_tokens p)\<rparr>))"

text \<open>
  The loop over the swept sessions removes the dependents of one session after the other;
  \<open>remove_all_by_upstream\<close> below shows that doing so in any order is this one filter.
\<close>

definition sweep_expired_sessions ::
    "instant \<Rightarrow> proxy_state \<Rightarrow> (string, upstream_token_set \<times> instant) fmap \<times> proxy_state" where
  "sweep_expired_sessions now p =
     (let (gone, ups1) = upstream_sweep_expired now (ps_upstream_tokens p)
      in (gone, p\<lparr>ps_upstream_tokens := ups1,
                  ps_tokens := retain (\<lambda>_ e. te_upstream_id (fst e) |\<notin>| fmdom gone) (ps_tokens p),
                  ps_refresh_tokens := (ps_refresh_tokens p)\<lparr>rf_current :=
                    retain (\<lambda>_ e. ro_upstream_id (fst e) |\<notin>| fmdom gone)
                      (rf_current (ps_refresh_tokens p))\<rparr>\<rparr>))"

section \<open>Lemmas\<close>

lemma retain_retain: "retain P (retain Q m) = retain (\<lambda>k v. P k v \<and> Q k v) m"
  by (rule fmap_ext) (auto split: option.split)

lemma remove_all_by_upstream:
  "fold token_remove_by_upstream ids s = retain (\<lambda>_ e. te_upstream_id (fst e) \<notin> set ids) s"
  "fold refresh_remove_by_upstream ids rs =
     rs\<lparr>rf_current := retain (\<lambda>_ e. ro_upstream_id (fst e) \<notin> set ids) (rf_current rs)\<rparr>"
proof (induction ids arbitrary: s rs)
  case Nil
  { case 1 show ?case by (simp add: retain_id) }
  { case 2 show ?case by (simp add: retain_id) }
next
  case (Cons i ids)
  { case 1 show ?case
      using Cons(1) by (simp add: token_remove_by_upstream_def retain_retain conj_commute) }
  { case 2 show ?case
      using Cons(2) by (simp add: refresh_remove_by_upstream_def retain_retain conj_commute) }
qed

lemma take_session_absent:
  "fst (take_session uid p) = None \<longleftrightarrow> fmlookup (ps_upstream_tokens p) uid = None"
  by (auto simp: take_session_def upstream_take_def split: option.splits)

lemma take_session_upstream [simp]:
  "ps_upstream_tokens (snd (take_session uid p)) = fmdrop uid (ps_upstream_tokens p)"
  by (auto simp: take_session_def upstream_take_def split: option.splits)

lemma take_session_frame [simp]:
  "ps_registry (snd (take_session uid p)) = ps_registry p"
  "ps_transactions (snd (take_session uid p)) = ps_transactions p"
  "ps_codes (snd (take_session uid p)) = ps_codes p"
  "rf_retired (ps_refresh_tokens (snd (take_session uid p))) = rf_retired (ps_refresh_tokens p)"
  by (auto simp: take_session_def refresh_remove_by_upstream_def split: prod.split option.split)

lemma take_session_tokens:
  "fst (take_session uid p) \<noteq> None \<Longrightarrow>
     ps_tokens (snd (take_session uid p)) = token_remove_by_upstream uid (ps_tokens p) \<and>
     ps_refresh_tokens (snd (take_session uid p)) =
       refresh_remove_by_upstream uid (ps_refresh_tokens p)"
  by (auto simp: take_session_def split: prod.split option.splits)

text \<open>
  A proxy access token authenticates at \<open>now\<close> when it resolves to a session that is still
  within its deadline; \<open>authenticates\<close> is what the middleware asks.
\<close>

definition authenticates :: "crypto \<Rightarrow> instant \<Rightarrow> string \<Rightarrow> proxy_state \<Rightarrow> secret option" where
  "authenticates C now token p =
     (case fst (token_resolve C now token (ps_tokens p)) of
        None \<Rightarrow> None
      | Some entry \<Rightarrow> upstream_access_token now (te_upstream_id entry) (ps_upstream_tokens p))"

lemma authenticates_iff:
  "authenticates C now token p = Some a \<longleftrightarrow>
     (\<exists>e x ts d. fmlookup (ps_tokens p) (digest C token) = Some (e, x) \<and> x > now \<and>
        fmlookup (ps_upstream_tokens p) (te_upstream_id e) = Some (ts, d) \<and> d > now \<and>
        us_access ts = a)"
  by (auto simp: authenticates_def token_resolve_def Let_def upstream_access_token_Some
      split: option.splits if_splits)

text \<open>The invariant of the bundle: every bounded map is within its cap.\<close>

definition proxy_inv :: "proxy_state \<Rightarrow> bool" where
  "proxy_inv p \<longleftrightarrow> registry_inv (ps_registry p) \<and> fmlen (ps_transactions p) \<le> MAX_ENTRIES \<and>
     code_inv (ps_codes p) \<and> fmlen (ps_tokens p) \<le> MAX_ENTRIES \<and>
     fmlen (ps_upstream_tokens p) \<le> MAX_ENTRIES \<and>
     fmlen (rf_current (ps_refresh_tokens p)) \<le> MAX_ENTRIES \<and>
     fmlen (rf_retired (ps_refresh_tokens p)) \<le> MAX_ENTRIES"

lemma proxy_inv_new: "proxy_inv proxy_new"
  by (simp add: proxy_inv_def proxy_new_def registry_inv_new code_inv_new txn_new_def token_new_def
      upstream_new_def refresh_new_def)

lemma register_client_inv: "proxy_inv p \<Longrightarrow> proxy_inv (snd (register_client now r uris name p))"
  by (auto simp: proxy_inv_def register_client_def Let_def split: prod.split
      dest: register_inv [of "ps_registry p" now r uris name])
    (metis register_inv snd_conv)

lemma take_session_inv: "proxy_inv p \<Longrightarrow> proxy_inv (snd (take_session uid p))"
  by (auto simp: proxy_inv_def take_session_def upstream_take_def token_remove_by_upstream_def
      refresh_remove_by_upstream_def split: option.split
      intro: order_trans [OF fmlen_fmdrop_le] order_trans [OF fmlen_retain_le])

lemma sweep_expired_sessions_inv: "proxy_inv p \<Longrightarrow> proxy_inv (snd (sweep_expired_sessions now p))"
  by (auto simp: proxy_inv_def sweep_expired_sessions_def upstream_sweep_expired_def
      intro: order_trans [OF fmlen_retain_le])

section \<open>Properties\<close>


definition example_proxy :: proxy_state where
  "example_proxy = proxy_new\<lparr>
     ps_upstream_tokens := fmupd ''s'' (example_set, from_hours 720) fmempty,
     ps_tokens := fmupd ''rup_at_a'' (\<lparr>te_upstream_id = ''s'', te_client_id = ''c''\<rparr>, from_hours 1) fmempty\<rparr>"


text \<open>
  A live client is never evicted. A registration, however many of them an attacker makes,
  keeps every client that still owns an unexpired access or refresh token, with the same
  registered redirect URIs (unless the random draw repeats that client's id).
\<close>

theorem live_client_survives_registration:
  assumes "registry_get cid (ps_registry p) = Some c" and "mint_client_id r \<noteq> Some cid"
    and "(\<exists>k e x. fmlookup (ps_tokens p) k = Some (e, x) \<and> now < x \<and> te_client_id e = cid) \<or>
         (\<exists>k o' x. fmlookup (rf_current (ps_refresh_tokens p)) k = Some (o', x) \<and> now < x \<and>
            ro_client_id o' = cid)"
  shows "registry_get cid (ps_registry (snd (register_client now r uris name p))) = Some c"
proof -
  let ?live = "token_live_client_ids now (ps_tokens p) |\<union>| refresh_live_client_ids now (ps_refresh_tokens p)"
  obtain e where e: "fmlookup (ps_registry p) cid = Some e" "re_registration e = c"
    using assms(1) by (auto simp: registry_get_def)
  have "cid |\<in>| ?live"
    using assms(3) by (auto simp: token_live_client_ids_iff refresh_live_client_ids_iff)
  then have "keep_entry now ?live cid e" by (simp add: keep_entry_def)
  then have "fmlookup (snd (registry_register now r uris name ?live (ps_registry p))) cid = Some e"
    using register_keeps [OF e(1) _ assms(2)] by blast
  then show ?thesis using e(2)
    by (auto simp: register_client_def registry_get_def Let_def split: prod.split)
qed

definition example_client :: client_registration where
  "example_client = \<lparr>cr_client_id = ''c'', cr_redirect_uris = [''http://localhost:1/''], cr_client_name = None\<rparr>"

theorem live_client_survives_registration_witness:
  "registry_get ''c'' (ps_registry (snd (register_client 0 (Some ''zz'') [] None
     (example_proxy\<lparr>ps_registry := fmupd ''c'' \<lparr>re_registration = example_client, re_last_seen = 0\<rparr> fmempty\<rparr>))))
   = Some example_client"
proof (rule live_client_survives_registration)
  show "registry_get ''c'' (ps_registry (example_proxy\<lparr>ps_registry :=
      fmupd ''c'' \<lparr>re_registration = example_client, re_last_seen = 0\<rparr> fmempty\<rparr>)) = Some example_client"
    by (simp add: registry_get_def)
  show "mint_client_id (Some ''zz'') \<noteq> Some ''c''"
    using length_hex_bytes [of "''zz''"] by (auto simp: mint_client_id_def)
qed (auto simp: example_proxy_def proxy_new_def duration_defs)

end
