(* ===== verification/Scopes.thy ===== *)
theory Scopes
  imports Prelude
begin

text \<open>
  The OAuth scope catalogue (\<^verbatim>\<open>oauth/scopes.rs\<close>): the four scope lists, the set a
  deployment mode advertises and the narrowing by \<^verbatim>\<open>REDMINE_MCP_SCOPES\<close>.
\<close>

type_synonym scope = string

definition READ_SCOPES :: "scope list" where
  "READ_SCOPES =
    [''view_project'', ''search_project'', ''view_members'', ''view_issues'', ''view_documents'',
     ''view_files'', ''view_wiki_pages'', ''view_time_entries'', ''view_private_notes'',
     ''view_issue_watchers'']"

definition WRITE_SCOPES :: "scope list" where
  "WRITE_SCOPES =
    [''add_issues'', ''edit_issues'', ''delete_issues'', ''manage_subtasks'',
     ''manage_issue_relations'', ''add_issue_watchers'', ''delete_issue_watchers'',
     ''add_issue_notes'', ''edit_issue_notes'', ''set_notes_private'', ''log_time'',
     ''edit_time_entries'', ''manage_versions'', ''manage_categories'', ''manage_wiki'',
     ''edit_wiki_pages'', ''rename_wiki_pages'', ''delete_wiki_pages'', ''add_documents'',
     ''edit_documents'', ''delete_documents'', ''manage_files'', ''manage_members'']"

definition AGILE_READ_SCOPES :: "scope list" where
  "AGILE_READ_SCOPES = [''view_agile_queries'']"

definition TAGS_READ_SCOPES :: "scope list" where
  "TAGS_READ_SCOPES = [''view_issue_tags'']"

definition TAGS_WRITE_SCOPES :: "scope list" where
  "TAGS_WRITE_SCOPES = [''create_issue_tags'', ''edit_issue_tags'']"

lemmas scope_lists = READ_SCOPES_def WRITE_SCOPES_def AGILE_READ_SCOPES_def TAGS_READ_SCOPES_def
  TAGS_WRITE_SCOPES_def

definition advertised :: "bool \<Rightarrow> bool \<Rightarrow> bool \<Rightarrow> scope list" where
  "advertised read_only agile tags =
     READ_SCOPES @ (if \<not> read_only then WRITE_SCOPES else []) @
     (if agile then AGILE_READ_SCOPES else []) @
     (if tags then TAGS_READ_SCOPES @ (if \<not> read_only then TAGS_WRITE_SCOPES else []) else [])"

text \<open>
  The filter whose closure also inserts into \<^verbatim>\<open>seen_invalid\<close>: the scopes outside \<open>full\<close>, each at
  its first occurrence.
\<close>

fun collect_invalid :: "scope list \<Rightarrow> scope set \<Rightarrow> scope list \<Rightarrow> scope list" where
  "collect_invalid full seen [] = []"
| "collect_invalid full seen (s # rest) =
     (if s \<notin> set full \<and> s \<notin> seen then s # collect_invalid full (insert s seen) rest
      else collect_invalid full seen rest)"

definition narrow :: "scope list \<Rightarrow> string \<Rightarrow> string + scope list" where
  "narrow full raw =
     (let requested = split_whitespace raw;
          invalid = collect_invalid full {} requested
      in if invalid \<noteq> []
         then Inl (''contains scope(s) not advertised in this mode: '' @ join '', '' invalid
                   @ ''. Allowed: '' @ join '', '' full)
         else Inr (filter (\<lambda>s. s \<in> set requested) full))"

section \<open>Lemmas\<close>

lemma collect_invalid_set: "set (collect_invalid full seen xs) = set xs - set full - seen"
  by (induction full seen xs rule: collect_invalid.induct) auto

lemma collect_invalid_distinct: "distinct (collect_invalid full seen xs)"
  by (induction full seen xs rule: collect_invalid.induct) (auto simp: collect_invalid_set)

lemma collect_invalid_empty: "collect_invalid full {} xs = [] \<longleftrightarrow> set xs \<subseteq> set full"
  using collect_invalid_set [of full "{}" xs] by (metis Diff_empty Diff_eq_empty_iff set_empty)

lemma narrow_Inr_iff:
  "narrow full raw = Inr xs \<longleftrightarrow>
     set (split_whitespace raw) \<subseteq> set full \<and> xs = filter (\<lambda>s. s \<in> set (split_whitespace raw)) full"
  by (auto simp: narrow_def Let_def collect_invalid_empty)

lemma advertised_distinct: "distinct (advertised ro agile tags)"
  by (cases ro; cases agile; cases tags) (simp_all add: advertised_def scope_lists)

text \<open>
  Narrowing: \<^verbatim>\<open>REDMINE_MCP_SCOPES\<close> is accepted exactly when every requested scope is in the
  mode's advertised list; the result then has exactly the requested scopes, without duplicates
  and in the advertised order, so that it depends only on the set of scopes requested. In
  every mode \<open>admin\<close> is never in it, and a read-only mode never yields a write scope.
\<close>

theorem narrow_exact:
  fixes ro agile tags raw
  defines "full \<equiv> advertised ro agile tags"
  shows "((\<exists>xs. narrow full raw = Inr xs) \<longleftrightarrow> set (split_whitespace raw) \<subseteq> set full) \<and>
    (\<forall>xs. narrow full raw = Inr xs \<longrightarrow>
       set xs = set (split_whitespace raw) \<and> distinct xs \<and> sorted_wrt (\<lambda>a b. \<exists>i j. i < j \<and>
         j < length full \<and> full ! i = a \<and> full ! j = b) xs \<and> ''admin'' \<notin> set xs \<and>
       (ro \<longrightarrow> set xs \<inter> set (WRITE_SCOPES @ TAGS_WRITE_SCOPES) = {}) \<and>
       (\<forall>raw'. set (split_whitespace raw') = set (split_whitespace raw) \<longrightarrow> narrow full raw' = Inr xs))"
proof -
  have ord: "sorted_wrt (\<lambda>a b. \<exists>i j. i < j \<and> j < length full \<and> full ! i = a \<and> full ! j = b)
      (filter P full)" for P
    by (rule sorted_wrt_filter) (auto simp: sorted_wrt_iff_nth_less)
  have adm: "''admin'' \<notin> set full"
    by (simp add: full_def advertised_def scope_lists)
  have wr: "set full \<inter> set (WRITE_SCOPES @ TAGS_WRITE_SCOPES) = {}" if ro
    using that by (auto simp: full_def advertised_def scope_lists)
  have dist: "distinct full" unfolding full_def by (rule advertised_distinct)
  show ?thesis
    using ord adm wr dist by (auto simp: narrow_Inr_iff)
qed

text \<open>The hypotheses hold: in read-only mode with tags, two scopes given out of order.\<close>

theorem narrow_exact_witness:
  "narrow (advertised True False True) ''view_issue_tags view_project'' =
     Inr [''view_project'', ''view_issue_tags''] \<and>
   set [''view_project'', ''view_issue_tags''] = set (split_whitespace ''view_issue_tags view_project'')"
proof -
  have n: "narrow (advertised True False True) ''view_issue_tags view_project'' =
     Inr [''view_project'', ''view_issue_tags'']"
    by (simp add: narrow_def advertised_def scope_lists split_whitespace_def is_whitespace_def
        byte_of_def Let_def)
  then show ?thesis
    using narrow_exact [of True False True "''view_issue_tags view_project''"] by blast
qed

end
