(* ===== verification/Redirect.thy ===== *)
theory Redirect
  imports Prelude
begin

text \<open>
  Redirect-URI allowlisting (\<^verbatim>\<open>oauth/proxy/redirect.rs\<close>): patterns parsed into components, the
  component matcher, the unconditional floor and the policy. The \<^verbatim>\<open>url\<close> crate is third-party:
  \<^verbatim>\<open>Url::parse\<close> is an argument of the definitions, and \<open>url\<close> holds what they read of its result.
\<close>

record url =
  url_scheme :: string
  url_username :: string
  url_password :: "string option"
  url_host_str :: "string option"
  url_port_or_known_default :: "16 word option"
  url_path :: string
  url_fragment :: "string option"

type_synonym url_parse = "string \<Rightarrow> url option"

datatype host = HostExact string | HostSuffix string

datatype port = PortAny | PortExact "16 word"

datatype path_match = PathExact string | PathPrefix string

record redirect_pattern =
  rp_scheme :: string
  rp_host :: host
  rp_port :: port
  rp_path :: path_match

text \<open>One constructor per message of \<^verbatim>\<open>RedirectPattern::parse\<close>, with the strings it prints.\<close>

datatype pattern_error =
    NoSchemePrefix string
  | BadScheme string
  | HasUserinfo string
  | HasQuery string
  | HasFragment string
  | NoHost string
  | BadWildcardHost string
  | InvalidPort string string

definition default_port :: "string \<Rightarrow> 16 word" where
  "default_port scheme = (if scheme = ''https'' then 443 else 80)"

section \<open>Number parsing in the standard library\<close>

definition digit_val :: "nat \<Rightarrow> char \<Rightarrow> nat option" where
  "digit_val radix c =
     (let b = byte_of c;
          v = (if 48 \<le> b \<and> b \<le> 57 then Some (b - 48)
               else if 97 \<le> b \<and> b \<le> 122 then Some (b - 87)
               else if 65 \<le> b \<and> b \<le> 90 then Some (b - 55) else None)
      in case v of Some n \<Rightarrow> if n < radix then Some n else None | None \<Rightarrow> None)"

text \<open>The accumulating loop of \<^verbatim>\<open>from_str_radix\<close>, with its overflow check against \<open>lim\<close>.\<close>

fun digits_value :: "nat \<Rightarrow> nat \<Rightarrow> nat \<Rightarrow> string \<Rightarrow> nat option" where
  "digits_value radix lim acc [] = Some acc"
| "digits_value radix lim acc (c # cs) =
     (case digit_val radix c of
        None \<Rightarrow> None
      | Some d \<Rightarrow> if acc * radix + d \<le> lim then digits_value radix lim (acc * radix + d) cs else None)"

text \<open>\<^verbatim>\<open>str::parse::<u16>\<close>: an optional leading plus, then at least one decimal digit.\<close>

definition parse_u16 :: "string \<Rightarrow> 16 word option" where
  "parse_u16 s =
     (let ds = (case s of c # cs \<Rightarrow> if c = CHR ''+'' then cs else s | [] \<Rightarrow> s)
      in if ds = [] then None else map_option of_nat (digits_value 10 65535 0 ds))"

section \<open>Patterns\<close>

definition parse_host :: "string \<Rightarrow> string \<Rightarrow> pattern_error + host" where
  "parse_host raw host_part =
     (case strip_prefix host_part ''*.'' of
        Some label \<Rightarrow>
          if label = [] \<or> CHR ''*'' \<in> set label then Inl (BadWildcardHost raw)
          else Inr (HostSuffix (to_ascii_lowercase label))
      | None \<Rightarrow>
          if CHR ''*'' \<in> set host_part then Inl (BadWildcardHost raw)
          else Inr (HostExact (to_ascii_lowercase host_part)))"

definition parse_port :: "string \<Rightarrow> string \<Rightarrow> string option \<Rightarrow> pattern_error + port" where
  "parse_port raw scheme port_part =
     (case port_part of
        None \<Rightarrow> Inr (PortExact (default_port scheme))
      | Some digits \<Rightarrow>
          if digits = ''*'' then Inr PortAny
          else case parse_u16 digits of
              None \<Rightarrow> Inl (InvalidPort raw digits)
            | Some p \<Rightarrow> Inr (PortExact p))"

definition parse_path :: "string \<Rightarrow> path_match" where
  "parse_path path =
     (case strip_suffix path ''*'' of
        Some pre \<Rightarrow> PathPrefix pre
      | None \<Rightarrow> if path = [] then PathPrefix [] else PathExact path)"

definition parse_authority :: "string \<Rightarrow> string \<Rightarrow> string \<Rightarrow> pattern_error + redirect_pattern" where
  "parse_authority raw scheme rest =
     (let (authority, path) =
            (case split_once rest ''/'' of Some (a, p) \<Rightarrow> (a, CHR ''/'' # p) | None \<Rightarrow> (rest, []))
      in if authority = [] then Inl (NoHost raw)
         else
           let (host_part, port_part) =
                 (case split_once authority '':'' of
                    Some (h, p) \<Rightarrow> (h, Some p) | None \<Rightarrow> (authority, None))
           in case parse_host raw host_part of
                Inl e \<Rightarrow> Inl e
              | Inr h \<Rightarrow>
                  (case parse_port raw scheme port_part of
                     Inl e \<Rightarrow> Inl e
                   | Inr p \<Rightarrow> Inr \<lparr>rp_scheme = scheme, rp_host = h, rp_port = p,
                                   rp_path = parse_path path\<rparr>))"

definition pattern_parse :: "string \<Rightarrow> pattern_error + redirect_pattern" where
  "pattern_parse raw =
     (case split_once raw ''://'' of
        None \<Rightarrow> Inl (NoSchemePrefix raw)
      | Some (scheme, rest) \<Rightarrow>
          if scheme \<noteq> ''http'' \<and> scheme \<noteq> ''https'' then Inl (BadScheme scheme)
          else if CHR ''@'' \<in> set rest then Inl (HasUserinfo raw)
          else if CHR ''?'' \<in> set rest then Inl (HasQuery raw)
          else if CHR ''#'' \<in> set rest then Inl (HasFragment raw)
          else parse_authority raw scheme rest)"

definition host_matches :: "host \<Rightarrow> string \<Rightarrow> bool" where
  "host_matches h host =
     (case h of
        HostExact exact \<Rightarrow> host = exact
      | HostSuffix suffix \<Rightarrow>
          (case strip_suffix host suffix of Some pre \<Rightarrow> ends_with pre ''.'' | None \<Rightarrow> False))"

definition port_matches :: "port \<Rightarrow> 16 word option \<Rightarrow> bool" where
  "port_matches p actual = (case p of PortAny \<Rightarrow> True | PortExact n \<Rightarrow> actual = Some n)"

definition path_matches :: "path_match \<Rightarrow> string \<Rightarrow> bool" where
  "path_matches m path = (case m of PathExact e \<Rightarrow> path = e | PathPrefix pre \<Rightarrow> starts_with path pre)"

definition pattern_matches :: "redirect_pattern \<Rightarrow> url \<Rightarrow> bool" where
  "pattern_matches self u =
     (if url_scheme u \<noteq> rp_scheme self then False
      else case url_host_str u of
          None \<Rightarrow> False
        | Some host \<Rightarrow>
            if \<not> host_matches (rp_host self) (to_ascii_lowercase host) then False
            else if \<not> port_matches (rp_port self) (url_port_or_known_default u) then False
            else path_matches (rp_path self) (url_path u))"

section \<open>IP literals in the standard library\<close>

text \<open>
  The recursive-descent parser behind \<^verbatim>\<open>str::parse::<IpAddr>\<close>. Each reader returns the value
  and the rest of the input, or \<open>None\<close> and consumes nothing.
\<close>

fun span_digits :: "nat \<Rightarrow> string \<Rightarrow> nat list \<times> string" where
  "span_digits radix [] = ([], [])"
| "span_digits radix (c # cs) =
     (case digit_val radix c of
        None \<Rightarrow> ([], c # cs)
      | Some d \<Rightarrow> let (ds, rest) = span_digits radix cs in (d # ds, rest))"

definition read_number :: "nat \<Rightarrow> nat \<Rightarrow> nat \<Rightarrow> bool \<Rightarrow> string \<Rightarrow> (nat \<times> string) option" where
  "read_number radix max_digits lim allow_zero_prefix s =
     (let (ds, rest) = span_digits radix s;
          v = fold (\<lambda>d acc. acc * radix + d) ds 0
      in if ds = [] \<or> length ds > max_digits \<or> v > lim \<or>
            (\<not> allow_zero_prefix \<and> hd ds = 0 \<and> length ds > 1)
         then None else Some (v, rest))"

definition read_char :: "char \<Rightarrow> string \<Rightarrow> string option" where
  "read_char c s = (case s of x # xs \<Rightarrow> if x = c then Some xs else None | [] \<Rightarrow> None)"

definition read_separator :: "char \<Rightarrow> nat \<Rightarrow> (string \<Rightarrow> ('a \<times> string) option) \<Rightarrow> string \<Rightarrow> ('a \<times> string) option" where
  "read_separator sep i inner s =
     (if i > 0 then (case read_char sep s of None \<Rightarrow> None | Some r \<Rightarrow> inner r) else inner s)"

text \<open>The octets from index \<open>i\<close> on, \<open>n\<close> of them.\<close>

fun read_octets :: "nat \<Rightarrow> nat \<Rightarrow> string \<Rightarrow> (nat list \<times> string) option" where
  "read_octets 0 i s = Some ([], s)"
| "read_octets (Suc n) i s =
     (case read_separator CHR ''.'' i (read_number 10 3 255 False) s of
        None \<Rightarrow> None
      | Some (v, r) \<Rightarrow> map_option (\<lambda>(vs, r'). (v # vs, r')) (read_octets n (i + 1) r))"

definition read_ipv4_addr :: "string \<Rightarrow> (nat list \<times> string) option" where
  "read_ipv4_addr s = read_octets 4 0 s"

text \<open>
  \<^verbatim>\<open>read_groups\<close>: \<open>n\<close> group slots remain, the next has index \<open>i\<close>. The result says which groups
  were read and whether the last two came from an embedded IPv4 address.
\<close>

fun read_groups :: "nat \<Rightarrow> nat \<Rightarrow> string \<Rightarrow> nat list \<times> bool \<times> string" where
  "read_groups 0 i s = ([], False, s)"
| "read_groups (Suc n) i s =
     (case (if n > 0 then read_separator CHR '':'' i read_ipv4_addr s else None) of
        Some (v4, r) \<Rightarrow> ([v4 ! 0 * 256 + v4 ! 1, v4 ! 2 * 256 + v4 ! 3], True, r)
      | None \<Rightarrow>
          (case read_separator CHR '':'' i (read_number 16 4 65535 True) s of
             None \<Rightarrow> ([], False, s)
           | Some (g, r) \<Rightarrow>
               let (gs, v4, r') = read_groups n (i + 1) r in (g # gs, v4, r')))"

definition read_ipv6_addr :: "string \<Rightarrow> (nat list \<times> string) option" where
  "read_ipv6_addr s =
     (let (head, head_ipv4, r) = read_groups 8 0 s
      in if length head = 8 then Some (head, r)
         else if head_ipv4 then None
         else case read_char CHR '':'' r of
             None \<Rightarrow> None
           | Some r1 \<Rightarrow>
               (case read_char CHR '':'' r1 of
                  None \<Rightarrow> None
                | Some r2 \<Rightarrow>
                    let (tail, _, r3) = read_groups (8 - (length head + 1)) 0 r2
                    in Some (head @ replicate (8 - length head - length tail) 0 @ tail, r3)))"

datatype ip_addr = V4 "nat list" | V6 "nat list"

definition parse_ip_addr :: "string \<Rightarrow> ip_addr option" where
  "parse_ip_addr s =
     (case (case read_ipv4_addr s of
              Some (o4, r) \<Rightarrow> Some (V4 o4, r)
            | None \<Rightarrow> map_option (\<lambda>(gs, r). (V6 gs, r)) (read_ipv6_addr s)) of
        Some (a, r) \<Rightarrow> if r = [] then Some a else None
      | None \<Rightarrow> None)"

definition ip_is_loopback :: "ip_addr \<Rightarrow> bool" where
  "ip_is_loopback a = (case a of V4 os \<Rightarrow> os ! 0 = 127 | V6 gs \<Rightarrow> gs = [0, 0, 0, 0, 0, 0, 0, 1])"

section \<open>The floor and the policy\<close>

datatype redirect_policy = Loopback | Any | Patterns "redirect_pattern list"

definition loopback_patterns :: "redirect_pattern list" where
  "loopback_patterns =
     [\<lparr>rp_scheme = ''http'', rp_host = HostExact ''localhost'', rp_port = PortAny, rp_path = PathPrefix []\<rparr>,
      \<lparr>rp_scheme = ''http'', rp_host = HostExact ''127.0.0.1'', rp_port = PortAny, rp_path = PathPrefix []\<rparr>]"

definition is_loopback_host :: "string \<Rightarrow> bool" where
  "is_loopback_host host =
     (let bare = trim_end_matches CHR '']'' (trim_start_matches CHR ''['' host)
      in eq_ignore_ascii_case bare ''localhost'' \<or>
         (case parse_ip_addr bare of Some ip \<Rightarrow> ip_is_loopback ip | None \<Rightarrow> False))"

definition validate_floor :: "url_parse \<Rightarrow> string \<Rightarrow> url option" where
  "validate_floor U candidate =
     (case U candidate of
        None \<Rightarrow> None
      | Some u \<Rightarrow>
          if url_scheme u \<noteq> ''http'' \<and> url_scheme u \<noteq> ''https'' then None
          else if url_username u \<noteq> [] \<or> url_password u \<noteq> None then None
          else if url_fragment u \<noteq> None then None
          else case url_host_str u of
              None \<Rightarrow> None
            | Some host \<Rightarrow>
                if url_scheme u = ''http'' \<and> \<not> is_loopback_host host then None else Some u)"

definition permits :: "url_parse \<Rightarrow> redirect_policy \<Rightarrow> string \<Rightarrow> bool" where
  "permits U self candidate =
     (case validate_floor U candidate of
        None \<Rightarrow> False
      | Some u \<Rightarrow>
          (case self of
             Loopback \<Rightarrow> \<exists>p \<in> set loopback_patterns. pattern_matches p u
           | Any \<Rightarrow> True
           | Patterns patterns \<Rightarrow> \<exists>p \<in> set patterns. pattern_matches p u))"

section \<open>Lemmas\<close>

lemma to_ascii_lower_idem [simp]: "to_ascii_lower (to_ascii_lower c) = to_ascii_lower c"
proof (cases "65 \<le> byte_of c \<and> byte_of c \<le> 90")
  case True
  then show ?thesis by (simp add: to_ascii_lower_def byte_of_def)
next
  case False
  then have "to_ascii_lower c = c" unfolding to_ascii_lower_def by (rule if_not_P)
  then show ?thesis by simp
qed

lemma to_ascii_lowercase_idem [simp]: "to_ascii_lowercase (to_ascii_lowercase s) = to_ascii_lowercase s"
  by (simp add: to_ascii_lowercase_def)

text \<open>Lower-casing only touches the letters: a character outside A--Z and a--z is never produced.\<close>

lemma to_ascii_lower_eqD:
  assumes "to_ascii_lower c = d" and "byte_of d < 97 \<or> byte_of d > 122"
  shows "c = d"
proof (cases "65 \<le> byte_of c \<and> byte_of c \<le> 90")
  case True
  then have "byte_of d = byte_of c + 32"
    using assms(1) by (auto simp: to_ascii_lower_def byte_of_def)
  then show ?thesis using True assms(2) by simp
next
  case False
  then have "to_ascii_lower c = c" unfolding to_ascii_lower_def by (rule if_not_P)
  then show ?thesis using assms(1) by simp
qed

lemma star_notin_lower [simp]: "CHR ''*'' \<in> set (to_ascii_lowercase s) \<longleftrightarrow> CHR ''*'' \<in> set s"
proof
  assume "CHR ''*'' \<in> set (to_ascii_lowercase s)"
  then obtain c where "c \<in> set s" "to_ascii_lower c = CHR ''*''"
    by (auto simp: to_ascii_lowercase_def)
  then show "CHR ''*'' \<in> set s"
    using to_ascii_lower_eqD [of c "CHR ''*''"] by (simp add: byte_of_def)
next
  assume "CHR ''*'' \<in> set s"
  then have "to_ascii_lower CHR ''*'' \<in> set (to_ascii_lowercase s)" by (simp add: to_ascii_lowercase_def)
  then show "CHR ''*'' \<in> set (to_ascii_lowercase s)" by (simp add: to_ascii_lower_def byte_of_def)
qed

lemma parse_host_cases:
  assumes "parse_host raw part = Inr h"
  obtains (Suffix) label where "part = ''*.'' @ label" "label \<noteq> []" "CHR ''*'' \<notin> set label"
      "h = HostSuffix (to_ascii_lowercase label)"
  | (Exact) "CHR ''*'' \<notin> set part" "h = HostExact (to_ascii_lowercase part)"
  using assms by (auto simp: parse_host_def strip_prefix_Some split: option.splits if_splits)

definition host_text :: "host \<Rightarrow> string" where
  "host_text h = (case h of HostExact s \<Rightarrow> s | HostSuffix s \<Rightarrow> s)"

text \<open>What a parsed pattern is guaranteed to look like.\<close>

definition wf_pattern :: "redirect_pattern \<Rightarrow> bool" where
  "wf_pattern p \<longleftrightarrow> rp_scheme p \<in> {''http'', ''https''} \<and>
     CHR ''*'' \<notin> set (host_text (rp_host p)) \<and>
     to_ascii_lowercase (host_text (rp_host p)) = host_text (rp_host p) \<and>
     rp_host p \<noteq> HostSuffix []"

lemma parse_host_wf:
  "parse_host raw part = Inr h \<Longrightarrow>
     CHR ''*'' \<notin> set (host_text h) \<and> to_ascii_lowercase (host_text h) = host_text h \<and>
     h \<noteq> HostSuffix []"
  by (erule parse_host_cases) (auto simp: host_text_def, auto simp: to_ascii_lowercase_def)

lemma parse_authority_Inr:
  assumes "parse_authority raw scheme rest = Inr p"
  obtains part where "parse_host raw part = Inr (rp_host p)" and "rp_scheme p = scheme"
proof -
  obtain authority path where ap: "(case split_once rest ''/'' of Some (a, p) \<Rightarrow> (a, CHR ''/'' # p)
      | None \<Rightarrow> (rest, [])) = (authority, path)" by fastforce
  obtain part pp where hp: "(case split_once authority '':'' of Some (h, p) \<Rightarrow> (h, Some p)
      | None \<Rightarrow> (authority, None)) = (part, pp)" by fastforce
  show thesis
    using assms that [of part]
    by (auto simp: parse_authority_def ap hp Let_def split: if_splits sum.splits)
qed

lemma pattern_parse_wf: "pattern_parse raw = Inr p \<Longrightarrow> wf_pattern p"
  by (auto simp: pattern_parse_def wf_pattern_def split: option.splits if_splits
      elim!: parse_authority_Inr dest: parse_host_wf)

lemma pattern_matches_iff:
  "pattern_matches p u \<longleftrightarrow> url_scheme u = rp_scheme p \<and>
     (\<exists>h. url_host_str u = Some h \<and> host_matches (rp_host p) (to_ascii_lowercase h)) \<and>
     port_matches (rp_port p) (url_port_or_known_default u) \<and> path_matches (rp_path p) (url_path u)"
  by (auto simp: pattern_matches_def split: option.splits)

lemma host_matches_suffix:
  "host_matches (HostSuffix s) h \<longleftrightarrow> (\<exists>pre. h = pre @ ''.'' @ s)"
proof
  assume "host_matches (HostSuffix s) h"
  then obtain pre where "strip_suffix h s = Some pre" "ends_with pre ''.''"
    by (auto simp: host_matches_def split: option.splits)
  moreover then obtain q where "strip_suffix pre ''.'' = Some q"
    by (simp add: strip_suffix_def)
  ultimately show "\<exists>pre. h = pre @ ''.'' @ s" by (auto simp: strip_suffix_Some)
next
  assume "\<exists>pre. h = pre @ ''.'' @ s"
  then obtain pre where "h = (pre @ ''.'') @ s" by auto
  then have "strip_suffix h s = Some (pre @ ''.'')" by (simp add: strip_suffix_Some)
  then show "host_matches (HostSuffix s) h" by (simp add: host_matches_def)
qed

lemma validate_floor_Some:
  "validate_floor U c = Some u \<longleftrightarrow>
     U c = Some u \<and> url_username u = [] \<and> url_password u = None \<and> url_fragment u = None \<and>
     (\<exists>h. url_host_str u = Some h \<and>
        (url_scheme u = ''https'' \<or> url_scheme u = ''http'' \<and> is_loopback_host h))"
  by (cases "U c") (auto simp: validate_floor_def split: option.splits)

lemma permits_Any: "permits U Any c \<longleftrightarrow> (\<exists>u. validate_floor U c = Some u)"
  by (simp add: permits_def split: option.split)

lemma permits_imp_Any: "permits U pol c \<Longrightarrow> permits U Any c"
  by (auto simp: permits_def split: option.splits)

section \<open>Dotted quads\<close>

definition dec_octet :: "nat \<Rightarrow> string" where
  "dec_octet n =
     (if n < 10 then [char_of (48 + n)]
      else if n < 100 then [char_of (48 + n div 10), char_of (48 + n mod 10)]
      else [char_of (48 + n div 100), char_of (48 + n div 10 mod 10), char_of (48 + n mod 10)])"

definition dotted_quad :: "nat \<Rightarrow> nat \<Rightarrow> nat \<Rightarrow> nat \<Rightarrow> string" where
  "dotted_quad a b c d = dec_octet a @ ''.'' @ dec_octet b @ ''.'' @ dec_octet c @ ''.'' @ dec_octet d"

definition no_digit :: "string \<Rightarrow> bool" where
  "no_digit r \<longleftrightarrow> (r = [] \<or> digit_val 10 (hd r) = None)"

lemma digit_val_dec [simp]: "d < 10 \<Longrightarrow> digit_val 10 (char_of (48 + d)) = Some d"
  by (simp add: digit_val_def byte_of_def Let_def)

lemma span_digits_stop: "no_digit r \<Longrightarrow> span_digits 10 r = ([], r)"
  by (cases r) (auto simp: no_digit_def)

lemma span_digits_dec: "d < 10 \<Longrightarrow> span_digits 10 (char_of (48 + d) # r) =
    (let (ds, rest) = span_digits 10 r in (d # ds, rest))"
  by simp

lemma dec_split: "(n div 100 * 10 + n div 10 mod 10) * 10 + n mod 10 = (n :: nat)"
proof -
  have "n div 100 = n div 10 div 10" by (simp add: div_mult2_eq [symmetric])
  then show ?thesis by (simp only: div_mult_mod_eq)
qed

lemma read_number_dec:
  assumes "n < 256" and "no_digit r"
  shows "read_number 10 3 255 False (dec_octet n @ r) = Some (n, r)"
proof -
  consider "n < 10" | "10 \<le> n" "n < 100" | "100 \<le> n" by linarith
  then show ?thesis
  proof cases
    case 1
    then show ?thesis
      using span_digits_stop [OF assms(2)] by (simp add: read_number_def dec_octet_def)
  next
    case 2
    then have "n div 10 < 10" "n mod 10 < 10" "n div 10 > 0" by auto
    then show ?thesis
      using span_digits_stop [OF assms(2)] 2 by (simp add: read_number_def dec_octet_def)
  next
    case 3
    then have "n div 100 < 10" "n div 10 mod 10 < 10" "n mod 10 < 10" "n div 100 > 0"
      using assms(1) by auto
    then show ?thesis
      using span_digits_stop [OF assms(2)] 3 dec_split [of n] assms(1)
      by (simp add: read_number_def dec_octet_def)
  qed
qed

lemma no_digit_dot [simp]: "no_digit (CHR ''.'' # r)"
  by (simp add: no_digit_def digit_val_def byte_of_def Let_def)

lemma read_ipv4_dotted:
  assumes "a < 256" "b < 256" "c < 256" "d < 256"
  shows "read_ipv4_addr (dotted_quad a b c d) = Some ([a, b, c, d], [])"
proof -
  have four: "(4 :: nat) = Suc (Suc (Suc (Suc 0)))" by simp
  have last: "read_number 10 3 255 False (dec_octet d) = Some (d, [])"
    using read_number_dec [of d "[]"] assms(4) by (simp add: no_digit_def)
  show ?thesis
    unfolding read_ipv4_addr_def dotted_quad_def four
    using assms last by (simp add: read_separator_def read_char_def read_number_dec)
qed

text \<open>A rendered octet is made of digits.\<close>

lemma dec_octet_chars:
  assumes "n < 1000" and "x \<in> set (dec_octet n)"
  shows "48 \<le> byte_of x \<and> byte_of x \<le> 57"
proof -
  have "n div 100 < 10" "n div 10 mod 10 < 10" "n mod 10 < 10" using assms(1) by auto
  then show ?thesis
    using assms by (auto simp: dec_octet_def byte_of_def split: if_splits)
qed

lemma dec_octet_ne [simp]: "dec_octet n \<noteq> []"
  by (simp add: dec_octet_def)

lemma dotted_quad_ends:
  assumes "a < 256" "d < 256"
  shows "trim_end_matches CHR '']'' (trim_start_matches CHR ''['' (dotted_quad a b c d)) = dotted_quad a b c d"
proof -
  obtain x xs where a: "dec_octet a = x # xs" by (cases "dec_octet a") auto
  obtain ys y where d: "dec_octet d = ys @ [y]" by (cases "dec_octet d" rule: rev_cases) auto
  have "byte_of x \<le> 57" "byte_of y \<le> 57"
    using dec_octet_chars [of a x] dec_octet_chars [of d y] assms a d by auto
  then have "x \<noteq> CHR ''[''" "y \<noteq> CHR '']''" by (auto simp: byte_of_def)
  moreover have "dotted_quad a b c d = x # (xs @ ''.'' @ dec_octet b @ ''.'' @ dec_octet c @ ''.'' @ ys @ [y])"
    by (simp add: dotted_quad_def a d)
  ultimately show ?thesis
    by (simp add: trim_start_matches_def trim_end_matches_def)
qed

lemma dotted_quad_not_localhost: "\<not> eq_ignore_ascii_case (dotted_quad a b c d) ''localhost''"
proof
  assume "eq_ignore_ascii_case (dotted_quad a b c d) ''localhost''"
  then have "set (to_ascii_lowercase (dotted_quad a b c d)) = set (to_ascii_lowercase ''localhost'')"
    by (simp only: eq_ignore_ascii_case_def)
  moreover have "CHR ''.'' \<in> set (to_ascii_lowercase (dotted_quad a b c d))"
    by (simp add: to_ascii_lowercase_def dotted_quad_def image_Un to_ascii_lower_def byte_of_def)
  ultimately show False
    by (simp add: to_ascii_lowercase_def to_ascii_lower_def byte_of_def)
qed

section \<open>Properties\<close>

text \<open>
  C17. The floor holds under every policy. A URI that any policy permits is an absolute URL
  with a host, without user name, password or fragment, and it is https, or http on a loopback
  host; the wildcard policy permits exactly those, so it widens the allowlist and never the
  floor.
\<close>

theorem redirect_floor:
  "(permits U Any c \<longleftrightarrow>
      (\<exists>u h. U c = Some u \<and> url_host_str u = Some h \<and> url_username u = [] \<and> url_password u = None \<and>
         url_fragment u = None \<and>
         (url_scheme u = ''https'' \<or> url_scheme u = ''http'' \<and> is_loopback_host h))) \<and>
   (permits U pol c \<longrightarrow> permits U Any c)"
  using permits_imp_Any by (auto simp: permits_Any validate_floor_Some)

text \<open>The hypothesis is met by a plain loopback URI under the default policy.\<close>

definition example_url :: url where
  "example_url = \<lparr>url_scheme = ''http'', url_username = [], url_password = None,
     url_host_str = Some ''LocalHost'', url_port_or_known_default = Some 8080, url_path = ''/cb'',
     url_fragment = None\<rparr>"

lemma example_permits: "permits (\<lambda>_. Some example_url) Loopback ''http://LocalHost:8080/cb''"
  by (simp add: permits_def validate_floor_def example_url_def is_loopback_host_def
      trim_start_matches_def trim_end_matches_def eq_ignore_ascii_case_def to_ascii_lowercase_def
      to_ascii_lower_def byte_of_def loopback_patterns_def pattern_matches_def host_matches_def
      port_matches_def path_matches_def starts_with_def Let_def char_of_def bit_Suc_0_iff)

theorem redirect_floor_witness:
  "permits (\<lambda>_. Some example_url) Any ''http://LocalHost:8080/cb'' \<and> is_loopback_host ''LocalHost''"
proof -
  have "permits (\<lambda>_. Some example_url) Any ''http://LocalHost:8080/cb''"
    using redirect_floor [of "\<lambda>_. Some example_url" "''http://LocalHost:8080/cb''" Loopback]
      example_permits by blast
  then show ?thesis
    using redirect_floor [of "\<lambda>_. Some example_url" "''http://LocalHost:8080/cb''" Loopback]
    by (simp add: example_url_def)
qed

text \<open>
  A parsed pattern never matches by accident. Its scheme is http or https and its host text
  is lower case and free of wildcards. A pattern with an exact host matches only that host, up to
  ASCII case; one with a leading wildcard label matches only hosts that end in a dot and the
  suffix, that is at a label boundary, and never the bare apex.
\<close>

theorem pattern_host_boundary:
  assumes "pattern_parse raw = Inr p" and "pattern_matches p u"
  shows "\<exists>h. url_host_str u = Some h \<and> url_scheme u = rp_scheme p \<and>
    rp_scheme p \<in> {''http'', ''https''} \<and> CHR ''*'' \<notin> set (host_text (rp_host p)) \<and>
    (\<forall>e. rp_host p = HostExact e \<longrightarrow> to_ascii_lowercase h = e) \<and>
    (\<forall>s. rp_host p = HostSuffix s \<longrightarrow>
       s \<noteq> [] \<and> (\<exists>pre. to_ascii_lowercase h = pre @ ''.'' @ s) \<and> to_ascii_lowercase h \<noteq> s)"
  using pattern_parse_wf [OF assms(1)] assms(2)
  by (auto simp: pattern_matches_iff wf_pattern_def host_matches_suffix)
    (auto simp: host_matches_def)

definition example_pattern :: redirect_pattern where
  "example_pattern = \<lparr>rp_scheme = ''https'', rp_host = HostSuffix ''example.com'',
     rp_port = PortExact 443, rp_path = PathPrefix ''/cb/''\<rparr>"

definition example_sub_url :: url where
  "example_sub_url = \<lparr>url_scheme = ''https'', url_username = [], url_password = None,
     url_host_str = Some ''a.b.example.com'', url_port_or_known_default = Some 443,
     url_path = ''/cb/x'', url_fragment = None\<rparr>"

theorem pattern_host_boundary_witness:
  "pattern_parse ''https://*.Example.com/cb/*'' = Inr example_pattern \<and>
   pattern_matches example_pattern example_sub_url \<and>
   (\<exists>pre. to_ascii_lowercase ''a.b.example.com'' = pre @ ''.'' @ ''example.com'')"
proof -
  have p: "pattern_parse ''https://*.Example.com/cb/*'' = Inr example_pattern"
    by (simp add: pattern_parse_def parse_authority_def parse_host_def parse_port_def parse_path_def
        example_pattern_def starts_with_def strip_prefix_def strip_suffix_def ends_with_def
        to_ascii_lowercase_def to_ascii_lower_def byte_of_def default_port_def Let_def char_of_def bit_Suc_0_iff)
  have m: "pattern_matches example_pattern example_sub_url"
    by (simp add: example_pattern_def example_sub_url_def pattern_matches_def host_matches_def
        port_matches_def path_matches_def strip_suffix_def ends_with_def starts_with_def
        to_ascii_lowercase_def to_ascii_lower_def byte_of_def)
  show ?thesis
    using pattern_host_boundary [OF p m] p m by (simp add: example_pattern_def example_sub_url_def)
qed

text \<open>
  The default policy is the pattern language applied to two entries: the hand-built loopback
  patterns are what \<open>pattern_parse\<close> makes of \<^verbatim>\<open>http://localhost:*\<close> and
  \<^verbatim>\<open>http://127.0.0.1:*\<close>, so there is one matcher, and they permit exactly http URLs of these two
  hosts, on any port and path, that pass the floor.
\<close>

theorem loopback_policy_is_parsed:
  "map pattern_parse [''http://localhost:*'', ''http://127.0.0.1:*''] = map Inr loopback_patterns \<and>
   (permits U Loopback c \<longleftrightarrow>
      (\<exists>u h. validate_floor U c = Some u \<and> url_scheme u = ''http'' \<and> url_host_str u = Some h \<and>
         to_ascii_lowercase h \<in> {''localhost'', ''127.0.0.1''}))"
proof
  show "map pattern_parse [''http://localhost:*'', ''http://127.0.0.1:*''] = map Inr loopback_patterns"
    by (simp add: pattern_parse_def parse_authority_def parse_host_def parse_port_def parse_path_def
        loopback_patterns_def starts_with_def strip_prefix_def strip_suffix_def ends_with_def
        to_ascii_lowercase_def to_ascii_lower_def byte_of_def Let_def)
  show "permits U Loopback c \<longleftrightarrow>
      (\<exists>u h. validate_floor U c = Some u \<and> url_scheme u = ''http'' \<and> url_host_str u = Some h \<and>
         to_ascii_lowercase h \<in> {''localhost'', ''127.0.0.1''})"
    by (auto simp: permits_def loopback_patterns_def pattern_matches_iff host_matches_def
        port_matches_def path_matches_def starts_with_def split: option.split)
qed

text \<open>
  On IPv4 literals the loopback test is exactly membership in 127.0.0.0/8: the address parser
  reads every canonical dotted quad back as its four octets, and the host counts as loopback
  if and only if the first one is 127.
\<close>

theorem loopback_ipv4:
  assumes "a < 256" "b < 256" "c < 256" "d < 256"
  shows "parse_ip_addr (dotted_quad a b c d) = Some (V4 [a, b, c, d]) \<and>
    (is_loopback_host (dotted_quad a b c d) \<longleftrightarrow> a = 127)"
proof -
  have p: "parse_ip_addr (dotted_quad a b c d) = Some (V4 [a, b, c, d])"
    using read_ipv4_dotted [OF assms] by (simp add: parse_ip_addr_def)
  then show ?thesis
    using dotted_quad_ends [OF assms(1,4)] dotted_quad_not_localhost
    by (simp add: is_loopback_host_def ip_is_loopback_def)
qed

theorem loopback_ipv4_witness:
  "is_loopback_host (dotted_quad 127 0 0 53) \<and> \<not> is_loopback_host (dotted_quad 128 0 0 1)"
  using loopback_ipv4 [of 127 0 0 53] loopback_ipv4 [of 128 0 0 1] by simp

end
