(* ===== verification/Redmine_Error.thy ===== *)
theory Redmine_Error
  imports Prelude
begin

text \<open>
  The typed errors of the Redmine client (\<^verbatim>\<open>redmine-client/src/error.rs\<close>) and the two wire
  models the OAuth code reads (\<^verbatim>\<open>model/introspection.rs\<close>, \<^verbatim>\<open>model/oauth_token.rs\<close>). HTTP status
  codes are natural numbers. Of a transport error only what the code asks of it is kept:
  whether it was a timeout or a connect failure. JSON decoding (\<^verbatim>\<open>serde_json\<close>) is an argument.
\<close>

datatype redmine_error =
    ETransport bool bool
  | EApi nat "string list"
  | EUnauthorized
  | EForbidden
  | ENotFound
  | ERateLimited "duration option"
  | EDecode string
  | EConfig string
  | ELimitExceeded string nat nat
  | EOAuth nat string "string option"
  | EForeignOrigin string

definition is_server_error :: "nat \<Rightarrow> bool" where
  "is_server_error status \<longleftrightarrow> 500 \<le> status \<and> status < 600"

definition is_success :: "nat \<Rightarrow> bool" where
  "is_success status \<longleftrightarrow> 200 \<le> status \<and> status < 300"

fun error_status :: "redmine_error \<Rightarrow> nat option" where
  "error_status (EApi status _) = Some status"
| "error_status (EOAuth status _ _) = Some status"
| "error_status EUnauthorized = Some 401"
| "error_status EForbidden = Some 403"
| "error_status ENotFound = Some 404"
| "error_status (ERateLimited _) = Some 429"
| "error_status (ETransport _ _) = None"
| "error_status (EDecode _) = None"
| "error_status (EConfig _) = None"
| "error_status (ELimitExceeded _ _ _) = None"
| "error_status (EForeignOrigin _) = None"

fun is_retryable :: "redmine_error \<Rightarrow> bool" where
  "is_retryable (ERateLimited _) = True"
| "is_retryable (EApi status _) = is_server_error status"
| "is_retryable (ETransport is_timeout is_connect) = (is_timeout \<or> is_connect)"
| "is_retryable _ = False"

definition oauth_error_from_status ::
    "(string \<Rightarrow> (string \<times> string option) option) \<Rightarrow> nat \<Rightarrow> string \<Rightarrow> redmine_error" where
  "oauth_error_from_status decode status body =
     (case decode body of
        Some (error, description) \<Rightarrow> EOAuth status error description
      | None \<Rightarrow> EOAuth status ''unknown_error'' None)"

definition from_status ::
    "(string \<Rightarrow> string list option) \<Rightarrow> nat \<Rightarrow> string \<Rightarrow> duration option \<Rightarrow> redmine_error" where
  "from_status decode status body retry_after =
     (if status = 401 then EUnauthorized
      else if status = 403 then EForbidden
      else if status = 404 then ENotFound
      else if status = 429 then ERateLimited retry_after
      else EApi status (case decode body of Some errors \<Rightarrow> errors | None \<Rightarrow> []))"

record introspection =
  in_active :: bool
  in_scope :: "string option"
  in_client_id :: "string option"
  in_username :: "string option"
  in_sub :: "string option"
  in_exp :: "int option"
  in_iat :: "int option"
  in_token_type :: "string option"

definition introspection_scopes :: "introspection \<Rightarrow> string list" where
  "introspection_scopes i = (case in_scope i of Some s \<Rightarrow> split_ascii_whitespace s | None \<Rightarrow> [])"

record oauth_token =
  ot_access_token :: secret
  ot_refresh_token :: "secret option"
  ot_expires_in :: "nat option"
  ot_scope :: "string option"
  ot_token_type :: "string option"

section \<open>Lemmas\<close>

text \<open>The status survives the mapping, whatever the body is.\<close>

lemma from_status_status [simp]: "error_status (from_status decode status body ra) = Some status"
  by (simp add: from_status_def)

lemma oauth_error_status [simp]: "error_status (oauth_error_from_status decode status body) = Some status"
  by (simp add: oauth_error_from_status_def split: option.split)

lemma from_status_retryable:
  "is_retryable (from_status decode status body ra) \<longleftrightarrow> status = 429 \<or> is_server_error status"
  by (simp add: from_status_def is_server_error_def)

lemma introspection_scopes_clean:
  "s \<in> set (introspection_scopes i) \<Longrightarrow> s \<noteq> [] \<and> (\<forall>c \<in> set s. \<not> is_ascii_whitespace c)"
  by (auto simp: introspection_scopes_def split_ascii_whitespace_def split: option.splits
      dest: split_runs_nonempty split_runs_clean [rotated])

end
