(* ===== verification/Token_Verifier.thy ===== *)
theory Token_Verifier
  imports Bounded_Store Redmine_Error
begin

text \<open>
  The \<^verbatim>\<open>oauth\<close> mode's bearer authentication (\<^verbatim>\<open>auth/oauth.rs\<close>): token extraction from the
  \<^verbatim>\<open>Authorization\<close> header, RFC 7662 introspection behind a bounded cache, and the middleware.

  Two clocks are read: the monotonic one (\<^typ>\<open>nat\<close> of nanoseconds) for cache deadlines and
  Unix time (\<^typ>\<open>int\<close> of seconds) for \<^verbatim>\<open>exp\<close>. A verification releases the cache lock while it
  awaits Redmine, so it is two functions, \<open>verify_begin\<close> and \<open>verify_finish\<close>, and other requests may
  run in between. Redmine's answer is an argument.
\<close>

definition CLOCK_SKEW_SECS :: int where
  "CLOCK_SKEW_SECS = 5"

definition NEGATIVE_CACHE_TTL :: duration where
  "NEGATIVE_CACHE_TTL = from_secs 5"

definition CACHE_CAPACITY :: nat where
  "CACHE_CAPACITY = 1024"

definition MAX_TOKEN_LEN :: nat where
  "MAX_TOKEN_LEN = 4096"

definition PROBE_TOKEN :: string where
  "PROBE_TOKEN = ''ruprogress-mcp-readiness-probe-token''"

datatype probe_outcome = ProbeOk | ProbeMisconfigured | ProbeUnreachable

record auth_context =
  ac_token :: secret
  ac_subject :: "string option"
  ac_scopes :: "string set"
  ac_expires_at :: "int option"

datatype auth_error = InvalidToken string | Unavailable | Misconfigured

datatype cache_value = CacheValid auth_context | CacheInvalid

type_synonym token_cache = "(digest, cache_value \<times> instant) fmap"

record token_verifier =
  tv_ttl :: duration
  tv_cache :: token_cache

definition verifier_new :: "duration \<Rightarrow> token_verifier" where
  "verifier_new ttl = \<lparr>tv_ttl = ttl, tv_cache = fmempty\<rparr>"

definition verifier_digest :: "crypto \<Rightarrow> string \<Rightarrow> digest" where
  "verifier_digest C token = sha256 C token"

definition is_expired :: "int \<Rightarrow> int option \<Rightarrow> bool" where
  "is_expired utc_now exp =
     (case exp of None \<Rightarrow> False | Some e \<Rightarrow> e \<le> sat_i64 (utc_now + CLOCK_SKEW_SECS))"

definition introspect :: "(redmine_error + introspection) \<Rightarrow> auth_error + introspection" where
  "introspect answer =
     (case answer of
        Inr i \<Rightarrow> Inr i
      | Inl EUnauthorized \<Rightarrow> Inl Misconfigured
      | Inl EForbidden \<Rightarrow> Inl Misconfigured
      | Inl ENotFound \<Rightarrow> Inl Misconfigured
      | Inl _ \<Rightarrow> Inl Unavailable)"

definition context_from :: "int \<Rightarrow> introspection \<Rightarrow> secret \<Rightarrow> auth_error + auth_context" where
  "context_from utc_now i token =
     (if \<not> in_active i then Inl (InvalidToken ''token is not active'')
      else if is_expired utc_now (in_exp i) then Inl (InvalidToken ''token is expired'')
      else Inr \<lparr>ac_token = token,
                ac_subject = (case in_sub i of Some s \<Rightarrow> Some s | None \<Rightarrow> in_username i),
                ac_scopes = set (introspection_scopes i), ac_expires_at = in_exp i\<rparr>)"

definition cache_get ::
    "instant \<Rightarrow> int \<Rightarrow> digest \<Rightarrow> token_verifier \<Rightarrow>
     (auth_error + auth_context) option \<times> token_verifier" where
  "cache_get now utc_now d v =
     (case fmlookup (tv_cache v) d of
        None \<Rightarrow> (None, v)
      | Some (value, expires_at) \<Rightarrow>
          if expires_at \<le> now then (None, v\<lparr>tv_cache := fmdrop d (tv_cache v)\<rparr>)
          else (case value of
              CacheValid ctx \<Rightarrow>
                if is_expired utc_now (ac_expires_at ctx)
                then (None, v\<lparr>tv_cache := fmdrop d (tv_cache v)\<rparr>)
                else (Some (Inr ctx), v)
            | CacheInvalid \<Rightarrow> (Some (Inl (InvalidToken ''token is not active'')), v)))"

text \<open>The lifetime \<^verbatim>\<open>cache_put\<close> gives a result; \<open>None\<close> is its early return.\<close>

definition put_ttl ::
    "duration \<Rightarrow> int \<Rightarrow> introspection \<Rightarrow> auth_error + auth_context \<Rightarrow> duration option" where
  "put_ttl ttl utc_now i result =
     (case result of
        Inr _ \<Rightarrow>
          (case in_exp i of
             None \<Rightarrow> Some ttl
           | Some exp \<Rightarrow>
               let remaining_secs = sat_i64 (sat_i64 (exp - utc_now) - CLOCK_SKEW_SECS)
               in if remaining_secs \<le> 0 then None
                  else Some (min ttl (from_secs (nat remaining_secs))))
      | Inl (InvalidToken _) \<Rightarrow> Some NEGATIVE_CACHE_TTL
      | Inl Unavailable \<Rightarrow> None
      | Inl Misconfigured \<Rightarrow> None)"

definition cache_put ::
    "instant \<Rightarrow> int \<Rightarrow> digest \<Rightarrow> introspection \<Rightarrow> auth_error + auth_context \<Rightarrow> token_verifier \<Rightarrow>
     token_verifier" where
  "cache_put now utc_now d i result v =
     (case put_ttl (tv_ttl v) utc_now i result of
        None \<Rightarrow> v
      | Some ttl \<Rightarrow>
          if ttl = 0 then v
          else
            let cache = sweep now (tv_cache v)
            in if fmlen cache \<ge> CACHE_CAPACITY \<and> d |\<notin>| fmdom cache then v\<lparr>tv_cache := cache\<rparr>
               else
                 let value = (case result of Inr ctx \<Rightarrow> CacheValid ctx | Inl _ \<Rightarrow> CacheInvalid)
                 in v\<lparr>tv_cache := fmupd d (value, case checked_add now ttl of Some t \<Rightarrow> t | None \<Rightarrow> now)
                                   cache\<rparr>)"

definition verify_begin ::
    "crypto \<Rightarrow> instant \<Rightarrow> int \<Rightarrow> secret \<Rightarrow> token_verifier \<Rightarrow>
     (auth_error + auth_context) option \<times> token_verifier" where
  "verify_begin C now utc_now token v =
     (if tv_ttl v \<noteq> 0 then cache_get now utc_now (verifier_digest C token) v else (None, v))"

text \<open>\<open>utc_ctx\<close> and \<open>utc_put\<close> are the two later readings of Unix time.\<close>

definition verify_finish ::
    "crypto \<Rightarrow> instant \<Rightarrow> int \<Rightarrow> int \<Rightarrow> (redmine_error + introspection) \<Rightarrow> secret \<Rightarrow> token_verifier \<Rightarrow>
     (auth_error + auth_context) \<times> token_verifier" where
  "verify_finish C now utc_ctx utc_put answer token v =
     (case introspect answer of
        Inl e \<Rightarrow> (Inl e, v)
      | Inr i \<Rightarrow>
          let result = context_from utc_ctx i token
          in (result,
              if tv_ttl v \<noteq> 0 then cache_put now utc_put (verifier_digest C token) i result v else v))"

record verify_clock =
  vc_get_now :: instant
  vc_get_utc :: int
  vc_ctx_utc :: int
  vc_put_utc :: int
  vc_put_now :: instant

definition verify ::
    "crypto \<Rightarrow> verify_clock \<Rightarrow> (redmine_error + introspection) \<Rightarrow> secret \<Rightarrow> token_verifier \<Rightarrow>
     (auth_error + auth_context) \<times> token_verifier" where
  "verify C k answer token v =
     (case verify_begin C (vc_get_now k) (vc_get_utc k) token v of
        (Some cached, v1) \<Rightarrow> (cached, v1)
      | (None, v1) \<Rightarrow> verify_finish C (vc_put_now k) (vc_ctx_utc k) (vc_put_utc k) answer token v1)"

definition purge :: "crypto \<Rightarrow> secret \<Rightarrow> token_verifier \<Rightarrow> token_verifier" where
  "purge C token v = v\<lparr>tv_cache := fmdrop (verifier_digest C token) (tv_cache v)\<rparr>"

definition probe :: "(redmine_error + introspection) \<Rightarrow> probe_outcome" where
  "probe answer =
     (case introspect answer of
        Inl Misconfigured \<Rightarrow> ProbeMisconfigured
      | Inl Unavailable \<Rightarrow> ProbeUnreachable
      | Inr _ \<Rightarrow> ProbeOk
      | Inl (InvalidToken _) \<Rightarrow> ProbeOk)"

section \<open>The header and the middleware\<close>

record challenge =
  ch_base :: string

definition challenge_build :: "string \<Rightarrow> string \<Rightarrow> challenge" where
  "challenge_build base_url mcp_path =
     (let trimmed = (case strip_suffix base_url ''/'' of Some t \<Rightarrow> t | None \<Rightarrow> base_url)
      in \<lparr>ch_base = ''Bearer resource_metadata='' @ [CHR 0x22] @ trimmed
           @ ''/.well-known/oauth-protected-resource'' @ mcp_path @ [CHR 0x22]\<rparr>)"

text \<open>\<^verbatim>\<open>HeaderValue::from_str\<close> and \<^verbatim>\<open>to_str\<close> belong to the \<^verbatim>\<open>http\<close> crate: arguments.\<close>

definition challenge_header_value :: "(string \<Rightarrow> string option) \<Rightarrow> challenge \<Rightarrow> string option \<Rightarrow> string" where
  "challenge_header_value from_str ch error =
     (let value = (case error of
                     Some e \<Rightarrow> ch_base ch @ '', error='' @ [CHR 0x22] @ e @ [CHR 0x22]
                   | None \<Rightarrow> ch_base ch)
      in case from_str value of Some h \<Rightarrow> h | None \<Rightarrow> ''Bearer'')"

datatype bearer_error = BearerMissing | BearerMalformed string

definition extract_bearer :: "(string \<Rightarrow> string option) \<Rightarrow> string list \<Rightarrow> bearer_error + secret" where
  "extract_bearer to_str values =
     (case values of
        [] \<Rightarrow> Inl BearerMissing
      | value # others \<Rightarrow>
          if others \<noteq> [] then Inl (BearerMalformed ''Authorization header must be sent exactly once'')
          else case to_str value of
              None \<Rightarrow> Inl (BearerMalformed
                ''Authorization header contains invalid (non-visible-ASCII) characters'')
            | Some text \<Rightarrow>
                (case split_once text '' '' of
                   None \<Rightarrow> Inl (BearerMalformed
                     (''Authorization header must be '' @ [CHR 0x22] @ ''Bearer <token>'' @ [CHR 0x22]))
                 | Some (scheme, token) \<Rightarrow>
                     if \<not> eq_ignore_ascii_case scheme ''bearer''
                     then Inl (BearerMalformed ''Authorization header must use the Bearer scheme'')
                     else if trim token \<noteq> token
                     then Inl (BearerMalformed ''Authorization header must have exactly one space between the scheme and the token'')
                     else if token = []
                     then Inl (BearerMalformed ''Authorization header token must not be empty'')
                     else if length token > MAX_TOKEN_LEN
                     then Inl (BearerMalformed ''Authorization header token exceeds the maximum accepted length'')
                     else if \<not> (\<forall>b \<in> set token. 0x21 \<le> byte_of b \<and> byte_of b \<le> 0x7e)
                     then Inl (BearerMalformed ''Authorization header token contains invalid (non-visible-ASCII) characters'')
                     else Inr token))"

record response =
  rs_status :: nat
  rs_www_authenticate :: "string option"
  rs_retry_after :: "string option"

definition challenge_response :: "(string \<Rightarrow> string option) \<Rightarrow> challenge \<Rightarrow> string option \<Rightarrow> response" where
  "challenge_response from_str ch error =
     \<lparr>rs_status = 401, rs_www_authenticate = Some (challenge_header_value from_str ch error),
      rs_retry_after = None\<rparr>"

definition unavailable_response :: response where
  "unavailable_response = \<lparr>rs_status = 503, rs_www_authenticate = None, rs_retry_after = Some ''5''\<rparr>"

text \<open>\<open>Inr ctx\<close>: the request goes on with \<open>ctx\<close> in its extensions.\<close>

definition require_bearer ::
    "crypto \<Rightarrow> (string \<Rightarrow> string option) \<Rightarrow> (string \<Rightarrow> string option) \<Rightarrow> verify_clock \<Rightarrow>
     (redmine_error + introspection) \<Rightarrow> challenge \<Rightarrow> string list \<Rightarrow> token_verifier \<Rightarrow>
     (response + auth_context) \<times> token_verifier" where
  "require_bearer C to_str from_str k answer ch values v =
     (case extract_bearer to_str values of
        Inl BearerMissing \<Rightarrow> (Inl (challenge_response from_str ch None), v)
      | Inl (BearerMalformed _) \<Rightarrow> (Inl (challenge_response from_str ch (Some ''invalid_request'')), v)
      | Inr token \<Rightarrow>
          (case verify C k answer token v of
             (Inr ctx, v1) \<Rightarrow> (Inr ctx, v1)
           | (Inl (InvalidToken _), v1) \<Rightarrow>
               (Inl (challenge_response from_str ch (Some ''invalid_token'')), v1)
           | (Inl Unavailable, v1) \<Rightarrow> (Inl unavailable_response, v1)
           | (Inl Misconfigured, v1) \<Rightarrow> (Inl unavailable_response, v1)))"

section \<open>The cache\<close>

lemma verify_begin_hit:
  "fst (verify_begin C now utc token v) = Some (Inr ctx) \<longleftrightarrow>
     tv_ttl v \<noteq> 0 \<and> (\<exists>x. fmlookup (tv_cache v) (verifier_digest C token) = Some (CacheValid ctx, x) \<and>
        x > now \<and> \<not> is_expired utc (ac_expires_at ctx))"
  by (auto simp: verify_begin_def cache_get_def split: option.splits cache_value.splits)

lemma verify_begin_shrinks:
  "fmlookup (tv_cache (snd (verify_begin C now utc token v))) d = Some e \<Longrightarrow>
   fmlookup (tv_cache v) d = Some e"
  by (auto simp: verify_begin_def cache_get_def split: option.splits cache_value.splits if_splits)

lemma verify_begin_len: "fmlen (tv_cache (snd (verify_begin C now utc token v))) \<le> fmlen (tv_cache v)"
  by (auto simp: verify_begin_def cache_get_def fmlen_fmdrop_le split: option.split cache_value.split)

lemma verify_begin_ttl [simp]: "tv_ttl (snd (verify_begin C now utc token v)) = tv_ttl v"
  by (auto simp: verify_begin_def cache_get_def split: option.split cache_value.split)

lemma cache_put_ttl [simp]: "tv_ttl (cache_put now utc d i result v) = tv_ttl v"
  by (auto simp: cache_put_def Let_def split: option.split)

lemma cache_put_len:
  assumes "fmlen (tv_cache v) \<le> CACHE_CAPACITY"
  shows "fmlen (tv_cache (cache_put now utc d i result v)) \<le> CACHE_CAPACITY"
proof (cases "put_ttl (tv_ttl v) utc i result")
  case None
  then show ?thesis using assms by (simp add: cache_put_def)
next
  case (Some ttl)
  let ?c = "sweep now (tv_cache v)"
  have le: "fmlen ?c \<le> CACHE_CAPACITY" using fmlen_sweep_le [of now "tv_cache v"] assms by simp
  have "fmlen (fmupd d e ?c) \<le> CACHE_CAPACITY" if "\<not> (fmlen ?c \<ge> CACHE_CAPACITY \<and> d |\<notin>| fmdom ?c)" for e
    using that le fmlen_fmupd_le [of d e ?c] by (cases "d |\<in>| fmdom ?c") (auto simp: fmlen_fmupd_old)
  then show ?thesis using Some assms le by (auto simp: cache_put_def Let_def)
qed

text \<open>Insertion invents nothing, and a valid entry it adds is the result it was given.\<close>

lemma cache_put_origin:
  assumes "fmlookup (tv_cache (cache_put now utc d i result v)) k = Some (CacheValid ctx, x)"
  shows "fmlookup (tv_cache v) k = Some (CacheValid ctx, x) \<or>
    k = d \<and> result = Inr ctx \<and> (\<exists>ttl. put_ttl (tv_ttl v) utc i result = Some ttl \<and> x \<le> now + ttl)"
  using assms
  by (auto simp: cache_put_def Let_def fmlookup_sweep checked_add_def
      split: option.splits if_splits sum.splits)

lemma put_ttl_bound:
  assumes "put_ttl ttl utc i (Inr ctx) = Some t" and "in_exp i = Some e"
    and "i64_min \<le> e - utc" "e - utc \<le> i64_max"
  shows "t \<le> ttl \<and> t \<le> from_secs (nat (e - utc - CLOCK_SKEW_SECS))"
proof -
  have "sat_i64 (sat_i64 (e - utc) - 5) \<le> max i64_min (e - utc - 5)"
    using assms(3,4) by (simp add: sat_i64_exact) (simp add: sat_i64_def)
  then have "nat (sat_i64 (sat_i64 (e - utc) - 5)) \<le> nat (e - utc - 5)"
    by (simp add: i64_min_def)
  then show ?thesis
    using assms(1,2) from_secs_mono
    by (auto simp: put_ttl_def CLOCK_SKEW_SECS_def Let_def split: if_splits
        intro: order_trans [OF min.cobounded2])
qed

lemma context_from_Inr:
  "context_from utc i token = Inr ctx \<longleftrightarrow>
     in_active i \<and> \<not> is_expired utc (in_exp i) \<and>
     ctx = \<lparr>ac_token = token, ac_subject = (case in_sub i of Some s \<Rightarrow> Some s | None \<Rightarrow> in_username i),
            ac_scopes = set (introspection_scopes i), ac_expires_at = in_exp i\<rparr>"
  by (auto simp: context_from_def)

lemma verify_finish_failure:
  "answer = Inl e \<Longrightarrow> snd (verify_finish C now u u' answer token v) = v \<and>
     fst (verify_finish C now u u' answer token v) \<in> {Inl Unavailable, Inl Misconfigured}"
  by (cases e) (auto simp: verify_finish_def introspect_def)

lemma purge_misses: "fst (verify_begin C now utc token (purge C token v)) = None"
  by (simp add: verify_begin_def cache_get_def purge_def)

section \<open>Interleaved verifications\<close>

text \<open>
  The runs of one verifier: cache lookups, introspection answers and purges of any number of
  requests in any order. \<open>H\<close> collects the answers with the token they were asked about and
  the Unix time at which they were judged.
\<close>

inductive verifier_run ::
    "crypto \<Rightarrow> duration \<Rightarrow> (secret \<times> int \<times> introspection) set \<Rightarrow> token_verifier \<Rightarrow> bool"
  for C ttl where
  run_new: "verifier_run C ttl {} (verifier_new ttl)"
| run_begin: "verifier_run C ttl H v \<Longrightarrow>
    verifier_run C ttl H (snd (verify_begin C now utc token v))"
| run_answer: "verifier_run C ttl H v \<Longrightarrow>
    verifier_run C ttl (insert (token, utc, i) H)
      (snd (verify_finish C now utc utc' (Inr i) token v))"
| run_failure: "verifier_run C ttl H v \<Longrightarrow>
    verifier_run C ttl H (snd (verify_finish C now utc utc' (Inl e) token v))"
| run_purge: "verifier_run C ttl H v \<Longrightarrow> verifier_run C ttl H (purge C token v)"

definition cached_from :: "crypto \<Rightarrow> (secret \<times> int \<times> introspection) set \<Rightarrow> token_verifier \<Rightarrow> bool" where
  "cached_from C H v \<longleftrightarrow> fmlen (tv_cache v) \<le> CACHE_CAPACITY \<and>
     (\<forall>d ctx x. fmlookup (tv_cache v) d = Some (CacheValid ctx, x) \<longrightarrow>
        (\<exists>tok u i. (tok, u, i) \<in> H \<and> verifier_digest C tok = d \<and> context_from u i tok = Inr ctx))"

lemma cached_from_mono: "cached_from C H v \<Longrightarrow> H \<subseteq> H' \<Longrightarrow> cached_from C H' v"
  unfolding cached_from_def by blast

lemma cached_from_shrink:
  assumes "cached_from C H v" and "fmlen (tv_cache v') \<le> fmlen (tv_cache v)"
    and "\<And>d e. fmlookup (tv_cache v') d = Some e \<Longrightarrow> fmlookup (tv_cache v) d = Some e"
  shows "cached_from C H v'"
  using assms unfolding cached_from_def by (meson order_trans)

lemma cached_from_answer:
  assumes "cached_from C H v"
  shows "cached_from C (insert (token, u, i) H) (snd (verify_finish C now u u' (Inr i) token v))"
proof -
  let ?r = "context_from u i token" and ?d = "verifier_digest C token"
  let ?p = "cache_put now u' ?d i ?r v"
  have "\<exists>tok u' j. (tok, u', j) \<in> insert (token, u, i) H \<and> verifier_digest C tok = d \<and>
      context_from u' j tok = Inr ctx"
    if "fmlookup (tv_cache ?p) d = Some (CacheValid ctx, x)" for d ctx x
    using cache_put_origin [OF that] assms unfolding cached_from_def by blast
  then have "cached_from C (insert (token, u, i) H) ?p"
    using assms cache_put_len by (simp add: cached_from_def)
  then show ?thesis
    using cached_from_mono [OF assms, of "insert (token, u, i) H"]
    by (auto simp: verify_finish_def introspect_def Let_def)
qed

lemma verifier_run_cached_from: "verifier_run C ttl H v \<Longrightarrow> cached_from C H v"
proof (induction rule: verifier_run.induct)
  case run_new
  show ?case by (simp add: cached_from_def verifier_new_def)
next
  case (run_begin H v now utc token)
  then show ?case
    by (elim cached_from_shrink) (auto simp: verify_begin_len dest: verify_begin_shrinks)
next
  case (run_answer H v token utc i now utc')
  from run_answer.IH show ?case by (rule cached_from_answer)
next
  case (run_failure H v now utc utc' e token)
  then show ?case using verify_finish_failure [of "Inl e"] by simp
next
  case (run_purge H v token)
  then show ?case
    by (elim cached_from_shrink) (auto simp: purge_def fmlen_fmdrop_le split: if_splits)
qed

section \<open>The header\<close>

lemma dropWhile_visible: "\<forall>b \<in> set s. 0x21 \<le> byte_of b \<Longrightarrow> dropWhile is_whitespace s = s"
  by (cases s) (auto simp: is_whitespace_def)

lemma trim_visible: "\<forall>b \<in> set s. 0x21 \<le> byte_of b \<Longrightarrow> trim s = s"
  using dropWhile_visible [of s] dropWhile_visible [of "rev s"] by (simp add: trim_def)

lemma space_not_in_bearer:
  assumes "eq_ignore_ascii_case scheme ''bearer''" shows "CHR '' '' \<notin> set scheme"
proof
  assume "CHR '' '' \<in> set scheme"
  then have "to_ascii_lower CHR '' '' \<in> set (to_ascii_lowercase scheme)"
    by (simp add: to_ascii_lowercase_def)
  also have "\<dots> = set (to_ascii_lowercase ''bearer'')"
    using assms by (simp only: eq_ignore_ascii_case_def)
  finally show False by (simp add: to_ascii_lowercase_def to_ascii_lower_def byte_of_def)
qed

definition visible_token :: "string \<Rightarrow> bool" where
  "visible_token t \<longleftrightarrow> t \<noteq> [] \<and> length t \<le> MAX_TOKEN_LEN \<and>
     (\<forall>b \<in> set t. 0x21 \<le> byte_of b \<and> byte_of b \<le> 0x7e)"

lemma extract_bearer_Inr:
  "extract_bearer to_str values = Inr token \<longleftrightarrow>
     (\<exists>hv scheme. values = [hv] \<and> to_str hv = Some (scheme @ '' '' @ token) \<and>
        eq_ignore_ascii_case scheme ''bearer'' \<and> visible_token token)"
    (is "?L \<longleftrightarrow> ?R")
proof
  assume ?L
  then show ?R
    by (auto simp: extract_bearer_def visible_token_def split: list.splits option.splits if_splits
        dest!: split_once_Some)
next
  assume ?R
  then obtain hv scheme where v: "values = [hv]" "to_str hv = Some (scheme @ '' '' @ token)"
    and s: "eq_ignore_ascii_case scheme ''bearer''" and t: "visible_token token" by blast
  have "split_once (scheme @ '' '' @ token) '' '' = Some (scheme, token)"
    using split_once_char_append [OF space_not_in_bearer [OF s], of token] by simp
  moreover have "trim token = token" using t trim_visible by (simp add: visible_token_def)
  ultimately show ?L using v s t by (auto simp: extract_bearer_def visible_token_def)
qed

section \<open>Properties\<close>

text \<open>A token set up for the witnesses: active, without an expiry, one scope.\<close>

definition example_intro :: introspection where
  "example_intro = \<lparr>in_active = True, in_scope = Some ''view_issues'', in_client_id = None,
     in_username = Some ''jo'', in_sub = None, in_exp = Some 100, in_iat = None, in_token_type = None\<rparr>"

definition example_ctx :: auth_context where
  "example_ctx = \<lparr>ac_token = ''tok'', ac_subject = Some ''jo'', ac_scopes = {''view_issues''},
     ac_expires_at = Some 100\<rparr>"

definition example_verifier :: token_verifier where
  "example_verifier = snd (verify_finish example_crypto 7 10 10 (Inr example_intro) ''tok''
     (verifier_new (from_secs 60)))"

lemma example_context: "context_from 10 example_intro ''tok'' = Inr example_ctx"
  by (simp add: context_from_def example_intro_def example_ctx_def is_expired_def
      CLOCK_SKEW_SECS_def sat_i64_def i64_min_def i64_max_def introspection_scopes_def
      split_ascii_whitespace_def is_ascii_whitespace_def byte_of_def)

lemma example_exp [simp]: "in_exp example_intro = Some 100"
  by (simp add: example_intro_def)

lemma example_cache:
  "tv_cache example_verifier = fmupd ''tok'' (CacheValid example_ctx, 60000000007) fmempty"
  "tv_ttl example_verifier = from_secs 60"
  by (simp_all add: example_verifier_def verify_finish_def introspect_def example_context cache_put_def
      put_ttl_def verifier_new_def Let_def CACHE_CAPACITY_def verifier_digest_def example_crypto_def
      checked_add_def from_secs_def instant_max_def CLOCK_SKEW_SECS_def
      sat_i64_def i64_min_def i64_max_def)

text \<open>
  C4. Where a cached acceptance comes from. In every interleaving of lookups, introspection
  answers, failures and purges, a bearer token is accepted from the cache only if Redmine
  earlier answered, for a token with the same digest, that it is active; the context served is
  the one built from that answer, and it is not within five seconds of its expiry at the moment it
  is served. The cache never exceeds its capacity.
\<close>

theorem cached_acceptance_provenance:
  assumes "verifier_run C ttl H v" and "fst (verify_begin C now utc token v) = Some (Inr ctx)"
  shows "(\<exists>tok u i. (tok, u, i) \<in> H \<and> verifier_digest C tok = verifier_digest C token \<and>
      in_active i \<and> context_from u i tok = Inr ctx) \<and>
    \<not> is_expired utc (ac_expires_at ctx) \<and> fmlen (tv_cache v) \<le> CACHE_CAPACITY"
proof -
  have c: "cached_from C H v" using assms(1) by (rule verifier_run_cached_from)
  obtain x where "fmlookup (tv_cache v) (verifier_digest C token) = Some (CacheValid ctx, x)"
    and "\<not> is_expired utc (ac_expires_at ctx)"
    using assms(2) by (auto simp: verify_begin_hit)
  then show ?thesis using c unfolding cached_from_def context_from_Inr by blast
qed

theorem cached_acceptance_provenance_witness:
  "fst (verify_begin example_crypto 8 94 ''tok'' example_verifier) = Some (Inr example_ctx) \<and>
   \<not> is_expired 94 (Some 100)"
proof -
  have run: "verifier_run example_crypto (from_secs 60) (insert (''tok'', 10, example_intro) {})
      example_verifier"
    unfolding example_verifier_def by (rule run_answer) (rule run_new)
  have hit: "fst (verify_begin example_crypto 8 94 ''tok'' example_verifier) = Some (Inr example_ctx)"
    by (simp add: verify_begin_hit example_cache from_secs_def verifier_digest_def example_crypto_def
        is_expired_def example_ctx_def CLOCK_SKEW_SECS_def sat_i64_def i64_min_def i64_max_def)
  show ?thesis using cached_acceptance_provenance [OF run hit] hit by (simp add: example_ctx_def)
qed

text \<open>
  A failure of Redmine is neither cached nor blamed on the caller. When introspection fails
  on a cache miss, the verifier's state is what the lookup left, the outcome is unavailable or
  misconfigured, and the middleware answers 503 with a retry hint, never 401.
\<close>

theorem introspection_failure_not_cached:
  assumes "extract_bearer to_str values = Inr token"
    and "verify_begin C (vc_get_now k) (vc_get_utc k) token v = (None, v1)"
  shows "require_bearer C to_str from_str k (Inl e) ch values v = (Inl unavailable_response, v1) \<and>
    rs_status unavailable_response = 503 \<and> rs_www_authenticate unavailable_response = None"
  using assms verify_finish_failure [of "Inl e" e C "vc_put_now k" "vc_ctx_utc k" "vc_put_utc k" token v1]
  by (cases "verify_finish C (vc_put_now k) (vc_ctx_utc k) (vc_put_utc k) (Inl e) token v1")
    (auto simp: require_bearer_def verify_def unavailable_response_def)

theorem introspection_failure_not_cached_witness:
  "require_bearer example_crypto Some Some \<lparr>vc_get_now = 0, vc_get_utc = 0, vc_ctx_utc = 0,
      vc_put_utc = 0, vc_put_now = 0\<rparr> (Inl EUnauthorized) \<lparr>ch_base = ''Bearer''\<rparr> [''Bearer tok'']
      (verifier_new 1) =
    (Inl unavailable_response, verifier_new 1)"
proof -
  have e: "extract_bearer Some [''Bearer tok''] = Inr ''tok''"
    by (simp add: extract_bearer_def starts_with_def eq_ignore_ascii_case_def to_ascii_lowercase_def
        to_ascii_lower_def byte_of_def trim_def is_whitespace_def MAX_TOKEN_LEN_def char_of_def
        bit_Suc_0_iff)
  have b: "verify_begin example_crypto 0 0 ''tok'' (verifier_new 1) = (None, verifier_new 1)"
    by (simp add: verify_begin_def cache_get_def verifier_new_def)
  show ?thesis
    using introspection_failure_not_cached [OF e, of example_crypto "\<lparr>vc_get_now = 0, vc_get_utc = 0,
      vc_ctx_utc = 0, vc_put_utc = 0, vc_put_now = 0\<rparr>" "verifier_new 1" "verifier_new 1"] b
    by simp
qed

text \<open>
  Cache lifetime. A positive entry is kept at most the configured TTL and at most until
  five seconds before the token's own expiry: its deadline is within both of the moment it was
  stored (as long as the difference of the two Unix times fits an i64).
\<close>

theorem cache_deadline_bounded:
  assumes "context_from utc i token = Inr ctx" and "in_exp i = Some e"
    and "i64_min \<le> e - utc'" and "e - utc' \<le> i64_max"
    and "fmlookup (tv_cache v) d = None"
    and "fmlookup (tv_cache (cache_put now utc' d i (Inr ctx) v)) d = Some (CacheValid ctx', x)"
  shows "ctx' = ctx \<and> x \<le> now + tv_ttl v \<and> x \<le> now + from_secs (nat (e - utc' - CLOCK_SKEW_SECS))"
proof -
  obtain t where t: "put_ttl (tv_ttl v) utc' i (Inr ctx) = Some t" "x \<le> now + t" "ctx' = ctx"
    using cache_put_origin [OF assms(6)] unfolding assms(5) by blast
  have "t \<le> tv_ttl v \<and> t \<le> from_secs (nat (e - utc' - CLOCK_SKEW_SECS))"
    by (rule put_ttl_bound [OF t(1) assms(2-4)])
  then show ?thesis using t(2,3) by linarith
qed

theorem cache_deadline_bounded_witness:
  "(60000000007 :: nat) \<le> 7 + from_secs 60 \<and> (60000000007 :: nat) \<le> 7 + from_secs (nat (100 - 10 - CLOCK_SKEW_SECS))"
proof -
  have c: "cache_put 7 10 ''tok'' example_intro (Inr example_ctx) (verifier_new (from_secs 60)) =
      example_verifier"
    by (simp add: example_verifier_def verify_finish_def introspect_def example_context Let_def
        verifier_new_def verifier_digest_def example_crypto_def from_secs_def)
  show ?thesis
    using cache_deadline_bounded [OF example_context, of 100 10 "verifier_new (from_secs 60)" "''tok''" 7
        example_ctx 60000000007]
    unfolding c example_cache by (simp add: verifier_new_def i64_min_def i64_max_def)
qed



text \<open>
  Bearer extraction. A token is extracted exactly when the header is sent once and reads as
  the word bearer in any case, one space and a token of 1 to 4096 visible ASCII characters; the
  token is then returned as it is. Everything else is rejected.
\<close>

theorem extract_bearer_exact:
  "extract_bearer to_str values = Inr token \<longleftrightarrow>
     (\<exists>hv scheme. values = [hv] \<and> to_str hv = Some (scheme @ '' '' @ token) \<and>
        to_ascii_lowercase scheme = ''bearer'' \<and> token \<noteq> [] \<and> length token \<le> 4096 \<and>
        set token \<subseteq> {b. 0x21 \<le> byte_of b \<and> byte_of b \<le> 0x7e})"
proof -
  have "to_ascii_lowercase ''bearer'' = ''bearer''"
    by (simp add: to_ascii_lowercase_def to_ascii_lower_def byte_of_def)
  then show ?thesis
    by (simp add: extract_bearer_Inr eq_ignore_ascii_case_def visible_token_def MAX_TOKEN_LEN_def
        subset_iff Ball_def)
qed

end
