(* ===== verification/Endpoints.thy ===== *)
theory Endpoints
  imports Proxy_State Scopes Redirect Token_Verifier
begin

text \<open>
  The HTTP endpoints of \<^verbatim>\<open>oauth-proxy\<close> mode (\<^verbatim>\<open>oauth/proxy/endpoints.rs\<close>) and its bearer
  middleware (\<^verbatim>\<open>auth/proxy.rs\<close>). A handler that awaits Redmine is two functions, the part
  before and the part after; Redmine's answer is an argument of the second. Each part is one
  function of the state, with one clock reading; random draws are arguments in the order in
  which the code makes them. \<open>fl_revocations\<close> lists the revocation calls sent to Redmine and
  \<open>fl_tasks\<close> holds the token sets that a spawned background task still has to revoke.
\<close>

record flow_config =
  fc_crypto :: crypto
  fc_url :: url_parse
  fc_redirects :: redirect_policy
  fc_scopes :: "scope list"
  fc_base_url :: string
  fc_redmine_base :: string
  fc_upstream_client_id :: string

record flow_state =
  fl_proxy :: proxy_state
  fl_verifier :: token_verifier
  fl_revocations :: "(secret \<times> string) list"
  fl_tasks :: "upstream_token_set fset"

record minted_pair =
  mp_access_token :: string
  mp_access_digest :: digest
  mp_refresh_token :: "string option"
  mp_refresh_digest :: "digest option"
  mp_ttl :: duration

text \<open>
  Responses. \<open>Redirect base pairs\<close> is a redirect to the URL parsed from \<open>base\<close> with the query
  \<open>pairs\<close> appended; \<open>Tokens pair scope\<close> is the JSON body of a token response, whose
  \<^verbatim>\<open>expires_in\<close> is the TTL in whole seconds; \<open>OAuthError\<close> carries the status and the \<^verbatim>\<open>error\<close>
  code.
\<close>

datatype reply =
    Plain nat string
  | Redirect string "(string \<times> string) list"
  | OAuthError nat string
  | Tokens minted_pair string
  | Registered client_registration
  | Done nat

section \<open>Registration\<close>

record register_request =
  rq_redirect_uris :: "string list"
  rq_client_name :: "string option"
  rq_grant_types :: "string list option"
  rq_response_types :: "string list option"
  rq_token_endpoint_auth_method :: "string option"

text \<open>What reading and decoding a body can give; both are library calls.\<close>

datatype 'a body = TooLarge | Undecodable | Decoded 'a

definition media_type_is :: "string \<Rightarrow> string option \<Rightarrow> bool" where
  "media_type_is expected content_type =
     (case content_type of
        None \<Rightarrow> False
      | Some v \<Rightarrow> eq_ignore_ascii_case (trim (takeWhile (\<lambda>c. c \<noteq> CHR '';'') v)) expected)"

definition content_type_is_json :: "string option \<Rightarrow> bool" where
  "content_type_is_json = media_type_is ''application/json''"

definition content_type_is_form :: "string option \<Rightarrow> bool" where
  "content_type_is_form = media_type_is ''application/x-www-form-urlencoded''"

definition SUPPORTED_GRANT_TYPES :: "string list" where
  "SUPPORTED_GRANT_TYPES = [''authorization_code'', ''refresh_token'']"

definition SUPPORTED_RESPONSE_TYPES :: "string list" where
  "SUPPORTED_RESPONSE_TYPES = [''code'']"

definition all_supported :: "string list \<Rightarrow> string list option \<Rightarrow> bool" where
  "all_supported supported given =
     (case given of None \<Rightarrow> True | Some gs \<Rightarrow> \<forall>g \<in> set gs. g \<in> set supported)"

definition register ::
    "flow_config \<Rightarrow> instant \<Rightarrow> rng \<Rightarrow> string option \<Rightarrow> register_request body \<Rightarrow> proxy_state \<Rightarrow>
     reply \<times> proxy_state" where
  "register F now r content_type body p =
     (if \<not> content_type_is_json content_type then (Plain 415 ''unsupported media type: expected application/json'', p)
      else case body of
          TooLarge \<Rightarrow> (Plain 413 ''payload too large'', p)
        | Undecodable \<Rightarrow> (OAuthError 400 ''invalid_client_metadata'', p)
        | Decoded payload \<Rightarrow>
            if \<not> all_supported SUPPORTED_GRANT_TYPES (rq_grant_types payload)
            then (OAuthError 400 ''invalid_client_metadata'', p)
            else if \<not> all_supported SUPPORTED_RESPONSE_TYPES (rq_response_types payload)
            then (OAuthError 400 ''invalid_client_metadata'', p)
            else if (case rq_token_endpoint_auth_method payload of Some m \<Rightarrow> m \<noteq> ''none'' | None \<Rightarrow> False)
            then (OAuthError 400 ''invalid_client_metadata'', p)
            else if rq_redirect_uris payload = []
            then (OAuthError 400 ''invalid_client_metadata'', p)
            else if \<exists>uri \<in> set (rq_redirect_uris payload). \<not> permits (fc_url F) (fc_redirects F) uri
            then (OAuthError 400 ''invalid_redirect_uri'', p)
            else (case register_client now r (rq_redirect_uris payload) (rq_client_name payload) p of
                (None, p1) \<Rightarrow> (OAuthError 503 ''temporarily_unavailable'', p1)
              | (Some registration, p1) \<Rightarrow> (Registered registration, p1)))"

section \<open>Authorization\<close>

definition dquoted :: "string \<Rightarrow> string" where
  "dquoted s = [CHR 0x22] @ s @ [CHR 0x22]"

definition trim_trailing_slash :: "string \<Rightarrow> string" where
  "trim_trailing_slash raw = (case strip_suffix raw ''/'' of Some t \<Rightarrow> t | None \<Rightarrow> raw)"

definition redirect_error ::
    "flow_config \<Rightarrow> string \<Rightarrow> string option \<Rightarrow> string \<Rightarrow> string \<Rightarrow> reply" where
  "redirect_error F redirect_uri client_state error description =
     (case fc_url F redirect_uri of
        None \<Rightarrow> Plain 400 ''redirect_uri is not a valid URL''
      | Some _ \<Rightarrow>
          Redirect redirect_uri
            ([(''error'', error), (''error_description'', description)]
             @ (case client_state of Some st \<Rightarrow> [(''state'', st)] | None \<Rightarrow> [])
             @ [(''iss'', trim_trailing_slash (fc_base_url F))]))"

record authorize_query =
  aq_response_type :: "string option"
  aq_client_id :: "string option"
  aq_redirect_uri :: "string option"
  aq_scope :: "string option"
  aq_state :: "string option"
  aq_code_challenge :: "string option"
  aq_code_challenge_method :: "string option"

text \<open>\<^verbatim>\<open>.filter(|s| !s.is_empty())\<close>\<close>

definition non_empty :: "string option \<Rightarrow> string option" where
  "non_empty s = (case s of Some x \<Rightarrow> if x = [] then None else Some x | None \<Rightarrow> None)"

definition authorize_phase_a ::
    "flow_config \<Rightarrow> instant \<Rightarrow> authorize_query \<Rightarrow> proxy_state \<Rightarrow>
     (string + string \<times> string) \<times> proxy_state" where
  "authorize_phase_a F now q p =
     (case non_empty (aq_client_id q) of
        None \<Rightarrow> (Inl ''client_id is required'', p)
      | Some client_id \<Rightarrow>
          (case registry_get client_id (ps_registry p) of
             None \<Rightarrow> (Inl ''client_id is not a registered client'', p)
           | Some registration \<Rightarrow>
               let p1 = p\<lparr>ps_registry := registry_touch now client_id (ps_registry p)\<rparr>
               in case non_empty (aq_redirect_uri q) of
                   None \<Rightarrow> (Inl ''redirect_uri is required'', p1)
                 | Some redirect_uri \<Rightarrow>
                     if redirect_uri \<notin> set (cr_redirect_uris registration)
                     then (Inl ''redirect_uri is not registered for this client'', p1)
                     else if \<not> permits (fc_url F) (fc_redirects F) redirect_uri
                     then (Inl ''redirect_uri is no longer permitted by this deployment's redirect-URI policy'', p1)
                     else (Inr (client_id, redirect_uri), p1)))"

text \<open>The scopes of the request; \<open>None\<close> when they cannot be narrowed.\<close>

definition requested_scopes :: "flow_config \<Rightarrow> authorize_query \<Rightarrow> scope list option" where
  "requested_scopes F q =
     (case aq_scope q of
        None \<Rightarrow> Some (fc_scopes F)
      | Some raw \<Rightarrow>
          if trim raw = [] then Some (fc_scopes F)
          else (case narrow (fc_scopes F) raw of Inr xs \<Rightarrow> Some xs | Inl _ \<Rightarrow> None))"

definition callback_url :: "flow_config \<Rightarrow> string" where
  "callback_url F = trim_trailing_slash (fc_base_url F) @ ''/auth/callback''"

definition upstream_authorize_url :: "flow_config \<Rightarrow> string" where
  "upstream_authorize_url F = trim_trailing_slash (fc_redmine_base F) @ ''/oauth/authorize''"

text \<open>\<open>r1\<close> is the draw of the PKCE verifier, \<open>r2\<close> that of the transaction id.\<close>

definition authorize_phase_b ::
    "flow_config \<Rightarrow> instant \<Rightarrow> rng \<Rightarrow> rng \<Rightarrow> authorize_query \<Rightarrow> string \<Rightarrow> string \<Rightarrow> proxy_state \<Rightarrow>
     reply \<times> proxy_state" where
  "authorize_phase_b F now r1 r2 q client_id redirect_uri p =
     (let fail = redirect_error F redirect_uri (aq_state q)
      in if aq_response_type q \<noteq> Some ''code''
         then (fail ''unsupported_response_type'' (''response_type must be '' @ dquoted ''code''), p)
         else case non_empty (aq_code_challenge q) of
             None \<Rightarrow> (fail ''invalid_request'' ''code_challenge is required'', p)
           | Some code_challenge \<Rightarrow>
               if aq_code_challenge_method q \<noteq> Some ''S256''
               then (fail ''invalid_request'' (''code_challenge_method must be '' @ dquoted ''S256''), p)
               else (case requested_scopes F q of
                   None \<Rightarrow> (fail ''invalid_scope''
                     ''one or more requested scopes are not advertised by this deployment'', p)
                 | Some scopes \<Rightarrow>
                     (case generate_verifier (fc_crypto F) r1 of
                        None \<Rightarrow> (fail ''temporarily_unavailable''
                          ''the authorization service is temporarily unable to start a new flow'', p)
                      | Some upstream_verifier \<Rightarrow>
                          let upstream_challenge = challenge_for (fc_crypto F) upstream_verifier;
                              transaction = \<lparr>tx_client_id = client_id, tx_redirect_uri = redirect_uri,
                                 tx_code_challenge = code_challenge, tx_scopes = scopes,
                                 tx_client_state = aq_state q,
                                 tx_upstream_code_verifier = upstream_verifier\<rparr>
                          in case txn_create (fc_crypto F) now r2 transaction (ps_transactions p) of
                              (None, txns) \<Rightarrow>
                                (fail ''temporarily_unavailable''
                                   ''the authorization service is at capacity; try again shortly'',
                                 p\<lparr>ps_transactions := txns\<rparr>)
                            | (Some transaction_id, txns) \<Rightarrow>
                                let p1 = p\<lparr>ps_transactions := txns\<rparr>
                                in case fc_url F (upstream_authorize_url F) of
                                    None \<Rightarrow> (fail ''server_error''
                                      ''this server's Redmine URL is misconfigured'', p1)
                                  | Some _ \<Rightarrow>
                                      (Redirect (upstream_authorize_url F)
                                         [(''client_id'', fc_upstream_client_id F),
                                          (''redirect_uri'', callback_url F),
                                          (''response_type'', ''code''),
                                          (''scope'', join '' '' scopes),
                                          (''state'', transaction_id),
                                          (''code_challenge'', upstream_challenge),
                                          (''code_challenge_method'', ''S256'')], p1))))"

definition authorize ::
    "flow_config \<Rightarrow> instant \<Rightarrow> rng \<Rightarrow> rng \<Rightarrow> authorize_query \<Rightarrow> proxy_state \<Rightarrow> reply \<times> proxy_state" where
  "authorize F now r1 r2 q p =
     (case authorize_phase_a F now q p of
        (Inl message, p1) \<Rightarrow> (Plain 400 message, p1)
      | (Inr (client_id, redirect_uri), p1) \<Rightarrow>
          authorize_phase_b F now r1 r2 q client_id redirect_uri p1)"

section \<open>The callback\<close>

record callback_query =
  cq_code :: "string option"
  cq_state :: "string option"
  cq_error :: "string option"
  cq_error_description :: "string option"

text \<open>Up to the exchange: a reply, or the transaction and the upstream code to exchange.\<close>

definition callback_begin ::
    "flow_config \<Rightarrow> instant \<Rightarrow> callback_query \<Rightarrow> proxy_state \<Rightarrow>
     (reply + transaction \<times> string) \<times> proxy_state" where
  "callback_begin F now q p =
     (case non_empty (cq_state q) of
        None \<Rightarrow> (Inl (Plain 400 ''state is required''), p)
      | Some raw_state \<Rightarrow>
          (case txn_take (fc_crypto F) now raw_state (ps_transactions p) of
             (None, txns) \<Rightarrow>
               (Inl (Plain 400 ''state is unknown, expired, or already used''), p\<lparr>ps_transactions := txns\<rparr>)
           | (Some t, txns) \<Rightarrow>
               let p1 = p\<lparr>ps_transactions := txns\<rparr>;
                   fail = redirect_error F (tx_redirect_uri t) (tx_client_state t)
               in case non_empty (cq_error q) of
                   Some error \<Rightarrow>
                     (Inl (fail error (case cq_error_description q of
                          Some d \<Rightarrow> d | None \<Rightarrow> ''the upstream authorization server returned an error'')), p1)
                 | None \<Rightarrow>
                     (case non_empty (cq_code q) of
                        None \<Rightarrow> (Inl (fail ''invalid_request''
                          ''the upstream authorization server did not return a code''), p1)
                      | Some code \<Rightarrow> (Inr (t, code), p1))))"

definition granted_scopes_of :: "string option \<Rightarrow> string list \<Rightarrow> string list" where
  "granted_scopes_of reported fallback =
     (case reported of Some raw \<Rightarrow> split_ascii_whitespace raw | None \<Rightarrow> fallback)"

definition token_deadline :: "instant \<Rightarrow> oauth_token \<Rightarrow> instant" where
  "token_deadline now tok =
     expires_after now (from_secs (case ot_expires_in tok of Some n \<Rightarrow> n | None \<Rightarrow> 3600))"

definition callback_finish ::
    "flow_config \<Rightarrow> instant \<Rightarrow> rng \<Rightarrow> transaction \<Rightarrow> (redmine_error + oauth_token) \<Rightarrow> proxy_state \<Rightarrow>
     reply \<times> proxy_state" where
  "callback_finish F now r t exchange p =
     (let fail = redirect_error F (tx_redirect_uri t) (tx_client_state t)
      in case exchange of
          Inl _ \<Rightarrow> (fail ''server_error''
            ''failed to exchange the authorization code with the upstream authorization server'', p)
        | Inr tok \<Rightarrow>
            let upstream_set = \<lparr>us_access = ot_access_token tok, us_refresh = ot_refresh_token tok,
                  us_granted_scopes = granted_scopes_of (ot_scope tok) (tx_scopes t),
                  us_expires_at = token_deadline now tok\<rparr>
            in case code_mint (fc_crypto F) now r (tx_client_id t) (tx_redirect_uri t)
                      (tx_code_challenge t) upstream_set (ps_codes p) of
                (None, codes) \<Rightarrow>
                  (fail ''temporarily_unavailable''
                     ''the authorization service is at capacity; try again shortly'', p\<lparr>ps_codes := codes\<rparr>)
              | (Some code_value, codes) \<Rightarrow>
                  let p1 = p\<lparr>ps_codes := codes\<rparr>
                  in case fc_url F (tx_redirect_uri t) of
                      None \<Rightarrow> (Plain 400 ''stored redirect_uri is not a valid URL'', p1)
                    | Some _ \<Rightarrow>
                        (Redirect (tx_redirect_uri t)
                           ([(''code'', code_value)]
                            @ (case tx_client_state t of Some st \<Rightarrow> [(''state'', st)] | None \<Rightarrow> [])
                            @ [(''iss'', trim_trailing_slash (fc_base_url F))]), p1))"

text \<open>
  \<^verbatim>\<open>auth_callback\<close> with nothing in between; \<open>exchange\<close> is Redmine's token endpoint, given the
  code, the callback URL and the PKCE verifier.
\<close>

definition auth_callback ::
    "flow_config \<Rightarrow> instant \<Rightarrow> instant \<Rightarrow> rng \<Rightarrow>
     (string \<Rightarrow> string \<Rightarrow> string \<Rightarrow> redmine_error + oauth_token) \<Rightarrow> callback_query \<Rightarrow> proxy_state \<Rightarrow>
     reply \<times> proxy_state" where
  "auth_callback F now now' r exchange q p =
     (case callback_begin F now q p of
        (Inl reply, p1) \<Rightarrow> (reply, p1)
      | (Inr (t, code), p1) \<Rightarrow>
          callback_finish F now' r t (exchange code (callback_url F) (tx_upstream_code_verifier t)) p1)"

section \<open>The token endpoint\<close>

text \<open>\<open>ra\<close> and \<open>rr\<close> are the draws of the access and of the refresh token.\<close>

definition mint_token_pair ::
    "crypto \<Rightarrow> instant \<Rightarrow> rng \<Rightarrow> rng \<Rightarrow> string \<Rightarrow> string \<Rightarrow> duration \<Rightarrow> bool \<Rightarrow> proxy_state \<Rightarrow>
     minted_pair option \<times> proxy_state" where
  "mint_token_pair C now ra rr client_id upstream_id ttl wants_refresh p =
     (case token_mint C now ra client_id upstream_id ttl (ps_tokens p) of
        (None, toks) \<Rightarrow> (None, p\<lparr>ps_tokens := toks\<rparr>)
      | (Some (access_token, access_digest), toks) \<Rightarrow>
          let p1 = p\<lparr>ps_tokens := toks\<rparr>
          in if wants_refresh
             then (case refresh_mint C now rr client_id upstream_id (ps_refresh_tokens p1) of
                 (None, rts) \<Rightarrow> (None, p1\<lparr>ps_refresh_tokens := rts\<rparr>)
               | (Some (refresh_token, refresh_digest), rts) \<Rightarrow>
                   (Some \<lparr>mp_access_token = access_token, mp_access_digest = access_digest,
                          mp_refresh_token = Some refresh_token,
                          mp_refresh_digest = Some refresh_digest, mp_ttl = ttl\<rparr>,
                    p1\<lparr>ps_refresh_tokens := rts\<rparr>))
             else (Some \<lparr>mp_access_token = access_token, mp_access_digest = access_digest,
                         mp_refresh_token = None, mp_refresh_digest = None, mp_ttl = ttl\<rparr>, p1))"

definition revoke_upstream_and_purge :: "flow_config \<Rightarrow> upstream_token_set \<Rightarrow> flow_state \<Rightarrow> flow_state" where
  "revoke_upstream_and_purge F ts s =
     (let call = (case us_refresh ts of
                    None \<Rightarrow> (us_access ts, ''access_token'')
                  | Some refresh \<Rightarrow> (refresh, ''refresh_token''))
      in s\<lparr>fl_revocations := fl_revocations s @ [call],
           fl_verifier := purge (fc_crypto F) (us_access ts) (fl_verifier s)\<rparr>)"

text \<open>
  The loop over the swept sets purges them one after the other from the verifier's cache;
  \<open>purge_all\<close> is what any order of these purges comes to (\<open>fold_purge\<close> below).
\<close>

definition purge_all :: "crypto \<Rightarrow> string set \<Rightarrow> token_verifier \<Rightarrow> token_verifier" where
  "purge_all C tokens v =
     v\<lparr>tv_cache := fmfilter (\<lambda>d. d \<notin> verifier_digest C ` tokens) (tv_cache v)\<rparr>"

definition flow_sweep_expired_sessions :: "flow_config \<Rightarrow> instant \<Rightarrow> flow_state \<Rightarrow> flow_state" where
  "flow_sweep_expired_sessions F now s =
     (let (swept, p1) = sweep_expired_sessions now (fl_proxy s);
          sets = fst |`| fmran swept
      in s\<lparr>fl_proxy := p1,
           fl_verifier := purge_all (fc_crypto F) (us_access ` fset sets) (fl_verifier s),
           fl_tasks := fl_tasks s |\<union>| ffilter (\<lambda>ts. us_refresh ts \<noteq> None) sets\<rparr>)"

text \<open>The background task works off one set.\<close>

definition run_task :: "flow_config \<Rightarrow> upstream_token_set \<Rightarrow> flow_state \<Rightarrow> flow_state" where
  "run_task F ts s = revoke_upstream_and_purge F ts (s\<lparr>fl_tasks := fl_tasks s |-| {|ts|}\<rparr>)"

definition invalid_grant :: reply where
  "invalid_grant = OAuthError 400 ''invalid_grant''"

definition server_error :: reply where
  "server_error = OAuthError 500 ''server_error''"

text \<open>The replay branch of the code grant.\<close>

definition contain_replay ::
    "flow_config \<Rightarrow> digest \<Rightarrow> digest option \<Rightarrow> string \<Rightarrow> flow_state \<Rightarrow> flow_state" where
  "contain_replay F token_d refresh_d upstream_id s =
     (let p = fl_proxy s;
          p1 = p\<lparr>ps_tokens := token_delete_by_digest token_d (ps_tokens p)\<rparr>;
          p2 = (case refresh_d of
                  Some d \<Rightarrow> p1\<lparr>ps_refresh_tokens := refresh_delete_by_digest d (ps_refresh_tokens p1)\<rparr>
                | None \<Rightarrow> p1);
          (taken, p3) = take_session upstream_id p2;
          s1 = s\<lparr>fl_proxy := p3\<rparr>
      in case taken of
          Some upstream \<Rightarrow> s1\<lparr>fl_verifier := purge (fc_crypto F) (us_access upstream) (fl_verifier s1)\<rparr>
        | None \<Rightarrow> s1)"

text \<open>The success branch: \<open>ru\<close> is the draw of the session id.\<close>

definition grant_redeemed ::
    "flow_config \<Rightarrow> instant \<Rightarrow> rng \<Rightarrow> rng \<Rightarrow> rng \<Rightarrow> string \<Rightarrow> string \<Rightarrow> upstream_token_set \<Rightarrow> flow_state \<Rightarrow>
     reply \<times> flow_state" where
  "grant_redeemed F now ru ra rr code client_id upstream s =
     (let C = fc_crypto F;
          s1 = s\<lparr>fl_proxy := (fl_proxy s)\<lparr>ps_registry :=
                   registry_touch now client_id (ps_registry (fl_proxy s))\<rparr>\<rparr>;
          s2 = flow_sweep_expired_sessions F now s1;
          ttl = us_expires_at upstream - now;
          wants_refresh = (us_refresh upstream \<noteq> None);
          granted_scope = join '' '' (us_granted_scopes upstream);
          (inserted, ups) = upstream_insert now ru upstream (ps_upstream_tokens (fl_proxy s2));
          p3 = (fl_proxy s2)\<lparr>ps_upstream_tokens := ups\<rparr>
      in case inserted of
          None \<Rightarrow> (server_error, s2\<lparr>fl_proxy := p3\<rparr>)
        | Some upstream_id \<Rightarrow>
            (case mint_token_pair C now ra rr client_id upstream_id ttl wants_refresh p3 of
               (None, p4) \<Rightarrow> (server_error, s2\<lparr>fl_proxy := snd (take_session upstream_id p4)\<rparr>)
             | (Some pair, p4) \<Rightarrow>
                 (Tokens pair granted_scope,
                  s2\<lparr>fl_proxy := p4\<lparr>ps_codes :=
                       code_mark_consumed C now code (mp_access_digest pair) (mp_refresh_digest pair)
                         upstream_id (ps_codes p4)\<rparr>\<rparr>)))"

definition authorization_code_grant ::
    "flow_config \<Rightarrow> instant \<Rightarrow> rng \<Rightarrow> rng \<Rightarrow> rng \<Rightarrow> (string, string) fmap \<Rightarrow> flow_state \<Rightarrow>
     reply \<times> flow_state" where
  "authorization_code_grant F now ru ra rr form s =
     (case (fmlookup form ''code'', fmlookup form ''redirect_uri'', fmlookup form ''client_id'',
            fmlookup form ''code_verifier'') of
        (Some code, Some redirect_uri, Some client_id, Some code_verifier) \<Rightarrow>
          (let (outcome, codes) =
                 code_redeem (fc_crypto F) now code client_id redirect_uri code_verifier
                   (ps_codes (fl_proxy s));
               s1 = s\<lparr>fl_proxy := (fl_proxy s)\<lparr>ps_codes := codes\<rparr>\<rparr>
           in case outcome of
               RedeemInvalid \<Rightarrow> (invalid_grant, s1)
             | RedeemMismatch \<Rightarrow> (invalid_grant, s1)
             | RedeemReplayed token_d refresh_d upstream_id \<Rightarrow>
                 (invalid_grant, contain_replay F token_d refresh_d upstream_id s1)
             | RedeemOk upstream \<Rightarrow> grant_redeemed F now ru ra rr code client_id upstream s1)
      | _ \<Rightarrow> (OAuthError 400 ''invalid_request'', s))"

text \<open>
  What the refresh grant carries across its await on Redmine; \<open>pr_guard\<close> is the key the
  \<^verbatim>\<open>InFlightGuard\<close> restores when the handler returns.
\<close>

record pending_refresh =
  pr_refresh_token :: string
  pr_client_id :: string
  pr_upstream_id :: string
  pr_guard :: digest
  pr_old_secret :: secret
  pr_old_scopes :: "string list"

definition drop_guard :: "digest \<Rightarrow> flow_state \<Rightarrow> flow_state" where
  "drop_guard g s =
     s\<lparr>fl_proxy := (fl_proxy s)\<lparr>ps_refresh_tokens :=
         in_flight_guard_drop g (ps_refresh_tokens (fl_proxy s))\<rparr>\<rparr>"

definition discard_refresh :: "flow_config \<Rightarrow> string \<Rightarrow> flow_state \<Rightarrow> flow_state" where
  "discard_refresh F token s =
     s\<lparr>fl_proxy := (fl_proxy s)\<lparr>ps_refresh_tokens :=
         refresh_discard (fc_crypto F) token (ps_refresh_tokens (fl_proxy s))\<rparr>\<rparr>"

definition refresh_grant_begin ::
    "flow_config \<Rightarrow> instant \<Rightarrow> (string, string) fmap \<Rightarrow> flow_state \<Rightarrow>
     (reply + pending_refresh) \<times> flow_state" where
  "refresh_grant_begin F now form s =
     (case (fmlookup form ''refresh_token'', fmlookup form ''client_id'') of
        (Some refresh_token, Some requested_client_id) \<Rightarrow>
          (let (outcome, rts) = refresh_redeem (fc_crypto F) now refresh_token
                                  (ps_refresh_tokens (fl_proxy s));
               s1 = s\<lparr>fl_proxy := (fl_proxy s)\<lparr>ps_refresh_tokens := rts\<rparr>\<rparr>
           in case outcome of
               RefreshInvalid \<Rightarrow> (Inl invalid_grant, s1)
             | RefreshReused upstream_id \<Rightarrow>
                 (let (taken, p1) = take_session upstream_id (fl_proxy s1);
                      s2 = s1\<lparr>fl_proxy := p1\<rparr>
                  in (Inl invalid_grant,
                      case taken of Some upstream \<Rightarrow> revoke_upstream_and_purge F upstream s2 | None \<Rightarrow> s2))
             | RefreshOk bound_client_id upstream_id guard \<Rightarrow>
                 if bound_client_id \<noteq> requested_client_id then (Inl invalid_grant, drop_guard guard s1)
                 else
                   let s2 = s1\<lparr>fl_proxy := (fl_proxy s1)\<lparr>ps_registry :=
                              registry_touch now bound_client_id (ps_registry (fl_proxy s1))\<rparr>\<rparr>
                   in case upstream_refresh_token now upstream_id (ps_upstream_tokens (fl_proxy s2)) of
                       None \<Rightarrow>
                         (Inl invalid_grant, drop_guard guard (discard_refresh F refresh_token s2))
                     | Some old_refresh_secret \<Rightarrow>
                         (Inr \<lparr>pr_refresh_token = refresh_token, pr_client_id = bound_client_id,
                               pr_upstream_id = upstream_id, pr_guard = guard,
                               pr_old_secret = old_refresh_secret,
                               pr_old_scopes =
                                 (case upstream_granted_scopes now upstream_id
                                         (ps_upstream_tokens (fl_proxy s2)) of
                                    Some scopes \<Rightarrow> scopes | None \<Rightarrow> [])\<rparr>, s2))
      | _ \<Rightarrow> (Inl (OAuthError 400 ''invalid_request''), s))"

definition refresh_grant_finish ::
    "flow_config \<Rightarrow> instant \<Rightarrow> rng \<Rightarrow> rng \<Rightarrow> pending_refresh \<Rightarrow> (redmine_error + oauth_token) \<Rightarrow>
     flow_state \<Rightarrow> reply \<times> flow_state" where
  "refresh_grant_finish F now ra rr pr refreshed s =
     (case refreshed of
        Inl _ \<Rightarrow>
          (let s1 = discard_refresh F (pr_refresh_token pr) s;
               (taken, p2) = take_session (pr_upstream_id pr) (fl_proxy s1);
               s2 = s1\<lparr>fl_proxy := p2\<rparr>;
               s3 = (case taken of
                       Some upstream \<Rightarrow>
                         s2\<lparr>fl_verifier := purge (fc_crypto F) (us_access upstream) (fl_verifier s2)\<rparr>
                     | None \<Rightarrow> s2)
           in (invalid_grant, drop_guard (pr_guard pr) s3))
      | Inr tok \<Rightarrow>
          (let granted_scopes = granted_scopes_of (ot_scope tok) (pr_old_scopes pr);
               expires_at = token_deadline now tok;
               ttl = expires_at - now;
               new_set = \<lparr>us_access = ot_access_token tok, us_refresh = ot_refresh_token tok,
                          us_granted_scopes = granted_scopes, us_expires_at = expires_at\<rparr>;
               (replaced, ups) = upstream_replace now (pr_upstream_id pr) new_set
                                   (ps_upstream_tokens (fl_proxy s));
               s1 = s\<lparr>fl_proxy := (fl_proxy s)\<lparr>ps_upstream_tokens := ups\<rparr>\<rparr>
           in case replaced of
               Inl orphan \<Rightarrow>
                 (invalid_grant,
                  drop_guard (pr_guard pr)
                    (revoke_upstream_and_purge F orphan (discard_refresh F (pr_refresh_token pr) s1)))
             | Inr _ \<Rightarrow>
                 (case mint_token_pair (fc_crypto F) now ra rr (pr_client_id pr) (pr_upstream_id pr) ttl
                         (ot_refresh_token tok \<noteq> None) (fl_proxy s1) of
                    (None, p2) \<Rightarrow> (server_error, drop_guard (pr_guard pr) (s1\<lparr>fl_proxy := p2\<rparr>))
                  | (Some pair, p2) \<Rightarrow>
                      (Tokens pair (join '' '' granted_scopes),
                       drop_guard (pr_guard pr)
                         (s1\<lparr>fl_proxy := p2\<lparr>ps_refresh_tokens :=
                            refresh_retire (fc_crypto F) now (pr_refresh_token pr) (pr_upstream_id pr)
                              (ps_refresh_tokens p2)\<rparr>\<rparr>)))))"

text \<open>\<^verbatim>\<open>refresh_token_grant\<close> with nothing in between; \<open>refresh\<close> is Redmine's refresh endpoint.\<close>

definition refresh_token_grant ::
    "flow_config \<Rightarrow> instant \<Rightarrow> instant \<Rightarrow> rng \<Rightarrow> rng \<Rightarrow> (secret \<Rightarrow> redmine_error + oauth_token) \<Rightarrow>
     (string, string) fmap \<Rightarrow> flow_state \<Rightarrow> reply \<times> flow_state" where
  "refresh_token_grant F now now' ra rr refresh form s =
     (case refresh_grant_begin F now form s of
        (Inl reply, s1) \<Rightarrow> (reply, s1)
      | (Inr pr, s1) \<Rightarrow> refresh_grant_finish F now' ra rr pr (refresh (pr_old_secret pr)) s1)"

definition token_endpoint ::
    "flow_config \<Rightarrow> instant \<Rightarrow> instant \<Rightarrow> rng \<Rightarrow> rng \<Rightarrow> rng \<Rightarrow> (secret \<Rightarrow> redmine_error + oauth_token) \<Rightarrow>
     string option \<Rightarrow> (string, string) fmap body \<Rightarrow> flow_state \<Rightarrow> reply \<times> flow_state" where
  "token_endpoint F now now' ru ra rr refresh content_type body s =
     (if \<not> content_type_is_form content_type
      then (Plain 415 ''unsupported media type: expected application/x-www-form-urlencoded'', s)
      else case body of
          Decoded form \<Rightarrow>
            (case fmlookup form ''grant_type'' of
               None \<Rightarrow> (OAuthError 400 ''invalid_request'', s)
             | Some g \<Rightarrow>
                 if g = ''authorization_code'' then authorization_code_grant F now ru ra rr form s
                 else if g = ''refresh_token'' then refresh_token_grant F now now' ra rr refresh form s
                 else (OAuthError 400 ''unsupported_grant_type'', s))
        | _ \<Rightarrow> (Plain 413 ''payload too large'', s))"

section \<open>Revocation\<close>

definition ACCESS_TOKEN_PREFIX :: string where
  "ACCESS_TOKEN_PREFIX = ''rup_at_''"

definition REFRESH_TOKEN_PREFIX :: string where
  "REFRESH_TOKEN_PREFIX = ''rup_rt_''"

definition revoke_local :: "crypto \<Rightarrow> string \<Rightarrow> proxy_state \<Rightarrow> upstream_token_set option \<times> proxy_state" where
  "revoke_local C token p =
     (if starts_with token ACCESS_TOKEN_PREFIX
      then (case token_take C token (ps_tokens p) of
          (None, toks) \<Rightarrow> (None, p\<lparr>ps_tokens := toks\<rparr>)
        | (Some entry, toks) \<Rightarrow> take_session (te_upstream_id entry) (p\<lparr>ps_tokens := toks\<rparr>))
      else if starts_with token REFRESH_TOKEN_PREFIX
      then (case refresh_take C token (ps_refresh_tokens p) of
          (None, rts) \<Rightarrow> (None, p\<lparr>ps_refresh_tokens := rts\<rparr>)
        | (Some (client_id, upstream_id), rts) \<Rightarrow>
            take_session upstream_id (p\<lparr>ps_refresh_tokens := rts\<rparr>))
      else (None, p))"

definition revoke ::
    "flow_config \<Rightarrow> string option \<Rightarrow> (string, string) fmap body \<Rightarrow> flow_state \<Rightarrow> reply \<times> flow_state" where
  "revoke F content_type body s =
     (if \<not> content_type_is_form content_type
      then (Plain 415 ''unsupported media type: expected application/x-www-form-urlencoded'', s)
      else case body of
          Decoded form \<Rightarrow>
            (case non_empty (fmlookup form ''token'') of
               None \<Rightarrow> (OAuthError 400 ''invalid_request'', s)
             | Some token \<Rightarrow>
                 (let (upstream, p1) = revoke_local (fc_crypto F) token (fl_proxy s);
                      s1 = s\<lparr>fl_proxy := p1\<rparr>
                  in (Done 200,
                      case upstream of Some ts \<Rightarrow> revoke_upstream_and_purge F ts s1 | None \<Rightarrow> s1)))
        | _ \<Rightarrow> (Plain 413 ''payload too large'', s))"

section \<open>The middleware\<close>

text \<open>The lookups before the await; \<open>Inr\<close> is the upstream token to verify.\<close>

definition proxy_bearer_begin ::
    "flow_config \<Rightarrow> (string \<Rightarrow> string option) \<Rightarrow> (string \<Rightarrow> string option) \<Rightarrow> challenge \<Rightarrow> instant \<Rightarrow>
     string list \<Rightarrow> proxy_state \<Rightarrow> (response + secret) \<times> proxy_state" where
  "proxy_bearer_begin F to_str from_str ch now values p =
     (case extract_bearer to_str values of
        Inl BearerMissing \<Rightarrow> (Inl (challenge_response from_str ch None), p)
      | Inl (BearerMalformed _) \<Rightarrow> (Inl (challenge_response from_str ch (Some ''invalid_request'')), p)
      | Inr token \<Rightarrow>
          if \<not> starts_with token ACCESS_TOKEN_PREFIX
          then (Inl (challenge_response from_str ch (Some ''invalid_token'')), p)
          else (case token_resolve (fc_crypto F) now token (ps_tokens p) of
              (None, toks) \<Rightarrow>
                (Inl (challenge_response from_str ch (Some ''invalid_token'')), p\<lparr>ps_tokens := toks\<rparr>)
            | (Some entry, toks) \<Rightarrow>
                (case upstream_access_token now (te_upstream_id entry) (ps_upstream_tokens p) of
                   None \<Rightarrow>
                     (Inl (challenge_response from_str ch (Some ''invalid_token'')), p\<lparr>ps_tokens := toks\<rparr>)
                 | Some access \<Rightarrow> (Inr access, p\<lparr>ps_tokens := toks\<rparr>))))"

definition require_proxy_bearer ::
    "flow_config \<Rightarrow> (string \<Rightarrow> string option) \<Rightarrow> (string \<Rightarrow> string option) \<Rightarrow> challenge \<Rightarrow> instant \<Rightarrow>
     verify_clock \<Rightarrow> (redmine_error + introspection) \<Rightarrow> string list \<Rightarrow> flow_state \<Rightarrow>
     (response + auth_context) \<times> flow_state" where
  "require_proxy_bearer F to_str from_str ch now k answer values s =
     (case proxy_bearer_begin F to_str from_str ch now values (fl_proxy s) of
        (Inl resp, p1) \<Rightarrow> (Inl resp, s\<lparr>fl_proxy := p1\<rparr>)
      | (Inr access, p1) \<Rightarrow>
          (let (result, v1) = verify (fc_crypto F) k answer access (fl_verifier s);
               s1 = s\<lparr>fl_proxy := p1, fl_verifier := v1\<rparr>
           in case result of
               Inr ctx \<Rightarrow> (Inr ctx, s1)
             | Inl (InvalidToken _) \<Rightarrow>
                 (Inl (challenge_response from_str ch (Some ''invalid_token'')), s1)
             | Inl Unavailable \<Rightarrow> (Inl unavailable_response, s1)
             | Inl Misconfigured \<Rightarrow> (Inl unavailable_response, s1)))"

end
