(* ===== verification/Endpoint_Safety.thy ===== *)
theory Endpoint_Safety
  imports Endpoints
begin

text \<open>
  What holds of the whole \<^verbatim>\<open>oauth-proxy\<close> mode in every state that requests can bring about: the
  reachable states of all endpoints together, the capacity of every bounded store, and that no
  redirect ever leaves for a URI outside the policy.
\<close>

section \<open>The invariant of the stores, operation by operation\<close>

lemma proxy_inv_upd [intro]:
  "proxy_inv p \<Longrightarrow> registry_inv g \<Longrightarrow> proxy_inv (p\<lparr>ps_registry := g\<rparr>)"
  "proxy_inv p \<Longrightarrow> fmlen t \<le> MAX_ENTRIES \<Longrightarrow> proxy_inv (p\<lparr>ps_transactions := t\<rparr>)"
  "proxy_inv p \<Longrightarrow> code_inv c \<Longrightarrow> proxy_inv (p\<lparr>ps_codes := c\<rparr>)"
  "proxy_inv p \<Longrightarrow> fmlen k \<le> MAX_ENTRIES \<Longrightarrow> proxy_inv (p\<lparr>ps_tokens := k\<rparr>)"
  "proxy_inv p \<Longrightarrow> fmlen u \<le> MAX_ENTRIES \<Longrightarrow> proxy_inv (p\<lparr>ps_upstream_tokens := u\<rparr>)"
  "proxy_inv p \<Longrightarrow> fmlen (rf_current r) \<le> MAX_ENTRIES \<Longrightarrow> fmlen (rf_retired r) \<le> MAX_ENTRIES \<Longrightarrow>
     proxy_inv (p\<lparr>ps_refresh_tokens := r\<rparr>)"
  by (simp_all add: proxy_inv_def)

lemma proxy_invD:
  "proxy_inv p \<Longrightarrow> registry_inv (ps_registry p)"
  "proxy_inv p \<Longrightarrow> fmlen (ps_transactions p) \<le> MAX_ENTRIES"
  "proxy_inv p \<Longrightarrow> code_inv (ps_codes p)"
  "proxy_inv p \<Longrightarrow> fmlen (ps_tokens p) \<le> MAX_ENTRIES"
  "proxy_inv p \<Longrightarrow> fmlen (ps_upstream_tokens p) \<le> MAX_ENTRIES"
  "proxy_inv p \<Longrightarrow> fmlen (rf_current (ps_refresh_tokens p)) \<le> MAX_ENTRIES"
  "proxy_inv p \<Longrightarrow> fmlen (rf_retired (ps_refresh_tokens p)) \<le> MAX_ENTRIES"
  by (simp_all add: proxy_inv_def)

lemma txn_create_bound:
  "fmlen s \<le> MAX_ENTRIES \<Longrightarrow> txn_create C now r t s = (o', s') \<Longrightarrow> fmlen s' \<le> MAX_ENTRIES"
  using txn.put_bound [where C = C and s = s and now = now and a = "(r, t)"] by simp

lemma token_mint_bound:
  "fmlen s \<le> MAX_ENTRIES \<Longrightarrow> token_mint C now r cid uid ttl s = (o', s') \<Longrightarrow> fmlen s' \<le> MAX_ENTRIES"
  using tok.put_bound [where C = C and s = s and now = now and a = "(r, cid, uid, ttl)"] by simp

lemma refresh_mint_bound:
  "fmlen (rf_current s) \<le> MAX_ENTRIES \<Longrightarrow> refresh_mint C now r cid uid s = (o', s') \<Longrightarrow>
     fmlen (rf_current s') \<le> MAX_ENTRIES"
  using rcur.put_bound [where C = C and s = s and now = now and a = "(r, cid, uid)"] by simp

lemma refresh_mint_retired:
  "refresh_mint C now r cid uid s = (o', s') \<Longrightarrow> rf_retired s' = rf_retired s"
  by (auto simp: refresh_mint_def Let_def split: option.splits prod.splits if_splits)

lemma upstream_insert_bound:
  "fmlen s \<le> MAX_ENTRIES \<Longrightarrow> upstream_insert now r ts s = (o', s') \<Longrightarrow> fmlen s' \<le> MAX_ENTRIES"
  using ups.put_bound [where s = s and now = now and a = "(r, ts)"] by simp

lemma refresh_redeem_bound:
  "fmlen (rf_current (snd (refresh_redeem C now t s))) \<le> fmlen (rf_current s)"
  by (auto simp: refresh_redeem_def refresh_redeem_current_def Let_def fmlen_fmdrop_le fmlen_fmupd_old fmdomI
      split: option.split refresh_state.split prod.split)

lemma refresh_retire_bound:
  assumes "fmlen (rf_retired s) \<le> MAX_ENTRIES"
  shows "fmlen (rf_retired (refresh_retire C now t uid s)) \<le> MAX_ENTRIES"
  using rret.put_bound [where C = C and s = s and now = now and a = "(t, uid)"] assms by simp

lemma register_inv_proxy: "proxy_inv p \<Longrightarrow> proxy_inv (snd (register F now r ct body p))"
  using register_client_inv
  by (auto simp: register_def split: body.split prod.split option.split) (metis snd_conv)+

lemma authorize_phase_a_inv: "proxy_inv p \<Longrightarrow> proxy_inv (snd (authorize_phase_a F now q p))"
  by (auto simp: authorize_phase_a_def Let_def split: option.split dest: proxy_invD intro!: touch_inv)

lemma authorize_phase_b_inv: "proxy_inv p \<Longrightarrow> proxy_inv (snd (authorize_phase_b F now r1 r2 q cid uri p))"
  by (auto simp: authorize_phase_b_def Let_def split: option.split prod.split
      dest: proxy_invD txn_create_bound [rotated])

lemma authorize_inv: "proxy_inv p \<Longrightarrow> proxy_inv (snd (authorize F now r1 r2 q p))"
  using authorize_phase_a_inv [of p F now q]
  by (auto simp: authorize_def authorize_phase_b_inv split: prod.split sum.split)

lemma callback_begin_inv: "proxy_inv p \<Longrightarrow> proxy_inv (snd (callback_begin F now q p))"
  using txn_take_bound [of "fc_crypto F" now _ "ps_transactions p"] proxy_invD(2) [of p]
  by (auto simp: callback_begin_def Let_def split: option.split prod.split)
    (metis order_trans snd_conv proxy_inv_upd(2))+

lemma callback_finish_inv: "proxy_inv p \<Longrightarrow> proxy_inv (snd (callback_finish F now r t ex p))"
  using code_mint_inv [of "ps_codes p" "fc_crypto F" now r] proxy_invD(3) [of p]
  by (auto simp: callback_finish_def Let_def split: sum.split option.split prod.split)
    (metis snd_conv proxy_inv_upd(3))+

lemma mint_token_pair_inv:
  assumes "proxy_inv p"
  shows "proxy_inv (snd (mint_token_pair C now ra rr cid uid ttl wants p))"
proof -
  obtain t toks where t: "token_mint C now ra cid uid ttl (ps_tokens p) = (t, toks)" by fastforce
  obtain r rts where r: "refresh_mint C now rr cid uid (ps_refresh_tokens p) = (r, rts)" by fastforce
  have "proxy_inv (p\<lparr>ps_tokens := toks\<rparr>)"
    using assms token_mint_bound [OF _ t] by (auto dest: proxy_invD)
  moreover from this have "proxy_inv (p\<lparr>ps_tokens := toks, ps_refresh_tokens := rts\<rparr>)"
    using refresh_mint_bound [OF _ r] refresh_mint_retired [OF r] proxy_invD(6,7) [OF assms]
    by (intro proxy_inv_upd(6)) simp_all
  ultimately show ?thesis
    by (auto simp: mint_token_pair_def t r Let_def split: option.split)
qed

lemma contain_replay_inv:
  "proxy_inv (fl_proxy s) \<Longrightarrow> proxy_inv (fl_proxy (contain_replay F td rd uid s))"
proof -
  assume i: "proxy_inv (fl_proxy s)"
  define p2 where "p2 = (case rd of
      Some d \<Rightarrow> (fl_proxy s)\<lparr>ps_tokens := token_delete_by_digest td (ps_tokens (fl_proxy s)),
                 ps_refresh_tokens := refresh_delete_by_digest d (ps_refresh_tokens (fl_proxy s))\<rparr>
    | None \<Rightarrow> (fl_proxy s)\<lparr>ps_tokens := token_delete_by_digest td (ps_tokens (fl_proxy s))\<rparr>)"
  have "proxy_inv p2"
    using i proxy_invD(4,6,7) [OF i]
    by (auto simp: p2_def token_delete_by_digest_def refresh_delete_by_digest_def proxy_inv_def
        split: option.split intro: order_trans [OF fmlen_fmdrop_le])
  then have "proxy_inv (snd (take_session uid p2))" by (rule take_session_inv)
  moreover have "fl_proxy (contain_replay F td rd uid s) = snd (take_session uid p2)"
    by (cases rd) (auto simp: contain_replay_def p2_def Let_def split: prod.split option.split)
  ultimately show ?thesis by simp
qed

lemma flow_sweep_proxy:
  "fl_proxy (flow_sweep_expired_sessions F now s) = snd (sweep_expired_sessions now (fl_proxy s))"
  by (simp add: flow_sweep_expired_sessions_def Let_def split: prod.split)

lemma grant_redeemed_inv:
  assumes "proxy_inv (fl_proxy s)"
  shows "proxy_inv (fl_proxy (snd (grant_redeemed F now ru ra rr code cid up s)))"
proof -
  define p1 where "p1 = (fl_proxy s)\<lparr>ps_registry := registry_touch now cid (ps_registry (fl_proxy s))\<rparr>"
  define p2 where "p2 = snd (sweep_expired_sessions now p1)"
  obtain ins u where u: "upstream_insert now ru up (ps_upstream_tokens p2) = (ins, u)" by fastforce
  define p3 where "p3 = p2\<lparr>ps_upstream_tokens := u\<rparr>"
  have "proxy_inv p1" unfolding p1_def using assms by (auto intro: touch_inv dest: proxy_invD)
  then have i2: "proxy_inv p2" unfolding p2_def by (rule sweep_expired_sessions_inv)
  then have i3: "proxy_inv p3"
    using upstream_insert_bound [OF _ u] unfolding p3_def by (auto dest: proxy_invD)
  have i4: "proxy_inv (snd (mint_token_pair (fc_crypto F) now ra rr cid uid ttl w p3))" for uid ttl w
    using i3 by (rule mint_token_pair_inv)
  have i5: "proxy_inv (p4\<lparr>ps_codes := code_mark_consumed C now code td rd uid (ps_codes p4)\<rparr>)"
    if "proxy_inv p4" for p4 C td rd uid
    using that by (auto intro: code_mark_consumed_inv dest: proxy_invD)
  show ?thesis
    using i3 i4 i5 take_session_inv
    by (auto simp: grant_redeemed_def Let_def flow_sweep_proxy p1_def [symmetric] p2_def [symmetric] u
        p3_def [symmetric] split: option.split prod.split) (metis snd_conv)+
qed

lemma authorization_code_grant_inv:
  assumes "proxy_inv (fl_proxy s)"
  shows "proxy_inv (fl_proxy (snd (authorization_code_grant F now ru ra rr form s)))"
proof -
  have "proxy_inv ((fl_proxy s)\<lparr>ps_codes := snd (code_redeem (fc_crypto F) now code cid uri v (ps_codes (fl_proxy s)))\<rparr>)"
    for code cid uri v
    using assms by (auto intro: code_redeem_inv dest: proxy_invD)
  then show ?thesis using assms
    by (auto simp: authorization_code_grant_def Let_def split: option.split prod.split redeem_outcome.split
        intro!: grant_redeemed_inv contain_replay_inv) (metis snd_conv)+
qed

lemma drop_guard_inv: "proxy_inv (fl_proxy s) \<Longrightarrow> proxy_inv (fl_proxy (drop_guard g s))"
  using guard_drop_dom [of g "ps_refresh_tokens (fl_proxy s)"]
  by (auto simp: drop_guard_def proxy_inv_def fmlen_def)

lemma discard_refresh_inv: "proxy_inv (fl_proxy s) \<Longrightarrow> proxy_inv (fl_proxy (discard_refresh F t s))"
  by (auto simp: discard_refresh_def refresh_discard_def proxy_inv_def intro: order_trans [OF fmlen_fmdrop_le])

lemma revoke_upstream_proxy [simp]: "fl_proxy (revoke_upstream_and_purge F ts s) = fl_proxy s"
  by (simp add: revoke_upstream_and_purge_def Let_def)

lemma refresh_grant_begin_inv:
  assumes "proxy_inv (fl_proxy s)"
  shows "proxy_inv (fl_proxy (snd (refresh_grant_begin F now form s)))"
proof -
  let ?r = "\<lambda>t. snd (refresh_redeem (fc_crypto F) now t (ps_refresh_tokens (fl_proxy s)))"
  have i1: "proxy_inv ((fl_proxy s)\<lparr>ps_refresh_tokens := ?r t\<rparr>)" for t
    using assms refresh_redeem_bound [of "fc_crypto F" now t "ps_refresh_tokens (fl_proxy s)"]
    by (intro proxy_inv_upd(6)) (auto dest: proxy_invD)
  have i2: "proxy_inv (p\<lparr>ps_registry := registry_touch now cid (ps_registry p)\<rparr>)" if "proxy_inv p" for p cid
    using that by (auto intro: touch_inv dest: proxy_invD)
  have case_proxy: "fl_proxy (case o' of None \<Rightarrow> s' | Some ts \<Rightarrow> revoke_upstream_and_purge F ts s') = fl_proxy s'"
    for o' s' by (simp split: option.split)
  show ?thesis
  proof (cases "(fmlookup form ''refresh_token'', fmlookup form ''client_id'')")
    case (Pair tk cl)
    show ?thesis
    proof (cases "tk = None \<or> cl = None")
      case True
      then show ?thesis using Pair assms by (auto simp: refresh_grant_begin_def split: option.split)
    next
      case False
      then obtain t c where tc: "tk = Some t" "cl = Some c" by auto
      obtain oc rts where r: "refresh_redeem (fc_crypto F) now t (ps_refresh_tokens (fl_proxy s)) = (oc, rts)"
        by fastforce
      have i: "proxy_inv ((fl_proxy s)\<lparr>ps_refresh_tokens := rts\<rparr>)" using i1 [of t] r by simp
      show ?thesis
        using Pair tc r i i2 [OF i]
        by (cases oc)
          (auto simp: refresh_grant_begin_def Let_def case_proxy split: option.split prod.split
            intro!: drop_guard_inv discard_refresh_inv, metis take_session_inv snd_conv)
    qed
  qed
qed

lemma refresh_grant_finish_inv:
  assumes "proxy_inv (fl_proxy s)"
  shows "proxy_inv (fl_proxy (snd (refresh_grant_finish F now ra rr pr refreshed s)))"
proof (cases refreshed)
  case (Inl e)
  have "proxy_inv (snd (take_session (pr_upstream_id pr) (fl_proxy (discard_refresh F (pr_refresh_token pr) s))))"
    using assms by (intro take_session_inv discard_refresh_inv)
  then show ?thesis using Inl
    by (auto simp: refresh_grant_finish_def Let_def split: option.split prod.split intro!: drop_guard_inv)
next
  case (Inr tok)
  have i1: "proxy_inv ((fl_proxy s)\<lparr>ps_upstream_tokens :=
      snd (upstream_replace now uid ts (ps_upstream_tokens (fl_proxy s)))\<rparr>)" for uid ts
    using assms by (simp add: proxy_inv_def upstream_replace_bound)
  have i2: "proxy_inv (p\<lparr>ps_refresh_tokens := refresh_retire C now t uid (ps_refresh_tokens p)\<rparr>)"
    if "proxy_inv p" for p C t uid
    using that refresh_retire_bound [of "ps_refresh_tokens p" C now t uid]
    by (intro proxy_inv_upd(6)) (auto dest: proxy_invD intro: order_trans [OF fmlen_fmdrop_le])
  have i3: "proxy_inv p2" if "mint_token_pair C now ra rr cid uid ttl w p = (o', p2)" "proxy_inv p"
    for C cid uid ttl w p o' p2
    using mint_token_pair_inv [OF that(2), of C now ra rr cid uid ttl w] that(1) by simp
  show ?thesis
    using i1 i2 i3 unfolding Inr
    by (auto simp: refresh_grant_finish_def Let_def split: option.split prod.split sum.split
        intro!: drop_guard_inv discard_refresh_inv) (metis snd_conv)+
qed

lemma revoke_local_inv: "proxy_inv p \<Longrightarrow> proxy_inv (snd (revoke_local C t p))"
proof -
  assume i: "proxy_inv p"
  have "proxy_inv (p\<lparr>ps_tokens := fmdrop k (ps_tokens p)\<rparr>)" for k
    using i by (auto simp: proxy_inv_def intro: order_trans [OF fmlen_fmdrop_le])
  moreover have "proxy_inv (p\<lparr>ps_refresh_tokens := snd (refresh_take C t (ps_refresh_tokens p))\<rparr>)"
    using i by (auto simp: proxy_inv_def refresh_take_def Let_def intro: order_trans [OF fmlen_fmdrop_le])
  ultimately show ?thesis using i
    by (auto simp: revoke_local_def token_take_def Let_def split: option.split prod.split
        intro!: take_session_inv)
qed

lemma revoke_inv: "proxy_inv (fl_proxy s) \<Longrightarrow> proxy_inv (fl_proxy (snd (revoke F ct body s)))"
  using revoke_local_inv [of "fl_proxy s" "fc_crypto F"]
  by (auto simp: revoke_def Let_def split: body.split option.split prod.split) (metis snd_conv)+

lemma proxy_bearer_begin_inv:
  assumes "proxy_inv p"
  shows "proxy_inv (snd (proxy_bearer_begin F to_str from_str ch now values p))"
proof -
  have "proxy_inv (p\<lparr>ps_tokens := snd (token_resolve (fc_crypto F) now t (ps_tokens p))\<rparr>)" for t
    using assms token_resolve_bound [of "fc_crypto F" now t "ps_tokens p"] by (auto simp: proxy_inv_def)
  then show ?thesis using assms
    by (auto simp: proxy_bearer_begin_def split: sum.split bearer_error.split option.split prod.split)
      (metis snd_conv)+
qed

section \<open>Permitted redirect URIs\<close>

text \<open>Every URI a stored transaction or a stored code would redirect to passes the policy.\<close>

definition txns_permitted :: "flow_config \<Rightarrow> proxy_state \<Rightarrow> bool" where
  "txns_permitted F p \<longleftrightarrow>
     (\<forall>k t x. fmlookup (ps_transactions p) k = Some (t, x) \<longrightarrow>
        permits (fc_url F) (fc_redirects F) (tx_redirect_uri t))"

lemma txns_permitted_cong: "ps_transactions p' = ps_transactions p \<Longrightarrow> txns_permitted F p' = txns_permitted F p"
  by (simp add: txns_permitted_def)

lemma authorize_phase_a_Inr:
  assumes "authorize_phase_a F now q p = (Inr (cid, uri), p1)"
  shows "\<exists>reg. aq_client_id q = Some cid \<and> aq_redirect_uri q = Some uri \<and>
      registry_get cid (ps_registry p) = Some reg \<and> uri \<in> set (cr_redirect_uris reg) \<and>
      permits (fc_url F) (fc_redirects F) uri"
    and "p1 = p\<lparr>ps_registry := registry_touch now cid (ps_registry p)\<rparr>"
  using assms
  by (auto simp: authorize_phase_a_def non_empty_def Let_def split: option.splits if_splits)

lemma authorize_phase_a_txns: "ps_transactions (snd (authorize_phase_a F now q p)) = ps_transactions p"
  by (simp add: authorize_phase_a_def Let_def split: option.split)

lemma authorize_phase_b_redirect:
  assumes "authorize_phase_b F now r1 r2 q cid uri p = (Redirect base pairs, p1)"
  shows "base = uri \<or> base = upstream_authorize_url F"
  using assms
  by (auto simp: authorize_phase_b_def redirect_error_def Let_def split: option.splits if_splits prod.splits)

lemma authorize_phase_b_txns:
  assumes "fmlookup (ps_transactions (snd (authorize_phase_b F now r1 r2 q cid uri p))) k = Some (t, x)"
  shows "fmlookup (ps_transactions p) k = Some (t, x) \<or> tx_redirect_uri t = uri"
proof -
  have "fmlookup s' k = Some (t, x) \<Longrightarrow> fmlookup (ps_transactions p) k = Some (t, x) \<or> t = t'"
    if "txn_create (fc_crypto F) now r2 t' (ps_transactions p) = (o', s')" for t' o' s'
    using txn.put_origin [where C = "fc_crypto F" and s = "ps_transactions p" and now = now
        and a = "(r2, t')" and k = k and e = "(t, x)"] that by auto
  then show ?thesis using assms
    by (auto simp: authorize_phase_b_def Let_def split: option.splits if_splits prod.splits) fastforce+
qed

lemma authorize_txns_permitted:
  assumes "txns_permitted F p" shows "txns_permitted F (snd (authorize F now r1 r2 q p))"
proof (cases "authorize_phase_a F now q p")
  case (Pair res p1)
  have t: "ps_transactions p1 = ps_transactions p" using authorize_phase_a_txns [of F now q p] Pair by simp
  show ?thesis
  proof (cases res)
    case (Inl m)
    then show ?thesis using Pair t assms by (simp add: authorize_def txns_permitted_def)
  next
    case (Inr cu)
    obtain cid uri where cu: "cu = (cid, uri)" by fastforce
    have "permits (fc_url F) (fc_redirects F) uri"
      using authorize_phase_a_Inr(1) [of F now q p cid uri p1] Pair Inr cu by auto
    then show ?thesis
      using Pair Inr cu assms t
      by (auto simp: authorize_def txns_permitted_def dest!: authorize_phase_b_txns) blast
  qed
qed

lemma callback_begin_txns: "ps_transactions (snd (callback_begin F now q p)) =
    (case non_empty (cq_state q) of None \<Rightarrow> ps_transactions p
     | Some st \<Rightarrow> fmdrop (digest (fc_crypto F) st) (ps_transactions p))"
  using txn_take_drops [of "fc_crypto F" now _ "ps_transactions p"]
  by (auto simp: callback_begin_def Let_def split: option.split prod.split) (metis snd_conv)+

lemma callback_begin_permitted:
  assumes "txns_permitted F p"
  shows "txns_permitted F (snd (callback_begin F now q p))"
    and "fst (callback_begin F now q p) = Inr (t, code) \<Longrightarrow> permits (fc_url F) (fc_redirects F) (tx_redirect_uri t)"
    and "fst (callback_begin F now q p) = Inl (Redirect base pairs) \<Longrightarrow> permits (fc_url F) (fc_redirects F) base"
proof -
  show "txns_permitted F (snd (callback_begin F now q p))"
    using assms by (auto simp: txns_permitted_def callback_begin_txns split: option.splits if_splits)
  have tk: "permits (fc_url F) (fc_redirects F) (tx_redirect_uri t')"
    if "txn_take (fc_crypto F) now st (ps_transactions p) = (Some t', s')" for t' s' st
    using txn_take_result [of "fc_crypto F" now st "ps_transactions p" t'] that assms
    unfolding txns_permitted_def by auto
  show "permits (fc_url F) (fc_redirects F) (tx_redirect_uri t)" if "fst (callback_begin F now q p) = Inr (t, code)"
    using that tk by (auto simp: callback_begin_def Let_def split: option.splits prod.splits)
  show "permits (fc_url F) (fc_redirects F) base" if "fst (callback_begin F now q p) = Inl (Redirect base pairs)"
    using that tk
    by (auto simp: callback_begin_def redirect_error_def Let_def split: option.splits prod.splits)
qed

lemma callback_finish_redirect:
  assumes "fst (callback_finish F now r t ex p) = Redirect base pairs"
  shows "base = tx_redirect_uri t"
  using assms
  by (auto simp: callback_finish_def redirect_error_def Let_def split: sum.splits option.splits prod.splits)

lemma callback_finish_txns: "ps_transactions (snd (callback_finish F now r t ex p)) = ps_transactions p"
  by (auto simp: callback_finish_def Let_def split: sum.split option.split prod.split)

section \<open>All endpoints together\<close>

definition flow_new :: "duration \<Rightarrow> flow_state" where
  "flow_new ttl = \<lparr>fl_proxy = proxy_new, fl_verifier = verifier_new ttl, fl_revocations = [], fl_tasks = {||}\<rparr>"

text \<open>
  The states any sequence of requests can bring about. \<open>T\<close> are the transactions of callbacks
  that have been taken and may be awaiting Redmine, \<open>R\<close> the refreshes that may be; between the two
  parts of such a handler any other request may run. Clock readings, random draws and Redmine's
  answers are arbitrary.
\<close>

inductive flow_reachable ::
    "flow_config \<Rightarrow> flow_state \<Rightarrow> transaction set \<Rightarrow> pending_refresh set \<Rightarrow> bool" for F where
  fr_init: "flow_reachable F (flow_new ttl) {} {}"
| fr_register: "flow_reachable F s T R \<Longrightarrow>
    flow_reachable F (s\<lparr>fl_proxy := snd (register F now r ct body (fl_proxy s))\<rparr>) T R"
| fr_authorize: "flow_reachable F s T R \<Longrightarrow>
    flow_reachable F (s\<lparr>fl_proxy := snd (authorize F now r1 r2 q (fl_proxy s))\<rparr>) T R"
| fr_callback_begin: "flow_reachable F s T R \<Longrightarrow>
    callback_begin F now cq (fl_proxy s) = (Inr (t, code), p1) \<Longrightarrow>
    flow_reachable F (s\<lparr>fl_proxy := p1\<rparr>) (insert t T) R"
| fr_callback_reply: "flow_reachable F s T R \<Longrightarrow>
    callback_begin F now cq (fl_proxy s) = (Inl rep, p1) \<Longrightarrow>
    flow_reachable F (s\<lparr>fl_proxy := p1\<rparr>) T R"
| fr_callback_finish: "flow_reachable F s T R \<Longrightarrow> t \<in> T \<Longrightarrow>
    flow_reachable F (s\<lparr>fl_proxy := snd (callback_finish F now r t ex (fl_proxy s))\<rparr>) T R"
| fr_code_grant: "flow_reachable F s T R \<Longrightarrow>
    flow_reachable F (snd (authorization_code_grant F now ru ra rr form s)) T R"
| fr_refresh_begin: "flow_reachable F s T R \<Longrightarrow>
    refresh_grant_begin F now form s = (Inr pr, s1) \<Longrightarrow> flow_reachable F s1 T (insert pr R)"
| fr_refresh_reply: "flow_reachable F s T R \<Longrightarrow>
    refresh_grant_begin F now form s = (Inl rep, s1) \<Longrightarrow> flow_reachable F s1 T R"
| fr_refresh_finish: "flow_reachable F s T R \<Longrightarrow> pr \<in> R \<Longrightarrow>
    flow_reachable F (snd (refresh_grant_finish F now ra rr pr refreshed s)) T R"
| fr_revoke: "flow_reachable F s T R \<Longrightarrow> flow_reachable F (snd (revoke F ct form_body s)) T R"
| fr_task: "flow_reachable F s T R \<Longrightarrow> ts |\<in>| fl_tasks s \<Longrightarrow> flow_reachable F (run_task F ts s) T R"
| fr_bearer: "flow_reachable F s T R \<Longrightarrow>
    flow_reachable F (snd (require_proxy_bearer F to_str from_str ch now k answer hs s)) T R"

definition flow_inv :: "flow_config \<Rightarrow> flow_state \<Rightarrow> transaction set \<Rightarrow> bool" where
  "flow_inv F s T \<longleftrightarrow> proxy_inv (fl_proxy s) \<and> txns_permitted F (fl_proxy s) \<and>
     (\<forall>t \<in> T. permits (fc_url F) (fc_redirects F) (tx_redirect_uri t))"

text \<open>The handlers that never touch the transactions.\<close>

lemma register_txns: "ps_transactions (snd (register F now r ct body p)) = ps_transactions p"
  by (auto simp: register_def register_client_def Let_def split: body.split option.split prod.split)

lemma mint_token_pair_frame [simp]:
  "ps_transactions (snd (mint_token_pair C now ra rr cid uid ttl w p)) = ps_transactions p"
  "ps_codes (snd (mint_token_pair C now ra rr cid uid ttl w p)) = ps_codes p"
  "ps_upstream_tokens (snd (mint_token_pair C now ra rr cid uid ttl w p)) = ps_upstream_tokens p"
  "ps_registry (snd (mint_token_pair C now ra rr cid uid ttl w p)) = ps_registry p"
  by (auto simp: mint_token_pair_def Let_def split: option.split prod.split)

lemma sweep_expired_sessions_frame [simp]:
  "ps_transactions (snd (sweep_expired_sessions now p)) = ps_transactions p"
  "ps_codes (snd (sweep_expired_sessions now p)) = ps_codes p"
  "ps_registry (snd (sweep_expired_sessions now p)) = ps_registry p"
  by (simp_all add: sweep_expired_sessions_def Let_def split: prod.split)

lemma contain_replay_txns: "ps_transactions (fl_proxy (contain_replay F td rd uid s)) = ps_transactions (fl_proxy s)"
proof -
  have "ps_transactions p' = ps_transactions p" if "take_session uid p = (o', p')" for o' p p'
    using take_session_frame(2) [of uid p] that by simp
  then show ?thesis
    by (auto simp: contain_replay_def Let_def split: prod.split option.split)
qed

lemma grant_redeemed_txns:
  "ps_transactions (fl_proxy (snd (grant_redeemed F now ru ra rr code cid up s))) = ps_transactions (fl_proxy s)"
proof -
  have "ps_transactions p' = ps_transactions p" if "mint_token_pair C now ra rr cid uid ttl w p = (o', p')"
    for C uid ttl w o' p p'
    using mint_token_pair_frame(1) [of C now ra rr cid uid ttl w p] that by simp
  then show ?thesis
    by (auto simp: grant_redeemed_def Let_def flow_sweep_proxy split: option.split prod.split)
qed

lemma code_grant_txns:
  "ps_transactions (fl_proxy (snd (authorization_code_grant F now ru ra rr form s))) = ps_transactions (fl_proxy s)"
  by (auto simp: authorization_code_grant_def Let_def grant_redeemed_txns contain_replay_txns
      split: option.split prod.split redeem_outcome.split)

lemma take_session_txns: "take_session uid p = (o', p') \<Longrightarrow> ps_transactions p' = ps_transactions p"
  using take_session_frame(2) [of uid p] by simp

lemma drop_guard_txns [simp]: "ps_transactions (fl_proxy (drop_guard g s)) = ps_transactions (fl_proxy s)"
  by (simp add: drop_guard_def)

lemma discard_refresh_txns [simp]:
  "ps_transactions (fl_proxy (discard_refresh F t s)) = ps_transactions (fl_proxy s)"
  by (simp add: discard_refresh_def)

lemma refresh_begin_txns:
  "ps_transactions (fl_proxy (snd (refresh_grant_begin F now form s))) = ps_transactions (fl_proxy s)"
  by (auto simp: refresh_grant_begin_def Let_def split: option.split prod.split refresh_outcome.split
      dest: take_session_txns)

lemma refresh_finish_txns:
  "ps_transactions (fl_proxy (snd (refresh_grant_finish F now ra rr pr refreshed s))) = ps_transactions (fl_proxy s)"
proof -
  have "ps_transactions p' = ps_transactions p" if "mint_token_pair C now ra rr cid uid ttl w p = (o', p')"
    for C cid uid ttl w o' p p'
    using mint_token_pair_frame(1) [of C now ra rr cid uid ttl w p] that by simp
  then show ?thesis
    by (auto simp: refresh_grant_finish_def Let_def split: sum.split option.split prod.split
        dest: take_session_txns)
qed

lemma revoke_txns: "ps_transactions (fl_proxy (snd (revoke F ct body s))) = ps_transactions (fl_proxy s)"
proof -
  have "ps_transactions (snd (revoke_local C t p)) = ps_transactions p" for C t p
    by (auto simp: revoke_local_def split: option.split prod.split)
  then show ?thesis
    by (auto simp: revoke_def Let_def split: body.split option.split prod.split) (metis snd_conv)+
qed

lemma bearer_proxy:
  "fl_proxy (snd (require_proxy_bearer F to_str from_str ch now k answer values s)) =
     snd (proxy_bearer_begin F to_str from_str ch now values (fl_proxy s))"
  by (auto simp: require_proxy_bearer_def Let_def split: prod.split sum.split auth_error.split)

lemma bearer_txns: "ps_transactions (snd (proxy_bearer_begin F to_str from_str ch now values p)) = ps_transactions p"
  by (auto simp: proxy_bearer_begin_def split: sum.split bearer_error.split option.split prod.split)

lemma run_task_proxy: "fl_proxy (run_task F ts s) = fl_proxy s"
  by (simp add: run_task_def)

lemma flow_inv_frame:
  assumes "flow_inv F s T" and "ps_transactions (fl_proxy s') = ps_transactions (fl_proxy s)"
    and "proxy_inv (fl_proxy s) \<Longrightarrow> proxy_inv (fl_proxy s')"
  shows "flow_inv F s' T"
  using assms txns_permitted_cong [OF assms(2)] by (simp add: flow_inv_def)

lemma flow_reachable_inv: "flow_reachable F s T R \<Longrightarrow> flow_inv F s T"
proof (induction rule: flow_reachable.induct)
  case (fr_init ttl)
  show ?case
    using proxy_inv_new by (simp add: flow_inv_def flow_new_def txns_permitted_def) (simp add: proxy_new_def txn_new_def)
next
  case (fr_register s T R now r ct body)
  then show ?case by (intro flow_inv_frame [OF fr_register.IH]) (simp_all add: register_txns register_inv_proxy)
next
  case (fr_authorize s T R now r1 r2 q)
  then show ?case by (simp add: flow_inv_def authorize_inv authorize_txns_permitted)
next
  case (fr_callback_begin s T R now cq t code p1)
  then show ?case
    using callback_begin_inv [of "fl_proxy s" F now cq] callback_begin_permitted(1,2) [of F "fl_proxy s" now cq]
    by (auto simp: flow_inv_def)
next
  case (fr_callback_reply s T R now cq rep p1)
  then show ?case
    using callback_begin_inv [of "fl_proxy s" F now cq] callback_begin_permitted(1) [of F "fl_proxy s" now cq]
    by (auto simp: flow_inv_def)
next
  case (fr_callback_finish s T R t now r ex)
  then show ?case
    by (intro flow_inv_frame [OF fr_callback_finish.IH]) (simp_all add: callback_finish_txns callback_finish_inv)
next
  case (fr_code_grant s T R now ru ra rr form)
  then show ?case
    by (intro flow_inv_frame [OF fr_code_grant.IH]) (simp_all add: code_grant_txns authorization_code_grant_inv)
next
  case (fr_refresh_begin s T R now form pr s1)
  then show ?case
    using refresh_begin_txns [of F now form s] refresh_grant_begin_inv [of s F now form]
    by (intro flow_inv_frame [OF fr_refresh_begin.IH]) simp_all
next
  case (fr_refresh_reply s T R now form rep s1)
  then show ?case
    using refresh_begin_txns [of F now form s] refresh_grant_begin_inv [of s F now form]
    by (intro flow_inv_frame [OF fr_refresh_reply.IH]) simp_all
next
  case (fr_refresh_finish s T R pr now ra rr refreshed)
  then show ?case
    by (intro flow_inv_frame [OF fr_refresh_finish.IH]) (simp_all add: refresh_finish_txns refresh_grant_finish_inv)
next
  case (fr_revoke s T R ct form_body)
  then show ?case by (intro flow_inv_frame [OF fr_revoke.IH]) (simp_all add: revoke_txns revoke_inv)
next
  case (fr_task s T R ts)
  then show ?case by (intro flow_inv_frame [OF fr_task.IH]) (simp_all add: run_task_proxy)
next
  case (fr_bearer s T R to_str from_str ch now k answer hs)
  then show ?case
    by (intro flow_inv_frame [OF fr_bearer.IH]) (simp_all add: bearer_proxy bearer_txns proxy_bearer_begin_inv)
qed

section \<open>Properties\<close>

text \<open>
  C1. No open redirect. In every reachable state the proxy redirects a browser only to Redmine's
  own authorization endpoint or to a URI that the redirect policy permits: for \<^verbatim>\<open>/authorize\<close> one
  that is also registered for the client that asked, for \<^verbatim>\<open>/auth/callback\<close> the one of the
  transaction it took, however long ago that was created.
\<close>

theorem no_open_redirect:
  assumes "flow_reachable F s T R"
  shows "(fst (authorize F now r1 r2 q (fl_proxy s)) = Redirect base pairs \<longrightarrow>
      base = upstream_authorize_url F \<or>
      permits (fc_url F) (fc_redirects F) base \<and>
      (\<exists>cid reg. aq_client_id q = Some cid \<and> registry_get cid (ps_registry (fl_proxy s)) = Some reg \<and>
         base \<in> set (cr_redirect_uris reg))) \<and>
    (fst (callback_begin F now cq (fl_proxy s)) = Inl (Redirect base pairs) \<longrightarrow>
      permits (fc_url F) (fc_redirects F) base) \<and>
    (t \<in> T \<longrightarrow> fst (callback_finish F now r t ex (fl_proxy s)) = Redirect base pairs \<longrightarrow>
      permits (fc_url F) (fc_redirects F) base)"
proof (intro conjI impI)
  have inv: "flow_inv F s T" using assms by (rule flow_reachable_inv)
  show "base = upstream_authorize_url F \<or> permits (fc_url F) (fc_redirects F) base \<and>
      (\<exists>cid reg. aq_client_id q = Some cid \<and> registry_get cid (ps_registry (fl_proxy s)) = Some reg \<and>
         base \<in> set (cr_redirect_uris reg))"
    if r: "fst (authorize F now r1 r2 q (fl_proxy s)) = Redirect base pairs"
  proof (cases "authorize_phase_a F now q (fl_proxy s)")
    case (Pair res p1)
    then obtain cid uri where res: "res = Inr (cid, uri)"
      using r by (cases res) (auto simp: authorize_def)
    have "base = uri \<or> base = upstream_authorize_url F"
      using r Pair res authorize_phase_b_redirect [of F now r1 r2 q cid uri p1 base pairs]
      by (cases "authorize_phase_b F now r1 r2 q cid uri p1") (auto simp: authorize_def)
    then show ?thesis using authorize_phase_a_Inr(1) Pair res by blast
  qed
  show "permits (fc_url F) (fc_redirects F) base"
    if "fst (callback_begin F now cq (fl_proxy s)) = Inl (Redirect base pairs)"
    using that inv callback_begin_permitted(3) by (auto simp: flow_inv_def)
  show "permits (fc_url F) (fc_redirects F) base"
    if "t \<in> T" and "fst (callback_finish F now r t ex (fl_proxy s)) = Redirect base pairs"
    using that inv callback_finish_redirect by (auto simp: flow_inv_def)
qed

text \<open>A client registers and asks with an unsupported response type: the error goes to its own URI.\<close>

definition example_flow :: flow_config where
  "example_flow = \<lparr>fc_crypto = example_crypto, fc_url = (\<lambda>_. Some example_url), fc_redirects = Loopback,
     fc_scopes = [''view_issues''], fc_base_url = ''https://m/'', fc_redmine_base = ''https://r/'',
     fc_upstream_client_id = ''up''\<rparr>"

lemma example_flow_simps [simp]:
  "fc_crypto example_flow = example_crypto" "fc_url example_flow u = Some example_url"
  "fc_redirects example_flow = Loopback" "fc_scopes example_flow = [''view_issues'']"
  "fc_base_url example_flow = ''https://m/''" "fc_redmine_base example_flow = ''https://r/''"
  "fc_upstream_client_id example_flow = ''up''"
  by (simp_all add: example_flow_def)

lemma example_permitted: "permits (fc_url example_flow) Loopback ''http://LocalHost:8080/cb''"
  using example_permits by (simp add: example_flow_def)

definition example_request :: register_request where
  "example_request = \<lparr>rq_redirect_uris = [''http://LocalHost:8080/cb''], rq_client_name = None,
     rq_grant_types = None, rq_response_types = None, rq_token_endpoint_auth_method = None\<rparr>"

definition example_registered :: client_registration where
  "example_registered = \<lparr>cr_client_id = ''61'', cr_redirect_uris = [''http://LocalHost:8080/cb''], cr_client_name = None\<rparr>"

lemma example_json: "content_type_is_json (Some ''application/json'')"
  by (simp add: content_type_is_json_def media_type_is_def trim_def is_whitespace_def byte_of_def
      eq_ignore_ascii_case_def)

lemma example_register:
  "register example_flow 0 (Some ''a'') (Some ''application/json'') (Decoded example_request) proxy_new =
     (Registered example_registered, proxy_new\<lparr>ps_registry :=
        fmupd ''61'' \<lparr>re_registration = example_registered, re_last_seen = 0\<rparr> fmempty\<rparr>)"
  using example_permitted
  by (simp add: register_def example_json example_request_def all_supported_def
      register_client_def registry_register_def Let_def proxy_new_def registry_new_def MAX_CLIENTS_def
      mint_client_id_def hex_bytes_def hex_byte_def hex_digit_def byte_of_def example_registered_def char_of_def
      bit_Suc_0_iff)

definition example_state :: flow_state where
  "example_state = (flow_new 0)\<lparr>fl_proxy :=
     snd (register example_flow 0 (Some ''a'') (Some ''application/json'') (Decoded example_request) proxy_new)\<rparr>"

lemma example_state_reachable: "flow_reachable example_flow example_state {} {}"
  using fr_register [OF fr_init [where ttl = 0], where F = example_flow and now = 0 and r = "Some ''a''"
      and ct = "Some ''application/json''" and body = "Decoded example_request"]
  by (simp add: example_state_def flow_new_def)

definition example_query :: authorize_query where
  "example_query = \<lparr>aq_response_type = Some ''token'', aq_client_id = Some ''61'',
     aq_redirect_uri = Some ''http://LocalHost:8080/cb'', aq_scope = None, aq_state = None,
     aq_code_challenge = None, aq_code_challenge_method = None\<rparr>"

lemma example_authorize:
  "fst (authorize example_flow 0 None None example_query (fl_proxy example_state)) =
     Redirect ''http://LocalHost:8080/cb''
       [(''error'', ''unsupported_response_type''),
        (''error_description'', ''response_type must be '' @ dquoted ''code''), (''iss'', ''https://m'')]"
  using example_permitted
  by (simp add: authorize_def authorize_phase_a_def non_empty_def example_query_def example_state_def
      example_register registry_get_def example_registered_def authorize_phase_b_def
      redirect_error_def trim_trailing_slash_def strip_suffix_def ends_with_def Let_def)

theorem no_open_redirect_witness:
  "permits (fc_url example_flow) (fc_redirects example_flow) ''http://LocalHost:8080/cb''"
proof -
  have "''http://LocalHost:8080/cb'' \<noteq> upstream_authorize_url example_flow"
    by (simp add: upstream_authorize_url_def trim_trailing_slash_def strip_suffix_def ends_with_def)
  then show ?thesis
    using no_open_redirect [OF example_state_reachable] example_authorize by blast
qed

text \<open>
  C14. Bounded memory. In every reachable state each of the bounded maps is within its cap: at
  most 1000 registered clients and at most 10000 transactions, pending codes, consumed codes,
  access tokens, sessions, refresh tokens and retired refresh tokens.
\<close>

theorem stores_bounded:
  assumes "flow_reachable F s T R"
  shows "fmlen (ps_registry (fl_proxy s)) \<le> 1000 \<and> fmlen (ps_transactions (fl_proxy s)) \<le> 10000 \<and>
    fmlen (cs_pending (ps_codes (fl_proxy s))) \<le> 10000 \<and>
    fmlen (cs_consumed (ps_codes (fl_proxy s))) \<le> 10000 \<and>
    fmlen (ps_tokens (fl_proxy s)) \<le> 10000 \<and> fmlen (ps_upstream_tokens (fl_proxy s)) \<le> 10000 \<and>
    fmlen (rf_current (ps_refresh_tokens (fl_proxy s))) \<le> 10000 \<and>
    fmlen (rf_retired (ps_refresh_tokens (fl_proxy s))) \<le> 10000"
  using flow_reachable_inv [OF assms]
  by (simp add: flow_inv_def proxy_inv_def registry_inv_def code_inv_def MAX_CLIENTS_def MAX_ENTRIES_def)

theorem stores_bounded_witness: "fmlen (ps_registry (fl_proxy example_state)) \<le> 1000"
  using stores_bounded [OF example_state_reachable] by blast

end
