(* ===== verification/Endpoint_Flows.thy ===== *)
theory Endpoint_Flows
  imports Endpoint_Safety
begin

text \<open>
  What the endpoints of \<^verbatim>\<open>oauth-proxy\<close> mode do for a client and against a thief: the code flow
  end to end, replay containment, refresh rotation, refresh-token reuse, failure cleanup,
  revocation and the bearer middleware.
\<close>

section \<open>Minting\<close>

lemma room_of_len: "fmlen m < MAX_ENTRIES \<Longrightarrow> room now m k"
  using fmlen_sweep_le [of now m] by (simp add: room_iff)

lemma mint_token_pair_succeeds:
  assumes "ra = Some ba" and "w \<Longrightarrow> rr = Some br"
    and "fmlen (ps_tokens p) < MAX_ENTRIES" and "fmlen (rf_current (ps_refresh_tokens p)) < MAX_ENTRIES"
  shows "\<exists>pair p'. mint_token_pair C now ra rr cid uid ttl w p = (Some pair, p')"
  using assms
  by (auto simp: mint_token_pair_def token_mint_def refresh_mint_def mint_opaque_token_def sweep_check_eq
      room_of_len Let_def)

lemma mint_token_pair_Some:
  assumes "mint_token_pair C now ra rr cid uid ttl w p = (Some pair, p')"
  shows "mp_ttl pair = ttl" and "mp_access_digest pair = digest C (mp_access_token pair)"
    and "starts_with (mp_access_token pair) ''rup_at_''"
    and "fmlookup (ps_tokens p') (digest C (mp_access_token pair)) =
           Some (\<lparr>te_upstream_id = uid, te_client_id = cid\<rparr>, expires_after now ttl)"
    and "ps_upstream_tokens p' = ps_upstream_tokens p" and "ps_codes p' = ps_codes p"
    and "mp_refresh_token pair = None \<longleftrightarrow> \<not> w"
    and "mp_refresh_token pair = Some rt \<Longrightarrow> mp_refresh_digest pair = Some (digest C rt) \<and>
           starts_with rt ''rup_rt_'' \<and>
           fmlookup (rf_current (ps_refresh_tokens p')) (digest C rt) =
             Some (\<lparr>ro_client_id = cid, ro_upstream_id = uid, ro_state = Active\<rparr>, expires_after now REFRESH_TTL)"
  using assms
  by (auto simp: mint_token_pair_def token_mint_def refresh_mint_def sweep_check_eq Let_def
      mint_opaque_token_prefix split: option.splits if_splits)

lemma mint_token_pair_retired:
  "mint_token_pair C now ra rr cid uid ttl w p = (o', p') \<Longrightarrow>
     rf_retired (ps_refresh_tokens p') = rf_retired (ps_refresh_tokens p)"
  by (auto simp: mint_token_pair_def Let_def split: option.splits prod.splits if_splits
      dest: refresh_mint_retired)

lemma upstream_insert_ok:
  "ru = Some bu \<Longrightarrow> fmlen m < MAX_ENTRIES \<Longrightarrow>
   \<exists>m'. upstream_insert now ru ts m = (Some (hex_bytes bu), m') \<and>
        fmlookup m' (hex_bytes bu) = Some (ts, session_deadline now ts)"
  by (simp add: upstream_insert_def sweep_check_eq room_of_len Let_def)

text \<open>The success branch of the code grant, from the point where the code has been redeemed.\<close>

lemma grant_redeemed_ok:
  assumes "ru = Some bu" "ra = Some ba" "us_refresh up \<noteq> None \<Longrightarrow> rr = Some br"
    and "fmlen (ps_upstream_tokens (fl_proxy s)) < MAX_ENTRIES"
    and "fmlen (ps_tokens (fl_proxy s)) < MAX_ENTRIES"
    and "fmlen (rf_current (ps_refresh_tokens (fl_proxy s))) < MAX_ENTRIES"
  shows "\<exists>pair s' e. grant_redeemed F now ru ra rr code cid up s = (Tokens pair (join '' '' (us_granted_scopes up)), s') \<and>
    e = \<lparr>te_upstream_id = hex_bytes bu, te_client_id = cid\<rparr> \<and>
    mp_ttl pair = us_expires_at up - now \<and>
    fmlookup (ps_tokens (fl_proxy s')) (digest (fc_crypto F) (mp_access_token pair)) =
      Some (e, expires_after now (us_expires_at up - now)) \<and>
    fmlookup (ps_upstream_tokens (fl_proxy s')) (hex_bytes bu) = Some (up, session_deadline now up)"
proof -
  define s2 where "s2 = flow_sweep_expired_sessions F now (s\<lparr>fl_proxy := (fl_proxy s)\<lparr>ps_registry :=
      registry_touch now cid (ps_registry (fl_proxy s))\<rparr>\<rparr>)"
  have len: "fmlen (ps_upstream_tokens (fl_proxy s2)) < MAX_ENTRIES" "fmlen (ps_tokens (fl_proxy s2)) < MAX_ENTRIES"
    "fmlen (rf_current (ps_refresh_tokens (fl_proxy s2))) < MAX_ENTRIES"
    using assms(4-6)
    by (auto simp: s2_def flow_sweep_proxy sweep_expired_sessions_def upstream_sweep_expired_def
        intro: le_less_trans [OF fmlen_retain_le])
  obtain m where m: "upstream_insert now ru up (ps_upstream_tokens (fl_proxy s2)) = (Some (hex_bytes bu), m)"
    "fmlookup m (hex_bytes bu) = Some (up, session_deadline now up)"
    using upstream_insert_ok [OF assms(1) len(1)] by blast
  let ?p3 = "(fl_proxy s2)\<lparr>ps_upstream_tokens := m\<rparr>"
  have "\<exists>pair p4. mint_token_pair (fc_crypto F) now ra rr cid (hex_bytes bu) (us_expires_at up - now)
      (us_refresh up \<noteq> None) ?p3 = (Some pair, p4)"
    by (rule mint_token_pair_succeeds [OF assms(2,3)]) (use len in simp_all)
  then obtain pair p4 where mint: "mint_token_pair (fc_crypto F) now ra rr cid (hex_bytes bu)
      (us_expires_at up - now) (us_refresh up \<noteq> None) ?p3 = (Some pair, p4)" by blast
  show ?thesis
    using mint_token_pair_Some(1,4,5) [OF mint] m mint
    by (auto simp: grant_redeemed_def Let_def s2_def [symmetric])
qed

section \<open>The code flow\<close>

lemma callback_finish_ok:
  assumes "callback_finish F now r t (Inr tok) p = (Redirect uri ((''code'', code) # rest), p1)"
    and "fc_url F uri \<noteq> None"
  defines "ts \<equiv> \<lparr>us_access = ot_access_token tok, us_refresh = ot_refresh_token tok,
      us_granted_scopes = granted_scopes_of (ot_scope tok) (tx_scopes t), us_expires_at = token_deadline now tok\<rparr>"
  shows "fmlookup (cs_pending (ps_codes p1)) (digest (fc_crypto F) code) =
      Some (\<lparr>pc_client_id = tx_client_id t, pc_redirect_uri = tx_redirect_uri t, pc_code_challenge = tx_code_challenge t\<rparr>,
            expires_after now CODE_TTL)"
    and "fmlookup (cs_upstream (ps_codes p1)) (digest (fc_crypto F) code) = Some ts"
    and "uri = tx_redirect_uri t"
proof -
  have "code_mint (fc_crypto F) now r (tx_client_id t) (tx_redirect_uri t) (tx_code_challenge t) ts (ps_codes p) =
      (Some code, ps_codes p1) \<and> uri = tx_redirect_uri t"
    using assms(1)
    by (auto simp: callback_finish_def redirect_error_def ts_def [symmetric] Let_def
        split: option.splits prod.splits)
  then show "fmlookup (cs_pending (ps_codes p1)) (digest (fc_crypto F) code) =
      Some (\<lparr>pc_client_id = tx_client_id t, pc_redirect_uri = tx_redirect_uri t, pc_code_challenge = tx_code_challenge t\<rparr>,
            expires_after now CODE_TTL)"
    and "fmlookup (cs_upstream (ps_codes p1)) (digest (fc_crypto F) code) = Some ts"
    and "uri = tx_redirect_uri t"
    using code_mint_lookup by blast+
qed


text \<open>A concrete run: Redmine grants a token for an hour, the client redeems at once.\<close>

definition example_token :: oauth_token where
  "example_token = \<lparr>ot_access_token = ''ua'', ot_refresh_token = Some ''ur'', ot_expires_in = Some 3600,
     ot_scope = None, ot_token_type = None\<rparr>"

definition example_form :: "(string, string) fmap" where
  "example_form = fmupd ''code'' ''rup_ac_k'' (fmupd ''redirect_uri'' ''http://localhost:1/''
     (fmupd ''client_id'' ''c'' (fmupd ''code_verifier'' ''ch'' fmempty)))"

lemma example_callback:
  "fst (callback_finish example_flow 0 (Some ''k'') example_txn (Inr example_token) proxy_new) =
     Redirect ''http://localhost:1/'' [(''code'', ''rup_ac_k''), (''iss'', ''https://m'')]"
  by (simp add: callback_finish_def example_txn_def example_token_def code_mint_def mint_opaque_token_def
      sweep_check_eq room_of_len proxy_new_def code_new_def MAX_ENTRIES_def trim_trailing_slash_def
      strip_suffix_def ends_with_def Let_def)


section \<open>Containment\<close>

text \<open>
  A session is ended when its upstream tokens are gone: nothing can authenticate through it any
  more, and no refresh of it can get past its first half.
\<close>

definition session_ended :: "string \<Rightarrow> proxy_state \<Rightarrow> bool" where
  "session_ended uid p \<longleftrightarrow> uid |\<notin>| fmdom (ps_upstream_tokens p)"

lemma session_ended_authenticates:
  "session_ended uid p \<Longrightarrow> fmlookup (ps_tokens p) (digest C tok) = Some (e, x) \<Longrightarrow> te_upstream_id e = uid \<Longrightarrow>
   authenticates C now tok p = None"
  by (cases "authenticates C now tok p") (auto simp: session_ended_def authenticates_iff)

lemma take_session_ended [simp]: "session_ended uid (snd (take_session uid p))"
  by (simp add: session_ended_def)

lemma take_session_fst: "fst (take_session uid p) = map_option fst (fmlookup (ps_upstream_tokens p) uid)"
  by (auto simp: take_session_def upstream_take_def split: option.splits)

lemma take_session_removes_tokens:
  "fmlookup (ps_tokens (snd (take_session uid p))) k = Some e \<Longrightarrow> fmlookup (ps_tokens p) k = Some e"
  by (auto simp: take_session_def token_remove_by_upstream_def split: option.splits prod.splits if_splits)

lemma contain_replay_result:
  assumes "fmlookup (ps_upstream_tokens (fl_proxy s)) uid = Some (ts, d)"
  shows "session_ended uid (fl_proxy (contain_replay F td rd uid s))"
    and "td |\<notin>| fmdom (ps_tokens (fl_proxy (contain_replay F td rd uid s)))"
    and "fl_verifier (contain_replay F td rd uid s) = purge (fc_crypto F) (us_access ts) (fl_verifier s)"
proof -
  define p2 where "p2 = (case rd of
      Some d \<Rightarrow> (fl_proxy s)\<lparr>ps_tokens := token_delete_by_digest td (ps_tokens (fl_proxy s)),
                 ps_refresh_tokens := refresh_delete_by_digest d (ps_refresh_tokens (fl_proxy s))\<rparr>
    | None \<Rightarrow> (fl_proxy s)\<lparr>ps_tokens := token_delete_by_digest td (ps_tokens (fl_proxy s))\<rparr>)"
  have u: "ps_upstream_tokens p2 = ps_upstream_tokens (fl_proxy s)"
    and t: "ps_tokens p2 = fmdrop td (ps_tokens (fl_proxy s))"
    by (simp_all add: p2_def token_delete_by_digest_def split: option.split)
  have f: "fst (take_session uid p2) = Some ts" using assms by (simp add: take_session_fst u)
  have eq: "contain_replay F td rd uid s = s\<lparr>fl_proxy := snd (take_session uid p2),
      fl_verifier := purge (fc_crypto F) (us_access ts) (fl_verifier s)\<rparr>"
    using f by (cases rd) (auto simp: contain_replay_def p2_def Let_def split: prod.split)
  show "session_ended uid (fl_proxy (contain_replay F td rd uid s))" by (simp add: eq)
  show "td |\<notin>| fmdom (ps_tokens (fl_proxy (contain_replay F td rd uid s)))"
    using take_session_removes_tokens [of uid p2 td] by (auto simp: eq t fmlookup_dom_iff)
  show "fl_verifier (contain_replay F td rd uid s) = purge (fc_crypto F) (us_access ts) (fl_verifier s)"
    by (simp add: eq)
qed


definition example_replay_state :: flow_state where
  "example_replay_state = (flow_new 0)\<lparr>fl_proxy := example_proxy\<lparr>ps_codes :=
     code_new\<lparr>cs_consumed := fmupd ''rup_ac_k'' (\<lparr>cc_minted_token_digest = ''rup_at_a'',
       cc_minted_refresh_digest = None, cc_upstream_id = ''s''\<rparr>, 10) fmempty\<rparr>\<rparr>\<rparr>"


section \<open>Refreshing\<close>

lemma drop_guard_frame [simp]:
  "ps_tokens (fl_proxy (drop_guard g s)) = ps_tokens (fl_proxy s)"
  "ps_upstream_tokens (fl_proxy (drop_guard g s)) = ps_upstream_tokens (fl_proxy s)"
  "rf_retired (ps_refresh_tokens (fl_proxy (drop_guard g s))) = rf_retired (ps_refresh_tokens (fl_proxy s))"
  "fl_verifier (drop_guard g s) = fl_verifier s" "fl_revocations (drop_guard g s) = fl_revocations s"
  by (simp_all add: drop_guard_def)

lemma refresh_grant_begin_pending:
  assumes "refresh_grant_begin F now form s = (Inr pr, s1)"
  shows "fmlookup form ''refresh_token'' = Some (pr_refresh_token pr)"
    and "fmlookup form ''client_id'' = Some (pr_client_id pr)"
    and "pr_guard pr = digest (fc_crypto F) (pr_refresh_token pr)"
    and "upstream_refresh_token now (pr_upstream_id pr) (ps_upstream_tokens (fl_proxy s)) = Some (pr_old_secret pr)"
    and "key_state (ps_refresh_tokens (fl_proxy s)) (pr_guard pr) = Some Active"
    and "key_state (ps_refresh_tokens (fl_proxy s1)) (pr_guard pr) = Some InFlight"
  using assms
  by (auto simp: refresh_grant_begin_def Let_def refresh_redeem_def refresh_redeem_current_def
      refresh_check_retired_def key_state_def
      split: option.splits prod.splits refresh_outcome.splits if_splits refresh_state.splits)

text \<open>The state after a successful rotation, up to the guard's no-op drop.\<close>

lemma refresh_grant_finish_ok:
  fixes F now tok and s :: flow_state and pr :: pending_refresh
  defines "ts \<equiv> \<lparr>us_access = ot_access_token tok, us_refresh = ot_refresh_token tok,
      us_granted_scopes = granted_scopes_of (ot_scope tok) (pr_old_scopes pr), us_expires_at = token_deadline now tok\<rparr>"
  defines "p1 \<equiv> (fl_proxy s)\<lparr>ps_upstream_tokens := fmupd (pr_upstream_id pr) (ts, session_deadline now ts)
      (ps_upstream_tokens (fl_proxy s))\<rparr>"
  assumes "fmlookup (ps_upstream_tokens (fl_proxy s)) (pr_upstream_id pr) = Some (old, d)" and "now < d"
    and "fmlen (ps_tokens (fl_proxy s)) < MAX_ENTRIES"
    and "fmlen (rf_current (ps_refresh_tokens (fl_proxy s))) < MAX_ENTRIES"
  shows "\<exists>pair p2. mint_token_pair (fc_crypto F) now (Some ba) (Some br) (pr_client_id pr) (pr_upstream_id pr)
      (token_deadline now tok - now) (ot_refresh_token tok \<noteq> None) p1 = (Some pair, p2) \<and>
    refresh_grant_finish F now (Some ba) (Some br) pr (Inr tok) s =
      (Tokens pair (join '' '' (granted_scopes_of (ot_scope tok) (pr_old_scopes pr))),
       drop_guard (pr_guard pr) (s\<lparr>fl_proxy := p2\<lparr>ps_refresh_tokens :=
         refresh_retire (fc_crypto F) now (pr_refresh_token pr) (pr_upstream_id pr) (ps_refresh_tokens p2)\<rparr>\<rparr>))"
proof -
  have r: "upstream_replace now (pr_upstream_id pr) ts (ps_upstream_tokens (fl_proxy s)) =
      (Inr (), ps_upstream_tokens p1)"
    using assms(3,4) by (simp add: upstream_replace_def p1_def)
  have "\<exists>pair p2. mint_token_pair (fc_crypto F) now (Some ba) (Some br) (pr_client_id pr) (pr_upstream_id pr)
      (token_deadline now tok - now) (ot_refresh_token tok \<noteq> None) p1 = (Some pair, p2)"
    by (rule mint_token_pair_succeeds) (use assms(5,6) in \<open>simp_all add: p1_def\<close>)
  then obtain pair p2 where m: "mint_token_pair (fc_crypto F) now (Some ba) (Some br) (pr_client_id pr) (pr_upstream_id pr)
      (token_deadline now tok - now) (ot_refresh_token tok \<noteq> None) p1 = (Some pair, p2)" by blast
  have p1': "(fl_proxy s)\<lparr>ps_upstream_tokens := ps_upstream_tokens p1\<rparr> = p1" by (simp add: p1_def)
  have "refresh_grant_finish F now (Some ba) (Some br) pr (Inr tok) s =
      (Tokens pair (join '' '' (granted_scopes_of (ot_scope tok) (pr_old_scopes pr))),
       drop_guard (pr_guard pr) (s\<lparr>fl_proxy := p2\<lparr>ps_refresh_tokens :=
         refresh_retire (fc_crypto F) now (pr_refresh_token pr) (pr_upstream_id pr) (ps_refresh_tokens p2)\<rparr>\<rparr>))"
    using m r p1' by (simp add: refresh_grant_finish_def ts_def [symmetric] Let_def)
  then show ?thesis using m by blast
qed

text \<open>
  Refreshing rotates. When Redmine answers a refresh whose session is still live, and the
  token stores have room, the client gets a new pair whose access token authenticates as the
  new upstream token, and the presented refresh token is dead: presenting it again within a day
  is reported as reuse of that session.
\<close>

theorem refresh_rotates:
  assumes "fmlookup (ps_upstream_tokens (fl_proxy s)) (pr_upstream_id pr) = Some (old, d)" and "now < d"
    and "pr_guard pr = digest (fc_crypto F) (pr_refresh_token pr)"
    and "fmlen (ps_tokens (fl_proxy s)) < MAX_ENTRIES"
    and "fmlen (rf_current (ps_refresh_tokens (fl_proxy s))) < MAX_ENTRIES"
    and "fmlen (rf_retired (ps_refresh_tokens (fl_proxy s))) < MAX_ENTRIES"
    and "token_deadline now tok \<le> instant_max" and "now + REFRESH_TTL \<le> instant_max"
    and "now' < token_deadline now tok" and "now' < now + REFRESH_TTL" and "now'' < now + RETIRED_REFRESH_TTL"
  shows "\<exists>pair scope s'. refresh_grant_finish F now (Some ba) (Some br) pr (Inr tok) s = (Tokens pair scope, s') \<and>
    authenticates (fc_crypto F) now' (mp_access_token pair) (fl_proxy s') = Some (ot_access_token tok) \<and>
    (mp_refresh_token pair = None \<longleftrightarrow> ot_refresh_token tok = None) \<and>
    fst (refresh_redeem (fc_crypto F) now'' (pr_refresh_token pr) (ps_refresh_tokens (fl_proxy s'))) =
      RefreshReused (pr_upstream_id pr)"
proof -
  let ?C = "fc_crypto F"
  define ts where "ts = \<lparr>us_access = ot_access_token tok, us_refresh = ot_refresh_token tok,
      us_granted_scopes = granted_scopes_of (ot_scope tok) (pr_old_scopes pr), us_expires_at = token_deadline now tok\<rparr>"
  define p1 where "p1 = (fl_proxy s)\<lparr>ps_upstream_tokens := fmupd (pr_upstream_id pr) (ts, session_deadline now ts)
      (ps_upstream_tokens (fl_proxy s))\<rparr>"
  obtain pair p2 where m: "mint_token_pair ?C now (Some ba) (Some br) (pr_client_id pr) (pr_upstream_id pr)
      (token_deadline now tok - now) (ot_refresh_token tok \<noteq> None) p1 = (Some pair, p2)"
    and f: "refresh_grant_finish F now (Some ba) (Some br) pr (Inr tok) s =
      (Tokens pair (join '' '' (granted_scopes_of (ot_scope tok) (pr_old_scopes pr))),
       drop_guard (pr_guard pr) (s\<lparr>fl_proxy := p2\<lparr>ps_refresh_tokens :=
         refresh_retire ?C now (pr_refresh_token pr) (pr_upstream_id pr) (ps_refresh_tokens p2)\<rparr>\<rparr>))"
    using refresh_grant_finish_ok [OF assms(1,2,4,5), of F ba br tok] unfolding ts_def p1_def by blast
  let ?s' = "drop_guard (pr_guard pr) (s\<lparr>fl_proxy := p2\<lparr>ps_refresh_tokens :=
         refresh_retire ?C now (pr_refresh_token pr) (pr_upstream_id pr) (ps_refresh_tokens p2)\<rparr>\<rparr>)"
  note mint = mint_token_pair_Some [OF m]
  have dl: "now \<le> token_deadline now tok" by (simp add: token_deadline_def expires_after_ge)
  have "now' < session_deadline now ts"
    using assms(8-10) by (simp add: session_deadline_def ts_def expires_after_exact)
  then have a: "authenticates ?C now' (mp_access_token pair) (fl_proxy ?s') = Some (ot_access_token tok)"
    using mint(4,5) assms(7,9) dl by (simp add: authenticates_iff p1_def ts_def expires_after_exact)
  have "rf_retired (ps_refresh_tokens p2) = rf_retired (ps_refresh_tokens (fl_proxy s))"
    using mint_token_pair_retired [OF m] by (simp add: p1_def)
  then have rm: "room now (rf_retired (ps_refresh_tokens p2)) (digest ?C (pr_refresh_token pr))"
    using assms(6) by (simp add: room_of_len)
  have "ps_refresh_tokens (fl_proxy ?s') = refresh_retire ?C now (pr_refresh_token pr) (pr_upstream_id pr) (ps_refresh_tokens p2)"
    using assms(3) by (simp add: drop_guard_def guard_drop_absent)
  moreover have "now'' < expires_after now RETIRED_REFRESH_TTL"
    using assms(8,11) by (simp add: expires_after_exact REFRESH_TTL_def RETIRED_REFRESH_TTL_def duration_defs)
  ultimately have "fst (refresh_redeem ?C now'' (pr_refresh_token pr) (ps_refresh_tokens (fl_proxy ?s'))) =
      RefreshReused (pr_upstream_id pr)"
    using retire_then_reused [OF rm] by simp
  moreover have "mp_refresh_token pair = None \<longleftrightarrow> ot_refresh_token tok = None" using mint(7) by simp
  ultimately show ?thesis using f a by metis
qed

definition example_pending :: pending_refresh where
  "example_pending = \<lparr>pr_refresh_token = ''rup_rt_k'', pr_client_id = ''c'', pr_upstream_id = ''s'',
     pr_guard = ''rup_rt_k'', pr_old_secret = ''ur'', pr_old_scopes = []\<rparr>"

definition example_live_state :: flow_state where
  "example_live_state = (flow_new 0)\<lparr>fl_proxy := example_proxy\<lparr>ps_refresh_tokens := \<lparr>rf_current =
     fmupd ''rup_rt_k'' (\<lparr>ro_client_id = ''c'', ro_upstream_id = ''s'', ro_state = InFlight\<rparr>, from_hours 720) fmempty,
     rf_retired = fmempty\<rparr>\<rparr>\<rparr>"

lemma example_lens: "fmlen (fmupd k v fmempty) < MAX_ENTRIES" "0 < MAX_ENTRIES"
  using fmlen_fmupd_le [of k v fmempty] by (simp_all add: MAX_ENTRIES_def)

theorem refresh_rotates_witness:
  "\<exists>pair scope s'. refresh_grant_finish example_flow 0 (Some ''b'') (Some ''r'') example_pending (Inr example_token)
      example_live_state = (Tokens pair scope, s') \<and>
    authenticates example_crypto 1 (mp_access_token pair) (fl_proxy s') = Some ''ua'' \<and>
    fst (refresh_redeem example_crypto 1 ''rup_rt_k'' (ps_refresh_tokens (fl_proxy s'))) = RefreshReused ''s''"
proof -
  have dl: "token_deadline 0 example_token = 3600000000000"
    by (simp add: token_deadline_def example_token_def expires_after_exact from_secs_def instant_max_def)
  have "\<exists>pair scope s'. refresh_grant_finish example_flow 0 (Some ''b'') (Some ''r'') example_pending (Inr example_token)
      example_live_state = (Tokens pair scope, s') \<and>
    authenticates (fc_crypto example_flow) 1 (mp_access_token pair) (fl_proxy s') = Some (ot_access_token example_token) \<and>
    (mp_refresh_token pair = None \<longleftrightarrow> ot_refresh_token example_token = None) \<and>
    fst (refresh_redeem (fc_crypto example_flow) 1 (pr_refresh_token example_pending) (ps_refresh_tokens (fl_proxy s'))) =
      RefreshReused (pr_upstream_id example_pending)"
    by (rule refresh_rotates [where old = example_set and d = "from_hours 720"])
      (simp_all add: dl example_lens example_pending_def example_live_state_def example_proxy_def proxy_new_def
        REFRESH_TTL_def RETIRED_REFRESH_TTL_def duration_defs instant_max_def)
  then show ?thesis by (auto simp: example_token_def example_pending_def)
qed

text \<open>
  C11. A failed refresh ends the session cleanly. Whatever error Redmine answers, the client gets
  invalid_grant, the session is ended, the presented refresh token is gone (the guard's rollback
  does not bring it back) and the old upstream token is no longer served from the cache.
\<close>

theorem refresh_failure_ends_session:
  assumes "refresh_grant_finish F now ra rr pr (Inl e) s = (rep, s')"
    and "pr_guard pr = digest (fc_crypto F) (pr_refresh_token pr)"
  shows "rep = invalid_grant \<and> session_ended (pr_upstream_id pr) (fl_proxy s') \<and>
    fmlookup (rf_current (ps_refresh_tokens (fl_proxy s'))) (digest (fc_crypto F) (pr_refresh_token pr)) = None \<and>
    (\<forall>ts d. fmlookup (ps_upstream_tokens (fl_proxy s)) (pr_upstream_id pr) = Some (ts, d) \<longrightarrow>
       verifier_digest (fc_crypto F) (us_access ts) |\<notin>| fmdom (tv_cache (fl_verifier s')))"
proof -
  let ?k = "digest (fc_crypto F) (pr_refresh_token pr)"
  define s1 where "s1 = discard_refresh F (pr_refresh_token pr) s"
  define p2 where "p2 = snd (take_session (pr_upstream_id pr) (fl_proxy s1))"
  have up: "ps_upstream_tokens (fl_proxy s1) = ps_upstream_tokens (fl_proxy s)" by (simp add: s1_def discard_refresh_def)
  have "fmlookup (rf_current (ps_refresh_tokens (fl_proxy s1))) ?k = None"
    by (simp add: s1_def discard_refresh_def refresh_discard_def)
  then have k: "fmlookup (rf_current (ps_refresh_tokens p2)) ?k = None"
    by (simp add: p2_def take_session_def refresh_remove_by_upstream_def split: prod.split option.split)
  have s': "rep = invalid_grant"
    "s' = drop_guard (pr_guard pr) ((s1\<lparr>fl_proxy := p2\<rparr>)\<lparr>fl_verifier :=
        (case fst (take_session (pr_upstream_id pr) (fl_proxy s1)) of
           Some u \<Rightarrow> purge (fc_crypto F) (us_access u) (fl_verifier s1) | None \<Rightarrow> fl_verifier s1)\<rparr>)"
    using assms(1)
    by (auto simp: refresh_grant_finish_def s1_def [symmetric] p2_def Let_def split: prod.splits option.splits)
  have "fl_proxy s' = p2"
    using k assms(2) unfolding s' by (simp add: drop_guard_def guard_drop_absent)
  then show ?thesis
    using k s' by (auto simp: p2_def take_session_fst up purge_def)
qed

theorem refresh_failure_ends_session_witness:
  "session_ended ''s'' (fl_proxy (snd (refresh_grant_finish example_flow 0 None None example_pending (Inl EForbidden) example_live_state)))"
proof -
  obtain rep s' where g: "refresh_grant_finish example_flow 0 None None example_pending (Inl EForbidden) example_live_state = (rep, s')"
    by fastforce
  show ?thesis using refresh_failure_ends_session [OF g] g by (simp add: example_pending_def)
qed



section \<open>Revocation and the middleware\<close>

text \<open>The session a presented token belongs to, if it is one of ours and known.\<close>

definition session_of :: "crypto \<Rightarrow> string \<Rightarrow> proxy_state \<Rightarrow> string option" where
  "session_of C token p =
     (if starts_with token ''rup_at_''
      then map_option (\<lambda>e. te_upstream_id (fst e)) (fmlookup (ps_tokens p) (digest C token))
      else if starts_with token ''rup_rt_''
      then map_option (\<lambda>e. ro_upstream_id (fst e)) (fmlookup (rf_current (ps_refresh_tokens p)) (digest C token))
      else None)"

lemma revoke_local_session:
  "session_of C token p = Some uid \<Longrightarrow>
     session_ended uid (snd (revoke_local C token p)) \<and>
     fst (revoke_local C token p) = map_option fst (fmlookup (ps_upstream_tokens p) uid)"
  "session_of C token p = None \<Longrightarrow> revoke_local C token p = (None, p)"
  by (auto simp: session_of_def revoke_local_def ACCESS_TOKEN_PREFIX_def REFRESH_TOKEN_PREFIX_def token_take_def
      refresh_take_def take_session_fst fmdrop_fmlookup_None Let_def split: if_splits option.splits)



text \<open>
  C13. The middleware of oauth-proxy mode accepts only tokens this server minted. A request goes
  through exactly with the context that the verifier gives for the upstream token behind a
  presented token that carries our prefix, is stored and unexpired, and whose session is live; a
  well-formed bearer token without the prefix, such as a raw Redmine token, is refused with 401
  without any state change.
\<close>

theorem proxy_bearer_exact:
  "(fst (require_proxy_bearer F to_str from_str ch now k answer hs s) = Inr ctx \<longleftrightarrow>
      (\<exists>token a. extract_bearer to_str hs = Inr token \<and> starts_with token ''rup_at_'' \<and>
         authenticates (fc_crypto F) now token (fl_proxy s) = Some a \<and>
         fst (verify (fc_crypto F) k answer a (fl_verifier s)) = Inr ctx)) \<and>
   (extract_bearer to_str hs = Inr token \<longrightarrow> \<not> starts_with token ''rup_at_'' \<longrightarrow>
      require_proxy_bearer F to_str from_str ch now k answer hs s =
        (Inl (challenge_response from_str ch (Some ''invalid_token'')), s))"
proof (intro conjI impI)
  have b: "fst (proxy_bearer_begin F to_str from_str ch now hs (fl_proxy s)) = Inr a \<longleftrightarrow>
      (\<exists>token. extract_bearer to_str hs = Inr token \<and> starts_with token ''rup_at_'' \<and>
         authenticates (fc_crypto F) now token (fl_proxy s) = Some a)" for a
    by (auto simp: proxy_bearer_begin_def authenticates_def ACCESS_TOKEN_PREFIX_def
        split: sum.splits bearer_error.splits option.splits prod.splits)
  have r: "fst (require_proxy_bearer F to_str from_str ch now k answer hs s) = Inr ctx \<longleftrightarrow>
      (\<exists>a. fst (proxy_bearer_begin F to_str from_str ch now hs (fl_proxy s)) = Inr a \<and>
         fst (verify (fc_crypto F) k answer a (fl_verifier s)) = Inr ctx)"
    by (auto simp: require_proxy_bearer_def Let_def split: prod.splits sum.splits auth_error.splits)
  show "fst (require_proxy_bearer F to_str from_str ch now k answer hs s) = Inr ctx \<longleftrightarrow>
      (\<exists>token a. extract_bearer to_str hs = Inr token \<and> starts_with token ''rup_at_'' \<and>
         authenticates (fc_crypto F) now token (fl_proxy s) = Some a \<and>
         fst (verify (fc_crypto F) k answer a (fl_verifier s)) = Inr ctx)"
    unfolding r b by blast
  show "require_proxy_bearer F to_str from_str ch now k answer hs s =
        (Inl (challenge_response from_str ch (Some ''invalid_token'')), s)"
    if "extract_bearer to_str hs = Inr token" "\<not> starts_with token ''rup_at_''"
    using that by (simp add: require_proxy_bearer_def proxy_bearer_begin_def ACCESS_TOKEN_PREFIX_def)
qed

theorem proxy_bearer_exact_witness:
  "require_proxy_bearer example_flow Some Some \<lparr>ch_base = ''Bearer''\<rparr> 0
      \<lparr>vc_get_now = 0, vc_get_utc = 0, vc_ctx_utc = 0, vc_put_utc = 0, vc_put_now = 0\<rparr>
      (Inr example_intro) [''Bearer tok''] (flow_new 1) =
    (Inl (challenge_response Some \<lparr>ch_base = ''Bearer''\<rparr> (Some ''invalid_token'')), flow_new 1)"
proof -
  have e: "extract_bearer Some [''Bearer tok''] = Inr ''tok''"
    by (simp add: extract_bearer_def starts_with_def eq_ignore_ascii_case_def to_ascii_lowercase_def
        to_ascii_lower_def byte_of_def trim_def is_whitespace_def MAX_TOKEN_LEN_def char_of_def bit_Suc_0_iff)
  show ?thesis
    by (rule proxy_bearer_exact [THEN conjunct2, THEN mp, THEN mp, OF e]) (simp add: starts_with_def)
qed

text \<open>
  An overflowing expiry is a dead token. When Redmine reports a lifetime so long that the
  deadline leaves the range of the clock, the deadline computed is the present, not the far
  future: the client redeems its code and gets a token of lifetime zero that never authenticates.
\<close>

theorem overflowing_expiry_is_dead:
  assumes "callback_finish F now0 r t (Inr tok) p = (Redirect uri ((''code'', code) # rest), p1)"
    and "fc_url F uri \<noteq> None"
    and "ot_expires_in tok = Some n" and "instant_max < now0 + from_secs n"
    and "ps_codes (fl_proxy s) = ps_codes p1" and "now0 \<le> now" and "now < expires_after now0 CODE_TTL"
    and "fmlookup form ''code'' = Some code" and "fmlookup form ''redirect_uri'' = Some uri"
    and "fmlookup form ''client_id'' = Some (tx_client_id t)" and "fmlookup form ''code_verifier'' = Some v"
    and "tx_code_challenge t = challenge_for (fc_crypto F) v"
    and "fmlen (ps_upstream_tokens (fl_proxy s)) < MAX_ENTRIES" and "fmlen (ps_tokens (fl_proxy s)) < MAX_ENTRIES"
    and "fmlen (rf_current (ps_refresh_tokens (fl_proxy s))) < MAX_ENTRIES" and "now \<le> now'"
  shows "\<exists>pair scope s'. authorization_code_grant F now (Some bu) (Some ba) (Some br) form s = (Tokens pair scope, s') \<and>
    mp_ttl pair = 0 \<and> authenticates (fc_crypto F) now' (mp_access_token pair) (fl_proxy s') = None"
proof -
  let ?C = "fc_crypto F"
  note cb = callback_finish_ok [OF assms(1,2)]
  define ts where "ts = \<lparr>us_access = ot_access_token tok, us_refresh = ot_refresh_token tok,
      us_granted_scopes = granted_scopes_of (ot_scope tok) (tx_scopes t), us_expires_at = token_deadline now0 tok\<rparr>"
  define s1 where "s1 = s\<lparr>fl_proxy := (fl_proxy s)\<lparr>ps_codes :=
      snd (code_redeem ?C now code (tx_client_id t) uri v (ps_codes (fl_proxy s)))\<rparr>\<rparr>"
  have dl: "us_expires_at ts = now0"
    using assms(3,4) by (simp add: ts_def token_deadline_def expires_after_def checked_add_def)
  have ok: "fst (code_redeem ?C now code (tx_client_id t) uri v (ps_codes (fl_proxy s))) = RedeemOk ts"
    using cb assms(5,7,12) by (simp add: code_redeem_Ok_iff ts_def)
  obtain pair s' where g: "grant_redeemed F now (Some bu) (Some ba) (Some br) code (tx_client_id t) ts s1 =
      (Tokens pair (join '' '' (us_granted_scopes ts)), s')"
    and ttl: "mp_ttl pair = us_expires_at ts - now"
    and tk: "fmlookup (ps_tokens (fl_proxy s')) (digest ?C (mp_access_token pair)) =
      Some (\<lparr>te_upstream_id = hex_bytes bu, te_client_id = tx_client_id t\<rparr>, expires_after now (us_expires_at ts - now))"
    using grant_redeemed_ok [of "Some bu" bu "Some ba" ba ts "Some br" br s1 F now code "tx_client_id t"] assms(13-15)
    by (auto simp: s1_def)
  have grant: "authorization_code_grant F now (Some bu) (Some ba) (Some br) form s =
      (Tokens pair (join '' '' (us_granted_scopes ts)), s')"
    using assms(8-11) ok g by (auto simp: authorization_code_grant_def s1_def Let_def split: prod.split)
  have "expires_after now (us_expires_at ts - now) \<le> now'"
    using expires_after_le [of now 0] assms(6,16) by (simp add: dl)
  then have "authenticates ?C now' (mp_access_token pair) (fl_proxy s') = None"
    using tk by (cases "authenticates ?C now' (mp_access_token pair) (fl_proxy s')") (auto simp: authenticates_iff)
  then show ?thesis using grant ttl dl assms(6) by auto
qed

theorem overflowing_expiry_is_dead_witness:
  "\<exists>pair scope s'. authorization_code_grant example_flow 1 (Some ''u'') (Some ''a'') (Some ''r'') example_form
      ((flow_new 0)\<lparr>fl_proxy := snd (callback_finish example_flow 0 (Some ''k'') example_txn
         (Inr (example_token\<lparr>ot_expires_in := Some (2 ^ 64 - 1)\<rparr>)) proxy_new)\<rparr>) = (Tokens pair scope, s') \<and>
    mp_ttl pair = 0 \<and> authenticates example_crypto 1 (mp_access_token pair) (fl_proxy s') = None"
proof -
  let ?tok = "example_token\<lparr>ot_expires_in := Some (2 ^ 64 - 1)\<rparr>"
  define p1 where "p1 = snd (callback_finish example_flow 0 (Some ''k'') example_txn (Inr ?tok) proxy_new)"
  have cb: "callback_finish example_flow 0 (Some ''k'') example_txn (Inr ?tok) proxy_new =
      (Redirect ''http://localhost:1/'' ((''code'', ''rup_ac_k'') # [(''iss'', ''https://m'')]), p1)"
    unfolding p1_def
    by (simp add: prod_eq_iff callback_finish_def example_txn_def example_token_def code_mint_def mint_opaque_token_def
      sweep_check_eq room_of_len proxy_new_def code_new_def MAX_ENTRIES_def trim_trailing_slash_def
      strip_suffix_def ends_with_def Let_def)
  have fr: "ps_upstream_tokens p1 = fmempty" "ps_tokens p1 = fmempty" "rf_current (ps_refresh_tokens p1) = fmempty"
    by (simp_all add: p1_def callback_finish_def example_token_def Let_def proxy_new_def upstream_new_def
        token_new_def refresh_new_def split: option.split prod.split)
  have "\<exists>pair scope s'. authorization_code_grant example_flow 1 (Some ''u'') (Some ''a'') (Some ''r'') example_form
      ((flow_new 0)\<lparr>fl_proxy := p1\<rparr>) = (Tokens pair scope, s') \<and>
    mp_ttl pair = 0 \<and> authenticates (fc_crypto example_flow) 1 (mp_access_token pair) (fl_proxy s') = None"
    by (rule overflowing_expiry_is_dead [OF cb, where v = "''ch''" and n = "2 ^ 64 - 1"])
      (simp_all add: fr example_form_def example_txn_def challenge_for_def MAX_ENTRIES_def CODE_TTL_def REFRESH_TTL_def
        expires_after_exact duration_defs instant_max_def)
  then show ?thesis by (simp add: p1_def)
qed

end
