(* ===== verification/Rate_Limit.thy ===== *)
theory Rate_Limit
  imports Complex_Main Prelude
begin

text \<open>
  The keyed token-bucket rate limiter (\<^verbatim>\<open>ratelimit.rs\<close>): buckets, the sharded map with its
  eviction, and the specification it refines, one independent bucket per key.

  The \<^verbatim>\<open>f64\<close> quantities are rational numbers, so rounding is not modelled. The hasher
  (\<^verbatim>\<open>RandomState\<close>) and the iteration order of a \<^verbatim>\<open>HashMap\<close>, which decides ties when the oldest
  bucket is evicted, are arguments.
\<close>

unbundle bit_operations_syntax

datatype decision = Allow bool | Deny nat bool

record bucket =
  bk_tokens :: rat
  bk_updated_at :: instant
  bk_limited :: bool

definition bucket_new :: "rat \<Rightarrow> instant \<Rightarrow> bucket" where
  "bucket_new capacity now = \<lparr>bk_tokens = capacity, bk_updated_at = now, bk_limited = False\<rparr>"

text \<open>\<^verbatim>\<open>checked_duration_since(..).unwrap_or(ZERO).as_secs_f64()\<close>\<close>

definition elapsed_secs :: "instant \<Rightarrow> bucket \<Rightarrow> rat" where
  "elapsed_secs now b = of_nat (now - bk_updated_at b) / 1000000000"

text \<open>\<^verbatim>\<open>wait_secs.clamp(1.0, u64::MAX as f64).ceil() as u64\<close>; \<open>None\<close> is the infinite wait.\<close>

definition retry_after_secs :: "rat option \<Rightarrow> nat" where
  "retry_after_secs wait =
     (case wait of
        None \<Rightarrow> u64_max
      | Some w \<Rightarrow> min u64_max (nat \<lceil>min (2 ^ 64) (max 1 w)\<rceil>))"

definition bucket_take :: "instant \<Rightarrow> rat \<Rightarrow> rat \<Rightarrow> bucket \<Rightarrow> decision \<times> bucket" where
  "bucket_take now refill_per_sec capacity b =
     (let refilled = elapsed_secs now b * refill_per_sec;
          tokens = min (bk_tokens b + refilled) capacity;
          b1 = b\<lparr>bk_tokens := tokens, bk_updated_at := now\<rparr>
      in if tokens \<ge> 1
         then (Allow (bk_limited b), b1\<lparr>bk_tokens := tokens - 1, bk_limited := False\<rparr>)
         else
           let deficit = 1 - tokens;
               wait_secs = (if refill_per_sec > 0 then Some (deficit / refill_per_sec) else None)
           in (Deny (retry_after_secs wait_secs) (\<not> bk_limited b), b1\<lparr>bk_limited := True\<rparr>))"

definition is_pristine :: "instant \<Rightarrow> rat \<Rightarrow> rat \<Rightarrow> bucket \<Rightarrow> bool" where
  "is_pristine now refill_per_sec capacity b =
     (if bk_limited b then False
      else bk_tokens b + elapsed_secs now b * refill_per_sec \<ge> capacity)"

definition MIN_KEYS_PER_SHARD :: nat where
  "MIN_KEYS_PER_SHARD = 64"

definition MAX_SHARDS :: nat where
  "MAX_SHARDS = 16"

type_synonym 'k shard = "('k, bucket) fmap"

record 'k limiter =
  lm_shards :: "'k shard list"
  lm_shard_mask :: "64 word"
  lm_capacity :: rat
  lm_refill_per_sec :: rat
  lm_per_shard_max_keys :: nat

fun next_power_of_two :: "nat \<Rightarrow> nat" where
  "next_power_of_two n = (if n \<le> 1 then 1 else 2 * next_power_of_two ((n + 1) div 2))"

declare next_power_of_two.simps [simp del]

definition div_ceil :: "nat \<Rightarrow> nat \<Rightarrow> nat" where
  "div_ceil a b = (a + b - 1) div b"

definition shard_count :: "nat \<Rightarrow> nat" where
  "shard_count max_keys = next_power_of_two (max 1 (min MAX_SHARDS (max_keys div MIN_KEYS_PER_SHARD)))"

definition limiter_new :: "nat \<Rightarrow> nat \<Rightarrow> nat \<Rightarrow> 'k limiter" where
  "limiter_new rps burst max_keys =
     \<lparr>lm_shards = replicate (shard_count max_keys) fmempty,
      lm_shard_mask = of_nat (shard_count max_keys - 1),
      lm_capacity = of_nat burst, lm_refill_per_sec = of_nat rps,
      lm_per_shard_max_keys = div_ceil max_keys (shard_count max_keys)\<rparr>"

text \<open>\<^verbatim>\<open>min_by_key\<close> returns the first of the minimal elements of the iteration.\<close>

fun min_by_updated :: "('k \<times> bucket) list \<Rightarrow> ('k \<times> bucket) option" where
  "min_by_updated [] = None"
| "min_by_updated (x # xs) =
     (case min_by_updated xs of
        None \<Rightarrow> Some x
      | Some y \<Rightarrow> if bk_updated_at (snd y) < bk_updated_at (snd x) then Some y else Some x)"

definition evict_oldest :: "('k shard \<Rightarrow> ('k \<times> bucket) list) \<Rightarrow> 'k shard \<Rightarrow> 'k shard" where
  "evict_oldest iter buckets =
     (case min_by_updated (iter buckets) of
        None \<Rightarrow> buckets
      | Some (oldest, _) \<Rightarrow> fmdrop oldest buckets)"

definition shard_index :: "('k \<Rightarrow> 64 word) \<Rightarrow> 'k limiter \<Rightarrow> 'k \<Rightarrow> nat" where
  "shard_index hash_one lm key = unat (hash_one key AND lm_shard_mask lm)"

text \<open>The body of \<^verbatim>\<open>check\<close> under the lock of the key's shard.\<close>

definition shard_check ::
    "('k shard \<Rightarrow> ('k \<times> bucket) list) \<Rightarrow> rat \<Rightarrow> rat \<Rightarrow> nat \<Rightarrow> 'k \<Rightarrow> instant \<Rightarrow> 'k shard \<Rightarrow>
     decision \<times> 'k shard" where
  "shard_check iter refill capacity max_keys key now buckets =
     (case fmlookup buckets key of
        Some b \<Rightarrow> (let (d, b') = bucket_take now refill capacity b in (d, fmupd key b' buckets))
      | None \<Rightarrow>
          (let buckets1 =
                 (if fmlen buckets \<ge> max_keys
                  then
                    let kept = retain (\<lambda>_ b. \<not> is_pristine now refill capacity b) buckets
                    in if fmlen kept = fmlen buckets then evict_oldest iter kept else kept
                  else buckets);
               (d, b') = bucket_take now refill capacity (bucket_new capacity now)
           in (d, fmupd key b' buckets1)))"

definition check ::
    "('k \<Rightarrow> 64 word) \<Rightarrow> ('k shard \<Rightarrow> ('k \<times> bucket) list) \<Rightarrow> 'k \<Rightarrow> instant \<Rightarrow> 'k limiter \<Rightarrow>
     decision \<times> 'k limiter" where
  "check hash_one iter key now lm =
     (let i = shard_index hash_one lm key;
          (d, buckets) = shard_check iter (lm_refill_per_sec lm) (lm_capacity lm)
                           (lm_per_shard_max_keys lm) key now (lm_shards lm ! i)
      in (d, lm\<lparr>lm_shards := (lm_shards lm)[i := buckets]\<rparr>))"

definition limiter_len :: "'k limiter \<Rightarrow> nat" where
  "limiter_len lm = sum_list (map fmlen (lm_shards lm))"

section \<open>One bucket\<close>

text \<open>A run of takes on one bucket.\<close>

fun takes :: "rat \<Rightarrow> rat \<Rightarrow> instant list \<Rightarrow> bucket \<Rightarrow> decision list \<times> bucket" where
  "takes refill capacity [] b = ([], b)"
| "takes refill capacity (t # ts) b =
     (let (d, b1) = bucket_take t refill capacity b; (ds, b2) = takes refill capacity ts b1
      in (d # ds, b2))"

fun allowed :: "decision \<Rightarrow> bool" where
  "allowed (Allow _) = True"
| "allowed (Deny _ _) = False"

lemma bucket_take_updated [simp]: "bk_updated_at (snd (bucket_take now r c b)) = now"
  by (simp add: bucket_take_def Let_def)

lemma bucket_take_tokens:
  "bk_tokens (snd (bucket_take now r c b)) =
     min (bk_tokens b + elapsed_secs now b * r) c - (if allowed (fst (bucket_take now r c b)) then 1 else 0)"
  by (simp add: bucket_take_def Let_def)

lemma bucket_take_allowed:
  "allowed (fst (bucket_take now r c b)) \<longleftrightarrow> min (bk_tokens b + elapsed_secs now b * r) c \<ge> 1"
  by (simp add: bucket_take_def Let_def)

text \<open>Tokens are conserved: what is spent was there or has been refilled.\<close>

lemma takes_conserve:
  assumes "sorted (bk_updated_at b # ts)"
  shows "of_nat (length (filter allowed (fst (takes r c ts b)))) + bk_tokens (snd (takes r c ts b)) \<le>
    bk_tokens b + of_nat (last (bk_updated_at b # ts) - bk_updated_at b) / 1000000000 * r"
  using assms
proof (induction ts arbitrary: b)
  case Nil
  then show ?case by simp
next
  case (Cons t ts)
  let ?d = "fst (bucket_take t r c b)" and ?b1 = "snd (bucket_take t r c b)"
  let ?e = "last (t # ts)"
  have le: "bk_updated_at b \<le> t" "t \<le> ?e" using Cons.prems by (auto simp: last_in_set)
  have ih: "of_nat (length (filter allowed (fst (takes r c ts ?b1)))) + bk_tokens (snd (takes r c ts ?b1)) \<le>
      bk_tokens ?b1 + of_nat (?e - t) / 1000000000 * r"
    using Cons.IH [of ?b1] Cons.prems by simp
  have "bk_tokens ?b1 \<le> bk_tokens b + of_nat (t - bk_updated_at b) / 1000000000 * r - (if allowed ?d then 1 else 0)"
    unfolding bucket_take_tokens elapsed_secs_def by (simp add: min.coboundedI1)
  moreover have "(of_nat (?e - bk_updated_at b) :: rat) = of_nat (?e - t) + of_nat (t - bk_updated_at b)"
    using le by (simp add: of_nat_diff)
  ultimately show ?case
    using ih by (simp add: case_prod_beta algebra_simps add_divide_distrib split: if_splits)
qed

lemma takes_tokens_nonneg:
  assumes "0 \<le> bk_tokens b" "0 \<le> r" "0 \<le> c" shows "0 \<le> bk_tokens (snd (takes r c ts b))"
  using assms
proof (induction ts arbitrary: b)
  case (Cons t ts)
  have "0 \<le> bk_tokens (snd (bucket_take t r c b))"
    using Cons.prems bucket_take_allowed [of t r c b] unfolding bucket_take_tokens
    by (auto simp: elapsed_secs_def)
  then show ?case using Cons by (simp add: case_prod_beta)
qed simp

lemma elapsed_mono: "now \<le> now' \<Longrightarrow> elapsed_secs now b \<le> elapsed_secs now' b"
  by (simp add: elapsed_secs_def divide_right_mono)

lemma is_pristine_mono: "is_pristine now r c b \<Longrightarrow> now \<le> now' \<Longrightarrow> 0 \<le> r \<Longrightarrow> is_pristine now' r c b"
proof -
  assume p: "is_pristine now r c b" and "now \<le> now'" "0 \<le> r"
  then have "elapsed_secs now b * r \<le> elapsed_secs now' b * r"
    using elapsed_mono mult_right_mono by blast
  then show ?thesis using p by (auto simp: is_pristine_def split: if_splits)
qed

text \<open>A pristine bucket and a fresh one cannot be told apart.\<close>

lemma pristine_take:
  assumes "is_pristine now r c b" shows "bucket_take now r c b = bucket_take now r c (bucket_new c now)"
proof -
  have "min (bk_tokens b + elapsed_secs now b * r) c = c" "\<not> bk_limited b"
    using assms by (auto simp: is_pristine_def split: if_splits)
  then show ?thesis by (auto simp: bucket_take_def bucket_new_def elapsed_secs_def Let_def)
qed

lemma retry_after_covers:
  assumes "retry_after_secs (Some w) < u64_max" shows "w \<le> of_nat (retry_after_secs (Some w))"
proof -
  let ?n = "nat \<lceil>min (2 ^ 64) (max 1 w)\<rceil>"
  have n: "retry_after_secs (Some w) = ?n" "?n < u64_max"
    using assms by (auto simp: retry_after_secs_def min_def split: if_splits)
  have le: "min (2 ^ 64) (max 1 w) \<le> of_nat ?n"
    by (metis ceiling_le_iff le_nat_iff nat_le_iff of_int_of_nat_eq order_refl)
  have "(of_nat ?n :: rat) < 2 ^ 64"
    using n(2) of_nat_less_iff [where 'a = rat, of ?n u64_max] by (simp add: u64_max_def)
  then have "w \<le> min (2 ^ 64) (max 1 w)" using le by linarith
  then show ?thesis using le n(1) by linarith
qed

lemma deny_then_wait:
  assumes "bucket_take now r c b = (Deny n nl, b1)" and "0 < r" and "1 \<le> c" and "n < u64_max"
    and "now + from_secs n \<le> now'"
  shows "allowed (fst (bucket_take now' r c b1))"
proof -
  define k where "k = min (bk_tokens b + elapsed_secs now b * r) c"
  have k: "bk_tokens b1 = k" "bk_updated_at b1 = now" "n = retry_after_secs (Some ((1 - k) / r))"
    using assms(1,2) by (auto simp: bucket_take_def k_def Let_def split: if_splits)
  have "(1 - k) / r \<le> of_nat n" using retry_after_covers [of "(1 - k) / r"] k(3) assms(4) by simp
  also have "of_nat n \<le> elapsed_secs now' b1"
  proof -
    have "n * 1000000000 \<le> now' - now" using assms(5) by (simp add: from_secs_def)
    then have "(of_nat (n * 1000000000) :: rat) \<le> of_nat (now' - now)" by (rule of_nat_mono)
    then show ?thesis by (simp add: elapsed_secs_def k(2) pos_le_divide_eq)
  qed
  finally have "1 \<le> k + elapsed_secs now' b1 * r" using assms(2) by (simp add: pos_divide_le_eq)
  then show ?thesis using assms(3) by (simp add: bucket_take_allowed k(1))
qed

section \<open>The shards\<close>

lemma next_power_of_two_power: "\<exists>k. next_power_of_two n = 2 ^ k"
proof (induction n rule: next_power_of_two.induct)
  case (1 n)
  then show ?case
    by (cases "n \<le> 1") (auto simp: next_power_of_two.simps [of n] intro: exI [of _ 0] exI [of _ "Suc _"])
qed

lemma next_power_of_two_bounds: "n \<le> 2 ^ k \<Longrightarrow> next_power_of_two n \<le> 2 ^ k"
proof (induction n arbitrary: k rule: next_power_of_two.induct)
  case (1 n)
  show ?case
  proof (cases "n \<le> 1")
    case True
    then show ?thesis by (simp add: next_power_of_two.simps)
  next
    case False
    then obtain j where k: "k = Suc j" using "1.prems" by (cases k) auto
    then have "(n + 1) div 2 \<le> 2 ^ j" using "1.prems" by simp
    then show ?thesis using "1.IH" [OF False] False k by (simp add: next_power_of_two.simps [of n])
  qed
qed

lemma shard_count_cases: "\<exists>k \<le> 4. shard_count m = 2 ^ k"
proof -
  obtain k where k: "shard_count m = 2 ^ k" using next_power_of_two_power unfolding shard_count_def by blast
  have "shard_count m \<le> 2 ^ 4"
    unfolding shard_count_def by (rule next_power_of_two_bounds) (simp add: MAX_SHARDS_def)
  then have "k \<le> 4" using k by (metis power_le_imp_le_exp one_less_numeral_iff semiring_norm(76))
  then show ?thesis using k by blast
qed

lemma shard_index_less:
  assumes "lm_shard_mask lm = of_nat (2 ^ k - 1)" and "k \<le> 4"
  shows "shard_index h lm key < 2 ^ k"
proof -
  have "lm_shard_mask lm = mask k" using assms(1) by (simp add: mask_eq_exp_minus_1 of_nat_diff)
  then have "h key AND lm_shard_mask lm = take_bit k (h key)" by (simp add: take_bit_eq_mask)
  then show ?thesis by (simp add: shard_index_def unsigned_take_bit_eq take_bit_nat_less_exp)
qed

definition iter_ok :: "('k shard \<Rightarrow> ('k \<times> bucket) list) \<Rightarrow> bool" where
  "iter_ok iter \<longleftrightarrow> (\<forall>m. set (iter m) = {(k, b). fmlookup m k = Some b})"

lemma min_by_updated_in: "min_by_updated xs = Some x \<Longrightarrow> x \<in> set xs"
  by (induction xs arbitrary: x) (auto split: option.splits if_splits)

lemma min_by_updated_None: "min_by_updated xs = None \<longleftrightarrow> xs = []"
  by (cases xs) (auto split: option.splits)

lemma min_by_updated_least:
  "min_by_updated xs = Some x \<Longrightarrow> y \<in> set xs \<Longrightarrow> bk_updated_at (snd x) \<le> bk_updated_at (snd y)"
  by (induction xs arbitrary: x) (fastforce simp: min_by_updated_None split: option.splits if_splits)+

lemma fmlen_fmdrop: "k |\<in>| fmdom m \<Longrightarrow> fmlen (fmdrop k m) = fmlen m - 1"
  by (simp add: fmlen_def fcard_fminus_fsingleton)

lemma evict_oldest_len:
  assumes "iter_ok iter" shows "fmlen (evict_oldest iter m) = fmlen m - 1"
proof (cases "min_by_updated (iter m)")
  case None
  then have "{(k, b). fmlookup m k = Some b} = {}"
    using assms unfolding iter_ok_def min_by_updated_None by (metis list.set(1))
  then have "m = fmempty" by (intro fmap_ext) (auto simp: not_Some_eq [symmetric] simp del: not_Some_eq)
  then show ?thesis using None by (simp add: evict_oldest_def)
next
  case (Some x)
  then have "fst x |\<in>| fmdom m" using min_by_updated_in [OF Some] assms by (auto simp: iter_ok_def fmdomI)
  then show ?thesis using Some by (simp add: evict_oldest_def fmlen_fmdrop case_prod_beta)
qed

lemma shard_check_len:
  assumes "iter_ok iter" and "fmlen m \<le> max 1 n"
  shows "fmlen (snd (shard_check iter r c n key now m)) \<le> max 1 n"
proof (cases "fmlookup m key")
  case (Some b)
  then show ?thesis using assms(2)
    by (simp add: shard_check_def case_prod_beta fmlen_fmupd_old fmdomI Let_def)
next
  case None
  define kept where "kept = retain (\<lambda>_ b. \<not> is_pristine now r c b) m"
  have "fmlen kept \<le> fmlen m" unfolding kept_def by (rule fmlen_retain_le)
  then show ?thesis
    using None assms(2) evict_oldest_len [OF assms(1), of kept]
    by (auto simp: shard_check_def kept_def [symmetric] Let_def case_prod_beta
        intro!: order_trans [OF fmlen_fmupd_le])
qed

section \<open>Refinement\<close>

text \<open>
  The specification: one bucket per key, created full at its first use, and no eviction.
\<close>

definition spec_check ::
    "rat \<Rightarrow> rat \<Rightarrow> 'k \<Rightarrow> instant \<Rightarrow> ('k \<Rightarrow> bucket option) \<Rightarrow> decision \<times> ('k \<Rightarrow> bucket option)" where
  "spec_check refill capacity key now m =
     (let b = (case m key of Some b \<Rightarrow> b | None \<Rightarrow> bucket_new capacity now);
          (d, b') = bucket_take now refill capacity b
      in (d, m(key \<mapsto> b')))"

definition lm_lookup :: "('k \<Rightarrow> 64 word) \<Rightarrow> 'k limiter \<Rightarrow> 'k \<Rightarrow> bucket option" where
  "lm_lookup h lm key = fmlookup (lm_shards lm ! shard_index h lm key) key"

text \<open>What the limiter has forgotten is pristine in the specification.\<close>

definition lm_rel :: "('k \<Rightarrow> 64 word) \<Rightarrow> instant \<Rightarrow> 'k limiter \<Rightarrow> ('k \<Rightarrow> bucket option) \<Rightarrow> bool" where
  "lm_rel h now lm m \<longleftrightarrow>
     (\<forall>k. case lm_lookup h lm k of
            Some b \<Rightarrow> m k = Some b
          | None \<Rightarrow> (\<forall>b. m k = Some b \<longrightarrow> is_pristine now (lm_refill_per_sec lm) (lm_capacity lm) b))"

definition lm_inv :: "'k limiter \<Rightarrow> bool" where
  "lm_inv lm \<longleftrightarrow> (\<exists>j \<le> 4. length (lm_shards lm) = 2 ^ j \<and> lm_shard_mask lm = of_nat (2 ^ j - 1)) \<and>
     (\<forall>m \<in> set (lm_shards lm). fmlen m \<le> max 1 (lm_per_shard_max_keys lm)) \<and> 0 \<le> lm_refill_per_sec lm"

text \<open>Whether this call has to evict a bucket that is not pristine.\<close>

definition evicts_live :: "('k \<Rightarrow> 64 word) \<Rightarrow> 'k \<Rightarrow> instant \<Rightarrow> 'k limiter \<Rightarrow> bool" where
  "evicts_live h key now lm \<longleftrightarrow>
     (let m = lm_shards lm ! shard_index h lm key
      in fmlookup m key = None \<and> fmlen m \<ge> lm_per_shard_max_keys lm \<and>
         fmlen (retain (\<lambda>_ b. \<not> is_pristine now (lm_refill_per_sec lm) (lm_capacity lm) b) m) = fmlen m)"

lemma lm_inv_new: "lm_inv (limiter_new rps burst max_keys)"
  using shard_count_cases [of max_keys] by (auto simp: lm_inv_def limiter_new_def)

lemma lm_inv_index: "lm_inv lm \<Longrightarrow> shard_index h lm key < length (lm_shards lm)"
  using shard_index_less unfolding lm_inv_def by metis

lemma check_frame [simp]:
  "lm_shard_mask (snd (check h iter key now lm)) = lm_shard_mask lm"
  "lm_refill_per_sec (snd (check h iter key now lm)) = lm_refill_per_sec lm"
  "lm_capacity (snd (check h iter key now lm)) = lm_capacity lm"
  "lm_per_shard_max_keys (snd (check h iter key now lm)) = lm_per_shard_max_keys lm"
  "length (lm_shards (snd (check h iter key now lm))) = length (lm_shards lm)"
  "shard_index h (snd (check h iter key now lm)) k = shard_index h lm k"
  by (simp_all add: check_def Let_def shard_index_def case_prod_beta)

lemma check_inv:
  assumes "lm_inv lm" and "iter_ok iter" shows "lm_inv (snd (check h iter key now lm))"
proof -
  let ?i = "shard_index h lm key"
  have "fmlen (snd (shard_check iter (lm_refill_per_sec lm) (lm_capacity lm) (lm_per_shard_max_keys lm) key now
      (lm_shards lm ! ?i))) \<le> max 1 (lm_per_shard_max_keys lm)"
    using assms(1) lm_inv_index [OF assms(1), of h key] nth_mem
    by (intro shard_check_len [OF assms(2)]) (auto simp: lm_inv_def)
  then have "\<forall>m \<in> set (lm_shards (snd (check h iter key now lm))). fmlen m \<le> max 1 (lm_per_shard_max_keys lm)"
    using assms(1) set_update_subset_insert
    by (fastforce simp: check_def Let_def lm_inv_def case_prod_beta)
  then show ?thesis using assms(1) by (simp add: lm_inv_def)
qed

lemma check_lookup:
  assumes "lm_inv lm" and "\<not> evicts_live h key now lm"
  shows "lm_lookup h (snd (check h iter key now lm)) k =
    (if k = key
     then Some (snd (bucket_take now (lm_refill_per_sec lm) (lm_capacity lm)
            (case lm_lookup h lm key of Some b \<Rightarrow> b | None \<Rightarrow> bucket_new (lm_capacity lm) now)))
     else if lm_lookup h lm key = None \<and> shard_index h lm k = shard_index h lm key \<and>
             lm_per_shard_max_keys lm \<le> fmlen (lm_shards lm ! shard_index h lm key) \<and>
             (\<exists>b. lm_lookup h lm k = Some b \<and> is_pristine now (lm_refill_per_sec lm) (lm_capacity lm) b)
     then None else lm_lookup h lm k)"
  using assms lm_inv_index [OF assms(1), of h key]
  by (cases "lm_lookup h lm key"; cases "shard_index h lm k = shard_index h lm key")
    (auto simp: lm_lookup_def check_def shard_check_def evicts_live_def Let_def case_prod_beta shard_index_def
      nth_list_update split: option.split)

lemma check_decision:
  "fst (check h iter key now lm) = fst (bucket_take now (lm_refill_per_sec lm) (lm_capacity lm)
     (case lm_lookup h lm key of Some b \<Rightarrow> b | None \<Rightarrow> bucket_new (lm_capacity lm) now))"
  by (simp add: check_def shard_check_def lm_lookup_def Let_def case_prod_beta split: option.split)

lemma check_refines:
  assumes "lm_inv lm" and "lm_rel h now0 lm m" and "now0 \<le> now" and "\<not> evicts_live h key now lm"
  shows "fst (check h iter key now lm) = fst (spec_check (lm_refill_per_sec lm) (lm_capacity lm) key now m) \<and>
    lm_rel h now (snd (check h iter key now lm)) (snd (spec_check (lm_refill_per_sec lm) (lm_capacity lm) key now m))"
proof -
  let ?r = "lm_refill_per_sec lm" and ?c = "lm_capacity lm"
  have r0: "0 \<le> ?r" using assms(1) by (simp add: lm_inv_def)
  have some: "m k = Some b" if "lm_lookup h lm k = Some b" for k b
    using assms(2) that unfolding lm_rel_def by (auto split: option.splits)
  have none: "is_pristine now ?r ?c b" if "lm_lookup h lm k = None" "m k = Some b" for k b
  proof (rule is_pristine_mono [OF _ assms(3) r0])
    note spec [OF iffD1 [OF lm_rel_def assms(2)], of k]
    then show "is_pristine now0 ?r ?c b" using that by simp
  qed
  have eq: "bucket_take now ?r ?c (case lm_lookup h lm key of Some b \<Rightarrow> b | None \<Rightarrow> bucket_new ?c now) =
      bucket_take now ?r ?c (case m key of Some b \<Rightarrow> b | None \<Rightarrow> bucket_new ?c now)"
  proof (cases "lm_lookup h lm key")
    case None
    then show ?thesis using pristine_take [OF none [OF None]] by (cases "m key") auto
  qed (simp add: some)
  have "lm_rel h now (snd (check h iter key now lm)) (m(key \<mapsto>
      snd (bucket_take now ?r ?c (case lm_lookup h lm key of Some b \<Rightarrow> b | None \<Rightarrow> bucket_new ?c now))))"
    unfolding lm_rel_def check_lookup [OF assms(1,4)] using some none by (auto split: option.splits)
  then show ?thesis by (simp add: check_decision spec_check_def eq Let_def case_prod_beta)
qed

text \<open>Runs of calls, with a check that no live bucket had to be evicted.\<close>

fun run_checks ::
    "('k \<Rightarrow> 64 word) \<Rightarrow> ('k shard \<Rightarrow> ('k \<times> bucket) list) \<Rightarrow> ('k \<times> instant) list \<Rightarrow> 'k limiter \<Rightarrow>
     decision list" where
  "run_checks h iter [] lm = []"
| "run_checks h iter ((k, t) # ops) lm =
     (let (d, lm1) = check h iter k t lm in d # run_checks h iter ops lm1)"

fun run_spec :: "rat \<Rightarrow> rat \<Rightarrow> ('k \<times> instant) list \<Rightarrow> ('k \<Rightarrow> bucket option) \<Rightarrow> decision list" where
  "run_spec r c [] m = []"
| "run_spec r c ((k, t) # ops) m = (let (d, m1) = spec_check r c k t m in d # run_spec r c ops m1)"

fun never_evicts_live ::
    "('k \<Rightarrow> 64 word) \<Rightarrow> ('k shard \<Rightarrow> ('k \<times> bucket) list) \<Rightarrow> ('k \<times> instant) list \<Rightarrow> 'k limiter \<Rightarrow> bool" where
  "never_evicts_live h iter [] lm = True"
| "never_evicts_live h iter ((k, t) # ops) lm =
     (\<not> evicts_live h k t lm \<and> never_evicts_live h iter ops (snd (check h iter k t lm)))"

lemma run_refines:
  assumes "iter_ok iter"
  shows "lm_inv lm \<Longrightarrow> lm_rel h now0 lm m \<Longrightarrow> sorted (now0 # map snd ops) \<Longrightarrow> never_evicts_live h iter ops lm \<Longrightarrow>
    run_checks h iter ops lm = run_spec (lm_refill_per_sec lm) (lm_capacity lm) ops m"
proof (induction ops arbitrary: lm m now0)
  case (Cons op ops)
  obtain k t where op: "op = (k, t)" by fastforce
  have le: "now0 \<le> t" using Cons.prems(3) op by simp
  have ne: "\<not> evicts_live h k t lm" using Cons.prems(4) op by simp
  note ref = check_refines [OF Cons.prems(1,2) le ne, where iter = iter]
  have "run_checks h iter ops (snd (check h iter k t lm)) =
      run_spec (lm_refill_per_sec lm) (lm_capacity lm) ops
        (snd (spec_check (lm_refill_per_sec lm) (lm_capacity lm) k t m))"
    using Cons.IH [OF check_inv [OF Cons.prems(1) assms] ref [THEN conjunct2]] Cons.prems(3,4) op by simp
  then show ?case using op ref by (simp add: case_prod_beta)
qed simp

section \<open>Properties\<close>



text \<open>
  Retry-After is honest. When a request is denied with a wait of n seconds (and the wait did
  not saturate), the next request of that caller, made at least n seconds later, is allowed.
\<close>

theorem retry_after_sufficient:
  assumes "bucket_take now (of_nat rps) (of_nat burst) b = (Deny n newly, b1)"
    and "0 < rps" and "0 < burst" and "n < u64_max" and "now + from_secs n \<le> now'"
  shows "\<exists>recovered. fst (bucket_take now' (of_nat rps) (of_nat burst) b1) = Allow recovered"
proof -
  have "allowed (fst (bucket_take now' (of_nat rps) (of_nat burst) b1))"
    using assms by (intro deny_then_wait [OF assms(1)]) (auto simp: Suc_le_eq)
  then show ?thesis by (cases "fst (bucket_take now' (of_nat rps) (of_nat burst) b1)") auto
qed

theorem retry_after_sufficient_witness:
  "\<exists>recovered. fst (bucket_take 1000000000 1 1 \<lparr>bk_tokens = 0, bk_updated_at = 0, bk_limited = True\<rparr>) = Allow recovered"
proof -
  have "bucket_take 0 (of_nat 1) (of_nat 1) \<lparr>bk_tokens = 0, bk_updated_at = 0, bk_limited = False\<rparr> =
      (Deny 1 True, \<lparr>bk_tokens = 0, bk_updated_at = 0, bk_limited = True\<rparr>)"
    by (simp add: bucket_take_def elapsed_secs_def retry_after_secs_def u64_max_def Let_def)
  from retry_after_sufficient [OF this, of 1000000000] show ?thesis by (simp add: u64_max_def from_secs_def)
qed

text \<open>
  C15. The sharded limiter refines one independent bucket per key. As long as no call has to evict a
  live bucket, a limiter created empty answers any sequence of calls, in order of time, exactly as
  unbounded independent buckets would: sharding, and sweeping pristine buckets to make room, are
  invisible to the callers.
\<close>

theorem limiter_refines_spec:
  assumes "iter_ok iter" and "sorted (map snd ops)"
    and "never_evicts_live h iter ops (limiter_new rps burst max_keys)"
  shows "run_checks h iter ops (limiter_new rps burst max_keys) = run_spec (of_nat rps) (of_nat burst) ops (\<lambda>_. None)"
proof -
  have sh: "lm_shards (limiter_new rps burst max_keys) = replicate (shard_count max_keys) fmempty"
    by (simp add: limiter_new_def)
  have "lm_lookup h (limiter_new rps burst max_keys) k = None" for k
    using lm_inv_index [OF lm_inv_new, of h rps burst max_keys k] by (simp add: lm_lookup_def sh)
  then have "lm_rel h 0 (limiter_new rps burst max_keys) (\<lambda>_. None)" by (simp add: lm_rel_def)
  from run_refines [OF assms(1) lm_inv_new this] show ?thesis
    using assms(2,3) by (simp add: limiter_new_def)
qed

definition example_iter :: "bool shard \<Rightarrow> (bool \<times> bucket) list" where
  "example_iter m = (case fmlookup m True of Some b \<Rightarrow> [(True, b)] | None \<Rightarrow> []) @
     (case fmlookup m False of Some b \<Rightarrow> [(False, b)] | None \<Rightarrow> [])"

lemma example_iter_ok: "iter_ok example_iter"
proof -
  have "(k, b) \<in> set (example_iter m) \<longleftrightarrow> fmlookup m k = Some b" for k b m
    by (cases k) (auto simp: example_iter_def split: option.splits)
  then show ?thesis unfolding iter_ok_def by auto
qed

theorem limiter_refines_spec_witness:
  "run_checks (\<lambda>_. 0) example_iter [(True, 0), (True, 0), (False, 0)] (limiter_new 1 1 64) =
     run_spec 1 1 [(True, 0), (True, 0), (False, 0)] (\<lambda>_. None)"
proof -
  have sc: "shard_count 64 = 1" by (simp add: shard_count_def MAX_SHARDS_def MIN_KEYS_PER_SHARD_def next_power_of_two.simps)
  have ne: "never_evicts_live (\<lambda>_. 0) example_iter [(True, 0), (True, 0), (False, 0)] (limiter_new 1 1 64)"
    by (simp add: limiter_new_def sc div_ceil_def evicts_live_def check_def shard_check_def shard_index_def Let_def
        bucket_new_def bucket_take_def elapsed_secs_def fmlen_def fcard_finsert_if fcard_fempty)
  show ?thesis using limiter_refines_spec [OF example_iter_ok _ ne] by simp
qed

text \<open>
  The limiter never indexes out of bounds and never outgrows its cap: after any sequence of
  calls, at any times, the masked hash is below the number of shards, and the number of buckets
  stays within the number of shards times the per-shard cap.
\<close>

theorem limiter_bounded:
  fixes h :: "'k \<Rightarrow> 64 word" and iter ops rps burst max_keys
  assumes "iter_ok iter"
  defines "final \<equiv> fold (\<lambda>(k, t) lm. snd (check h iter k t lm)) ops (limiter_new rps burst max_keys)"
  shows "shard_index h final key < length (lm_shards final) \<and>
    limiter_len final \<le> length (lm_shards final) * max 1 (lm_per_shard_max_keys final) \<and>
    length (lm_shards final) \<le> 16"
proof -
  have run: "lm_inv (fold (\<lambda>(k, t) lm. snd (check h iter k t lm)) ops lm)" if "lm_inv lm" for lm
    using that by (induction ops arbitrary: lm) (auto intro: check_inv [OF _ assms(1)])
  have inv: "lm_inv final" unfolding final_def by (rule run) (rule lm_inv_new)
  have "limiter_len final \<le> length (lm_shards final) * max 1 (lm_per_shard_max_keys final)"
    using inv sum_list_mono [of "lm_shards final" fmlen "\<lambda>_. max 1 (lm_per_shard_max_keys final)"]
    by (simp add: limiter_len_def lm_inv_def sum_list_triv)
  moreover obtain j where "j \<le> 4" "length (lm_shards final) = 2 ^ j" using inv by (auto simp: lm_inv_def)
  then have "length (lm_shards final) \<le> 2 ^ 4" using power_increasing [of j 4 "2::nat"] by simp
  ultimately show ?thesis using lm_inv_index [OF inv] by simp
qed

theorem limiter_bounded_witness:
  "limiter_len (fold (\<lambda>(k, t) lm. snd (check (\<lambda>_. 0) example_iter k t lm)) [(True, 0), (False, 5)] (limiter_new 1 1 1)) \<le>
   length (lm_shards (fold (\<lambda>(k, t) lm. snd (check (\<lambda>_. 0) example_iter k t lm)) [(True, 0), (False, 5)] (limiter_new 1 1 1))) *
     max 1 (lm_per_shard_max_keys (fold (\<lambda>(k, t) lm. snd (check (\<lambda>_. 0) example_iter k t lm)) [(True, 0), (False, 5)] (limiter_new 1 1 1)))"
  using limiter_bounded [OF example_iter_ok] by blast

text \<open>
  A clock that steps back refills twice. A request whose reading is older than the bucket's
  rewinds the bucket's clock, so the same interval is credited again by the next one: with
  readings five, zero and five seconds, a bucket of burst one that is already empty allows a
  request at the second reading of five seconds, although no time has passed.
\<close>

theorem backward_clock_refills_twice:
  "map allowed (fst (takes 1 1 [from_secs 5, from_secs 5, from_secs 0, from_secs 5] (bucket_new 1 (from_secs 5)))) =
     [True, False, False, True]"
  by (simp add: bucket_new_def bucket_take_def elapsed_secs_def from_secs_def Let_def)

end
