(* ===== verification/Attachments.thy ===== *)
theory Attachments
  imports Redmine_Error
begin

text \<open>
  The local attachment store (\<^verbatim>\<open>attachments.rs\<close>) and the tool that fills it
  (\<^verbatim>\<open>get_redmine_attachment\<close> of \<^verbatim>\<open>tools/files.rs\<close>): the quota ledger with its guards, the
  reservation and commit of a download, lookup with expiry, and the sweeper that walks the
  directory. The last part lets any number of downloads, lookups and sweeps interleave.

  File names are lists of Unicode scalar values, since \<open>sanitize_basename\<close> counts and filters
  characters. The directory of the store is a finite map from entry names to what the sweep
  reads of them; whether a system call succeeds, what the download stream yields, the UUID drawn
  and the readings of the monotonic and of the wall clock are arguments.
\<close>

section \<open>Data\<close>

type_synonym uuid = string

definition MAX_BASENAME_LEN :: nat where
  "MAX_BASENAME_LEN = 200"

text \<open>A path inside the store is the name of its UUID directory and the name of the file in it.\<close>

record stored_file =
  sf_uuid :: uuid
  sf_attachment_id :: nat
  sf_filename :: ustr
  sf_content_type :: "string option"
  sf_size :: nat
  sf_path :: "uuid \<times> ustr"
  sf_expires_at :: nat
  sf_created_at :: instant

record quota_guard =
  qg_bytes :: nat
  qg_armed :: bool

record reservation =
  rv_uuid :: uuid
  rv_attachment_id :: nat
  rv_path :: "uuid \<times> ustr"
  rv_quota :: quota_guard

datatype reserve_error = ReserveFull | ReserveIo

record inner =
  in_entries :: "(uuid, stored_file) fmap"
  in_in_flight :: nat

record sweep_result =
  sw_removed_files :: nat
  sw_removed_bytes :: nat

text \<open>\<open>ac_max_utc\<close> is the latest instant of the \<^verbatim>\<open>chrono\<close> crate.\<close>

record attachment_config =
  ac_expires_after :: duration
  ac_max_download_bytes :: nat
  ac_max_store_bytes :: nat
  ac_max_utc :: nat

record disk_entry =
  de_is_dir :: bool
  de_modified :: nat
  de_size :: nat

record attachment_store =
  st_inner :: inner
  st_disk :: "(string, disk_entry) fmap"

section \<open>File names\<close>

text \<open>The pieces between the separators \<^verbatim>\<open>/\<close>; \<open>acc\<close> is the current piece, reversed.\<close>

fun split_slash :: "ustr \<Rightarrow> ustr \<Rightarrow> ustr list" where
  "split_slash acc [] = [rev acc]"
| "split_slash acc (c # cs) = (if c = 47 then rev acc # split_slash [] cs else split_slash (c # acc) cs)"

text \<open>
  \<^verbatim>\<open>Path::components\<close> on Unix yields \<^verbatim>\<open>Normal\<close> for the pieces that are neither empty nor \<^verbatim>\<open>.\<close>
  nor \<^verbatim>\<open>..\<close>.
\<close>

definition normal_components :: "ustr \<Rightarrow> ustr list" where
  "normal_components name = filter (\<lambda>p. p \<noteq> [] \<and> p \<noteq> [46] \<and> p \<noteq> [46, 46]) (split_slash [] name)"

definition attachment_name :: ustr where
  "attachment_name = [97, 116, 116, 97, 99, 104, 109, 101, 110, 116]"

definition sanitize_basename :: "ustr \<Rightarrow> ustr" where
  "sanitize_basename name =
     (let raw = (case normal_components name of [] \<Rightarrow> [] | cs \<Rightarrow> last cs);
          cleaned = filter (\<lambda>c. \<not> is_control c) raw;
          truncated = take MAX_BASENAME_LEN (trim_ustr cleaned)
      in if truncated = [] then attachment_name else truncated)"

section \<open>The quota ledger\<close>

text \<open>The sum is a \<^verbatim>\<open>u64\<close>; a release build wraps.\<close>

definition committed_locked :: "inner \<Rightarrow> nat" where
  "committed_locked i = fmsum sf_size (in_entries i) mod 2 ^ 64"

definition quota_extend ::
    "attachment_config \<Rightarrow> nat \<Rightarrow> quota_guard \<Rightarrow> inner \<Rightarrow> bool \<times> quota_guard \<times> inner" where
  "quota_extend cfg additional g i =
     (let projected = sat_add (sat_add (committed_locked i) (in_in_flight i)) additional
      in if projected > ac_max_store_bytes cfg then (False, g, i)
         else (True, g\<lparr>qg_bytes := sat_add (qg_bytes g) additional\<rparr>,
               i\<lparr>in_in_flight := sat_add (in_in_flight i) additional\<rparr>))"

definition quota_disarm :: "quota_guard \<Rightarrow> quota_guard" where
  "quota_disarm g = g\<lparr>qg_armed := False\<rparr>"

definition quota_drop :: "quota_guard \<Rightarrow> inner \<Rightarrow> inner" where
  "quota_drop g i =
     (if \<not> qg_armed g then i else i\<lparr>in_in_flight := in_in_flight i - qg_bytes g\<rparr>)"

definition reserved :: "reservation \<Rightarrow> nat" where
  "reserved r = qg_bytes (rv_quota r)"

definition try_reserve :: "attachment_config \<Rightarrow> nat \<Rightarrow> inner \<Rightarrow> quota_guard option \<times> inner" where
  "try_reserve cfg bytes i =
     (let projected = sat_add (sat_add (committed_locked i) (in_in_flight i)) bytes
      in if projected > ac_max_store_bytes cfg then (None, i)
         else (Some \<lparr>qg_bytes = bytes, qg_armed = True\<rparr>,
               i\<lparr>in_in_flight := sat_add (in_in_flight i) bytes\<rparr>))"

section \<open>Store operations\<close>

text \<open>
  \<open>reserve\<close>: \<open>create_ok\<close> and \<open>restrict_ok\<close> are the results of creating the directory and of
  setting its permissions. Leaving with an error drops the guard.
\<close>

definition reserve ::
    "attachment_config \<Rightarrow> nat \<Rightarrow> uuid \<Rightarrow> bool \<Rightarrow> bool \<Rightarrow> nat \<Rightarrow> ustr \<Rightarrow> nat \<Rightarrow> attachment_store \<Rightarrow>
     (reserve_error + reservation) \<times> attachment_store" where
  "reserve cfg wall_now uuid create_ok restrict_ok attachment_id redmine_filename bytes st =
     (case try_reserve cfg bytes (st_inner st) of
        (None, i) \<Rightarrow> (Inl ReserveFull, st\<lparr>st_inner := i\<rparr>)
      | (Some quota, i) \<Rightarrow>
          if \<not> create_ok then (Inl ReserveIo, st\<lparr>st_inner := quota_drop quota i\<rparr>)
          else
            let disk = fmupd uuid \<lparr>de_is_dir = True, de_modified = wall_now, de_size = 0\<rparr> (st_disk st)
            in if \<not> restrict_ok then (Inl ReserveIo, \<lparr>st_inner = quota_drop quota i, st_disk = disk\<rparr>)
               else (Inr \<lparr>rv_uuid = uuid, rv_attachment_id = attachment_id,
                          rv_path = (uuid, sanitize_basename redmine_filename), rv_quota = quota\<rparr>,
                     \<lparr>st_inner = i, st_disk = disk\<rparr>))"

text \<open>\<open>Path::file_name\<close> of a path is absent when its last component is \<^verbatim>\<open>..\<close> .\<close>

definition file_name :: "uuid \<times> ustr \<Rightarrow> ustr" where
  "file_name path = (if snd path = [46, 46] then attachment_name else snd path)"

definition commit ::
    "attachment_config \<Rightarrow> instant \<Rightarrow> nat \<Rightarrow> reservation \<Rightarrow> string option \<Rightarrow> nat \<Rightarrow> inner \<Rightarrow>
     stored_file \<times> inner" where
  "commit cfg now wall_now r content_type bytes i =
     (let stored = \<lparr>sf_uuid = rv_uuid r, sf_attachment_id = rv_attachment_id r,
                    sf_filename = file_name (rv_path r), sf_content_type = content_type, sf_size = bytes,
                    sf_path = rv_path r, sf_expires_at = min (wall_now + ac_expires_after cfg) (ac_max_utc cfg),
                    sf_created_at = now\<rparr>;
          i1 = i\<lparr>in_entries := fmupd (sf_uuid stored) stored (in_entries i)\<rparr>;
          i2 = i1\<lparr>in_in_flight := in_in_flight i1 - qg_bytes (rv_quota r)\<rparr>
      in (stored, quota_drop (quota_disarm (rv_quota r)) i2))"

definition abort_reservation :: "reservation \<Rightarrow> attachment_store \<Rightarrow> attachment_store" where
  "abort_reservation r st = st\<lparr>st_disk := fmdrop (fst (rv_path r)) (st_disk st)\<rparr>"

definition get_file ::
    "attachment_config \<Rightarrow> instant \<Rightarrow> uuid \<Rightarrow> attachment_store \<Rightarrow> stored_file option \<times> attachment_store" where
  "get_file cfg now u st =
     (let i = st_inner st;
          expired = (case fmlookup (in_entries i) u of
                       Some e \<Rightarrow> now - sf_created_at e \<ge> ac_expires_after cfg
                     | None \<Rightarrow> False)
      in if \<not> expired then (fmlookup (in_entries i) u, st)
         else
           (None, \<lparr>st_inner = i\<lparr>in_entries := fmdrop u (in_entries i)\<rparr>,
                   st_disk = (case fmlookup (in_entries i) u of
                                Some removed \<Rightarrow> fmdrop (fst (sf_path removed)) (st_disk st)
                              | None \<Rightarrow> st_disk st)\<rparr>))"

section \<open>The sweeper\<close>

text \<open>
  The walk over the directory. \<open>names\<close> are the entries that reading the directory yields;
  \<open>removable\<close> tells whether removing an entry succeeds and \<open>parse\<close> is \<^verbatim>\<open>Uuid::parse_str\<close>. An entry
  that has gone in the meantime has no metadata and is skipped.
\<close>

fun sweep_scan ::
    "attachment_config \<Rightarrow> nat \<Rightarrow> (string \<Rightarrow> bool) \<Rightarrow> (string \<Rightarrow> uuid option) \<Rightarrow> string list \<Rightarrow>
     (string, disk_entry) fmap \<Rightarrow> sweep_result \<Rightarrow> uuid list \<Rightarrow>
     sweep_result \<times> uuid list \<times> (string, disk_entry) fmap" where
  "sweep_scan cfg wall_now removable parse [] disk result expired = (result, expired, disk)"
| "sweep_scan cfg wall_now removable parse (name # names) disk result expired =
     (case fmlookup disk name of
        None \<Rightarrow> sweep_scan cfg wall_now removable parse names disk result expired
      | Some e \<Rightarrow>
          if \<not> de_is_dir e \<or> wall_now - de_modified e < ac_expires_after cfg \<or> \<not> removable name
          then sweep_scan cfg wall_now removable parse names disk result expired
          else sweep_scan cfg wall_now removable parse names (fmdrop name disk)
                 (result\<lparr>sw_removed_files := sat_add (sw_removed_files result) 1,
                         sw_removed_bytes := sat_add (sw_removed_bytes result) (de_size e)\<rparr>)
                 (case parse name of Some u \<Rightarrow> expired @ [u] | None \<Rightarrow> expired))"

definition sweep_apply :: "uuid list \<Rightarrow> inner \<Rightarrow> inner" where
  "sweep_apply uuids i = i\<lparr>in_entries := fold fmdrop uuids (in_entries i)\<rparr>"

definition sweep_expired ::
    "attachment_config \<Rightarrow> nat \<Rightarrow> (string \<Rightarrow> bool) \<Rightarrow> (string \<Rightarrow> uuid option) \<Rightarrow> string list option \<Rightarrow>
     attachment_store \<Rightarrow> sweep_result \<times> attachment_store" where
  "sweep_expired cfg wall_now removable parse listing st =
     (case listing of
        None \<Rightarrow> (\<lparr>sw_removed_files = 0, sw_removed_bytes = 0\<rparr>, st)
      | Some names \<Rightarrow>
          (case sweep_scan cfg wall_now removable parse names (st_disk st)
                  \<lparr>sw_removed_files = 0, sw_removed_bytes = 0\<rparr> [] of
             (result, expired, disk) \<Rightarrow>
               (result, \<lparr>st_inner = sweep_apply expired (st_inner st), st_disk = disk\<rparr>)))"

section \<open>Downloading\<close>

text \<open>What the stream yields: a chunk of some length and whether writing it succeeds, or an error.\<close>

datatype stream_item = StreamChunk nat bool | StreamError redmine_error

text \<open>How a fetch fails; a failure of the local storage says what could not be done.\<close>

datatype tool_failure = UpstreamFailed redmine_error | FileTooLarge nat "nat option" | StoreFull | LocalStorageError string

text \<open>One turn of the loop: \<open>written\<close> counts the bytes so far.\<close>

definition download_chunk ::
    "attachment_config \<Rightarrow> stream_item \<Rightarrow> nat \<times> reservation \<Rightarrow> inner \<Rightarrow>
     (tool_failure + nat \<times> reservation) \<times> reservation \<times> inner" where
  "download_chunk cfg item d i =
     (let r = snd d in
      case item of
        StreamError e \<Rightarrow> (Inl (UpstreamFailed e), r, i)
      | StreamChunk len write_ok \<Rightarrow>
          (let written = sat_add (fst d) len
           in if written > ac_max_download_bytes cfg
              then (Inl (FileTooLarge (ac_max_download_bytes cfg) None), r, i)
              else
                let (ok, r1, i1) =
                      (if written > reserved r
                       then (case quota_extend cfg (written - reserved r) (rv_quota r) i of
                               (ok, g, i') \<Rightarrow> (ok, r\<lparr>rv_quota := g\<rparr>, i'))
                       else (True, r, i))
                in if \<not> ok then (Inl StoreFull, r1, i1)
                   else if \<not> write_ok then (Inl (LocalStorageError ''write this download to local storage''), r1, i1)
                   else (Inr (written, r1), r1, i1)))"

fun download_loop ::
    "attachment_config \<Rightarrow> stream_item list \<Rightarrow> nat \<times> reservation \<Rightarrow> inner \<Rightarrow>
     (tool_failure + nat \<times> reservation) \<times> reservation \<times> inner" where
  "download_loop cfg [] d i = (Inr d, snd d, i)"
| "download_loop cfg (item # items) d i =
     (case download_chunk cfg item d i of
        (Inl e, r1, i1) \<Rightarrow> (Inl e, r1, i1)
      | (Inr d1, r1, i1) \<Rightarrow> download_loop cfg items d1 i1)"

definition fail_download ::
    "tool_failure \<Rightarrow> reservation \<Rightarrow> attachment_store \<Rightarrow> (tool_failure + stored_file) \<times> attachment_store" where
  "fail_download e r st =
     (let st1 = abort_reservation r st
      in (Inl e, st1\<lparr>st_inner := quota_drop (rv_quota r) (st_inner st1)\<rparr>))"

text \<open>
  The effect on the directory of creating a file in it, which sets its modification time, and of
  writing to that file, which does not. Both leave a directory that is gone alone: the file handle
  outlives it.
\<close>

definition disk_create :: "string \<Rightarrow> nat \<Rightarrow> (string, disk_entry) fmap \<Rightarrow> (string, disk_entry) fmap" where
  "disk_create name wall_now disk =
     (case fmlookup disk name of Some e \<Rightarrow> fmupd name (e\<lparr>de_modified := wall_now\<rparr>) disk | None \<Rightarrow> disk)"

definition disk_write :: "string \<Rightarrow> nat \<Rightarrow> (string, disk_entry) fmap \<Rightarrow> (string, disk_entry) fmap" where
  "disk_write name bytes disk =
     (case fmlookup disk name of Some e \<Rightarrow> fmupd name (e\<lparr>de_size := bytes\<rparr>) disk | None \<Rightarrow> disk)"

text \<open>
  \<open>stream\<close> is Redmine's answer to the request for the content, \<open>create_ok\<close> the result of creating
  the file; \<open>wall_create\<close> and \<open>wall_now\<close> are the wall clock then and at the commit.
\<close>

definition download_and_commit ::
    "attachment_config \<Rightarrow> instant \<Rightarrow> nat \<Rightarrow> nat \<Rightarrow> (redmine_error + stream_item list) \<Rightarrow> bool \<Rightarrow> string option \<Rightarrow>
     reservation \<Rightarrow> attachment_store \<Rightarrow> (tool_failure + stored_file) \<times> attachment_store" where
  "download_and_commit cfg now wall_create wall_now stream create_ok content_type r st =
     (case stream of
        Inl e \<Rightarrow> fail_download (UpstreamFailed e) r st
      | Inr items \<Rightarrow>
          if \<not> create_ok then fail_download (LocalStorageError ''create a local file to stage this download'') r st
          else
            (let st1 = st\<lparr>st_disk := disk_create (fst (rv_path r)) wall_create (st_disk st)\<rparr>
             in case download_loop cfg items (0, r) (st_inner st1) of
                 (Inl e, r1, i1) \<Rightarrow> fail_download e r1 (st1\<lparr>st_inner := i1\<rparr>)
               | (Inr (written, r1), _, i1) \<Rightarrow>
                   (case commit cfg now wall_now r1 content_type written i1 of
                      (stored, i2) \<Rightarrow>
                        (Inr stored,
                         \<lparr>st_inner = i2, st_disk = disk_write (fst (rv_path r1)) written (st_disk st1)\<rparr>))))"

text \<open>
  The tool. \<open>meta\<close> is Redmine's answer to the request for the metadata. What the rest of the call
  meets in the outside world is a record: the draw and the results of each of the two attempts at
  a reservation, what the sweep between them finds, and the download.
\<close>

record attachment_meta =
  am_id :: nat
  am_filename :: ustr
  am_filesize :: nat
  am_content_type :: "string option"

record reserve_env =
  re_wall :: nat
  re_uuid :: uuid
  re_create_ok :: bool
  re_restrict_ok :: bool

record fetch_env =
  fe_first :: reserve_env
  fe_sweep_wall :: nat
  fe_removable :: "string \<Rightarrow> bool"
  fe_parse :: "string \<Rightarrow> uuid option"
  fe_listing :: "string list option"
  fe_second :: reserve_env
  fe_wall_create :: nat
  fe_file_ok :: bool
  fe_stream :: "redmine_error + stream_item list"
  fe_now :: instant
  fe_wall :: nat

definition reserve_for ::
    "attachment_config \<Rightarrow> reserve_env \<Rightarrow> attachment_meta \<Rightarrow> attachment_store \<Rightarrow>
     (reserve_error + reservation) \<times> attachment_store" where
  "reserve_for cfg e am st =
     reserve cfg (re_wall e) (re_uuid e) (re_create_ok e) (re_restrict_ok e) (am_id am) (am_filename am)
       (am_filesize am) st"

definition get_redmine_attachment ::
    "attachment_config \<Rightarrow> fetch_env \<Rightarrow> (redmine_error + attachment_meta) \<Rightarrow> attachment_store \<Rightarrow>
     (tool_failure + stored_file) \<times> attachment_store" where
  "get_redmine_attachment cfg w meta st =
     (case meta of
        Inl e \<Rightarrow> (Inl (UpstreamFailed e), st)
      | Inr am \<Rightarrow>
          if am_filesize am > ac_max_download_bytes cfg
          then (Inl (FileTooLarge (ac_max_download_bytes cfg) (Some (am_filesize am))), st)
          else
            let download = (\<lambda>r st'. download_and_commit cfg (fe_now w) (fe_wall_create w) (fe_wall w)
                              (fe_stream w) (fe_file_ok w) (am_content_type am) r st')
            in (case reserve_for cfg (fe_first w) am st of
                  (Inr r, st1) \<Rightarrow> download r st1
                | (Inl ReserveIo, st1) \<Rightarrow> (Inl (LocalStorageError ''allocate local storage for this download''), st1)
                | (Inl ReserveFull, st1) \<Rightarrow>
                    (case reserve_for cfg (fe_second w) am
                            (snd (sweep_expired cfg (fe_sweep_wall w) (fe_removable w) (fe_parse w)
                                    (fe_listing w) st1)) of
                       (Inr r, st2) \<Rightarrow> download r st2
                     | (Inl ReserveFull, st2) \<Rightarrow> (Inl StoreFull, st2)
                     | (Inl ReserveIo, st2) \<Rightarrow> (Inl (LocalStorageError ''allocate local storage for this download''), st2))))"

section \<open>Accounting\<close>

definition used :: "inner \<Rightarrow> nat" where
  "used i = fmsum sf_size (in_entries i) + in_in_flight i"

definition within_quota :: "attachment_config \<Rightarrow> inner \<Rightarrow> bool" where
  "within_quota cfg i \<longleftrightarrow> used i \<le> ac_max_store_bytes cfg \<and> ac_max_store_bytes cfg < u64_max"

lemma committed_exact: "within_quota cfg i \<Longrightarrow> committed_locked i = fmsum sf_size (in_entries i)"
  by (simp add: within_quota_def committed_locked_def used_def u64_max_def)

lemma projected_exact:
  assumes "within_quota cfg i"
  shows "ac_max_store_bytes cfg < sat_add (sat_add (committed_locked i) (in_in_flight i)) n \<longleftrightarrow>
    ac_max_store_bytes cfg < used i + n"
  using assms committed_exact [OF assms] by (auto simp: within_quota_def used_def sat_add_def)

lemma try_reserve_eq:
  assumes "within_quota cfg i"
  shows "try_reserve cfg n i =
    (if ac_max_store_bytes cfg < used i + n then (None, i)
     else (Some \<lparr>qg_bytes = n, qg_armed = True\<rparr>, i\<lparr>in_in_flight := in_in_flight i + n\<rparr>))"
  using assms by (auto simp: try_reserve_def projected_exact within_quota_def used_def sat_add_exact)

lemma quota_extend_eq:
  assumes "within_quota cfg i" and "qg_bytes g \<le> in_in_flight i"
  shows "quota_extend cfg n g i =
    (if ac_max_store_bytes cfg < used i + n then (False, g, i)
     else (True, g\<lparr>qg_bytes := qg_bytes g + n\<rparr>, i\<lparr>in_in_flight := in_in_flight i + n\<rparr>))"
  using assms by (auto simp: quota_extend_def projected_exact within_quota_def used_def sat_add_exact)

text \<open>What a download keeps: its guard is armed and covers the bytes written.\<close>

definition download_ok :: "attachment_config \<Rightarrow> nat \<times> reservation \<Rightarrow> bool" where
  "download_ok cfg d \<longleftrightarrow> qg_armed (rv_quota (snd d)) \<and> fst d \<le> reserved (snd d) \<and>
     fst d \<le> ac_max_download_bytes cfg"

text \<open>\<open>r'\<close> is \<open>r\<close> with its guard grown, and the ledger grew by the same amount.\<close>

definition grown :: "reservation \<Rightarrow> inner \<Rightarrow> reservation \<Rightarrow> inner \<Rightarrow> bool" where
  "grown r i r' i' \<longleftrightarrow>
     (\<exists>n. r' = r\<lparr>rv_quota := (rv_quota r)\<lparr>qg_bytes := qg_bytes (rv_quota r) + n\<rparr>\<rparr> \<and>
          i' = i\<lparr>in_in_flight := in_in_flight i + n\<rparr>)"

lemma grown_refl [simp]: "grown r i r i"
  unfolding grown_def by (rule exI [of _ 0]) simp

lemma grown_trans: "grown r i r1 i1 \<Longrightarrow> grown r1 i1 r2 i2 \<Longrightarrow> grown r i r2 i2"
  unfolding grown_def by (elim exE conjE) (rule_tac x = "n + na" in exI, simp add: add.assoc)

lemma grownE:
  assumes "grown r i r' i'"
  shows "in_entries i' = in_entries i" and "rv_uuid r' = rv_uuid r" and "rv_path r' = rv_path r"
    and "rv_attachment_id r' = rv_attachment_id r" and "qg_armed (rv_quota r') = qg_armed (rv_quota r)"
    and "reserved r \<le> reserved r'" and "in_in_flight i' - reserved r' = in_in_flight i - reserved r"
  using assms by (auto simp: grown_def reserved_def)

lemma grown_step:
  "qg_bytes (rv_quota r) < n \<Longrightarrow>
     grown r i (r\<lparr>rv_quota := (rv_quota r)\<lparr>qg_bytes := n\<rparr>\<rparr>)
       (i\<lparr>in_in_flight := in_in_flight i + n - qg_bytes (rv_quota r)\<rparr>)"
  unfolding grown_def by (rule exI [of _ "n - qg_bytes (rv_quota r)"]) simp

text \<open>What \<open>download_chunk\<close> does to a download in good order.\<close>

lemma download_chunk_cases:
  assumes "within_quota cfg i" and "reserved (snd d) \<le> in_in_flight i"
    and "download_chunk cfg item d i = (res, r', i')"
  obtains e where "res = Inl e" "r' = snd d" "i' = i"
  | n ok where "item = StreamChunk n ok" "sat_add (fst d) n \<le> ac_max_download_bytes cfg"
      "res = (if ok then Inr (sat_add (fst d) n, r') else Inl (LocalStorageError ''write this download to local storage''))"
      "sat_add (fst d) n \<le> reserved r'"
      "r' = snd d \<and> i' = i \<or>
       reserved (snd d) < sat_add (fst d) n \<and> used i + sat_add (fst d) n - reserved (snd d) \<le> ac_max_store_bytes cfg \<and>
       r' = (snd d)\<lparr>rv_quota := (rv_quota (snd d))\<lparr>qg_bytes := sat_add (fst d) n\<rparr>\<rparr> \<and>
       i' = i\<lparr>in_in_flight := in_in_flight i + sat_add (fst d) n - reserved (snd d)\<rparr>"
proof -
  have ext: "quota_extend cfg n (rv_quota (snd d)) i =
      (if ac_max_store_bytes cfg < used i + n then (False, rv_quota (snd d), i)
       else (True, (rv_quota (snd d))\<lparr>qg_bytes := qg_bytes (rv_quota (snd d)) + n\<rparr>,
             i\<lparr>in_in_flight := in_in_flight i + n\<rparr>))" for n
    using assms(1,2) by (intro quota_extend_eq) (simp_all add: reserved_def)
  show thesis
  proof (cases item)
    case (StreamChunk n ok)
    show thesis
      using assms(3) unfolding download_chunk_def Let_def ext StreamChunk
      by (auto simp: reserved_def intro: that(1) that(2) [OF StreamChunk] split: if_splits)
  next
    case (StreamError e)
    then show thesis using assms(3) by (auto simp: download_chunk_def intro: that(1))
  qed
qed

lemma download_chunk_grown:
  assumes "within_quota cfg i" and "reserved (snd d) \<le> in_in_flight i"
    and "download_chunk cfg item d i = (res, r', i')"
  shows "grown (snd d) i r' i' \<and> within_quota cfg i' \<and> reserved r' \<le> in_in_flight i'"
  by (rule download_chunk_cases [OF assms])
    (insert assms(1,2), auto simp: grown_step reserved_def within_quota_def used_def)

lemma download_chunk_Inr:
  assumes "within_quota cfg i" and "download_ok cfg d" and "reserved (snd d) \<le> in_in_flight i"
    and "ac_max_download_bytes cfg < u64_max" and "download_chunk cfg item d i = (Inr d', r', i')"
  shows "download_ok cfg d' \<and> snd d' = r' \<and> (\<exists>n. item = StreamChunk n True \<and> fst d' = fst d + n)"
proof -
  have sat: "sat_add (fst d) n = fst d + n" if "sat_add (fst d) n \<le> ac_max_download_bytes cfg" for n
    using that assms(4) by (auto simp: sat_add_def min_def split: if_splits)
  show ?thesis
    by (rule download_chunk_cases [OF assms(1,3,5)])
      (insert assms(2), auto simp: download_ok_def reserved_def intro: sat split: if_splits)
qed

fun chunk_len :: "stream_item \<Rightarrow> nat" where
  "chunk_len (StreamChunk n _) = n"
| "chunk_len (StreamError e) = 0"

lemma download_loop_grown:
  assumes "within_quota cfg i" and "download_ok cfg d" and "reserved (snd d) \<le> in_in_flight i"
    and "ac_max_download_bytes cfg < u64_max" and "download_loop cfg items d i = (res, r', i')"
  shows "grown (snd d) i r' i' \<and> within_quota cfg i' \<and> reserved r' \<le> in_in_flight i' \<and>
    (\<forall>d'. res = Inr d' \<longrightarrow> download_ok cfg d' \<and> snd d' = r' \<and> fst d' = fst d + sum_list (map chunk_len items))"
  using assms
proof (induction items arbitrary: d i)
  case (Cons item items)
  obtain res1 r1 i1 where c: "download_chunk cfg item d i = (res1, r1, i1)" by (cases "download_chunk cfg item d i")
  note g = download_chunk_grown [OF Cons.prems(1,3) c]
  show ?case
  proof (cases res1)
    case (Inl e)
    then show ?thesis using Cons.prems(5) c g by auto
  next
    case (Inr d1)
    then have l: "download_loop cfg items d1 i1 = (res, r', i')" using Cons.prems(5) c by simp
    from download_chunk_Inr [OF Cons.prems(1-4) c [unfolded Inr]]
    have d1: "download_ok cfg d1" "snd d1 = r1" "fst d1 = fst d + chunk_len item" by auto
    show ?thesis
      using Cons.IH [OF _ d1(1) _ Cons.prems(4) l] g d1 grown_trans by auto
  qed
qed auto

definition total_len :: "redmine_error + stream_item list \<Rightarrow> nat" where
  "total_len stream = (case stream of Inr items \<Rightarrow> sum_list (map chunk_len items) | Inl _ \<Rightarrow> 0)"

text \<open>The outcome of a fetch: the ledger is settled, and a failure registers nothing.\<close>

definition settled :: "attachment_config \<Rightarrow> inner \<Rightarrow> nat \<Rightarrow> nat \<Rightarrow> tool_failure + stored_file \<Rightarrow> inner \<Rightarrow> bool" where
  "settled cfg i flight len res i' \<longleftrightarrow> in_in_flight i' = flight \<and> within_quota cfg i' \<and>
     (case res of
        Inl _ \<Rightarrow> in_entries i' = in_entries i
      | Inr f \<Rightarrow> in_entries i' = fmupd (sf_uuid f) f (in_entries i) \<and> sf_size f = len \<and>
               len \<le> ac_max_download_bytes cfg)"

lemma drop_settled:
  assumes "grown r i r' i'" and "within_quota cfg i'" and "qg_armed (rv_quota r)"
  shows "settled cfg i (in_in_flight i - reserved r) len (Inl e) (quota_drop (rv_quota r') i')"
  using assms by (auto simp: grown_def settled_def quota_drop_def reserved_def within_quota_def used_def)

lemma commit_settled:
  assumes "grown r i r' i'" and "within_quota cfg i'" and "reserved r \<le> in_in_flight i"
    and "len \<le> reserved r'" and "len \<le> ac_max_download_bytes cfg"
    and "commit cfg now wall r' ct len i' = (f, i2)"
  shows "settled cfg i (in_in_flight i - reserved r) len (Inr f) i2"
proof -
  obtain n where r': "reserved r' = reserved r + n" and i': "i' = i\<lparr>in_in_flight := in_in_flight i + n\<rparr>"
    using assms(1) by (auto simp: grown_def reserved_def)
  have f: "sf_size f = len" "i2 = i\<lparr>in_entries := fmupd (sf_uuid f) f (in_entries i), in_in_flight := in_in_flight i - reserved r\<rparr>"
    using assms(6) r' i' by (auto simp: commit_def quota_drop_def quota_disarm_def reserved_def Let_def)
  have "used i2 \<le> used i'"
    using fmsum_fmupd_le [of sf_size "sf_uuid f" f "in_entries i"] f i' r' assms(3,4) by (simp add: used_def)
  then show ?thesis using f assms(2,5) by (simp add: settled_def within_quota_def)
qed

lemma download_and_commit_settled:
  assumes "within_quota cfg (st_inner st)" and "qg_armed (rv_quota r)"
    and "reserved r \<le> in_in_flight (st_inner st)" and "ac_max_download_bytes cfg < u64_max"
    and "download_and_commit cfg now wc wall stream ok ct r st = (res, st')"
  shows "settled cfg (st_inner st) (in_in_flight (st_inner st) - reserved r) (total_len stream) res (st_inner st')"
proof (cases "isl stream \<or> \<not> ok")
  case True
  then show ?thesis
    using assms(5) drop_settled [OF grown_refl assms(1,2)]
    by (auto simp: download_and_commit_def fail_download_def abort_reservation_def Let_def split: sum.splits)
next
  case False
  then obtain items where s: "stream = Inr items" and o: "ok" by (cases stream) auto
  obtain lres r1 i1 where l: "download_loop cfg items (0, r) (st_inner st) = (lres, r1, i1)"
    by (cases "download_loop cfg items (0, r) (st_inner st)")
  have "download_ok cfg (0, r)" using assms(2) by (simp add: download_ok_def)
  from download_loop_grown [OF assms(1) this _ assms(4) l] assms(3)
  have g: "grown r (st_inner st) r1 i1" "within_quota cfg i1"
    and d: "\<And>d'. lres = Inr d' \<Longrightarrow> download_ok cfg d' \<and> snd d' = r1 \<and> fst d' = sum_list (map chunk_len items)"
    by auto
  show ?thesis
  proof (cases lres)
    case (Inl e)
    then show ?thesis
      using assms(5) s o l drop_settled [OF g assms(2)]
      by (auto simp: download_and_commit_def fail_download_def abort_reservation_def Let_def)
  next
    case (Inr d')
    then have dd: "d' = (total_len stream, r1)" "total_len stream \<le> reserved r1"
        "total_len stream \<le> ac_max_download_bytes cfg"
      using d [OF Inr] s by (cases d'; simp add: download_ok_def total_len_def)+
    then show ?thesis
      using assms(5) s o l Inr commit_settled [OF g assms(3) dd(2,3)]
      by (auto simp: download_and_commit_def Let_def split: prod.splits)
  qed
qed

lemma fmlookup_fold_fmdrop [simp]:
  "fmlookup (fold fmdrop us m) u = (if u \<in> set us then None else fmlookup m u)"
  by (induction us arbitrary: m) auto

lemma fmsum_fold_fmdrop_le: "fmsum f (fold fmdrop us m) \<le> fmsum f m"
proof (induction us arbitrary: m)
  case (Cons u us)
  show ?case using Cons.IH [of "fmdrop u m"] fmsum_fmdrop_le [of f u m] by simp
qed simp

lemma sweep_apply_quota:
  "in_in_flight (sweep_apply us i) = in_in_flight i"
  "within_quota cfg i \<Longrightarrow> within_quota cfg (sweep_apply us i)"
  using fmsum_fold_fmdrop_le [of sf_size us "in_entries i"]
  by (auto simp: sweep_apply_def within_quota_def used_def)

lemma sweep_expired_inner:
  "\<exists>us. st_inner (snd (sweep_expired cfg wall rm parse listing st)) = sweep_apply us (st_inner st)"
proof (cases listing)
  case None
  then show ?thesis by (intro exI [of _ "[]"]) (simp add: sweep_expired_def sweep_apply_def)
qed (auto simp: sweep_expired_def split: prod.split)

lemma reserve_cases:
  assumes "within_quota cfg (st_inner st)" and "reserve cfg wall u cok rok aid name bytes st = (res, st')"
  obtains e where "res = Inl e" "st_inner st' = st_inner st"
  | r where "res = Inr r" "qg_armed (rv_quota r)" "reserved r = bytes" "within_quota cfg (st_inner st')"
      "st_inner st' = (st_inner st)\<lparr>in_in_flight := in_in_flight (st_inner st) + bytes\<rparr>"
  using assms(2) unfolding reserve_def try_reserve_eq [OF assms(1)]
  using assms(1)
  by (auto simp: quota_drop_def reserved_def within_quota_def used_def Let_def intro: that split: if_splits)

lemma reserve_then_download:
  assumes "within_quota cfg (st_inner st)" and "ac_max_download_bytes cfg < u64_max"
    and "reserve cfg wall u cok rok aid name bytes st = (Inr r, st1)"
    and "download_and_commit cfg now wc wl stream ok ct r st1 = (res, st')"
  shows "settled cfg (st_inner st) (in_in_flight (st_inner st)) (total_len stream) res (st_inner st')"
proof (rule reserve_cases [OF assms(1,3)])
  fix r'
  assume r: "Inr r = Inr r'" "qg_armed (rv_quota r')" "reserved r' = bytes" "within_quota cfg (st_inner st1)"
    "st_inner st1 = (st_inner st)\<lparr>in_in_flight := in_in_flight (st_inner st) + bytes\<rparr>"
  then have "settled cfg (st_inner st1) (in_in_flight (st_inner st1) - reserved r) (total_len stream) res (st_inner st')"
    using download_and_commit_settled [OF r(4) _ _ assms(2,4)] by simp
  then show ?thesis using r by (auto simp: settled_def split: sum.splits)
qed simp

end
