(* ===== verification/Attachment_Quota.thy ===== *)
theory Attachment_Quota
  imports Attachments
begin

text \<open>
  What the attachment store promises: one call of the download tool settles its quota on every
  path, any interleaving of downloads, lookups and sweeps keeps the store within its cap, file
  names stay inside their directory, and where the sweeper and a slow download disagree.
\<close>

section \<open>Any number of downloads at once\<close>

text \<open>
  The system: the locked state and the live downloads, each with the bytes it has written and its
  reservation. A step is one critical section of the code or the end of a download; \<open>cancel\<close>
  stands for every exit that only drops the reservation (a failed request or file creation, a
  cancelled or panicking future).
\<close>

record att_sys =
  sy_inner :: inner
  sy_downloads :: "(nat, nat \<times> reservation) fmap"

inductive att_step :: "attachment_config \<Rightarrow> att_sys \<Rightarrow> att_sys \<Rightarrow> bool" for cfg where
  start: "try_reserve cfg bytes (sy_inner s) = (Some (rv_quota r), i) \<Longrightarrow> t |\<notin>| fmdom (sy_downloads s) \<Longrightarrow>
    att_step cfg s \<lparr>sy_inner = i, sy_downloads = fmupd t (0, r) (sy_downloads s)\<rparr>"
| chunk: "fmlookup (sy_downloads s) t = Some d \<Longrightarrow> download_chunk cfg item d (sy_inner s) = (Inr d', r, i) \<Longrightarrow>
    att_step cfg s \<lparr>sy_inner = i, sy_downloads = fmupd t d' (sy_downloads s)\<rparr>"
| fail: "fmlookup (sy_downloads s) t = Some d \<Longrightarrow> download_chunk cfg item d (sy_inner s) = (Inl e, r, i) \<Longrightarrow>
    att_step cfg s \<lparr>sy_inner = quota_drop (rv_quota r) i, sy_downloads = fmdrop t (sy_downloads s)\<rparr>"
| cancel: "fmlookup (sy_downloads s) t = Some (w, r) \<Longrightarrow>
    att_step cfg s \<lparr>sy_inner = quota_drop (rv_quota r) (sy_inner s), sy_downloads = fmdrop t (sy_downloads s)\<rparr>"
| finish: "fmlookup (sy_downloads s) t = Some (w, r) \<Longrightarrow> commit cfg now wall r ct w (sy_inner s) = (f, i) \<Longrightarrow>
    att_step cfg s \<lparr>sy_inner = i, sy_downloads = fmdrop t (sy_downloads s)\<rparr>"
| lookup: "att_step cfg s (s\<lparr>sy_inner := st_inner (snd (get_file cfg now u \<lparr>st_inner = sy_inner s, st_disk = disk\<rparr>))\<rparr>)"
| sweep: "att_step cfg s (s\<lparr>sy_inner := sweep_apply us (sy_inner s)\<rparr>)"

inductive att_reachable :: "attachment_config \<Rightarrow> att_sys \<Rightarrow> bool" for cfg where
  init: "att_reachable cfg \<lparr>sy_inner = \<lparr>in_entries = fmempty, in_in_flight = 0\<rparr>, sy_downloads = fmempty\<rparr>"
| step: "att_reachable cfg s \<Longrightarrow> att_step cfg s s' \<Longrightarrow> att_reachable cfg s'"

definition held :: "(nat, nat \<times> reservation) fmap \<Rightarrow> nat" where
  "held D = fmsum (\<lambda>d. reserved (snd d)) D"

definition att_inv :: "attachment_config \<Rightarrow> att_sys \<Rightarrow> bool" where
  "att_inv cfg s \<longleftrightarrow> within_quota cfg (sy_inner s) \<and> in_in_flight (sy_inner s) = held (sy_downloads s) \<and>
     (\<forall>t d. fmlookup (sy_downloads s) t = Some d \<longrightarrow> download_ok cfg d) \<and>
     (\<forall>u f. fmlookup (in_entries (sy_inner s)) u = Some f \<longrightarrow> sf_size f \<le> ac_max_download_bytes cfg)"

lemma held_ge: "fmlookup D t = Some d \<Longrightarrow> reserved (snd d) \<le> held D"
  unfolding held_def by (drule fmsum_ge [where f = "\<lambda>d. reserved (snd d)"])

lemma held_drop: "fmlookup D t = Some d \<Longrightarrow> held (fmdrop t D) = held D - reserved (snd d)"
  unfolding held_def by (simp add: fmsum_remove)

lemma held_upd: "held (fmupd t d D) = reserved (snd d) + held (fmdrop t D)"
  by (simp add: held_def fmsum_fmupd)

lemma att_inv_download:
  assumes "att_inv cfg s" and "fmlookup (sy_downloads s) t = Some d"
  shows "within_quota cfg (sy_inner s)" and "download_ok cfg d" and "reserved (snd d) \<le> in_in_flight (sy_inner s)"
  using assms held_ge [OF assms(2)] unfolding att_inv_def by metis+

text \<open>Ending a download, with or without a result, keeps the invariant.\<close>

lemma att_inv_end:
  assumes "att_inv cfg s" and "fmlookup (sy_downloads s) t = Some d"
    and "settled cfg (sy_inner s) (in_in_flight (sy_inner s) - reserved (snd d)) len res i"
  shows "att_inv cfg \<lparr>sy_inner = i, sy_downloads = fmdrop t (sy_downloads s)\<rparr>"
proof -
  have e: "sf_size f \<le> ac_max_download_bytes cfg" if "fmlookup (in_entries i) u = Some f" for u f
    using that assms(1,3) by (auto simp: att_inv_def settled_def split: sum.splits if_splits)
  show ?thesis
    using assms e by (auto simp: att_inv_def settled_def held_drop split: if_splits)
qed

lemma att_step_inv:
  assumes "att_step cfg s s'" and "att_inv cfg s" and "ac_max_download_bytes cfg < u64_max"
  shows "att_inv cfg s'"
  using assms(1)
proof cases
  case (start bytes r i t)
  have wq: "within_quota cfg (sy_inner s)" using assms(2) by (simp add: att_inv_def)
  have "reserved r = bytes" "qg_armed (rv_quota r)" "within_quota cfg i"
    "i = (sy_inner s)\<lparr>in_in_flight := in_in_flight (sy_inner s) + bytes\<rparr>"
    using start(2) wq
    by (auto simp: try_reserve_eq [OF wq] reserved_def within_quota_def used_def split: if_splits dest!: sym [where t = "rv_quota r"])
  then show ?thesis
    using assms(2) start(1,3)
    by (auto simp: att_inv_def held_upd fmdrop_fmlookup_None fmdom_notD download_ok_def)
next
  case (chunk t d item d' r i)
  note d = att_inv_download [OF assms(2) chunk(2)]
  note g = download_chunk_grown [OF d(1,3) chunk(3)] and k = download_chunk_Inr [OF d assms(3) chunk(3)]
  have "in_in_flight i - reserved r = in_in_flight (sy_inner s) - reserved (snd d)" "reserved r \<le> in_in_flight i"
    using g grownE(7) by auto
  then have "in_in_flight i = held (fmupd t d' (sy_downloads s))"
    using assms(2) k d(3) held_drop [OF chunk(2)] by (simp add: held_upd att_inv_def)
  then show ?thesis
    using assms(2) g k grownE(1) chunk(1) by (auto simp: att_inv_def)
next
  case (fail t d item e r i)
  note d = att_inv_download [OF assms(2) fail(2)]
  show ?thesis
    unfolding fail(1) using download_chunk_grown [OF d(1,3) fail(3)] d(2)
    by (intro att_inv_end [OF assms(2) fail(2) drop_settled [where e = e and len = 0]]) (auto simp: download_ok_def)
next
  case (cancel t w r)
  have "within_quota cfg (sy_inner s)" "qg_armed (rv_quota r)"
    using att_inv_download [OF assms(2) cancel(2)] by (auto simp: download_ok_def)
  then show ?thesis
    unfolding cancel(1)
    using att_inv_end [OF assms(2) cancel(2)] drop_settled [OF grown_refl, of cfg "sy_inner s" r 0 StoreFull] by auto
next
  case (finish t w r now wall ct f i)
  note d = att_inv_download [OF assms(2) finish(2), simplified]
  show ?thesis
    unfolding finish(1)
    using att_inv_end [OF assms(2) finish(2)] commit_settled [OF grown_refl d(1,3) _ _ finish(3)] d(2)
    by (auto simp: download_ok_def)
next
  case (lookup now u disk)
  have "fmsum sf_size (fmdrop u (in_entries (sy_inner s))) \<le> fmsum sf_size (in_entries (sy_inner s))"
    by (rule fmsum_fmdrop_le)
  then show ?thesis
    using assms(2) lookup by (auto simp: att_inv_def get_file_def Let_def within_quota_def used_def split: if_splits)
next
  case (sweep us)
  then show ?thesis
    using assms(2) sweep_apply_quota(2) [of cfg "sy_inner s" us] by (auto simp: att_inv_def sweep_apply_def split: if_splits)
qed

lemma att_reachable_inv:
  assumes "att_reachable cfg s" and "ac_max_store_bytes cfg < u64_max" and "ac_max_download_bytes cfg < u64_max"
  shows "att_inv cfg s"
  using assms(1)
proof induction
  case init
  show ?case using assms(2) by (simp add: att_inv_def within_quota_def used_def held_def)
qed (rule att_step_inv [OF _ _ assms(3)])

section \<open>File names\<close>

lemma split_slash_no_slash: "47 \<notin> set acc \<Longrightarrow> p \<in> set (split_slash acc s) \<Longrightarrow> 47 \<notin> set p"
  by (induction acc s rule: split_slash.induct) (auto split: if_splits)

lemma set_trim_ustr: "set (trim_ustr s) \<subseteq> set s"
  by (auto simp: trim_ustr_def dest!: set_dropWhileD)

lemma last_component_no_slash:
  assumes "c \<in> set (case normal_components name of [] \<Rightarrow> [] | cs \<Rightarrow> last cs)"
  shows "c \<noteq> 47"
proof (cases "normal_components name")
  case (Cons p ps)
  have "set (normal_components name) \<subseteq> set (split_slash [] name)" by (auto simp: normal_components_def)
  then have "last (normal_components name) \<in> set (split_slash [] name)"
    using last_in_set [of "normal_components name"] Cons by (metis list.distinct(1) subsetD)
  then show ?thesis using split_slash_no_slash [of "[]" "last (normal_components name)"] assms Cons by auto
qed (use assms in simp)

text \<open>
  One attempt at a reservation with the download that follows it, from a store in good order.
\<close>

definition fetch_outcome ::
    "attachment_config \<Rightarrow> inner \<Rightarrow> nat \<Rightarrow> (tool_failure + stored_file) \<Rightarrow> inner \<Rightarrow> bool" where
  "fetch_outcome cfg i len res i' \<longleftrightarrow> isl res \<and> i' = i \<or> settled cfg i (in_in_flight i) len res i'"

lemma reserve_for_fails:
  assumes "within_quota cfg (st_inner st)" and "reserve_for cfg e am st = (Inl x, st1)"
  shows "st_inner st1 = st_inner st"
  using reserve_cases [OF assms(1) assms(2) [unfolded reserve_for_def]] by auto

lemma reserve_for_downloads:
  assumes "within_quota cfg (st_inner st)" and "ac_max_download_bytes cfg < u64_max"
    and "reserve_for cfg e am st = (Inr r, st1)"
    and "download_and_commit cfg now wc wl stream ok ct r st1 = (res, st')"
  shows "fetch_outcome cfg (st_inner st) (total_len stream) res (st_inner st')"
  using reserve_then_download [OF assms(1,2) assms(3) [unfolded reserve_for_def] assms(4)]
  by (simp add: fetch_outcome_def)

text \<open>The paths of the tool, after the checks on the metadata.\<close>

lemma get_redmine_attachment_cases:
  assumes "get_redmine_attachment cfg w meta st = (res, st')"
  obtains "isl res" "st' = st"
  | am r st1 where "reserve_for cfg (fe_first w) am st = (Inr r, st1)"
      "download_and_commit cfg (fe_now w) (fe_wall_create w) (fe_wall w) (fe_stream w) (fe_file_ok w)
         (am_content_type am) r st1 = (res, st')"
  | am x where "reserve_for cfg (fe_first w) am st = (Inl x, st')" "isl res"
  | am x st1 r st2 where "reserve_for cfg (fe_first w) am st = (Inl x, st1)"
      "reserve_for cfg (fe_second w) am
         (snd (sweep_expired cfg (fe_sweep_wall w) (fe_removable w) (fe_parse w) (fe_listing w) st1)) = (Inr r, st2)"
      "download_and_commit cfg (fe_now w) (fe_wall_create w) (fe_wall w) (fe_stream w) (fe_file_ok w)
         (am_content_type am) r st2 = (res, st')"
  | am x st1 y where "reserve_for cfg (fe_first w) am st = (Inl x, st1)"
      "reserve_for cfg (fe_second w) am
         (snd (sweep_expired cfg (fe_sweep_wall w) (fe_removable w) (fe_parse w) (fe_listing w) st1)) = (Inl y, st')"
      "isl res"
  using assms unfolding get_redmine_attachment_def Let_def
  by (auto split: sum.splits if_splits prod.splits reserve_error.splits intro: that)

lemma fetch_outcome_exists:
  assumes wq: "within_quota cfg (st_inner st)" and dl: "ac_max_download_bytes cfg < u64_max"
    and "get_redmine_attachment cfg w meta st = (res, st')"
  shows "\<exists>us. fetch_outcome cfg (sweep_apply us (st_inner st)) (total_len (fe_stream w)) res (st_inner st')"
proof -
  have nil: "sweep_apply [] i = i" for i by (simp add: sweep_apply_def)
  have sw: "\<exists>us. st_inner (snd (sweep_expired cfg a b c d st1)) = sweep_apply us (st_inner st) \<and>
      within_quota cfg (st_inner (snd (sweep_expired cfg a b c d st1)))"
    if "st_inner st1 = st_inner st" for a b c d st1
    using sweep_expired_inner [of cfg a b c d st1] that sweep_apply_quota(2) [OF wq] by metis
  show ?thesis
  proof (rule get_redmine_attachment_cases [OF assms(3)], goal_cases)
    case 1
    then show ?case by (intro exI [of _ "[]"]) (simp add: fetch_outcome_def nil)
  next
    case (2 am r st1)
    show ?case using reserve_for_downloads [OF wq dl 2] by (intro exI [of _ "[]"]) (simp add: nil)
  next
    case (3 am x)
    show ?case using reserve_for_fails [OF wq 3(1)] 3(2) by (intro exI [of _ "[]"]) (simp add: fetch_outcome_def nil)
  next
    case (4 am x st1 r st2)
    obtain us where us: "st_inner (snd (sweep_expired cfg (fe_sweep_wall w) (fe_removable w) (fe_parse w) (fe_listing w) st1)) =
        sweep_apply us (st_inner st)"
      and q: "within_quota cfg (st_inner (snd (sweep_expired cfg (fe_sweep_wall w) (fe_removable w) (fe_parse w) (fe_listing w) st1)))"
      using sw [OF reserve_for_fails [OF wq 4(1)]] by blast
    show ?case using reserve_for_downloads [OF q dl 4(2,3)] us by auto
  next
    case (5 am x st1 y)
    obtain us where us: "st_inner (snd (sweep_expired cfg (fe_sweep_wall w) (fe_removable w) (fe_parse w) (fe_listing w) st1)) =
        sweep_apply us (st_inner st)"
      and q: "within_quota cfg (st_inner (snd (sweep_expired cfg (fe_sweep_wall w) (fe_removable w) (fe_parse w) (fe_listing w) st1)))"
      using sw [OF reserve_for_fails [OF wq 5(1)]] by blast
    show ?case using reserve_for_fails [OF q 5(2)] us 5(3) by (auto simp: fetch_outcome_def)
  qed
qed

section \<open>Properties\<close>

text \<open>
  C31. The store never exceeds its quota and never leaks any. In every interleaving of downloads,
  failures, cancellations, commits, lookups and sweeps, the sizes of the committed files together
  with the bytes reserved by the live downloads are within the cap of the store, the in-flight
  counter is exactly the sum of the live reservations (so it is zero when none is live), and every
  stored file is within the per-file limit.
\<close>

theorem attachment_quota_invariant:
  assumes "att_reachable cfg s" and "ac_max_store_bytes cfg < u64_max" and "ac_max_download_bytes cfg < u64_max"
  shows "fmsum sf_size (in_entries (sy_inner s)) + fmsum (\<lambda>d. reserved (snd d)) (sy_downloads s) \<le> ac_max_store_bytes cfg \<and>
    in_in_flight (sy_inner s) = fmsum (\<lambda>d. reserved (snd d)) (sy_downloads s) \<and>
    committed_locked (sy_inner s) = fmsum sf_size (in_entries (sy_inner s)) \<and>
    (fmlookup (in_entries (sy_inner s)) u = Some f \<longrightarrow> sf_size f \<le> ac_max_download_bytes cfg)"
  using att_reachable_inv [OF assms] committed_exact [of cfg "sy_inner s"]
  by (auto simp: att_inv_def within_quota_def used_def held_def)

definition example_attachments :: attachment_config where
  "example_attachments = \<lparr>ac_expires_after = 60, ac_max_download_bytes = 10, ac_max_store_bytes = 20, ac_max_utc = 1000\<rparr>"

definition example_reservation :: reservation where
  "example_reservation = \<lparr>rv_uuid = ''u'', rv_attachment_id = 1, rv_path = (''u'', attachment_name),
     rv_quota = \<lparr>qg_bytes = 7, qg_armed = True\<rparr>\<rparr>"

lemma example_att_reachable:
  "att_reachable example_attachments
     \<lparr>sy_inner = \<lparr>in_entries = fmempty, in_in_flight = 7\<rparr>, sy_downloads = fmupd 0 (0, example_reservation) fmempty\<rparr>"
proof -
  let ?s = "\<lparr>sy_inner = \<lparr>in_entries = fmempty, in_in_flight = 0\<rparr>, sy_downloads = fmempty\<rparr> :: att_sys"
  have "try_reserve example_attachments 7 (sy_inner ?s) =
      (Some (rv_quota example_reservation), \<lparr>in_entries = fmempty, in_in_flight = 7\<rparr>)"
    by (simp add: try_reserve_def committed_locked_def example_attachments_def example_reservation_def sat_add_def u64_max_def)
  from att_step.start [OF this, of 0] show ?thesis
    by (intro att_reachable.step [OF att_reachable.init]) simp
qed

theorem attachment_quota_invariant_witness:
  "fmsum (\<lambda>d. reserved (snd d)) (fmupd (0 :: nat) (0 :: nat, example_reservation) fmempty) \<le> 20"
  using attachment_quota_invariant [OF example_att_reachable] by (simp add: example_attachments_def u64_max_def)

text \<open>
  C32. A call of the download tool settles its quota on every path. Whatever Redmine answers and
  whichever system call fails, the call leaves the in-flight counter as it found it and the store
  within its cap; a failure registers no file and leaves no other entry changed (the sweep may
  remove some), and a success registers the file it returns, whose size is the number of bytes
  streamed, at most the per-file limit.
\<close>

theorem attachment_fetch_settles:
  assumes "used (st_inner st) \<le> ac_max_store_bytes cfg"
    and "ac_max_store_bytes cfg < u64_max" and "ac_max_download_bytes cfg < u64_max"
    and "get_redmine_attachment cfg w meta st = (res, st')"
  shows "in_in_flight (st_inner st') = in_in_flight (st_inner st) \<and>
    used (st_inner st') \<le> ac_max_store_bytes cfg \<and>
    (case res of
       Inl _ \<Rightarrow> fmlookup (in_entries (st_inner st')) u \<in> {None, fmlookup (in_entries (st_inner st)) u}
     | Inr f \<Rightarrow> fmlookup (in_entries (st_inner st')) (sf_uuid f) = Some f \<and>
         sf_size f = total_len (fe_stream w) \<and> sf_size f \<le> ac_max_download_bytes cfg)"
proof -
  have wq: "within_quota cfg (st_inner st)" using assms(1,2) by (simp add: within_quota_def)
  obtain us where f: "fetch_outcome cfg (sweep_apply us (st_inner st)) (total_len (fe_stream w)) res (st_inner st')"
    using fetch_outcome_exists [OF wq assms(3,4)] by blast
  then show ?thesis
    using sweep_apply_quota(2) [OF wq, of us]
    by (auto simp: fetch_outcome_def settled_def within_quota_def sweep_apply_def split: sum.splits)
qed

definition example_env :: fetch_env where
  "example_env = \<lparr>fe_first = \<lparr>re_wall = 0, re_uuid = ''u'', re_create_ok = True, re_restrict_ok = True\<rparr>,
     fe_sweep_wall = 0, fe_removable = (\<lambda>_. True), fe_parse = Some, fe_listing = Some [],
     fe_second = \<lparr>re_wall = 0, re_uuid = ''v'', re_create_ok = True, re_restrict_ok = True\<rparr>,
     fe_wall_create = 0, fe_file_ok = True, fe_stream = Inr [StreamChunk 3 True, StreamChunk 4 True],
     fe_now = 0, fe_wall = 0\<rparr>"

definition example_meta :: attachment_meta where
  "example_meta = \<lparr>am_id = 1, am_filename = [97], am_filesize = 5, am_content_type = None\<rparr>"

text \<open>A download that streams more than its declared size, from an empty store.\<close>

theorem attachment_fetch_settles_witness:
  "in_in_flight (st_inner (snd (get_redmine_attachment example_attachments example_env (Inr example_meta)
     \<lparr>st_inner = \<lparr>in_entries = fmempty, in_in_flight = 0\<rparr>, st_disk = fmempty\<rparr>))) = 0"
  using attachment_fetch_settles [where cfg = example_attachments and w = example_env and meta = "Inr example_meta"
      and st = "\<lparr>st_inner = \<lparr>in_entries = fmempty, in_in_flight = 0\<rparr>, st_disk = fmempty\<rparr>", OF _ _ _ prod.collapse [symmetric]]
  by (simp add: example_attachments_def used_def u64_max_def)

text \<open>
  A stored file is served exactly for its lifetime: a lookup returns the entry while less than
  the configured time has passed since its commit; after that it returns nothing, and the entry
  and its directory are gone. Lookups of other files are unaffected.
\<close>

theorem attachment_ttl:
  assumes "get_file cfg now u st = (res, st')"
  shows "(res = Some f \<longleftrightarrow> fmlookup (in_entries (st_inner st)) u = Some f \<and> now - sf_created_at f < ac_expires_after cfg) \<and>
    (fmlookup (in_entries (st_inner st)) u = Some f \<longrightarrow> ac_expires_after cfg \<le> now - sf_created_at f \<longrightarrow>
       fmlookup (in_entries (st_inner st')) u = None \<and> fmlookup (st_disk st') (fst (sf_path f)) = None) \<and>
    (v \<noteq> u \<longrightarrow> fmlookup (in_entries (st_inner st')) v = fmlookup (in_entries (st_inner st)) v)"
  using assms by (auto simp: get_file_def Let_def split: option.splits if_splits)

definition example_stored :: stored_file where
  "example_stored = fst (commit example_attachments 100 0 example_reservation None 7 \<lparr>in_entries = fmempty, in_in_flight = 7\<rparr>)"

theorem attachment_ttl_witness:
  "fst (get_file example_attachments 159 ''u''
     \<lparr>st_inner = \<lparr>in_entries = fmupd ''u'' example_stored fmempty, in_in_flight = 0\<rparr>, st_disk = fmempty\<rparr>) = Some example_stored"
  using attachment_ttl [OF prod.collapse [symmetric], of example_attachments 159 "''u''"
      "\<lparr>st_inner = \<lparr>in_entries = fmupd ''u'' example_stored fmempty, in_in_flight = 0\<rparr>, st_disk = fmempty\<rparr>" example_stored]
  by (simp add: example_attachments_def example_stored_def commit_def Let_def)

text \<open>
  File names. The name written to disk is never empty, has at most 200 characters, no path
  separator and no control character.
\<close>

theorem sanitize_basename_clean:
  "sanitize_basename name \<noteq> [] \<and> length (sanitize_basename name) \<le> 200 \<and>
   set (sanitize_basename name) \<inter> ({47} \<union> {c. is_control c}) = {}"
proof -
  define raw where "raw = (case normal_components name of [] \<Rightarrow> [] | cs \<Rightarrow> last cs)"
  define t where "t = take 200 (trim_ustr (filter (\<lambda>c. \<not> is_control c) raw))"
  have "set t \<subseteq> {c \<in> set raw. \<not> is_control c}"
    using set_take_subset [of 200 "trim_ustr (filter (\<lambda>c. \<not> is_control c) raw)"]
      set_trim_ustr [of "filter (\<lambda>c. \<not> is_control c) raw"] unfolding t_def by auto
  then have t: "set t \<inter> ({47} \<union> {c. is_control c}) = {}"
    using last_component_no_slash [of 47 name] unfolding raw_def by blast
  have a: "set attachment_name \<inter> ({47} \<union> {c. is_control c}) = {}"
    by (auto simp: attachment_name_def is_control_def)
  have s: "sanitize_basename name = (if t = [] then attachment_name else t)"
    unfolding sanitize_basename_def Let_def t_def raw_def MAX_BASENAME_LEN_def by (rule refl)
  have "length t \<le> 200" by (simp add: t_def)
  then show ?thesis unfolding s using a t by (cases "t = []") (simp_all add: attachment_name_def)
qed

text \<open>
  The name can still be the parent directory. The filter for \<^verbatim>\<open>..\<close> runs before control
  characters and surrounding spaces are removed, so names such as space, dot, dot come out as
  \<^verbatim>\<open>..\<close>, and the path of the download is the store's own directory.
\<close>

theorem sanitize_basename_parent:
  "sanitize_basename [32, 46, 46] = [46, 46] \<and> sanitize_basename [46, 7, 46] = [46, 46]"
  by (simp add: sanitize_basename_def normal_components_def MAX_BASENAME_LEN_def trim_ustr_def
      is_unicode_whitespace_def is_control_def Let_def)

text \<open>
  The sweeper removes the directory of a download that takes longer than the lifetime of a
  file: it judges by the time the file was created, while the lifetime counts from the commit. The
  download then commits, and for its whole lifetime lookups return an entry whose file is gone.
\<close>

theorem sweep_removes_live_download:
  assumes "fmlookup (st_disk st) (rv_uuid r) = Some e" and "de_is_dir e" and "rv_path r = (rv_uuid r, name)"
    and "ac_expires_after cfg \<le> wall - de_modified e" and "removable (rv_uuid r)"
    and "sweep_expired cfg wall removable parse (Some [rv_uuid r]) st = (result, st1)"
    and "commit cfg now wall' r ct bytes (st_inner st1) = (f, i2)"
    and "now' - now < ac_expires_after cfg"
  shows "fst (get_file cfg now' (rv_uuid r) \<lparr>st_inner = i2, st_disk = st_disk st1\<rparr>) = Some f \<and>
    fmlookup (st_disk st1) (fst (sf_path f)) = None"
  using assms
  by (auto simp: sweep_expired_def commit_def get_file_def quota_drop_def quota_disarm_def Let_def split: option.splits)

theorem sweep_removes_live_download_witness:
  "fst (get_file example_attachments 150 ''u''
     \<lparr>st_inner = snd (commit example_attachments 100 100 example_reservation None 7 \<lparr>in_entries = fmempty, in_in_flight = 7\<rparr>),
      st_disk = fmempty\<rparr>) =
    Some (fst (commit example_attachments 100 100 example_reservation None 7 \<lparr>in_entries = fmempty, in_in_flight = 7\<rparr>))"
proof -
  let ?st = "\<lparr>st_inner = \<lparr>in_entries = fmempty, in_in_flight = 7\<rparr>,
      st_disk = fmupd ''u'' \<lparr>de_is_dir = True, de_modified = 10, de_size = 0\<rparr> fmempty\<rparr>"
  have "sweep_expired example_attachments 90 (\<lambda>_. True) Some (Some [rv_uuid example_reservation]) ?st =
      (\<lparr>sw_removed_files = 1, sw_removed_bytes = 0\<rparr>, \<lparr>st_inner = \<lparr>in_entries = fmempty, in_in_flight = 7\<rparr>, st_disk = fmempty\<rparr>)"
    by (simp add: sweep_expired_def sweep_apply_def example_attachments_def example_reservation_def sat_add_def u64_max_def)
  from sweep_removes_live_download [where r = example_reservation and name = attachment_name and st = ?st, OF _ _ _ _ _
      this prod.collapse [symmetric], of "\<lparr>de_is_dir = True, de_modified = 10, de_size = 0\<rparr>" 150 100 100 None 7]
  show ?thesis by (simp add: example_reservation_def example_attachments_def)
qed

end
