(* ===== verification/Http_Client.thy ===== *)
theory Http_Client
  imports Redmine_Error Redirect
begin

text \<open>
  The request core of the Redmine client: the retry policy (\<^verbatim>\<open>redmine-client/src/retry.rs\<close>), the
  pagination types (\<^verbatim>\<open>page.rs\<close>) and, of \<^verbatim>\<open>client.rs\<close>, the origin check, the path guard, the
  bounded body read, the retry loop and the three ways to read a collection.

  The HTTP stack (\<^verbatim>\<open>reqwest\<close>) is outside: what each attempt yields, the clock after it and the
  random draw of its backoff are a function of the number of the attempt, and each page a server
  returns is a function of the offset asked for and of the number of the request. Dates in
  \<^verbatim>\<open>Retry-After\<close> are parsed by \<^verbatim>\<open>chrono\<close>: the function that reads the seconds until the date is an
  argument, as are the JSON decoders.
\<close>

section \<open>Retry policy\<close>

datatype http_method = GET | HEAD | POST | PUT | DELETE | PATCH

record retry_policy =
  rp_max_retries :: nat
  rp_base :: duration
  rp_max_backoff :: duration

definition retry_policy_default :: retry_policy where
  "retry_policy_default = \<lparr>rp_max_retries = 3, rp_base = 200 * 1000000, rp_max_backoff = from_secs 5\<rparr>"

fun method_is_retryable :: "http_method \<Rightarrow> bool" where
  "method_is_retryable GET = True"
| "method_is_retryable HEAD = True"
| "method_is_retryable _ = False"

text \<open>\<^verbatim>\<open>Duration::MAX\<close>: a \<^verbatim>\<open>u64\<close> of seconds and below \<open>10\<^sup>9\<close> nanoseconds.\<close>

definition duration_max :: duration where
  "duration_max = from_secs u64_max + 999999999"

text \<open>\<open>rand n\<close> is the draw from \<open>0..=n\<close>.\<close>

definition backoff_duration :: "(nat \<Rightarrow> nat) \<Rightarrow> retry_policy \<Rightarrow> nat \<Rightarrow> duration" where
  "backoff_duration rand policy attempt =
     (let factor = (if 2 ^ attempt < (2 ^ 32 :: nat) then 2 ^ attempt else 2 ^ 32 - 1);
          cap = min (min (rp_base policy * factor) duration_max) (rp_max_backoff policy);
          cap_millis = min (cap div 1000000) u64_max
      in rand cap_millis * 1000000)"

definition parse_u64 :: "string \<Rightarrow> nat option" where
  "parse_u64 s =
     (let ds = (case s of c # cs \<Rightarrow> if c = CHR ''+'' then cs else s | [] \<Rightarrow> s)
      in if ds = [] then None else digits_value 10 u64_max 0 ds)"

text \<open>
  The header value, when it is visible ASCII; \<open>http_date\<close> yields the signed seconds until a date.
\<close>

definition retry_after :: "(string \<Rightarrow> int option) \<Rightarrow> string option \<Rightarrow> duration option" where
  "retry_after http_date header =
     (case header of
        None \<Rightarrow> None
      | Some raw \<Rightarrow>
          (case parse_u64 (trim raw) of
             Some secs \<Rightarrow> Some (from_secs secs)
           | None \<Rightarrow> map_option (\<lambda>delta. from_secs (nat delta)) (http_date (trim raw))))"

definition clamp_retry_after :: "duration \<Rightarrow> duration \<Rightarrow> duration" where
  "clamp_retry_after delay max_backoff = min delay max_backoff"

section \<open>Pages and limits\<close>

record 'a page =
  pg_items :: "'a list"
  pg_total_count :: nat
  pg_offset :: nat
  pg_limit :: nat
  pg_truncated :: bool

record limits =
  lt_page_size :: nat
  lt_max_pages :: nat
  lt_max_items :: nat
  lt_max_response_bytes :: nat

definition limits_default :: limits where
  "limits_default = \<lparr>lt_page_size = 100, lt_max_pages = 20, lt_max_items = 2000,
     lt_max_response_bytes = 32 * 1024 * 1024\<rparr>"

section \<open>Where credentials may go\<close>

text \<open>
  The origin of a URL with scheme \<^verbatim>\<open>http\<close> or \<^verbatim>\<open>https\<close> is its scheme, host and effective port; any
  other origin is opaque here and equal to none.
\<close>

definition origin :: "url \<Rightarrow> (string \<times> string option \<times> 16 word option) option" where
  "origin u =
     (if url_scheme u = ''http'' \<or> url_scheme u = ''https''
      then Some (url_scheme u, url_host_str u, url_port_or_known_default u) else None)"

definition is_trusted_origin :: "url \<Rightarrow> url \<Rightarrow> bool" where
  "is_trusted_origin base candidate \<longleftrightarrow>
     (url_scheme candidate = ''http'' \<or> url_scheme candidate = ''https'') \<and>
     origin base \<noteq> None \<and> origin candidate = origin base"

datatype redirect_action = Follow | Stop | TooMany

text \<open>
  The redirect policy of \<open>build\<close>: \<open>limited\<close> is the answer of reqwest's own policy of at most ten
  redirects.
\<close>

definition redirect_policy_action :: "redirect_action \<Rightarrow> url \<Rightarrow> url \<Rightarrow> redirect_action" where
  "redirect_policy_action limited base target =
     (if is_trusted_origin base target then limited else Stop)"

text \<open>\<open>build\<close> makes the path of the base URL end with a slash, so that joining keeps all of it.\<close>

definition build_base_path :: "string \<Rightarrow> string" where
  "build_base_path path = (if ends_with path ''/'' then path else path @ ''/'')"

fun contains :: "string \<Rightarrow> string \<Rightarrow> bool" where
  "contains [] p = (p = [])"
| "contains (c # cs) p = (starts_with (c # cs) p \<or> contains cs p)"

text \<open>\<^verbatim>\<open>char::is_control\<close> on the one-byte characters.\<close>

definition is_control_char :: "char \<Rightarrow> bool" where
  "is_control_char c \<longleftrightarrow> byte_of c < 32 \<or> byte_of c = 127"

text \<open>\<open>url_join\<close> is \<^verbatim>\<open>Url::join\<close> on the base URL.\<close>

definition endpoint :: "(string \<Rightarrow> url option) \<Rightarrow> string \<Rightarrow> redmine_error + url" where
  "endpoint url_join path =
     (if starts_with path ''/'' then Inl (EConfig ''path must be relative to the API base'')
      else if contains path ''..'' \<or> contains path ''//''
      then Inl (EConfig ''path must not contain .. or //'')
      else if \<exists>c \<in> set path. is_control_char c
      then Inl (EConfig ''path must not contain control characters'')
      else case url_join path of None \<Rightarrow> Inl (EConfig ''invalid path'') | Some u \<Rightarrow> Inr u)"

text \<open>A query is an ordered map from keys to values (\<^verbatim>\<open>BTreeMap\<close>).\<close>

type_synonym query = "(string, string) fmap"

section \<open>Sending\<close>

datatype body_item = BodyChunk string | BodyError bool bool

record response_head =
  rh_status :: nat
  rh_retry_after :: "string option"
  rh_content_length :: "nat option"
  rh_body :: "body_item list"

text \<open>The loop of \<open>read_bounded\<close>: \<open>body\<close> is what has been read.\<close>

fun read_chunks :: "nat \<Rightarrow> string \<Rightarrow> body_item list \<Rightarrow> redmine_error + string" where
  "read_chunks limit body [] = Inr body"
| "read_chunks limit body (BodyError t c # items) = Inl (ETransport t c)"
| "read_chunks limit body (BodyChunk chunk # items) =
     (let body1 = body @ chunk
      in if length body1 > limit then Inl (ELimitExceeded ''response bytes'' limit (length body1))
         else read_chunks limit body1 items)"

definition read_bounded :: "nat \<Rightarrow> response_head \<Rightarrow> redmine_error + string" where
  "read_bounded limit resp =
     (case rh_content_length resp of
        Some declared \<Rightarrow>
          if declared > limit then Inl (ELimitExceeded ''response bytes'' limit declared)
          else read_chunks limit [] (rh_body resp)
      | None \<Rightarrow> read_chunks limit [] (rh_body resp))"

definition read_json :: "limits \<Rightarrow> (string \<Rightarrow> 'v option) \<Rightarrow> string \<Rightarrow> response_head \<Rightarrow> redmine_error + 'v" where
  "read_json lim decode context resp =
     (case read_bounded (lt_max_response_bytes lim) resp of
        Inl e \<Rightarrow> Inl e
      | Inr bytes \<Rightarrow> (case decode bytes of Some v \<Rightarrow> Inr v | None \<Rightarrow> Inl (EDecode context)))"

datatype credential = ApiKey secret | Basic string secret | Bearer secret

record http_config =
  hc_retry :: retry_policy
  hc_limits :: limits
  hc_total_timeout :: duration
  hc_http_date :: "string \<Rightarrow> int option"
  hc_errors :: "string \<Rightarrow> string list option"

text \<open>
  What one attempt meets: the response or a transport failure (was it a timeout, was it a failed
  connect), then the clock and the draw.
\<close>

record attempt_env =
  ae_outcome :: "(bool \<times> bool) + response_head"
  ae_now :: instant
  ae_rand :: "nat \<Rightarrow> nat"

text \<open>
  The error of one attempt, or its response. The inner error is a body that could not be read,
  which leaves the loop at once.
\<close>

definition attempt_result ::
    "http_config \<Rightarrow> attempt_env \<Rightarrow> redmine_error + (redmine_error + response_head)" where
  "attempt_result H a =
     (case ae_outcome a of
        Inl (is_timeout, is_connect) \<Rightarrow> Inr (Inl (ETransport is_timeout is_connect))
      | Inr resp \<Rightarrow>
          if is_success (rh_status resp) then Inr (Inr resp)
          else
            (case read_bounded (lt_max_response_bytes (hc_limits H)) resp of
               Inl e \<Rightarrow> Inl e
             | Inr body \<Rightarrow>
                 Inr (Inl (from_status (hc_errors H) (rh_status resp) body
                   (map_option (\<lambda>d. clamp_retry_after d (rp_max_backoff (hc_retry H)))
                     (retry_after (hc_http_date H) (rh_retry_after resp)))))))"

definition bearer_500 :: "credential \<Rightarrow> redmine_error \<Rightarrow> bool" where
  "bearer_500 cred e =
     (case cred of Bearer _ \<Rightarrow> (case e of EApi status _ \<Rightarrow> status = 500 | _ \<Rightarrow> False) | _ \<Rightarrow> False)"

definition can_retry ::
    "http_config \<Rightarrow> credential \<Rightarrow> http_method \<Rightarrow> instant \<Rightarrow> instant \<Rightarrow> nat \<Rightarrow> redmine_error \<Rightarrow> bool" where
  "can_retry H cred m deadline now attempt e \<longleftrightarrow>
     method_is_retryable m \<and> is_retryable e \<and> \<not> bearer_500 cred e \<and>
     attempt < rp_max_retries (hc_retry H) \<and> now < deadline"

definition backoff_for :: "http_config \<Rightarrow> attempt_env \<Rightarrow> instant \<Rightarrow> nat \<Rightarrow> redmine_error \<Rightarrow> duration" where
  "backoff_for H a deadline attempt e =
     min (case e of
            ERateLimited (Some d) \<Rightarrow> d
          | _ \<Rightarrow> backoff_duration (ae_rand a) (hc_retry H) attempt)
         (deadline - ae_now a)"

text \<open>The loop, with the sleeps it takes in order.\<close>

function send_loop ::
    "http_config \<Rightarrow> credential \<Rightarrow> http_method \<Rightarrow> (nat \<Rightarrow> attempt_env) \<Rightarrow> instant \<Rightarrow> nat \<Rightarrow>
     (redmine_error + response_head) \<times> duration list" where
  "send_loop H cred m world deadline attempt =
     (case attempt_result H (world attempt) of
        Inl e \<Rightarrow> (Inl e, [])
      | Inr (Inr resp) \<Rightarrow> (Inr resp, [])
      | Inr (Inl e) \<Rightarrow>
          if \<not> can_retry H cred m deadline (ae_now (world attempt)) attempt e then (Inl e, [])
          else
            (case send_loop H cred m world deadline (attempt + 1) of
               (res, sleeps) \<Rightarrow> (res, backoff_for H (world attempt) deadline attempt e # sleeps)))"
  by pat_completeness auto

termination
  by (relation "measure (\<lambda>(H, cred, m, world, deadline, attempt). rp_max_retries (hc_retry H) - attempt)")
    (auto simp: can_retry_def)

definition send_deadline :: "http_config \<Rightarrow> instant \<Rightarrow> instant" where
  "send_deadline H now = (case checked_add now (hc_total_timeout H) of Some d \<Rightarrow> d | None \<Rightarrow> now)"

definition send_with_retry ::
    "http_config \<Rightarrow> credential \<Rightarrow> http_method \<Rightarrow> instant \<Rightarrow> (nat \<Rightarrow> attempt_env) \<Rightarrow>
     (redmine_error + response_head) \<times> duration list" where
  "send_with_retry H cred m now world =
     send_loop H cred m world (send_deadline H now) 0"

section \<open>Reading collections\<close>

text \<open>The pagination envelope of a decoded answer.\<close>

record 'a envelope =
  en_total_count :: nat
  en_offset :: nat
  en_limit :: nat
  en_items :: "'a list"

text \<open>
  The loop of \<open>fetch_all\<close>. \<open>serve n offset\<close> is what the \<open>n\<close>-th request, for the page at \<open>offset\<close>,
  is answered with; the arguments after \<open>lim\<close> are the local variables of the loop.
\<close>

function fetch_loop ::
    "(nat \<Rightarrow> nat \<Rightarrow> redmine_error + 'a envelope) \<Rightarrow> limits \<Rightarrow> 'a list \<Rightarrow> nat \<Rightarrow> nat \<Rightarrow> nat \<Rightarrow> nat \<Rightarrow>
     redmine_error + 'a page" where
  "fetch_loop serve lim items offset total_count limit_used pages =
     (if pages \<ge> lt_max_pages lim
      then Inr \<lparr>pg_items = items, pg_total_count = total_count, pg_offset = offset, pg_limit = limit_used,
                pg_truncated = offset < total_count\<rparr>
      else
        (case serve pages offset of
           Inl e \<Rightarrow> Inl e
         | Inr env \<Rightarrow>
             let total = en_total_count env; limit_u = en_limit env; got = length (en_items env);
                 finish = (\<lambda>its off tr. Inr \<lparr>pg_items = its, pg_total_count = total, pg_offset = off,
                                              pg_limit = limit_u, pg_truncated = tr\<rparr>)
             in if got = 0 then finish items offset (offset < total)
                else
                  let items1 = items @ en_items env; new_offset = en_offset env + got
                  in if new_offset > u64_max \<or> new_offset \<le> offset then finish items1 offset True
                     else if new_offset \<ge> total then finish items1 new_offset False
                     else if length items1 \<ge> lt_max_items lim then finish items1 new_offset True
                     else fetch_loop serve lim items1 new_offset total limit_u (pages + 1)))"
  by pat_completeness auto

termination
  by (relation "measure (\<lambda>(serve, lim, items, offset, total_count, limit_used, pages). lt_max_pages lim - pages)") auto

definition fetch_all ::
    "(nat \<Rightarrow> nat \<Rightarrow> redmine_error + 'a envelope) \<Rightarrow> limits \<Rightarrow> redmine_error + 'a page" where
  "fetch_all serve lim = fetch_loop serve lim [] 0 0 (lt_page_size lim) 0"

definition fetch_page :: "(redmine_error + 'a envelope) \<Rightarrow> redmine_error + 'a page" where
  "fetch_page answer =
     (case answer of
        Inl e \<Rightarrow> Inl e
      | Inr env \<Rightarrow> Inr \<lparr>pg_items = en_items env, pg_total_count = en_total_count env, pg_offset = en_offset env,
                          pg_limit = en_limit env, pg_truncated = False\<rparr>)"

text \<open>
  \<open>has_total\<close> tells whether the answer has a field \<^verbatim>\<open>total_count\<close>; \<open>decode\<close> is the decoder of the
  envelope.
\<close>

definition get_collection ::
    "('j \<Rightarrow> bool) \<Rightarrow> ('j \<Rightarrow> 'a list option) \<Rightarrow> (redmine_error + 'j) \<Rightarrow> redmine_error + 'a list" where
  "get_collection has_total decode answer =
     (case answer of
        Inl e \<Rightarrow> Inl e
      | Inr j \<Rightarrow>
          if has_total j then Inl (EDecode ''un-paginated collection response'')
          else (case decode j of Some items \<Rightarrow> Inr items
                | None \<Rightarrow> Inl (EDecode ''un-paginated collection response'')))"

text \<open>
  The checks of \<open>download_attachment\<close> before anything is sent: \<open>parse\<close> is \<^verbatim>\<open>Url::parse\<close> and \<open>serial\<close>
  the serialised origin for the error.
\<close>

definition download_target ::
    "url_parse \<Rightarrow> (url \<Rightarrow> string) \<Rightarrow> url \<Rightarrow> string \<Rightarrow> redmine_error + url" where
  "download_target parse serial base content_url =
     (case parse content_url of
        None \<Rightarrow> Inl (EConfig ''invalid attachment content_url'')
      | Some u \<Rightarrow>
          if url_username u \<noteq> [] \<or> url_password u \<noteq> None then Inl (EForeignOrigin (serial u))
          else if \<not> is_trusted_origin base u then Inl (EForeignOrigin (serial u))
          else Inr u)"

section \<open>Lemmas\<close>

declare send_loop.simps [simp del] fetch_loop.simps [simp del]

lemma read_chunks_bounded: "length body \<le> limit \<Longrightarrow> read_chunks limit body items = Inr b \<Longrightarrow> length b \<le> limit"
  by (induction limit body items rule: read_chunks.induct) (auto simp: Let_def split: if_splits)

lemma backoff_duration_le:
  assumes "\<And>n. rand n \<le> n"
  shows "backoff_duration rand policy attempt \<le> rp_max_backoff policy"
proof -
  define cap where "cap = min (min (rp_base policy * (if 2 ^ attempt < (2 ^ 32 :: nat) then 2 ^ attempt else 2 ^ 32 - 1))
      duration_max) (rp_max_backoff policy)"
  have "rand (min (cap div 1000000) u64_max) * 1000000 \<le> cap div 1000000 * 1000000"
    using assms [of "min (cap div 1000000) u64_max"] by (intro mult_right_mono) auto
  also have "\<dots> \<le> cap" by simp
  also have "cap \<le> rp_max_backoff policy" by (simp add: cap_def)
  finally show ?thesis by (simp add: backoff_duration_def cap_def Let_def)
qed

lemma attempt_rate_limited:
  "attempt_result H a = Inr (Inl (ERateLimited (Some d))) \<Longrightarrow> d \<le> rp_max_backoff (hc_retry H)"
  by (auto simp: attempt_result_def from_status_def clamp_retry_after_def split: sum.splits if_splits prod.splits)

lemma backoff_for_le:
  assumes "\<And>n. ae_rand a n \<le> n" and "attempt_result H a = Inr (Inl e)"
  shows "backoff_for H a deadline attempt e \<le> rp_max_backoff (hc_retry H)"
  using backoff_duration_le [OF assms(1), of "hc_retry H" attempt] attempt_rate_limited [of H a] assms(2)
  by (auto simp: backoff_for_def min_le_iff_disj split: redmine_error.splits option.splits)

text \<open>The attempts before the last: each failed in a way that may be retried, while time was left.\<close>

definition retried ::
    "http_config \<Rightarrow> credential \<Rightarrow> http_method \<Rightarrow> instant \<Rightarrow> attempt_env \<Rightarrow> duration \<Rightarrow> bool" where
  "retried H cred m deadline a d \<longleftrightarrow>
     (\<exists>e. attempt_result H a = Inr (Inl e) \<and> is_retryable e \<and> \<not> bearer_500 cred e) \<and> method_is_retryable m \<and>
     ae_now a < deadline \<and> d \<le> rp_max_backoff (hc_retry H) \<and> d \<le> deadline - ae_now a"

lemma send_loop_spec:
  assumes "\<And>k n. ae_rand (world k) n \<le> n" and "send_loop H cred m world deadline attempt = (res, sleeps)"
  shows "length sleeps \<le> rp_max_retries (hc_retry H) - attempt \<and>
    (\<forall>k < length sleeps. retried H cred m deadline (world (attempt + k)) (sleeps ! k)) \<and>
    (case attempt_result H (world (attempt + length sleeps)) of
       Inl e \<Rightarrow> res = Inl e
     | Inr (Inr resp) \<Rightarrow> res = Inr resp
     | Inr (Inl e) \<Rightarrow> res = Inl e \<and>
         \<not> can_retry H cred m deadline (ae_now (world (attempt + length sleeps))) (attempt + length sleeps) e)"
  using assms
proof (induction H cred m world deadline attempt arbitrary: res sleeps rule: send_loop.induct)
  case (1 H cred m world deadline attempt)
  show ?case
  proof (cases "\<exists>e. attempt_result H (world attempt) = Inr (Inl e) \<and>
      can_retry H cred m deadline (ae_now (world attempt)) attempt e")
    case False
    then show ?thesis
      using "1.prems"(2) by (subst (asm) send_loop.simps) (auto split: sum.splits if_splits)
  next
    case True
    then obtain e where e: "attempt_result H (world attempt) = Inr (Inl e)"
      and c: "can_retry H cred m deadline (ae_now (world attempt)) attempt e" by blast
    obtain sl where l: "send_loop H cred m world deadline (attempt + 1) = (res, sl)"
      and s: "sleeps = backoff_for H (world attempt) deadline attempt e # sl"
      using "1.prems"(2) e c by (subst (asm) send_loop.simps) (auto split: prod.splits)
    note ih = "1.IH" [OF e refl _ "1.prems"(1) l]
    have "retried H cred m deadline (world attempt) (backoff_for H (world attempt) deadline attempt e)"
      using c e backoff_for_le [OF "1.prems"(1) e]
      by (auto simp: retried_def can_retry_def backoff_for_def)
    moreover have n: "attempt + length sleeps = attempt + 1 + length sl" using s by simp
    ultimately show ?thesis
      unfolding n using ih c s by (intro conjI) (auto simp: nth_Cons can_retry_def split: nat.splits)
  qed
qed

lemma fetch_loop_cong:
  "(\<And>n off. n < lt_max_pages lim \<Longrightarrow> serve n off = serve' n off) \<Longrightarrow>
     fetch_loop serve lim items offset tc lu pages = fetch_loop serve' lim items offset tc lu pages"
proof (induction serve lim items offset tc lu pages rule: fetch_loop.induct)
  case (1 serve lim items offset tc lu pages)
  then show ?case
    by (subst (1 2) fetch_loop.simps) (auto simp: Let_def split: sum.splits)
qed

text \<open>
  A server that holds the list \<open>xs\<close> and serves a non-empty piece of it from any offset inside,
  however long and whatever limit it reports.
\<close>

definition honest :: "'a list \<Rightarrow> (nat \<Rightarrow> nat \<Rightarrow> redmine_error + 'a envelope) \<Rightarrow> bool" where
  "honest xs serve \<longleftrightarrow> (\<forall>n off. \<exists>k > 0. \<exists>l. serve n off =
     Inr \<lparr>en_total_count = length xs, en_offset = off, en_limit = l, en_items = take k (drop off xs)\<rparr>)"

lemma fetch_loop_honest:
  assumes "honest xs serve" and "length xs \<le> u64_max" and "offset \<le> length xs" and "items = take offset xs"
    and "pages < lt_max_pages lim \<or> tc = length xs"
  shows "\<exists>pg. fetch_loop serve lim items offset tc lu pages = Inr pg \<and> pg_items pg = take (pg_offset pg) xs \<and>
    pg_offset pg \<le> length xs \<and> pg_total_count pg = length xs \<and> (pg_truncated pg \<longleftrightarrow> pg_offset pg < length xs)"
  using assms
proof (induction serve lim items offset tc lu pages rule: fetch_loop.induct)
  case (1 serve lim items offset tc lu pages)
  obtain k l where k: "0 < k" and sv: "serve pages offset =
      Inr \<lparr>en_total_count = length xs, en_offset = offset, en_limit = l, en_items = take k (drop offset xs)\<rparr>"
    using "1.prems"(1) unfolding honest_def by metis
  define got where "got = min k (length xs - offset)"
  have items1: "items @ take k (drop offset xs) = take (offset + got) xs"
    using "1.prems"(3,4) by (auto simp: got_def take_add min_def)
  show ?case
  proof (cases "lt_max_pages lim \<le> pages \<or> offset = length xs")
    case True
    then show ?thesis
      using "1.prems" sv by (subst fetch_loop.simps) (auto simp: Let_def)
  next
    case False
    then have pg: "pages < lt_max_pages lim" "offset < length xs" "0 < got" using k "1.prems"(3) by (auto simp: got_def)
    have len: "length (take k (drop offset xs)) = got" by (simp add: got_def min.commute)
    have ih: "\<exists>pg. fetch_loop serve lim (take (offset + got) xs) (offset + got) (length xs) l (pages + 1) = Inr pg \<and>
        pg_items pg = take (pg_offset pg) xs \<and> pg_offset pg \<le> length xs \<and> pg_total_count pg = length xs \<and>
        (pg_truncated pg \<longleftrightarrow> pg_offset pg < length xs)"
      if "offset + got < length xs" "\<not> lt_max_items lim \<le> length (take (offset + got) xs)"
      using "1.IH" [OF _ sv] that pg len items1 "1.prems"(1,2) by (simp add: got_def)
    show ?thesis
      using pg sv len items1 ih "1.prems"(2) by (subst fetch_loop.simps) (auto simp: Let_def got_def)
  qed
qed

section \<open>Properties\<close>


definition example_http :: http_config where
  "example_http = \<lparr>hc_retry = retry_policy_default, hc_limits = limits_default, hc_total_timeout = from_secs 30,
     hc_http_date = (\<lambda>_. None), hc_errors = (\<lambda>_. None)\<rparr>"

definition example_world :: "nat \<Rightarrow> attempt_env" where
  "example_world k = \<lparr>ae_outcome = Inr \<lparr>rh_status = (if k = 0 then 503 else 200), rh_retry_after = None,
     rh_content_length = None, rh_body = []\<rparr>, ae_now = from_secs k, ae_rand = (\<lambda>n. n)\<rparr>"

lemma example_send:
  "send_with_retry example_http (ApiKey ''k'') GET 0 example_world =
     (Inr \<lparr>rh_status = 200, rh_retry_after = None, rh_content_length = None, rh_body = []\<rparr>, [200000000])"
  unfolding send_with_retry_def
  by (subst send_loop.simps, subst send_loop.simps)
    (simp add: attempt_result_def example_http_def example_world_def is_success_def read_bounded_def from_status_def
      can_retry_def bearer_500_def is_server_error_def retry_policy_default_def send_deadline_def checked_add_def
      instant_max_def backoff_for_def backoff_duration_def duration_max_def u64_max_def retry_after_def from_secs_def Let_def)



definition example_serve :: "nat \<Rightarrow> nat \<Rightarrow> redmine_error + nat envelope" where
  "example_serve n off = Inr \<lparr>en_total_count = 3, en_offset = off, en_limit = 2, en_items = take 2 (drop off [7, 8, 9])\<rparr>"


text \<open>
  Credentials stay home. An attachment is downloaded, and a redirect is followed, only to the
  scheme, host and port of the configured Redmine; a content URL with user information is refused.
\<close>

theorem download_same_origin:
  "(download_target parse serial base content_url = Inr u \<longleftrightarrow>
      parse content_url = Some u \<and> url_username u = [] \<and> url_password u = None \<and>
      (url_scheme u = ''http'' \<or> url_scheme u = ''https'') \<and> url_scheme u = url_scheme base \<and>
      url_host_str u = url_host_str base \<and> url_port_or_known_default u = url_port_or_known_default base) \<and>
   (redirect_policy_action limited base v = Follow \<longleftrightarrow> limited = Follow \<and> is_trusted_origin base v)"
  by (auto simp: download_target_def is_trusted_origin_def origin_def redirect_policy_action_def split: option.splits if_splits)

end
