(* ===== verification/Redmine_Ids.thy ===== *)
theory Redmine_Ids
  imports Http_Client
begin

text \<open>
  Identifiers and validated path segments (\<^verbatim>\<open>redmine-client/src/ids.rs\<close>) and what makes a path
  acceptable to the guard \<^const>\<open>endpoint\<close>. Numeric ids are natural numbers. A wiki title is a list
  of Unicode scalar values; its percent-encoding is done by the \<^verbatim>\<open>url\<close> crate and is an argument.
\<close>

section \<open>Identifiers\<close>

definition is_ascii_lowercase :: "char \<Rightarrow> bool" where
  "is_ascii_lowercase c \<longleftrightarrow> 97 \<le> byte_of c \<and> byte_of c \<le> 122"

definition ident_char :: "char \<Rightarrow> bool" where
  "ident_char c \<longleftrightarrow> is_ascii_lowercase c \<or> is_ascii_digit c \<or> c = CHR ''_'' \<or> c = CHR ''-''"

definition project_identifier_from_str :: "string \<Rightarrow> redmine_error + string" where
  "project_identifier_from_str s =
     (case s of
        [] \<Rightarrow> Inl (EConfig ''invalid project identifier: must not be empty'')
      | first # _ \<Rightarrow>
          if \<not> (is_ascii_lowercase first \<or> is_ascii_digit first)
          then Inl (EConfig ''invalid project identifier: must start with a lowercase letter or digit'')
          else if length s > 100
          then Inl (EConfig ''invalid project identifier: must be at most 100 characters'')
          else if \<not> (\<forall>c \<in> set s. ident_char c)
          then Inl (EConfig ''invalid project identifier: must match ^[a-z0-9][a-z0-9_-]*$'')
          else Inr s)"

datatype project_ident = ProjectId nat | Identifier string

fun project_ident_str :: "project_ident \<Rightarrow> string" where
  "project_ident_str (ProjectId n) = nat_str n"
| "project_ident_str (Identifier s) = s"

text \<open>The identifiers the constructor lets through.\<close>

fun wf_ident :: "project_ident \<Rightarrow> bool" where
  "wf_ident (ProjectId n) = True"
| "wf_ident (Identifier s) = (project_identifier_from_str s = Inr s)"

definition BIDI_CONTROLS :: "nat list" where
  "BIDI_CONTROLS = [0x202A, 0x202B, 0x202C, 0x202D, 0x202E, 0x2066, 0x2067, 0x2068, 0x2069]"

text \<open>Two equal neighbours, the patterns that the guards look for.\<close>

fun adjacent :: "'a \<Rightarrow> 'a list \<Rightarrow> bool" where
  "adjacent c [] = False"
| "adjacent c (x # xs) = (x = c \<and> xs \<noteq> [] \<and> hd xs = c \<or> adjacent c xs)"

definition wiki_title_new :: "ustr \<Rightarrow> redmine_error + ustr" where
  "wiki_title_new s =
     (if s = [] then Inl (EConfig ''invalid wiki title: must not be empty'')
      else if 47 \<in> set s \<or> 92 \<in> set s
      then Inl (EConfig ''invalid wiki title: must not contain a path separator'')
      else if adjacent 46 s then Inl (EConfig ''invalid wiki title: must not contain ..'')
      else if \<exists>c \<in> set s. is_control c \<or> c \<in> set BIDI_CONTROLS
      then Inl (EConfig ''invalid wiki title: must not contain control or bidi-override characters'')
      else Inr s)"

section \<open>Paths\<close>

definition path_ok :: "string \<Rightarrow> bool" where
  "path_ok p \<longleftrightarrow> p \<noteq> [] \<and> hd p \<noteq> CHR ''/'' \<and> \<not> adjacent CHR ''.'' p \<and> \<not> adjacent CHR ''/'' p \<and>
     (\<forall>c \<in> set p. \<not> is_control_char c)"

lemma starts_with_pair: "starts_with (x # xs) [c, c] \<longleftrightarrow> x = c \<and> xs \<noteq> [] \<and> hd xs = c"
  by (cases xs) (auto simp: starts_with_def)

lemma contains_pair: "contains s [c, c] \<longleftrightarrow> adjacent c s"
  by (induction s) (auto simp: starts_with_pair)

lemma endpoint_path_ok: "path_ok p \<Longrightarrow> endpoint url_join p = (case url_join p of None \<Rightarrow> Inl (EConfig ''invalid path'') | Some u \<Rightarrow> Inr u)"
  by (cases p) (auto simp: endpoint_def path_ok_def contains_pair starts_with_def)

lemma endpoint_guard:
  "endpoint url_join p = Inr u \<Longrightarrow> p = [] \<or> path_ok p"
  by (cases p) (auto simp: endpoint_def path_ok_def contains_pair starts_with_def split: if_splits)

lemma adjacent_append [simp]:
  "adjacent c (xs @ ys) \<longleftrightarrow> adjacent c xs \<or> adjacent c ys \<or> xs \<noteq> [] \<and> ys \<noteq> [] \<and> last xs = c \<and> hd ys = c"
  by (induction xs) (auto simp: hd_append)

lemma adjacent_in_set: "adjacent c xs \<Longrightarrow> c \<in> set xs"
  by (induction xs) auto

text \<open>A segment that cannot interact with its neighbours in a path.\<close>

definition plain :: "string \<Rightarrow> bool" where
  "plain s \<longleftrightarrow> s \<noteq> [] \<and> (\<forall>c \<in> set s. c \<noteq> CHR ''.'' \<and> c \<noteq> CHR ''/'' \<and> \<not> is_control_char c)"

lemma plainD:
  assumes "plain s"
  shows "s \<noteq> []" and "hd s \<noteq> CHR ''/''" and "hd s \<noteq> CHR ''.''" and "last s \<noteq> CHR ''/''" and "last s \<noteq> CHR ''.''"
    and "\<not> adjacent CHR ''.'' s" and "\<not> adjacent CHR ''/'' s" and "\<forall>c \<in> set s. \<not> is_control_char c"
  using assms adjacent_in_set [of _ s] by (auto simp: plain_def)

lemma digit_plain: "is_ascii_digit c \<Longrightarrow> c \<noteq> CHR ''.'' \<and> c \<noteq> CHR ''/'' \<and> \<not> is_control_char c"
  by (auto simp: is_ascii_digit_def is_control_char_def byte_of_def)

lemma plain_nat_str [simp]: "plain (nat_str n)"
  using nat_str_digits digit_plain by (fastforce simp: plain_def)

lemma ident_char_plain: "ident_char c \<Longrightarrow> c \<noteq> CHR ''.'' \<and> c \<noteq> CHR ''/'' \<and> \<not> is_control_char c"
  by (auto simp: ident_char_def is_ascii_lowercase_def is_ascii_digit_def is_control_char_def byte_of_def)

lemma plain_ident [simp]: "wf_ident p \<Longrightarrow> plain (project_ident_str p)"
proof (cases p)
  case (Identifier s)
  assume "wf_ident p"
  then show ?thesis
    using Identifier ident_char_plain
    by (auto simp: plain_def project_identifier_from_str_def split: list.splits if_splits)
qed simp

text \<open>
  What the encoder is relied on for: the encoding of an accepted title is not empty, has no slash
  and no control character, and no two adjacent dots when the title has none.
\<close>

definition segment_encoder :: "(ustr \<Rightarrow> string) \<Rightarrow> bool" where
  "segment_encoder enc \<longleftrightarrow> (\<forall>t. t \<noteq> [46] \<longrightarrow> wiki_title_new t = Inr t \<longrightarrow>
     enc t \<noteq> [] \<and> CHR ''/'' \<notin> set (enc t) \<and> (\<forall>c \<in> set (enc t). \<not> is_control_char c) \<and>
     \<not> adjacent CHR ''.'' (enc t) \<and> (last (enc t) = CHR ''.'' \<longleftrightarrow> last t = 46))"

definition segment_ok :: "string \<Rightarrow> bool" where
  "segment_ok s \<longleftrightarrow> s \<noteq> [] \<and> CHR ''/'' \<notin> set s \<and> (\<forall>c \<in> set s. \<not> is_control_char c) \<and>
     \<not> adjacent CHR ''.'' s \<and> last s \<noteq> CHR ''.''"

lemma segment_okD:
  assumes "segment_ok s"
  shows "s \<noteq> []" and "hd s \<noteq> CHR ''/''" and "last s \<noteq> CHR ''/''" and "last s \<noteq> CHR ''.''"
    and "\<not> adjacent CHR ''.'' s" and "\<not> adjacent CHR ''/'' s" and "\<forall>c \<in> set s. \<not> is_control_char c"
  using assms adjacent_in_set [of "CHR ''/''" s] hd_in_set [of s] last_in_set [of s]
  unfolding segment_ok_def by metis+

end
