(* ===== verification/Rest_Api.thy ===== *)
theory Rest_Api
  imports Redmine_Ids
begin

text \<open>
  The REST surface of the Redmine client (the methods of \<^verbatim>\<open>Scoped\<close> in
  \<^verbatim>\<open>redmine-client/src/client.rs\<close>) and the query builders of its models. A method is the list of
  requests it makes, in order, each with the way its answer is read; \<open>run_op\<close> executes them
  through the guards of the request core and stops at the first error, as the \<^verbatim>\<open>?\<close> of the code
  does. The payload of a JSON body is a type variable: its encoding is serde's.
\<close>

section \<open>Requests\<close>

datatype 'b rest_body =
    NoBody
  | JsonBody string 'b
  | FormBody "(string \<times> string) list"
  | BytesBody string 'b

record 'b rest_request =
  rr_method :: http_method
  rr_path :: string
  rr_query :: query
  rr_body :: "'b rest_body"

text \<open>
  How an answer is read: decoded as an envelope, discarded, as all pages, as one page, as a bare
  collection, as an envelope where 404 means absent, or as a token response with OAuth errors.
\<close>

datatype read_as = AsJson | AsUnit | AsAllPages | AsOnePage | AsCollection | AsOptional | AsOAuth

type_synonym 'b rest_op = "('b rest_request \<times> read_as) list"

definition request :: "http_method \<Rightarrow> string \<Rightarrow> query \<Rightarrow> 'b rest_body \<Rightarrow> 'b rest_request" where
  "request m path q body = \<lparr>rr_method = m, rr_path = path, rr_query = q, rr_body = body\<rparr>"

definition get_json :: "string \<Rightarrow> query \<Rightarrow> 'b rest_request \<times> read_as" where
  "get_json path q = (request GET path q NoBody, AsJson)"

definition post_json :: "string \<Rightarrow> string \<Rightarrow> 'b \<Rightarrow> 'b rest_request \<times> read_as" where
  "post_json path key body = (request POST path fmempty (JsonBody key body), AsJson)"

definition post_json_with_query :: "string \<Rightarrow> query \<Rightarrow> string \<Rightarrow> 'b \<Rightarrow> 'b rest_request \<times> read_as" where
  "post_json_with_query path q key body = (request POST path q (JsonBody key body), AsJson)"

definition post_form :: "string \<Rightarrow> (string \<times> string) list \<Rightarrow> 'b rest_request \<times> read_as" where
  "post_form path form = (request POST path fmempty (FormBody form), AsUnit)"

definition post_form_json :: "string \<Rightarrow> (string \<times> string) list \<Rightarrow> 'b rest_request \<times> read_as" where
  "post_form_json path form = (request POST path fmempty (FormBody form), AsJson)"

definition put_json :: "string \<Rightarrow> string \<Rightarrow> 'b \<Rightarrow> 'b rest_request \<times> read_as" where
  "put_json path key body = (request PUT path fmempty (JsonBody key body), AsUnit)"

definition delete_req :: "string \<Rightarrow> 'b rest_request \<times> read_as" where
  "delete_req path = (request DELETE path fmempty NoBody, AsUnit)"

definition delete_with_query :: "string \<Rightarrow> query \<Rightarrow> 'b rest_request \<times> read_as" where
  "delete_with_query path q = (request DELETE path q NoBody, AsUnit)"

definition post_json_no_content :: "string \<Rightarrow> string \<Rightarrow> 'b \<Rightarrow> 'b rest_request \<times> read_as" where
  "post_json_no_content path key body = (request POST path fmempty (JsonBody key body), AsUnit)"

definition post_bytes :: "string \<Rightarrow> query \<Rightarrow> string \<Rightarrow> 'b \<Rightarrow> 'b rest_request \<times> read_as" where
  "post_bytes path q content_type body = (request POST path q (BytesBody content_type body), AsJson)"

text \<open>
  The request of \<^const>\<open>fetch_all\<close>, which adds \<^verbatim>\<open>limit\<close> and \<^verbatim>\<open>offset\<close> to it page by page, and those
  of \<^const>\<open>fetch_page\<close> and \<^const>\<open>get_collection\<close>.
\<close>

definition fetch_all_req :: "string \<Rightarrow> query \<Rightarrow> 'b rest_request \<times> read_as" where
  "fetch_all_req path q = (request GET path q NoBody, AsAllPages)"

definition fetch_page_req :: "string \<Rightarrow> query \<Rightarrow> nat \<Rightarrow> nat \<Rightarrow> 'b rest_request \<times> read_as" where
  "fetch_page_req path q limit offset =
     (request GET path (fmupd ''offset'' (nat_str offset) (fmupd ''limit'' (nat_str limit) q)) NoBody, AsOnePage)"

definition get_collection_req :: "string \<Rightarrow> query \<Rightarrow> 'b rest_request \<times> read_as" where
  "get_collection_req path q = (request GET path q NoBody, AsCollection)"

text \<open>
  Executing an operation: \<open>url_join\<close> resolves a path against the base URL and \<open>exchange\<close> is the
  answer to a request as it is read. The list are the requests that left the client.
\<close>

fun run_op ::
    "(string \<Rightarrow> url option) \<Rightarrow> ('b rest_request \<times> read_as \<Rightarrow> redmine_error + 'v) \<Rightarrow> 'v \<Rightarrow> 'b rest_op \<Rightarrow>
     (redmine_error + 'v) \<times> 'b rest_request list" where
  "run_op url_join exchange v [] = (Inr v, [])"
| "run_op url_join exchange v (r # rs) =
     (case endpoint url_join (rr_path (fst r)) of
        Inl e \<Rightarrow> (Inl e, [])
      | Inr _ \<Rightarrow>
          (case exchange r of
             Inl e \<Rightarrow> (Inl e, [fst r])
           | Inr v1 \<Rightarrow> (case run_op url_join exchange v1 rs of (res, sent) \<Rightarrow> (res, fst r # sent))))"

text \<open>\<open>get_agile_data\<close> turns a 404 into an absent value.\<close>

definition read_optional :: "(redmine_error + 'v) \<Rightarrow> redmine_error + 'v option" where
  "read_optional answer =
     (case answer of Inl ENotFound \<Rightarrow> Inr None | Inl e \<Rightarrow> Inl e | Inr v \<Rightarrow> Inr (Some v))"

text \<open>
  The answers that are not plain envelopes: the token endpoint, whose failures are OAuth errors, and
  the page that the DMSF listing builds from an envelope with an optional total.
\<close>

definition token_response ::
    "limits \<Rightarrow> (string \<Rightarrow> 'v option) \<Rightarrow> (string \<Rightarrow> (string \<times> string option) option) \<Rightarrow> response_head \<Rightarrow>
     redmine_error + 'v" where
  "token_response lim decode decode_error resp =
     (if is_success (rh_status resp) then read_json lim decode ''oauth token response'' resp
      else (case read_bounded (lt_max_response_bytes lim) resp of
              Inl e \<Rightarrow> Inl e
            | Inr bytes \<Rightarrow> Inl (oauth_error_from_status decode_error (rh_status resp) bytes)))"

definition dmsf_page :: "'a list \<Rightarrow> nat option \<Rightarrow> nat \<Rightarrow> nat \<Rightarrow> 'a page" where
  "dmsf_page nodes total_count limit offset =
     \<lparr>pg_items = nodes, pg_total_count = (case total_count of Some t \<Rightarrow> t | None \<Rightarrow> length nodes),
      pg_offset = offset, pg_limit = limit, pg_truncated = False\<rparr>"

section \<open>Query builders\<close>

definition q_opt :: "string \<Rightarrow> string option \<Rightarrow> query \<Rightarrow> query" where
  "q_opt k v q = (case v of Some x \<Rightarrow> fmupd k x q | None \<Rightarrow> q)"

definition q_extra :: "(string \<times> string) list \<Rightarrow> query \<Rightarrow> query" where
  "q_extra extra q = fold (\<lambda>(k, v). fmupd k v) extra q"

datatype issue_include = Children | Attachments | Relations | Changesets | Journals | Watchers | AllowedStatuses

fun issue_include_str :: "issue_include \<Rightarrow> string" where
  "issue_include_str Children = ''children''"
| "issue_include_str Attachments = ''attachments''"
| "issue_include_str Relations = ''relations''"
| "issue_include_str Changesets = ''changesets''"
| "issue_include_str Journals = ''journals''"
| "issue_include_str Watchers = ''watchers''"
| "issue_include_str AllowedStatuses = ''allowed_statuses''"

datatype project_include = Trackers | IssueCategories | EnabledModules | TimeEntryActivities | IssueCustomFields

fun project_include_str :: "project_include \<Rightarrow> string" where
  "project_include_str Trackers = ''trackers''"
| "project_include_str IssueCategories = ''issue_categories''"
| "project_include_str EnabledModules = ''enabled_modules''"
| "project_include_str TimeEntryActivities = ''time_entry_activities''"
| "project_include_str IssueCustomFields = ''issue_custom_fields''"

datatype contact_include = Notes | Deals | Contacts

fun contact_include_str :: "contact_include \<Rightarrow> string" where
  "contact_include_str Notes = ''notes''"
| "contact_include_str Deals = ''deals''"
| "contact_include_str Contacts = ''contacts''"

definition issue_includes_to_query_value :: "issue_include list \<Rightarrow> string option" where
  "issue_includes_to_query_value inc = (if inc = [] then None else Some (join '','' (map issue_include_str inc)))"

definition project_includes_to_query_value :: "project_include list \<Rightarrow> string option" where
  "project_includes_to_query_value inc = (if inc = [] then None else Some (join '','' (map project_include_str inc)))"

definition contact_includes_to_query_value :: "contact_include list \<Rightarrow> string option" where
  "contact_includes_to_query_value inc = (if inc = [] then None else Some (join '','' (map contact_include_str inc)))"

datatype status_filter = StatusOpen | StatusClosed | StatusAll | StatusId nat

fun status_filter_value :: "status_filter \<Rightarrow> string" where
  "status_filter_value StatusOpen = ''open''"
| "status_filter_value StatusClosed = ''closed''"
| "status_filter_value StatusAll = ''*''"
| "status_filter_value (StatusId n) = nat_str n"

datatype user_filter = UserMe | UserId nat

fun user_filter_value :: "user_filter \<Rightarrow> string" where
  "user_filter_value UserMe = ''me''"
| "user_filter_value (UserId n) = nat_str n"

record issue_query =
  iq_project :: "project_ident option"
  iq_status :: "status_filter option"
  iq_assigned_to :: "user_filter option"
  iq_updated_on :: "string option"
  iq_sort :: "string option"
  iq_extra :: "(string \<times> string) list"

definition issue_query_to_query :: "issue_query \<Rightarrow> query" where
  "issue_query_to_query iq =
     q_extra (iq_extra iq)
       (q_opt ''sort'' (iq_sort iq)
       (q_opt ''updated_on'' (iq_updated_on iq)
       (q_opt ''assigned_to_id'' (map_option user_filter_value (iq_assigned_to iq))
       (q_opt ''status_id'' (map_option status_filter_value (iq_status iq))
       (q_opt ''project_id'' (map_option project_ident_str (iq_project iq)) fmempty)))))"

definition project_query_to_query :: "(string \<times> string) list \<Rightarrow> query" where
  "project_query_to_query extra = q_extra extra fmempty"

record time_entry_query =
  tq_project_id :: "project_ident option"
  tq_issue_id :: "nat option"
  tq_user_id :: "user_filter option"
  tq_spent_on :: "string option"
  tq_extra :: "(string \<times> string) list"

definition time_entry_query_to_query :: "time_entry_query \<Rightarrow> query" where
  "time_entry_query_to_query tq =
     q_extra (tq_extra tq)
       (q_opt ''spent_on'' (tq_spent_on tq)
       (q_opt ''user_id'' (map_option user_filter_value (tq_user_id tq))
       (q_opt ''issue_id'' (map_option nat_str (tq_issue_id tq))
       (q_opt ''project_id'' (map_option project_ident_str (tq_project_id tq)) fmempty))))"

record user_query =
  uq_name :: "string option"
  uq_group_id :: "nat option"
  uq_status :: "nat option"

definition user_query_to_query :: "user_query \<Rightarrow> query" where
  "user_query_to_query uq =
     q_opt ''status'' (map_option nat_str (uq_status uq))
       (q_opt ''group_id'' (map_option nat_str (uq_group_id uq)) (q_opt ''name'' (uq_name uq) fmempty))"

record contact_query =
  cq_project_id :: "project_ident option"
  cq_search :: "string option"
  cq_tags :: "string option"
  cq_assigned_to_id :: "nat option"

definition contact_query_to_query :: "contact_query \<Rightarrow> query" where
  "contact_query_to_query cq =
     q_opt ''assigned_to_id'' (map_option nat_str (cq_assigned_to_id cq))
       (q_opt ''tags'' (cq_tags cq)
       (q_opt ''search'' (cq_search cq)
       (q_opt ''project_id'' (map_option project_ident_str (cq_project_id cq)) fmempty)))"

datatype search_scope = SearchAll | MyProject | Subprojects

fun search_scope_value :: "search_scope \<Rightarrow> string" where
  "search_scope_value SearchAll = ''all''"
| "search_scope_value MyProject = ''my_projects''"
| "search_scope_value Subprojects = ''subprojects''"

datatype search_resource = SearchIssues | SearchWikiPages

fun wire_param :: "search_resource \<Rightarrow> string" where
  "wire_param SearchIssues = ''issues''"
| "wire_param SearchWikiPages = ''wiki_pages''"

definition from_raw_type :: "string \<Rightarrow> search_resource option" where
  "from_raw_type raw =
     (if raw = ''issue'' then Some SearchIssues else if raw = ''wiki-page'' then Some SearchWikiPages else None)"

definition entire_search_to_query :: "string \<Rightarrow> search_resource list \<Rightarrow> query" where
  "entire_search_to_query q resources = fold (\<lambda>r. fmupd (wire_param r) ''1'') resources (fmupd ''q'' q fmempty)"

definition search_query_to_query :: "string \<Rightarrow> search_scope option \<Rightarrow> bool \<Rightarrow> query" where
  "search_query_to_query q scope open_issues =
     (let q1 = q_opt ''scope'' (map_option search_scope_value scope) (fmupd ''issues'' ''1'' (fmupd ''q'' q fmempty))
      in if open_issues then fmupd ''open_issues'' ''1'' q1 else q1)"

section \<open>Operations\<close>

definition current_user :: "'b rest_op" where
  "current_user = [get_json ''my/account.json'' fmempty]"

definition introspect_token :: "secret \<Rightarrow> 'b rest_op" where
  "introspect_token token =
     [post_form_json ''oauth/introspect'' [(''token'', token), (''token_type_hint'', ''access_token'')]]"

definition revoke_token :: "secret \<Rightarrow> string option \<Rightarrow> 'b rest_op" where
  "revoke_token token hint =
     [post_form ''oauth/revoke''
       ((''token'', token) # (case hint of Some h \<Rightarrow> [(''token_type_hint'', h)] | None \<Rightarrow> []))]"

definition exchange_authorization_code :: "string \<Rightarrow> string \<Rightarrow> string \<Rightarrow> 'b rest_op" where
  "exchange_authorization_code code redirect_uri code_verifier =
     [(request POST ''oauth/token'' fmempty
        (FormBody [(''grant_type'', ''authorization_code''), (''code'', code), (''redirect_uri'', redirect_uri),
                   (''code_verifier'', code_verifier)]), AsOAuth)]"

definition refresh_access_token :: "secret \<Rightarrow> 'b rest_op" where
  "refresh_access_token refresh_token =
     [(request POST ''oauth/token'' fmempty
        (FormBody [(''grant_type'', ''refresh_token''), (''refresh_token'', refresh_token)]), AsOAuth)]"

definition list_projects :: "(string \<times> string) list \<Rightarrow> 'b rest_op" where
  "list_projects extra = [fetch_all_req ''projects.json'' (project_query_to_query extra)]"

definition get_project :: "project_ident \<Rightarrow> project_include list \<Rightarrow> 'b rest_op" where
  "get_project project inc =
     [get_json (''projects/'' @ project_ident_str project @ ''.json'') (q_opt ''include'' (project_includes_to_query_value inc) fmempty)]"

definition list_issues :: "issue_query \<Rightarrow> 'b rest_op" where
  "list_issues iq = [fetch_all_req ''issues.json'' (issue_query_to_query iq)]"

definition list_issues_page :: "issue_query \<Rightarrow> nat \<Rightarrow> nat \<Rightarrow> 'b rest_op" where
  "list_issues_page iq limit offset =
     [fetch_page_req ''issues.json'' (issue_query_to_query iq) limit offset]"

definition list_issues_by_id :: "nat list \<Rightarrow> 'b rest_op" where
  "list_issues_by_id ids =
     (if ids = [] then []
      else [fetch_all_req ''issues.json''
              (fmupd ''status_id'' ''*'' (fmupd ''issue_id'' (join '','' (map nat_str ids)) fmempty))])"

definition list_subtasks :: "nat \<Rightarrow> 'b rest_op" where
  "list_subtasks parent =
     [fetch_all_req ''issues.json'' (fmupd ''status_id'' ''*'' (fmupd ''parent_id'' (nat_str parent) fmempty))]"

definition search_issues_page :: "string \<Rightarrow> search_scope option \<Rightarrow> bool \<Rightarrow> nat \<Rightarrow> nat \<Rightarrow> 'b rest_op" where
  "search_issues_page q scope open_issues limit offset =
     [fetch_page_req ''search.json'' (search_query_to_query q scope open_issues) limit offset]"

definition get_issue :: "nat \<Rightarrow> issue_include list \<Rightarrow> 'b rest_op" where
  "get_issue n inc =
     [get_json (''issues/'' @ nat_str n @ ''.json'') (q_opt ''include'' (issue_includes_to_query_value inc) fmempty)]"

definition create_issue :: "'b \<Rightarrow> 'b rest_op" where
  "create_issue new = [post_json ''issues.json'' ''issue'' new]"

definition create_issue_with_attachments :: "'b \<Rightarrow> 'b rest_op" where
  "create_issue_with_attachments new =
     [post_json_with_query ''issues.json'' (fmupd ''include'' ''attachments'' fmempty) ''issue'' new]"

definition update_issue :: "nat \<Rightarrow> 'b \<Rightarrow> 'b rest_op" where
  "update_issue n patch =
     put_json (''issues/'' @ nat_str n @ ''.json'') ''issue'' patch # get_issue n []"

definition delete_issue :: "nat \<Rightarrow> 'b rest_op" where
  "delete_issue n = [delete_req (''issues/'' @ nat_str n @ ''.json'')]"

definition list_relations :: "nat \<Rightarrow> 'b rest_op" where
  "list_relations n = [get_collection_req (''issues/'' @ nat_str n @ ''/relations.json'') fmempty]"

definition create_relation :: "nat \<Rightarrow> 'b \<Rightarrow> 'b rest_op" where
  "create_relation n new =
     [post_json (''issues/'' @ nat_str n @ ''/relations.json'') ''relation'' new]"

definition delete_relation :: "nat \<Rightarrow> 'b rest_op" where
  "delete_relation n = [delete_req (''relations/'' @ nat_str n @ ''.json'')]"

definition add_watcher :: "nat \<Rightarrow> 'b \<Rightarrow> 'b rest_op" where
  "add_watcher n user =
     [post_json_no_content (''issues/'' @ nat_str n @ ''/watchers.json'') ''user_id'' user]"

definition remove_watcher :: "nat \<Rightarrow> nat \<Rightarrow> 'b rest_op" where
  "remove_watcher n user =
     [delete_req (''issues/'' @ nat_str n @ ''/watchers/'' @ nat_str user @ ''.json'')]"

definition update_journal :: "nat \<Rightarrow> 'b \<Rightarrow> 'b rest_op" where
  "update_journal n patch = [put_json (''journals/'' @ nat_str n @ ''.json'') ''journal'' patch]"

definition list_issue_categories :: "project_ident \<Rightarrow> 'b rest_op" where
  "list_issue_categories project =
     [get_json (''projects/'' @ project_ident_str project @ ''/issue_categories.json'') fmempty]"

definition get_issue_category :: "nat \<Rightarrow> 'b rest_op" where
  "get_issue_category n = [get_json (''issue_categories/'' @ nat_str n @ ''.json'') fmempty]"

definition create_issue_category :: "project_ident \<Rightarrow> 'b \<Rightarrow> 'b rest_op" where
  "create_issue_category project new =
     [post_json (''projects/'' @ project_ident_str project @ ''/issue_categories.json'') ''issue_category'' new]"

definition update_issue_category :: "nat \<Rightarrow> 'b \<Rightarrow> 'b rest_op" where
  "update_issue_category n patch =
     put_json (''issue_categories/'' @ nat_str n @ ''.json'') ''issue_category'' patch # get_issue_category n"

definition delete_issue_category :: "nat \<Rightarrow> nat option \<Rightarrow> 'b rest_op" where
  "delete_issue_category n reassign_to_id =
     [delete_with_query (''issue_categories/'' @ nat_str n @ ''.json'')
       (q_opt ''reassign_to_id'' (map_option nat_str reassign_to_id) fmempty)]"

definition list_checklist_items :: "nat \<Rightarrow> 'b rest_op" where
  "list_checklist_items n =
     [get_collection_req (''issues/'' @ nat_str n @ ''/checklists.json'') fmempty]"

definition create_checklist_item :: "nat \<Rightarrow> 'b \<Rightarrow> 'b rest_op" where
  "create_checklist_item n new =
     [post_json (''issues/'' @ nat_str n @ ''/checklists.json'') ''checklist'' new]"

definition update_checklist_item :: "nat \<Rightarrow> 'b \<Rightarrow> 'b rest_op" where
  "update_checklist_item n patch =
     [put_json (''checklists/'' @ nat_str n @ ''.json'') ''checklist'' patch]"

definition get_agile_data :: "nat \<Rightarrow> 'b rest_op" where
  "get_agile_data n =
     [(request GET (''issues/'' @ nat_str n @ ''/agile_data.json'') fmempty NoBody, AsOptional)]"

definition update_agile_data :: "nat \<Rightarrow> 'b \<Rightarrow> 'b rest_op" where
  "update_agile_data n attrs = [put_json (''issues/'' @ nat_str n @ ''.json'') ''issue'' attrs]"

definition list_products :: "project_ident option \<Rightarrow> nat \<Rightarrow> nat \<Rightarrow> 'b rest_op" where
  "list_products po limit offset =
     [fetch_page_req
       (case po of None \<Rightarrow> ''products.json''
        | Some project \<Rightarrow> ''projects/'' @ project_ident_str project @ ''/products.json'') fmempty limit offset]"

definition get_product :: "nat \<Rightarrow> 'b rest_op" where
  "get_product n = [get_json (''products/'' @ nat_str n @ ''.json'') fmempty]"

definition create_product :: "'b \<Rightarrow> 'b rest_op" where
  "create_product new = [post_json ''products.json'' ''product'' new]"

definition update_product :: "nat \<Rightarrow> 'b \<Rightarrow> 'b rest_op" where
  "update_product n patch =
     put_json (''products/'' @ nat_str n @ ''.json'') ''product'' patch # get_product n"

definition list_contacts :: "contact_query \<Rightarrow> nat \<Rightarrow> nat \<Rightarrow> 'b rest_op" where
  "list_contacts cq limit offset =
     [fetch_page_req ''contacts.json'' (contact_query_to_query cq) limit offset]"

definition get_contact :: "nat \<Rightarrow> contact_include list \<Rightarrow> 'b rest_op" where
  "get_contact n inc =
     [get_json (''contacts/'' @ nat_str n @ ''.json'') (q_opt ''include'' (contact_includes_to_query_value inc) fmempty)]"

definition create_contact :: "'b \<Rightarrow> 'b rest_op" where
  "create_contact new = [post_json ''contacts.json'' ''contact'' new]"

definition update_contact :: "nat \<Rightarrow> 'b \<Rightarrow> 'b rest_op" where
  "update_contact n patch =
     put_json (''contacts/'' @ nat_str n @ ''.json'') ''contact'' patch # get_contact n []"

definition delete_contact :: "nat \<Rightarrow> 'b rest_op" where
  "delete_contact n = [delete_req (''contacts/'' @ nat_str n @ ''.json'')]"

definition assign_contact_to_project :: "nat \<Rightarrow> 'b \<Rightarrow> 'b rest_op" where
  "assign_contact_to_project n assoc =
     [post_json_no_content (''contacts/'' @ nat_str n @ ''/projects.json'') ''project'' assoc]"

definition remove_contact_from_project :: "nat \<Rightarrow> project_ident \<Rightarrow> 'b rest_op" where
  "remove_contact_from_project n project =
     [delete_req (''contacts/'' @ nat_str n @ ''/projects/'' @ project_ident_str project @ ''.json'')]"

definition list_time_entries :: "time_entry_query \<Rightarrow> 'b rest_op" where
  "list_time_entries tq = [fetch_all_req ''time_entries.json'' (time_entry_query_to_query tq)]"

definition list_time_entries_page :: "time_entry_query \<Rightarrow> nat \<Rightarrow> nat \<Rightarrow> 'b rest_op" where
  "list_time_entries_page tq limit offset =
     [fetch_page_req ''time_entries.json'' (time_entry_query_to_query tq) limit offset]"

definition create_time_entry :: "'b \<Rightarrow> 'b rest_op" where
  "create_time_entry new = [post_json ''time_entries.json'' ''time_entry'' new]"

definition get_time_entry :: "nat \<Rightarrow> 'b rest_op" where
  "get_time_entry n = [get_json (''time_entries/'' @ nat_str n @ ''.json'') fmempty]"

definition update_time_entry :: "nat \<Rightarrow> 'b \<Rightarrow> 'b rest_op" where
  "update_time_entry n patch =
     put_json (''time_entries/'' @ nat_str n @ ''.json'') ''time_entry'' patch # get_time_entry n"

definition list_time_entry_activities :: "'b rest_op" where
  "list_time_entry_activities =
     [get_collection_req ''enumerations/time_entry_activities.json'' fmempty]"

definition list_trackers :: "'b rest_op" where
  "list_trackers = [get_collection_req ''trackers.json'' fmempty]"

definition list_issue_statuses :: "'b rest_op" where
  "list_issue_statuses = [get_collection_req ''issue_statuses.json'' fmempty]"

definition list_issue_priorities :: "'b rest_op" where
  "list_issue_priorities = [get_collection_req ''enumerations/issue_priorities.json'' fmempty]"

definition list_users :: "user_query \<Rightarrow> nat \<Rightarrow> nat \<Rightarrow> 'b rest_op" where
  "list_users uq limit offset =
     [fetch_page_req ''users.json'' (user_query_to_query uq) limit offset]"

definition list_saved_queries :: "'b rest_op" where
  "list_saved_queries = [fetch_all_req ''queries.json'' fmempty]"

definition list_versions :: "project_ident \<Rightarrow> 'b rest_op" where
  "list_versions project =
     [get_json (''projects/'' @ project_ident_str project @ ''/versions.json'') fmempty]"

definition get_version :: "nat \<Rightarrow> 'b rest_op" where
  "get_version n = [get_json (''versions/'' @ nat_str n @ ''.json'') fmempty]"

definition create_version :: "project_ident \<Rightarrow> 'b \<Rightarrow> 'b rest_op" where
  "create_version project new =
     [post_json (''projects/'' @ project_ident_str project @ ''/versions.json'') ''version'' new]"

definition update_version :: "nat \<Rightarrow> 'b \<Rightarrow> 'b rest_op" where
  "update_version n patch =
     put_json (''versions/'' @ nat_str n @ ''.json'') ''version'' patch # get_version n"

definition delete_version :: "nat \<Rightarrow> 'b rest_op" where
  "delete_version n = [delete_req (''versions/'' @ nat_str n @ ''.json'')]"

definition list_memberships :: "project_ident \<Rightarrow> 'b rest_op" where
  "list_memberships project =
     [fetch_all_req (''projects/'' @ project_ident_str project @ ''/memberships.json'') fmempty]"

definition get_membership :: "nat \<Rightarrow> 'b rest_op" where
  "get_membership n = [get_json (''memberships/'' @ nat_str n @ ''.json'') fmempty]"

definition create_membership :: "project_ident \<Rightarrow> 'b \<Rightarrow> 'b rest_op" where
  "create_membership project new =
     [post_json (''projects/'' @ project_ident_str project @ ''/memberships.json'') ''membership'' new]"

definition update_membership :: "nat \<Rightarrow> 'b \<Rightarrow> 'b rest_op" where
  "update_membership n patch =
     put_json (''memberships/'' @ nat_str n @ ''.json'') ''membership'' patch # get_membership n"

definition delete_membership :: "nat \<Rightarrow> 'b rest_op" where
  "delete_membership n = [delete_req (''memberships/'' @ nat_str n @ ''.json'')]"

definition list_roles :: "'b rest_op" where
  "list_roles = [get_collection_req ''roles.json'' fmempty]"

definition list_custom_field_definitions :: "'b rest_op" where
  "list_custom_field_definitions = [get_collection_req ''custom_fields.json'' fmempty]"

definition search_entire_page :: "string \<Rightarrow> search_resource list \<Rightarrow> nat \<Rightarrow> nat \<Rightarrow> 'b rest_op" where
  "search_entire_page q resources limit offset =
     [fetch_page_req ''search.json'' (entire_search_to_query q resources) limit offset]"

definition list_wiki_pages :: "project_ident \<Rightarrow> 'b rest_op" where
  "list_wiki_pages project =
     [get_collection_req (''projects/'' @ project_ident_str project @ ''/wiki/index.json'') fmempty]"

definition get_wiki_page :: "project_ident \<Rightarrow> string \<Rightarrow> nat option \<Rightarrow> bool \<Rightarrow> 'b rest_op" where
  "get_wiki_page project segment version include_attachments =
     [get_json
       (case version of
          None \<Rightarrow> ''projects/'' @ project_ident_str project @ ''/wiki/'' @ segment @ ''.json''
        | Some v \<Rightarrow> ''projects/'' @ project_ident_str project @ ''/wiki/'' @ segment @ ''/'' @ nat_str v @ ''.json'')
       (if include_attachments then fmupd ''include'' ''attachments'' fmempty else fmempty)]"

definition write_wiki_page :: "project_ident \<Rightarrow> string \<Rightarrow> 'b \<Rightarrow> 'b rest_op" where
  "write_wiki_page project segment w =
     [put_json (''projects/'' @ project_ident_str project @ ''/wiki/'' @ segment @ ''.json'') ''wiki_page'' w]"

definition upsert_wiki_page :: "project_ident \<Rightarrow> string \<Rightarrow> 'b \<Rightarrow> 'b rest_op" where
  "upsert_wiki_page project segment w =
     write_wiki_page project segment w @ get_wiki_page project segment None False"

definition delete_wiki_page :: "project_ident \<Rightarrow> string \<Rightarrow> 'b rest_op" where
  "delete_wiki_page project segment =
     [delete_req (''projects/'' @ project_ident_str project @ ''/wiki/'' @ segment @ ''.json'')]"

definition get_attachment :: "nat \<Rightarrow> 'b rest_op" where
  "get_attachment n = [get_json (''attachments/'' @ nat_str n @ ''.json'') fmempty]"

definition delete_attachment :: "nat \<Rightarrow> 'b rest_op" where
  "delete_attachment n = [delete_req (''attachments/'' @ nat_str n @ ''.json'')]"

definition list_project_files :: "project_ident \<Rightarrow> 'b rest_op" where
  "list_project_files project =
     [get_collection_req (''projects/'' @ project_ident_str project @ ''/files.json'') fmempty]"

definition create_upload :: "'b \<Rightarrow> string option \<Rightarrow> string option \<Rightarrow> 'b rest_op" where
  "create_upload body filename content_type =
     [post_bytes ''uploads.json'' (q_opt ''content_type'' content_type (q_opt ''filename'' filename fmempty))
       ''application/octet-stream'' body]"

definition create_project_file :: "project_ident \<Rightarrow> 'b \<Rightarrow> 'b rest_op" where
  "create_project_file project new =
     [post_json_no_content (''projects/'' @ project_ident_str project @ ''/files.json'') ''file'' new]"

definition list_dmsf_nodes :: "project_ident \<Rightarrow> nat option \<Rightarrow> nat \<Rightarrow> nat \<Rightarrow> 'b rest_op" where
  "list_dmsf_nodes project folder_id limit offset =
     [get_json (''projects/'' @ project_ident_str project @ ''/dmsf.json'')
       (q_opt ''folder_id'' (map_option nat_str folder_id)
         (fmupd ''offset'' (nat_str offset) (fmupd ''limit'' (nat_str limit) fmempty)))]"

definition get_dmsf_file :: "nat \<Rightarrow> 'b rest_op" where
  "get_dmsf_file n = [get_json (''dmsf_files/'' @ nat_str n @ ''.json'') fmempty]"

definition commit_dmsf_upload :: "project_ident \<Rightarrow> 'b \<Rightarrow> 'b rest_op" where
  "commit_dmsf_upload project env =
     [post_json (''projects/'' @ project_ident_str project @ ''/dmsf/commit.json'') ''attachments'' env]"

definition create_dmsf_revision :: "nat \<Rightarrow> 'b \<Rightarrow> 'b rest_op" where
  "create_dmsf_revision n req =
     [post_json_no_content (''dmsf/files/'' @ nat_str n @ ''/revision/create.json'') ''dmsf_file_revision'' req]"

section \<open>The surface\<close>

text \<open>
  The operations a tool can call, with what the types of their arguments guarantee: project
  identifiers that passed validation, and a wiki segment as its encoder gives it. The read
  operations, the write operations and those of the OAuth client.
\<close>

inductive read_op :: "'b rest_op \<Rightarrow> bool" where
  current_user: "read_op current_user"
| list_projects: "read_op (list_projects extra)"
| get_project: "wf_ident project \<Longrightarrow> read_op (get_project project inc)"
| list_issues: "read_op (list_issues iq)"
| list_issues_page: "read_op (list_issues_page iq limit offset)"
| list_issues_by_id: "read_op (list_issues_by_id ids)"
| list_subtasks: "read_op (list_subtasks parent)"
| search_issues_page: "read_op (search_issues_page q scope open_issues limit offset)"
| get_issue: "read_op (get_issue n inc)"
| list_relations: "read_op (list_relations n)"
| list_issue_categories: "wf_ident project \<Longrightarrow> read_op (list_issue_categories project)"
| get_issue_category: "read_op (get_issue_category n)"
| list_checklist_items: "read_op (list_checklist_items n)"
| get_agile_data: "read_op (get_agile_data n)"
| list_products: "pred_option wf_ident po \<Longrightarrow> read_op (list_products po limit offset)"
| get_product: "read_op (get_product n)"
| list_contacts: "read_op (list_contacts cq limit offset)"
| get_contact: "read_op (get_contact n inc)"
| list_time_entries: "read_op (list_time_entries tq)"
| list_time_entries_page: "read_op (list_time_entries_page tq limit offset)"
| get_time_entry: "read_op (get_time_entry n)"
| list_time_entry_activities: "read_op list_time_entry_activities"
| list_trackers: "read_op list_trackers"
| list_issue_statuses: "read_op list_issue_statuses"
| list_issue_priorities: "read_op list_issue_priorities"
| list_users: "read_op (list_users uq limit offset)"
| list_saved_queries: "read_op list_saved_queries"
| list_versions: "wf_ident project \<Longrightarrow> read_op (list_versions project)"
| get_version: "read_op (get_version n)"
| list_memberships: "wf_ident project \<Longrightarrow> read_op (list_memberships project)"
| get_membership: "read_op (get_membership n)"
| list_roles: "read_op list_roles"
| list_custom_field_definitions: "read_op list_custom_field_definitions"
| search_entire_page: "read_op (search_entire_page q resources limit offset)"
| list_wiki_pages: "wf_ident project \<Longrightarrow> read_op (list_wiki_pages project)"
| get_wiki_page: "wf_ident project \<Longrightarrow> segment_ok segment \<Longrightarrow> read_op (get_wiki_page project segment version include_attachments)"
| get_attachment: "read_op (get_attachment n)"
| list_project_files: "wf_ident project \<Longrightarrow> read_op (list_project_files project)"
| list_dmsf_nodes: "wf_ident project \<Longrightarrow> read_op (list_dmsf_nodes project folder_id limit offset)"
| get_dmsf_file: "read_op (get_dmsf_file n)"

inductive write_op :: "'b rest_op \<Rightarrow> bool" where
  create_issue: "write_op (create_issue new)"
| create_issue_with_attachments: "write_op (create_issue_with_attachments new)"
| update_issue: "write_op (update_issue n patch)"
| delete_issue: "write_op (delete_issue n)"
| create_relation: "write_op (create_relation n new)"
| delete_relation: "write_op (delete_relation n)"
| add_watcher: "write_op (add_watcher n user)"
| remove_watcher: "write_op (remove_watcher n user)"
| update_journal: "write_op (update_journal n patch)"
| create_issue_category: "wf_ident project \<Longrightarrow> write_op (create_issue_category project new)"
| update_issue_category: "write_op (update_issue_category n patch)"
| delete_issue_category: "write_op (delete_issue_category n reassign_to_id)"
| create_checklist_item: "write_op (create_checklist_item n new)"
| update_checklist_item: "write_op (update_checklist_item n patch)"
| update_agile_data: "write_op (update_agile_data n attrs)"
| create_product: "write_op (create_product new)"
| update_product: "write_op (update_product n patch)"
| create_contact: "write_op (create_contact new)"
| update_contact: "write_op (update_contact n patch)"
| delete_contact: "write_op (delete_contact n)"
| assign_contact_to_project: "write_op (assign_contact_to_project n assoc)"
| remove_contact_from_project: "wf_ident project \<Longrightarrow> write_op (remove_contact_from_project n project)"
| create_time_entry: "write_op (create_time_entry new)"
| update_time_entry: "write_op (update_time_entry n patch)"
| create_version: "wf_ident project \<Longrightarrow> write_op (create_version project new)"
| update_version: "write_op (update_version n patch)"
| delete_version: "write_op (delete_version n)"
| create_membership: "wf_ident project \<Longrightarrow> write_op (create_membership project new)"
| update_membership: "write_op (update_membership n patch)"
| delete_membership: "write_op (delete_membership n)"
| write_wiki_page: "wf_ident project \<Longrightarrow> segment_ok segment \<Longrightarrow> write_op (write_wiki_page project segment w)"
| upsert_wiki_page: "wf_ident project \<Longrightarrow> segment_ok segment \<Longrightarrow> write_op (upsert_wiki_page project segment w)"
| delete_wiki_page: "wf_ident project \<Longrightarrow> segment_ok segment \<Longrightarrow> write_op (delete_wiki_page project segment)"
| delete_attachment: "write_op (delete_attachment n)"
| create_upload: "write_op (create_upload body filename content_type)"
| create_project_file: "wf_ident project \<Longrightarrow> write_op (create_project_file project new)"
| commit_dmsf_upload: "wf_ident project \<Longrightarrow> write_op (commit_dmsf_upload project env)"
| create_dmsf_revision: "write_op (create_dmsf_revision n req)"

inductive oauth_op :: "'b rest_op \<Rightarrow> bool" where
  introspect_token: "oauth_op (introspect_token token)"
| revoke_token: "oauth_op (revoke_token token hint)"
| exchange_authorization_code: "oauth_op (exchange_authorization_code code redirect_uri code_verifier)"
| refresh_access_token: "oauth_op (refresh_access_token refresh_token)"

lemmas rest_op_defs =
  current_user_def introspect_token_def revoke_token_def exchange_authorization_code_def
  refresh_access_token_def list_projects_def get_project_def list_issues_def list_issues_page_def
  list_issues_by_id_def list_subtasks_def search_issues_page_def get_issue_def create_issue_def
  create_issue_with_attachments_def update_issue_def delete_issue_def list_relations_def
  create_relation_def delete_relation_def add_watcher_def remove_watcher_def update_journal_def
  list_issue_categories_def get_issue_category_def create_issue_category_def update_issue_category_def
  delete_issue_category_def list_checklist_items_def create_checklist_item_def update_checklist_item_def
  get_agile_data_def update_agile_data_def list_products_def get_product_def create_product_def
  update_product_def list_contacts_def get_contact_def create_contact_def update_contact_def
  delete_contact_def assign_contact_to_project_def remove_contact_from_project_def list_time_entries_def
  list_time_entries_page_def create_time_entry_def get_time_entry_def update_time_entry_def
  list_time_entry_activities_def list_trackers_def list_issue_statuses_def list_issue_priorities_def
  list_users_def list_saved_queries_def list_versions_def get_version_def create_version_def
  update_version_def delete_version_def list_memberships_def get_membership_def create_membership_def
  update_membership_def delete_membership_def list_roles_def list_custom_field_definitions_def
  search_entire_page_def list_wiki_pages_def get_wiki_page_def write_wiki_page_def upsert_wiki_page_def
  delete_wiki_page_def get_attachment_def delete_attachment_def list_project_files_def create_upload_def
  create_project_file_def list_dmsf_nodes_def get_dmsf_file_def commit_dmsf_upload_def
  create_dmsf_revision_def

lemmas rest_req_defs =
  get_json_def post_json_def post_json_with_query_def post_form_def post_form_json_def put_json_def delete_req_def
  delete_with_query_def post_json_no_content_def post_bytes_def fetch_all_req_def fetch_page_req_def
  get_collection_req_def request_def

section \<open>Lemmas\<close>

text \<open>What every request of an operation has to satisfy.\<close>

definition reads_only :: "'b rest_op \<Rightarrow> bool" where
  "reads_only op \<longleftrightarrow> (\<forall>r \<in> set op. rr_method (fst r) = GET \<and> rr_body (fst r) = NoBody)"

definition paths_ok :: "'b rest_op \<Rightarrow> bool" where
  "paths_ok op \<longleftrightarrow> (\<forall>r \<in> set op. path_ok (rr_path (fst r)))"

lemmas nat_str_path [simp] = plainD [OF plain_nat_str]
lemmas ident_path = plainD [OF plain_ident]
lemmas path_eval = path_ok_def is_control_char_def byte_of_def

lemma nat_str_control: "c \<in> set (nat_str n) \<Longrightarrow> \<not> (of_char c < (32 :: nat) \<or> of_char c = (127 :: nat))"
  using nat_str_path(8) [of n] by (auto simp: is_control_char_def byte_of_def)

lemma ident_control: "wf_ident p \<Longrightarrow> c \<in> set (project_ident_str p) \<Longrightarrow> \<not> (of_char c < (32 :: nat) \<or> of_char c = (127 :: nat))"
  using ident_path(8) [of p] by (auto simp: is_control_char_def byte_of_def)

lemma segment_control: "segment_ok s \<Longrightarrow> c \<in> set s \<Longrightarrow> \<not> (of_char c < (32 :: nat) \<or> of_char c = (127 :: nat))"
  using segment_okD(7) [of s] by (auto simp: is_control_char_def byte_of_def)

lemmas path_dests = nat_str_control ident_control segment_control segment_okD

lemma read_op_paths: "read_op op \<Longrightarrow> paths_ok op"
  by (induction rule: read_op.induct)
    (auto simp: paths_ok_def rest_op_defs rest_req_defs path_eval ident_path hd_append
      dest: path_dests split: option.splits)

lemma write_op_paths: "write_op op \<Longrightarrow> paths_ok op"
  by (induction rule: write_op.induct)
    (auto simp: paths_ok_def rest_op_defs rest_req_defs path_eval ident_path hd_append
      dest: path_dests split: option.splits)

lemma oauth_op_paths: "oauth_op op \<Longrightarrow> paths_ok op"
  by (induction rule: oauth_op.induct)
    (auto simp: paths_ok_def rest_op_defs rest_req_defs path_eval split: option.splits)

lemma read_op_reads: "read_op op \<Longrightarrow> reads_only op"
  by (induction rule: read_op.induct) (simp_all add: reads_only_def rest_op_defs rest_req_defs)

lemma write_op_writes: "write_op op \<Longrightarrow> op \<noteq> [] \<and> rr_method (fst (hd op)) \<noteq> GET \<and> reads_only (tl op)"
  by (induction rule: write_op.induct) (simp_all add: reads_only_def rest_op_defs rest_req_defs)

lemma endpoint_accepts: "path_ok p \<Longrightarrow> url_join p \<noteq> None \<Longrightarrow> \<exists>u. endpoint url_join p = Inr u"
  by (cases "url_join p") (simp_all add: endpoint_path_ok)

lemma run_op_spec:
  assumes "run_op url_join exchange v op = (res, sent)" and "paths_ok op" and "\<And>p. path_ok p \<Longrightarrow> url_join p \<noteq> None"
  shows "\<exists>k \<le> length op. sent = map fst (take k op) \<and>
    (\<forall>i < k - 1. \<exists>w. exchange (op ! i) = Inr w) \<and>
    (case res of
       Inr w \<Rightarrow> k = length op \<and> (if op = [] then w = v else exchange (last op) = Inr w)
     | Inl e \<Rightarrow> 0 < k \<and> exchange (op ! (k - 1)) = Inl e)"
  using assms
proof (induction op arbitrary: v res sent)
  case (Cons r rs)
  obtain u where u: "endpoint url_join (rr_path (fst r)) = Inr u"
    using Cons.prems(2) Cons.prems(3) [of "rr_path (fst r)"] endpoint_accepts [of "rr_path (fst r)" url_join]
    by (auto simp: paths_ok_def)
  show ?case
  proof (cases "exchange r")
    case (Inl e)
    then have "res = Inl e" "sent = [fst r]" using Cons.prems(1) u by auto
    then show ?thesis using Inl by (intro exI [of _ 1]) simp
  next
    case (Inr w)
    obtain res' sent' where r': "run_op url_join exchange w rs = (res', sent')" by (cases "run_op url_join exchange w rs")
    then have rs: "res = res'" "sent = fst r # sent'" using Cons.prems(1) u Inr by auto
    obtain k where k: "k \<le> length rs" "sent' = map fst (take k rs)" "\<forall>i < k - 1. \<exists>w. exchange (rs ! i) = Inr w"
      "case res' of Inr x \<Rightarrow> k = length rs \<and> (if rs = [] then x = w else exchange (last rs) = Inr x)
       | Inl e \<Rightarrow> 0 < k \<and> exchange (rs ! (k - 1)) = Inl e"
      using Cons.IH [OF r'] Cons.prems(2,3) by (auto simp: paths_ok_def)
    have "\<exists>w. exchange ((r # rs) ! i) = Inr w" if "i < Suc k - 1" for i
      using that k(3,4) Inr by (cases i) auto
    then show ?thesis
      using k rs Inr by (intro exI [of _ "Suc k"]) (auto simp: nth_Cons split: sum.splits nat.splits)
  qed
qed simp

section \<open>Properties\<close>

text \<open>
  No caller can steer a request off its route. Whatever ids, validated project identifiers,
  queries, payloads and wiki segments an operation of the client is given, every request it makes
  has a path that the guard accepts: relative, without \<^verbatim>\<open>..\<close>, \<^verbatim>\<open>//\<close> or control characters. What
  leaves the client is an initial part of the operation's requests, up to the first one that
  fails, and the result is the answer to the last one sent.
\<close>

theorem rest_paths_accepted:
  assumes "read_op op \<or> write_op op \<or> oauth_op op" and "\<And>p. path_ok p \<Longrightarrow> url_join p \<noteq> None"
    and "run_op url_join exchange v op = (res, sent)"
  shows "(\<forall>r \<in> set op. \<exists>u. endpoint url_join (rr_path (fst r)) = Inr u) \<and>
    (\<exists>k \<le> length op. sent = map fst (take k op) \<and> (\<forall>i < k - 1. \<exists>w. exchange (op ! i) = Inr w) \<and>
       (case res of
          Inr w \<Rightarrow> k = length op \<and> (if op = [] then w = v else exchange (last op) = Inr w)
        | Inl e \<Rightarrow> 0 < k \<and> exchange (op ! (k - 1)) = Inl e))"
proof -
  have p: "paths_ok op" using assms(1) read_op_paths write_op_paths oauth_op_paths by blast
  then have "\<exists>u. endpoint url_join (rr_path (fst r)) = Inr u" if "r \<in> set op" for r
    using assms(2) that endpoint_accepts [of "rr_path (fst r)"] by (auto simp: paths_ok_def)
  then show ?thesis using run_op_spec [OF assms(3) p assms(2)] by blast
qed

definition example_base :: url where
  "example_base = \<lparr>url_scheme = ''https'', url_username = [], url_password = None, url_host_str = Some ''r'',
     url_port_or_known_default = Some 443, url_path = ''/'', url_fragment = None\<rparr>"

theorem rest_paths_accepted_witness:
  "\<exists>u. endpoint (\<lambda>_. Some example_base) (rr_path (fst (hd (delete_version 7 :: unit rest_op)))) = Inr u"
  using rest_paths_accepted [where url_join = "\<lambda>_. Some example_base" and exchange = "\<lambda>_. Inr ()" and v = "()",
      OF disjI2 [OF disjI1 [OF write_op.delete_version [of 7, where 'b = unit]]] _ prod.collapse [symmetric], THEN conjunct1]
  by (simp add: delete_version_def)

text \<open>
  Reading never writes. Every operation of the read surface makes GET requests without a body
  only; an operation that writes makes exactly one writing request, its first, and what follows
  re-reads the resource. So a failed write is never followed by another request.
\<close>

theorem rest_reads_never_write:
  "(read_op op \<longrightarrow> (\<forall>r \<in> set op. rr_method (fst r) = GET \<and> rr_body (fst r) = NoBody)) \<and>
   (write_op op \<longrightarrow> op \<noteq> [] \<and> rr_method (fst (hd op)) \<noteq> GET \<and>
      (\<forall>r \<in> set (tl op). rr_method (fst r) = GET \<and> rr_body (fst r) = NoBody))"
  using read_op_reads [of op] write_op_writes [of op] by (auto simp: reads_only_def)

theorem rest_reads_never_write_witness:
  "rr_method (fst (hd (update_version 7 () :: unit rest_op))) \<noteq> GET"
  using rest_reads_never_write [THEN conjunct2, THEN mp, OF write_op.update_version [of 7 "()"], THEN conjunct2, THEN conjunct1] .

text \<open>
  A wiki title that ends with a dot is accepted by validation and then refused by the path
  guard, because the dot meets that of \<^verbatim>\<open>.json\<close>: the page cannot be read, written or deleted, and
  no request is sent.
\<close>

theorem wiki_title_trailing_dot:
  assumes "segment_encoder enc" and "wiki_title_new t = Inr t" and "last t = 46" and "t \<noteq> [46]"
  shows "run_op url_join exchange v (get_wiki_page project (enc t) None ia) = (Inl (EConfig ''path must not contain .. or //''), []) \<and>
    run_op url_join exchange v (write_wiki_page project (enc t) w) = (Inl (EConfig ''path must not contain .. or //''), []) \<and>
    run_op url_join exchange v (delete_wiki_page project (enc t)) = (Inl (EConfig ''path must not contain .. or //''), [])"
proof -
  have "enc t \<noteq> []" "last (enc t) = CHR ''.''" using assms by (auto simp: segment_encoder_def)
  then have "contains (''projects/'' @ project_ident_str project @ ''/wiki/'' @ enc t @ ''.json'') ''..''"
    unfolding contains_pair by simp
  moreover have "\<not> starts_with (''projects/'' @ project_ident_str project @ ''/wiki/'' @ enc t @ ''.json'') ''/''"
    by (simp add: starts_with_def)
  ultimately show ?thesis
    by (simp add: get_wiki_page_def write_wiki_page_def delete_wiki_page_def rest_req_defs endpoint_def)
qed

definition example_enc :: "ustr \<Rightarrow> string" where
  "example_enc t = map (\<lambda>c. if c = 46 then CHR ''.'' else CHR ''x'') t"

lemma example_enc_adjacent: "adjacent CHR ''.'' (example_enc t) \<longleftrightarrow> adjacent 46 t"
  by (induction t) (auto simp: example_enc_def hd_map split: if_splits)

lemma example_enc_ok: "segment_encoder example_enc"
  unfolding segment_encoder_def
proof (intro allI impI conjI ballI)
  fix t :: ustr assume t: "wiki_title_new t = Inr t"
  then have ne: "t \<noteq> []" by (auto simp: wiki_title_new_def)
  show "\<not> adjacent CHR ''.'' (example_enc t)"
    unfolding example_enc_adjacent using t by (auto simp: wiki_title_new_def split: if_splits)
  show "example_enc t \<noteq> []" "CHR ''/'' \<notin> set (example_enc t)" "(last (example_enc t) = CHR ''.'') = (last t = 46)"
    using ne by (auto simp: example_enc_def last_map)
  show "\<not> is_control_char c" if "c \<in> set (example_enc t)" for c
    using that by (auto simp: example_enc_def is_control_char_def byte_of_def split: if_splits)
qed

theorem wiki_title_trailing_dot_witness:
  "snd (run_op (\<lambda>_. Some example_base) (\<lambda>_. Inr ()) () (delete_wiki_page (ProjectId 1) (example_enc [69, 46]) :: unit rest_op)) = []"
  using wiki_title_trailing_dot [OF example_enc_ok, of "[69, 46]" "\<lambda>_. Some example_base" "\<lambda>_. Inr ()" "()" "ProjectId 1" True "()"]
  by (simp add: wiki_title_new_def is_control_def BIDI_CONTROLS_def)

end
