(* ===== verification/Json.thy ===== *)
theory Json
  imports Prelude "HOL-Library.List_Lexorder" "HOL-Library.Char_ord"
begin

text \<open>
  JSON values as the sources use them (\<^verbatim>\<open>serde_json::Value\<close>). An object is a \<^verbatim>\<open>BTreeMap\<close>: a list of
  entries with strictly increasing keys, in the byte order of Rust strings. The compact printer
  gives the bytes that go out; the text of a floating-point number is an argument.
\<close>

datatype json =
    JNull
  | JBool bool
  | JInt int
  | JFloat rat
  | JStr string
  | JArr "json list"
  | JObj "(string \<times> json) list"

type_synonym json_object = "(string \<times> json) list"

section \<open>Access\<close>

fun as_str :: "json \<Rightarrow> string option" where
  "as_str (JStr s) = Some s"
| "as_str _ = None"

fun as_array :: "json \<Rightarrow> json list option" where
  "as_array (JArr xs) = Some xs"
| "as_array _ = None"

fun as_object :: "json \<Rightarrow> json_object option" where
  "as_object (JObj m) = Some m"
| "as_object _ = None"

definition contains_key :: "json_object \<Rightarrow> string \<Rightarrow> bool" where
  "contains_key m k \<longleftrightarrow> map_of m k \<noteq> None"

fun obj_insert :: "string \<Rightarrow> json \<Rightarrow> json_object \<Rightarrow> json_object" where
  "obj_insert k v [] = [(k, v)]"
| "obj_insert k v ((k', v') # m) =
     (if k < k' then (k, v) # (k', v') # m
      else if k = k' then (k, v) # m
      else (k', v') # obj_insert k v m)"

definition obj_of :: "(string \<times> json) list \<Rightarrow> json_object" where
  "obj_of kvs = foldl (\<lambda>m (k, v). obj_insert k v m) [] kvs"

section \<open>Printing\<close>

definition hex_lower :: "nat \<Rightarrow> char" where
  "hex_lower d = (if d < 10 then char_of (48 + d) else char_of (87 + d))"

definition escape_char :: "char \<Rightarrow> string" where
  "escape_char c =
     (let n = byte_of c in
      if n = 34 then [char_of (92 :: nat), char_of (34 :: nat)]
      else if n = 92 then [char_of (92 :: nat), char_of (92 :: nat)]
      else if n = 8 then [char_of (92 :: nat), CHR ''b'']
      else if n = 9 then [char_of (92 :: nat), CHR ''t'']
      else if n = 10 then [char_of (92 :: nat), CHR ''n'']
      else if n = 12 then [char_of (92 :: nat), CHR ''f'']
      else if n = 13 then [char_of (92 :: nat), CHR ''r'']
      else if n < 32 then [char_of (92 :: nat), CHR ''u'', CHR ''0'', CHR ''0'', hex_lower (n div 16), hex_lower (n mod 16)]
      else [c])"

definition print_str :: "string \<Rightarrow> string" where
  "print_str s = [char_of (34 :: nat)] @ concat (map escape_char s) @ [char_of (34 :: nat)]"

definition int_str :: "int \<Rightarrow> string" where
  "int_str i = (if i < 0 then ''-'' @ nat_str (nat (- i)) else nat_str (nat i))"

fun print_json :: "(rat \<Rightarrow> string) \<Rightarrow> json \<Rightarrow> string" where
  "print_json ff JNull = ''null''"
| "print_json ff (JBool b) = (if b then ''true'' else ''false'')"
| "print_json ff (JInt i) = int_str i"
| "print_json ff (JFloat r) = ff r"
| "print_json ff (JStr s) = print_str s"
| "print_json ff (JArr xs) = ''['' @ join '','' (map (print_json ff) xs) @ '']''"
| "print_json ff (JObj m) =
     ''{'' @ join '','' (map (\<lambda>kv. print_str (fst kv) @ '':'' @ print_json ff (snd kv)) m) @ ''}''"

section \<open>Lemmas\<close>

text \<open>An object keeps its keys in order: the representation invariant of the map.\<close>

definition wf_obj :: "json_object \<Rightarrow> bool" where
  "wf_obj m \<longleftrightarrow> sorted_wrt (<) (map fst m)"

lemma obj_insert_keys: "set (map fst (obj_insert k v m)) = insert k (set (map fst m))"
  by (induction k v m rule: obj_insert.induct) auto

lemma wf_obj_insert: "wf_obj m \<Longrightarrow> wf_obj (obj_insert k v m)"
proof (induction k v m rule: obj_insert.induct)
  case (2 k v k' v' m)
  then have "\<forall>x \<in> set (map fst (obj_insert k v m)). k' < x" if "\<not> k < k'" "k \<noteq> k'"
    using that by (auto simp: wf_obj_def obj_insert_keys simp del: set_map)
  with 2 show ?case by (auto simp: wf_obj_def)
qed (simp add: wf_obj_def)

lemma map_of_obj_insert: "wf_obj m \<Longrightarrow> map_of (obj_insert k v m) k' = (if k' = k then Some v else map_of m k')"
proof (induction k v m rule: obj_insert.induct)
  case (2 k v k1 v1 m)
  have "map_of m k = None" if "k < k1"
    using 2(2) that by (force simp: wf_obj_def map_of_eq_None_iff)
  with 2 show ?case by (auto simp: wf_obj_def)
qed simp

lemma length_join: "length (join sep xs) = sum_list (map length xs) + (length xs - 1) * length sep"
proof (induction sep xs rule: join.induct)
  case (3 sep x y xs)
  then show ?case by (cases xs) (simp_all add: algebra_simps)
qed simp_all

lemma length_join_take: "length (join sep (take j xs)) \<le> length (join sep (take k xs))" if "j \<le> k"
proof -
  have eq: "take k xs = take j xs @ drop j (take k xs)"
    using that by (metis append_take_drop_id min.absorb1 take_take)
  have len: "min (length xs) j - 1 \<le> min (length xs) k - 1" using that by auto
  have "sum_list (map length (take j xs)) \<le> sum_list (map length (take k xs))"
    by (subst eq) simp
  moreover have "(length (take j xs) - 1) * length sep \<le> (length (take k xs) - 1) * length sep"
    using len by (intro mult_right_mono) auto
  ultimately show ?thesis unfolding length_join by (rule add_mono)
qed

end
