(* ===== verification/Output_Caps.thy ===== *)
theory Output_Caps
  imports Json Http_Client
begin

text \<open>
  What a tool returns (\<^verbatim>\<open>tools/output.rs\<close>, \<^verbatim>\<open>error.rs\<close>): the pagination block of a list, the caps on
  the size of a response with their binary search, the error envelope and the mapping from Redmine
  errors to it. Values are changed in place in the source; here each step returns the new value.
  The loops over \<^verbatim>\<open>pop\<close> and \<^verbatim>\<open>push\<close> are recursive functions on the array and the spare buffer.
\<close>

section \<open>Pagination\<close>

record pagination =
  pn_total :: nat
  pn_limit :: nat
  pn_offset :: nat
  pn_has_next :: bool
  pn_has_previous :: bool
  pn_next_offset :: "nat option"
  pn_previous_offset :: "nat option"
  pn_truncated :: bool
  pn_hint :: "string option"

definition from_page :: "'a page \<Rightarrow> pagination" where
  "from_page pg =
     (let collected_end = sat_add (pg_offset pg) (length (pg_items pg));
          has_next = (collected_end < pg_total_count pg);
          has_previous = (pg_offset pg > 0)
      in \<lparr>pn_total = pg_total_count pg, pn_limit = pg_limit pg, pn_offset = pg_offset pg,
          pn_has_next = has_next, pn_has_previous = has_previous,
          pn_next_offset = (if has_next then Some collected_end else None),
          pn_previous_offset = (if has_previous then Some (pg_offset pg - pg_limit pg) else None),
          pn_truncated = pg_truncated pg, pn_hint = None\<rparr>)"

section \<open>Caps\<close>

record output_caps =
  oc_max_items :: nat
  oc_max_bytes :: nat

definition TRUNCATION_HINT :: string where
  "TRUNCATION_HINT = ''response truncated to fit REDMINE_MCP_MAX_RESPONSE_ITEMS/_BYTES; narrow the query if this tool supports filtering''"

text \<open>The first array among the values of an object, and the object with that array replaced.\<close>

fun find_array :: "json_object \<Rightarrow> json list option" where
  "find_array [] = None"
| "find_array ((k, JArr xs) # m) = Some xs"
| "find_array ((k, v) # m) = find_array m"

fun replace_array :: "json list \<Rightarrow> json_object \<Rightarrow> json_object" where
  "replace_array ys [] = []"
| "replace_array ys ((k, JArr xs) # m) = (k, JArr ys) # m"
| "replace_array ys ((k, v) # m) = (k, v) # replace_array ys m"

definition top_level_array :: "json \<Rightarrow> json list option" where
  "top_level_array v = (case v of JObj m \<Rightarrow> find_array m | _ \<Rightarrow> None)"

definition put_array :: "json list \<Rightarrow> json \<Rightarrow> json" where
  "put_array ys v = (case v of JObj m \<Rightarrow> JObj (replace_array ys m) | _ \<Rightarrow> v)"

definition serialized_len :: "(rat \<Rightarrow> string) \<Rightarrow> json \<Rightarrow> nat" where
  "serialized_len ff v = length (print_json ff v)"

text \<open>The two loops of \<open>set_prefix\<close>; the top of the spare buffer is the head of the list.\<close>

function shrink_to :: "nat \<Rightarrow> 'a list \<Rightarrow> 'a list \<Rightarrow> 'a list \<times> 'a list" where
  "shrink_to k xs spare = (if length xs > k then shrink_to k (butlast xs) (last xs # spare) else (xs, spare))"
  by pat_completeness auto

termination
  by (relation "measure (\<lambda>(k, xs, spare). length xs)") auto

fun grow_to :: "nat \<Rightarrow> 'a list \<Rightarrow> 'a list \<Rightarrow> 'a list \<times> 'a list" where
  "grow_to k xs [] = (xs, [])"
| "grow_to k xs (x # spare) = (if length xs < k then grow_to k (xs @ [x]) spare else (xs, x # spare))"

definition set_prefix :: "nat \<Rightarrow> json \<times> json list \<Rightarrow> json \<times> json list" where
  "set_prefix k vs =
     (case vs of (v, spare) \<Rightarrow>
        (case top_level_array v of
           None \<Rightarrow> (v, spare)
         | Some xs \<Rightarrow>
             (case shrink_to k xs spare of (xs1, spare1) \<Rightarrow>
                (case grow_to k xs1 spare1 of (xs2, spare2) \<Rightarrow> (put_array xs2 v, spare2)))))"

text \<open>
  The binary search: the value and the spare buffer, and the bound found. The source writes the
  new lower bound with a saturating addition, which cannot saturate below \<open>hi\<close>.
\<close>

function cap_search ::
    "(rat \<Rightarrow> string) \<Rightarrow> nat \<Rightarrow> json \<times> json list \<Rightarrow> nat \<Rightarrow> nat \<Rightarrow> (json \<times> json list) \<times> nat" where
  "cap_search ff max_bytes vs lo hi =
     (if lo < hi then
        (let mid = (lo + hi) div 2; vs1 = set_prefix mid vs
         in if serialized_len ff (fst vs1) \<le> max_bytes then cap_search ff max_bytes vs1 (mid + 1) hi
            else cap_search ff max_bytes vs1 lo mid)
      else (vs, lo))"
  by pat_completeness auto

termination
  by (relation "measure (\<lambda>(ff, max_bytes, vs, lo, hi). hi - lo)") auto

definition mark_pagination :: "json \<Rightarrow> json" where
  "mark_pagination pg =
     (case pg of
        JObj p \<Rightarrow> JObj (obj_insert ''hint'' (JStr TRUNCATION_HINT) (obj_insert ''truncated'' (JBool True) p))
      | _ \<Rightarrow> pg)"

definition mark_truncated :: "json \<Rightarrow> json" where
  "mark_truncated v =
     (case v of
        JObj m \<Rightarrow> JObj (map (\<lambda>(k, x). if k = ''pagination'' then (k, mark_pagination x) else (k, x)) m)
      | _ \<Rightarrow> v)"

definition apply_caps :: "(rat \<Rightarrow> string) \<Rightarrow> output_caps \<Rightarrow> json \<Rightarrow> json" where
  "apply_caps ff caps v =
     (case top_level_array v of
        None \<Rightarrow> v
      | Some xs \<Rightarrow>
          let over = length xs > oc_max_items caps;
              v1 = (if over then put_array (take (oc_max_items caps) xs) v else v);
              len = (if over then oc_max_items caps else length xs);
              (v2, truncated) =
                (if serialized_len ff v1 > oc_max_bytes caps then
                   (case cap_search ff (oc_max_bytes caps) (v1, []) 0 len of
                      (vs, lo) \<Rightarrow> (fst (set_prefix (lo - 1) vs), over \<or> lo - 1 < len))
                 else (v1, over))
          in if truncated then mark_truncated v2 else v2)"

text \<open>The algorithm the search replaced, which the tests keep: drop one item at a time.\<close>

lemma replace_array_find: "find_array m = Some xs \<Longrightarrow> find_array (replace_array ys m) = Some ys"
  by (induction m rule: find_array.induct) auto

lemma put_array_get: "top_level_array v = Some xs \<Longrightarrow> top_level_array (put_array ys v) = Some ys"
  by (auto simp: top_level_array_def put_array_def replace_array_find split: json.splits)

function pop_loop :: "(rat \<Rightarrow> string) \<Rightarrow> nat \<Rightarrow> json \<Rightarrow> json \<times> bool" where
  "pop_loop ff max_bytes v =
     (if serialized_len ff v \<le> max_bytes then (v, False)
      else
        (case top_level_array v of
           None \<Rightarrow> (v, False)
         | Some xs \<Rightarrow>
             if xs = [] then (v, False)
             else (fst (pop_loop ff max_bytes (put_array (butlast xs) v)), True)))"
  by pat_completeness auto

termination
  by (relation "measure (\<lambda>(ff, max_bytes, v). length (the (top_level_array v)))") (auto simp: put_array_get)

definition apply_caps_reference :: "(rat \<Rightarrow> string) \<Rightarrow> output_caps \<Rightarrow> json \<Rightarrow> json" where
  "apply_caps_reference ff caps v =
     (case top_level_array v of
        None \<Rightarrow> v
      | Some xs \<Rightarrow>
          let over = length xs > oc_max_items caps;
              v1 = (if over then put_array (take (oc_max_items caps) xs) v else v);
              (v2, popped) = pop_loop ff (oc_max_bytes caps) v1
          in if over \<or> popped then mark_truncated v2 else v2)"

declare shrink_to.simps [simp del] cap_search.simps [simp del] pop_loop.simps [simp del]

section \<open>Error envelope\<close>

datatype error_code =
    CUnauthorized | CForbidden | CNotFound | CValidationFailed | CRateLimited | CUnreachable
  | CUnexpectedResponse | CLimitExceeded | CMisconfigured | CReadOnly | CConfirmationRequired
  | CChildrenPresent | CFileTooLarge | CStoreFull | CSourceRequired | CUnsupportedSource
  | CPathNotAllowed | CInsufficientScope | CInternal

fun code_str :: "error_code \<Rightarrow> string" where
  "code_str CUnauthorized = ''UNAUTHORIZED''"
| "code_str CForbidden = ''FORBIDDEN''"
| "code_str CNotFound = ''NOT_FOUND''"
| "code_str CValidationFailed = ''VALIDATION_FAILED''"
| "code_str CRateLimited = ''RATE_LIMITED''"
| "code_str CUnreachable = ''UNREACHABLE''"
| "code_str CUnexpectedResponse = ''UNEXPECTED_RESPONSE''"
| "code_str CLimitExceeded = ''LIMIT_EXCEEDED''"
| "code_str CMisconfigured = ''MISCONFIGURED''"
| "code_str CReadOnly = ''READ_ONLY''"
| "code_str CConfirmationRequired = ''CONFIRMATION_REQUIRED''"
| "code_str CChildrenPresent = ''CHILDREN_PRESENT''"
| "code_str CFileTooLarge = ''FILE_TOO_LARGE''"
| "code_str CStoreFull = ''STORE_FULL''"
| "code_str CSourceRequired = ''SOURCE_REQUIRED''"
| "code_str CUnsupportedSource = ''UNSUPPORTED_SOURCE''"
| "code_str CPathNotAllowed = ''PATH_NOT_ALLOWED''"
| "code_str CInsufficientScope = ''INSUFFICIENT_SCOPE''"
| "code_str CInternal = ''INTERNAL''"

definition code_is_retryable :: "error_code \<Rightarrow> bool" where
  "code_is_retryable c \<longleftrightarrow> c = CRateLimited \<or> c = CUnreachable"

record call_tool_result =
  ct_is_error :: bool
  ct_structured :: json

definition err_with :: "error_code \<Rightarrow> string \<Rightarrow> string option \<Rightarrow> json_object \<Rightarrow> call_tool_result" where
  "err_with code message hint extra =
     \<lparr>ct_is_error = True, ct_structured = JObj (foldl (\<lambda>m (k, v). obj_insert k v m)
        (obj_of [(''error'', JStr message), (''code'', JStr (code_str code)),
                 (''retryable'', JBool (code_is_retryable code)),
                 (''hint'', (case hint of Some h \<Rightarrow> JStr h | None \<Rightarrow> JNull))]) extra)\<rparr>"

definition err :: "error_code \<Rightarrow> string \<Rightarrow> string option \<Rightarrow> call_tool_result" where
  "err code message hint =
     \<lparr>ct_is_error = True, ct_structured = JObj (obj_of
        [(''error'', JStr message), (''code'', JStr (code_str code)),
         (''retryable'', JBool (code_is_retryable code)),
         (''hint'', (case hint of Some h \<Rightarrow> JStr h | None \<Rightarrow> JNull))])\<rparr>"

text \<open>A successful payload, already a JSON value, with the caps applied.\<close>

definition ok :: "(rat \<Rightarrow> string) \<Rightarrow> output_caps \<Rightarrow> json \<Rightarrow> call_tool_result" where
  "ok ff caps v = \<lparr>ct_is_error = False, ct_structured = apply_caps ff caps v\<rparr>"

text \<open>
  The mapping from Redmine errors. \<open>show_status\<close> prints a status code with its reason phrase. The
  arm that catches the remaining variants is reached by the OAuth error alone.
\<close>

fun to_tool_error :: "(nat \<Rightarrow> string) \<Rightarrow> redmine_error \<Rightarrow> call_tool_result" where
  "to_tool_error show_status EUnauthorized =
     err CUnauthorized ''Redmine rejected the configured credential (401 unauthorized)''
       (Some ''ask the operator to check the configured Redmine credential; do not retry with the same request'')"
| "to_tool_error show_status EForbidden =
     err CForbidden ''the configured Redmine credential lacks permission for this operation (403 forbidden)''
       (Some ''try a different tool, or ask the user for an account with the required permission'')"
| "to_tool_error show_status ENotFound =
     err CNotFound ''the requested Redmine resource was not found''
       (Some ''verify the id/identifier is correct; it may have been deleted, or the credential cannot see it'')"
| "to_tool_error show_status (ERateLimited _) =
     err CRateLimited ''Redmine rate-limited this request'' (Some ''wait before retrying the same request'')"
| "to_tool_error show_status (EApi status errors) =
     (if status = 422 then
        err CValidationFailed (''Redmine rejected the request: '' @ join ''; '' errors)
          (Some ''fix the fields named in the error and retry'')
      else if is_server_error status then
        err CUnexpectedResponse (''Redmine returned '' @ show_status status @ '': '' @ join ''; '' errors)
          (Some ''Redmine failed internally; under OAuth on Redmine older than 6.1.6/7.0.3 this is what a locked or inactive user's token produces - ask the operator'')
      else err CUnexpectedResponse (''Redmine returned '' @ show_status status @ '': '' @ join ''; '' errors) None)"
| "to_tool_error show_status (ETransport _ _) =
     err CUnreachable ''could not reach the Redmine server'' (Some ''retry later; do not change the request'')"
| "to_tool_error show_status (EDecode context) =
     err CUnexpectedResponse (''received an unexpected response shape from Redmine while reading '' @ context) None"
| "to_tool_error show_status (EConfig reason) =
     err CMisconfigured (''invalid Redmine client configuration: '' @ reason)
       (Some ''this is a server configuration problem the model cannot fix; report it to the operator'')"
| "to_tool_error show_status (ELimitExceeded what limit actual) =
     err CLimitExceeded (''Redmine response exceeded the configured limit for '' @ what @ '': '' @ nat_str actual
         @ '' > '' @ nat_str limit)
       (Some ''narrow the request (a smaller limit or a more specific filter) and retry'')"
| "to_tool_error show_status (EForeignOrigin _) =
     err CUnexpectedResponse ''Redmine returned a download link or redirect pointing outside the configured Redmine origin''
       (Some ''this is a server configuration problem the model cannot fix; the operator should check REDMINE_URL'')"
| "to_tool_error show_status (EOAuth _ error _) =
     err CUnexpectedResponse (''Redmine request failed: oauth error: '' @ error) None"

section \<open>The longest fitting prefix\<close>

text \<open>
  What the search relies on: fitting is inherited by shorter prefixes. The bisection and the
  decreasing loop are stated over the predicate alone, and agree under that law.
\<close>

function bisect :: "(nat \<Rightarrow> bool) \<Rightarrow> nat \<Rightarrow> nat \<Rightarrow> nat" where
  "bisect fits lo hi =
     (if lo < hi then (let mid = (lo + hi) div 2 in if fits mid then bisect fits (mid + 1) hi else bisect fits lo mid)
      else lo)"
  by pat_completeness auto

termination
  by (relation "measure (\<lambda>(fits, lo, hi). hi - lo)") auto

fun longest :: "(nat \<Rightarrow> bool) \<Rightarrow> nat \<Rightarrow> nat" where
  "longest fits 0 = 0"
| "longest fits (Suc k) = (if fits (Suc k) then Suc k else longest fits k)"

declare bisect.simps [simp del]

locale prefix_fits =
  fixes fits :: "nat \<Rightarrow> bool"
  assumes shorter: "j \<le> k \<Longrightarrow> fits k \<Longrightarrow> fits j"
begin

lemma longest_le: "longest fits k \<le> k"
  by (induction k) auto

lemma longest_fits: "fits (longest fits k) \<or> longest fits k = 0"
  by (induction k) auto

lemma longest_maximal: "fits j \<Longrightarrow> j \<le> k \<Longrightarrow> j \<le> longest fits k"
  by (induction k) (auto simp: le_Suc_eq)

lemma bisect_bounds:
  "lo \<le> hi \<Longrightarrow> \<forall>j < lo. fits j \<Longrightarrow> \<not> fits hi \<Longrightarrow>
     (\<forall>j < bisect fits lo hi. fits j) \<and> \<not> fits (bisect fits lo hi) \<and> bisect fits lo hi \<le> hi"
proof (induction "hi - lo" arbitrary: lo hi rule: less_induct)
  case less
  define mid where "mid = (lo + hi) div 2"
  show ?case
  proof (cases "lo < hi")
    case True
    then have mid: "lo \<le> mid" "mid < hi" by (auto simp: mid_def)
    have unfold: "bisect fits lo hi = (if fits mid then bisect fits (mid + 1) hi else bisect fits lo mid)"
      using True by (subst bisect.simps) (simp add: mid_def Let_def)
    show ?thesis
    proof (cases "fits mid")
      case f: True
      then have "\<forall>j < mid + 1. fits j" using shorter by (auto simp: less_Suc_eq_le)
      then show ?thesis using less.hyps [of hi "mid + 1"] less.prems(3) mid f unfold by simp
    next
      case f: False
      then show ?thesis using less.hyps [of mid lo] less.prems(2) mid unfold by fastforce
    qed
  next
    case False
    then show ?thesis using less.prems by (subst (1 2 3) bisect.simps) auto
  qed
qed

lemma bisect_longest:
  assumes "\<not> fits len"
  shows "bisect fits 0 len - 1 = longest fits len"
proof -
  have b: "\<forall>j < bisect fits 0 len. fits j" "\<not> fits (bisect fits 0 len)"
    using bisect_bounds [of 0 len] assms by auto
  show ?thesis
  proof (cases "bisect fits 0 len")
    case 0
    then show ?thesis using b(2) longest_fits [of len] shorter [of 0] by auto
  next
    case (Suc n)
    have "n \<le> len" using bisect_bounds [of 0 len] assms Suc by auto
    then have "n \<le> longest fits len" using b(1) Suc by (intro longest_maximal) auto
    moreover have "longest fits len \<le> n"
      using b(2) Suc longest_fits [of len] shorter [of "Suc n" "longest fits len"] by (metis not_less_eq_eq zero_le)
    ultimately show ?thesis using Suc by simp
  qed
qed

end

section \<open>The array inside a value\<close>

lemma replace_array_twice [simp]: "replace_array ys (replace_array xs m) = replace_array ys m"
  by (induction xs m rule: replace_array.induct) auto

lemma replace_array_same: "find_array m = Some xs \<Longrightarrow> replace_array xs m = m"
  by (induction m rule: find_array.induct) auto

lemma put_array_twice [simp]: "put_array ys (put_array xs v) = put_array ys v"
  by (simp add: put_array_def split: json.split)

lemma put_array_same: "top_level_array v = Some xs \<Longrightarrow> put_array xs v = v"
  by (auto simp: put_array_def top_level_array_def replace_array_same split: json.splits)

lemma length_join_replace:
  assumes "\<And>k. length (pr (k, JArr ys)) \<le> length (pr (k, JArr xs))" and "find_array m = Some xs"
  shows "length (join sep (map pr (replace_array ys m))) \<le> length (join sep (map pr m))"
proof -
  have "sum_list (map (length \<circ> pr) (replace_array ys m)) \<le> sum_list (map (length \<circ> pr) m)"
    using assms by (induction m rule: find_array.induct) auto
  moreover have "length (replace_array ys m) = length m"
    by (induction ys m rule: replace_array.induct) auto
  ultimately show ?thesis by (simp add: length_join)
qed

text \<open>The size of a value grows with the prefix of the array it holds.\<close>

lemma serialized_len_prefix:
  assumes "top_level_array v = Some xs" and "j \<le> k"
  shows "serialized_len ff (put_array (take j xs) v) \<le> serialized_len ff (put_array (take k xs) v)"
proof -
  obtain m where v: "v = JObj m" and m: "find_array m = Some xs"
    using assms(1) by (auto simp: top_level_array_def split: json.splits)
  have "length (print_json ff (JArr (take j xs))) \<le> length (print_json ff (JArr (take k xs)))"
    using length_join_take [OF assms(2), of "'',''" "map (print_json ff) xs"] by (simp add: take_map)
  then have "length (join '','' (map (\<lambda>kv. print_str (fst kv) @ '':'' @ print_json ff (snd kv))
        (replace_array (take j xs) (replace_array (take k xs) m))))
      \<le> length (join '','' (map (\<lambda>kv. print_str (fst kv) @ '':'' @ print_json ff (snd kv)) (replace_array (take k xs) m)))"
    by (intro length_join_replace) (auto simp: replace_array_find [OF m])
  then show ?thesis by (simp add: serialized_len_def v put_array_def)
qed

definition prefix_ok :: "(rat \<Rightarrow> string) \<Rightarrow> nat \<Rightarrow> json \<Rightarrow> nat \<Rightarrow> bool" where
  "prefix_ok ff max_bytes v k \<longleftrightarrow>
     (case top_level_array v of
        None \<Rightarrow> False
      | Some xs \<Rightarrow> serialized_len ff (put_array (take k xs) v) \<le> max_bytes)"

interpretation caps: prefix_fits "prefix_ok ff max_bytes v" for ff max_bytes v
proof
  fix j k :: nat
  assume "j \<le> k" and "prefix_ok ff max_bytes v k"
  then show "prefix_ok ff max_bytes v j"
    using serialized_len_prefix [of v _ j k ff] by (fastforce simp: prefix_ok_def split: option.splits)
qed

text \<open>
  The steps of the search on a value that holds the first \<open>i\<close> items of \<open>xs\<close>, the others being in
  the spare buffer.
\<close>

lemma shrink_to_take: "k \<le> i \<Longrightarrow> i \<le> length xs \<Longrightarrow> shrink_to k (take i xs) (drop i xs) = (take k xs, drop k xs)"
proof (induction "i - k" arbitrary: i)
  case (Suc n)
  then obtain i' where i': "i = Suc i'" "k \<le> i'" "i' < length xs" by (cases i) auto
  have "shrink_to k (take i xs) (drop i xs) = shrink_to k (take i' xs) (drop i' xs)"
    using i' by (subst shrink_to.simps) (simp add: take_Suc_conv_app_nth Cons_nth_drop_Suc)
  then show ?case using Suc(1) [of i'] Suc(2) i' by simp
qed (subst shrink_to.simps, simp)

lemma grow_to_take: "i \<le> k \<Longrightarrow> k \<le> length xs \<Longrightarrow> grow_to k (take i xs) (drop i xs) = (take k xs, drop k xs)"
proof (induction "k - i" arbitrary: i)
  case 0
  then have "i = k" by simp
  then show ?case using 0(3) by (cases "drop k xs") auto
next
  case (Suc n)
  then have i: "i < k" "i < length xs" by auto
  then have "grow_to k (take i xs) (drop i xs) = grow_to k (take (Suc i) xs) (drop (Suc i) xs)"
    by (subst Cons_nth_drop_Suc [symmetric]) (simp_all add: take_Suc_conv_app_nth)
  then show ?case using Suc(1) [of "Suc i"] Suc(2-) i by simp
qed

lemma set_prefix_take:
  assumes "top_level_array v = Some ys" and "i \<le> length xs" and "k \<le> length xs"
  shows "set_prefix k (put_array (take i xs) v, drop i xs) = (put_array (take k xs) v, drop k xs)"
proof (cases "k \<le> i")
  case True
  have "grow_to k (take k xs) (drop k xs) = (take k xs, drop k xs)"
    by (rule grow_to_take) (simp_all add: assms(3))
  then show ?thesis
    using shrink_to_take [OF True assms(2)] by (simp add: set_prefix_def put_array_get [OF assms(1)])
next
  case False
  then have "shrink_to k (take i xs) (drop i xs) = (take i xs, drop i xs)"
    by (subst shrink_to.simps) simp
  then show ?thesis
    using grow_to_take [of i k xs] False assms(3) by (simp add: set_prefix_def put_array_get [OF assms(1)])
qed

lemma cap_search_bisect:
  assumes "top_level_array v = Some xs" and "hi \<le> length xs" and "i \<le> length xs"
  shows "\<exists>i' \<le> length xs. cap_search ff b (put_array (take i xs) v, drop i xs) lo hi =
    ((put_array (take i' xs) v, drop i' xs), bisect (prefix_ok ff b v) lo hi)"
  using assms(2,3)
proof (induction "hi - lo" arbitrary: lo hi i rule: less_induct)
  case less
  show ?case
  proof (cases "lo < hi")
    case True
    define mid where "mid = (lo + hi) div 2"
    have mid: "lo \<le> mid" "mid < hi" "mid \<le> length xs" using True less.prems(1) by (auto simp: mid_def)
    note step = set_prefix_take [OF assms(1) less.prems(2) mid(3)]
    have "cap_search ff b (put_array (take i xs) v, drop i xs) lo hi =
        (if prefix_ok ff b v mid then cap_search ff b (put_array (take mid xs) v, drop mid xs) (mid + 1) hi
         else cap_search ff b (put_array (take mid xs) v, drop mid xs) lo mid)"
      using True step by (subst cap_search.simps) (simp add: Let_def mid_def prefix_ok_def assms(1))
    moreover have "bisect (prefix_ok ff b v) lo hi =
        (if prefix_ok ff b v mid then bisect (prefix_ok ff b v) (mid + 1) hi else bisect (prefix_ok ff b v) lo mid)"
      using True by (subst bisect.simps) (simp add: Let_def mid_def)
    ultimately show ?thesis
      using less.hyps [of hi "mid + 1" mid] less.hyps [of mid lo mid] mid less.prems(1) by auto
  next
    case False
    then show ?thesis using less.prems by (subst cap_search.simps, subst bisect.simps) auto
  qed
qed

lemma pop_loop_longest:
  assumes "top_level_array v = Some xs" and "k \<le> length xs"
  shows "pop_loop ff b (put_array (take k xs) v) =
    (put_array (take (longest (prefix_ok ff b v) k) xs) v, longest (prefix_ok ff b v) k < k)"
  using assms(2)
proof (induction k)
  case 0
  then show ?case by (subst pop_loop.simps) (simp add: put_array_get [OF assms(1)])
next
  case (Suc k)
  have "butlast (take (Suc k) xs) = take k xs" using Suc.prems by (simp add: butlast_take)
  moreover have "take (Suc k) xs \<noteq> []" using Suc.prems by auto
  moreover have "longest (prefix_ok ff b v) k < Suc k" using caps.longest_le [of ff b v k] by simp
  moreover have "serialized_len ff (put_array (take (Suc k) xs) v) \<le> b \<longleftrightarrow> prefix_ok ff b v (Suc k)"
    by (simp add: prefix_ok_def assms(1))
  ultimately show ?case
    using Suc by (subst pop_loop.simps) (simp add: put_array_get [OF assms(1)])
qed

text \<open>Both algorithms, after the cap on the number of items: the longest prefix that fits.\<close>

definition capped :: "(rat \<Rightarrow> string) \<Rightarrow> nat \<Rightarrow> json \<Rightarrow> json list \<Rightarrow> nat" where
  "capped ff b v xs = longest (prefix_ok ff b v) (length xs)"

lemma cap_search_capped:
  assumes "top_level_array v = Some xs" and "serialized_len ff v > b"
  shows "(case cap_search ff b (v, []) 0 (length xs) of (vs, lo) \<Rightarrow> (fst (set_prefix (lo - 1) vs), over \<or> lo - 1 < length xs))
    = (put_array (take (capped ff b v xs) xs) v, over \<or> capped ff b v xs < length xs)"
proof -
  obtain i where i: "i \<le> length xs" and cs: "cap_search ff b (v, []) 0 (length xs) =
      ((put_array (take i xs) v, drop i xs), bisect (prefix_ok ff b v) 0 (length xs))"
    using cap_search_bisect [OF assms(1), of "length xs" "length xs" ff b 0] put_array_same [OF assms(1)] by auto
  have "\<not> prefix_ok ff b v (length xs)"
    using assms by (simp add: prefix_ok_def put_array_same)
  then have k: "bisect (prefix_ok ff b v) 0 (length xs) - 1 = capped ff b v xs"
    unfolding capped_def by (rule caps.bisect_longest)
  moreover have "capped ff b v xs \<le> length xs" unfolding capped_def by (rule caps.longest_le)
  ultimately show ?thesis
    using set_prefix_take [OF assms(1) i, of "capped ff b v xs"] by (simp add: cs)
qed

lemma pop_loop_capped:
  assumes "top_level_array v = Some xs"
  shows "pop_loop ff b v = (put_array (take (capped ff b v xs) xs) v, capped ff b v xs < length xs)"
  using pop_loop_longest [OF assms, of "length xs" ff b] by (simp add: capped_def put_array_same [OF assms])

lemma capped_fits:
  assumes "top_level_array v = Some xs" and "serialized_len ff v \<le> b"
  shows "capped ff b v xs = length xs"
proof -
  have "prefix_ok ff b v (length xs)" using assms by (simp add: prefix_ok_def put_array_same)
  then show ?thesis unfolding capped_def by (cases "length xs") simp_all
qed

definition capped_items :: "output_caps \<Rightarrow> json \<Rightarrow> json list \<Rightarrow> json" where
  "capped_items caps v xs = (if length xs > oc_max_items caps then put_array (take (oc_max_items caps) xs) v else v)"

lemma apply_caps_capped:
  fixes ff caps v
  assumes "top_level_array v = Some xs"
  defines "xs1 \<equiv> take (oc_max_items caps) xs" and "v1 \<equiv> capped_items caps v xs"
  defines "k \<equiv> capped ff (oc_max_bytes caps) v1 xs1"
  shows "apply_caps ff caps v =
    (let v2 = put_array (take k xs1) v1 in if k < length xs then mark_truncated v2 else v2)"
proof -
  have v1: "top_level_array v1 = Some xs1"
    using assms(1) by (simp add: v1_def xs1_def capped_items_def put_array_get)
  have len: "length xs1 = (if length xs > oc_max_items caps then oc_max_items caps else length xs)"
    by (simp add: xs1_def)
  have kle: "k \<le> length xs1" unfolding k_def capped_def by (rule caps.longest_le)
  have tr: "length xs > oc_max_items caps \<or> k < length xs1 \<longleftrightarrow> k < length xs"
    using kle len by auto
  have "apply_caps ff caps v =
      (case (if serialized_len ff v1 > oc_max_bytes caps then
               (case cap_search ff (oc_max_bytes caps) (v1, []) 0 (length xs1) of
                  (vs, lo) \<Rightarrow> (fst (set_prefix (lo - 1) vs), length xs > oc_max_items caps \<or> lo - 1 < length xs1))
             else (v1, length xs > oc_max_items caps)) of
         (v2, truncated) \<Rightarrow> if truncated then mark_truncated v2 else v2)"
    by (simp only: apply_caps_def assms(1) option.case Let_def len v1_def capped_items_def)
  also have "\<dots> = (let v2 = put_array (take k xs1) v1 in if k < length xs then mark_truncated v2 else v2)"
  proof (cases "serialized_len ff v1 > oc_max_bytes caps")
    case True
    show ?thesis
      using tr by (simp only: cap_search_capped [OF v1 True] True if_True k_def [symmetric] prod.case Let_def)
  next
    case False
    then have "k = length xs1" using capped_fits [OF v1] by (simp add: k_def)
    then show ?thesis using False tr put_array_same [OF v1] by (simp add: Let_def)
  qed
  finally show ?thesis .
qed

lemma apply_caps_reference_capped:
  fixes ff caps v
  assumes "top_level_array v = Some xs"
  defines "xs1 \<equiv> take (oc_max_items caps) xs" and "v1 \<equiv> capped_items caps v xs"
  defines "k \<equiv> capped ff (oc_max_bytes caps) v1 xs1"
  shows "apply_caps_reference ff caps v =
    (let v2 = put_array (take k xs1) v1 in if k < length xs then mark_truncated v2 else v2)"
proof -
  have v1: "top_level_array v1 = Some xs1"
    using assms(1) by (simp add: v1_def xs1_def capped_items_def put_array_get)
  have kle: "k \<le> length xs1" unfolding k_def capped_def by (rule caps.longest_le)
  then have "length xs > oc_max_items caps \<or> k < length xs1 \<longleftrightarrow> k < length xs"
    by (auto simp: xs1_def)
  then show ?thesis
    unfolding apply_caps_reference_def assms(1) option.case Let_def capped_items_def [symmetric] v1_def [symmetric]
      pop_loop_capped [OF v1] k_def [symmetric] by (simp only: prod.case)
qed

section \<open>Properties\<close>

lemma find_array_mark:
  "find_array (map (\<lambda>(k, x). if k = ''pagination'' then (k, mark_pagination x) else (k, x)) m) = find_array m"
  by (induction m rule: find_array.induct) (auto simp: mark_pagination_def)

lemma top_level_array_mark [simp]: "top_level_array (mark_truncated v) = top_level_array v"
  by (simp add: top_level_array_def mark_truncated_def find_array_mark split: json.split)

text \<open>
  C40. The binary search that caps the size of a response gives the same value as dropping one item
  after the other and serialising again, for every value and all caps.
\<close>

theorem apply_caps_reference_eq: "apply_caps ff caps v = apply_caps_reference ff caps v"
proof (cases "top_level_array v")
  case None
  then show ?thesis by (simp add: apply_caps_def apply_caps_reference_def)
next
  case (Some xs)
  show ?thesis unfolding apply_caps_capped [OF Some] apply_caps_reference_capped [OF Some] ..
qed

text \<open>
  A response is cut to the longest prefix of its list that has at most the configured number of
  items and whose value, before the truncation marks are added, is within the configured number of
  bytes (or to the empty list when nothing fits); the other entries are kept, and the marks are
  added exactly when an item was dropped.
\<close>

theorem apply_caps_longest:
  assumes "top_level_array v = Some xs"
  shows "\<exists>k \<le> min (oc_max_items caps) (length xs).
    apply_caps ff caps v = (if k < length xs then mark_truncated (put_array (take k xs) v) else v) \<and>
    top_level_array (apply_caps ff caps v) = Some (take k xs) \<and>
    (k = 0 \<or> serialized_len ff (put_array (take k xs) v) \<le> oc_max_bytes caps) \<and>
    (\<forall>j \<le> min (oc_max_items caps) (length xs).
       serialized_len ff (put_array (take j xs) v) \<le> oc_max_bytes caps \<longrightarrow> j \<le> k)"
proof -
  define n where "n = min (oc_max_items caps) (length xs)"
  define xs1 where "xs1 = take (oc_max_items caps) xs"
  define v1 where "v1 = capped_items caps v xs"
  define k where "k = capped ff (oc_max_bytes caps) v1 xs1"
  have v1: "top_level_array v1 = Some xs1"
    using assms by (simp add: v1_def xs1_def capped_items_def put_array_get)
  have len: "length xs1 = n" by (simp add: xs1_def n_def min.commute)
  have kle: "k \<le> n" unfolding k_def capped_def len [symmetric] by (rule caps.longest_le)
  have put: "put_array (take j xs1) v1 = put_array (take j xs) v" if "j \<le> n" for j
    using that by (simp add: xs1_def v1_def capped_items_def n_def min.absorb1)
  have ok: "prefix_ok ff b v1 j \<longleftrightarrow> serialized_len ff (put_array (take j xs) v) \<le> b" if "j \<le> n" for b j
    using put [OF that] by (simp add: prefix_ok_def v1)
  have whole: "put_array (take k xs) v = v" if "\<not> k < length xs"
    using that put_array_same [OF assms] by simp
  have eq: "apply_caps ff caps v = (if k < length xs then mark_truncated (put_array (take k xs) v) else v)"
    unfolding apply_caps_capped [OF assms] xs1_def [symmetric] v1_def [symmetric] k_def [symmetric] Let_def put [OF kle]
    using whole by simp
  moreover have "top_level_array (apply_caps ff caps v) = Some (take k xs)"
    using eq assms by (simp add: put_array_get [OF assms])
  moreover have "k = 0 \<or> serialized_len ff (put_array (take k xs) v) \<le> oc_max_bytes caps"
    using caps.longest_fits [of ff "oc_max_bytes caps" v1 "length xs1"] ok [OF kle]
    by (auto simp: k_def capped_def)
  moreover have "j \<le> k" if "j \<le> n" "serialized_len ff (put_array (take j xs) v) \<le> oc_max_bytes caps" for j
    using caps.longest_maximal [of ff "oc_max_bytes caps" v1 j n] that ok len by (simp add: k_def capped_def)
  ultimately show ?thesis using kle unfolding n_def by blast
qed

definition example_list :: json where
  "example_list = JObj [(''items'', JArr [JInt 1, JInt 2, JInt 3]), (''pagination'', JObj [(''truncated'', JBool False)])]"

text \<open>The hypothesis holds: a list of three items, of which two are allowed.\<close>

theorem apply_caps_longest_witness:
  "top_level_array example_list = Some [JInt 1, JInt 2, JInt 3] \<and>
   (\<exists>k \<le> 2. top_level_array (apply_caps (\<lambda>_. ''0'') \<lparr>oc_max_items = 2, oc_max_bytes = 100\<rparr> example_list) =
      Some (take k [JInt 1, JInt 2, JInt 3]))"
proof
  show a: "top_level_array example_list = Some [JInt 1, JInt 2, JInt 3]"
    by (simp add: example_list_def top_level_array_def)
  from apply_caps_longest [OF a, of "\<lparr>oc_max_items = 2, oc_max_bytes = 100\<rparr>" "\<lambda>_. ''0''"]
  obtain k where "k \<le> min 2 (length [JInt 1, JInt 2, JInt 3])" and
      "top_level_array (apply_caps (\<lambda>_. ''0'') \<lparr>oc_max_items = 2, oc_max_bytes = 100\<rparr> example_list) =
        Some (take k [JInt 1, JInt 2, JInt 3])"
    unfolding output_caps.select_convs by blast
  then show "\<exists>k \<le> 2. top_level_array (apply_caps (\<lambda>_. ''0'') \<lparr>oc_max_items = 2, oc_max_bytes = 100\<rparr> example_list) =
      Some (take k [JInt 1, JInt 2, JInt 3])" by (intro exI [of _ k]) simp
qed

lemma err_fields:
  "err code message hint = \<lparr>ct_is_error = True, ct_structured =
     JObj [(''code'', JStr (code_str code)), (''error'', JStr message),
           (''hint'', (case hint of Some h \<Rightarrow> JStr h | None \<Rightarrow> JNull)), (''retryable'', JBool (code_is_retryable code))]\<rparr>"
  by (simp add: err_def obj_of_def)

text \<open>
  The error contract of the tools. Every Redmine error becomes an in-band error whose envelope has
  exactly the entries code, error, hint and retryable; it invites a retry exactly for a rate limit or
  a transport failure; and the text for a refused origin does not depend on that origin, which the
  server chose.
\<close>

theorem tool_error_contract:
  "(\<exists>code message h. to_tool_error show_status e = \<lparr>ct_is_error = True, ct_structured =
      JObj [(''code'', JStr (code_str code)), (''error'', JStr message), (''hint'', h),
            (''retryable'', JBool ((\<exists>d. e = ERateLimited d) \<or> (\<exists>t c. e = ETransport t c)))]\<rparr>) \<and>
   to_tool_error show_status (EForeignOrigin o1) = to_tool_error show_status (EForeignOrigin o2)"
proof
  have "\<exists>code message hint. to_tool_error show_status e = err code message hint \<and>
      (code_is_retryable code \<longleftrightarrow> (\<exists>d. e = ERateLimited d) \<or> (\<exists>t c. e = ETransport t c))"
    by (cases e) (force simp: code_is_retryable_def)+
  then obtain code message hint where e: "to_tool_error show_status e = err code message hint"
    and r: "code_is_retryable code \<longleftrightarrow> (\<exists>d. e = ERateLimited d) \<or> (\<exists>t c. e = ETransport t c)" by blast
  show "\<exists>code message h. to_tool_error show_status e = \<lparr>ct_is_error = True, ct_structured =
      JObj [(''code'', JStr (code_str code)), (''error'', JStr message), (''hint'', h),
            (''retryable'', JBool ((\<exists>d. e = ERateLimited d) \<or> (\<exists>t c. e = ETransport t c)))]\<rparr>"
    unfolding e err_fields r by blast
qed simp

text \<open>
  The pagination block of an automatically paged list is wrong. Of three items all are returned, and
  the block says that the page starts at offset three and has a predecessor; when the walk stops
  after two of the three, it says that nothing follows.
\<close>

theorem auto_paged_pagination_wrong:
  "(\<exists>pg. fetch_all example_serve limits_default = Inr pg \<and> pg_items pg = [7, 8, 9] \<and>
      pn_offset (from_page pg) = 3 \<and> pn_has_previous (from_page pg)) \<and>
   (\<exists>pg. fetch_all example_serve (limits_default\<lparr>lt_max_items := 2\<rparr>) = Inr pg \<and> pg_items pg = [7, 8] \<and>
      pg_total_count pg = 3 \<and> pg_truncated pg \<and> \<not> pn_has_next (from_page pg))"
proof
  show "\<exists>pg. fetch_all example_serve limits_default = Inr pg \<and> pg_items pg = [7, 8, 9] \<and>
      pn_offset (from_page pg) = 3 \<and> pn_has_previous (from_page pg)"
    unfolding fetch_all_def
    by (subst fetch_loop.simps, subst fetch_loop.simps)
      (simp add: example_serve_def limits_default_def u64_max_def from_page_def Let_def)
  show "\<exists>pg. fetch_all example_serve (limits_default\<lparr>lt_max_items := 2\<rparr>) = Inr pg \<and> pg_items pg = [7, 8] \<and>
      pg_total_count pg = 3 \<and> pg_truncated pg \<and> \<not> pn_has_next (from_page pg)"
    unfolding fetch_all_def
    by (subst fetch_loop.simps) (simp add: example_serve_def limits_default_def u64_max_def from_page_def sat_add_def Let_def)
qed

end
