(* ===== verification/Tool_Scope.thy ===== *)
theory Tool_Scope
  imports Scopes Output_Caps
begin

text \<open>
  Scope enforcement per tool (\<^verbatim>\<open>auth/scope.rs\<close>): the table from tool names to the Redmine permissions
  a token needs, the requirement of a single call, which depends on its arguments, and the
  visibility of a tool in \<^verbatim>\<open>tools/list\<close>. The arguments of a call are a JSON object; the scopes a token
  holds are a set.
\<close>

definition ADMIN_SCOPE :: scope where
  "ADMIN_SCOPE = ''admin''"

datatype scope_rule = Fixed "scope list" | PerAction "(string \<times> scope list) list" | AnyOf "scope list"

definition UPDATE_ISSUE_NOTES_ONLY :: "scope list" where
  "UPDATE_ISSUE_NOTES_ONLY = [''add_issue_notes'']"

definition UPDATE_ISSUE_BASE :: "scope list" where
  "UPDATE_ISSUE_BASE = [''edit_issues'']"

definition UPDATE_ISSUE_WITH_SUBTASKS :: "scope list" where
  "UPDATE_ISSUE_WITH_SUBTASKS = [''edit_issues'', ''manage_subtasks'']"

definition UPDATE_ISSUE_BASE_WITH_AGILE :: "scope list" where
  "UPDATE_ISSUE_BASE_WITH_AGILE = [''edit_issues'', ''view_agile_queries'']"

definition UPDATE_ISSUE_WITH_SUBTASKS_AND_AGILE :: "scope list" where
  "UPDATE_ISSUE_WITH_SUBTASKS_AND_AGILE = [''edit_issues'', ''manage_subtasks'', ''view_agile_queries'']"

definition NOTES_ONLY_FIELDS :: "string list" where
  "NOTES_ONLY_FIELDS = [''notes'', ''private_notes'']"

definition AGILE_UPDATE_FIELDS :: "string list" where
  "AGILE_UPDATE_FIELDS = [''story_points'', ''agile_sprint_id'', ''agile_position'']"

definition CREATE_ISSUE_BASE :: "scope list" where
  "CREATE_ISSUE_BASE = [''add_issues'']"

definition TAG_LIST_SCOPES :: "scope list" where
  "TAG_LIST_SCOPES = [''create_issue_tags'', ''edit_issue_tags'']"

definition TOOL_SCOPES :: "(string \<times> scope_rule) list" where
  "TOOL_SCOPES =
    [(''get_current_user'', Fixed []),
     (''get_mcp_server_info'', Fixed []),
     (''list_redmine_projects'', Fixed [''view_project'']),
     (''list_redmine_trackers'', Fixed []),
     (''list_project_trackers'', Fixed [''view_project'']),
     (''list_redmine_issue_statuses'', Fixed []),
     (''list_redmine_issue_priorities'', Fixed []),
     (''list_redmine_users'', Fixed []),
     (''list_redmine_queries'', Fixed [''view_issues'']),
     (''list_project_issue_custom_fields'', Fixed []),
     (''summarize_project_status'', Fixed [''view_project'', ''view_issues'']),
     (''list_redmine_versions'', Fixed [''view_issues'']),
     (''manage_redmine_version'', Fixed [''manage_versions'']),
     (''list_project_members'', Fixed [''view_members'']),
     (''list_redmine_roles'', Fixed []),
     (''get_project_modules'', Fixed [''view_project'']),
     (''manage_project_member'', Fixed [''manage_members'']),
     (''get_redmine_issue'', Fixed [''view_issues'']),
     (''list_redmine_issues'', Fixed [''view_issues'']),
     (''search_redmine_issues'', Fixed [''search_project'', ''view_issues'']),
     (''list_subtasks'', Fixed [''view_issues'']),
     (''get_private_notes'', Fixed [''view_issues'', ''view_private_notes'']),
     (''list_time_entries'', Fixed [''view_time_entries'']),
     (''manage_time_entry'', PerAction [(''create'', [''log_time'']), (''update'', [''edit_time_entries''])]),
     (''list_time_entry_activities'', Fixed []),
     (''import_time_entries'', Fixed [''log_time'']),
     (''create_redmine_issue'', Fixed CREATE_ISSUE_BASE),
     (''update_redmine_issue'', Fixed UPDATE_ISSUE_BASE),
     (''delete_redmine_issue'', Fixed [''delete_issues'']),
     (''copy_issue'', Fixed [''view_issues'', ''add_issues'']),
     (''manage_issue_relation'', PerAction [(''list'', [''view_issues'']), (''create'', [''manage_issue_relations'']), (''delete'', [''manage_issue_relations''])]),
     (''manage_issue_watcher'', PerAction [(''add'', [''add_issue_watchers'']), (''remove'', [''delete_issue_watchers''])]),
     (''manage_issue_note'', PerAction [(''edit'', [''edit_issue_notes'']), (''set_private'', [''set_notes_private''])]),
     (''manage_issue_category'', PerAction [(''list'', [''view_issues'']), (''create'', [''manage_categories'']), (''update'', [''manage_categories'']), (''delete'', [''manage_categories''])]),
     (''search_entire_redmine'', Fixed [''search_project'']),
     (''manage_redmine_wiki_page'', PerAction [(''list'', [''view_wiki_pages'']), (''get'', [''view_wiki_pages'']), (''create'', [''edit_wiki_pages'']), (''update'', [''edit_wiki_pages'']), (''delete'', [''delete_wiki_pages'']), (''rename'', [''rename_wiki_pages''])]),
     (''get_gantt_chart'', Fixed [''view_issues'']),
     (''get_redmine_attachment'', Fixed [''view_files'']),
     (''list_files'', Fixed [''view_files'']),
     (''delete_file'', Fixed [''manage_files'']),
     (''upload_file'', Fixed [''manage_files'']),
     (''cleanup_attachment_files'', Fixed []),
     (''get_checklist'', Fixed []),
     (''create_checklist_item'', Fixed []),
     (''update_checklist_item'', Fixed []),
     (''manage_product'', Fixed []),
     (''manage_contact'', Fixed []),
     (''manage_document'', PerAction [(''list'', [''view_documents'']), (''get'', [''view_documents'']), (''create'', [''add_documents'']), (''update'', [''edit_documents''])])]"

datatype requirement =
    Unchecked
  | ReqScopes "scope list"
  | ReqAnyOf "scope list"
  | ReqScopesWithAnyOf "scope list" "scope list"
  | Unmapped

definition action_str :: "json_object option \<Rightarrow> string option" where
  "action_str args =
     (case args of
        None \<Rightarrow> None
      | Some m \<Rightarrow> (case map_of m ''action'' of None \<Rightarrow> None | Some v \<Rightarrow> as_str v))"

text \<open>The loop over the keys, with its early return; the flag is \<^verbatim>\<open>saw_notes_field\<close>.\<close>

fun notes_only_keys :: "string list \<Rightarrow> bool \<Rightarrow> bool" where
  "notes_only_keys [] saw = saw"
| "notes_only_keys (k # ks) saw =
     (if k = ''issue_id'' then notes_only_keys ks saw
      else if k \<notin> set NOTES_ONLY_FIELDS then False
      else notes_only_keys ks True)"

definition is_notes_only_update :: "json_object \<Rightarrow> bool" where
  "is_notes_only_update args = notes_only_keys (map fst args) False"

definition has_agile_field :: "json_object \<Rightarrow> bool" where
  "has_agile_field args \<longleftrightarrow> list_ex (contains_key args) AGILE_UPDATE_FIELDS"

definition is_reparenting :: "json_object \<Rightarrow> bool" where
  "is_reparenting args \<longleftrightarrow>
     contains_key args ''parent_issue_id'' \<or>
     (case map_of args ''clear_fields'' of
        Some (JArr arr) \<Rightarrow> list_ex (\<lambda>v. as_str v = Some ''parent_issue_id'') arr
      | _ \<Rightarrow> False)"

definition update_redmine_issue_requirement :: "json_object option \<Rightarrow> requirement" where
  "update_redmine_issue_requirement args =
     (case args of
        None \<Rightarrow> ReqScopes UPDATE_ISSUE_BASE
      | Some m \<Rightarrow>
          if is_notes_only_update m then ReqScopes UPDATE_ISSUE_NOTES_ONLY
          else
            (let agile = has_agile_field m;
                 base = (if is_reparenting m
                         then (if agile then UPDATE_ISSUE_WITH_SUBTASKS_AND_AGILE else UPDATE_ISSUE_WITH_SUBTASKS)
                         else if agile then UPDATE_ISSUE_BASE_WITH_AGILE else UPDATE_ISSUE_BASE)
             in if contains_key m ''tag_list'' then ReqScopesWithAnyOf base TAG_LIST_SCOPES else ReqScopes base))"

definition create_redmine_issue_requirement :: "json_object option \<Rightarrow> requirement" where
  "create_redmine_issue_requirement args =
     (if (case args of None \<Rightarrow> False | Some m \<Rightarrow> contains_key m ''tag_list'')
      then ReqScopesWithAnyOf CREATE_ISSUE_BASE TAG_LIST_SCOPES
      else ReqScopes CREATE_ISSUE_BASE)"

definition required_for_call :: "string \<Rightarrow> json_object option \<Rightarrow> requirement" where
  "required_for_call tool args =
     (if tool = ''update_redmine_issue'' then update_redmine_issue_requirement args
      else if tool = ''create_redmine_issue'' then create_redmine_issue_requirement args
      else
        (case map_of TOOL_SCOPES tool of
           None \<Rightarrow> Unmapped
         | Some (Fixed scopes) \<Rightarrow> ReqScopes scopes
         | Some (AnyOf scopes) \<Rightarrow> ReqAnyOf scopes
         | Some (PerAction actions) \<Rightarrow>
             (case action_str args of
                None \<Rightarrow> Unchecked
              | Some action \<Rightarrow>
                  (case map_of actions action of Some scopes \<Rightarrow> ReqScopes scopes | None \<Rightarrow> Unchecked))))"

definition is_admin :: "scope set \<Rightarrow> bool" where
  "is_admin held \<longleftrightarrow> ADMIN_SCOPE \<in> held"

definition missing :: "scope list \<Rightarrow> scope set \<Rightarrow> scope list" where
  "missing required held = filter (\<lambda>s. s \<notin> held) required"

definition any_held :: "scope list \<Rightarrow> scope set \<Rightarrow> bool" where
  "any_held candidates held \<longleftrightarrow> list_ex (\<lambda>s. s \<in> held) candidates"

definition visible_for :: "string \<Rightarrow> scope set \<Rightarrow> bool" where
  "visible_for tool held \<longleftrightarrow>
     (if is_admin held then True
      else if tool = ''update_redmine_issue'' then ''edit_issues'' \<in> held \<or> ''add_issue_notes'' \<in> held
      else
        (case map_of TOOL_SCOPES tool of
           None \<Rightarrow> False
         | Some (Fixed scopes) \<Rightarrow> list_all (\<lambda>s. s \<in> held) scopes
         | Some (AnyOf scopes) \<Rightarrow> any_held scopes held
         | Some (PerAction actions) \<Rightarrow> list_ex (\<lambda>(_, scopes). list_all (\<lambda>s. s \<in> held) scopes) actions))"

definition insufficient_scope_result :: "string \<Rightarrow> scope list \<Rightarrow> call_tool_result" where
  "insufficient_scope_result tool missing_scopes =
     err CInsufficientScope
       (if missing_scopes = []
        then tool @ '' has no configured OAuth scope requirement in this deployment and is denied by default''
        else ''this token is missing the scope(s) required to call '' @ tool @ '': '' @ join '', '' missing_scopes)
       (Some ''re-authorize with the missing scope(s), or use a different tool'')"

definition insufficient_any_of_result :: "string \<Rightarrow> scope list \<Rightarrow> call_tool_result" where
  "insufficient_any_of_result tool any =
     err CInsufficientScope
       (''this token is missing every scope that would satisfy '' @ tool @ [char_of (39 :: nat)] @ ''s requirement: at least one of '' @ join '', '' any)
       (Some ''re-authorize with one of the listed scopes, or use a different tool'')"

section \<open>Lemmas\<close>

text \<open>When a set of scopes meets a requirement: what the enforcement is meant to decide.\<close>

fun meets :: "requirement \<Rightarrow> scope set \<Rightarrow> bool" where
  "meets Unchecked held = True"
| "meets (ReqScopes required) held = (set required \<subseteq> held)"
| "meets (ReqAnyOf any) held = (set any \<inter> held \<noteq> {})"
| "meets (ReqScopesWithAnyOf required any) held = (set required \<subseteq> held \<and> set any \<inter> held \<noteq> {})"
| "meets Unmapped held = False"

lemma missing_Nil: "missing required held = [] \<longleftrightarrow> set required \<subseteq> held"
  by (auto simp: missing_def filter_empty_conv)

lemma any_held_iff: "any_held any held \<longleftrightarrow> set any \<inter> held \<noteq> {}"
  by (auto simp: any_held_def list_ex_iff)

lemma meets_mono: "meets req held \<Longrightarrow> held \<subseteq> held' \<Longrightarrow> meets req held'"
  by (cases req) auto

lemma notes_only_keys_iff:
  "notes_only_keys ks saw \<longleftrightarrow>
     set ks \<subseteq> {''issue_id'', ''notes'', ''private_notes''} \<and> (saw \<or> set ks \<inter> {''notes'', ''private_notes''} \<noteq> {})"
  by (induction ks arbitrary: saw) (auto simp: NOTES_ONLY_FIELDS_def)

lemmas update_scope_defs = UPDATE_ISSUE_NOTES_ONLY_def UPDATE_ISSUE_BASE_def UPDATE_ISSUE_WITH_SUBTASKS_def
  UPDATE_ISSUE_BASE_WITH_AGILE_def UPDATE_ISSUE_WITH_SUBTASKS_AND_AGILE_def CREATE_ISSUE_BASE_def TAG_LIST_SCOPES_def

lemma update_meets:
  "meets (update_redmine_issue_requirement args) held \<Longrightarrow> ''edit_issues'' \<in> held \<or> ''add_issue_notes'' \<in> held"
  by (auto simp: update_redmine_issue_requirement_def update_scope_defs Let_def split: option.splits if_splits)

lemma tool_scopes_create: "map_of TOOL_SCOPES ''create_redmine_issue'' = Some (Fixed CREATE_ISSUE_BASE)"
  by (simp add: TOOL_SCOPES_def)

lemma create_meets: "meets (create_redmine_issue_requirement args) held \<Longrightarrow> set CREATE_ISSUE_BASE \<subseteq> held"
  by (auto simp: create_redmine_issue_requirement_def split: if_splits)

lemma meets_visible:
  assumes "required_for_call tool args \<noteq> Unchecked" and "meets (required_for_call tool args) held"
  shows "visible_for tool held"
proof (cases "tool = ''update_redmine_issue'' \<or> tool = ''create_redmine_issue''")
  case True
  then show ?thesis
    using assms(2) update_meets [of args held] create_meets [of args held]
    by (auto simp: required_for_call_def visible_for_def tool_scopes_create list_all_iff)
next
  case False
  then show ?thesis
    using assms
    by (auto simp: required_for_call_def visible_for_def list_all_iff list_ex_iff any_held_def
        split: option.splits scope_rule.splits dest!: map_of_SomeD) (force simp: list_all_iff)
qed

end
