(* ===== verification/Server_Router.thy ===== *)
theory Server_Router
  imports Tool_Scope Token_Verifier
begin

text \<open>
  The server (\<^verbatim>\<open>server.rs\<close>, \<^verbatim>\<open>readonly.rs\<close>, \<^verbatim>\<open>panic_guard.rs\<close>, \<^verbatim>\<open>auth/per_user.rs\<close>, \<^verbatim>\<open>auth/legacy.rs\<close>): which
  tools are routed under a configuration, how a list of tools and a call are answered, and which
  credential a call uses. A route is the name of its tool and its input schema; the handlers
  behind the routes are an argument, since the dispatch does not look inside them. A panic of a
  handler is the result \<open>None\<close>.
\<close>

section \<open>Configuration\<close>

record plugin_flags =
  pf_agile :: bool
  pf_checklists :: bool
  pf_products :: bool
  pf_crm :: bool
  pf_dmsf :: bool
  pf_tags :: bool

text \<open>Of the OAuth settings only the flag of the enforcement matters here.\<close>

datatype auth_mode =
    AuthLegacy credential
  | AuthLegacyPerUser bool
  | AuthOAuth bool
  | AuthOAuthProxy bool

record server_config =
  sv_auth :: auth_mode
  sv_plugins :: plugin_flags
  sv_read_only :: bool
  sv_expose_admin_tools :: bool
  sv_portable :: bool

section \<open>Routes\<close>

definition write_tools_all :: "string list" where
  "write_tools_all =
    [''manage_redmine_version'', ''manage_project_member'', ''manage_time_entry'', ''import_time_entries'',
     ''create_redmine_issue'', ''update_redmine_issue'', ''delete_redmine_issue'', ''copy_issue'',
     ''manage_issue_watcher'', ''manage_issue_note'', ''delete_file'', ''upload_file'',
     ''create_checklist_item'', ''update_checklist_item'']"

definition PARTIAL_WRITE :: "string list" where
  "PARTIAL_WRITE =
    [''manage_issue_relation'', ''manage_issue_category'', ''manage_redmine_wiki_page'', ''manage_product'',
     ''manage_contact'', ''manage_document'']"

definition PLUGIN_TOOLS :: "(string \<times> (plugin_flags \<Rightarrow> bool)) list" where
  "PLUGIN_TOOLS =
    [(''get_checklist'', pf_checklists), (''create_checklist_item'', pf_checklists),
     (''update_checklist_item'', pf_checklists), (''manage_product'', pf_products),
     (''manage_contact'', pf_crm), (''manage_document'', pf_dmsf)]"

definition meta_tools :: "string list" where
  "meta_tools = [''get_mcp_server_info'']"

definition discovery_tools :: "string list" where
  "discovery_tools =
    [''list_redmine_trackers'', ''list_project_trackers'', ''list_redmine_issue_statuses'',
     ''list_redmine_issue_priorities'', ''list_redmine_users'', ''get_current_user'', ''list_redmine_queries'']"

definition projects_tools :: "string list" where
  "projects_tools =
    [''list_redmine_projects'', ''list_project_issue_custom_fields'', ''summarize_project_status'',
     ''list_redmine_versions'', ''manage_redmine_version'', ''list_project_members'', ''list_redmine_roles'',
     ''get_project_modules'', ''manage_project_member'']"

definition issues_tools :: "string list" where
  "issues_tools =
    [''get_redmine_issue'', ''list_redmine_issues'', ''search_redmine_issues'', ''list_subtasks'',
     ''get_private_notes'', ''create_redmine_issue'', ''update_redmine_issue'', ''delete_redmine_issue'',
     ''copy_issue'', ''manage_issue_relation'', ''manage_issue_watcher'', ''manage_issue_note'',
     ''manage_issue_category'']"

definition time_tools :: "string list" where
  "time_tools = [''list_time_entries'', ''manage_time_entry'', ''list_time_entry_activities'', ''import_time_entries'']"

definition search_wiki_tools :: "string list" where
  "search_wiki_tools = [''search_entire_redmine'', ''manage_redmine_wiki_page'']"

definition gantt_tools :: "string list" where
  "gantt_tools = [''get_gantt_chart'']"

definition files_tools :: "string list" where
  "files_tools = [''get_redmine_attachment'', ''list_files'', ''delete_file'', ''upload_file'', ''cleanup_attachment_files'']"

definition checklists_tools :: "string list" where
  "checklists_tools = [''get_checklist'', ''create_checklist_item'', ''update_checklist_item'']"

definition products_tools :: "string list" where
  "products_tools = [''manage_product'']"

definition crm_tools :: "string list" where
  "crm_tools = [''manage_contact'']"

definition dmsf_tools :: "string list" where
  "dmsf_tools = [''manage_document'']"

lemmas tool_lists = meta_tools_def discovery_tools_def projects_tools_def issues_tools_def time_tools_def
  search_wiki_tools_def gantt_tools_def files_tools_def checklists_tools_def products_tools_def crm_tools_def
  dmsf_tools_def

definition all_tools :: "string list" where
  "all_tools = meta_tools @ discovery_tools @ projects_tools @ issues_tools @ time_tools @ search_wiki_tools @
     gantt_tools @ files_tools @ checklists_tools @ products_tools @ crm_tools @ dmsf_tools"

type_synonym route = "string \<times> json_object"

definition remove_route :: "string \<Rightarrow> route list \<Rightarrow> route list" where
  "remove_route name routes = filter (\<lambda>r. fst r \<noteq> name) routes"

text \<open>
  The router of \<open>RedmineMcp::new\<close>. \<open>schema\<close> gives the input schema the macros generate for a tool,
  \<open>to_portable\<close> is the conversion to the portable dialect. The routes are in the order of the
  modules; the router keeps them in a map and lists them by name.
\<close>

definition router_new ::
    "(string \<Rightarrow> json_object) \<Rightarrow> (json_object \<Rightarrow> json_object) \<Rightarrow> server_config \<Rightarrow> route list" where
  "router_new schema to_portable cfg =
     (let merged = map (\<lambda>name. (name, schema name)) all_tools;
          plugins = foldl (\<lambda>rs (name, enabled). if enabled (sv_plugins cfg) then rs else remove_route name rs)
                      merged PLUGIN_TOOLS;
          writes = (if sv_read_only cfg then foldl (\<lambda>rs name. remove_route name rs) plugins write_tools_all
                    else plugins);
          admin = (if sv_expose_admin_tools cfg then writes else remove_route ''cleanup_attachment_files'' writes)
      in if sv_portable cfg then map (\<lambda>(name, sch). (name, to_portable sch)) admin else admin)"

section \<open>Credentials of a call\<close>

text \<open>
  The parts of the request context the server reads: the headers of the API key, if the request came
  over HTTP, and the context the bearer middleware left.
\<close>

record request_context =
  rc_http :: bool
  rc_api_key_headers :: "string list"
  rc_auth_context :: "auth_context option"

datatype mcp_error = InvalidRequest string | InternalError string | InvalidParams | ToolNotFound

definition MAX_HEADER_LEN :: nat where
  "MAX_HEADER_LEN = 512"

text \<open>\<^verbatim>\<open>HeaderValue::to_str\<close>: visible ASCII and the tab.\<close>

definition header_to_str :: "string \<Rightarrow> string option" where
  "header_to_str bytes = (if list_all (\<lambda>c. 32 \<le> byte_of c \<and> byte_of c < 127 \<or> byte_of c = 9) bytes then Some bytes else None)"

definition credential_from_parts :: "string list \<Rightarrow> mcp_error + credential" where
  "credential_from_parts headers =
     (case headers of
        [] \<Rightarrow> Inl (InvalidRequest ''missing required X-Redmine-API-Key header'')
      | value # others \<Rightarrow>
          if others \<noteq> [] then Inl (InvalidRequest ''X-Redmine-API-Key header must be sent exactly once'')
          else if length value > MAX_HEADER_LEN
          then Inl (InvalidRequest ''X-Redmine-API-Key header exceeds the maximum accepted length'')
          else
            (case header_to_str value of
               None \<Rightarrow> Inl (InvalidRequest ''X-Redmine-API-Key header contains invalid (non-visible-ASCII) characters'')
             | Some text \<Rightarrow>
                 if trim text = [] then Inl (InvalidRequest ''X-Redmine-API-Key header must not be empty'')
                 else Inr (ApiKey (trim text))))"

definition credential_from_extensions :: "request_context \<Rightarrow> mcp_error + credential" where
  "credential_from_extensions ctx =
     (if rc_http ctx then credential_from_parts (rc_api_key_headers ctx)
      else Inl (InvalidRequest ''this auth mode requires the HTTP transport (no request headers available)''))"

definition request_auth_context :: "request_context \<Rightarrow> mcp_error + auth_context" where
  "request_auth_context ctx =
     (if \<not> rc_http ctx
      then Inl (InternalError ''oauth auth mode requires the HTTP transport (no request headers available)'')
      else (case rc_auth_context ctx of
              None \<Rightarrow> Inl (InternalError ''oauth auth mode requires the bearer-auth middleware, which did not run for this request'')
            | Some auth \<Rightarrow> Inr auth))"

text \<open>The credential choke point; \<open>default_credential\<close> is the one the client was built with.\<close>

definition server_scoped_credential :: "server_config \<Rightarrow> credential option \<Rightarrow> request_context \<Rightarrow> mcp_error + credential" where
  "server_scoped_credential cfg default_credential ctx =
     (case sv_auth cfg of
        AuthLegacy _ \<Rightarrow>
          (case default_credential of
             Some c \<Rightarrow> Inr c
           | None \<Rightarrow> Inl (InternalError ''invalid configuration: no default credential configured; use as_user(...) instead''))
      | AuthLegacyPerUser _ \<Rightarrow> credential_from_extensions ctx
      | AuthOAuth _ \<Rightarrow> map_sum id (\<lambda>auth. Bearer (ac_token auth)) (request_auth_context ctx)
      | AuthOAuthProxy _ \<Rightarrow> map_sum id (\<lambda>auth. Bearer (ac_token auth)) (request_auth_context ctx))"

section \<open>Listing and calling\<close>

definition scope_enforcement_active :: "server_config \<Rightarrow> bool" where
  "scope_enforcement_active cfg =
     (case sv_auth cfg of AuthOAuth on \<Rightarrow> on | AuthOAuthProxy on \<Rightarrow> on | _ \<Rightarrow> False)"

text \<open>The listed tools and whether a shared cache may keep the answer.\<close>

definition list_tools :: "server_config \<Rightarrow> route list \<Rightarrow> request_context \<Rightarrow> mcp_error + (route list \<times> bool)" where
  "list_tools cfg routes ctx =
     (if \<not> scope_enforcement_active cfg then Inr (routes, True)
      else
        (case request_auth_context ctx of
           Inl e \<Rightarrow> Inl e
         | Inr auth \<Rightarrow> Inr (filter (\<lambda>r. visible_for (fst r) (ac_scopes auth)) routes, False)))"

text \<open>
  The router's own dispatch: \<open>handlers\<close> gives the answer of a tool to arguments and context, \<open>None\<close>
  for a panic.
\<close>

type_synonym handlers =
  "string \<Rightarrow> json_object option \<Rightarrow> request_context \<Rightarrow> (mcp_error + call_tool_result) option"

definition router_call ::
    "route list \<Rightarrow> handlers \<Rightarrow> string \<Rightarrow> json_object option \<Rightarrow> request_context \<Rightarrow> (mcp_error + call_tool_result) option" where
  "router_call routes handlers name args ctx =
     (if name \<in> set (map fst routes) then handlers name args ctx else Some (Inl ToolNotFound))"

definition catch_tool_panic :: "(mcp_error + call_tool_result) option \<Rightarrow> mcp_error + call_tool_result" where
  "catch_tool_panic outcome =
     (case outcome of
        Some result \<Rightarrow> result
      | None \<Rightarrow> Inr (err CInternal ''the server encountered an internal error handling this request''
          (Some ''this is a bug in the server, not in your arguments; do not retry with different arguments'')))"

text \<open>The gate in front of the router: the answer to give instead, if any.\<close>

definition scope_gate :: "string \<Rightarrow> json_object option \<Rightarrow> scope set \<Rightarrow> call_tool_result option" where
  "scope_gate name args held =
     (if is_admin held then None
      else
        (case required_for_call name args of
           Unchecked \<Rightarrow> None
         | ReqScopes required \<Rightarrow>
             if missing required held \<noteq> [] then Some (insufficient_scope_result name (missing required held)) else None
         | ReqAnyOf any \<Rightarrow> if \<not> any_held any held then Some (insufficient_any_of_result name any) else None
         | ReqScopesWithAnyOf required any \<Rightarrow>
             if missing required held \<noteq> [] then Some (insufficient_scope_result name (missing required held))
             else if \<not> any_held any held then Some (insufficient_any_of_result name any) else None
         | Unmapped \<Rightarrow> Some (insufficient_scope_result name [])))"

definition dispatch_tool_call ::
    "server_config \<Rightarrow> route list \<Rightarrow> handlers \<Rightarrow> string \<Rightarrow> json_object option \<Rightarrow> request_context \<Rightarrow>
     mcp_error + call_tool_result" where
  "dispatch_tool_call cfg routes handlers name args ctx =
     catch_tool_panic
       (if scope_enforcement_active cfg then
          (case request_auth_context ctx of
             Inl e \<Rightarrow> Some (Inl e)
           | Inr auth \<Rightarrow>
               (case scope_gate name args (ac_scopes auth) of
                  Some denial \<Rightarrow> Some (Inr denial)
                | None \<Rightarrow> router_call routes handlers name args ctx))
        else router_call routes handlers name args ctx)"

definition tool_call_outcome :: "(mcp_error + call_tool_result) \<Rightarrow> string \<times> string option" where
  "tool_call_outcome result =
     (case result of
        Inl _ \<Rightarrow> (''error'', None)
      | Inr response \<Rightarrow>
          if \<not> ct_is_error response then (''ok'', None)
          else
            (let code = (case ct_structured response of
                           JObj m \<Rightarrow> (case map_of m ''code'' of Some v \<Rightarrow> as_str v | None \<Rightarrow> None)
                         | _ \<Rightarrow> None)
             in if code = Some ''INTERNAL'' then (''panic'', code)
                else if code = Some ''READ_ONLY'' \<or> code = Some ''INSUFFICIENT_SCOPE'' then (''denied'', code)
                else (''error'', code)))"

section \<open>Lemmas\<close>

lemma map_fst_remove_route: "map fst (remove_route name rs) = filter (\<lambda>t. t \<noteq> name) (map fst rs)"
  by (simp add: remove_route_def filter_map comp_def)

lemma remove_routes_names:
  "map fst (foldl (\<lambda>rs name. remove_route name rs) rs names) = filter (\<lambda>t. t \<notin> set names) (map fst rs)"
  by (induction names arbitrary: rs) (auto simp: map_fst_remove_route intro: filter_cong)

lemma remove_plugins_names:
  "map fst (foldl (\<lambda>rs (name, enabled). if enabled p then rs else remove_route name rs) rs tools) =
     filter (\<lambda>t. \<forall>(name, enabled) \<in> set tools. t = name \<longrightarrow> enabled p) (map fst rs)"
proof (induction tools arbitrary: rs)
  case (Cons te tools)
  obtain name enabled where te: "te = (name, enabled)" by (cases te)
  show ?case by (cases "enabled p") (auto simp: te Cons map_fst_remove_route intro!: filter_cong)
qed simp

text \<open>Which tools are routed.\<close>

definition routed :: "server_config \<Rightarrow> string \<Rightarrow> bool" where
  "routed cfg t \<longleftrightarrow> t \<in> set all_tools \<and>
     (\<forall>(name, enabled) \<in> set PLUGIN_TOOLS. t = name \<longrightarrow> enabled (sv_plugins cfg)) \<and>
     (sv_read_only cfg \<longrightarrow> t \<notin> set write_tools_all) \<and>
     (\<not> sv_expose_admin_tools cfg \<longrightarrow> t \<noteq> ''cleanup_attachment_files'')"

lemma router_new_names: "t \<in> set (map fst (router_new schema to_portable cfg)) \<longleftrightarrow> routed cfg t"
proof -
  have port: "map fst (map (\<lambda>(name, sch). (name, to_portable sch)) rs) = map fst rs" for rs :: "route list"
    by auto
  have merged: "map fst (map (\<lambda>name. (name, schema name)) all_tools) = all_tools"
    by (simp add: comp_def)
  have "map fst (router_new schema to_portable cfg) =
      filter (\<lambda>t. \<not> sv_expose_admin_tools cfg \<longrightarrow> t \<noteq> ''cleanup_attachment_files'')
        (filter (\<lambda>t. sv_read_only cfg \<longrightarrow> t \<notin> set write_tools_all)
          (filter (\<lambda>t. \<forall>(name, enabled) \<in> set PLUGIN_TOOLS. t = name \<longrightarrow> enabled (sv_plugins cfg)) all_tools))"
    unfolding router_new_def Let_def
    by (simp only: port merged if_distrib [of "map fst"] map_fst_remove_route remove_routes_names remove_plugins_names
        split: if_splits) (auto intro!: filter_cong)
  then show ?thesis by (auto simp: routed_def)
qed

lemma gate_open: "scope_gate name args held = None \<longleftrightarrow> is_admin held \<or> meets (required_for_call name args) held"
  by (auto simp: scope_gate_def missing_Nil any_held_iff split: requirement.splits)

lemma insufficient_denied:
  "tool_call_outcome (Inr (insufficient_scope_result name ms)) = (''denied'', Some ''INSUFFICIENT_SCOPE'')"
  "tool_call_outcome (Inr (insufficient_any_of_result name ms)) = (''denied'', Some ''INSUFFICIENT_SCOPE'')"
  by (simp_all add: tool_call_outcome_def insufficient_scope_result_def insufficient_any_of_result_def err_fields)

lemma gate_denies:
  "scope_gate name args held = Some d \<Longrightarrow> tool_call_outcome (Inr d) = (''denied'', Some ''INSUFFICIENT_SCOPE'')"
  by (auto simp: scope_gate_def insufficient_denied split: if_splits requirement.splits)

section \<open>Properties\<close>

text \<open>
  C35. Scope enforcement is exact. With enforcement on, a call that carries the context of the bearer
  middleware reaches the router exactly when the token has the admin scope or the scopes the call
  requires; otherwise it is answered with an in-band refusal that counts as denied, and no handler
  runs. A call without that context is an error and no handler runs.
\<close>

theorem dispatch_scope_exact:
  assumes "scope_enforcement_active cfg"
  shows "(rc_http ctx \<and> rc_auth_context ctx = Some auth \<longrightarrow>
      (if is_admin (ac_scopes auth) \<or> meets (required_for_call name args) (ac_scopes auth)
       then dispatch_tool_call cfg routes handlers name args ctx = catch_tool_panic (router_call routes handlers name args ctx)
       else \<exists>d. (\<forall>handlers. dispatch_tool_call cfg routes handlers name args ctx = Inr d) \<and>
              tool_call_outcome (Inr d) = (''denied'', Some ''INSUFFICIENT_SCOPE''))) \<and>
    (\<not> rc_http ctx \<or> rc_auth_context ctx = None \<longrightarrow>
      (\<exists>e. \<forall>handlers. dispatch_tool_call cfg routes handlers name args ctx = Inl e))"
proof -
  have "\<exists>d. (\<forall>handlers. dispatch_tool_call cfg routes handlers name args ctx = Inr d) \<and>
      tool_call_outcome (Inr d) = (''denied'', Some ''INSUFFICIENT_SCOPE'')"
    if "rc_http ctx" "rc_auth_context ctx = Some auth" "scope_gate name args (ac_scopes auth) = Some d" for d
    using that assms gate_denies [OF that(3)]
    by (auto simp: dispatch_tool_call_def request_auth_context_def catch_tool_panic_def)
  then show ?thesis
    using assms gate_open [of name args "ac_scopes auth"]
    by (auto simp: dispatch_tool_call_def request_auth_context_def catch_tool_panic_def simp flip: gate_open
        split: option.splits)
qed

definition example_plugins :: plugin_flags where
  "example_plugins = \<lparr>pf_agile = False, pf_checklists = False, pf_products = False, pf_crm = False, pf_dmsf = False, pf_tags = False\<rparr>"

definition example_server :: server_config where
  "example_server = \<lparr>sv_auth = AuthOAuth True, sv_plugins = example_plugins, sv_read_only = False,
     sv_expose_admin_tools = False, sv_portable = False\<rparr>"

definition example_context :: request_context where
  "example_context = \<lparr>rc_http = True, rc_api_key_headers = [], rc_auth_context =
     Some \<lparr>ac_token = ''t'', ac_subject = None, ac_scopes = {''view_issues''}, ac_expires_at = None\<rparr>\<rparr>"

text \<open>The hypothesis holds: a token that may only read issues cannot delete one, whatever the handlers are.\<close>

theorem dispatch_scope_exact_witness:
  "scope_enforcement_active example_server \<and>
   (\<exists>d. (\<forall>handlers. dispatch_tool_call example_server [] handlers ''delete_redmine_issue'' None example_context = Inr d) \<and>
      tool_call_outcome (Inr d) = (''denied'', Some ''INSUFFICIENT_SCOPE''))"
proof
  show a: "scope_enforcement_active example_server"
    by (simp add: scope_enforcement_active_def example_server_def)
  have req: "required_for_call ''delete_redmine_issue'' None = ReqScopes [''delete_issues'']"
    by (simp add: required_for_call_def TOOL_SCOPES_def)
  show "\<exists>d. (\<forall>handlers. dispatch_tool_call example_server [] handlers ''delete_redmine_issue'' None example_context = Inr d) \<and>
      tool_call_outcome (Inr d) = (''denied'', Some ''INSUFFICIENT_SCOPE'')"
    using dispatch_scope_exact [OF a, of example_context "the (rc_auth_context example_context)" "''delete_redmine_issue''" None "[]",
        THEN conjunct1]
    by (simp add: req example_context_def is_admin_def ADMIN_SCOPE_def)
qed

lemma table_actions_distinct:
  "map_of TOOL_SCOPES tool = Some (PerAction actions) \<Longrightarrow> distinct (map fst actions)"
proof -
  have "list_all (\<lambda>(t, rule). case rule of PerAction actions \<Rightarrow> distinct (map fst actions) | _ \<Rightarrow> True) TOOL_SCOPES"
    by (simp add: TOOL_SCOPES_def)
  then show "map_of TOOL_SCOPES tool = Some (PerAction actions) \<Longrightarrow> distinct (map fst actions)"
    by (fastforce simp: list_all_iff dest!: map_of_SomeD)
qed

lemma visible_has_call:
  assumes "visible_for tool held" and "\<not> is_admin held"
  shows "\<exists>args. required_for_call tool args \<noteq> Unchecked \<and> meets (required_for_call tool args) held"
proof -
  consider (update) "tool = ''update_redmine_issue''" | (create) "tool = ''create_redmine_issue''"
    | (table) "tool \<noteq> ''update_redmine_issue''" "tool \<noteq> ''create_redmine_issue''" by blast
  then show ?thesis
  proof cases
    case update
    have "required_for_call tool None = ReqScopes [''edit_issues'']"
      "required_for_call tool (Some [(''notes'', JStr [])]) = ReqScopes [''add_issue_notes'']"
      by (simp_all add: update required_for_call_def update_redmine_issue_requirement_def update_scope_defs
          is_notes_only_update_def NOTES_ONLY_FIELDS_def)
    moreover have "''edit_issues'' \<in> held \<or> ''add_issue_notes'' \<in> held"
      using assms by (simp add: update visible_for_def)
    ultimately show ?thesis by (elim disjE) (rule exI [of _ None], simp, rule exI [of _ "Some [(''notes'', JStr [])]"], simp)
  next
    case create
    then show ?thesis
      using assms by (intro exI [of _ None]) (auto simp: visible_for_def tool_scopes_create required_for_call_def
          create_redmine_issue_requirement_def list_all_iff)
  next
    case table
    obtain rule where rule: "map_of TOOL_SCOPES tool = Some rule"
      using assms table by (auto simp: visible_for_def split: option.splits)
    show ?thesis
    proof (cases rule)
      case (PerAction actions)
      then obtain a scopes where a: "(a, scopes) \<in> set actions" and sc: "list_all (\<lambda>s. s \<in> held) scopes"
        using assms table rule by (auto simp: visible_for_def list_ex_iff)
      have "map_of actions a = Some scopes"
        using a table_actions_distinct rule PerAction by (simp add: map_of_is_SomeI)
      then show ?thesis
        using rule table PerAction sc
        by (intro exI [of _ "Some [(''action'', JStr a)]"]) (auto simp: required_for_call_def action_str_def list_all_iff)
    qed (use assms table rule in \<open>auto simp: visible_for_def required_for_call_def list_all_iff any_held_iff\<close>)
  qed
qed

text \<open>
  The list of tools is exact. With enforcement on, a token without the admin scope is shown a
  routed tool exactly when some call of it is checked against the table and admitted; the admin scope
  shows all of them. The list is then never offered to a shared cache.
\<close>

theorem listing_exact:
  assumes "scope_enforcement_active cfg" and "rc_http ctx" and "rc_auth_context ctx = Some auth"
  shows "\<exists>rs. list_tools cfg routes ctx = Inr (rs, False) \<and>
    (\<forall>r. r \<in> set rs \<longleftrightarrow> r \<in> set routes \<and>
       (is_admin (ac_scopes auth) \<or>
        (\<exists>args. required_for_call (fst r) args \<noteq> Unchecked \<and> meets (required_for_call (fst r) args) (ac_scopes auth))))"
proof -
  have "visible_for t (ac_scopes auth) \<longleftrightarrow> is_admin (ac_scopes auth) \<or>
      (\<exists>args. required_for_call t args \<noteq> Unchecked \<and> meets (required_for_call t args) (ac_scopes auth))" for t
    using meets_visible [of t _ "ac_scopes auth"] visible_has_call [of t "ac_scopes auth"]
    by (auto simp: visible_for_def)
  then show ?thesis using assms by (simp add: list_tools_def request_auth_context_def)
qed

text \<open>The hypotheses hold: the token of the example sees the tool that reads an issue.\<close>

theorem listing_exact_witness:
  "scope_enforcement_active example_server \<and>
   (\<exists>rs. list_tools example_server [(''get_redmine_issue'', [])] example_context = Inr (rs, False) \<and>
      (''get_redmine_issue'', []) \<in> set rs)"
proof
  show a: "scope_enforcement_active example_server"
    by (simp add: scope_enforcement_active_def example_server_def)
  have req: "required_for_call ''get_redmine_issue'' None = ReqScopes [''view_issues'']"
    by (simp add: required_for_call_def TOOL_SCOPES_def)
  have auth: "rc_auth_context example_context =
      Some \<lparr>ac_token = ''t'', ac_subject = None, ac_scopes = {''view_issues''}, ac_expires_at = None\<rparr>"
    by (simp add: example_context_def)
  have h: "rc_http example_context" by (simp add: example_context_def)
  obtain rs where rs: "list_tools example_server [(''get_redmine_issue'', [])] example_context = Inr (rs, False)"
    "(''get_redmine_issue'', []) \<in> set rs \<longleftrightarrow> (''get_redmine_issue'', []) \<in> set [(''get_redmine_issue'', [] :: json_object)] \<and>
       (is_admin {''view_issues''} \<or> (\<exists>args. required_for_call ''get_redmine_issue'' args \<noteq> Unchecked \<and>
          meets (required_for_call ''get_redmine_issue'' args) {''view_issues''}))"
    using listing_exact [OF a h auth, of "[(''get_redmine_issue'', [])]"] by auto
  moreover have "\<exists>args. required_for_call ''get_redmine_issue'' args \<noteq> Unchecked \<and>
      meets (required_for_call ''get_redmine_issue'' args) {''view_issues''}"
    using req by (intro exI [of _ None]) simp
  ultimately show "\<exists>rs. list_tools example_server [(''get_redmine_issue'', [])] example_context = Inr (rs, False) \<and>
      (''get_redmine_issue'', []) \<in> set rs" by auto
qed

text \<open>A rule that a set of scopes satisfies whatever the arguments are.\<close>

fun rule_within :: "scope list \<Rightarrow> scope_rule \<Rightarrow> bool" where
  "rule_within xs (Fixed scopes) = list_all (\<lambda>s. s \<in> set xs) scopes"
| "rule_within xs (AnyOf scopes) = list_ex (\<lambda>s. s \<in> set xs) scopes"
| "rule_within xs (PerAction actions) = list_all (\<lambda>(_, scopes). list_all (\<lambda>s. s \<in> set xs) scopes) actions"

lemma rule_within_meets:
  assumes "map_of TOOL_SCOPES tool = Some rule" and "rule_within xs rule"
    and "tool \<noteq> ''update_redmine_issue''" and "tool \<noteq> ''create_redmine_issue''"
  shows "meets (required_for_call tool args) (set xs)"
  using assms
  by (cases rule) (auto simp: required_for_call_def list_all_iff list_ex_iff split: option.splits dest!: map_of_SomeD)

lemma all_tools_mapped: "t \<in> set all_tools \<longleftrightarrow> map_of TOOL_SCOPES t \<noteq> None"
proof -
  have "list_all (\<lambda>t. t \<in> set (map fst TOOL_SCOPES)) all_tools" "list_all (\<lambda>t. t \<in> set all_tools) (map fst TOOL_SCOPES)"
    by (simp_all add: all_tools_def tool_lists TOOL_SCOPES_def)
  then show ?thesis by (auto simp: list_all_iff map_of_eq_None_iff)
qed

lemma table_within_advertised: "list_all (\<lambda>(t, rule). rule_within (advertised False True True) rule) TOOL_SCOPES"
  by (simp add: TOOL_SCOPES_def advertised_def scope_lists update_scope_defs)

lemma table_within_read:
  "list_all (\<lambda>(t, rule). t \<in> set write_tools_all \<or> t \<in> set PARTIAL_WRITE \<or> rule_within READ_SCOPES rule) TOOL_SCOPES"
  by (simp add: TOOL_SCOPES_def write_tools_all_def PARTIAL_WRITE_def READ_SCOPES_def)

lemma partial_visible_read: "t \<in> set PARTIAL_WRITE \<Longrightarrow> visible_for t (set READ_SCOPES)"
proof -
  have "list_all (\<lambda>t. visible_for t (set READ_SCOPES)) PARTIAL_WRITE"
    by (simp add: PARTIAL_WRITE_def visible_for_def TOOL_SCOPES_def READ_SCOPES_def)
  then show "t \<in> set PARTIAL_WRITE \<Longrightarrow> visible_for t (set READ_SCOPES)" by (simp add: list_all_iff)
qed

lemma visible_mono:
  assumes "visible_for t held" and "held \<subseteq> held'"
  shows "visible_for t held'"
proof (cases "is_admin held'")
  case False
  then have "\<not> is_admin held" using assms(2) by (auto simp: is_admin_def)
  then show ?thesis
    using visible_has_call [OF assms(1)] meets_visible meets_mono [OF _ assms(2)] by blast
qed (simp add: visible_for_def)

text \<open>
  The advertised scopes suffice, and every routed tool is in the table. A token with all the scopes
  a deployment with every plugin advertises is admitted to every call of every tool; a token with the
  scopes a read-only deployment advertises is admitted to every call of every tool routed there,
  except the tools that mix reads and writes, which it is shown.
\<close>

theorem advertised_scopes_suffice:
  "(t \<in> set all_tools \<longrightarrow> meets (required_for_call t args) (set (advertised False True True))) \<and>
   (routed cfg t \<and> sv_read_only cfg \<longrightarrow>
      (if t \<in> set PARTIAL_WRITE then visible_for t (set (advertised True agile tags))
       else meets (required_for_call t args) (set (advertised True agile tags))))"
proof (intro conjI impI)
  assume "t \<in> set all_tools"
  then obtain rule where rule: "map_of TOOL_SCOPES t = Some rule" by (auto simp: all_tools_mapped)
  then have within: "rule_within (advertised False True True) rule"
    using table_within_advertised by (auto simp: list_all_iff dest!: map_of_SomeD)
  show "meets (required_for_call t args) (set (advertised False True True))"
  proof (cases "t = ''update_redmine_issue'' \<or> t = ''create_redmine_issue''")
    case True
    then show ?thesis
      by (auto simp: required_for_call_def update_redmine_issue_requirement_def create_redmine_issue_requirement_def
          update_scope_defs advertised_def scope_lists Let_def split: option.splits)
  next
    case False
    then show ?thesis using rule_within_meets [OF rule within] by simp
  qed
next
  assume t: "routed cfg t \<and> sv_read_only cfg"
  have sub: "set READ_SCOPES \<subseteq> set (advertised True agile tags)" by (auto simp: advertised_def)
  show "if t \<in> set PARTIAL_WRITE then visible_for t (set (advertised True agile tags))
       else meets (required_for_call t args) (set (advertised True agile tags))"
  proof (cases "t \<in> set PARTIAL_WRITE")
    case True
    then show ?thesis using visible_mono [OF partial_visible_read sub] by simp
  next
    case False
    obtain rule where rule: "map_of TOOL_SCOPES t = Some rule"
      using t by (auto simp: routed_def all_tools_mapped)
    have w: "t \<notin> set write_tools_all" using t by (simp add: routed_def)
    then have "t \<noteq> ''update_redmine_issue''" "t \<noteq> ''create_redmine_issue''" by (auto simp: write_tools_all_def)
    moreover have "rule_within READ_SCOPES rule"
      using table_within_read rule w False by (auto simp: list_all_iff dest!: map_of_SomeD)
    ultimately show ?thesis using rule_within_meets [OF rule] meets_mono [OF _ sub] False by simp
  qed
qed

text \<open>The hypotheses hold in a read-only deployment for the tool that reads an issue.\<close>

theorem advertised_scopes_suffice_witness:
  "routed (example_server\<lparr>sv_read_only := True\<rparr>) ''get_redmine_issue'' \<and>
   meets (required_for_call ''get_redmine_issue'' None) (set (advertised True False False))"
proof
  show r: "routed (example_server\<lparr>sv_read_only := True\<rparr>) ''get_redmine_issue''"
    by (simp add: routed_def all_tools_def tool_lists PLUGIN_TOOLS_def write_tools_all_def)
  have "sv_read_only (example_server\<lparr>sv_read_only := True\<rparr>)" by simp
  with r advertised_scopes_suffice [of "''get_redmine_issue''" None "example_server\<lparr>sv_read_only := True\<rparr>" False False, THEN conjunct2]
  show "meets (required_for_call ''get_redmine_issue'' None) (set (advertised True False False))"
    by (simp add: PARTIAL_WRITE_def)
qed

text \<open>
  Only what is enabled is routed. The router has exactly the tools of the modules, without those
  of disabled plugins, without the writing tools in a read-only deployment, and without the clean-up
  tool unless administrative tools are exposed; a call of any other name never runs a handler.
\<close>

theorem router_exact:
  "(t \<in> set (map fst (router_new schema to_portable cfg)) \<longleftrightarrow> routed cfg t) \<and>
   (\<not> routed cfg t \<longrightarrow> router_call (router_new schema to_portable cfg) handlers t args ctx = Some (Inl ToolNotFound)) \<and>
   (sv_read_only cfg \<and> t \<in> set write_tools_all \<longrightarrow> \<not> routed cfg t)"
  using router_new_names [of t schema to_portable cfg] by (auto simp: router_call_def routed_def)

text \<open>The hypotheses hold: a read-only server does not route the tool that creates issues.\<close>

theorem router_exact_witness:
  "\<not> routed (example_server\<lparr>sv_read_only := True\<rparr>) ''create_redmine_issue'' \<and>
   router_call (router_new (\<lambda>_. []) (\<lambda>s. s) (example_server\<lparr>sv_read_only := True\<rparr>)) (\<lambda>_ _ _. None)
     ''create_redmine_issue'' None example_context = Some (Inl ToolNotFound)"
proof -
  have "sv_read_only (example_server\<lparr>sv_read_only := True\<rparr>) \<and> ''create_redmine_issue'' \<in> set write_tools_all"
    by (simp add: write_tools_all_def)
  then show ?thesis
    using router_exact [of "''create_redmine_issue''" "\<lambda>_. []" "\<lambda>s. s" "example_server\<lparr>sv_read_only := True\<rparr>"
        "\<lambda>_ _ _. None" None example_context] by blast
qed

text \<open>
  C38. The gap in the check per action. A tool with a rule per action is not checked at all when the
  argument \<open>action\<close> is present but not a string: the call reaches the handler with whatever scopes the
  token holds. The rule leaves the refusal to the decoder of the tool, but the JSON form of a unit
  variant that the decoder accepts includes the object with the variant as its only key.
\<close>

theorem non_string_action_unchecked:
  assumes "map_of TOOL_SCOPES name = Some (PerAction actions)" and "map_of m ''action'' = Some v" and "as_str v = None"
    and "rc_http ctx" and "rc_auth_context ctx = Some auth"
  shows "dispatch_tool_call cfg routes handlers name (Some m) ctx = catch_tool_panic (router_call routes handlers name (Some m) ctx)"
proof -
  have "name \<noteq> ''update_redmine_issue''" "name \<noteq> ''create_redmine_issue''"
    using assms(1) by (auto simp: TOOL_SCOPES_def)
  then have "required_for_call name (Some m) = Unchecked"
    using assms by (simp add: required_for_call_def action_str_def)
  then show ?thesis using assms(4,5)
    by (simp add: dispatch_tool_call_def request_auth_context_def scope_gate_def)
qed

text \<open>The hypotheses hold: the token that may only read issues reaches the handler that logs time.\<close>

theorem non_string_action_unchecked_witness:
  "dispatch_tool_call example_server [(''manage_time_entry'', [])] (\<lambda>name _ _. Some (Inr (err CInternal name None)))
     ''manage_time_entry'' (Some [(''action'', JObj [(''create'', JNull)])]) example_context =
   Inr (err CInternal ''manage_time_entry'' None)"
proof -
  have rule: "map_of TOOL_SCOPES ''manage_time_entry'' =
      Some (PerAction [(''create'', [''log_time'']), (''update'', [''edit_time_entries''])])"
    by (simp add: TOOL_SCOPES_def)
  show ?thesis
    by (subst non_string_action_unchecked [OF rule, of _ "JObj [(''create'', JNull)]" _ "the (rc_auth_context example_context)"])
      (simp_all add: example_context_def router_call_def catch_tool_panic_def)
qed

text \<open>
  No ambient credential. In the per-user mode the credential of a call is the trimmed key of the one
  \<^verbatim>\<open>X-Redmine-API-Key\<close> header of its own request, which is visible ASCII, not empty and at most 512 bytes
  long; in the OAuth modes it is the token the middleware verified. The credential the server was
  started with is never used there.
\<close>

theorem no_ambient_credential:
  "(sv_auth cfg = AuthLegacyPerUser audit \<longrightarrow>
      (server_scoped_credential cfg default_credential ctx = Inr c \<longleftrightarrow>
       rc_http ctx \<and> (\<exists>v. rc_api_key_headers ctx = [v] \<and> length v \<le> 512 \<and> header_to_str v = Some v \<and> trim v \<noteq> [] \<and>
         c = ApiKey (trim v)))) \<and>
   (sv_auth cfg = AuthOAuth on \<or> sv_auth cfg = AuthOAuthProxy on \<longrightarrow>
      (server_scoped_credential cfg default_credential ctx = Inr c \<longleftrightarrow>
       rc_http ctx \<and> (\<exists>auth. rc_auth_context ctx = Some auth \<and> c = Bearer (ac_token auth))))"
proof -
  have str: "header_to_str v = Some u \<Longrightarrow> u = v" for v u
    by (simp add: header_to_str_def split: if_splits)
  show ?thesis
    by (auto simp: server_scoped_credential_def credential_from_extensions_def credential_from_parts_def
        request_auth_context_def MAX_HEADER_LEN_def split: list.splits option.splits if_splits dest: str)
qed

text \<open>The hypotheses hold: a key with a trailing space.\<close>

theorem no_ambient_credential_witness:
  "server_scoped_credential (example_server\<lparr>sv_auth := AuthLegacyPerUser False\<rparr>) (Some (ApiKey ''server''))
     \<lparr>rc_http = True, rc_api_key_headers = [''key ''], rc_auth_context = None\<rparr> = Inr (ApiKey ''key'')"
proof -
  have t: "trim ''key '' = ''key''" "header_to_str ''key '' = Some ''key ''"
    by (simp_all add: trim_def is_whitespace_def byte_of_def header_to_str_def)
  have p: "sv_auth (example_server\<lparr>sv_auth := AuthLegacyPerUser False\<rparr>) = AuthLegacyPerUser False" by simp
  show ?thesis
    using no_ambient_credential [of "example_server\<lparr>sv_auth := AuthLegacyPerUser False\<rparr>" False "Some (ApiKey ''server'')"
        "\<lparr>rc_http = True, rc_api_key_headers = [''key ''], rc_auth_context = None\<rparr>" "ApiKey ''key''" False,
        THEN conjunct1, THEN mp, OF p] by (simp add: t)
qed

end
