(* ===== verification/Config.thy ===== *)
theory Config
  imports Server_Router
begin

text \<open>
  The configuration (\<^verbatim>\<open>config.rs\<close>): the parsers of the environment variables and the checks between
  them, in the order of the source, so that the first problem is the one reported. Of an error the
  variant and the variable are kept, not the explanation. What the parsers ask of other libraries
  and of the operating system is a record: URL and JSON parsing, the check of an authority and of a
  header value, files, the text of an address, the directory for temporary files.
\<close>

section \<open>Results\<close>

text \<open>The operator \<^verbatim>\<open>?\<close>, and \<^verbatim>\<open>collect\<close> into a \<^verbatim>\<open>Result\<close>.\<close>

definition and_then :: "'e + 'a \<Rightarrow> ('a \<Rightarrow> 'e + 'b) \<Rightarrow> 'e + 'b" where
  "and_then r f = (case r of Inl e \<Rightarrow> Inl e | Inr v \<Rightarrow> f v)"

fun collect_results :: "('e + 'a) list \<Rightarrow> 'e + 'a list" where
  "collect_results [] = Inr []"
| "collect_results (r # rs) = and_then r (\<lambda>v. and_then (collect_results rs) (\<lambda>vs. Inr (v # vs)))"

lemma and_then_simps [simp]: "and_then (Inl e) f = Inl e" "and_then (Inr v) f = f v"
  by (simp_all add: and_then_def)

lemma and_then_Inr: "and_then r f = Inr w \<longleftrightarrow> (\<exists>v. r = Inr v \<and> f v = Inr w)"
  by (cases r) simp_all

section \<open>Data\<close>

record url_q = url +
  url_query :: "string option"

type_synonym env_map = "(string, string) fmap"

record config_env =
  cw_url :: "string \<Rightarrow> url_q option"
  cw_json :: "string \<Rightarrow> json option"
  cw_authority :: "string \<Rightarrow> bool"
  cw_header :: "string \<Rightarrow> bool"
  cw_read_file :: "string \<Rightarrow> string option"
  cw_ip_str :: "ip_addr \<Rightarrow> string"
  cw_url_str :: "url_q \<Rightarrow> string"
  cw_temp_dir :: string
  cw_path_join :: "string \<Rightarrow> string \<Rightarrow> string"

datatype config_error = CfgMissing string | CfgInvalid string | CfgConflict

datatype transport_kind = KindStdio | KindHttp

datatype schema_dialect = Strict | Portable

datatype log_format = LogText | LogJson

datatype discovery_as = DiscoveryRedmine | DiscoverySelfHosted

record redmine_version =
  rv_major :: nat
  rv_minor :: nat
  rv_patch :: nat

record redmine_config =
  rm_url :: url_q
  rm_ssl_verify :: bool
  rm_version :: "redmine_version option"

record socket_addr =
  sa_ip :: ip_addr
  sa_port :: "16 word"

record rate_limit_config =
  rl_enabled :: bool
  rl_standard_rps :: nat
  rl_standard_burst :: nat
  rl_strict_rps :: nat
  rl_strict_burst :: nat
  rl_max_keys :: nat

record http_settings =
  hs_bind :: socket_addr
  hs_mcp_path :: string
  hs_allowed_hosts :: "string list"
  hs_allowed_origins :: "string list"
  hs_max_request_body_bytes :: nat
  hs_health_ttl :: duration
  hs_request_timeout :: duration
  hs_public_base :: url_q
  hs_rate_limit :: rate_limit_config

datatype transport_config = TransportStdio | TransportHttp http_settings

record oauth_config =
  oc_base_url :: url_q
  oc_introspect_client_id :: string
  oc_introspect_client_secret :: secret
  oc_token_cache_ttl :: duration
  oc_discovery_as :: discovery_as
  oc_scopes :: "scope list"
  oc_scope_enforcement :: bool

record oauth_proxy_config =
  op_resource :: oauth_config
  op_upstream_client_id :: string
  op_upstream_client_secret :: secret
  op_redirects :: redirect_policy

datatype config_auth =
    CfgLegacy credential
  | CfgLegacyPerUser bool
  | CfgOAuth oauth_config
  | CfgOAuthProxy oauth_proxy_config

record attachment_settings =
  as_dir :: string
  as_max_download_bytes :: nat
  as_store_max_bytes :: nat
  as_auto_cleanup_enabled :: bool
  as_cleanup_interval :: duration
  as_expires_after :: duration
  as_upload_file_roots :: "string list"
  as_expose_admin_tools :: bool
  as_public_url_rewrite :: "url_q option"

datatype custom_field_default = SingleDefault string | MultipleDefault "string list"

record custom_field_config =
  cf_autofill_required :: bool
  cf_defaults :: "(string \<times> custom_field_default) list"

record config =
  co_redmine :: redmine_config
  co_auth :: config_auth
  co_transport :: transport_config
  co_read_only :: bool
  co_plugins :: plugin_flags
  co_attachments :: attachment_settings
  co_max_response_items :: nat
  co_max_response_bytes :: nat
  co_schema_dialect :: schema_dialect
  co_custom_fields :: custom_field_config
  co_log_format :: log_format

section \<open>Variables\<close>

definition optional :: "env_map \<Rightarrow> string \<Rightarrow> string option" where
  "optional vars var = (case fmlookup vars var of Some v \<Rightarrow> if v = [] then None else Some v | None \<Rightarrow> None)"

definition required :: "env_map \<Rightarrow> string \<Rightarrow> config_error + string" where
  "required vars var = (case optional vars var of Some v \<Rightarrow> Inr v | None \<Rightarrow> Inl (CfgMissing var))"

definition optional_bool :: "env_map \<Rightarrow> string \<Rightarrow> bool \<Rightarrow> config_error + bool" where
  "optional_bool vars var def =
     (case optional vars var of
        None \<Rightarrow> Inr def
      | Some v \<Rightarrow>
          (let l = to_ascii_lowercase v in
           if l = ''true'' \<or> l = ''1'' then Inr True
           else if l = ''false'' \<or> l = ''0'' then Inr False
           else Inl (CfgInvalid var)))"

definition read_secret :: "config_env \<Rightarrow> env_map \<Rightarrow> string \<Rightarrow> config_error + secret option" where
  "read_secret W vars var =
     (case (optional vars var, optional vars (var @ ''_FILE'')) of
        (Some _, Some _) \<Rightarrow> Inl CfgConflict
      | (Some v, None) \<Rightarrow> Inr (Some v)
      | (None, Some path) \<Rightarrow>
          (case cw_read_file W path of
             None \<Rightarrow> Inl (CfgInvalid var)
           | Some contents \<Rightarrow>
               Inr (Some (case strip_suffix contents [char_of (10 :: nat)] of Some t \<Rightarrow> t | None \<Rightarrow> contents)))
      | (None, None) \<Rightarrow> Inr None)"

fun split_char :: "char \<Rightarrow> string \<Rightarrow> string \<Rightarrow> string list" where
  "split_char c acc [] = [rev acc]"
| "split_char c acc (x # xs) = (if x = c then rev acc # split_char c [] xs else split_char c (x # acc) xs)"

definition parse_csv :: "env_map \<Rightarrow> string \<Rightarrow> config_error + string list option" where
  "parse_csv vars var =
     (case optional vars var of
        None \<Rightarrow> Inr None
      | Some raw \<Rightarrow>
          (let entries = filter (\<lambda>s. s \<noteq> []) (map trim (split_char (CHR '','') [] raw))
           in if entries = [] then Inl (CfgInvalid var) else Inr (Some entries)))"

definition parse_u32 :: "string \<Rightarrow> nat option" where
  "parse_u32 s =
     (let ds = (case s of c # cs \<Rightarrow> if c = CHR ''+'' then cs else s | [] \<Rightarrow> s)
      in if ds = [] then None else digits_value 10 4294967295 0 ds)"

text \<open>\<open>parse\<close> is the parser of the integer type; a \<^verbatim>\<open>usize\<close> has 64 bits.\<close>

definition positive_number :: "(string \<Rightarrow> nat option) \<Rightarrow> env_map \<Rightarrow> string \<Rightarrow> nat \<Rightarrow> config_error + nat" where
  "positive_number parse vars var def =
     (case optional vars var of
        None \<Rightarrow> Inr def
      | Some raw \<Rightarrow>
          (case parse raw of
             None \<Rightarrow> Inl (CfgInvalid var)
           | Some n \<Rightarrow> if n = 0 then Inl (CfgInvalid var) else Inr n))"

definition positive_usize :: "env_map \<Rightarrow> string \<Rightarrow> nat \<Rightarrow> config_error + nat" where
  "positive_usize = positive_number parse_u64"

definition positive_u32 :: "env_map \<Rightarrow> string \<Rightarrow> nat \<Rightarrow> config_error + nat" where
  "positive_u32 = positive_number parse_u32"

definition positive_u64 :: "env_map \<Rightarrow> string \<Rightarrow> nat \<Rightarrow> config_error + nat" where
  "positive_u64 = positive_number parse_u64"

definition bounded_number :: "env_map \<Rightarrow> string \<Rightarrow> nat \<Rightarrow> nat \<Rightarrow> nat \<Rightarrow> config_error + nat" where
  "bounded_number vars var lo hi def =
     (case optional vars var of
        None \<Rightarrow> Inr def
      | Some raw \<Rightarrow>
          (case parse_u64 raw of
             None \<Rightarrow> Inl (CfgInvalid var)
           | Some n \<Rightarrow> if lo \<le> n \<and> n \<le> hi then Inr n else Inl (CfgInvalid var)))"

section \<open>The Redmine server\<close>

definition version_part :: "string \<Rightarrow> nat option" where
  "version_part part = (if list_all is_ascii_digit part then parse_u32 part else None)"

definition version_from_str :: "string \<Rightarrow> redmine_version option" where
  "version_from_str raw =
     (case map version_part (split_char (CHR ''.'') [] raw) of
        [Some major, Some minor, Some patch] \<Rightarrow> Some \<lparr>rv_major = major, rv_minor = minor, rv_patch = patch\<rparr>
      | _ \<Rightarrow> None)"

definition version_str :: "redmine_version \<Rightarrow> string" where
  "version_str v = nat_str (rv_major v) @ ''.'' @ nat_str (rv_minor v) @ ''.'' @ nat_str (rv_patch v)"

definition advisory :: "redmine_version \<Rightarrow> string option" where
  "advisory v =
     (if rv_major v \<le> 5 then Some ''Redmine before 6.0 is unsupported; run at least 6.0.12, 6.1.6 or 7.0.3''
      else if rv_major v = 6 \<and> rv_minor v = 0 \<and> rv_patch v \<le> 11 then Some ''upgrade to Redmine 6.0.12 or later''
      else if rv_major v = 6 \<and> rv_minor v = 1 \<and> rv_patch v \<le> 5 then Some ''upgrade to Redmine 6.1.6 or later''
      else if rv_major v = 7 \<and> rv_minor v = 0 \<and> rv_patch v \<le> 2 then Some ''upgrade to Redmine 7.0.3 or later''
      else None)"

definition parse_redmine :: "config_env \<Rightarrow> env_map \<Rightarrow> config_error + redmine_config" where
  "parse_redmine W vars =
     and_then (required vars ''REDMINE_URL'') (\<lambda>raw.
     (case cw_url W raw of
        None \<Rightarrow> Inl (CfgInvalid ''REDMINE_URL'')
      | Some url \<Rightarrow>
          if url_scheme url \<noteq> ''http'' \<and> url_scheme url \<noteq> ''https'' then Inl (CfgInvalid ''REDMINE_URL'')
          else if url_username url \<noteq> [] \<or> url_password url \<noteq> None then Inl (CfgInvalid ''REDMINE_URL'')
          else
            and_then (optional_bool vars ''REDMINE_SSL_VERIFY'' True) (\<lambda>ssl_verify.
            (case optional vars ''REDMINE_VERSION'' of
               None \<Rightarrow> Inr \<lparr>rm_url = url, rm_ssl_verify = ssl_verify, rm_version = None\<rparr>
             | Some raw \<Rightarrow>
                 (case version_from_str raw of
                    None \<Rightarrow> Inl (CfgInvalid ''REDMINE_VERSION'')
                  | Some v \<Rightarrow> Inr \<lparr>rm_url = url, rm_ssl_verify = ssl_verify, rm_version = Some v\<rparr>)))))"

section \<open>The HTTP transport\<close>

definition parse_port_var :: "env_map \<Rightarrow> string \<Rightarrow> config_error + 16 word option" where
  "parse_port_var vars var =
     (case optional vars var of
        None \<Rightarrow> Inr None
      | Some raw \<Rightarrow>
          (case parse_u16 raw of
             None \<Rightarrow> Inl (CfgInvalid var)
           | Some p \<Rightarrow> if p = 0 then Inl (CfgInvalid var) else Inr (Some p)))"

definition DEFAULT_SERVER_PORT :: "16 word" where
  "DEFAULT_SERVER_PORT = 8000"

definition parse_bind :: "env_map \<Rightarrow> config_error + socket_addr" where
  "parse_bind vars =
     and_then (case optional vars ''SERVER_HOST'' of
                 None \<Rightarrow> Inr (V4 [127, 0, 0, 1])
               | Some raw \<Rightarrow> (case parse_ip_addr raw of None \<Rightarrow> Inl (CfgInvalid ''SERVER_HOST'') | Some ip \<Rightarrow> Inr ip)) (\<lambda>ip.
     and_then (parse_port_var vars ''SERVER_PORT'') (\<lambda>port.
     Inr \<lparr>sa_ip = ip, sa_port = (case port of Some p \<Rightarrow> p | None \<Rightarrow> DEFAULT_SERVER_PORT)\<rparr>))"

definition parse_mcp_path :: "env_map \<Rightarrow> config_error + string" where
  "parse_mcp_path vars =
     (case optional vars ''FASTMCP_STREAMABLE_HTTP_PATH'' of
        None \<Rightarrow> Inr ''/mcp''
      | Some path \<Rightarrow>
          if \<not> starts_with path ''/'' \<or> path = ''/'' \<or> contains path ''..'' \<or>
             list_ex (\<lambda>c. c \<in> set ''?#'') path \<or> list_ex (\<lambda>c. c \<in> set ''{}*'') path \<or> list_ex is_whitespace path
          then Inl (CfgInvalid ''FASTMCP_STREAMABLE_HTTP_PATH'')
          else Inr path)"

definition origin_ok :: "config_env \<Rightarrow> string \<Rightarrow> bool" where
  "origin_ok W cand \<longleftrightarrow>
     cand \<noteq> ''*'' \<and> \<not> eq_ignore_ascii_case cand ''null'' \<and> contains cand ''://'' \<and> cw_header W cand"

definition parse_allowed_origins :: "config_env \<Rightarrow> env_map \<Rightarrow> config_error + string list" where
  "parse_allowed_origins W vars =
     and_then (parse_csv vars ''REDMINE_MCP_ALLOWED_ORIGINS'') (\<lambda>entries.
     (case entries of
        None \<Rightarrow> Inr []
      | Some origins \<Rightarrow>
          if list_all (origin_ok W) origins then Inr origins else Inl (CfgInvalid ''REDMINE_MCP_ALLOWED_ORIGINS'')))"

definition LOOPBACK_HOSTS :: "string list" where
  "LOOPBACK_HOSTS = [''localhost'', ''127.0.0.1'', ''::1'']"

definition validate_authority :: "config_env \<Rightarrow> string \<Rightarrow> string \<Rightarrow> config_error + unit" where
  "validate_authority W var v = (if cw_authority W v then Inr () else Inl (CfgInvalid var))"

definition parse_allowed_hosts :: "config_env \<Rightarrow> env_map \<Rightarrow> socket_addr \<Rightarrow> config_error + string list" where
  "parse_allowed_hosts W vars bind =
     and_then (parse_csv vars ''REDMINE_MCP_ALLOWED_HOSTS'') (\<lambda>explicit.
     (case explicit of
        Some hosts \<Rightarrow>
          if ''*'' \<in> set hosts
          then (if length hosts > 1 then Inl (CfgInvalid ''REDMINE_MCP_ALLOWED_HOSTS'') else Inr [])
          else
            and_then (collect_results (map (validate_authority W ''REDMINE_MCP_ALLOWED_HOSTS'') hosts)) (\<lambda>_. Inr hosts)
      | None \<Rightarrow>
          and_then (parse_port_var vars ''PUBLIC_PORT'') (\<lambda>public_port.
          (case optional vars ''PUBLIC_HOST'' of
             None \<Rightarrow>
               if public_port \<noteq> None then Inl CfgConflict
               else if ip_is_loopback (sa_ip bind) then Inr LOOPBACK_HOSTS
               else Inl (CfgMissing ''PUBLIC_HOST'')
           | Some host \<Rightarrow>
               and_then (validate_authority W ''PUBLIC_HOST'' host) (\<lambda>_.
               Inr (remdups_adj (LOOPBACK_HOSTS @
                 [case public_port of Some port \<Rightarrow> host @ '':'' @ nat_str (unat port) | None \<Rightarrow> host])))))))"

definition parse_public_scheme :: "env_map \<Rightarrow> 16 word option \<Rightarrow> config_error + string" where
  "parse_public_scheme vars public_port =
     (case optional vars ''PUBLIC_SCHEME'' of
        None \<Rightarrow> Inr (if public_port = Some 443 then ''https'' else ''http'')
      | Some s \<Rightarrow> if s = ''http'' \<or> s = ''https'' then Inr s else Inl (CfgInvalid ''PUBLIC_SCHEME''))"

definition public_base_from_loopback_bind :: "config_env \<Rightarrow> socket_addr \<Rightarrow> config_error + string" where
  "public_base_from_loopback_bind W bind =
     (if \<not> ip_is_loopback (sa_ip bind) then Inl (CfgMissing ''PUBLIC_HOST'')
      else
        (let host = (case sa_ip bind of V6 _ \<Rightarrow> ''['' @ cw_ip_str W (sa_ip bind) @ '']'' | V4 _ \<Rightarrow> cw_ip_str W (sa_ip bind))
         in Inr (''http://'' @ host @ '':'' @ nat_str (unat (sa_port bind)))))"

definition parse_public_base :: "config_env \<Rightarrow> env_map \<Rightarrow> socket_addr \<Rightarrow> config_error + url_q" where
  "parse_public_base W vars bind =
     and_then (parse_port_var vars ''PUBLIC_PORT'') (\<lambda>public_port.
     and_then (parse_public_scheme vars public_port) (\<lambda>scheme.
     and_then (case optional vars ''PUBLIC_HOST'' of
                 Some host \<Rightarrow>
                   Inr (scheme @ ''://'' @ host @ (case public_port of Some port \<Rightarrow> '':'' @ nat_str (unat port) | None \<Rightarrow> []))
               | None \<Rightarrow> public_base_from_loopback_bind W bind) (\<lambda>raw.
     (case cw_url W raw of Some url \<Rightarrow> Inr url | None \<Rightarrow> Inl (CfgInvalid ''PUBLIC_HOST'')))))"

definition parse_rate_limit :: "env_map \<Rightarrow> config_error + rate_limit_config" where
  "parse_rate_limit vars =
     and_then (optional_bool vars ''REDMINE_MCP_RATE_LIMIT_ENABLED'' True) (\<lambda>enabled.
     and_then (positive_u32 vars ''REDMINE_MCP_RATE_LIMIT_RPS'' 10) (\<lambda>standard_rps.
     and_then (positive_u32 vars ''REDMINE_MCP_RATE_LIMIT_BURST'' 40) (\<lambda>standard_burst.
     and_then (positive_u32 vars ''REDMINE_MCP_RATE_LIMIT_AUTH_RPS'' 1) (\<lambda>strict_rps.
     and_then (positive_u32 vars ''REDMINE_MCP_RATE_LIMIT_AUTH_BURST'' 10) (\<lambda>strict_burst.
     and_then (positive_usize vars ''REDMINE_MCP_RATE_LIMIT_MAX_KEYS'' 10000) (\<lambda>max_keys.
     if standard_burst < standard_rps then Inl (CfgInvalid ''REDMINE_MCP_RATE_LIMIT_BURST'')
     else if strict_burst < strict_rps then Inl (CfgInvalid ''REDMINE_MCP_RATE_LIMIT_AUTH_BURST'')
     else Inr \<lparr>rl_enabled = enabled, rl_standard_rps = standard_rps, rl_standard_burst = standard_burst,
               rl_strict_rps = strict_rps, rl_strict_burst = strict_burst, rl_max_keys = max_keys\<rparr>))))))"

definition parse_http :: "config_env \<Rightarrow> env_map \<Rightarrow> config_error + http_settings" where
  "parse_http W vars =
     and_then (parse_bind vars) (\<lambda>bind.
     and_then (parse_allowed_hosts W vars bind) (\<lambda>allowed_hosts.
     if allowed_hosts = [] \<and> optional vars ''REDMINE_MCP_ALLOWED_HOSTS'' \<noteq> Some ''*''
     then Inl (CfgInvalid ''REDMINE_MCP_ALLOWED_HOSTS'')
     else
     and_then (bounded_number vars ''REDMINE_MCP_MAX_REQUEST_BODY_BYTES'' 1024 67108864 4194304) (\<lambda>max_body.
     and_then (bounded_number vars ''HEALTH_INTROSPECTION_TTL_SECONDS'' 0 3600 30) (\<lambda>health_ttl.
     and_then (parse_mcp_path vars) (\<lambda>mcp_path.
     and_then (parse_allowed_origins W vars) (\<lambda>allowed_origins.
     and_then (parse_public_base W vars bind) (\<lambda>public_base.
     and_then (parse_rate_limit vars) (\<lambda>rate_limit.
     Inr \<lparr>hs_bind = bind, hs_mcp_path = mcp_path, hs_allowed_hosts = allowed_hosts, hs_allowed_origins = allowed_origins,
          hs_max_request_body_bytes = max_body, hs_health_ttl = from_secs health_ttl, hs_request_timeout = from_secs 10,
          hs_public_base = public_base, hs_rate_limit = rate_limit\<rparr>))))))))"

section \<open>Authentication\<close>

definition parse_oauth_base_url :: "config_env \<Rightarrow> env_map \<Rightarrow> config_error + url_q" where
  "parse_oauth_base_url W vars =
     and_then (required vars ''REDMINE_MCP_BASE_URL'') (\<lambda>raw.
     (case cw_url W raw of
        None \<Rightarrow> Inl (CfgInvalid ''REDMINE_MCP_BASE_URL'')
      | Some url \<Rightarrow>
          if url_scheme url \<noteq> ''http'' \<and> url_scheme url \<noteq> ''https'' then Inl (CfgInvalid ''REDMINE_MCP_BASE_URL'')
          else if url_username url \<noteq> [] \<or> url_password url \<noteq> None then Inl (CfgInvalid ''REDMINE_MCP_BASE_URL'')
          else if url_query url \<noteq> None then Inl (CfgInvalid ''REDMINE_MCP_BASE_URL'')
          else if url_fragment url \<noteq> None then Inl (CfgInvalid ''REDMINE_MCP_BASE_URL'')
          else Inr url))"

definition parse_token_cache_ttl :: "env_map \<Rightarrow> config_error + duration" where
  "parse_token_cache_ttl vars =
     and_then (bounded_number vars ''REDMINE_OAUTH_TOKEN_CACHE_TTL_SECONDS'' 0 3600 60) (\<lambda>n. Inr (from_secs n))"

definition parse_scope_enforcement :: "env_map \<Rightarrow> config_error + bool" where
  "parse_scope_enforcement vars =
     (case optional vars ''REDMINE_OAUTH_SCOPE_ENFORCEMENT'' of
        None \<Rightarrow> Inr True
      | Some v \<Rightarrow> if v = ''on'' then Inr True else if v = ''off'' then Inr False
                 else Inl (CfgInvalid ''REDMINE_OAUTH_SCOPE_ENFORCEMENT''))"

definition parse_discovery_as :: "env_map \<Rightarrow> config_error + discovery_as" where
  "parse_discovery_as vars =
     (case optional vars ''REDMINE_OAUTH_DISCOVERY_AS'' of
        None \<Rightarrow> Inr DiscoveryRedmine
      | Some v \<Rightarrow> if v = ''redmine'' then Inr DiscoveryRedmine else if v = ''self'' then Inr DiscoverySelfHosted
                 else Inl (CfgInvalid ''REDMINE_OAUTH_DISCOVERY_AS''))"

definition parse_scopes :: "env_map \<Rightarrow> scope list \<Rightarrow> config_error + scope list" where
  "parse_scopes vars full =
     (case optional vars ''REDMINE_MCP_SCOPES'' of
        None \<Rightarrow> Inr full
      | Some raw \<Rightarrow> (case narrow full raw of Inl _ \<Rightarrow> Inl (CfgInvalid ''REDMINE_MCP_SCOPES'') | Inr xs \<Rightarrow> Inr xs))"

definition parse_oauth_resource ::
    "config_env \<Rightarrow> env_map \<Rightarrow> transport_kind \<Rightarrow> bool \<Rightarrow> plugin_flags \<Rightarrow> config_error + oauth_config" where
  "parse_oauth_resource W vars transport read_only plugins =
     and_then (parse_oauth_base_url W vars) (\<lambda>base_url.
     and_then (required vars ''REDMINE_INTROSPECT_CLIENT_ID'') (\<lambda>client_id.
     and_then (read_secret W vars ''REDMINE_INTROSPECT_CLIENT_SECRET'') (\<lambda>client_secret.
     (case client_secret of
        None \<Rightarrow> Inl (CfgMissing ''REDMINE_INTROSPECT_CLIENT_SECRET'')
      | Some s \<Rightarrow>
          if transport = KindStdio then Inl CfgConflict
          else
            and_then (parse_token_cache_ttl vars) (\<lambda>ttl.
            and_then (parse_discovery_as vars) (\<lambda>discovery.
            and_then (parse_scopes vars (advertised read_only (pf_agile plugins) (pf_tags plugins))) (\<lambda>scopes.
            and_then (parse_scope_enforcement vars) (\<lambda>enforcement.
            Inr \<lparr>oc_base_url = base_url, oc_introspect_client_id = client_id, oc_introspect_client_secret = s,
                 oc_token_cache_ttl = ttl, oc_discovery_as = discovery, oc_scopes = scopes,
                 oc_scope_enforcement = enforcement\<rparr>))))))))"

definition parse_upstream_client :: "config_env \<Rightarrow> env_map \<Rightarrow> oauth_config \<Rightarrow> config_error + (string \<times> secret)" where
  "parse_upstream_client W vars resource =
     and_then (read_secret W vars ''REDMINE_OAUTH_CLIENT_SECRET'') (\<lambda>client_secret.
     (case (optional vars ''REDMINE_OAUTH_CLIENT_ID'', client_secret) of
        (Some i, Some s) \<Rightarrow> Inr (i, s)
      | (None, None) \<Rightarrow> Inr (oc_introspect_client_id resource, oc_introspect_client_secret resource)
      | _ \<Rightarrow> Inl CfgConflict))"

definition parse_redirect_policy :: "env_map \<Rightarrow> config_error + redirect_policy" where
  "parse_redirect_policy vars =
     (case optional vars ''REDMINE_MCP_ALLOWED_CLIENT_REDIRECT_URIS'' of
        None \<Rightarrow> Inr Loopback
      | Some raw \<Rightarrow>
          if raw = ''*'' then Inr Any
          else
            (let entries = split_runs (\<lambda>c. c = CHR '','' \<or> is_whitespace c) [] raw
             in if entries = [] then Inl (CfgInvalid ''REDMINE_MCP_ALLOWED_CLIENT_REDIRECT_URIS'')
                else
                  (case collect_results (map pattern_parse entries) of
                     Inl _ \<Rightarrow> Inl (CfgInvalid ''REDMINE_MCP_ALLOWED_CLIENT_REDIRECT_URIS'')
                   | Inr patterns \<Rightarrow> Inr (Patterns patterns))))"

definition parse_auth ::
    "config_env \<Rightarrow> env_map \<Rightarrow> transport_kind \<Rightarrow> bool \<Rightarrow> plugin_flags \<Rightarrow> config_error + config_auth" where
  "parse_auth W vars transport read_only plugins =
     (let mode = (case optional vars ''REDMINE_AUTH_MODE'' of Some m \<Rightarrow> m | None \<Rightarrow> ''legacy'')
      in if mode = ''legacy'' then
           and_then (read_secret W vars ''REDMINE_API_KEY'') (\<lambda>key.
           (case key of
              None \<Rightarrow> Inl (CfgMissing ''REDMINE_API_KEY'')
            | Some k \<Rightarrow> Inr (CfgLegacy (ApiKey k))))
         else if mode = ''legacy-per-user'' then
           (if optional vars ''REDMINE_PER_USER_TRUST_PROXY'' \<noteq> Some ''true''
            then Inl (CfgMissing ''REDMINE_PER_USER_TRUST_PROXY'')
            else if transport = KindStdio then Inl CfgConflict
            else
              and_then (optional_bool vars ''REDMINE_PER_USER_AUDIT_IDENTITY'' False) (\<lambda>audit.
              Inr (CfgLegacyPerUser audit)))
         else if mode = ''oauth'' then
           and_then (parse_oauth_resource W vars transport read_only plugins) (\<lambda>r. Inr (CfgOAuth r))
         else if mode = ''oauth-proxy'' then
           and_then (parse_oauth_resource W vars transport read_only plugins) (\<lambda>r.
           if optional vars ''REDMINE_OAUTH_DISCOVERY_AS'' = Some ''redmine'' then Inl CfgConflict
           else
             (let resource = r\<lparr>oc_discovery_as := DiscoverySelfHosted\<rparr> in
              and_then (parse_upstream_client W vars resource) (\<lambda>(client_id, client_secret).
              and_then (parse_redirect_policy vars) (\<lambda>redirects.
              Inr (CfgOAuthProxy \<lparr>op_resource = resource, op_upstream_client_id = client_id,
                                   op_upstream_client_secret = client_secret, op_redirects = redirects\<rparr>)))))
         else Inl (CfgInvalid ''REDMINE_AUTH_MODE''))"

section \<open>Attachments\<close>

text \<open>Minutes to seconds with \<^verbatim>\<open>u64::saturating_mul\<close>.\<close>

definition minutes :: "nat \<Rightarrow> duration" where
  "minutes n = from_secs (min (n * 60) (2 ^ 64 - 1))"

definition parse_attachments_dir :: "config_env \<Rightarrow> env_map \<Rightarrow> string" where
  "parse_attachments_dir W vars =
     (case optional vars ''ATTACHMENTS_DIR'' of
        Some d \<Rightarrow> d
      | None \<Rightarrow> cw_path_join W (cw_temp_dir W) ''ruprogress-mcp-attachments'')"

definition parse_upload_file_roots :: "env_map \<Rightarrow> config_error + string list" where
  "parse_upload_file_roots vars =
     and_then (parse_csv vars ''REDMINE_MCP_UPLOAD_FILE_ROOTS'') (\<lambda>entries.
     (case entries of
        None \<Rightarrow> Inr []
      | Some paths \<Rightarrow>
          collect_results (map (\<lambda>raw. if starts_with raw ''/'' then Inr raw
                                      else Inl (CfgInvalid ''REDMINE_MCP_UPLOAD_FILE_ROOTS'')) paths)))"

definition parse_public_url_rewrite :: "config_env \<Rightarrow> env_map \<Rightarrow> config_error + url_q option" where
  "parse_public_url_rewrite W vars =
     (case optional vars ''REDMINE_PUBLIC_URL'' of
        None \<Rightarrow> Inr None
      | Some raw \<Rightarrow>
          (case cw_url W raw of
             None \<Rightarrow> Inl (CfgInvalid ''REDMINE_PUBLIC_URL'')
           | Some url \<Rightarrow>
               if url_scheme url \<noteq> ''http'' \<and> url_scheme url \<noteq> ''https'' then Inl (CfgInvalid ''REDMINE_PUBLIC_URL'')
               else Inr (Some url)))"

definition parse_attachments :: "config_env \<Rightarrow> env_map \<Rightarrow> config_error + attachment_settings" where
  "parse_attachments W vars =
     and_then (positive_u64 vars ''ATTACHMENT_MAX_DOWNLOAD_BYTES'' 209715200) (\<lambda>max_download_bytes.
     and_then (positive_u64 vars ''ATTACHMENT_STORE_MAX_BYTES'' 2147483648) (\<lambda>store_max_bytes.
     if store_max_bytes < max_download_bytes then Inl CfgConflict
     else
     and_then (positive_u64 vars ''CLEANUP_INTERVAL_MINUTES'' 15) (\<lambda>cleanup_interval_minutes.
     and_then (positive_u64 vars ''ATTACHMENT_EXPIRES_MINUTES'' 60) (\<lambda>expires_minutes.
     and_then (optional_bool vars ''AUTO_CLEANUP_ENABLED'' True) (\<lambda>auto_cleanup.
     and_then (parse_upload_file_roots vars) (\<lambda>upload_roots.
     and_then (optional_bool vars ''REDMINE_MCP_EXPOSE_ADMIN_TOOLS'' False) (\<lambda>expose.
     and_then (parse_public_url_rewrite W vars) (\<lambda>rewrite.
     Inr \<lparr>as_dir = parse_attachments_dir W vars, as_max_download_bytes = max_download_bytes,
          as_store_max_bytes = store_max_bytes, as_auto_cleanup_enabled = auto_cleanup,
          as_cleanup_interval = minutes cleanup_interval_minutes, as_expires_after = minutes expires_minutes,
          as_upload_file_roots = upload_roots, as_expose_admin_tools = expose,
          as_public_url_rewrite = rewrite\<rparr>))))))))"

section \<open>Plugins, custom fields, labels\<close>

definition parse_plugins :: "env_map \<Rightarrow> config_error + plugin_flags" where
  "parse_plugins vars =
     and_then (optional_bool vars ''REDMINE_AGILE_ENABLED'' False) (\<lambda>agile.
     and_then (optional_bool vars ''REDMINE_CHECKLISTS_ENABLED'' False) (\<lambda>checklists.
     and_then (optional_bool vars ''REDMINE_PRODUCTS_ENABLED'' False) (\<lambda>products.
     and_then (optional_bool vars ''REDMINE_CRM_ENABLED'' False) (\<lambda>crm.
     and_then (optional_bool vars ''REDMINE_DMSF_ENABLED'' False) (\<lambda>dmsf.
     and_then (optional_bool vars ''REDMINE_TAGS_ENABLED'' False) (\<lambda>tags.
     Inr \<lparr>pf_agile = agile, pf_checklists = checklists, pf_products = products, pf_crm = crm,
          pf_dmsf = dmsf, pf_tags = tags\<rparr>))))))"

text \<open>The entries come in the order of the object, which is the order of the target map.\<close>

fun custom_field_value :: "json \<Rightarrow> config_error + custom_field_default" where
  "custom_field_value (JStr s) = Inr (SingleDefault s)"
| "custom_field_value (JArr items) =
     and_then (collect_results (map (\<lambda>item. case as_str item of
                                       Some s \<Rightarrow> Inr s
                                     | None \<Rightarrow> Inl (CfgInvalid ''REDMINE_REQUIRED_CUSTOM_FIELD_DEFAULTS'')) items))
       (\<lambda>strings. Inr (MultipleDefault strings))"
| "custom_field_value _ = Inl (CfgInvalid ''REDMINE_REQUIRED_CUSTOM_FIELD_DEFAULTS'')"

definition parse_custom_field_defaults :: "config_env \<Rightarrow> env_map \<Rightarrow> config_error + (string \<times> custom_field_default) list" where
  "parse_custom_field_defaults W vars =
     (case optional vars ''REDMINE_REQUIRED_CUSTOM_FIELD_DEFAULTS'' of
        None \<Rightarrow> Inr []
      | Some raw \<Rightarrow>
          (case cw_json W raw of
             Some (JObj m) \<Rightarrow>
               if m = [] then Inl (CfgInvalid ''REDMINE_REQUIRED_CUSTOM_FIELD_DEFAULTS'')
               else collect_results (map (\<lambda>(name, v). and_then (custom_field_value v) (\<lambda>d. Inr (name, d))) m)
           | _ \<Rightarrow> Inl (CfgInvalid ''REDMINE_REQUIRED_CUSTOM_FIELD_DEFAULTS'')))"

definition parse_custom_fields :: "config_env \<Rightarrow> env_map \<Rightarrow> config_error + custom_field_config" where
  "parse_custom_fields W vars =
     and_then (optional_bool vars ''REDMINE_AUTOFILL_REQUIRED_CUSTOM_FIELDS'' False) (\<lambda>autofill.
     and_then (parse_custom_field_defaults W vars) (\<lambda>defaults.
     Inr \<lparr>cf_autofill_required = autofill, cf_defaults = defaults\<rparr>))"

definition parse_schema_dialect :: "env_map \<Rightarrow> config_error + schema_dialect" where
  "parse_schema_dialect vars =
     (case optional vars ''REDMINE_MCP_SCHEMA_DIALECT'' of
        None \<Rightarrow> Inr Strict
      | Some v \<Rightarrow> if v = ''strict'' then Inr Strict else if v = ''portable'' then Inr Portable
                 else Inl (CfgInvalid ''REDMINE_MCP_SCHEMA_DIALECT''))"

definition log_format_parse :: "string \<Rightarrow> log_format option" where
  "log_format_parse v = (if v = ''text'' then Some LogText else if v = ''json'' then Some LogJson else None)"

definition parse_log_format :: "env_map \<Rightarrow> config_error + log_format" where
  "parse_log_format vars =
     (case optional vars ''REDMINE_MCP_LOG_FORMAT'' of
        None \<Rightarrow> Inr LogText
      | Some v \<Rightarrow> (case log_format_parse v of Some f \<Rightarrow> Inr f | None \<Rightarrow> Inl (CfgInvalid ''REDMINE_MCP_LOG_FORMAT'')))"

section \<open>The whole configuration\<close>

definition unauthenticated_network :: "config_auth \<Rightarrow> transport_config \<Rightarrow> bool" where
  "unauthenticated_network auth transport \<longleftrightarrow>
     (case (transport, auth) of
        (TransportHttp http, CfgLegacy _) \<Rightarrow> \<not> ip_is_loopback (sa_ip (hs_bind http))
      | _ \<Rightarrow> False)"

definition from_map :: "config_env \<Rightarrow> env_map \<Rightarrow> transport_kind \<Rightarrow> config_error + config" where
  "from_map W vars kind =
     and_then (parse_redmine W vars) (\<lambda>redmine.
     and_then (optional_bool vars ''REDMINE_MCP_READ_ONLY'' False) (\<lambda>read_only.
     and_then (parse_plugins vars) (\<lambda>plugins.
     and_then (parse_auth W vars kind read_only plugins) (\<lambda>auth.
     and_then (case kind of
                 KindStdio \<Rightarrow> Inr TransportStdio
               | KindHttp \<Rightarrow> and_then (parse_http W vars) (\<lambda>h. Inr (TransportHttp h))) (\<lambda>transport.
     if unauthenticated_network auth transport \<and>
        optional vars ''REDMINE_MCP_ALLOW_UNAUTHENTICATED_NETWORK'' \<noteq> Some ''true''
     then Inl (CfgMissing ''REDMINE_MCP_ALLOW_UNAUTHENTICATED_NETWORK'')
     else
     and_then (parse_attachments W vars) (\<lambda>attachments.
     and_then (positive_usize vars ''REDMINE_MCP_MAX_RESPONSE_ITEMS'' 200) (\<lambda>items.
     and_then (positive_usize vars ''REDMINE_MCP_MAX_RESPONSE_BYTES'' 262144) (\<lambda>bytes.
     and_then (parse_schema_dialect vars) (\<lambda>dialect.
     and_then (parse_custom_fields W vars) (\<lambda>custom_fields.
     and_then (parse_log_format vars) (\<lambda>log.
     Inr \<lparr>co_redmine = redmine, co_auth = auth, co_transport = transport, co_read_only = read_only,
          co_plugins = plugins, co_attachments = attachments, co_max_response_items = items,
          co_max_response_bytes = bytes, co_schema_dialect = dialect, co_custom_fields = custom_fields,
          co_log_format = log\<rparr>)))))))))))"

text \<open>What the server reads of the configuration.\<close>

definition oauth_resource :: "config \<Rightarrow> oauth_config option" where
  "oauth_resource cfg =
     (case co_auth cfg of
        CfgOAuth oauth \<Rightarrow> Some oauth
      | CfgOAuthProxy proxy \<Rightarrow> Some (op_resource proxy)
      | _ \<Rightarrow> None)"

definition server_config_of :: "config \<Rightarrow> server_config" where
  "server_config_of cfg =
     \<lparr>sv_auth = (case co_auth cfg of
                   CfgLegacy c \<Rightarrow> AuthLegacy c
                 | CfgLegacyPerUser audit \<Rightarrow> AuthLegacyPerUser audit
                 | CfgOAuth oauth \<Rightarrow> AuthOAuth (oc_scope_enforcement oauth)
                 | CfgOAuthProxy proxy \<Rightarrow> AuthOAuthProxy (oc_scope_enforcement (op_resource proxy))),
      sv_plugins = co_plugins cfg, sv_read_only = co_read_only cfg,
      sv_expose_admin_tools = as_expose_admin_tools (co_attachments cfg),
      sv_portable = (co_schema_dialect cfg = Portable)\<rparr>"

definition auth_mode_label :: "config \<Rightarrow> string" where
  "auth_mode_label cfg =
     (case co_auth cfg of
        CfgLegacy _ \<Rightarrow> ''legacy''
      | CfgLegacyPerUser _ \<Rightarrow> ''legacy-per-user''
      | CfgOAuth _ \<Rightarrow> ''oauth''
      | CfgOAuthProxy _ \<Rightarrow> ''oauth-proxy'')"

definition transport_label :: "transport_config \<Rightarrow> string" where
  "transport_label t = (case t of TransportStdio \<Rightarrow> ''stdio'' | TransportHttp _ \<Rightarrow> ''http'')"

definition as_http :: "transport_config \<Rightarrow> http_settings option" where
  "as_http t = (case t of TransportHttp http \<Rightarrow> Some http | TransportStdio \<Rightarrow> None)"

definition redmine_version_advisory :: "config \<Rightarrow> string option" where
  "redmine_version_advisory cfg =
     (case rm_version (co_redmine cfg) of
        None \<Rightarrow> None
      | Some v \<Rightarrow>
          map_option (\<lambda>advice. ''declared Redmine '' @ version_str v @ '' is below the minimum safe patch level: '' @ advice)
            (advisory v))"

section \<open>The redacted summary\<close>

definition discovery_label :: "discovery_as \<Rightarrow> string" where
  "discovery_label d = (case d of DiscoveryRedmine \<Rightarrow> ''redmine'' | DiscoverySelfHosted \<Rightarrow> ''self'')"

definition schema_dialect_label :: "config \<Rightarrow> string" where
  "schema_dialect_label cfg = (case co_schema_dialect cfg of Strict \<Rightarrow> ''strict'' | Portable \<Rightarrow> ''portable'')"

definition log_format_label :: "log_format \<Rightarrow> string" where
  "log_format_label f = (case f of LogText \<Rightarrow> ''text'' | LogJson \<Rightarrow> ''json'')"

definition summary_label :: "redirect_policy \<Rightarrow> string" where
  "summary_label p =
     (case p of Loopback \<Rightarrow> ''loopback'' | Any \<Rightarrow> ''any'' | Patterns ps \<Rightarrow> nat_str (length ps) @ '' pattern(s)'')"

definition plugin_flags_json :: "config \<Rightarrow> json" where
  "plugin_flags_json cfg =
     JObj (obj_of [(''agile'', JBool (pf_agile (co_plugins cfg))), (''checklists'', JBool (pf_checklists (co_plugins cfg))),
                   (''products'', JBool (pf_products (co_plugins cfg))), (''crm'', JBool (pf_crm (co_plugins cfg))),
                   (''dmsf'', JBool (pf_dmsf (co_plugins cfg))), (''tags'', JBool (pf_tags (co_plugins cfg)))])"

definition socket_str :: "config_env \<Rightarrow> socket_addr \<Rightarrow> string" where
  "socket_str W a =
     (case sa_ip a of V4 _ \<Rightarrow> cw_ip_str W (sa_ip a) | V6 _ \<Rightarrow> ''['' @ cw_ip_str W (sa_ip a) @ '']'')
     @ '':'' @ nat_str (unat (sa_port a))"

definition oauth_summary :: "config_env \<Rightarrow> oauth_config \<Rightarrow> (string \<times> json) list" where
  "oauth_summary W cfg =
     [(''base_url'', JStr (cw_url_str W (oc_base_url cfg))),
      (''introspect_client_id'', JStr (oc_introspect_client_id cfg)),
      (''token_cache_ttl_seconds'', JInt (int (oc_token_cache_ttl cfg div from_secs 1))),
      (''discovery_as'', JStr (discovery_label (oc_discovery_as cfg))),
      (''scopes'', JArr (map (\<lambda>s. JStr s) (oc_scopes cfg))),
      (''scope_enforcement'', JBool (oc_scope_enforcement cfg))]"

definition str_or_null :: "string option \<Rightarrow> json" where
  "str_or_null v = (case v of Some s \<Rightarrow> JStr s | None \<Rightarrow> JNull)"

definition redacted_summary :: "config_env \<Rightarrow> config \<Rightarrow> json" where
  "redacted_summary W cfg =
     (let transport =
            (case co_transport cfg of
               TransportStdio \<Rightarrow> [(''kind'', JStr ''stdio'')]
             | TransportHttp http \<Rightarrow>
                 [(''kind'', JStr ''http''), (''bind'', JStr (socket_str W (hs_bind http))),
                  (''mcp_path'', JStr (hs_mcp_path http))]);
          oauth =
            (case co_auth cfg of
               CfgOAuth c \<Rightarrow> JObj (obj_of (oauth_summary W c))
             | CfgOAuthProxy p \<Rightarrow>
                 JObj (obj_of (oauth_summary W (op_resource p) @
                         [(''upstream_client_id'', JStr (op_upstream_client_id p)),
                          (''redirect_policy'', JStr (summary_label (op_redirects p)))]))
             | _ \<Rightarrow> JNull)
      in JObj (obj_of
        [(''redmine'', JObj (obj_of [(''url_host'', str_or_null (url_host_str (rm_url (co_redmine cfg)))),
                                     (''ssl_verify'', JBool (rm_ssl_verify (co_redmine cfg)))])),
         (''redmine_version'', str_or_null (map_option version_str (rm_version (co_redmine cfg)))),
         (''auth_mode'', JStr (auth_mode_label cfg)),
         (''oauth'', oauth),
         (''transport'', JObj (obj_of transport)),
         (''read_only_mode'', JBool (co_read_only cfg)),
         (''plugin_flags'', plugin_flags_json cfg),
         (''schema_dialect'', JStr (schema_dialect_label cfg)),
         (''log_format'', JStr (log_format_label (co_log_format cfg))),
         (''autofill_required_custom_fields'', JBool (cf_autofill_required (co_custom_fields cfg))),
         (''required_custom_field_defaults_count'', JInt (int (length (cf_defaults (co_custom_fields cfg)))))]))"

end
