(* ===== verification/Config_Safety.thy ===== *)
theory Config_Safety
  imports Config
begin

text \<open>
  What a configuration that was accepted guarantees, and that its redacted summary is independent
  of the secrets. Each parser has a lemma on the values it lets through; the theorem on
  \<open>from_map\<close> puts them together.
\<close>

section \<open>What the parsers let through\<close>

lemma if_Inr: "(if b then x else y) = Inr w \<longleftrightarrow> b \<and> x = Inr w \<or> \<not> b \<and> y = Inr w"
  by simp

lemma case_option_Inr:
  "(case x of None \<Rightarrow> r | Some v \<Rightarrow> f v) = Inr w \<longleftrightarrow> x = None \<and> r = Inr w \<or> (\<exists>v. x = Some v \<and> f v = Inr w)"
  by (cases x) simp_all

lemmas result_simps = and_then_Inr if_Inr case_option_Inr Let_def

lemma positive_number_pos: "positive_number p vars var def = Inr n \<Longrightarrow> 0 < def \<Longrightarrow> 0 < n"
  by (auto simp: positive_number_def split: option.splits if_splits)

lemmas positive_pos =
  positive_number_pos [of parse_u64, folded positive_u64_def]
  positive_number_pos [of parse_u64, folded positive_usize_def]
  positive_number_pos [of parse_u32, folded positive_u32_def]

lemma bounded_number_range:
  "bounded_number vars var lo hi def = Inr n \<Longrightarrow> lo \<le> def \<Longrightarrow> def \<le> hi \<Longrightarrow> lo \<le> n \<and> n \<le> hi"
  by (auto simp: bounded_number_def split: option.splits if_splits)

lemma parse_bind_port: "parse_bind vars = Inr a \<Longrightarrow> sa_port a \<noteq> 0"
  by (auto simp: parse_bind_def parse_port_var_def DEFAULT_SERVER_PORT_def result_simps)

definition http_path :: "string \<Rightarrow> bool" where
  "http_path path \<longleftrightarrow> starts_with path ''/'' \<and> path \<noteq> ''/'' \<and> \<not> contains path ''..'' \<and>
     list_all (\<lambda>c. c \<notin> set ''?#{}*'' \<and> \<not> is_whitespace c) path"

lemma parse_mcp_path_ok: "parse_mcp_path vars = Inr path \<Longrightarrow> http_path path"
  by (auto simp: parse_mcp_path_def http_path_def list_all_iff list_ex_iff starts_with_def is_whitespace_def byte_of_def
      split: option.splits if_splits)

lemma parse_allowed_origins_ok:
  "parse_allowed_origins W vars = Inr cs \<Longrightarrow> c \<in> set cs \<Longrightarrow> c \<noteq> ''*'' \<and> \<not> eq_ignore_ascii_case c ''null''"
  by (auto simp: parse_allowed_origins_def origin_ok_def list_all_iff result_simps)

definition rate_ok :: "rate_limit_config \<Rightarrow> bool" where
  "rate_ok r \<longleftrightarrow> 0 < rl_standard_rps r \<and> rl_standard_rps r \<le> rl_standard_burst r \<and>
     0 < rl_strict_rps r \<and> rl_strict_rps r \<le> rl_strict_burst r \<and> 0 < rl_max_keys r"

lemma parse_rate_limit_ok: "parse_rate_limit vars = Inr r \<Longrightarrow> rate_ok r"
  by (auto simp: parse_rate_limit_def rate_ok_def result_simps dest!: positive_pos)

text \<open>
  An empty list of hosts turns the check of the host off, so it must have been asked for by name.
\<close>

lemma parse_allowed_hosts_star:
  assumes "optional vars ''REDMINE_MCP_ALLOWED_HOSTS'' = Some ''*''"
  shows "parse_allowed_hosts W vars bind = Inr []"
proof -
  have "parse_csv vars ''REDMINE_MCP_ALLOWED_HOSTS'' = Inr (Some [''*''])"
    using assms by (simp add: parse_csv_def trim_def is_whitespace_def byte_of_def)
  then show ?thesis by (simp add: parse_allowed_hosts_def)
qed

definition http_ok :: "env_map \<Rightarrow> http_settings \<Rightarrow> bool" where
  "http_ok vars h \<longleftrightarrow>
     (hs_allowed_hosts h = [] \<longleftrightarrow> optional vars ''REDMINE_MCP_ALLOWED_HOSTS'' = Some ''*'') \<and>
     (\<forall>c \<in> set (hs_allowed_origins h). c \<noteq> ''*'' \<and> \<not> eq_ignore_ascii_case c ''null'') \<and>
     sa_port (hs_bind h) \<noteq> 0 \<and> http_path (hs_mcp_path h) \<and>
     1024 \<le> hs_max_request_body_bytes h \<and> hs_max_request_body_bytes h \<le> 67108864 \<and>
     hs_health_ttl h \<le> from_secs 3600 \<and> rate_ok (hs_rate_limit h)"

lemma parse_http_ok:
  assumes "parse_http W vars = Inr h"
  shows "http_ok vars h"
proof -
  from assms obtain bind hosts body ttl path origins base rate where
      p: "parse_bind vars = Inr bind" "parse_allowed_hosts W vars bind = Inr hosts"
         "hosts = [] \<Longrightarrow> optional vars ''REDMINE_MCP_ALLOWED_HOSTS'' = Some ''*''"
         "bounded_number vars ''REDMINE_MCP_MAX_REQUEST_BODY_BYTES'' 1024 67108864 4194304 = Inr body"
         "bounded_number vars ''HEALTH_INTROSPECTION_TTL_SECONDS'' 0 3600 30 = Inr ttl"
         "parse_mcp_path vars = Inr path" "parse_allowed_origins W vars = Inr origins"
         "parse_rate_limit vars = Inr rate"
    and h: "h = \<lparr>hs_bind = bind, hs_mcp_path = path, hs_allowed_hosts = hosts, hs_allowed_origins = origins,
          hs_max_request_body_bytes = body, hs_health_ttl = from_secs ttl, hs_request_timeout = from_secs 10,
          hs_public_base = base, hs_rate_limit = rate\<rparr>"
    by (auto simp: parse_http_def result_simps)
  have hosts: "hosts = [] \<longleftrightarrow> optional vars ''REDMINE_MCP_ALLOWED_HOSTS'' = Some ''*''"
    using p(2,3) parse_allowed_hosts_star [of vars W bind] by auto
  have "from_secs ttl \<le> from_secs 3600"
    using bounded_number_range [OF p(5)] by (simp add: from_secs_def)
  then show ?thesis
    using hosts parse_bind_port [OF p(1)] bounded_number_range [OF p(4)] parse_mcp_path_ok [OF p(6)]
      parse_allowed_origins_ok [OF p(7)] parse_rate_limit_ok [OF p(8)]
    by (simp add: h http_ok_def)
qed

definition web_url :: "url_q \<Rightarrow> bool" where
  "web_url u \<longleftrightarrow> url_scheme u \<in> {''http'', ''https''} \<and> url_username u = [] \<and> url_password u = None"

lemma parse_redmine_ok: "parse_redmine W vars = Inr r \<Longrightarrow> web_url (rm_url r)"
  by (auto simp: parse_redmine_def web_url_def result_simps)

definition oauth_ok :: "bool \<Rightarrow> plugin_flags \<Rightarrow> oauth_config \<Rightarrow> bool" where
  "oauth_ok read_only plugins o1 \<longleftrightarrow>
     web_url (oc_base_url o1) \<and> url_query (oc_base_url o1) = None \<and> url_fragment (oc_base_url o1) = None \<and>
     oc_introspect_client_id o1 \<noteq> [] \<and> oc_token_cache_ttl o1 \<le> from_secs 3600 \<and>
     distinct (oc_scopes o1) \<and>
     set (oc_scopes o1) \<subseteq> set (advertised read_only (pf_agile plugins) (pf_tags plugins))"

lemma parse_scopes_ok: "parse_scopes vars full = Inr xs \<Longrightarrow> distinct full \<Longrightarrow> distinct xs \<and> set xs \<subseteq> set full"
  by (auto simp: parse_scopes_def narrow_Inr_iff split: option.splits sum.splits)

lemma parse_oauth_resource_ok:
  assumes "parse_oauth_resource W vars kind read_only plugins = Inr o1"
  shows "oauth_ok read_only plugins o1 \<and> kind = KindHttp"
proof -
  from assms obtain base cid s ttl d scopes enf where
      p: "parse_oauth_base_url W vars = Inr base" "required vars ''REDMINE_INTROSPECT_CLIENT_ID'' = Inr cid"
         "parse_token_cache_ttl vars = Inr ttl" "kind \<noteq> KindStdio"
         "parse_scopes vars (advertised read_only (pf_agile plugins) (pf_tags plugins)) = Inr scopes"
    and o1: "o1 = \<lparr>oc_base_url = base, oc_introspect_client_id = cid, oc_introspect_client_secret = s,
         oc_token_cache_ttl = ttl, oc_discovery_as = d, oc_scopes = scopes, oc_scope_enforcement = enf\<rparr>"
    by (auto simp: parse_oauth_resource_def result_simps)
  have "web_url base" "url_query base = None" "url_fragment base = None"
    using p(1) by (auto simp: parse_oauth_base_url_def web_url_def result_simps)
  moreover have "cid \<noteq> []"
    using p(2) by (auto simp: required_def optional_def split: option.splits if_splits)
  moreover have "ttl \<le> from_secs 3600"
    using p(3) by (auto simp: parse_token_cache_ttl_def result_simps from_secs_def dest!: bounded_number_range)
  moreover have "kind = KindHttp" using p(4) by (cases kind) simp_all
  ultimately show ?thesis
    using parse_scopes_ok [OF p(5) advertised_distinct] by (simp add: oauth_ok_def o1)
qed

definition attachments_ok :: "attachment_settings \<Rightarrow> bool" where
  "attachments_ok a \<longleftrightarrow> 0 < as_max_download_bytes a \<and> as_max_download_bytes a \<le> as_store_max_bytes a \<and>
     0 < as_cleanup_interval a \<and> 0 < as_expires_after a \<and>
     (\<forall>p \<in> set (as_upload_file_roots a). starts_with p ''/'')"

lemma collect_results_Inr: "collect_results rs = Inr vs \<longleftrightarrow> rs = map Inr vs"
  by (induction rs arbitrary: vs) (auto simp: and_then_Inr)

lemma minutes_pos: "0 < n \<Longrightarrow> 0 < minutes n"
  by (simp add: minutes_def from_secs_def)

lemma parse_upload_file_roots_ok:
  assumes "parse_upload_file_roots vars = Inr ps" "p \<in> set ps"
  shows "starts_with p ''/''"
proof -
  from assms obtain qs where
    "map (\<lambda>raw. if starts_with raw ''/'' then Inr raw else Inl (CfgInvalid ''REDMINE_MCP_UPLOAD_FILE_ROOTS'')) qs
      = map Inr ps"
    by (auto simp: parse_upload_file_roots_def result_simps collect_results_Inr)
  then show ?thesis using assms(2)
    by (induction qs arbitrary: ps) (auto split: if_splits)
qed

lemma parse_attachments_ok:
  assumes "parse_attachments W vars = Inr a"
  shows "attachments_ok a"
proof -
  from assms obtain mx st ci ex auto roots adm rw where
      p: "positive_u64 vars ''ATTACHMENT_MAX_DOWNLOAD_BYTES'' 209715200 = Inr mx" "\<not> st < mx"
         "positive_u64 vars ''CLEANUP_INTERVAL_MINUTES'' 15 = Inr ci"
         "positive_u64 vars ''ATTACHMENT_EXPIRES_MINUTES'' 60 = Inr ex"
         "parse_upload_file_roots vars = Inr roots"
    and a: "a = \<lparr>as_dir = parse_attachments_dir W vars, as_max_download_bytes = mx,
          as_store_max_bytes = st, as_auto_cleanup_enabled = auto,
          as_cleanup_interval = minutes ci, as_expires_after = minutes ex,
          as_upload_file_roots = roots, as_expose_admin_tools = adm, as_public_url_rewrite = rw\<rparr>"
    by (auto simp: parse_attachments_def result_simps)
  have "0 < mx" "0 < ci" "0 < ex" using positive_pos(1) [OF p(1)] positive_pos(1) [OF p(3)] positive_pos(1) [OF p(4)] by simp_all
  then show ?thesis
    using p(2) parse_upload_file_roots_ok [OF p(5)] by (simp add: a attachments_ok_def minutes_pos)
qed

section \<open>Accepted configurations\<close>

definition auth_ok :: "env_map \<Rightarrow> transport_kind \<Rightarrow> bool \<Rightarrow> plugin_flags \<Rightarrow> config_auth \<Rightarrow> bool" where
  "auth_ok vars kind read_only plugins auth \<longleftrightarrow>
     (case auth of
        CfgLegacy c \<Rightarrow> \<exists>k. c = ApiKey k
      | CfgLegacyPerUser _ \<Rightarrow> kind = KindHttp \<and> optional vars ''REDMINE_PER_USER_TRUST_PROXY'' = Some ''true''
      | CfgOAuth r \<Rightarrow> kind = KindHttp \<and> oauth_ok read_only plugins r
      | CfgOAuthProxy p \<Rightarrow> kind = KindHttp \<and> oauth_ok read_only plugins (op_resource p) \<and>
          oc_discovery_as (op_resource p) = DiscoverySelfHosted)"

lemma parse_auth_ok: "parse_auth W vars kind read_only plugins = Inr auth \<Longrightarrow> auth_ok vars kind read_only plugins auth"
  by (cases kind)
    (auto simp: parse_auth_def auth_ok_def result_simps oauth_ok_def dest!: parse_oauth_resource_ok)

definition config_safe :: "env_map \<Rightarrow> transport_kind \<Rightarrow> config \<Rightarrow> bool" where
  "config_safe vars kind cfg \<longleftrightarrow>
     web_url (rm_url (co_redmine cfg)) \<and>
     auth_ok vars kind (co_read_only cfg) (co_plugins cfg) (co_auth cfg) \<and>
     (kind = KindStdio \<longleftrightarrow> co_transport cfg = TransportStdio) \<and>
     (\<forall>h. co_transport cfg = TransportHttp h \<longrightarrow> http_ok vars h \<and>
        (\<forall>c. co_auth cfg = CfgLegacy c \<longrightarrow> ip_is_loopback (sa_ip (hs_bind h)) \<or>
           optional vars ''REDMINE_MCP_ALLOW_UNAUTHENTICATED_NETWORK'' = Some ''true'')) \<and>
     attachments_ok (co_attachments cfg) \<and>
     0 < co_max_response_items cfg \<and> 0 < co_max_response_bytes cfg"

text \<open>
  C29. A configuration is accepted only when it is safe. The URL of Redmine is http or https and
  carries no user name or password. The shared API key is served over HTTP on an address that is
  not a loopback address only with the explicit attestation; the per-user mode only with the
  attestation of a proxy; the modes with a token only over HTTP, with scopes that are advertised
  and cached verdicts of at most an hour, and the proxy names itself as authorization server. The
  check of the host is off exactly when the variable is a single star; the path, the body limit,
  the rates and the attachment store are within their ranges, and no wildcard origin is allowed.
\<close>

theorem accepted_config_safe:
  assumes "from_map W vars kind = Inr cfg"
  shows "config_safe vars kind cfg"
proof -
  from assms obtain redmine ro plugins auth transport att items bytes dialect cfs log where
      p: "parse_redmine W vars = Inr redmine" "parse_auth W vars kind ro plugins = Inr auth"
         "(case kind of KindStdio \<Rightarrow> Inr TransportStdio
           | KindHttp \<Rightarrow> and_then (parse_http W vars) (\<lambda>h. Inr (TransportHttp h))) = Inr transport"
         "\<not> (unauthenticated_network auth transport \<and>
             optional vars ''REDMINE_MCP_ALLOW_UNAUTHENTICATED_NETWORK'' \<noteq> Some ''true'')"
         "parse_attachments W vars = Inr att" "positive_usize vars ''REDMINE_MCP_MAX_RESPONSE_ITEMS'' 200 = Inr items"
         "positive_usize vars ''REDMINE_MCP_MAX_RESPONSE_BYTES'' 262144 = Inr bytes"
    and cfg: "cfg = \<lparr>co_redmine = redmine, co_auth = auth, co_transport = transport, co_read_only = ro,
          co_plugins = plugins, co_attachments = att, co_max_response_items = items,
          co_max_response_bytes = bytes, co_schema_dialect = dialect, co_custom_fields = cfs, co_log_format = log\<rparr>"
    unfolding from_map_def and_then_Inr if_Inr by blast
  have tr: "kind = KindStdio \<longleftrightarrow> transport = TransportStdio" "transport = TransportHttp h \<Longrightarrow> http_ok vars h" for h
    using p(3) by (cases kind; auto simp: and_then_Inr dest: parse_http_ok)+
  have "0 < items" "0 < bytes" using positive_pos(2) [OF p(6)] positive_pos(2) [OF p(7)] by simp_all
  then show ?thesis
    using p(4) parse_redmine_ok [OF p(1)] parse_auth_ok [OF p(2)] tr parse_attachments_ok [OF p(5)]
    by (auto simp: config_safe_def cfg unauthenticated_network_def)
qed

text \<open>Over standard input and output the server runs with the shared key and enforces no scopes.\<close>

lemma stdio_is_legacy:
  assumes "from_map W vars KindStdio = Inr cfg"
  shows "\<exists>k. sv_auth (server_config_of cfg) = AuthLegacy (ApiKey k) \<and> \<not> scope_enforcement_active (server_config_of cfg)"
proof -
  have "auth_ok vars KindStdio (co_read_only cfg) (co_plugins cfg) (co_auth cfg)"
    using assms unfolding from_map_def and_then_Inr if_Inr by (auto dest: parse_auth_ok)
  then show ?thesis
    by (auto simp: auth_ok_def server_config_of_def scope_enforcement_active_def split: config_auth.splits)
qed

definition example_url :: url_q where
  "example_url = \<lparr>url_scheme = ''https'', url_username = [], url_password = None,
     url_host_str = Some ''r.example'', url_port_or_known_default = Some 443, url_path = ''/'',
     url_fragment = None, url_query = None\<rparr>"

definition example_env :: config_env where
  "example_env = \<lparr>cw_url = (\<lambda>s. if starts_with s ''http'' then Some example_url else None), cw_json = (\<lambda>_. None),
     cw_authority = (\<lambda>_. True), cw_header = (\<lambda>_. True), cw_read_file = (\<lambda>_. None),
     cw_ip_str = (\<lambda>_. ''127.0.0.1''), cw_url_str = (\<lambda>_. ''https://r.example/''), cw_temp_dir = ''/tmp'',
     cw_path_join = (\<lambda>a b. a @ ''/'' @ b)\<rparr>"

definition example_vars :: "string \<Rightarrow> env_map" where
  "example_vars key = fmap_of_list [(''REDMINE_URL'', ''https://r.example''), (''REDMINE_API_KEY'', key)]"

lemmas config_eval = from_map_def parse_redmine_def parse_plugins_def parse_auth_def parse_http_def
  parse_bind_def parse_allowed_hosts_def parse_mcp_path_def parse_allowed_origins_def parse_public_base_def
  parse_rate_limit_def parse_attachments_def parse_custom_fields_def parse_custom_field_defaults_def
  parse_schema_dialect_def parse_log_format_def parse_csv_def parse_port_var_def parse_public_scheme_def
  public_base_from_loopback_bind_def parse_upload_file_roots_def parse_public_url_rewrite_def
  positive_u32_def positive_u64_def positive_usize_def positive_number_def bounded_number_def
  required_def optional_bool_def read_secret_def unauthenticated_network_def ip_is_loopback_def LOOPBACK_HOSTS_def
  optional_def example_vars_def example_env_def example_url_def Let_def starts_with_def

lemma example_accepted: "key \<noteq> [] \<Longrightarrow> \<exists>cfg. from_map example_env (example_vars key) KindHttp = Inr cfg \<and>
    (\<exists>h. co_transport cfg = TransportHttp h) \<and> co_auth cfg = CfgLegacy (ApiKey key)"
  by (simp add: config_eval)

text \<open>The hypothesis holds: a URL and a key, served over HTTP on the default address.\<close>

theorem accepted_config_safe_witness:
  "\<exists>cfg. from_map example_env (example_vars ''k'') KindHttp = Inr cfg \<and> (\<exists>h. co_transport cfg = TransportHttp h) \<and>
     config_safe (example_vars ''k'') KindHttp cfg"
  using example_accepted [of "''k''"] accepted_config_safe [of example_env "example_vars ''k''" KindHttp] by blast

section \<open>Secrets\<close>

text \<open>
  The three variables that hold a secret, two environments that differ in nothing but the values
  of those, and two file systems that differ in nothing but the contents of the files.
\<close>

definition secret_vars :: "string list" where
  "secret_vars = [''REDMINE_API_KEY'', ''REDMINE_INTROSPECT_CLIENT_SECRET'', ''REDMINE_OAUTH_CLIENT_SECRET'']"

definition same_but_secrets :: "env_map \<Rightarrow> env_map \<Rightarrow> bool" where
  "same_but_secrets vars vars' \<longleftrightarrow>
     (\<forall>v. if v \<in> set secret_vars then (optional vars' v = None \<longleftrightarrow> optional vars v = None)
          else optional vars' v = optional vars v)"

definition same_but_contents :: "config_env \<Rightarrow> config_env \<Rightarrow> bool" where
  "same_but_contents W W' \<longleftrightarrow>
     W' = W\<lparr>cw_read_file := cw_read_file W'\<rparr> \<and> (\<forall>p. cw_read_file W' p = None \<longleftrightarrow> cw_read_file W p = None)"

fun public_auth :: "config_auth \<Rightarrow> config_auth" where
  "public_auth (CfgLegacy _) = CfgLegacy (ApiKey [])"
| "public_auth (CfgLegacyPerUser a) = CfgLegacyPerUser a"
| "public_auth (CfgOAuth r) = CfgOAuth (r\<lparr>oc_introspect_client_secret := []\<rparr>)"
| "public_auth (CfgOAuthProxy p) =
     CfgOAuthProxy (p\<lparr>op_resource := (op_resource p)\<lparr>oc_introspect_client_secret := []\<rparr>, op_upstream_client_secret := []\<rparr>)"

abbreviation same_public_auth :: "config_auth \<Rightarrow> config_auth \<Rightarrow> bool" where
  "same_public_auth a a' \<equiv> public_auth a = public_auth a'"

abbreviation same_public_oauth :: "oauth_config \<Rightarrow> oauth_config \<Rightarrow> bool" where
  "same_public_oauth r r' \<equiv> \<exists>s. r' = r\<lparr>oc_introspect_client_secret := s\<rparr>"

abbreviation same_result :: "('a \<Rightarrow> 'b \<Rightarrow> bool) \<Rightarrow> config_error + 'a \<Rightarrow> config_error + 'b \<Rightarrow> bool" where
  "same_result \<equiv> rel_sum (=)"

lemma and_then_rel:
  "same_result R r r' \<Longrightarrow> (\<And>v v'. R v v' \<Longrightarrow> same_result S (f v) (f' v')) \<Longrightarrow> same_result S (and_then r f) (and_then r' f')"
  by (cases r; cases r') simp_all

lemma and_then_rel_eq:
  "r = r' \<Longrightarrow> (\<And>v. same_result S (f v) (f' v)) \<Longrightarrow> same_result S (and_then r f) (and_then r' f')"
  by (cases r') simp_all

lemma rel_if:
  "c = c' \<Longrightarrow> same_result S x x' \<Longrightarrow> same_result S y y' \<Longrightarrow> same_result S (if c then x else y) (if c' then x' else y')"
  by simp

lemma same_optional: "same_but_secrets vars vars' \<Longrightarrow> v \<notin> set secret_vars \<Longrightarrow> optional vars' v = optional vars v"
  by (simp add: same_but_secrets_def)

lemma same_world:
  assumes "same_but_contents W W'"
  shows "cw_url W' = cw_url W" "cw_json W' = cw_json W" "cw_authority W' = cw_authority W" "cw_header W' = cw_header W"
    "cw_ip_str W' = cw_ip_str W" "cw_url_str W' = cw_url_str W" "cw_temp_dir W' = cw_temp_dir W"
    "cw_path_join W' = cw_path_join W"
  using assms unfolding same_but_contents_def by (metis config_env.ext_inject config_env.surjective config_env.update_convs(5))+

lemma same_secret:
  assumes "same_but_secrets vars vars'" "same_but_contents W W'" "v \<in> set secret_vars"
  shows "same_result (rel_option (\<lambda>_ _. True)) (read_secret W vars v) (read_secret W' vars' v)"
proof -
  have v: "optional vars' v = None \<longleftrightarrow> optional vars v = None"
    using assms(1,3) by (simp add: same_but_secrets_def)
  have f: "optional vars' (v @ ''_FILE'') = optional vars (v @ ''_FILE'')"
    by (rule same_optional [OF assms(1)]) (use assms(3) in \<open>auto simp: secret_vars_def\<close>)
  have c: "cw_read_file W' p = None \<longleftrightarrow> cw_read_file W p = None" for p
    using assms(2) by (simp add: same_but_contents_def)
  show ?thesis
    using v c [of "the (optional vars (v @ ''_FILE''))"]
    by (cases "optional vars v"; cases "optional vars (v @ ''_FILE'')")
      (auto simp: read_secret_def f split: option.splits)
qed

lemmas parser_defs = parse_redmine_def parse_plugins_def parse_http_def
  parse_bind_def parse_allowed_hosts_def parse_mcp_path_def parse_allowed_origins_def parse_public_base_def
  parse_rate_limit_def parse_attachments_def parse_custom_fields_def parse_custom_field_defaults_def
  parse_schema_dialect_def parse_log_format_def parse_csv_def parse_port_var_def parse_public_scheme_def
  public_base_from_loopback_bind_def parse_upload_file_roots_def parse_public_url_rewrite_def
  positive_u32_def positive_u64_def positive_usize_def positive_number_def bounded_number_def
  required_def optional_bool_def parse_oauth_base_url_def parse_token_cache_ttl_def parse_discovery_as_def
  parse_scopes_def parse_scope_enforcement_def parse_redirect_policy_def validate_authority_def
  parse_attachments_dir_def origin_ok_def

lemma plain_http:
  assumes "same_but_secrets vars vars'" "same_but_contents W W'"
  shows "parse_http W' vars' = parse_http W vars"
  by (simp add: parser_defs [abs_def] same_optional [OF assms(1)] same_world [OF assms(2)] secret_vars_def
      cong: option.case_cong if_cong ip_addr.case_cong)

lemma plain_parsers:
  assumes "same_but_secrets vars vars'" "same_but_contents W W'"
  shows "parse_redmine W' vars' = parse_redmine W vars" "parse_plugins vars' = parse_plugins vars"
    "parse_attachments W' vars' = parse_attachments W vars"
    "parse_custom_fields W' vars' = parse_custom_fields W vars" "parse_schema_dialect vars' = parse_schema_dialect vars"
    "parse_log_format vars' = parse_log_format vars" "parse_oauth_base_url W' vars' = parse_oauth_base_url W vars"
    "parse_token_cache_ttl vars' = parse_token_cache_ttl vars" "parse_discovery_as vars' = parse_discovery_as vars"
    "parse_scopes vars' full = parse_scopes vars full" "parse_scope_enforcement vars' = parse_scope_enforcement vars"
    "parse_redirect_policy vars' = parse_redirect_policy vars"
    "x \<notin> set secret_vars \<Longrightarrow> required vars' x = required vars x"
    "x \<notin> set secret_vars \<Longrightarrow> optional_bool vars' x b = optional_bool vars x b"
    "x \<notin> set secret_vars \<Longrightarrow> positive_usize vars' x n = positive_usize vars x n"
  by (simp_all add: parser_defs [abs_def] same_optional [OF assms(1)] same_world [OF assms(2)] secret_vars_def
      cong: option.case_cong if_cong)

lemma same_oauth_resource:
  assumes "same_but_secrets vars vars'" "same_but_contents W W'"
  shows "same_result same_public_oauth (parse_oauth_resource W vars kind ro plugins) (parse_oauth_resource W' vars' kind ro plugins)"
proof -
  have id: "required vars' ''REDMINE_INTROSPECT_CLIENT_ID'' = required vars ''REDMINE_INTROSPECT_CLIENT_ID''"
    by (rule plain_parsers(13) [OF assms]) (simp add: secret_vars_def)
  show ?thesis
    unfolding parse_oauth_resource_def plain_parsers(7-11) [OF assms] id
    by (intro and_then_rel_eq and_then_rel [OF same_secret [OF assms]])
      (auto simp: secret_vars_def rel_option_iff intro!: and_then_rel_eq exI split: option.splits)
qed

lemma same_upstream_client:
  assumes "same_but_secrets vars vars'" "same_but_contents W W'" "same_public_oauth r r'"
  shows "same_result (\<lambda>c c'. fst c = fst c') (parse_upstream_client W vars r) (parse_upstream_client W' vars' r')"
proof -
  have i: "optional vars' ''REDMINE_OAUTH_CLIENT_ID'' = optional vars ''REDMINE_OAUTH_CLIENT_ID''"
    by (rule same_optional [OF assms(1)]) (simp add: secret_vars_def)
  have r: "oc_introspect_client_id r' = oc_introspect_client_id r"
    using assms(3) by auto
  show ?thesis
    unfolding parse_upstream_client_def i
    by (rule and_then_rel [OF same_secret [OF assms(1,2)]]) (auto simp: secret_vars_def r split: option.splits)
qed

lemma same_auth:
  assumes "same_but_secrets vars vars'" "same_but_contents W W'"
  shows "same_result same_public_auth (parse_auth W vars kind ro plugins) (parse_auth W' vars' kind ro plugins)"
proof -
  have opt: "optional vars' x = optional vars x"
    if "x \<in> {''REDMINE_AUTH_MODE'', ''REDMINE_PER_USER_TRUST_PROXY'', ''REDMINE_OAUTH_DISCOVERY_AS''}" for x
    by (rule same_optional [OF assms(1)]) (use that in \<open>auto simp: secret_vars_def\<close>)
  have audit: "optional_bool vars' ''REDMINE_PER_USER_AUDIT_IDENTITY'' b = optional_bool vars ''REDMINE_PER_USER_AUDIT_IDENTITY'' b" for b
    by (rule plain_parsers(14) [OF assms]) (simp add: secret_vars_def)
  have legacy: "same_result same_public_auth
      (and_then (read_secret W vars ''REDMINE_API_KEY'')
         (\<lambda>key. case key of None \<Rightarrow> Inl (CfgMissing ''REDMINE_API_KEY'') | Some k \<Rightarrow> Inr (CfgLegacy (ApiKey k))))
      (and_then (read_secret W' vars' ''REDMINE_API_KEY'')
         (\<lambda>key. case key of None \<Rightarrow> Inl (CfgMissing ''REDMINE_API_KEY'') | Some k \<Rightarrow> Inr (CfgLegacy (ApiKey k))))"
    by (rule and_then_rel [OF same_secret [OF assms]]) (auto simp: secret_vars_def rel_option_iff split: option.splits)
  have disc: "same_public_oauth (r\<lparr>oc_discovery_as := d\<rparr>) (r\<lparr>oc_introspect_client_secret := s, oc_discovery_as := d\<rparr>)"
    for r :: oauth_config and d s by (rule exI [of _ s]) simp
  have oauth: "same_result same_public_auth
      (and_then (parse_oauth_resource W vars kind ro plugins) (\<lambda>r. Inr (CfgOAuth r)))
      (and_then (parse_oauth_resource W' vars' kind ro plugins) (\<lambda>r. Inr (CfgOAuth r)))"
    by (rule and_then_rel [OF same_oauth_resource [OF assms]]) auto
  show ?thesis
    unfolding parse_auth_def Let_def plain_parsers(12) [OF assms] opt [of "''REDMINE_AUTH_MODE''", simplified]
      opt [of "''REDMINE_PER_USER_TRUST_PROXY''", simplified] opt [of "''REDMINE_OAUTH_DISCOVERY_AS''", simplified] audit
    by (auto intro!: legacy oauth disc and_then_rel [OF same_oauth_resource [OF assms]] and_then_rel_eq
        and_then_rel [OF same_upstream_client [OF assms]] split: prod.splits)
qed

definition same_summary :: "config \<Rightarrow> config \<Rightarrow> bool" where
  "same_summary cfg cfg' \<longleftrightarrow> public_auth (co_auth cfg) = public_auth (co_auth cfg') \<and>
     cfg' = cfg\<lparr>co_auth := co_auth cfg'\<rparr>"

lemma same_from_map:
  assumes "same_but_secrets vars vars'" "same_but_contents W W'"
  shows "same_result same_summary (from_map W vars kind) (from_map W' vars' kind)"
proof -
  have opt: "optional vars' ''REDMINE_MCP_ALLOW_UNAUTHENTICATED_NETWORK'' = optional vars ''REDMINE_MCP_ALLOW_UNAUTHENTICATED_NETWORK''"
    "optional_bool vars' ''REDMINE_MCP_READ_ONLY'' False = optional_bool vars ''REDMINE_MCP_READ_ONLY'' False"
    "positive_usize vars' ''REDMINE_MCP_MAX_RESPONSE_ITEMS'' 200 = positive_usize vars ''REDMINE_MCP_MAX_RESPONSE_ITEMS'' 200"
    "positive_usize vars' ''REDMINE_MCP_MAX_RESPONSE_BYTES'' 262144 = positive_usize vars ''REDMINE_MCP_MAX_RESPONSE_BYTES'' 262144"
    by (rule same_optional [OF assms(1)] plain_parsers(14-15) [OF assms], simp add: secret_vars_def)+
  have net: "unauthenticated_network auth' t = unauthenticated_network auth t" if "same_public_auth auth auth'" for auth auth' t
    using that by (cases auth; cases auth'; cases t) (simp_all add: unauthenticated_network_def)
  show ?thesis
    unfolding from_map_def plain_parsers(1-5) [OF assms] plain_parsers(6) [OF assms] plain_http [OF assms] opt
    by (intro and_then_rel_eq [OF refl] and_then_rel [OF same_auth [OF assms]] rel_if)
      (blast dest: net | simp add: same_summary_def)+
qed

lemma redacted_summary_auth: "redacted_summary W (cfg\<lparr>co_auth := public_auth (co_auth cfg)\<rparr>) = redacted_summary W cfg"
  unfolding redacted_summary_def auth_mode_label_def plugin_flags_json_def schema_dialect_label_def oauth_summary_def Let_def
  by (cases "co_auth cfg") simp_all

lemma redacted_summary_files: "redacted_summary (W\<lparr>cw_read_file := f\<rparr>) cfg = redacted_summary W cfg"
proof -
  have "socket_str (W\<lparr>cw_read_file := f\<rparr>) = socket_str W"
    by (simp add: fun_eq_iff socket_str_def split: ip_addr.split)
  moreover have "oauth_summary (W\<lparr>cw_read_file := f\<rparr>) = oauth_summary W"
    by (simp add: fun_eq_iff oauth_summary_def)
  ultimately show ?thesis unfolding redacted_summary_def by presburger
qed

lemma redacted_summary_public:
  assumes "same_summary cfg cfg'" "same_but_contents W W'"
  shows "redacted_summary W' cfg' = redacted_summary W cfg"
proof -
  obtain a where cfg': "cfg' = cfg\<lparr>co_auth := a\<rparr>" and pub: "public_auth (co_auth cfg) = public_auth a"
    using assms(1) unfolding same_summary_def by blast
  have "redacted_summary W cfg' = redacted_summary W (cfg\<lparr>co_auth := public_auth (co_auth cfg)\<rparr>)"
    using redacted_summary_auth [of W cfg'] by (simp add: cfg' pub)
  moreover have "redacted_summary W' cfg' = redacted_summary W cfg'"
    using assms(2) redacted_summary_files unfolding same_but_contents_def by metis
  ultimately show ?thesis by (simp add: redacted_summary_auth)
qed



section \<open>Versions\<close>

lemma digits_value_append:
  "digits_value radix lim acc (xs @ ys) =
     (case digits_value radix lim acc xs of None \<Rightarrow> None | Some a \<Rightarrow> digits_value radix lim a ys)"
  by (induction radix lim acc xs rule: digits_value.induct) (auto split: option.splits)

lemma digit_val_digit_char: "d < 10 \<Longrightarrow> digit_val 10 (digit_char d) = Some d"
  by (auto simp: digit_val_def digit_char_def byte_of_def)

lemma digits_value_nat_str: "digits_value 10 lim 0 (nat_str n) = (if n \<le> lim then Some n else None)"
proof (induction n rule: nat_str.induct)
  case (1 n)
  show ?case
  proof (cases "n < 10")
    case True
    then show ?thesis by (subst nat_str.simps) (simp add: digit_val_digit_char)
  next
    case False
    then show ?thesis using 1
      by (subst nat_str.simps) (auto simp: digits_value_append digit_val_digit_char)
  qed
qed

lemma nat_str_free: "\<not> is_ascii_digit c \<Longrightarrow> c \<notin> set (nat_str n)"
  using nat_str_digits by blast

lemma parse_u32_nat_str: "parse_u32 (nat_str n) = (if n \<le> 4294967295 then Some n else None)"
proof -
  have "hd (nat_str n) \<noteq> CHR ''+''"
    using nat_str_digits [of "hd (nat_str n)" n] by (auto simp: is_ascii_digit_def byte_of_def)
  then have "(case nat_str n of c # cs \<Rightarrow> if c = CHR ''+'' then cs else nat_str n | [] \<Rightarrow> nat_str n) = nat_str n"
    by (cases "nat_str n") simp_all
  then show ?thesis by (simp add: parse_u32_def digits_value_nat_str Let_def)
qed

lemma version_part_nat_str: "version_part (nat_str n) = (if n \<le> 4294967295 then Some n else None)"
  using nat_str_digits by (auto simp: version_part_def parse_u32_nat_str list_all_iff)

lemma split_char_free: "c \<notin> set xs \<Longrightarrow> split_char c acc xs = [rev acc @ xs]"
  by (induction xs arbitrary: acc) auto

lemma split_char_sep: "c \<notin> set xs \<Longrightarrow> split_char c acc (xs @ c # ys) = (rev acc @ xs) # split_char c [] ys"
  by (induction xs arbitrary: acc) auto

lemma digits_value_le: "digits_value radix lim acc s = Some n \<Longrightarrow> acc \<le> lim \<Longrightarrow> n \<le> lim"
  by (induction radix lim acc s rule: digits_value.induct) (auto split: option.splits if_splits)

lemma version_part_le: "version_part p = Some n \<Longrightarrow> n \<le> 4294967295"
  by (auto simp: version_part_def parse_u32_def Let_def dest!: digits_value_le split: if_splits)

lemma version_from_str_Some:
  "version_from_str s = Some v \<longleftrightarrow>
     map version_part (split_char (CHR ''.'') [] s) = [Some (rv_major v), Some (rv_minor v), Some (rv_patch v)]"
  by (auto simp: version_from_str_def split: list.splits option.splits)

text \<open>
  A Redmine version reads back as it was printed, exactly when its three numbers fit 32 bits, and
  reading yields only such versions.
\<close>

lemma version_roundtrip:
  "(version_from_str (version_str v) = Some v \<longleftrightarrow>
      rv_major v \<le> 4294967295 \<and> rv_minor v \<le> 4294967295 \<and> rv_patch v \<le> 4294967295) \<and>
   (\<forall>s w. version_from_str s = Some w \<longrightarrow> version_from_str (version_str w) = Some w)"
proof -
  have dot: "CHR ''.'' \<notin> set (nat_str n)" for n by (rule nat_str_free) (simp add: is_ascii_digit_def byte_of_def)
  have split: "split_char (CHR ''.'') [] (version_str w) = [nat_str (rv_major w), nat_str (rv_minor w), nat_str (rv_patch w)]" for w
    by (simp add: version_str_def split_char_sep split_char_free dot)
  have rt: "version_from_str (version_str w) = Some w \<longleftrightarrow>
      rv_major w \<le> 4294967295 \<and> rv_minor w \<le> 4294967295 \<and> rv_patch w \<le> 4294967295" for w
    by (auto simp: version_from_str_Some split version_part_nat_str)
  have "rv_major w \<le> 4294967295 \<and> rv_minor w \<le> 4294967295 \<and> rv_patch w \<le> 4294967295"
    if "version_from_str s = Some w" for s w
    using that version_part_le by (auto simp: version_from_str_Some)
  with rt show ?thesis by blast
qed

end
