(* ===== verification/Schema.thy ===== *)
theory Schema
  imports Json
begin

text \<open>
  The rewriting of tool schemas (\<^verbatim>\<open>tools/schema.rs\<close>): the removal of the integer formats that are not
  standard, and the conversion to the portable dialect. The source changes values in place; here
  each pass returns the new value. The substitution of references follows chains of definitions and
  would not end on a cycle, so its definition carries fuel: the number of substitutions along a path.
\<close>

definition NON_STANDARD_INT_FORMATS :: "string list" where
  "NON_STANDARD_INT_FORMATS = [''uint'', ''uint8'', ''uint16'', ''uint32'', ''uint64'', ''uint128'', ''int128'']"

definition obj_remove :: "string \<Rightarrow> json_object \<Rightarrow> json_object" where
  "obj_remove k m = filter (\<lambda>e. fst e \<noteq> k) m"

definition obj_get_str :: "json_object \<Rightarrow> string \<Rightarrow> string option" where
  "obj_get_str m k = (case map_of m k of None \<Rightarrow> None | Some v \<Rightarrow> as_str v)"

definition strip_format :: "json_object \<Rightarrow> bool" where
  "strip_format m = (case obj_get_str m ''format'' of Some f \<Rightarrow> f \<in> set NON_STANDARD_INT_FORMATS | None \<Rightarrow> False)"

fun strip_non_standard_formats :: "json \<Rightarrow> json" where
  "strip_non_standard_formats (JObj m) =
     JObj ((if strip_format m then obj_remove ''format'' else id) (map (\<lambda>(k, v). (k, strip_non_standard_formats v)) m))"
| "strip_non_standard_formats (JArr xs) = JArr (map strip_non_standard_formats xs)"
| "strip_non_standard_formats v = v"

definition normalize_schema :: "json_object \<Rightarrow> json_object" where
  "normalize_schema raw = (case strip_non_standard_formats (JObj raw) of JObj m \<Rightarrow> m | _ \<Rightarrow> [])"

section \<open>References\<close>

definition ref_name :: "json_object \<Rightarrow> string option" where
  "ref_name m = (case obj_get_str m ''$ref'' of Some r \<Rightarrow> strip_prefix r ''#/$defs/'' | None \<Rightarrow> None)"

text \<open>The definition put in place of a reference; the entries beside the reference override its own.\<close>

definition substitute :: "json \<Rightarrow> json_object \<Rightarrow> json" where
  "substitute target m =
     (case target of
        JObj t \<Rightarrow> JObj (foldl (\<lambda>acc (k, v). obj_insert k v acc) t (obj_remove ''$ref'' m))
      | _ \<Rightarrow> target)"

lemma json_size_obj [termination_simp]: "(k, v) \<in> set m \<Longrightarrow> size v < Suc (size_list (\<lambda>x. Suc (size (snd x))) m)"
  by (induction m) auto

lemma json_size_arr [termination_simp]: "v \<in> set xs \<Longrightarrow> size v < Suc (size_list size xs)"
  by (induction xs) auto

function resolve_refs :: "nat \<Rightarrow> json_object \<Rightarrow> json \<Rightarrow> json option" where
  "resolve_refs fuel defs (JObj m) =
     (if obj_get_str m ''$ref'' \<noteq> None then
        (case (case ref_name m of None \<Rightarrow> None | Some name \<Rightarrow> map_of defs name) of
           None \<Rightarrow> Some (JObj m)
         | Some target \<Rightarrow> if fuel = 0 then None else resolve_refs (fuel - 1) defs (substitute target m))
      else map_option JObj (those (map (\<lambda>(k, v). map_option (Pair k) (resolve_refs fuel defs v)) m)))"
| "resolve_refs fuel defs (JArr xs) = map_option JArr (those (map (resolve_refs fuel defs) xs))"
| "resolve_refs fuel defs JNull = Some JNull"
| "resolve_refs fuel defs (JBool b) = Some (JBool b)"
| "resolve_refs fuel defs (JInt i) = Some (JInt i)"
| "resolve_refs fuel defs (JFloat r) = Some (JFloat r)"
| "resolve_refs fuel defs (JStr s) = Some (JStr s)"
  by pat_completeness auto

termination
  by (relation "measures [\<lambda>(fuel, defs, v). fuel, \<lambda>(fuel, defs, v). size v]") (auto simp: termination_simp)

definition inline_defs :: "nat \<Rightarrow> json \<Rightarrow> json option" where
  "inline_defs fuel schema =
     (case schema of
        JObj root \<Rightarrow>
          (case map_of root ''$defs'' of
             None \<Rightarrow> Some schema
           | Some (JObj defs) \<Rightarrow> resolve_refs fuel defs (JObj (obj_remove ''$defs'' root))
           | Some _ \<Rightarrow> Some schema)
      | _ \<Rightarrow> Some schema)"

section \<open>Collapsing\<close>

text \<open>The new value of the entry \<open>type\<close>: of exactly two alternatives, one of them null, the other.\<close>

definition non_null_type :: "json \<Rightarrow> json" where
  "non_null_type v =
     (case v of
        JArr [a, b] \<Rightarrow> if (a = JStr ''null'') \<noteq> (b = JStr ''null'') then (if a = JStr ''null'' then b else a) else v
      | _ \<Rightarrow> v)"

lemma size_non_null_type: "size (non_null_type v) \<le> size v"
  by (auto simp: non_null_type_def split: json.splits list.splits)

lemma json_size_type [termination_simp]:
  assumes "(k, v) \<in> set m"
  shows "size (non_null_type v) < Suc (size_list (\<lambda>x. Suc (size (snd x))) m)"
  using size_non_null_type [of v] json_size_obj [OF assms] by simp

function collapse_nullable_types :: "json \<Rightarrow> json" where
  "collapse_nullable_types (JObj m) =
     JObj (map (\<lambda>(k, v). (k, collapse_nullable_types (if k = ''type'' then non_null_type v else v))) m)"
| "collapse_nullable_types (JArr xs) = JArr (map collapse_nullable_types xs)"
| "collapse_nullable_types JNull = JNull"
| "collapse_nullable_types (JBool b) = JBool b"
| "collapse_nullable_types (JInt i) = JInt i"
| "collapse_nullable_types (JFloat r) = JFloat r"
| "collapse_nullable_types (JStr s) = JStr s"
  by pat_completeness auto

termination
  by (relation "measure size") (auto simp: termination_simp)

definition scalar_types :: "string list" where
  "scalar_types = [''integer'', ''number'', ''string'', ''boolean'', ''null'']"

definition is_leaf_scalar :: "json \<Rightarrow> bool" where
  "is_leaf_scalar branch =
     (case branch of
        JObj b \<Rightarrow>
          (case obj_get_str b ''type'' of Some t \<Rightarrow> t \<in> set scalar_types | None \<Rightarrow> False) \<and>
          list_all (\<lambda>(k, _). k \<in> set [''type'', ''description'', ''minimum'', ''maximum'', ''enum'']) b
      | _ \<Rightarrow> False)"

definition branch_str :: "string \<Rightarrow> json \<Rightarrow> string option" where
  "branch_str k branch = (case branch of JObj b \<Rightarrow> obj_get_str b k | _ \<Rightarrow> None)"

definition branch_get :: "string \<Rightarrow> json \<Rightarrow> json option" where
  "branch_get k branch = (case branch of JObj b \<Rightarrow> map_of b k | _ \<Rightarrow> None)"

definition should_collapse :: "json_object \<Rightarrow> bool" where
  "should_collapse m \<longleftrightarrow>
     \<not> contains_key m ''type'' \<and>
     (case map_of m ''anyOf'' of
        Some (JArr branches) \<Rightarrow>
          branches \<noteq> [] \<and> list_all is_leaf_scalar branches \<and> list_ex (\<lambda>b. branch_str ''type'' b \<noteq> Some ''null'') branches
      | _ \<Rightarrow> False)"

text \<open>The separator of joined descriptions, a dash between spaces, in UTF-8.\<close>

definition em_dash_sep :: string where
  "em_dash_sep = map char_of [32, 226, 128, 148, 32 :: nat]"

definition collapse_object :: "json_object \<Rightarrow> json_object" where
  "collapse_object m =
     (case map_of m ''anyOf'' of
        Some (JArr branches) \<Rightarrow>
          (let m1 = obj_remove ''anyOf'' m;
               joined = join em_dash_sep (List.map_filter (branch_str ''description'') branches);
               m2 = (if \<not> contains_key m1 ''description'' \<and> joined \<noteq> []
                     then obj_insert ''description'' (JStr joined) m1 else m1);
               m3 = (case List.map_filter (branch_get ''enum'') branches of
                       [] \<Rightarrow> m2 | e # _ \<Rightarrow> obj_insert ''enum'' e m2)
           in obj_insert ''type'' (JStr ''string'') m3)
      | _ \<Rightarrow> m)"

fun collapse_scalar_any_of :: "json \<Rightarrow> json" where
  "collapse_scalar_any_of (JObj m) =
     (let m1 = map (\<lambda>(k, v). (k, collapse_scalar_any_of v)) m
      in JObj (if should_collapse m1 then collapse_object m1 else m1))"
| "collapse_scalar_any_of (JArr xs) = JArr (map collapse_scalar_any_of xs)"
| "collapse_scalar_any_of v = v"

definition to_portable :: "nat \<Rightarrow> json_object \<Rightarrow> json_object option" where
  "to_portable fuel schema =
     (case inline_defs fuel (JObj schema) of
        None \<Rightarrow> None
      | Some v \<Rightarrow> (case collapse_scalar_any_of (collapse_nullable_types v) of JObj m \<Rightarrow> Some m | _ \<Rightarrow> None))"

section \<open>Formats\<close>

fun standard_formats :: "json \<Rightarrow> bool" where
  "standard_formats (JObj m) \<longleftrightarrow> \<not> strip_format m \<and> list_all (\<lambda>(_, v). standard_formats v) m"
| "standard_formats (JArr xs) \<longleftrightarrow> list_all standard_formats xs"
| "standard_formats _ \<longleftrightarrow> True"

lemma strip_as_str [simp]: "as_str (strip_non_standard_formats v) = as_str v"
  by (cases v) simp_all

lemma map_of_map_snd: "map_of (map (\<lambda>(k, v). (k, f v)) m) k = map_option f (map_of m k)"
  by (induction m) auto

lemma strip_format_strip: "strip_format (map (\<lambda>(k, v). (k, strip_non_standard_formats v)) m) = strip_format m"
  by (auto simp: strip_format_def obj_get_str_def map_of_map_snd split: option.splits)

lemma strip_format_remove: "\<not> strip_format (obj_remove ''format'' m)"
proof -
  have "map_of (obj_remove k m) k = None" for k
    by (induction m) (auto simp: obj_remove_def)
  then show ?thesis by (simp add: strip_format_def obj_get_str_def)
qed

lemma in_obj_remove: "e \<in> set (obj_remove k m) \<longleftrightarrow> e \<in> set m \<and> fst e \<noteq> k"
  by (auto simp: obj_remove_def)

lemma strip_standard: "standard_formats (strip_non_standard_formats v)"
  by (induction v rule: strip_non_standard_formats.induct)
    (auto simp: list_all_iff strip_format_strip strip_format_remove in_obj_remove)

lemma standard_unchanged: "standard_formats v \<Longrightarrow> strip_non_standard_formats v = v"
proof (induction v rule: strip_non_standard_formats.induct)
  case (1 m)
  then have "map (\<lambda>(k, v). (k, strip_non_standard_formats v)) m = m"
    by (intro map_idI) (auto simp: list_all_iff)
  then show ?case using 1(2) by simp
next
  case (2 xs)
  then show ?case by (auto simp: list_all_iff intro: map_idI)
qed simp_all

section \<open>References\<close>

lemma those_map_mono:
  "(\<And>x y. x \<in> set xs \<Longrightarrow> g x = Some y \<Longrightarrow> h x = Some y) \<Longrightarrow> those (map g xs) = Some ys \<Longrightarrow> those (map h xs) = Some ys"
  by (induction xs arbitrary: ys) (auto split: option.splits)

lemma those_map_set: "those (map g xs) = Some ys \<Longrightarrow> y \<in> set ys \<Longrightarrow> \<exists>x \<in> set xs. g x = Some y"
  by (induction xs arbitrary: ys) (auto split: option.splits)

text \<open>More fuel does not change a result.\<close>

lemma resolve_refs_mono: "resolve_refs f defs v = Some w \<Longrightarrow> f \<le> f' \<Longrightarrow> resolve_refs f' defs v = Some w"
proof (induction f defs v arbitrary: f' w rule: resolve_refs.induct)
  case (1 fuel defs m)
  show ?case
  proof (cases "obj_get_str m ''$ref'' = None")
    case True
    obtain ys where ys: "those (map (\<lambda>(k, v). map_option (Pair k) (resolve_refs fuel defs v)) m) = Some ys" "w = JObj ys"
      using "1.prems"(1) True by auto
    have "those (map (\<lambda>(k, v). map_option (Pair k) (resolve_refs f' defs v)) m) = Some ys"
    proof (rule those_map_mono [OF _ ys(1)])
      fix kv y
      assume kv: "kv \<in> set m" and y: "(case kv of (k, v) \<Rightarrow> map_option (Pair k) (resolve_refs fuel defs v)) = Some y"
      obtain k v where e: "kv = (k, v)" by (cases kv)
      with y obtain w1 where w1: "resolve_refs fuel defs v = Some w1" "y = (k, w1)" by auto
      have "resolve_refs f' defs v = Some w1"
        by (rule "1.IH"(2) [OF _ kv e [symmetric] w1(1) "1.prems"(2)]) (simp add: True)
      then show "(case kv of (k, v) \<Rightarrow> map_option (Pair k) (resolve_refs f' defs v)) = Some y"
        using e w1(2) by simp
    qed
    then show ?thesis using True ys(2) by simp
  next
    case False
    show ?thesis
    proof (cases "case ref_name m of None \<Rightarrow> None | Some name \<Rightarrow> map_of defs name")
      case None
      then show ?thesis using "1.prems"(1) False by auto
    next
      case (Some target)
      have "fuel \<noteq> 0" and r: "resolve_refs (fuel - 1) defs (substitute target m) = Some w"
        using "1.prems"(1) False Some by (auto split: if_splits)
      then have "resolve_refs (f' - 1) defs (substitute target m) = Some w"
        using "1.IH"(1) [OF False Some _ r] "1.prems"(2) by simp
      then show ?thesis using False Some \<open>fuel \<noteq> 0\<close> "1.prems"(2) by simp
    qed
  qed
next
  case (2 fuel defs xs)
  then obtain ys where ys: "those (map (resolve_refs fuel defs) xs) = Some ys" "w = JArr ys" by auto
  have "those (map (resolve_refs f' defs) xs) = Some ys"
    by (rule those_map_mono [OF _ ys(1)]) (rule "2.IH" [OF _ _ "2.prems"(2)])
  then show ?case using ys(2) by simp
qed simp_all

fun no_refs :: "json \<Rightarrow> bool" where
  "no_refs (JObj m) \<longleftrightarrow> obj_get_str m ''$ref'' = None \<and> list_all (\<lambda>(_, v). no_refs v) m"
| "no_refs (JArr xs) \<longleftrightarrow> list_all no_refs xs"
| "no_refs _ \<longleftrightarrow> True"

text \<open>Every reference names a definition whose rank is below \<open>n\<close>.\<close>

fun refs_ok :: "(string \<Rightarrow> nat) \<Rightarrow> json_object \<Rightarrow> nat \<Rightarrow> json \<Rightarrow> bool" where
  "refs_ok rank defs n (JObj m) \<longleftrightarrow>
     (obj_get_str m ''$ref'' = None \<or>
      (case ref_name m of None \<Rightarrow> False | Some name \<Rightarrow> map_of defs name \<noteq> None \<and> rank name < n)) \<and>
     list_all (\<lambda>(_, v). refs_ok rank defs n v) m"
| "refs_ok rank defs n (JArr xs) \<longleftrightarrow> list_all (refs_ok rank defs n) xs"
| "refs_ok rank defs n _ \<longleftrightarrow> True"

definition resolves :: "json_object \<Rightarrow> json \<Rightarrow> bool" where
  "resolves defs v \<longleftrightarrow> (\<exists>f w. resolve_refs f defs v = Some w \<and> no_refs w \<and> (\<forall>s. w = JStr s \<longrightarrow> v = JStr s))"

lemma resolves_list:
  assumes "\<forall>x \<in> set xs. resolves defs (g x)"
  shows "\<exists>f ys. those (map (\<lambda>x. map_option (\<lambda>w. (x, w)) (resolve_refs f defs (g x))) xs) = Some ys \<and> map fst ys = xs \<and>
    (\<forall>(x, w) \<in> set ys. no_refs w \<and> (\<forall>s. w = JStr s \<longrightarrow> g x = JStr s))"
  using assms
proof (induction xs)
  case (Cons x xs)
  then obtain f1 ys where ys: "those (map (\<lambda>x. map_option (\<lambda>w. (x, w)) (resolve_refs f1 defs (g x))) xs) = Some ys"
      "map fst ys = xs" "\<forall>(x, w) \<in> set ys. no_refs w \<and> (\<forall>s. w = JStr s \<longrightarrow> g x = JStr s)" by auto
  obtain f2 w where w: "resolve_refs f2 defs (g x) = Some w" "no_refs w" "\<forall>s. w = JStr s \<longrightarrow> g x = JStr s"
    using Cons.prems by (auto simp: resolves_def)
  have "those (map (\<lambda>x. map_option (\<lambda>w. (x, w)) (resolve_refs (max f1 f2) defs (g x))) xs) = Some ys"
    by (rule those_map_mono [OF _ ys(1)]) (use resolve_refs_mono [of f1 defs _ _ "max f1 f2"] in auto)
  moreover have "resolve_refs (max f1 f2) defs (g x) = Some w" by (rule resolve_refs_mono [OF w(1)]) simp
  ultimately show ?case using ys(2,3) w(2,3) by (intro exI [of _ "max f1 f2"]) auto
qed simp

lemma resolves_arr:
  assumes "\<forall>x \<in> set xs. resolves defs x"
  shows "resolves defs (JArr xs)"
proof -
  from resolves_list [of xs defs "\<lambda>x. x"] assms obtain f ys where
    ys: "those (map (\<lambda>x. map_option (\<lambda>w. (x, w)) (resolve_refs f defs x)) xs) = Some ys" "\<forall>(x, w) \<in> set ys. no_refs w"
    by blast
  have "those (map (resolve_refs f defs) xs) = Some (map snd ys)"
    using ys(1) by (induction xs arbitrary: ys) (auto split: option.splits)
  then show ?thesis
    unfolding resolves_def using ys(2) by (intro exI [of _ f] exI [of _ "JArr (map snd ys)"]) (auto simp: list_all_iff)
qed

lemma resolves_obj:
  assumes "\<forall>(k, v) \<in> set m. resolves defs v" and "obj_get_str m ''$ref'' = None"
  shows "resolves defs (JObj m)"
proof -
  from resolves_list [of m defs snd] assms(1) obtain f ys where
    ys: "those (map (\<lambda>x. map_option (\<lambda>w. (x, w)) (resolve_refs f defs (snd x))) m) = Some ys" "map fst ys = m"
      "\<forall>(x, w) \<in> set ys. no_refs w \<and> (\<forall>s. w = JStr s \<longrightarrow> snd x = JStr s)"
    by (auto simp: case_prod_unfold)
  define m' where "m' = map (\<lambda>((k, _), w). (k, w)) ys"
  have th: "those (map (\<lambda>(k, v). map_option (Pair k) (resolve_refs f defs v)) m) = Some m'"
    using ys(1) unfolding m'_def by (induction m arbitrary: ys) (auto split: option.splits)
  have "as_str w = None" if "map_of m' ''$ref'' = Some w" for w
  proof -
    have "\<exists>v. map_of m ''$ref'' = Some v \<and> (\<forall>s. w = JStr s \<longrightarrow> v = JStr s)"
      using that ys(2,3) unfolding m'_def by (induction ys arbitrary: m) (auto split: if_splits)
    then show ?thesis using assms(2) by (cases w) (auto simp: obj_get_str_def)
  qed
  then have "obj_get_str m' ''$ref'' = None" by (auto simp: obj_get_str_def split: option.splits)
  moreover have "list_all (\<lambda>(_, v). no_refs v) m'" using ys(3) by (auto simp: m'_def list_all_iff)
  ultimately show ?thesis
    unfolding resolves_def using th assms(2) by (intro exI [of _ f] exI [of _ "JObj m'"]) simp
qed

lemma obj_insert_entries: "set (obj_insert k v m) \<subseteq> insert (k, v) (set m)"
  by (induction k v m rule: obj_insert.induct) auto

lemma map_of_obj_insert_other: "k' \<noteq> k \<Longrightarrow> map_of (obj_insert k v m) k' = map_of m k'"
  by (induction k v m rule: obj_insert.induct) auto

lemma fold_insert_entries: "set (foldl (\<lambda>acc (k, v). obj_insert k v acc) t kvs) \<subseteq> set t \<union> set kvs"
proof (induction kvs arbitrary: t)
  case (Cons kv kvs)
  show ?case
    using Cons [of "obj_insert (fst kv) (snd kv) t"] obj_insert_entries [of "fst kv" "snd kv" t]
    by (auto simp: case_prod_unfold)
qed simp

lemma fold_insert_other:
  "\<forall>(k, _) \<in> set kvs. k \<noteq> k' \<Longrightarrow> map_of (foldl (\<lambda>acc (k, v). obj_insert k v acc) t kvs) k' = map_of t k'"
  by (induction kvs arbitrary: t) (auto simp: map_of_obj_insert_other)

text \<open>A reference resolves when its chain of definitions does and so does everything beside it.\<close>

lemma resolves_ref:
  assumes targets: "\<And>nm t. map_of defs nm = Some t \<Longrightarrow> rank nm < n \<Longrightarrow>
      refs_ok rank defs (rank nm) t \<and> (\<forall>s. t \<noteq> JStr s) \<and> (case t of JObj tm \<Rightarrow> \<forall>(k, v) \<in> set tm. resolves defs v | _ \<Rightarrow> resolves defs t)"
    and "\<forall>(k, v) \<in> set m. resolves defs v"
    and "obj_get_str m ''$ref'' = None \<or> (\<exists>nm. ref_name m = Some nm \<and> map_of defs nm \<noteq> None \<and> rank nm < n)"
  shows "resolves defs (JObj m)"
  using assms
proof (induction n arbitrary: m rule: less_induct)
  case (less n)
  show ?case
  proof (cases "obj_get_str m ''$ref'' = None")
    case True
    then show ?thesis using less.prems(2) by (rule resolves_obj [rotated])
  next
    case False
    then obtain nm t where nm: "ref_name m = Some nm" "map_of defs nm = Some t" "rank nm < n"
      using less.prems(3) by auto
    have t: "refs_ok rank defs (rank nm) t" "\<forall>s. t \<noteq> JStr s"
      "case t of JObj tm \<Rightarrow> \<forall>(k, v) \<in> set tm. resolves defs v | _ \<Rightarrow> resolves defs t"
      using less.prems(1) [OF nm(2,3)] by auto
    have sub: "resolves defs (substitute t m)"
    proof (cases t)
      case (JObj tm)
      define m' where "m' = foldl (\<lambda>acc (k, v). obj_insert k v acc) tm (obj_remove ''$ref'' m)"
      have entries: "\<forall>(k, v) \<in> set m'. resolves defs v"
        using fold_insert_entries [of tm "obj_remove ''$ref'' m"] t(3) less.prems(2)
        by (fastforce simp: m'_def JObj in_obj_remove)
      have "map_of m' ''$ref'' = map_of tm ''$ref''"
        unfolding m'_def by (rule fold_insert_other) (auto simp: in_obj_remove)
      then have "obj_get_str m' ''$ref'' = obj_get_str tm ''$ref''" "ref_name m' = ref_name tm"
        by (simp_all add: obj_get_str_def ref_name_def)
      moreover have "obj_get_str tm ''$ref'' = None \<or> (\<exists>nm'. ref_name tm = Some nm' \<and> map_of defs nm' \<noteq> None \<and> rank nm' < rank nm)"
        using t(1) JObj by (auto split: option.splits)
      ultimately have ref: "obj_get_str m' ''$ref'' = None \<or>
          (\<exists>nm'. ref_name m' = Some nm' \<and> map_of defs nm' \<noteq> None \<and> rank nm' < rank nm)" by simp
      have "resolves defs (JObj m')"
        by (rule less.IH [OF nm(3) less.prems(1) entries ref]) (use nm(3) in simp_all)
      then show ?thesis by (simp add: substitute_def JObj m'_def)
    qed (use t in \<open>auto simp: substitute_def\<close>)
    then obtain f w where w: "resolve_refs f defs (substitute t m) = Some w" "no_refs w"
      "\<forall>s. w = JStr s \<longrightarrow> substitute t m = JStr s" by (auto simp: resolves_def)
    have "resolve_refs (Suc f) defs (JObj m) = Some w" using False nm w(1) by auto
    moreover have "w \<noteq> JStr s" for s using w(3) t(2) by (auto simp: substitute_def split: json.splits)
    ultimately show ?thesis unfolding resolves_def using w(2) by blast
  qed
qed

text \<open>Definitions that refer only to definitions of a lower rank, none of them a bare string.\<close>

definition acyclic_defs :: "(string \<Rightarrow> nat) \<Rightarrow> json_object \<Rightarrow> bool" where
  "acyclic_defs rank defs \<longleftrightarrow>
     (\<forall>nm t. map_of defs nm = Some t \<longrightarrow> refs_ok rank defs (rank nm) t \<and> (\<forall>s. t \<noteq> JStr s))"

lemma size_entry: "(k, v) \<in> set m \<Longrightarrow> size v < size (JObj m)"
  by (induction m) auto

lemma refs_ok_resolves:
  assumes "acyclic_defs rank defs"
  shows "refs_ok rank defs n v \<Longrightarrow> resolves defs v"
proof (induction n arbitrary: v rule: less_induct)
  case outer: (less n)
  show ?case
    using outer.prems
  proof (induction v rule: measure_induct_rule [of size])
    case inner: (less v)
    show ?case
    proof (cases v)
      case (JObj m)
      have entries: "\<forall>(k, x) \<in> set m. resolves defs x"
        using inner.prems by (auto simp: JObj list_all_iff intro!: inner.IH dest: size_entry)
      have targets: "refs_ok rank defs (rank nm) t \<and> (\<forall>s. t \<noteq> JStr s) \<and>
          (case t of JObj tm \<Rightarrow> \<forall>(k, x) \<in> set tm. resolves defs x | _ \<Rightarrow> resolves defs t)"
        if "map_of defs nm = Some t" "rank nm < n" for nm t
      proof -
        have t: "refs_ok rank defs (rank nm) t" "\<forall>s. t \<noteq> JStr s" using assms that(1) by (auto simp: acyclic_defs_def)
        then show ?thesis using outer.IH [OF that(2)] by (cases t) (auto simp: list_all_iff)
      qed
      show ?thesis
        unfolding JObj by (rule resolves_ref [OF targets entries])
          (use inner.prems JObj in \<open>auto split: option.splits\<close>)
    next
      case (JArr xs)
      then show ?thesis
        using inner json_size_arr [of _ xs] by (auto simp: list_all_iff intro!: resolves_arr)
    qed (auto simp: resolves_def)
  qed
qed

section \<open>Properties\<close>

text \<open>
  Inlining ends and is complete. When the definitions of a schema refer to each other without a
  cycle, and every reference names one of them, the substitution of references ends, and its result
  has no reference left, at any depth.
\<close>

theorem schema_inlined:
  assumes "map_of schema ''$defs'' = Some (JObj defs)" and "acyclic_defs rank defs"
    and "refs_ok rank defs n (JObj (obj_remove ''$defs'' schema))"
  shows "\<exists>fuel w. (\<forall>f \<ge> fuel. inline_defs f (JObj schema) = Some w) \<and> no_refs w"
proof -
  obtain fuel w where r: "resolve_refs fuel defs (JObj (obj_remove ''$defs'' schema)) = Some w" and "no_refs w"
    using refs_ok_resolves [OF assms(2,3)] unfolding resolves_def by blast
  moreover have "inline_defs f (JObj schema) = resolve_refs f defs (JObj (obj_remove ''$defs'' schema))" for f
    by (simp add: inline_defs_def assms(1) del: resolve_refs.simps)
  ultimately show ?thesis using resolve_refs_mono [OF r] by metis
qed

definition example_schema :: json_object where
  "example_schema =
     [(''$defs'', JObj [(''A'', JObj [(''$ref'', JStr ''#/$defs/B'')]), (''B'', JObj [(''type'', JStr ''string'')])]),
      (''properties'', JObj [(''x'', JObj [(''$ref'', JStr ''#/$defs/A'')])])]"

text \<open>The hypotheses hold for a schema with a chain of two definitions.\<close>

theorem schema_inlined_witness:
  "\<exists>fuel w. (\<forall>f \<ge> fuel. inline_defs f (JObj example_schema) = Some w) \<and> no_refs w"
proof -
  let ?defs = "[(''A'', JObj [(''$ref'', JStr ''#/$defs/B'')]), (''B'', JObj [(''type'', JStr ''string'')])]"
  let ?rank = "\<lambda>nm. if nm = ''A'' then 1 else 0"
  have d: "map_of example_schema ''$defs'' = Some (JObj ?defs)" by (simp add: example_schema_def)
  have a: "acyclic_defs ?rank ?defs"
    by (simp add: acyclic_defs_def obj_get_str_def ref_name_def strip_prefix_def starts_with_def)
  have r: "refs_ok ?rank ?defs 2 (JObj (obj_remove ''$defs'' example_schema))"
    by (simp add: example_schema_def obj_remove_def obj_get_str_def ref_name_def strip_prefix_def starts_with_def)
  show ?thesis by (rule schema_inlined [OF d a r])
qed

text \<open>
  Normalising a schema removes every non-standard integer format, at any depth; it changes nothing
  else in the sense that a schema without such formats is returned as it is, so that normalising
  twice is the same as once.
\<close>

theorem normalize_schema_standard:
  "standard_formats (JObj (normalize_schema raw)) \<and>
   (standard_formats (JObj raw) \<longrightarrow> normalize_schema raw = raw) \<and>
   normalize_schema (normalize_schema raw) = normalize_schema raw"
proof -
  have n: "strip_non_standard_formats (JObj raw) = JObj (normalize_schema raw)" for raw
    by (simp add: normalize_schema_def)
  have same: "normalize_schema raw = raw" if "standard_formats (JObj raw)" for raw
    using standard_unchanged [OF that] n [of raw] by simp
  have std: "standard_formats (JObj (normalize_schema raw))"
    using strip_standard [of "JObj raw"] unfolding n .
  show ?thesis using std same [OF std] same by blast
qed

text \<open>The hypothesis holds for a date, whose format is kept.\<close>

theorem normalize_schema_standard_witness:
  "standard_formats (JObj [(''format'', JStr ''date'')]) \<and>
   normalize_schema [(''format'', JStr ''date'')] = [(''format'', JStr ''date'')]"
proof
  show a: "standard_formats (JObj [(''format'', JStr ''date'')])"
    by (simp add: strip_format_def obj_get_str_def NON_STANDARD_INT_FORMATS_def)
  with normalize_schema_standard [of "[(''format'', JStr ''date'')]"]
  show "normalize_schema [(''format'', JStr ''date'')] = [(''format'', JStr ''date'')]" by blast
qed

end
