(* ===== verification/Render.thy ===== *)
theory Render
  imports Bounded_Store "HOL-Library.Sublist"
begin

text \<open>
  The boundary around untrusted content (\<^verbatim>\<open>render.rs\<close>): text that comes from Redmine is wrapped in
  delimiters with a random nonce, after the delimiters in it have been removed. Strings are lists
  of Unicode scalar values. The random bytes are an argument.
\<close>

section \<open>Model\<close>

text \<open>An ASCII literal of the code as scalar values.\<close>

definition lit :: "string \<Rightarrow> ustr" where
  "lit s = map byte_of s"

text \<open>The UTF-8 form of a scalar value and of a string.\<close>

definition utf8 :: "nat \<Rightarrow> nat list" where
  "utf8 c =
     (if c < 0x80 then [c]
      else if c < 0x800 then [0xC0 + c div 64, 0x80 + c mod 64]
      else if c < 0x10000 then [0xE0 + c div 4096, 0x80 + c div 64 mod 64, 0x80 + c mod 64]
      else [0xF0 + c div 262144, 0x80 + c div 4096 mod 64, 0x80 + c div 64 mod 64, 0x80 + c mod 64])"

definition utf8_bytes :: "ustr \<Rightarrow> nat list" where
  "utf8_bytes s = concat (map utf8 s)"

text \<open>\<^verbatim>\<open>str::replace\<close> with an empty replacement: occurrences are found from left to right and do not overlap.\<close>

function remove_all :: "'a list \<Rightarrow> 'a list \<Rightarrow> 'a list" where
  "remove_all pat s =
     (if s = [] \<or> pat = [] then s
      else if take (length pat) s = pat then remove_all pat (drop (length pat) s)
      else hd s # remove_all pat (tl s))"
  by pat_completeness auto

termination
  by (relation "measure (\<lambda>(pat, s). length s)") auto

declare remove_all.simps [simp del]

record boundary =
  bd_nonce :: ustr

text \<open>\<open>random n\<close> is the byte drawn in round \<open>n\<close> of the loop.\<close>

definition boundary_new :: "(nat \<Rightarrow> char) \<Rightarrow> boundary" where
  "boundary_new random = \<lparr>bd_nonce = lit (hex_bytes (map random [0..<12]))\<rparr>"

definition sanitize :: "ustr \<Rightarrow> ustr" where
  "sanitize content =
     filter (\<lambda>c. \<not> is_control c \<or> c = 10 \<or> c = 9)
       (remove_all (lit ''<<</untrusted:'') (remove_all (lit ''<<<untrusted:'') content))"

definition wrap :: "boundary \<Rightarrow> string \<Rightarrow> ustr \<Rightarrow> ustr" where
  "wrap b kind content =
     lit ''<<<untrusted:'' @ lit kind @ lit '':'' @ bd_nonce b @ lit ''>>>'' @ sanitize content @
     lit ''<<</untrusted:'' @ bd_nonce b @ lit ''>>>''"

definition open_delimiter :: "boundary \<Rightarrow> string \<Rightarrow> ustr" where
  "open_delimiter b kind = lit ''<<<untrusted:'' @ lit kind @ lit '':'' @ bd_nonce b @ lit ''>>>''"

definition close_delimiter :: "boundary \<Rightarrow> ustr" where
  "close_delimiter b = lit ''<<</untrusted:'' @ bd_nonce b @ lit ''>>>''"

section \<open>Occurrences of delimiters\<close>

text \<open>
  A marker starts with three opening brackets and has no other. Two markers can then not overlap,
  which is what the next lemmas say of an occurrence of one in a text that ends with the other.
\<close>

definition marker :: "ustr \<Rightarrow> bool" where
  "marker p \<longleftrightarrow> (\<exists>r. p = [60, 60, 60] @ r \<and> r \<noteq> [] \<and> 60 \<notin> set r)"

lemma marker_nth:
  assumes "marker p" "i < length p"
  shows "p ! i = 60 \<longleftrightarrow> i \<le> 2"
proof -
  obtain r where p: "p = [60, 60, 60] @ r" "60 \<notin> set r" using assms(1) by (auto simp: marker_def)
  show ?thesis
  proof (cases "i \<le> 2")
    case True
    then have "i = 0 \<or> i = 1 \<or> i = 2" by linarith
    then show ?thesis by (auto simp: p)
  next
    case False
    then have "p ! i = r ! (i - 3)" using p(1) by (simp add: nth_append numeral_3_eq_3)
    moreover have "i - 3 < length r" using assms(2) p(1) False by auto
    ultimately show ?thesis using p(2) False by (metis nth_mem)
  qed
qed

lemma marker_length: "marker p \<Longrightarrow> 3 < length p"
  by (auto simp: marker_def)

lemma marker_hd: "marker p \<Longrightarrow> 0 < length p \<and> p ! 0 = 60"
  by (auto simp: marker_def)

lemma marker_start:
  assumes "marker p" "marker q" "q @ t = xs @ p @ ys" "length xs < length q"
  shows "xs = []"
proof (rule ccontr)
  assume "xs \<noteq> []"
  define k where "k = length xs"
  have k: "0 < k" "k < length q" using \<open>xs \<noteq> []\<close> assms(4) by (simp_all add: k_def)
  have txt_at: "(q @ t) ! (k + i) = p ! i" if "i < length p" for i
    using that by (simp add: assms(3) k_def nth_append)
  have "q ! k = 60" using txt_at [of 0] k marker_hd [OF assms(1)]
    by (simp add: nth_append)
  then have "k \<le> 2" using marker_nth [OF assms(2) k(2)] by simp
  then have i: "3 - k \<le> 2" "3 - k < length p" "k + (3 - k) = 3" using k marker_length [OF assms(1)] by simp_all
  then have "(q @ t) ! 3 = p ! (3 - k)" using txt_at [of "3 - k"] by simp
  moreover have "(q @ t) ! 3 = q ! 3" using marker_length [OF assms(2)] by (simp add: nth_append)
  ultimately show False
    using i marker_nth [OF assms(1), of "3 - k"] marker_nth [OF assms(2), of 3] marker_length [OF assms(2)] by simp
qed

lemma marker_no_straddle:
  assumes "marker p" "marker q" "c @ q = xs @ p @ ys" "length xs < length c"
  shows "length (xs @ p) \<le> length c"
proof (rule ccontr)
  assume long: "\<not> length (xs @ p) \<le> length c"
  define i where "i = length c - length xs"
  have i: "0 < i" "i < length p" "length c = length xs + i" using assms(4) long by (simp_all add: i_def)
  have txt_at: "(c @ q) ! (length c + j) = p ! (i + j)" if "i + j < length p" for j
    using that by (simp add: assms(3) i(3) nth_append)
  have q: "(c @ q) ! (length c + j) = q ! j" for j by (simp add: nth_append)
  have "p ! i = 60" using txt_at [of 0] q [of 0] i marker_hd [OF assms(2)] by simp
  then have "i \<le> 2" using marker_nth [OF assms(1) i(2)] by simp
  then have j: "i + (3 - i) = 3" "3 - i \<le> 2" using i by simp_all
  then have "p ! 3 = q ! (3 - i)" using txt_at [of "3 - i"] q [of "3 - i"] marker_length [OF assms(1)] by simp
  then show False
    using j marker_nth [OF assms(1), of 3] marker_nth [OF assms(2), of "3 - i"]
      marker_length [OF assms(1)] marker_length [OF assms(2)] by simp
qed

text \<open>In a text \<open>h @ c @ q\<close> an occurrence of a marker is the head, lies inside \<open>c\<close>, or is at the tail.\<close>

lemma marker_occurrence:
  assumes m: "marker p" "marker h" "marker q" and eq: "h @ c @ q = xs @ p @ ys"
  shows "xs = [] \<or> sublist p c \<or> xs = h @ c"
proof (cases "length xs < length h")
  case True
  then show ?thesis using marker_start [OF m(1,2), of "c @ q" xs ys] eq by simp
next
  case False
  then obtain zs where xs: "xs = h @ zs" and zs: "c @ q = zs @ p @ ys"
    using eq by (metis append_eq_append_conv_if append_take_drop_id leI le_eq_less_or_eq append_assoc same_append_eq)
  show ?thesis
  proof (cases "length zs < length c")
    case True
    then have "length (zs @ p) \<le> length c" by (rule marker_no_straddle [OF m(1,3) zs])
    then obtain us where "c = zs @ p @ us"
      using zs by (metis append.assoc append_eq_append_conv_if append_take_drop_id)
    then show ?thesis by (auto simp: sublist_def)
  next
    case False
    then obtain vs where "zs = c @ vs" "q = vs @ p @ ys"
      using zs by (metis append_eq_append_conv_if append_take_drop_id leI same_append_eq append_assoc)
    moreover from this have "vs = []"
      using marker_start [OF m(1,3), of "[]" vs ys] marker_length [OF m(1)] by fastforce
    ultimately show ?thesis by (simp add: xs)
  qed
qed

section \<open>What the boundary gives\<close>

lemma lit_simps [simp]: "lit [] = []" "lit (c # cs) = byte_of c # lit cs" "lit (s @ t) = lit s @ lit t"
  by (simp_all add: lit_def)

lemma wrap_delimiters: "wrap b kind content = open_delimiter b kind @ sanitize content @ close_delimiter b"
  by (simp add: wrap_def open_delimiter_def close_delimiter_def)

lemma of_char_lt: "(of_char c :: nat) = 60 \<longleftrightarrow> c = CHR ''<''"
proof -
  have "of_char (CHR ''<'') = (60 :: nat)" by simp
  then show ?thesis by (metis of_char_eq_iff)
qed

lemma open_delimiter_marker: "60 \<notin> set (bd_nonce b) \<Longrightarrow> CHR ''<'' \<notin> set kind \<Longrightarrow> marker (open_delimiter b kind)"
  by (auto simp: marker_def open_delimiter_def lit_def byte_of_def of_char_lt)

lemma close_delimiter_marker: "60 \<notin> set (bd_nonce b) \<Longrightarrow> marker (close_delimiter b)"
  by (auto simp: marker_def close_delimiter_def byte_of_def)

lemma nonce_in_delimiters: "sublist (bd_nonce b) (open_delimiter b kind)" "sublist (bd_nonce b) (close_delimiter b)"
  unfolding open_delimiter_def close_delimiter_def sublist_def by (metis append_assoc)+

lemma hex_digit_no_bracket: "n < 16 \<Longrightarrow> byte_of (hex_digit n) \<noteq> 60"
  by (auto simp: hex_digit_def byte_of_def)

lemma hex_byte_no_bracket: "c \<in> set (hex_byte b) \<Longrightarrow> byte_of c \<noteq> 60"
  using hex_digit_no_bracket [of "byte_of b div 16"] hex_digit_no_bracket [of "byte_of b mod 16"]
  by (auto simp: hex_byte_def byte_of_def less_mult_imp_div_less)

lemma boundary_new_nonce: "length (bd_nonce (boundary_new random)) = 24" "60 \<notin> set (bd_nonce (boundary_new random))"
proof -
  show "length (bd_nonce (boundary_new random)) = 24"
    by (simp add: boundary_new_def lit_def length_hex_bytes)
  show "60 \<notin> set (bd_nonce (boundary_new random))"
    using hex_byte_no_bracket by (fastforce simp: boundary_new_def lit_def hex_bytes_def)
qed



text \<open>
  Without the nonce the removal alone is no protection: a delimiter reappears when the removal of
  one inside it, or of a control character, joins its parts.
\<close>

lemma sanitize_reassembles:
  "sanitize (lit ''<<<unt<<<untrusted:rusted:'') = lit ''<<<untrusted:''"
  "sanitize (lit ''<<</untrus'' @ [1] @ lit ''ted:'') = lit ''<<</untrusted:''"
  by (simp_all add: sanitize_def remove_all.simps byte_of_def is_control_def)

lemma sanitize_no_control: "c \<in> set (sanitize content) \<Longrightarrow> \<not> is_control c \<or> c = 10 \<or> c = 9"
  by (auto simp: sanitize_def)

end
