(* ===== verification/Redmine_Model.thy ===== *)
theory Redmine_Model
  imports Redmine_Ids Json
begin

text \<open>
  The models of the Redmine API that the tools read and write (\<^verbatim>\<open>redmine-client/src/model\<close>). Dates and
  times are kept in the text form in which they are printed, an \<^verbatim>\<open>f64\<close> is a rational. The encoding of
  a payload and the decoding of an answer are serde's, except for the two types with a hand-written
  implementation, whose JSON forms are defined here.
\<close>

section \<open>Field updates and custom field values\<close>

datatype 'a field_update = Unchanged | Clear | SetTo 'a

definition from_option :: "'a option \<Rightarrow> 'a field_update" where
  "from_option v = (case v of Some x \<Rightarrow> SetTo x | None \<Rightarrow> Unchanged)"

text \<open>The result \<open>None\<close> is the error of the serializer.\<close>

fun field_update_json :: "('a \<Rightarrow> json) \<Rightarrow> 'a field_update \<Rightarrow> json option" where
  "field_update_json enc Unchanged = None"
| "field_update_json enc Clear = Some (JStr [])"
| "field_update_json enc (SetTo v) = Some (enc v)"

datatype cf_value = CfSingle "string option" | CfMultiple "string list"

fun custom_field_value_json :: "cf_value \<Rightarrow> json" where
  "custom_field_value_json (CfSingle (Some s)) = JStr s"
| "custom_field_value_json (CfSingle None) = JNull"
| "custom_field_value_json (CfMultiple vs) = JArr (map JStr vs)"

fun collect_strings :: "json list \<Rightarrow> string list option" where
  "collect_strings [] = Some []"
| "collect_strings (JStr s # js) = map_option (\<lambda>ss. s # ss) (collect_strings js)"
| "collect_strings (JNull # js) = collect_strings js"
| "collect_strings (_ # js) = None"

fun custom_field_value_from_json :: "json \<Rightarrow> cf_value option" where
  "custom_field_value_from_json JNull = Some (CfSingle None)"
| "custom_field_value_from_json (JStr s) = Some (CfSingle (Some s))"
| "custom_field_value_from_json (JArr js) = map_option CfMultiple (collect_strings js)"
| "custom_field_value_from_json _ = None"

lemma collect_strings_map [simp]: "collect_strings (map JStr ss) = Some ss"
  by (induction ss) simp_all

text \<open>A value that is written reads back as itself.\<close>

lemma custom_field_value_roundtrip: "custom_field_value_from_json (custom_field_value_json v) = Some v"
  by (cases v rule: custom_field_value_json.cases) simp_all

section \<open>Answers\<close>

record id_name =
  idn_id :: nat
  idn_name :: string

record custom_field =
  cfd_id :: nat
  cfd_name :: string
  cfd_value :: "cf_value option"

record custom_field_definition =
  cdf_id :: nat
  cdf_name :: string
  cdf_description :: "string option"
  cdf_field_format :: string
  cdf_is_required :: "bool option"
  cdf_multiple :: "bool option"
  cdf_default_value :: "string option"
  cdf_possible_values :: "string list option"
  cdf_customized_type :: "string option"
  cdf_is_for_all :: "bool option"
  cdf_projects :: "id_name list option"
  cdf_trackers :: "id_name list option"
  cdf_roles :: "id_name list option"

record journal =
  jr_id :: nat
  jr_user :: "id_name option"
  jr_notes :: "string option"
  jr_created_on :: string
  jr_updated_on :: "string option"
  jr_updated_by :: "id_name option"
  jr_private_notes :: "bool option"

record attachment =
  at_id :: nat
  at_filename :: string
  at_filesize :: nat
  at_content_type :: "string option"
  at_description :: "string option"
  at_content_url :: string
  at_author :: "id_name option"
  at_created_on :: string
  at_digest :: "string option"
  at_downloads :: "nat option"
  at_version :: "id_name option"

record issue_relation =
  irl_id :: nat
  irl_issue_id :: nat
  irl_issue_to_id :: nat
  irl_relation_type :: string
  irl_delay :: "int option"

record issue_child_leaf =
  icl_id :: nat
  icl_tracker :: "id_name option"
  icl_subject :: string

record issue_child =
  ich_id :: nat
  ich_tracker :: "id_name option"
  ich_subject :: string
  ich_children :: "issue_child_leaf list option"

record issue_tag =
  itg_id :: "nat option"
  itg_name :: string

record allowed_status =
  als_id :: nat
  als_name :: string
  als_is_closed :: "bool option"

record issue =
  isu_id :: nat
  isu_project :: id_name
  isu_tracker :: id_name
  isu_status :: id_name
  isu_priority :: id_name
  isu_author :: id_name
  isu_assigned_to :: "id_name option"
  isu_parent :: "nat option"
  isu_category :: "id_name option"
  isu_fixed_version :: "id_name option"
  isu_subject :: string
  isu_description :: "string option"
  isu_done_ratio :: "nat option"
  isu_is_private :: "bool option"
  isu_estimated_hours :: "rat option"
  isu_spent_hours :: "rat option"
  isu_start_date :: "string option"
  isu_due_date :: "string option"
  isu_created_on :: string
  isu_updated_on :: string
  isu_closed_on :: "string option"
  isu_custom_fields :: "custom_field list option"
  isu_journals :: "journal list option"
  isu_attachments :: "attachment list option"
  isu_relations :: "issue_relation list option"
  isu_watchers :: "id_name list option"
  isu_children :: "issue_child list option"
  isu_tags :: "issue_tag list option"
  isu_allowed_statuses :: "allowed_status list option"

record agile_data =
  agd_id :: "nat option"
  agd_story_points :: "nat option"
  agd_sprint_id :: "nat option"
  agd_position :: "nat option"

definition agile_data_default :: agile_data where
  "agile_data_default = \<lparr>agd_id = None, agd_story_points = None, agd_sprint_id = None, agd_position = None\<rparr>"

record issue_category =
  icat_id :: nat
  icat_project :: "id_name option"
  icat_name :: string
  icat_assigned_to :: "id_name option"

record upload =
  upl_id :: nat
  upl_token :: string

record search_result =
  srs_id :: nat
  srs_title :: string
  srs_kind :: string
  srs_url :: string
  srs_description :: "string option"
  srs_datetime :: string

record project =
  prj_id :: nat
  prj_name :: string
  prj_identifier :: string
  prj_description :: "string option"
  prj_status :: "nat option"
  prj_is_public :: "bool option"
  prj_parent :: "id_name option"
  prj_created_on :: string
  prj_updated_on :: string
  prj_custom_fields :: "custom_field list option"
  prj_trackers :: "id_name list option"
  prj_enabled_modules :: "id_name list option"
  prj_time_entry_activities :: "id_name list option"
  prj_issue_custom_fields :: "id_name list option"

record time_entry =
  ten_id :: nat
  ten_project :: id_name
  ten_issue :: "nat option"
  ten_user :: id_name
  ten_activity :: id_name
  ten_hours :: rat
  ten_comments :: "string option"
  ten_spent_on :: string
  ten_created_on :: string
  ten_updated_on :: string

record enumeration =
  enu_id :: nat
  enu_name :: string
  enu_is_default :: "bool option"
  enu_active :: "bool option"

record tracker =
  trk_id :: nat
  trk_name :: string
  trk_description :: "string option"
  trk_default_status :: "id_name option"
  trk_enabled_standard_fields :: "string list option"

record issue_status =
  ist_id :: nat
  ist_name :: string
  ist_is_closed :: "bool option"
  ist_description :: "string option"

record redmine_user =
  usr_id :: nat
  usr_login :: "string option"
  usr_firstname :: string
  usr_lastname :: string
  usr_mail :: "string option"
  usr_created_on :: string
  usr_last_login_on :: "string option"
  usr_custom_fields :: "custom_field list option"
  usr_admin :: "bool option"

record saved_query =
  sqy_id :: nat
  sqy_name :: string
  sqy_is_public :: "bool option"
  sqy_project_id :: "nat option"

record project_version =
  vsn_id :: nat
  vsn_project :: id_name
  vsn_name :: string
  vsn_description :: "string option"
  vsn_status :: string
  vsn_due_date :: "string option"
  vsn_sharing :: "string option"
  vsn_created_on :: string
  vsn_updated_on :: string

record membership =
  mbs_id :: nat
  mbs_project :: "id_name option"
  mbs_user :: "id_name option"
  mbs_group :: "id_name option"
  mbs_roles :: "id_name list"

record role =
  rol_id :: nat
  rol_name :: string

text \<open>The title of a page is the one field that is checked character by character.\<close>

record wiki_page =
  wkp_title :: string
  wkp_text :: "string option"
  wkp_version :: nat
  wkp_author :: "id_name option"
  wkp_comments :: "string option"
  wkp_parent :: "string option"
  wkp_project :: "id_name option"
  wkp_created_on :: string
  wkp_updated_on :: "string option"
  wkp_attachments :: "attachment list option"

record wiki_page_list_item =
  wli_title :: string
  wli_parent :: "string option"
  wli_version :: nat
  wli_project :: "id_name option"
  wli_created_on :: string
  wli_updated_on :: "string option"

section \<open>Payloads\<close>

record custom_field_write =
  cfw_id :: nat
  cfw_value :: cf_value

record upload_ref =
  upr_token :: string
  upr_description :: "string option"

record issue_create =
  icr_project_id :: project_ident
  icr_subject :: string
  icr_tracker_id :: "nat option"
  icr_status_id :: "nat option"
  icr_priority_id :: "nat option"
  icr_category_id :: "nat option"
  icr_fixed_version_id :: "nat option"
  icr_description :: "string option"
  icr_assigned_to_id :: "nat option"
  icr_parent_issue_id :: "nat option"
  icr_start_date :: "string option"
  icr_due_date :: "string option"
  icr_done_ratio :: "nat option"
  icr_estimated_hours :: "rat option"
  icr_is_private :: "bool option"
  icr_uploads :: "upload_ref list"
  icr_tag_list :: "string list option"
  icr_custom_fields :: "custom_field_write list option"

record issue_update =
  iup_subject :: "string option"
  iup_description :: "string option"
  iup_tracker_id :: "nat option"
  iup_status_id :: "nat option"
  iup_priority_id :: "nat option"
  iup_category_id :: "nat field_update"
  iup_fixed_version_id :: "nat field_update"
  iup_assigned_to_id :: "nat field_update"
  iup_parent_issue_id :: "nat field_update"
  iup_start_date :: "string field_update"
  iup_due_date :: "string field_update"
  iup_done_ratio :: "nat option"
  iup_estimated_hours :: "rat field_update"
  iup_is_private :: "bool option"
  iup_notes :: "string option"
  iup_private_notes :: "bool option"
  iup_uploads :: "upload_ref list"
  iup_tag_list :: "string list option"
  iup_custom_fields :: "custom_field_write list option"

record agile_change =
  agc_story_points :: "nat option option"
  agc_sprint_id :: "nat option"
  agc_position :: "nat option"

record agile_data_attributes =
  aga_id :: "nat option"
  aga_story_points :: "nat option option"
  aga_sprint_id :: "nat option"
  aga_position :: "nat option"

definition merge_over :: "agile_data option \<Rightarrow> agile_change \<Rightarrow> agile_data_attributes" where
  "merge_over current requested =
     (let carried = (\<lambda>f. case current of Some c \<Rightarrow> f c | None \<Rightarrow> None)
      in \<lparr>aga_id = carried agd_id,
          aga_story_points =
            (case agc_story_points requested of Some sp \<Rightarrow> Some sp | None \<Rightarrow> map_option Some (carried agd_story_points)),
          aga_sprint_id = (case agc_sprint_id requested of Some s \<Rightarrow> Some s | None \<Rightarrow> carried agd_sprint_id),
          aga_position = (case agc_position requested of Some p \<Rightarrow> Some p | None \<Rightarrow> carried agd_position)\<rparr>)"

record relation_create =
  rlc_issue_to_id :: nat
  rlc_relation_type :: "string option"
  rlc_delay :: "int option"

record journal_update =
  jru_notes :: "string option"
  jru_private_notes :: "bool option"

record time_entry_create =
  tec_issue_id :: "nat option"
  tec_project_id :: "project_ident option"
  tec_spent_on :: "string option"
  tec_hours :: rat
  tec_activity_id :: "nat option"
  tec_comments :: "string option"
  tec_user_id :: "nat option"

record time_entry_update =
  teu_hours :: "rat option"
  teu_activity_id :: "nat option"
  teu_comments :: "string option"
  teu_spent_on :: "string option"

datatype version_status = VersionOpen | VersionLocked | VersionClosed

datatype sharing_mode = SharingNone | SharingDescendants | SharingHierarchy | SharingTree | SharingSystem

record version_write =
  vwr_name :: "string option"
  vwr_description :: "string option"
  vwr_status :: "version_status option"
  vwr_due_date :: "string option"
  vwr_sharing :: "sharing_mode option"
  vwr_wiki_page_title :: "string option"

record membership_create =
  mbc_user_id :: nat
  mbc_role_ids :: "nat list"

record membership_update =
  mbu_role_ids :: "nat list"

record wiki_page_write =
  wpw_text :: string
  wpw_comments :: "string option"
  wpw_title :: "string option"
  wpw_redirect_existing_links :: "string option"

record project_file_create =
  pfc_token :: string
  pfc_filename :: "string option"
  pfc_content_type :: "string option"
  pfc_description :: "string option"
  pfc_version_id :: "nat option"

record category_create =
  cgc_name :: string
  cgc_assigned_to_id :: "nat option"

record category_update =
  cgu_name :: "string option"
  cgu_assigned_to_id :: "nat option"

end
