(* ===== verification/Plugin_Model.thy ===== *)
theory Plugin_Model
  imports Redmine_Model Config
begin

text \<open>
  The models of the four plugins (\<^verbatim>\<open>redmine-client/src/model/plugins\<close>): checklists, products, contacts and
  documents. Two of the answers have a form that varies; their hand-written readers are defined here
  on JSON values, over the reader of one item. A document is read from its revisions, the last of which
  is the newest.
\<close>

section \<open>Checklists\<close>

record checklist_item =
  cki_id :: nat
  cki_subject :: string
  cki_is_done :: "bool option"
  cki_is_section :: "bool option"
  cki_position :: "nat option"
  cki_created_at :: "string option"
  cki_updated_at :: "string option"

record checklist_item_create =
  ckc_subject :: string
  ckc_is_section :: "bool option"
  ckc_is_done :: "bool option"
  ckc_position :: "nat option"

record checklist_item_update =
  cku_subject :: "string option"
  cku_is_done :: "bool option"
  cku_position :: "nat option"

fun collect_items :: "(json \<Rightarrow> 'a option) \<Rightarrow> json list \<Rightarrow> 'a list option" where
  "collect_items item [] = Some []"
| "collect_items item (j # js) =
     (case item j of None \<Rightarrow> None | Some x \<Rightarrow> map_option (\<lambda>xs. x # xs) (collect_items item js))"

text \<open>An array of items, or an object that holds one under \<^verbatim>\<open>checklists\<close>.\<close>

fun checklist_items_envelope :: "(json \<Rightarrow> 'a option) \<Rightarrow> json \<Rightarrow> 'a list option" where
  "checklist_items_envelope item (JArr js) = collect_items item js"
| "checklist_items_envelope item (JObj m) =
     (case map_of m ''checklists'' of Some (JArr js) \<Rightarrow> collect_items item js | _ \<Rightarrow> None)"
| "checklist_items_envelope item _ = None"

definition json_get :: "json \<Rightarrow> string \<Rightarrow> json option" where
  "json_get j k = (case j of JObj m \<Rightarrow> map_of m k | _ \<Rightarrow> None)"

fun as_u64 :: "json \<Rightarrow> nat option" where
  "as_u64 (JInt i) = (if 0 \<le> i \<and> i < 2 ^ 64 then Some (nat i) else None)"
| "as_u64 _ = None"

text \<open>The id of a new item: the one in the envelope if there is any, else the one beside it.\<close>

definition checklist_item_created :: "json \<Rightarrow> nat option" where
  "checklist_item_created j =
     (case (case json_get j ''checklist'' of Some c \<Rightarrow> json_get c ''id'' | None \<Rightarrow> None) of
        Some v \<Rightarrow> as_u64 v
      | None \<Rightarrow> (case json_get j ''id'' of Some v \<Rightarrow> as_u64 v | None \<Rightarrow> None))"

section \<open>Products\<close>

record product =
  pdt_id :: nat
  pdt_name :: string
  pdt_description :: "string option"
  pdt_code :: "string option"
  pdt_price :: "rat option"
  pdt_currency :: "string option"
  pdt_status_id :: "nat option"
  pdt_category_id :: "nat option"
  pdt_project_id :: "nat option"
  pdt_tag_list :: "string list option"
  pdt_custom_fields :: "custom_field list option"
  pdt_created_on :: "string option"
  pdt_updated_on :: "string option"

record product_write =
  pdw_name :: "string option"
  pdw_description :: "string option"
  pdw_code :: "string option"
  pdw_price :: "rat option"
  pdw_currency :: "string option"
  pdw_status_id :: "nat option"
  pdw_category_id :: "nat option"
  pdw_project_id :: "nat option"
  pdw_tag_list :: "string list option"
  pdw_custom_fields :: "custom_field_write list option"

section \<open>Contacts\<close>

record contact_address =
  cad_street1 :: "string option"
  cad_street2 :: "string option"
  cad_city :: "string option"
  cad_region :: "string option"
  cad_country :: "string option"
  cad_postcode :: "string option"

record contact_address_write =
  caw_street1 :: "string option"
  caw_street2 :: "string option"
  caw_city :: "string option"
  caw_region :: "string option"
  caw_country :: "string option"
  caw_postcode :: "string option"

record contact =
  cnt_id :: nat
  cnt_first_name :: "string option"
  cnt_last_name :: "string option"
  cnt_middle_name :: "string option"
  cnt_company :: "string option"
  cnt_job_title :: "string option"
  cnt_phone :: "string option"
  cnt_email :: "string option"
  cnt_website :: "string option"
  cnt_skype_name :: "string option"
  cnt_birthday :: "string option"
  cnt_background :: "string option"
  cnt_address :: "contact_address option"
  cnt_is_company :: "bool option"
  cnt_tags :: "string list option"
  cnt_visibility :: "nat option"
  cnt_assigned_to :: "id_name option"
  cnt_created_on :: "string option"
  cnt_updated_on :: "string option"

record contact_write =
  cnw_first_name :: "string option"
  cnw_last_name :: "string option"
  cnw_middle_name :: "string option"
  cnw_company :: "string option"
  cnw_job_title :: "string option"
  cnw_phone :: "string option"
  cnw_email :: "string option"
  cnw_website :: "string option"
  cnw_skype_name :: "string option"
  cnw_birthday :: "string option"
  cnw_background :: "string option"
  cnw_address_attributes :: "contact_address_write option"
  cnw_is_company :: "bool option"
  cnw_visibility :: "nat option"
  cnw_assigned_to_id :: "nat option"
  cnw_project_id :: "project_ident option"

section \<open>Documents\<close>

record dmsf_node =
  dmn_id :: nat
  dmn_kind :: "string option"
  dmn_filename :: "string option"
  dmn_title :: "string option"
  dmn_name :: "string option"
  dmn_description :: "string option"
  dmn_version :: "string option"
  dmn_size :: "nat option"
  dmn_content_type :: "string option"
  dmn_folder_id :: "nat option"
  dmn_project_id :: "nat option"
  dmn_author :: "id_name option"
  dmn_created_on :: "string option"
  dmn_updated_on :: "string option"

text \<open>
  The listing is an array of nodes or the envelope \<^verbatim>\<open>{dmsf: {dmsf_nodes: [...]}}\<close>, which may carry a total;
  the result is the nodes and this total.
\<close>

definition dmsf_list_inner :: "(json \<Rightarrow> 'a option) \<Rightarrow> json_object \<Rightarrow> ('a list \<times> nat option) option" where
  "dmsf_list_inner node inner =
     (case map_of inner ''dmsf_nodes'' of
        Some (JArr js) \<Rightarrow>
          (case collect_items node js of
             None \<Rightarrow> None
           | Some nodes \<Rightarrow>
               (case map_of inner ''total_count'' of
                  None \<Rightarrow> Some (nodes, None)
                | Some JNull \<Rightarrow> Some (nodes, None)
                | Some v \<Rightarrow> map_option (\<lambda>t. (nodes, Some t)) (as_u64 v)))
      | _ \<Rightarrow> None)"

fun dmsf_list_envelope :: "(json \<Rightarrow> 'a option) \<Rightarrow> json \<Rightarrow> ('a list \<times> nat option) option" where
  "dmsf_list_envelope node (JArr js) = map_option (\<lambda>xs. (xs, None)) (collect_items node js)"
| "dmsf_list_envelope node (JObj m) =
     (case map_of m ''dmsf'' of Some (JObj inner) \<Rightarrow> dmsf_list_inner node inner | _ \<Rightarrow> None)"
| "dmsf_list_envelope node _ = None"

record dmsf_file_revision_raw =
  drv_title :: "string option"
  drv_name :: "string option"
  drv_description :: "string option"
  drv_size :: "nat option"
  drv_content_type :: "string option"
  drv_version_major :: "nat option"
  drv_version_minor :: "nat option"
  drv_version_patch :: "nat option"
  drv_author :: "id_name option"
  drv_created_at :: "string option"
  drv_updated_at :: "string option"

record dmsf_file_show =
  dfs_id :: nat
  dfs_project_id :: "nat option"
  dfs_folder_id :: "nat option"
  dfs_revisions :: "dmsf_file_revision_raw list"

definition revision_version :: "dmsf_file_revision_raw \<Rightarrow> string option" where
  "revision_version v =
     (let part = (\<lambda>x. nat_str (case x of Some n \<Rightarrow> n | None \<Rightarrow> 0))
      in if drv_version_major v \<noteq> None \<or> drv_version_minor v \<noteq> None \<or> drv_version_patch v \<noteq> None
         then Some (part (drv_version_major v) @ ''.'' @ part (drv_version_minor v) @ ''.'' @ part (drv_version_patch v))
         else None)"

definition into_node :: "dmsf_file_show \<Rightarrow> dmsf_node option" where
  "into_node show =
     (if dfs_revisions show = [] then None
      else
        (let latest = last (dfs_revisions show)
         in Some \<lparr>dmn_id = dfs_id show, dmn_kind = Some ''file'', dmn_filename = drv_name latest, dmn_title = drv_title latest,
                  dmn_name = drv_name latest, dmn_description = drv_description latest, dmn_version = revision_version latest,
                  dmn_size = drv_size latest, dmn_content_type = drv_content_type latest, dmn_folder_id = dfs_folder_id show,
                  dmn_project_id = dfs_project_id show, dmn_author = drv_author latest,
                  dmn_created_on = drv_created_at latest, dmn_updated_on = drv_updated_at latest\<rparr>))"

record dmsf_uploaded_file =
  duf_token :: string
  duf_name :: string
  duf_title :: "string option"
  duf_description :: "string option"
  duf_comment :: "string option"
  duf_version_major :: "nat option"
  duf_version_minor :: "nat option"
  duf_version_patch :: "nat option"
  duf_custom_field_values :: "custom_field_write list option"

record dmsf_commit_request =
  dcr_uploaded_file :: dmsf_uploaded_file
  dcr_folder_id :: "nat option"

record dmsf_commit_file =
  dcf_id :: nat
  dcf_name :: "string option"

definition into_nodes :: "dmsf_commit_file list \<Rightarrow> dmsf_node list" where
  "into_nodes files =
     map (\<lambda>f. \<lparr>dmn_id = dcf_id f, dmn_kind = Some ''file'', dmn_filename = dcf_name f, dmn_title = None,
                dmn_name = dcf_name f, dmn_description = None, dmn_version = None, dmn_size = None,
                dmn_content_type = None, dmn_folder_id = None, dmn_project_id = None, dmn_author = None,
                dmn_created_on = None, dmn_updated_on = None\<rparr>) files"

record dmsf_revision_write =
  drw_title :: string
  drw_name :: string
  drw_description :: "string option"
  drw_comment :: "string option"
  drw_custom_field_values :: "custom_field_write list option"

record dmsf_version =
  dvn_major :: nat
  dvn_minor :: nat
  dvn_patch :: nat

text \<open>At most three parts, each a 32-bit number; the parts that are left out are zero.\<close>

fun parse_parts :: "string list \<Rightarrow> nat list option" where
  "parse_parts [] = Some []"
| "parse_parts (p # ps) =
     (case parse_u32 p of None \<Rightarrow> None | Some n \<Rightarrow> map_option (\<lambda>ns. n # ns) (parse_parts ps))"

definition dmsf_version_from_str :: "string \<Rightarrow> dmsf_version option" where
  "dmsf_version_from_str s =
     (if s = [] then None
      else
        (let parts = split_char (CHR ''.'') [] s
         in if length parts > 3 then None
            else
              (case parse_parts parts of
                 None \<Rightarrow> None
               | Some ns \<Rightarrow>
                   (let nums = ns @ replicate (3 - length ns) 0
                    in Some \<lparr>dvn_major = nums ! 0, dvn_minor = nums ! 1, dvn_patch = nums ! 2\<rparr>))))"

end
