(* ===== verification/Tool_Session.thy ===== *)
theory Tool_Session
  imports Render Plugin_Model Rest_Api Output_Caps
begin

text \<open>
  How a tool talks to Redmine. A tool is a program: it ends with a result, or it performs an
  operation of the REST surface and goes on with the answer. The programs make the order and the
  number of operations explicit, whatever Redmine answers; \<open>run\<close> executes one against a server that
  may answer by the whole history. An answer that has not the expected form is a decode error.
\<close>

section \<open>Programs\<close>

datatype payload =
    PIssueCreate issue_create
  | PIssueUpdate issue_update
  | PAgile agile_data_attributes
  | PRelation relation_create
  | PJournal journal_update
  | PCategoryCreate category_create
  | PCategoryUpdate category_update
  | PBytes string
  | PUserId nat
  | PTimeEntryCreate time_entry_create
  | PTimeEntryUpdate time_entry_update
  | PVersion version_write
  | PMembershipCreate membership_create
  | PMembershipUpdate membership_update
  | PWikiPage wiki_page_write
  | PProjectFile project_file_create
  | PChecklistCreate checklist_item_create
  | PChecklistUpdate checklist_item_update
  | PProduct product_write
  | PContact contact_write
  | PProjectAssoc project_ident
  | PDmsfCommit dmsf_commit_request
  | PDmsfRevision dmsf_revision_write

datatype answer =
    AUnit
  | AIssue issue
  | AIssues "issue list"
  | AIssuePage "issue page"
  | ASearchPage "search_result page"
  | AProject project
  | ADefinitions "custom_field_definition list"
  | AAgile "agile_data option"
  | ARelation issue_relation
  | ARelations "issue_relation list"
  | ACategory issue_category
  | ACategories "issue_category list"
  | AUpload upload
  | AAttachment attachment
  | ATimeEntry time_entry
  | ATimeEntryPage "time_entry page"
  | AEnumerations "enumeration list"
  | ATrackers "tracker list"
  | AStatuses "issue_status list"
  | AUser redmine_user
  | AUserPage "redmine_user page"
  | AQueryPage "saved_query page"
  | AProjectPage "project page"
  | AVersion project_version
  | AVersions "project_version list"
  | AMembership membership
  | AMembershipPage "membership page"
  | ARoles "role list"
  | AWikiPage wiki_page
  | AWikiPages "wiki_page_list_item list"
  | AFiles "attachment list"
  | AChecklist "checklist_item list"
  | AChecklistCreated "nat option"
  | AProduct product
  | AProductPage "product page"
  | AContact contact
  | AContactPage "contact page"
  | ADmsfPage "dmsf_node page"
  | ADmsfFile dmsf_file_show
  | ADmsfCommitted "dmsf_commit_file list"

type_synonym redmine_op = "payload rest_op"

datatype 'r prog = Done 'r | Call redmine_op "redmine_error + answer \<Rightarrow> 'r prog"

type_synonym redmine_server = "redmine_op list \<Rightarrow> redmine_op \<Rightarrow> redmine_error + answer"

text \<open>The result of a program and the operations it performed, in order, after those in \<open>h\<close>.\<close>

primrec run :: "'r prog \<Rightarrow> redmine_server \<Rightarrow> redmine_op list \<Rightarrow> 'r \<times> redmine_op list" where
  "run (Done r) S h = (r, h)"
| "run (Call op k) S h = run (k (S h op)) S (h @ [op])"

text \<open>The same with the answers: each operation that was performed with what Redmine said.\<close>

primrec run_log :: "'r prog \<Rightarrow> redmine_server \<Rightarrow> redmine_op list \<Rightarrow> (redmine_op \<times> (redmine_error + answer)) list" where
  "run_log (Done r) S h = []"
| "run_log (Call op k) S h = (op, S h op) # run_log (k (S h op)) S (h @ [op])"

definition decode_answer :: "(answer \<Rightarrow> 'a option) \<Rightarrow> redmine_error + answer \<Rightarrow> redmine_error + 'a" where
  "decode_answer dec r =
     (case r of
        Inl e \<Rightarrow> Inl e
      | Inr a \<Rightarrow> (case dec a of Some v \<Rightarrow> Inr v | None \<Rightarrow> Inl (EDecode ''response body'')))"

definition ask :: "(answer \<Rightarrow> 'a option) \<Rightarrow> redmine_op \<Rightarrow> (redmine_error + 'a \<Rightarrow> 'r prog) \<Rightarrow> 'r prog" where
  "ask dec op k = Call op (\<lambda>r. k (decode_answer dec r))"

section \<open>Reading answers\<close>

definition de_unit :: "answer \<Rightarrow> unit option" where
  "de_unit a = Some ()"

fun de_issue :: "answer \<Rightarrow> issue option" where
  "de_issue (AIssue i) = Some i"
| "de_issue _ = None"

fun de_issues :: "answer \<Rightarrow> issue list option" where
  "de_issues (AIssues xs) = Some xs"
| "de_issues _ = None"

fun de_issue_page :: "answer \<Rightarrow> issue page option" where
  "de_issue_page (AIssuePage pg) = Some pg"
| "de_issue_page _ = None"

fun de_search_page :: "answer \<Rightarrow> search_result page option" where
  "de_search_page (ASearchPage pg) = Some pg"
| "de_search_page _ = None"

fun de_project :: "answer \<Rightarrow> project option" where
  "de_project (AProject p) = Some p"
| "de_project _ = None"

fun de_definitions :: "answer \<Rightarrow> custom_field_definition list option" where
  "de_definitions (ADefinitions ds) = Some ds"
| "de_definitions _ = None"

fun de_agile :: "answer \<Rightarrow> agile_data option option" where
  "de_agile (AAgile a) = Some a"
| "de_agile _ = None"

fun de_relation :: "answer \<Rightarrow> issue_relation option" where
  "de_relation (ARelation r) = Some r"
| "de_relation _ = None"

fun de_relations :: "answer \<Rightarrow> issue_relation list option" where
  "de_relations (ARelations rs) = Some rs"
| "de_relations _ = None"

fun de_category :: "answer \<Rightarrow> issue_category option" where
  "de_category (ACategory c) = Some c"
| "de_category _ = None"

fun de_categories :: "answer \<Rightarrow> issue_category list option" where
  "de_categories (ACategories cs) = Some cs"
| "de_categories _ = None"

fun de_upload :: "answer \<Rightarrow> upload option" where
  "de_upload (AUpload u) = Some u"
| "de_upload _ = None"

fun de_attachment :: "answer \<Rightarrow> attachment option" where
  "de_attachment (AAttachment a) = Some a"
| "de_attachment _ = None"

fun de_time_entry :: "answer \<Rightarrow> time_entry option" where
  "de_time_entry (ATimeEntry v) = Some v"
| "de_time_entry _ = None"

fun de_time_entry_page :: "answer \<Rightarrow> time_entry page option" where
  "de_time_entry_page (ATimeEntryPage v) = Some v"
| "de_time_entry_page _ = None"

fun de_enumerations :: "answer \<Rightarrow> enumeration list option" where
  "de_enumerations (AEnumerations v) = Some v"
| "de_enumerations _ = None"

fun de_trackers :: "answer \<Rightarrow> tracker list option" where
  "de_trackers (ATrackers v) = Some v"
| "de_trackers _ = None"

fun de_statuses :: "answer \<Rightarrow> issue_status list option" where
  "de_statuses (AStatuses v) = Some v"
| "de_statuses _ = None"

fun de_user :: "answer \<Rightarrow> redmine_user option" where
  "de_user (AUser v) = Some v"
| "de_user _ = None"

fun de_user_page :: "answer \<Rightarrow> redmine_user page option" where
  "de_user_page (AUserPage v) = Some v"
| "de_user_page _ = None"

fun de_query_page :: "answer \<Rightarrow> saved_query page option" where
  "de_query_page (AQueryPage v) = Some v"
| "de_query_page _ = None"

fun de_project_page :: "answer \<Rightarrow> project page option" where
  "de_project_page (AProjectPage v) = Some v"
| "de_project_page _ = None"

fun de_version :: "answer \<Rightarrow> project_version option" where
  "de_version (AVersion v) = Some v"
| "de_version _ = None"

fun de_versions :: "answer \<Rightarrow> project_version list option" where
  "de_versions (AVersions v) = Some v"
| "de_versions _ = None"

fun de_membership :: "answer \<Rightarrow> membership option" where
  "de_membership (AMembership v) = Some v"
| "de_membership _ = None"

fun de_membership_page :: "answer \<Rightarrow> membership page option" where
  "de_membership_page (AMembershipPage v) = Some v"
| "de_membership_page _ = None"

fun de_roles :: "answer \<Rightarrow> role list option" where
  "de_roles (ARoles v) = Some v"
| "de_roles _ = None"

fun de_wiki_page :: "answer \<Rightarrow> wiki_page option" where
  "de_wiki_page (AWikiPage v) = Some v"
| "de_wiki_page _ = None"

fun de_wiki_pages :: "answer \<Rightarrow> wiki_page_list_item list option" where
  "de_wiki_pages (AWikiPages v) = Some v"
| "de_wiki_pages _ = None"

fun de_files :: "answer \<Rightarrow> attachment list option" where
  "de_files (AFiles v) = Some v"
| "de_files _ = None"

fun de_checklist :: "answer \<Rightarrow> checklist_item list option" where
  "de_checklist (AChecklist v) = Some v"
| "de_checklist _ = None"

fun de_checklist_created :: "answer \<Rightarrow> nat option option" where
  "de_checklist_created (AChecklistCreated v) = Some v"
| "de_checklist_created _ = None"

fun de_product :: "answer \<Rightarrow> product option" where
  "de_product (AProduct v) = Some v"
| "de_product _ = None"

fun de_product_page :: "answer \<Rightarrow> product page option" where
  "de_product_page (AProductPage v) = Some v"
| "de_product_page _ = None"

fun de_contact :: "answer \<Rightarrow> contact option" where
  "de_contact (AContact v) = Some v"
| "de_contact _ = None"

fun de_contact_page :: "answer \<Rightarrow> contact page option" where
  "de_contact_page (AContactPage v) = Some v"
| "de_contact_page _ = None"

fun de_dmsf_page :: "answer \<Rightarrow> dmsf_node page option" where
  "de_dmsf_page (ADmsfPage v) = Some v"
| "de_dmsf_page _ = None"

fun de_dmsf_file :: "answer \<Rightarrow> dmsf_node option option" where
  "de_dmsf_file (ADmsfFile v) = Some (into_node v)"
| "de_dmsf_file _ = None"

fun de_dmsf_committed :: "answer \<Rightarrow> dmsf_node list option" where
  "de_dmsf_committed (ADmsfCommitted v) = Some (into_nodes v)"
| "de_dmsf_committed _ = None"

section \<open>Tools\<close>

type_synonym tool_result = "mcp_error + call_tool_result"

text \<open>
  The parts of the Unicode database the names of fields are compared with: the characters of a string,
  which of them are alphanumeric, and their lower case.
\<close>

record unicode =
  uc_chars :: "string \<Rightarrow> ustr"
  uc_alphanumeric :: "nat \<Rightarrow> bool"
  uc_lowercase :: "nat \<Rightarrow> ustr"

text \<open>
  What a handler sees: the configuration, the credential of the call or why there is none, the
  random bytes for the boundary of this response, and the texts of numbers, of status codes and of a
  URL with its path, query and fragment replaced.
\<close>

record tool_env =
  te_config :: config
  te_scoped :: "mcp_error + credential"
  te_random :: "nat \<Rightarrow> char"
  te_float :: "rat \<Rightarrow> string"
  te_status :: "nat \<Rightarrow> string"
  te_unicode :: unicode
  te_url :: "string \<Rightarrow> url_q option"
  te_url_with :: "url_q \<Rightarrow> string \<Rightarrow> string option \<Rightarrow> string option \<Rightarrow> string"

text \<open>Untrusted text in the boundary of this response; the characters of a string are found by its decoding.\<close>

definition te_wrap :: "tool_env \<Rightarrow> string \<Rightarrow> string \<Rightarrow> string" where
  "te_wrap E kind s =
     map char_of (utf8_bytes (wrap (boundary_new (te_random E)) kind (uc_chars (te_unicode E) s)))"

definition invalid_params :: "tool_result prog" where
  "invalid_params = Done (Inl InvalidParams)"

definition te_caps :: "tool_env \<Rightarrow> output_caps" where
  "te_caps E = \<lparr>oc_max_items = co_max_response_items (te_config E), oc_max_bytes = co_max_response_bytes (te_config E)\<rparr>"

definition ok_out :: "tool_env \<Rightarrow> json \<Rightarrow> tool_result prog" where
  "ok_out E out = Done (Inr (ok (te_float E) (te_caps E) out))"

definition err_out :: "error_code \<Rightarrow> string \<Rightarrow> string option \<Rightarrow> tool_result prog" where
  "err_out code message hint = Done (Inr (err code message hint))"

definition tool_error :: "tool_env \<Rightarrow> redmine_error \<Rightarrow> call_tool_result" where
  "tool_error E = to_tool_error (te_status E)"

definition or_fail :: "tool_env \<Rightarrow> redmine_error + 'a \<Rightarrow> ('a \<Rightarrow> tool_result prog) \<Rightarrow> tool_result prog" where
  "or_fail E r k = (case r of Inl e \<Rightarrow> Done (Inr (tool_error E e)) | Inr v \<Rightarrow> k v)"

definition with_scoped :: "tool_env \<Rightarrow> tool_result prog \<Rightarrow> tool_result prog" where
  "with_scoped E p = (case te_scoped E of Inl e \<Rightarrow> Done (Inl e) | Inr _ \<Rightarrow> p)"

definition or_invalid :: "mcp_error + 'a \<Rightarrow> ('a \<Rightarrow> tool_result prog) \<Rightarrow> tool_result prog" where
  "or_invalid r k = (case r of Inl e \<Rightarrow> Done (Inl e) | Inr v \<Rightarrow> k v)"

text \<open>A text that is empty after trimming, which goes by the Unicode characters of the text.\<close>

definition blank_text :: "tool_env \<Rightarrow> string \<Rightarrow> bool" where
  "blank_text E s \<longleftrightarrow> trim_ustr (uc_chars (te_unicode E) s) = []"

text \<open>A parameter that the action needs.\<close>

definition require :: "'a option \<Rightarrow> ('a \<Rightarrow> tool_result prog) \<Rightarrow> tool_result prog" where
  "require v k = (case v of Some x \<Rightarrow> k x | None \<Rightarrow> invalid_params)"

text \<open>\<^verbatim>\<open>Option::map\<close> followed by \<^verbatim>\<open>transpose\<close>.\<close>

definition transposed :: "('a \<Rightarrow> mcp_error + 'b) \<Rightarrow> 'a option \<Rightarrow> mcp_error + 'b option" where
  "transposed f v = (case v of None \<Rightarrow> Inr None | Some x \<Rightarrow> (case f x of Inl e \<Rightarrow> Inl e | Inr y \<Rightarrow> Inr (Some y)))"

datatype project_ref = RefId nat | RefIdentifier string

definition resolve_project_ref :: "project_ref \<Rightarrow> mcp_error + project_ident" where
  "resolve_project_ref r =
     (case r of
        RefId n \<Rightarrow> Inr (ProjectId n)
      | RefIdentifier s \<Rightarrow> (case project_identifier_from_str s of Inl _ \<Rightarrow> Inl InvalidParams | Inr v \<Rightarrow> Inr (Identifier v)))"

section \<open>What programs do\<close>

text \<open>Every operation a program can perform has the property, whatever the answers are.\<close>

primrec calls_ok :: "'r prog \<Rightarrow> (redmine_op \<Rightarrow> bool) \<Rightarrow> bool" where
  "calls_ok (Done r) P = True"
| "calls_ok (Call op k) P = (P op \<and> (\<forall>a. calls_ok (k a) P))"

text \<open>At most \<open>n\<close> operations with the property, on every path.\<close>

primrec at_most :: "'r prog \<Rightarrow> (redmine_op \<Rightarrow> bool) \<Rightarrow> nat \<Rightarrow> bool" where
  "at_most (Done r) Q n = True"
| "at_most (Call op k) Q n = (if Q op then 0 < n \<and> (\<forall>a. at_most (k a) Q (n - 1)) else (\<forall>a. at_most (k a) Q n))"

text \<open>Every result has the property.\<close>

primrec returns :: "'r prog \<Rightarrow> ('r \<Rightarrow> bool) \<Rightarrow> bool" where
  "returns (Done r) R = R r"
| "returns (Call op k) R = (\<forall>a. returns (k a) R)"

text \<open>At most \<open>n\<close> operations with answers that have the property, on every path.\<close>

primrec at_most_ans :: "'r prog \<Rightarrow> (redmine_op \<Rightarrow> redmine_error + answer \<Rightarrow> bool) \<Rightarrow> nat \<Rightarrow> bool" where
  "at_most_ans (Done r) Q n = True"
| "at_most_ans (Call op k) Q n = (\<forall>a. if Q op a then 0 < n \<and> at_most_ans (k a) Q (n - 1) else at_most_ans (k a) Q n)"

lemma run_log_ops: "snd (run p S h) = h @ map fst (run_log p S h)"
  by (induction p arbitrary: h) simp_all

lemma run_ask [simp]: "run (ask dec op k) S h = run (k (decode_answer dec (S h op))) S (h @ [op])"
  by (simp add: ask_def)

lemma decode_answer_Inr: "decode_answer dec r = Inr v \<longleftrightarrow> (\<exists>a. r = Inr a \<and> dec a = Some v)"
  by (auto simp: decode_answer_def split: sum.splits option.splits)

lemma run_calls: "calls_ok p P \<Longrightarrow> \<exists>t. snd (run p S h) = h @ t \<and> list_all P t"
proof (induction p arbitrary: h)
  case (Call op k)
  then obtain t where "snd (run (k (S h op)) S (h @ [op])) = (h @ [op]) @ t" "list_all P t"
    using Call.IH [of "k (S h op)" "h @ [op]"] by auto
  then show ?case using Call.prems by (intro exI [of _ "op # t"]) simp
qed simp

lemma run_at_most: "at_most p Q n \<Longrightarrow> \<exists>t. snd (run p S h) = h @ t \<and> length (filter Q t) \<le> n"
proof (induction p arbitrary: h n)
  case (Call op k)
  define m where "m = (if Q op then n - 1 else n)"
  have "at_most (k (S h op)) Q m" using Call.prems by (auto simp: m_def split: if_splits)
  then obtain t where "snd (run (k (S h op)) S (h @ [op])) = (h @ [op]) @ t" "length (filter Q t) \<le> m"
    using Call.IH [of "k (S h op)" m "h @ [op]"] by auto
  then show ?case using Call.prems by (intro exI [of _ "op # t"]) (auto simp: m_def split: if_splits)
qed simp

lemma run_at_most_ans: "at_most_ans p Q n \<Longrightarrow> length (filter (\<lambda>(op, a). Q op a) (run_log p S h)) \<le> n"
proof (induction p arbitrary: h n)
  case (Call op k)
  define m where "m = (if Q op (S h op) then n - 1 else n)"
  have "at_most_ans (k (S h op)) Q m" "Q op (S h op) \<longrightarrow> 0 < n" using Call.prems by (auto simp: m_def dest: spec [of _ "S h op"])
  then show ?case using Call.IH [of "k (S h op)" m "h @ [op]"] by (auto simp: m_def split: if_splits)
qed simp

lemma run_returns: "returns p R \<Longrightarrow> R (fst (run p S h))"
  by (induction p arbitrary: h) auto

lemma calls_ok_mono: "calls_ok p P \<Longrightarrow> (\<And>op. P op \<Longrightarrow> Q op) \<Longrightarrow> calls_ok p Q"
  by (induction p) auto

lemma at_most_mono: "at_most p Q n \<Longrightarrow> n \<le> m \<Longrightarrow> at_most p Q m"
proof (induction p arbitrary: n m)
  case (Call op k)
  have "at_most (k a) Q (if Q op then m - 1 else m)" for a
    using Call.IH [of "k a" "if Q op then n - 1 else n"] Call.prems by (auto split: if_splits)
  then show ?case using Call.prems by (auto split: if_splits)
qed simp

lemma at_most_none: "calls_ok p (\<lambda>op. \<not> Q op) \<Longrightarrow> at_most p Q 0"
  by (induction p) auto

lemma calls_ok_askI: "P op \<Longrightarrow> (\<And>r. calls_ok (k r) P) \<Longrightarrow> calls_ok (ask dec op k) P"
  by (simp add: ask_def)

lemma at_most_askI: "\<not> Q op \<Longrightarrow> (\<And>r. at_most (k r) Q n) \<Longrightarrow> at_most (ask dec op k) Q n"
  by (simp add: ask_def)

lemma at_most_askI_Suc: "(\<And>r. at_most (k r) Q n) \<Longrightarrow> at_most (ask dec op k) Q (Suc n)"
  by (auto simp: ask_def intro: at_most_mono [of _ _ n])

lemma returns_askI: "(\<And>r. returns (k r) R) \<Longrightarrow> returns (ask dec op k) R"
  by (simp add: ask_def)

lemma calls_ok_plumbing [simp]:
  "calls_ok invalid_params P" "calls_ok (ok_out E out) P" "calls_ok (err_out c m hint) P"
  by (simp_all add: invalid_params_def ok_out_def err_out_def)

lemma calls_ok_or_fail: "(\<And>v. r = Inr v \<Longrightarrow> calls_ok (k v) P) \<Longrightarrow> calls_ok (or_fail E r k) P"
  by (cases r) (simp_all add: or_fail_def)

lemma calls_ok_with_scoped: "calls_ok p P \<Longrightarrow> calls_ok (with_scoped E p) P"
  by (cases "te_scoped E") (simp_all add: with_scoped_def)

lemma calls_ok_or_invalid: "(\<And>v. r = Inr v \<Longrightarrow> calls_ok (k v) P) \<Longrightarrow> calls_ok (or_invalid r k) P"
  by (cases r) (simp_all add: or_invalid_def)

lemma calls_ok_if: "(b \<Longrightarrow> calls_ok p P) \<Longrightarrow> (\<not> b \<Longrightarrow> calls_ok q P) \<Longrightarrow> calls_ok (if b then p else q) P"
  by simp

lemma calls_ok_required: "(\<And>x. v = Some x \<Longrightarrow> calls_ok (k x) P) \<Longrightarrow> calls_ok (require v k) P"
  by (simp add: require_def split: option.split)

lemmas calls_okI = calls_ok_askI calls_ok_or_fail calls_ok_with_scoped calls_ok_or_invalid calls_ok_required calls_ok_if

lemma at_most_plumbing [simp]:
  "at_most invalid_params Q n" "at_most (ok_out E out) Q n" "at_most (err_out c m hint) Q n"
  by (simp_all add: invalid_params_def ok_out_def err_out_def)

lemma at_most_or_fail: "(\<And>v. r = Inr v \<Longrightarrow> at_most (k v) Q n) \<Longrightarrow> at_most (or_fail E r k) Q n"
  by (cases r) (simp_all add: or_fail_def)

lemma at_most_with_scoped: "at_most p Q n \<Longrightarrow> at_most (with_scoped E p) Q n"
  by (cases "te_scoped E") (simp_all add: with_scoped_def)

lemma at_most_or_invalid: "(\<And>v. r = Inr v \<Longrightarrow> at_most (k v) Q n) \<Longrightarrow> at_most (or_invalid r k) Q n"
  by (cases r) (simp_all add: or_invalid_def)

lemmas at_mostI = at_most_askI at_most_or_fail at_most_with_scoped at_most_or_invalid

lemma returns_plumbing [simp]:
  "returns invalid_params R \<longleftrightarrow> R (Inl InvalidParams)"
  "returns (ok_out E out) R \<longleftrightarrow> R (Inr (ok (te_float E) (te_caps E) out))"
  "returns (err_out c m hint) R \<longleftrightarrow> R (Inr (err c m hint))"
  by (simp_all add: invalid_params_def ok_out_def err_out_def)

section \<open>Reads and writes\<close>

text \<open>An operation reads when it only sends \<^verbatim>\<open>GET\<close> requests.\<close>

definition op_reads :: "redmine_op \<Rightarrow> bool" where
  "op_reads op \<longleftrightarrow> list_all (\<lambda>r. rr_method (fst r) = GET) op"

lemma op_reads_iff: "op_reads op \<longleftrightarrow> (\<forall>r \<in> set op. rr_method (fst r) = GET)"
  by (simp add: op_reads_def list_all_iff)

lemma read_ops [simp]:
  "op_reads (get_issue n inc)" "op_reads (get_agile_data n)" "op_reads (list_issues_page iq limit offset)"
  "op_reads (search_issues_page q scope op limit offset)" "op_reads (list_issues_by_id ids)" "op_reads (list_subtasks n)"
  "op_reads (list_relations n)" "op_reads (list_issue_categories project)" "op_reads (get_project project pinc)"
  "op_reads list_custom_field_definitions" "op_reads (get_attachment n)" "op_reads (list_time_entries_page tq limit offset)"
  "op_reads (list_issues iq)" "op_reads (list_time_entries tq)"
  "op_reads (get_time_entry n)" "op_reads list_time_entry_activities" "op_reads list_trackers" "op_reads list_issue_statuses"
  "op_reads list_issue_priorities" "op_reads (list_users uq limit offset)" "op_reads list_saved_queries"
  "op_reads current_user" "op_reads (list_projects extra)" "op_reads (list_versions project)" "op_reads (get_version n)"
  "op_reads (list_memberships project)" "op_reads (get_membership n)" "op_reads list_roles"
  "op_reads (search_entire_page q resources limit offset)" "op_reads (list_wiki_pages project)"
  "op_reads (get_wiki_page project seg version att)" "op_reads (list_project_files project)"
  "op_reads (list_checklist_items n)" "op_reads (list_products po limit offset)" "op_reads (get_product n)"
  "op_reads (list_contacts cq limit offset)" "op_reads (get_contact n cinc)"
  "op_reads (list_dmsf_nodes project folder limit offset)" "op_reads (get_dmsf_file n)"
  by (simp_all add: op_reads_def rest_op_defs rest_req_defs)

lemma resolve_project_ref_wf: "resolve_project_ref ref = Inr project \<Longrightarrow> wf_ident project"
  by (auto simp: resolve_project_ref_def project_identifier_from_str_def
      split: project_ref.split_asm sum.split_asm list.split_asm if_split_asm)

text \<open>Every operation of the surface has paths that the guard of the client accepts.\<close>

lemmas read_routes = read_op.intros [THEN read_op_paths]
lemmas write_routes = write_op.intros [THEN write_op_paths]
lemmas routes = read_routes write_routes

end
