(* ===== verification/Custom_Fields.thy ===== *)
theory Custom_Fields
  imports Tool_Session
begin

text \<open>
  Custom fields of the write tools (\<^verbatim>\<open>tools/custom_fields.rs\<close>): entries given by id or by name are resolved
  against the definitions of the project, and a write that Redmine rejects for a required field is
  recovered from configured defaults. The functions that call Redmine take what is done with their
  result as their last argument.
\<close>

section \<open>Entries by id\<close>

datatype custom_field_value_input = CviSingle string | CviMultiple "string list"

fun cvi_into :: "custom_field_value_input \<Rightarrow> cf_value" where
  "cvi_into (CviSingle s) = CfSingle (Some s)"
| "cvi_into (CviMultiple vs) = CfMultiple vs"

record custom_field_entry =
  cfe_id :: nat
  cfe_value :: custom_field_value_input

definition custom_field_entries_to_write :: "custom_field_entry list \<Rightarrow> custom_field_write list" where
  "custom_field_entries_to_write entries = map (\<lambda>e. \<lparr>cfw_id = cfe_id e, cfw_value = cvi_into (cfe_value e)\<rparr>) entries"

section \<open>Entries of issues\<close>

datatype issue_custom_field_value_input = IcvSingle "string option" | IcvMultiple "string list"

fun icv_into :: "issue_custom_field_value_input \<Rightarrow> cf_value" where
  "icv_into (IcvSingle s) = CfSingle s"
| "icv_into (IcvMultiple vs) = CfMultiple vs"

record issue_custom_field_entry =
  ice_id :: "nat option"
  ice_name :: "string option"
  ice_value :: issue_custom_field_value_input

definition normalize_field_name :: "unicode \<Rightarrow> string \<Rightarrow> ustr" where
  "normalize_field_name U name = concat (map (uc_lowercase U) (filter (uc_alphanumeric U) (uc_chars U name)))"

fun validate_entry_shapes :: "issue_custom_field_entry list \<Rightarrow> mcp_error + unit" where
  "validate_entry_shapes [] = Inr ()"
| "validate_entry_shapes (e # es) =
     (case (ice_id e, ice_name e) of
        (Some _, Some _) \<Rightarrow> Inl InvalidParams
      | (None, None) \<Rightarrow> Inl InvalidParams
      | _ \<Rightarrow> validate_entry_shapes es)"

definition resolve_name :: "unicode \<Rightarrow> id_name list \<Rightarrow> string \<Rightarrow> mcp_error + nat" where
  "resolve_name U defs name =
     (case filter (\<lambda>d. normalize_field_name U (idn_name d) = normalize_field_name U name) defs of
        [] \<Rightarrow> Inl InvalidParams
      | [single] \<Rightarrow> Inr (idn_id single)
      | _ \<Rightarrow> Inl InvalidParams)"

text \<open>The id of one entry; the last arm is the \<^verbatim>\<open>unreachable!\<close> of the code.\<close>

definition entry_id :: "unicode \<Rightarrow> id_name list option \<Rightarrow> issue_custom_field_entry \<Rightarrow> mcp_error + nat" where
  "entry_id U defs e =
     (case (ice_id e, ice_name e) of
        (Some i, _) \<Rightarrow> Inr i
      | (None, Some name) \<Rightarrow> (case defs of None \<Rightarrow> Inl InvalidParams | Some ds \<Rightarrow> resolve_name U ds name)
      | (None, None) \<Rightarrow> Inl (InternalError ''unreachable''))"

fun resolve_loop ::
    "unicode \<Rightarrow> id_name list option \<Rightarrow> nat list \<Rightarrow> custom_field_write list \<Rightarrow> issue_custom_field_entry list \<Rightarrow>
     mcp_error + custom_field_write list" where
  "resolve_loop U defs seen out [] = Inr out"
| "resolve_loop U defs seen out (e # es) =
     (case entry_id U defs e of
        Inl x \<Rightarrow> Inl x
      | Inr i \<Rightarrow>
          if i \<in> set seen then Inl InvalidParams
          else resolve_loop U defs (seen @ [i]) (out @ [\<lparr>cfw_id = i, cfw_value = icv_into (ice_value e)\<rparr>]) es)"

definition resolve_entries ::
    "unicode \<Rightarrow> id_name list option \<Rightarrow> issue_custom_field_entry list \<Rightarrow> mcp_error + custom_field_write list" where
  "resolve_entries U defs entries =
     (case validate_entry_shapes entries of Inl e \<Rightarrow> Inl e | Inr _ \<Rightarrow> resolve_loop U defs [] [] entries)"

definition needs_definitions :: "issue_custom_field_entry list \<Rightarrow> bool" where
  "needs_definitions entries \<longleftrightarrow> list_ex (\<lambda>e. ice_name e \<noteq> None) entries"

datatype cf_outcome = CfProtocol mcp_error | CfInBand call_tool_result

definition protocol :: "mcp_error + 'a \<Rightarrow> cf_outcome + 'a option" where
  "protocol r = (case r of Inl e \<Rightarrow> Inl (CfProtocol e) | Inr v \<Rightarrow> Inr (Some v))"

definition resolve_issue_custom_fields ::
    "tool_env \<Rightarrow> project_ident \<Rightarrow> issue_custom_field_entry list option \<Rightarrow>
     (cf_outcome + custom_field_write list option \<Rightarrow> 'r prog) \<Rightarrow> 'r prog" where
  "resolve_issue_custom_fields E project entries k =
     (case entries of
        None \<Rightarrow> k (Inr None)
      | Some es \<Rightarrow>
          if es = [] then k (Inr None)
          else
            (case validate_entry_shapes es of
               Inl e \<Rightarrow> k (Inl (CfProtocol e))
             | Inr _ \<Rightarrow>
                 if needs_definitions es
                 then ask de_project (get_project project [IssueCustomFields]) (\<lambda>r.
                        case r of
                          Inl e \<Rightarrow> k (Inl (CfInBand (tool_error E e)))
                        | Inr p \<Rightarrow>
                            k (protocol (resolve_entries (te_unicode E)
                                 (Some (case prj_issue_custom_fields p of Some ds \<Rightarrow> ds | None \<Rightarrow> [])) es)))
                 else k (protocol (resolve_entries (te_unicode E) None es))))"

definition resolve_issue_custom_fields_for_update ::
    "tool_env \<Rightarrow> nat \<Rightarrow> issue_custom_field_entry list option \<Rightarrow>
     (cf_outcome + custom_field_write list option \<Rightarrow> 'r prog) \<Rightarrow> 'r prog" where
  "resolve_issue_custom_fields_for_update E issue_id entries k =
     (case entries of
        None \<Rightarrow> k (Inr None)
      | Some es \<Rightarrow>
          if es = [] then k (Inr None)
          else
            (case validate_entry_shapes es of
               Inl e \<Rightarrow> k (Inl (CfProtocol e))
             | Inr _ \<Rightarrow>
                 if \<not> needs_definitions es then k (protocol (resolve_entries (te_unicode E) None es))
                 else ask de_issue (get_issue issue_id []) (\<lambda>r.
                        case r of
                          Inl e \<Rightarrow> k (Inl (CfInBand (tool_error E e)))
                        | Inr i \<Rightarrow> resolve_issue_custom_fields E (ProjectId (idn_id (isu_project i))) (Some es) k)))"

section \<open>Rejected required fields\<close>

definition REQUIRED_FIELD_MARKERS :: "string list" where
  "REQUIRED_FIELD_MARKERS =
     [''can'' @ [char_of (39 :: nat)] @ ''t be blank'', ''cannot be blank'', ''is not included in the list'', ''is invalid'']"

text \<open>\<^verbatim>\<open>str::find\<close>: the position of the first occurrence.\<close>

fun find_str :: "string \<Rightarrow> string \<Rightarrow> nat option" where
  "find_str [] p = (if p = [] then Some 0 else None)"
| "find_str (c # cs) p = (if starts_with (c # cs) p then Some 0 else map_option Suc (find_str cs p))"

fun find_map :: "('a \<Rightarrow> 'b option) \<Rightarrow> 'a list \<Rightarrow> 'b option" where
  "find_map f [] = None"
| "find_map f (x # xs) = (case f x of Some y \<Rightarrow> Some y | None \<Rightarrow> find_map f xs)"

text \<open>A missing field is its label.\<close>

definition required_field_label :: "string \<Rightarrow> string option" where
  "required_field_label raw =
     (let body = (case strip_prefix raw ''Validation failed: '' of Some t \<Rightarrow> t | None \<Rightarrow> raw);
          lower = to_ascii_lowercase body
      in find_map (\<lambda>marker. map_option (\<lambda>idx. trim (take idx body)) (find_str lower marker)) REQUIRED_FIELD_MARKERS)"

definition parse_required_field_errors :: "string list \<Rightarrow> string list" where
  "parse_required_field_errors errors = List.map_filter required_field_label errors"

definition CORE_ISSUE_FIELD_LABELS :: "string list" where
  "CORE_ISSUE_FIELD_LABELS =
     [''Subject'', ''Description'', ''Tracker'', ''Status'', ''Priority'', ''Assignee'', ''Category'',
      ''Target version'', ''Parent task'', ''Start date'', ''Due date'', ''Estimated time'', ''Done ratio'',
      ''Is private'', ''Spent time'']"

definition looks_like_custom_field :: "string \<Rightarrow> bool" where
  "looks_like_custom_field label \<longleftrightarrow> \<not> list_ex (\<lambda>core. eq_ignore_ascii_case core label) CORE_ISSUE_FIELD_LABELS"

definition required_field_error :: "string list \<Rightarrow> bool \<Rightarrow> call_tool_result" where
  "required_field_error lacking autofill_enabled =
     (let hint =
        (if \<not> list_ex looks_like_custom_field lacking
         then ''these are standard issue fields, not custom fields; look up a valid value with the discovery tools (list_redmine_trackers, list_redmine_issue_statuses, ...) and set it explicitly''
         else if autofill_enabled
         then ''these look like custom fields with no usable default; call list_project_issue_custom_fields to see the allowed values and set them explicitly''
         else ''these look like custom fields; set them explicitly (call list_project_issue_custom_fields to see the allowed values), or ask the operator to set REDMINE_AUTOFILL_REQUIRED_CUSTOM_FIELDS=true'')
      in err_with CValidationFailed
           (''Redmine rejected the request: missing or invalid required field(s): '' @ join '', '' lacking)
           (Some hint) [(''missing_required_fields'', JArr (map JStr lacking))])"

record autofill_def =
  afd_id :: nat
  afd_name :: string
  afd_default_value :: "string option"
  afd_possible_values :: "string list option"
  afd_multiple :: "bool option"

definition autofill_def_of_id_name :: "id_name \<Rightarrow> autofill_def" where
  "autofill_def_of_id_name f =
     \<lparr>afd_id = idn_id f, afd_name = idn_name f, afd_default_value = None, afd_possible_values = None, afd_multiple = None\<rparr>"

definition autofill_def_of_definition :: "custom_field_definition \<Rightarrow> autofill_def" where
  "autofill_def_of_definition d =
     \<lparr>afd_id = cdf_id d, afd_name = cdf_name d, afd_default_value = cdf_default_value d,
      afd_possible_values = cdf_possible_values d, afd_multiple = cdf_multiple d\<rparr>"

record fill =
  fl_id :: nat
  fl_name :: string
  fl_value :: cf_value

definition pick_candidate :: "unicode \<Rightarrow> autofill_def \<Rightarrow> custom_field_config \<Rightarrow> (string list \<times> bool) option" where
  "pick_candidate U def cfg =
     (let from_config =
        (case find (\<lambda>(name, _). normalize_field_name U name = normalize_field_name U (afd_name def)) (cf_defaults cfg) of
           None \<Rightarrow> None
         | Some (_, SingleDefault s) \<Rightarrow> if s \<noteq> [] then Some ([s], False) else None
         | Some (_, MultipleDefault items) \<Rightarrow> if items \<noteq> [] then Some (items, True) else None)
      in case afd_default_value def of
           Some d \<Rightarrow> if d \<noteq> [] then Some ([d], False) else from_config
         | None \<Rightarrow> from_config)"

definition fill_for :: "unicode \<Rightarrow> autofill_def list \<Rightarrow> custom_field_config \<Rightarrow> string \<Rightarrow> fill option" where
  "fill_for U defs cfg label =
     (case find (\<lambda>d. normalize_field_name U (afd_name d) = normalize_field_name U label) defs of
        None \<Rightarrow> None
      | Some def \<Rightarrow>
          (case pick_candidate U def cfg of
             None \<Rightarrow> None
           | Some (candidate, from_array) \<Rightarrow>
               if (case afd_possible_values def of
                     Some possible \<Rightarrow> possible \<noteq> [] \<and> \<not> list_all (\<lambda>v. v \<in> set possible) candidate
                   | None \<Rightarrow> False)
               then None
               else Some \<lparr>fl_id = afd_id def, fl_name = afd_name def,
                          fl_value = (if (case afd_multiple def of Some m \<Rightarrow> m | None \<Rightarrow> from_array)
                                      then CfMultiple candidate
                                      else CfSingle (case candidate of [] \<Rightarrow> None | v # _ \<Rightarrow> Some v))\<rparr>))"

definition compute_autofill :: "unicode \<Rightarrow> autofill_def list \<Rightarrow> string list \<Rightarrow> custom_field_config \<Rightarrow> fill list" where
  "compute_autofill U defs lacking cfg = List.map_filter (fill_for U defs cfg) lacking"

text \<open>One fill: the first entry for its field is replaced, or an entry is appended.\<close>

fun merge_fill :: "custom_field_write list \<Rightarrow> fill \<Rightarrow> custom_field_write list" where
  "merge_fill [] f = [\<lparr>cfw_id = fl_id f, cfw_value = fl_value f\<rparr>]"
| "merge_fill (e # es) f = (if cfw_id e = fl_id f then e\<lparr>cfw_value := fl_value f\<rparr> # es else e # merge_fill es f)"

definition merge_fills :: "custom_field_write list option \<Rightarrow> fill list \<Rightarrow> custom_field_write list" where
  "merge_fills existing fills = foldl merge_fill (case existing of Some es \<Rightarrow> es | None \<Rightarrow> []) fills"

datatype autofill_target = TargetCreate project_ident | TargetUpdate nat

definition fetch_project_definitions ::
    "project_ident \<Rightarrow> (redmine_error + autofill_def list \<Rightarrow> 'r prog) \<Rightarrow> 'r prog" where
  "fetch_project_definitions project k =
     ask de_project (get_project project [IssueCustomFields]) (\<lambda>r.
       case r of
         Inl e \<Rightarrow> k (Inl e)
       | Inr p \<Rightarrow>
           (let members = (case prj_issue_custom_fields p of Some ds \<Rightarrow> ds | None \<Rightarrow> [])
            in ask de_definitions list_custom_field_definitions (\<lambda>r.
                 case r of
                   Inr definitions \<Rightarrow>
                     k (Inr (map autofill_def_of_definition
                               (filter (\<lambda>d. list_ex (\<lambda>m. idn_id m = cdf_id d) members) definitions)))
                 | Inl EForbidden \<Rightarrow> k (Inr (map autofill_def_of_id_name members))
                 | Inl e \<Rightarrow> k (Inl e))))"

definition fetch_definitions_for_autofill ::
    "autofill_target \<Rightarrow> (redmine_error + autofill_def list \<Rightarrow> 'r prog) \<Rightarrow> 'r prog" where
  "fetch_definitions_for_autofill target k =
     (case target of
        TargetCreate project \<Rightarrow> fetch_project_definitions project k
      | TargetUpdate issue_id \<Rightarrow>
          ask de_issue (get_issue issue_id []) (\<lambda>r.
            case r of
              Inl e \<Rightarrow> k (Inl e)
            | Inr i \<Rightarrow> fetch_project_definitions (ProjectId (idn_id (isu_project i))) k))"

datatype required_field_recovery = GiveUp call_tool_result | Retry "custom_field_write list" "fill list"

text \<open>The fields named by an error, when it is a rejection that names any.\<close>

definition rejected_fields :: "redmine_error \<Rightarrow> string list" where
  "rejected_fields e =
     (case e of EApi status errors \<Rightarrow> if status = 422 then parse_required_field_errors errors else [] | _ \<Rightarrow> [])"

definition recover_required_fields ::
    "tool_env \<Rightarrow> autofill_target \<Rightarrow> custom_field_write list option \<Rightarrow> redmine_error \<Rightarrow>
     (required_field_recovery option \<Rightarrow> 'r prog) \<Rightarrow> 'r prog" where
  "recover_required_fields E target custom_fields e k =
     (let lacking = rejected_fields e; cfg = co_custom_fields (te_config E)
      in if lacking = [] then k None
         else if \<not> cf_autofill_required cfg then k (Some (GiveUp (required_field_error lacking False)))
         else fetch_definitions_for_autofill target (\<lambda>r.
                case r of
                  Inl _ \<Rightarrow> k (Some (GiveUp (required_field_error lacking True)))
                | Inr defs \<Rightarrow>
                    (let fills = compute_autofill (te_unicode E) defs lacking cfg
                     in if fills = [] then k (Some (GiveUp (required_field_error lacking True)))
                        else k (Some (Retry (merge_fills custom_fields fills) fills)))))"

definition retry_still_missing_required_fields :: "redmine_error \<Rightarrow> call_tool_result option" where
  "retry_still_missing_required_fields e =
     (let lacking = rejected_fields e in if lacking = [] then None else Some (required_field_error lacking True))"

section \<open>Resolution of entries\<close>

text \<open>The definition a name stands for: the only one whose normalized name is the same.\<close>

definition names_field :: "unicode \<Rightarrow> id_name list \<Rightarrow> string \<Rightarrow> nat \<Rightarrow> bool" where
  "names_field U ds n i \<longleftrightarrow>
     (\<exists>k<length ds. idn_id (ds ! k) = i \<and> normalize_field_name U (idn_name (ds ! k)) = normalize_field_name U n \<and>
        (\<forall>j<length ds. normalize_field_name U (idn_name (ds ! j)) = normalize_field_name U n \<longrightarrow> j = k))"

definition addresses :: "unicode \<Rightarrow> id_name list option \<Rightarrow> issue_custom_field_entry \<Rightarrow> nat \<Rightarrow> bool" where
  "addresses U defs e i \<longleftrightarrow>
     (ice_id e = Some i \<and> ice_name e = None) \<or>
     (ice_id e = None \<and> (\<exists>n ds. ice_name e = Some n \<and> defs = Some ds \<and> names_field U ds n i))"

lemma filter_singleton_nth:
  "filter P xs = [x] \<longleftrightarrow> (\<exists>k<length xs. xs ! k = x \<and> P x \<and> (\<forall>j<length xs. P (xs ! j) \<longrightarrow> j = k))"
proof
  assume one: "filter P xs = [x]"
  then obtain us vs where split: "xs = us @ x # vs" "\<forall>u\<in>set us. \<not> P u" "P x" "[] = filter P vs"
    by (auto simp: filter_eq_Cons_iff)
  have "j = length us" if "j < length xs" "P (xs ! j)" for j
  proof (rule ccontr)
    assume "j \<noteq> length us"
    then consider "j < length us" | "length us < j" by linarith
    then show False
    proof cases
      case 1 then show ?thesis using split that by (auto simp: nth_append)
    next
      case 2
      then have "xs ! j \<in> set vs" using split(1) that by (auto simp: nth_append nth_Cons split: nat.splits)
      then show ?thesis using split(4) that(2) by (metis filter_empty_conv)
    qed
  qed
  then show "\<exists>k<length xs. xs ! k = x \<and> P x \<and> (\<forall>j<length xs. P (xs ! j) \<longrightarrow> j = k)"
    using split by (intro exI [of _ "length us"]) auto
next
  assume "\<exists>k<length xs. xs ! k = x \<and> P x \<and> (\<forall>j<length xs. P (xs ! j) \<longrightarrow> j = k)"
  then obtain k where k: "k < length xs" "xs ! k = x" "P x" "\<And>j. j < length xs \<Longrightarrow> P (xs ! j) \<Longrightarrow> j = k" by blast
  have "\<not> P u" if "u \<in> set (take k xs)" for u
    using that k(4) by (fastforce simp: in_set_conv_nth)
  moreover have "\<not> P u" if "u \<in> set (drop (Suc k) xs)" for u
  proof -
    obtain j where "j < length xs - Suc k" "u = xs ! (Suc k + j)" using \<open>u \<in> _\<close> by (auto simp: in_set_conv_nth)
    moreover from this have "Suc k + j < length xs" by linarith
    ultimately show ?thesis using k(4) [of "Suc k + j"] by fastforce
  qed
  ultimately have "filter P (take k xs @ x # drop (Suc k) xs) = [x]" using k(3) by simp
  then show "filter P xs = [x]" using id_take_nth_drop [OF k(1)] unfolding k(2) by metis
qed

lemma resolve_name_Inr: "resolve_name U ds n = Inr i \<longleftrightarrow> names_field U ds n i"
proof -
  let ?P = "\<lambda>d. normalize_field_name U (idn_name d) = normalize_field_name U n"
  have "resolve_name U ds n = Inr i \<longleftrightarrow> (\<exists>d. filter ?P ds = [d] \<and> idn_id d = i)"
    by (auto simp: resolve_name_def split: list.splits)
  also have "\<dots> \<longleftrightarrow> names_field U ds n i"
    by (auto simp: filter_singleton_nth names_field_def)
  finally show ?thesis .
qed

lemma validate_entry_shapes_Inr:
  "validate_entry_shapes es = Inr () \<longleftrightarrow> list_all (\<lambda>e. (ice_id e = None) \<noteq> (ice_name e = None)) es"
  by (induction es) (auto split: option.splits)

lemma entry_id_Inr:
  "(ice_id e = None) \<noteq> (ice_name e = None) \<Longrightarrow> entry_id U defs e = Inr i \<longleftrightarrow> addresses U defs e i"
  by (auto simp: entry_id_def addresses_def resolve_name_Inr split: option.splits)

lemma addresses_shape: "addresses U defs e i \<Longrightarrow> (ice_id e = None) \<noteq> (ice_name e = None)"
  by (auto simp: addresses_def)

abbreviation writes_entry :: "unicode \<Rightarrow> id_name list option \<Rightarrow> issue_custom_field_entry \<Rightarrow> custom_field_write \<Rightarrow> bool" where
  "writes_entry U defs e w \<equiv> addresses U defs e (cfw_id w) \<and> cfw_value w = icv_into (ice_value e)"

lemma resolve_loop_Inr:
  "list_all (\<lambda>e. (ice_id e = None) \<noteq> (ice_name e = None)) es \<Longrightarrow>
   resolve_loop U defs seen acc es = Inr ws \<longleftrightarrow>
     (\<exists>new. ws = acc @ new \<and> list_all2 (writes_entry U defs) es new \<and>
        distinct (map cfw_id new) \<and> set (map cfw_id new) \<inter> set seen = {})"
proof (induction es arbitrary: seen acc)
  case (Cons e es)
  have shape: "(ice_id e = None) \<noteq> (ice_name e = None)" using Cons.prems by simp
  show ?case
  proof (cases "entry_id U defs e")
    case (Inl x)
    then have "\<not> addresses U defs e i" for i using entry_id_Inr [OF shape] by (metis Inl_Inr_False)
    then show ?thesis using Inl by (auto simp: list_all2_Cons1)
  next
    case (Inr i)
    then have this_id: "addresses U defs e j \<longleftrightarrow> j = i" for j using entry_id_Inr [OF shape] by (metis Inr_inject)
    let ?w = "\<lparr>cfw_id = i, cfw_value = icv_into (ice_value e)\<rparr>"
    have rest: "resolve_loop U defs (seen @ [i]) (acc @ [?w]) es = Inr ws \<longleftrightarrow>
        (\<exists>new. ws = (acc @ [?w]) @ new \<and> list_all2 (writes_entry U defs) es new \<and>
           distinct (map cfw_id new) \<and> set (map cfw_id new) \<inter> set (seen @ [i]) = {})"
      using Cons.prems by (intro Cons.IH) simp
    have first: "writes_entry U defs e w \<longleftrightarrow> w = ?w" for w using this_id by (cases w) auto
    show ?thesis
      using Inr by (auto simp: rest list_all2_Cons1 first)
  qed
qed auto

text \<open>
  C27. Resolution succeeds exactly with one write per entry, in order: each addresses the field its entry
  gives by id, or the only definition of the project whose normalized name is the entry's, carries
  the value of the entry, and no field is written twice. Every other list of entries is refused.
\<close>

theorem resolve_entries_exact:
  "resolve_entries U defs entries = Inr ws \<longleftrightarrow>
     list_all2 (\<lambda>e w. addresses U defs e (cfw_id w) \<and> cfw_value w = icv_into (ice_value e)) entries ws \<and>
     distinct (map cfw_id ws)"
proof (cases "list_all (\<lambda>e. (ice_id e = None) \<noteq> (ice_name e = None)) entries")
  case True
  then show ?thesis
    using validate_entry_shapes_Inr [of entries] resolve_loop_Inr [OF True, of U defs "[]" "[]" ws]
    by (simp add: resolve_entries_def)
next
  case False
  then obtain x where "validate_entry_shapes entries = Inl x"
    using validate_entry_shapes_Inr [of entries] by (cases "validate_entry_shapes entries") auto
  moreover have "\<not> list_all2 (writes_entry U defs) entries ws"
    using False addresses_shape by (fastforce simp: list_all2_conv_all_nth list_all_length)
  ultimately show ?thesis by (simp add: resolve_entries_def)
qed

section \<open>Filling required fields\<close>

definition written :: "custom_field_write list \<Rightarrow> nat \<rightharpoonup> cf_value" where
  "written ws = map_of (map (\<lambda>w. (cfw_id w, cfw_value w)) ws)"

lemma written_merge_fill: "written (merge_fill ws f) = (written ws)(fl_id f \<mapsto> fl_value f)"
  by (induction ws) (auto simp: written_def fun_eq_iff)

lemma merge_fill_keeps_ids: "\<exists>new. map cfw_id (merge_fill ws f) = map cfw_id ws @ new"
  by (induction ws) auto

lemma foldl_merge_fill:
  "written (foldl merge_fill ws fs) = written ws ++ map_of (rev (map (\<lambda>f. (fl_id f, fl_value f)) fs))"
  by (induction fs arbitrary: ws) (simp_all add: written_merge_fill map_add_assoc [symmetric] fun_eq_iff map_add_def split: option.splits)

lemma foldl_merge_fill_ids: "\<exists>new. map cfw_id (foldl merge_fill ws fs) = map cfw_id ws @ new"
proof (induction fs arbitrary: ws)
  case (Cons f fs)
  then show ?case using merge_fill_keeps_ids [of ws f] by (metis append_assoc foldl_Cons)
qed simp

text \<open>
  A fill overrides what the request carried for its field, the last fill of a field wins, every
  other value of the request is kept, and the entries of the request keep their order.
\<close>

theorem merge_fills_override:
  "written (merge_fills existing fills) =
     written (case existing of Some ws \<Rightarrow> ws | None \<Rightarrow> []) ++ map_of (rev (map (\<lambda>f. (fl_id f, fl_value f)) fills)) \<and>
   (\<exists>new. map cfw_id (merge_fills existing fills) = map cfw_id (case existing of Some ws \<Rightarrow> ws | None \<Rightarrow> []) @ new)"
  using foldl_merge_fill foldl_merge_fill_ids by (simp add: merge_fills_def)

fun fill_strings :: "cf_value \<Rightarrow> string list" where
  "fill_strings (CfSingle (Some s)) = [s]"
| "fill_strings (CfSingle None) = []"
| "fill_strings (CfMultiple ss) = ss"

lemma pick_candidate_nonempty: "pick_candidate U d cfg = Some (vs, arr) \<Longrightarrow> vs \<noteq> []"
  by (auto simp: pick_candidate_def Let_def split: option.splits if_splits prod.splits custom_field_default.splits)

lemma pick_candidate_source:
  assumes "pick_candidate U d cfg = Some (vs, arr)"
  shows "set vs \<subseteq> set_option (afd_default_value d) \<or>
      (\<exists>n v. (n, v) \<in> set (cf_defaults cfg) \<and> normalize_field_name U n = normalize_field_name U (afd_name d) \<and>
         set vs \<subseteq> (case v of SingleDefault s \<Rightarrow> {s} | MultipleDefault ss \<Rightarrow> set ss))"
proof (cases "afd_default_value d = Some (hd vs) \<and> vs = [hd vs]")
  case True
  then have "set vs \<subseteq> set_option (afd_default_value d)" by (metis list.set(1) list.set(2) option.set(2) order_refl)
  then show ?thesis ..
next
  case False
  then obtain n v where nv: "find (\<lambda>(name, _). normalize_field_name U name = normalize_field_name U (afd_name d))
      (cf_defaults cfg) = Some (n, v)" "set vs \<subseteq> (case v of SingleDefault s \<Rightarrow> {s} | MultipleDefault ss \<Rightarrow> set ss)"
    using assms
    by (auto simp: pick_candidate_def Let_def
        split: option.splits if_splits prod.splits custom_field_default.splits)
  then show ?thesis by (fastforce simp: find_Some_iff in_set_conv_nth)
qed

lemma fill_for_Some:
  assumes "fill_for U defs cfg label = Some f"
  obtains d vs arr where "d \<in> set defs" "normalize_field_name U (afd_name d) = normalize_field_name U label"
    "fl_id f = afd_id d" "pick_candidate U d cfg = Some (vs, arr)" "fill_strings (fl_value f) \<noteq> []"
    "set (fill_strings (fl_value f)) \<subseteq> set vs"
    "\<And>possible. afd_possible_values d = Some possible \<Longrightarrow> possible \<noteq> [] \<Longrightarrow> set vs \<subseteq> set possible"
proof -
  obtain d where d: "find (\<lambda>d. normalize_field_name U (afd_name d) = normalize_field_name U label) defs = Some d"
    using assms by (auto simp: fill_for_def split: option.splits)
  obtain vs arr where c: "pick_candidate U d cfg = Some (vs, arr)"
    using assms d by (auto simp: fill_for_def split: option.splits)
  have "vs \<noteq> []" using c pick_candidate_nonempty by blast
  moreover have "d \<in> set defs" "normalize_field_name U (afd_name d) = normalize_field_name U label"
    using d by (auto simp: find_Some_iff)
  moreover have "fl_id f = afd_id d"
    "fl_value f = (if (case afd_multiple d of Some m \<Rightarrow> m | None \<Rightarrow> arr) then CfMultiple vs
                   else CfSingle (case vs of [] \<Rightarrow> None | v # _ \<Rightarrow> Some v))"
    "afd_possible_values d = Some possible \<Longrightarrow> possible \<noteq> [] \<Longrightarrow> set vs \<subseteq> set possible" for possible
    using assms d c by (auto simp: fill_for_def list_all_iff split: option.splits if_splits)
  ultimately show ?thesis
    using that [of d vs arr] c by (cases vs) (auto split: if_splits)
qed

text \<open>
  A field is filled only when Redmine named it, on a field of the project, with at least one value,
  every one of them admitted by the definition, and the values are the default of the definition or
  one the operator configured under the name of the field.
\<close>

theorem autofill_admissible:
  assumes "f \<in> set (compute_autofill U defs lacking cfg)"
  shows "\<exists>label\<in>set lacking. \<exists>d\<in>set defs.
      normalize_field_name U (afd_name d) = normalize_field_name U label \<and> fl_id f = afd_id d \<and>
      fill_strings (fl_value f) \<noteq> [] \<and>
      (\<forall>possible. afd_possible_values d = Some possible \<and> possible \<noteq> [] \<longrightarrow>
         set (fill_strings (fl_value f)) \<subseteq> set possible) \<and>
      (set (fill_strings (fl_value f)) \<subseteq> set_option (afd_default_value d) \<or>
       (\<exists>n v. (n, v) \<in> set (cf_defaults cfg) \<and> normalize_field_name U n = normalize_field_name U (afd_name d) \<and>
          set (fill_strings (fl_value f)) \<subseteq> (case v of SingleDefault s \<Rightarrow> {s} | MultipleDefault ss \<Rightarrow> set ss)))"
proof -
  obtain label where label: "label \<in> set lacking" "fill_for U defs cfg label = Some f"
    using assms by (auto simp: compute_autofill_def List.map_filter_def)
  obtain d vs arr where d: "d \<in> set defs" "normalize_field_name U (afd_name d) = normalize_field_name U label"
    "fl_id f = afd_id d" "pick_candidate U d cfg = Some (vs, arr)" "fill_strings (fl_value f) \<noteq> []"
    "set (fill_strings (fl_value f)) \<subseteq> set vs"
    "\<And>possible. afd_possible_values d = Some possible \<Longrightarrow> possible \<noteq> [] \<Longrightarrow> set vs \<subseteq> set possible"
    using fill_for_Some [OF label(2)] by blast
  have "set vs \<subseteq> set_option (afd_default_value d) \<or>
      (\<exists>n v. (n, v) \<in> set (cf_defaults cfg) \<and> normalize_field_name U n = normalize_field_name U (afd_name d) \<and>
         set vs \<subseteq> (case v of SingleDefault s \<Rightarrow> {s} | MultipleDefault ss \<Rightarrow> set ss))"
    using d(4) pick_candidate_source by blast
  then show ?thesis using label(1) d by blast
qed

theorem autofill_admissible_witness:
  "let U = \<lparr>uc_chars = map of_char, uc_alphanumeric = (\<lambda>c. c \<noteq> 32), uc_lowercase = (\<lambda>c. [c])\<rparr>;
       d = \<lparr>afd_id = 7, afd_name = ''a b'', afd_default_value = None, afd_possible_values = Some [''x'', ''y''], afd_multiple = None\<rparr>;
       cfg = \<lparr>cf_autofill_required = True, cf_defaults = [(''ab'', SingleDefault ''y'')]\<rparr>;
       f = \<lparr>fl_id = 7, fl_name = ''a b'', fl_value = CfSingle (Some ''y'')\<rparr>
   in f \<in> set (compute_autofill U [d] [''ab''] cfg) \<and> fill_strings (fl_value f) \<noteq> []"
proof -
  let ?U = "\<lparr>uc_chars = map of_char, uc_alphanumeric = (\<lambda>c. c \<noteq> 32), uc_lowercase = (\<lambda>c. [c])\<rparr> :: unicode"
  let ?d = "\<lparr>afd_id = 7, afd_name = ''a b'', afd_default_value = None, afd_possible_values = Some [''x'', ''y''], afd_multiple = None\<rparr>"
  let ?cfg = "\<lparr>cf_autofill_required = True, cf_defaults = [(''ab'', SingleDefault ''y'')]\<rparr>"
  let ?f = "\<lparr>fl_id = 7, fl_name = ''a b'', fl_value = CfSingle (Some ''y'')\<rparr>"
  have f: "?f \<in> set (compute_autofill ?U [?d] [''ab''] ?cfg)"
    by (simp add: compute_autofill_def fill_for_def pick_candidate_def normalize_field_name_def List.map_filter_def)
  show ?thesis using f autofill_admissible [OF f] by (simp add: Let_def)
qed

end
