(* ===== verification/Tool_Contract.thy ===== *)
theory Tool_Contract
  imports Tool_Session
begin

text \<open>
  What the server relies on when it merges the routers of the tool modules and drops routes by name: the
  contract of one module. A call has a name and, where the scopes or the read-only mode go by it, an
  action. Names outside the list of writing tools stand for calls that only read, except for the tools
  that mix both, which read when the action lists or gets and refuse every other action on a read-only
  server. The requests of a sound call have paths that the guard of the client accepts.
\<close>

section \<open>Calls that read\<close>

definition reading :: "string \<Rightarrow> string option \<Rightarrow> bool" where
  "reading name action \<longleftrightarrow>
     name \<notin> set write_tools_all \<and> (name \<in> set PARTIAL_WRITE \<longrightarrow> action = Some ''list'' \<or> action = Some ''get'')"

lemma run_all: "calls_ok p P \<Longrightarrow> list_all P (snd (run p S []))"
  using run_calls [of p P S "[]"] by auto

lemma calls_ok_map [simp]: "calls_ok (map_prog f p) P = calls_ok p P"
  by (induction p) auto

section \<open>Scopes\<close>

text \<open>
  The tools of three plugins are called without any scope: the table has none for them, since no name is
  known that the plugins would recognise. Among these are tools that write.
\<close>

definition unscoped_writes :: "string list" where
  "unscoped_writes = [''create_checklist_item'', ''update_checklist_item'', ''manage_product'', ''manage_contact'']"

definition beyond_reading :: "scope list \<Rightarrow> bool" where
  "beyond_reading scopes \<longleftrightarrow> list_ex (\<lambda>s. s \<notin> set READ_SCOPES) scopes"

lemma beyond_readingD: "beyond_reading scopes \<Longrightarrow> \<not> set scopes \<subseteq> set READ_SCOPES"
  by (auto simp: beyond_reading_def list_ex_iff)

text \<open>In the table, every other writing tool, and every other action of a mixed one, asks for more than the reading scopes.\<close>

lemma writes_scoped:
  "list_all (\<lambda>t. t \<in> set unscoped_writes \<or>
     (case map_of TOOL_SCOPES t of
        Some (Fixed scopes) \<Rightarrow> beyond_reading scopes
      | Some (PerAction acts) \<Rightarrow> list_all (\<lambda>(_, scopes). beyond_reading scopes) acts
      | _ \<Rightarrow> False)) write_tools_all"
  by code_simp

lemma mixed_scoped:
  "list_all (\<lambda>t. t \<in> set unscoped_writes \<or>
     (case map_of TOOL_SCOPES t of
        Some (PerAction acts) \<Rightarrow> list_all (\<lambda>(x, scopes). x = ''list'' \<or> x = ''get'' \<or> beyond_reading scopes) acts
      | _ \<Rightarrow> False)) PARTIAL_WRITE"
  by code_simp

text \<open>The actions of a call are those of the table, and the arguments name the action of the call.\<close>

definition covered :: "string \<Rightarrow> string option \<Rightarrow> bool" where
  "covered name action \<longleftrightarrow>
     (case map_of TOOL_SCOPES name of
        Some (PerAction acts) \<Rightarrow> (case action of Some x \<Rightarrow> x \<in> set (map fst acts) | None \<Rightarrow> False)
      | Some _ \<Rightarrow> True
      | None \<Rightarrow> False)"

definition names_action :: "json_object option \<Rightarrow> string option \<Rightarrow> bool" where
  "names_action args action \<longleftrightarrow> (case action of Some x \<Rightarrow> action_str args = Some x | None \<Rightarrow> True)"

lemma requirement_known:
  assumes "covered name action" and "names_action args action"
  obtains "name = ''update_redmine_issue''" "required_for_call name args = update_redmine_issue_requirement args"
  | "name = ''create_redmine_issue''" "required_for_call name args = create_redmine_issue_requirement args"
  | scopes where "map_of TOOL_SCOPES name = Some (Fixed scopes)" "required_for_call name args = ReqScopes scopes"
  | scopes where "map_of TOOL_SCOPES name = Some (AnyOf scopes)" "required_for_call name args = ReqAnyOf scopes"
  | acts x scopes where "map_of TOOL_SCOPES name = Some (PerAction acts)" "action = Some x" "(x, scopes) \<in> set acts"
      "required_for_call name args = ReqScopes scopes"
proof (cases "name = ''update_redmine_issue'' \<or> name = ''create_redmine_issue''")
  case True
  then show thesis using that(1,2) by (auto simp: required_for_call_def)
next
  case False
  show thesis
  proof (cases "map_of TOOL_SCOPES name")
    case (Some rule)
    show thesis
    proof (cases rule)
      case (PerAction acts)
      then obtain x where x: "action = Some x" "x \<in> fst ` set acts" "action_str args = Some x"
        using assms Some by (auto simp: covered_def names_action_def split: option.splits)
      then obtain scopes where "map_of acts x = Some scopes" by (metis map_of_eq_None_iff not_None_eq)
      then show thesis
        using that(5) [OF _ x(1), of acts scopes] x False Some PerAction
        by (simp add: required_for_call_def map_of_SomeD)
    qed (use that(3,4) False Some in \<open>simp_all add: required_for_call_def\<close>)
  qed (use assms(1) in \<open>simp add: covered_def\<close>)
qed

lemma always_checked:
  assumes "covered name action" and "names_action args action"
  shows "required_for_call name args \<notin> {Unchecked, Unmapped}"
  by (rule requirement_known [OF assms])
    (auto simp: update_redmine_issue_requirement_def create_redmine_issue_requirement_def Let_def split: option.split)

lemma read_requirement:
  assumes "covered name action" and "names_action args action" and "name \<notin> set unscoped_writes"
    and meets: "meets (required_for_call name args) (set READ_SCOPES)"
  shows "reading name action"
proof (rule requirement_known [OF assms(1,2)])
  assume "required_for_call name args = update_redmine_issue_requirement args"
  then show ?thesis using update_meets meets by (fastforce simp: READ_SCOPES_def)
next
  assume "required_for_call name args = create_redmine_issue_requirement args"
  then show ?thesis using create_meets meets by (fastforce simp: READ_SCOPES_def CREATE_ISSUE_BASE_def)
next
  fix scopes
  assume r: "map_of TOOL_SCOPES name = Some (Fixed scopes)" "required_for_call name args = ReqScopes scopes"
  then have "name \<notin> set write_tools_all" "name \<notin> set PARTIAL_WRITE"
    using writes_scoped mixed_scoped assms(3) meets beyond_readingD by (auto simp: list_all_iff)
  then show ?thesis by (simp add: reading_def)
next
  fix scopes
  assume r: "map_of TOOL_SCOPES name = Some (AnyOf scopes)"
  then have "name \<notin> set write_tools_all" "name \<notin> set PARTIAL_WRITE"
    using writes_scoped mixed_scoped assms(3) by (auto simp: list_all_iff)
  then show ?thesis by (simp add: reading_def)
next
  fix acts x scopes
  assume r: "map_of TOOL_SCOPES name = Some (PerAction acts)" "action = Some x" "(x, scopes) \<in> set acts"
    "required_for_call name args = ReqScopes scopes"
  then have "\<not> beyond_reading scopes" using meets beyond_readingD by auto
  then show ?thesis using writes_scoped mixed_scoped assms(3) r by (fastforce simp: reading_def list_all_iff)
qed

section \<open>The contract\<close>

text \<open>
  A module: what it is given from outside and the call determine a program for the environment of the
  call; \<open>rt_names\<close> are the tools it registers.
\<close>

record ('w, 'c) router =
  rt_tool :: "'w \<Rightarrow> tool_env \<Rightarrow> 'c \<Rightarrow> tool_result prog"
  rt_name :: "'c \<Rightarrow> string"
  rt_action :: "'c \<Rightarrow> string option"
  rt_names :: "string list"
  rt_sound :: "'w \<Rightarrow> tool_env \<Rightarrow> 'c \<Rightarrow> bool"

locale tool_router =
  fixes R :: "('w, 'c) router"
  assumes named: "rt_name R c \<in> set (rt_names R)"
    and covered: "covered (rt_name R c) (rt_action R c)"
    and reads: "reading (rt_name R c) (rt_action R c) \<Longrightarrow> calls_ok (rt_tool R w E c) op_reads"
    and refuses: "co_read_only (te_config E) \<Longrightarrow> rt_name R c \<notin> set write_tools_all \<Longrightarrow> calls_ok (rt_tool R w E c) op_reads"
    and stays: "rt_sound R w E c \<Longrightarrow> calls_ok (rt_tool R w E c) paths_ok"
begin

lemma reading_run:
  "reading (rt_name R c) (rt_action R c) \<Longrightarrow> list_all op_reads (snd (run (rt_tool R w E c) S []))"
  by (rule run_all [OF reads])

lemma read_only_run:
  assumes "co_read_only (te_config E)" and "routed (server_config_of (te_config E)) (rt_name R c)"
  shows "list_all op_reads (snd (run (rt_tool R w E c) S []))"
  using assms by (intro run_all refuses) (simp_all add: routed_def server_config_of_def)

text \<open>
  A call whose arguments name its action is checked against the table, and with reading scopes alone it
  only reads, whatever the mode of the server.
\<close>

lemma checked_call: "names_action args (rt_action R c) \<Longrightarrow> required_for_call (rt_name R c) args \<notin> {Unchecked, Unmapped}"
  by (rule always_checked [OF covered])

lemma read_scope_run:
  assumes "held \<subseteq> set READ_SCOPES" and "scope_gate (rt_name R c) args held = None"
    and "names_action args (rt_action R c)" and "rt_name R c \<notin> set unscoped_writes"
  shows "list_all op_reads (snd (run (rt_tool R w E c) S []))"
proof -
  have "\<not> is_admin held" using assms(1) by (auto simp: is_admin_def ADMIN_SCOPE_def READ_SCOPES_def)
  then have "meets (required_for_call (rt_name R c) args) (set READ_SCOPES)"
    using assms(2) meets_mono [OF _ assms(1)] by (simp add: gate_open)
  then show ?thesis using reading_run [OF read_requirement [OF covered assms(3,4)]] by blast
qed

lemma routes_run: "rt_sound R w E c \<Longrightarrow> list_all paths_ok (snd (run (rt_tool R w E c) S []))"
  by (rule run_all [OF stays])

text \<open>An operation that writes comes from a call that is not a reading one, on a server that is not read-only.\<close>

lemma write_origin:
  assumes "op \<in> set (snd (run (rt_tool R w E c) S []))" and "\<not> op_reads op"
    and "routed (server_config_of (te_config E)) (rt_name R c)"
  shows "\<not> reading (rt_name R c) (rt_action R c) \<and> \<not> co_read_only (te_config E)"
  using assms reading_run read_only_run by (fastforce simp: list_all_iff)

end

section \<open>Merging\<close>

text \<open>\<^verbatim>\<open>ToolRouter::merge\<close>: a call belongs to one of the two modules.\<close>

definition merge :: "('w, 'c) router \<Rightarrow> ('v, 'd) router \<Rightarrow> ('w \<times> 'v, 'c + 'd) router" where
  "merge A B =
     \<lparr>rt_tool = (\<lambda>(w, v) E c. case c of Inl x \<Rightarrow> rt_tool A w E x | Inr y \<Rightarrow> rt_tool B v E y),
      rt_name = case_sum (rt_name A) (rt_name B), rt_action = case_sum (rt_action A) (rt_action B),
      rt_names = rt_names A @ rt_names B, rt_sound = (\<lambda>(w, v) E c. case c of Inl x \<Rightarrow> rt_sound A w E x | Inr y \<Rightarrow> rt_sound B v E y)\<rparr>"

locale merged_routers = l: tool_router A + r: tool_router B
  for A :: "('w, 'c) router" and B :: "('v, 'd) router"

sublocale merged_routers \<subseteq> both: tool_router "merge A B"
  by unfold_locales
    (auto simp: merge_def l.named r.named l.covered r.covered l.reads r.reads l.refuses r.refuses l.stays r.stays split: sum.splits)

context merged_routers
begin

lemma merged: "tool_router (merge A B)"
  by (rule both.tool_router_axioms)

end

lemma merge_router: "tool_router A \<Longrightarrow> tool_router B \<Longrightarrow> tool_router (merge A B)"
  by (rule merged_routers.merged [OF merged_routers.intro])

end
