(* ===== verification/Issue_Output.thy ===== *)
theory Issue_Output
  imports Custom_Fields Tool_Contract
begin

text \<open>
  What the issue tools return (\<^verbatim>\<open>tools/issues.rs\<close>): the output structures are built here directly as
  the JSON objects serde makes of them. A field with \<^verbatim>\<open>skip_serializing_if\<close> is left out, any other
  field without a value is \<^verbatim>\<open>null\<close>. Text that comes from Redmine goes through the boundary of the
  response.
\<close>

section \<open>Building objects\<close>

definition nullable :: "('a \<Rightarrow> json) \<Rightarrow> 'a option \<Rightarrow> json" where
  "nullable enc v = (case v of Some x \<Rightarrow> enc x | None \<Rightarrow> JNull)"

definition present :: "string \<Rightarrow> ('a \<Rightarrow> json) \<Rightarrow> 'a option \<Rightarrow> json_object" where
  "present k enc v = (case v of Some x \<Rightarrow> [(k, enc x)] | None \<Rightarrow> [])"

definition jnat :: "nat \<Rightarrow> json" where
  "jnat n = JInt (int n)"

definition jlist :: "('a \<Rightarrow> json) \<Rightarrow> 'a list \<Rightarrow> json" where
  "jlist enc xs = JArr (map enc xs)"

definition pagination_json :: "pagination \<Rightarrow> json" where
  "pagination_json p =
     JObj (obj_of ([(''total'', jnat (pn_total p)), (''limit'', jnat (pn_limit p)), (''offset'', jnat (pn_offset p)),
                    (''has_next'', JBool (pn_has_next p)), (''has_previous'', JBool (pn_has_previous p)),
                    (''next_offset'', nullable jnat (pn_next_offset p)),
                    (''previous_offset'', nullable jnat (pn_previous_offset p)),
                    (''truncated'', JBool (pn_truncated p))] @
                   present ''hint'' JStr (pn_hint p)))"

section \<open>Links\<close>

text \<open>
  The rewriting of download links. Without a public URL, for a link that does not parse and for one
  of another origin the link is returned as it is.
\<close>

definition content_url_apply :: "tool_env \<Rightarrow> string \<Rightarrow> string" where
  "content_url_apply E content_url =
     (let redmine = rm_url (co_redmine (te_config E))
      in case as_public_url_rewrite (co_attachments (te_config E)) of
           None \<Rightarrow> content_url
         | Some public_url \<Rightarrow>
             (case te_url E content_url of
                None \<Rightarrow> content_url
              | Some parsed \<Rightarrow>
                  if url_scheme parsed = url_scheme redmine \<and> url_host_str parsed = url_host_str redmine \<and>
                     url_port_or_known_default parsed = url_port_or_known_default redmine
                  then te_url_with E public_url (trim_end_matches (CHR ''/'') (url_path public_url) @ url_path parsed)
                         (url_query parsed) (url_fragment parsed)
                  else content_url))"

section \<open>Parts of an issue\<close>

definition id_name_out :: "tool_env \<Rightarrow> string \<Rightarrow> id_name \<Rightarrow> json" where
  "id_name_out E kind v = JObj (obj_of [(''id'', jnat (idn_id v)), (''name'', JStr (te_wrap E kind (idn_name v)))])"

record issue_field_set =
  fs_subject :: bool
  fs_description :: bool
  fs_project :: bool
  fs_status :: bool
  fs_priority :: bool
  fs_author :: bool
  fs_assigned_to :: bool
  fs_created_on :: bool
  fs_updated_on :: bool

definition issue_field_set_all :: issue_field_set where
  "issue_field_set_all = \<lparr>fs_subject = True, fs_description = True, fs_project = True, fs_status = True, fs_priority = True,
     fs_author = True, fs_assigned_to = True, fs_created_on = True, fs_updated_on = True\<rparr>"

definition issue_field_set_none :: issue_field_set where
  "issue_field_set_none = \<lparr>fs_subject = False, fs_description = False, fs_project = False, fs_status = False,
     fs_priority = False, fs_author = False, fs_assigned_to = False, fs_created_on = False, fs_updated_on = False\<rparr>"

definition select_field :: "string \<Rightarrow> issue_field_set \<Rightarrow> issue_field_set option" where
  "select_field f s =
     (if f = ''id'' \<or> f = ''tracker'' then Some s
      else if f = ''subject'' then Some (s\<lparr>fs_subject := True\<rparr>)
      else if f = ''description'' then Some (s\<lparr>fs_description := True\<rparr>)
      else if f = ''project'' then Some (s\<lparr>fs_project := True\<rparr>)
      else if f = ''status'' then Some (s\<lparr>fs_status := True\<rparr>)
      else if f = ''priority'' then Some (s\<lparr>fs_priority := True\<rparr>)
      else if f = ''author'' then Some (s\<lparr>fs_author := True\<rparr>)
      else if f = ''assigned_to'' then Some (s\<lparr>fs_assigned_to := True\<rparr>)
      else if f = ''created_on'' then Some (s\<lparr>fs_created_on := True\<rparr>)
      else if f = ''updated_on'' then Some (s\<lparr>fs_updated_on := True\<rparr>)
      else None)"

fun select_fields :: "string list \<Rightarrow> issue_field_set \<Rightarrow> mcp_error + issue_field_set" where
  "select_fields [] s = Inr s"
| "select_fields (f # fs) s = (case select_field f s of None \<Rightarrow> Inl InvalidParams | Some s' \<Rightarrow> select_fields fs s')"

definition resolve_issue_fields :: "string list option \<Rightarrow> mcp_error + issue_field_set" where
  "resolve_issue_fields fs =
     (case fs of
        None \<Rightarrow> Inr issue_field_set_all
      | Some names \<Rightarrow>
          if list_ex (\<lambda>f. f = ''*'' \<or> f = ''all'') names then Inr issue_field_set_all
          else select_fields names issue_field_set_none)"

definition given :: "bool \<Rightarrow> 'a \<Rightarrow> 'a option" where
  "given b x = (if b then Some x else None)"

definition issue_summary_out :: "tool_env \<Rightarrow> issue_field_set \<Rightarrow> issue \<Rightarrow> json" where
  "issue_summary_out E s i =
     JObj (obj_of
       ([(''id'', jnat (isu_id i)), (''tracker'', id_name_out E ''tracker.name'' (isu_tracker i))] @
        present ''subject'' JStr (given (fs_subject s) (te_wrap E ''issue.subject'' (isu_subject i))) @
        present ''description'' JStr
          (if fs_description s then map_option (te_wrap E ''issue.description'') (isu_description i) else None) @
        present ''project'' (id_name_out E ''project.name'') (given (fs_project s) (isu_project i)) @
        present ''status'' (id_name_out E ''issue_status.name'') (given (fs_status s) (isu_status i)) @
        present ''priority'' (id_name_out E ''issue_priority.name'') (given (fs_priority s) (isu_priority i)) @
        present ''author'' (id_name_out E ''user.name'') (given (fs_author s) (isu_author i)) @
        present ''assigned_to'' (id_name_out E ''user.name'') (if fs_assigned_to s then isu_assigned_to i else None) @
        present ''created_on'' JStr (given (fs_created_on s) (isu_created_on i)) @
        present ''updated_on'' JStr (given (fs_updated_on s) (isu_updated_on i))))"

definition clamp_issues_limit :: "nat option \<Rightarrow> nat" where
  "clamp_issues_limit limit = max 1 (min 1000 (case limit of Some n \<Rightarrow> n | None \<Rightarrow> 25))"

definition issues_output :: "json list \<Rightarrow> pagination option \<Rightarrow> json" where
  "issues_output issues pagn = JObj (obj_of ([(''issues'', JArr issues)] @ present ''pagination'' pagination_json pagn))"

definition journal_out :: "tool_env \<Rightarrow> journal \<Rightarrow> json" where
  "journal_out E j =
     JObj (obj_of
       ([(''id'', jnat (jr_id j)), (''user'', nullable (id_name_out E ''user.name'') (jr_user j)),
         (''notes'', nullable (\<lambda>n. JStr (te_wrap E ''journal.notes'' n)) (jr_notes j)),
         (''created_on'', JStr (jr_created_on j))] @
        present ''updated_on'' JStr (jr_updated_on j) @
        present ''updated_by'' (id_name_out E ''user.name'') (jr_updated_by j) @
        [(''private_notes'', nullable JBool (jr_private_notes j))]))"

definition attachment_out :: "tool_env \<Rightarrow> attachment \<Rightarrow> json" where
  "attachment_out E a =
     JObj (obj_of
       [(''id'', jnat (at_id a)), (''filename'', JStr (te_wrap E ''attachment.filename'' (at_filename a))),
        (''filesize'', jnat (at_filesize a)), (''content_type'', nullable JStr (at_content_type a)),
        (''description'', nullable (\<lambda>d. JStr (te_wrap E ''attachment.description'' d)) (at_description a)),
        (''content_url'', JStr (content_url_apply E (at_content_url a))),
        (''author'', nullable (id_name_out E ''user.name'') (at_author a)), (''created_on'', JStr (at_created_on a))])"

definition relation_out :: "issue_relation \<Rightarrow> json" where
  "relation_out r =
     JObj (obj_of
       [(''id'', jnat (irl_id r)), (''issue_id'', jnat (irl_issue_id r)), (''issue_to_id'', jnat (irl_issue_to_id r)),
        (''relation_type'', JStr (irl_relation_type r)), (''delay'', nullable JInt (irl_delay r))])"

definition issue_child_leaf_out :: "tool_env \<Rightarrow> issue_child_leaf \<Rightarrow> json" where
  "issue_child_leaf_out E c =
     JObj (obj_of
       [(''id'', jnat (icl_id c)), (''tracker'', nullable (id_name_out E ''tracker.name'') (icl_tracker c)),
        (''subject'', JStr (te_wrap E ''issue.subject'' (icl_subject c)))])"

definition issue_child_out :: "tool_env \<Rightarrow> issue_child \<Rightarrow> json" where
  "issue_child_out E c =
     JObj (obj_of
       [(''id'', jnat (ich_id c)), (''tracker'', nullable (id_name_out E ''tracker.name'') (ich_tracker c)),
        (''subject'', JStr (te_wrap E ''issue.subject'' (ich_subject c))),
        (''children'', nullable (jlist (issue_child_leaf_out E)) (ich_children c))])"

fun custom_value_out :: "tool_env \<Rightarrow> cf_value option \<Rightarrow> json" where
  "custom_value_out E (Some (CfSingle (Some s))) = JStr (te_wrap E ''issue.custom_field.value'' s)"
| "custom_value_out E (Some (CfMultiple vs)) = JArr (map (\<lambda>s. JStr (te_wrap E ''issue.custom_field.value'' s)) vs)"
| "custom_value_out E _ = JNull"

definition custom_field_value_out :: "tool_env \<Rightarrow> nat \<Rightarrow> string \<Rightarrow> cf_value option \<Rightarrow> json" where
  "custom_field_value_out E i name v =
     JObj (obj_of [(''id'', jnat i), (''name'', JStr (te_wrap E ''issue.custom_field.name'' name)),
                   (''value'', custom_value_out E v)])"

definition allowed_status_out :: "tool_env \<Rightarrow> allowed_status \<Rightarrow> json" where
  "allowed_status_out E s =
     JObj (obj_of [(''id'', jnat (als_id s)), (''name'', JStr (te_wrap E ''issue_status.name'' (als_name s))),
                   (''is_closed'', nullable JBool (als_is_closed s))])"

definition tag_out :: "tool_env \<Rightarrow> issue_tag \<Rightarrow> json" where
  "tag_out E t = JObj (obj_of [(''id'', nullable jnat (itg_id t)), (''name'', JStr (te_wrap E ''issue.tag.name'' (itg_name t)))])"

section \<open>One issue in full\<close>

record journal_pagination =
  jp_total :: nat
  jp_offset :: nat
  jp_limit :: nat
  jp_count :: nat
  jp_has_more :: bool

definition journal_pagination_json :: "journal_pagination \<Rightarrow> json" where
  "journal_pagination_json p =
     JObj (obj_of [(''total'', jnat (jp_total p)), (''offset'', jnat (jp_offset p)), (''limit'', jnat (jp_limit p)),
                   (''count'', jnat (jp_count p)), (''has_more'', JBool (jp_has_more p))])"

text \<open>The page of journals; \<open>skip\<close> and \<open>take\<close> of an iterator do not fail past its end.\<close>

definition page_journals ::
    "journal list option \<Rightarrow> nat option \<Rightarrow> nat option \<Rightarrow> journal list option \<times> journal_pagination option" where
  "page_journals journals limit offset =
     (case (journals, limit) of
        (Some js, Some n) \<Rightarrow>
          (let off = (case offset of Some m \<Rightarrow> m | None \<Rightarrow> 0); shown = take n (drop off js)
           in (Some shown,
               Some \<lparr>jp_total = length js, jp_offset = off, jp_limit = n, jp_count = length shown,
                     jp_has_more = sat_add off (length shown) < length js\<rparr>))
      | (Some js, None) \<Rightarrow> (Some js, None)
      | (None, _) \<Rightarrow> (None, None))"

definition issue_detail_out ::
    "tool_env \<Rightarrow> issue \<Rightarrow> nat option \<Rightarrow> nat option \<Rightarrow> agile_data option \<Rightarrow> bool \<Rightarrow> json" where
  "issue_detail_out E i journal_limit journal_offset agile tags_enabled =
     (case page_journals (isu_journals i) journal_limit journal_offset of
        (journals, paging) \<Rightarrow>
          JObj (obj_of
            ([(''id'', jnat (isu_id i)),
              (''project'', id_name_out E ''project.name'' (isu_project i)),
              (''tracker'', id_name_out E ''tracker.name'' (isu_tracker i)),
              (''status'', id_name_out E ''issue_status.name'' (isu_status i)),
              (''priority'', id_name_out E ''issue_priority.name'' (isu_priority i)),
              (''author'', id_name_out E ''user.name'' (isu_author i)),
              (''assigned_to'', nullable (id_name_out E ''user.name'') (isu_assigned_to i)),
              (''parent'', nullable (\<lambda>p. JObj (obj_of [(''id'', jnat p)])) (isu_parent i)),
              (''category'', nullable (id_name_out E ''issue_category.name'') (isu_category i)),
              (''fixed_version'', nullable (id_name_out E ''version.name'') (isu_fixed_version i)),
              (''subject'', JStr (te_wrap E ''issue.subject'' (isu_subject i))),
              (''description'', nullable (\<lambda>d. JStr (te_wrap E ''issue.description'' d)) (isu_description i)),
              (''start_date'', nullable JStr (isu_start_date i)),
              (''due_date'', nullable JStr (isu_due_date i)),
              (''done_ratio'', nullable jnat (isu_done_ratio i)),
              (''is_private'', nullable JBool (isu_is_private i)),
              (''estimated_hours'', nullable JFloat (isu_estimated_hours i)),
              (''spent_hours'', nullable JFloat (isu_spent_hours i)),
              (''custom_fields'', nullable (jlist (\<lambda>f. custom_field_value_out E (cfd_id f) (cfd_name f) (cfd_value f)))
                                    (isu_custom_fields i)),
              (''created_on'', JStr (isu_created_on i)),
              (''updated_on'', JStr (isu_updated_on i)),
              (''closed_on'', nullable JStr (isu_closed_on i))] @
             present ''journals'' (jlist (journal_out E)) journals @
             present ''journal_pagination'' journal_pagination_json paging @
             present ''attachments'' (jlist (attachment_out E)) (isu_attachments i) @
             present ''watchers'' (jlist (id_name_out E ''user.name'')) (isu_watchers i) @
             present ''relations'' (jlist relation_out) (isu_relations i) @
             present ''children'' (jlist (issue_child_out E)) (isu_children i) @
             present ''allowed_statuses'' (jlist (allowed_status_out E)) (isu_allowed_statuses i) @
             present ''story_points'' (nullable jnat) (map_option agd_story_points agile) @
             present ''agile_sprint_id'' (nullable jnat) (map_option agd_sprint_id agile) @
             present ''agile_position'' (nullable jnat) (map_option agd_position agile) @
             present ''tags'' (jlist (tag_out E)) (if tags_enabled then isu_tags i else None))))"

definition issue_category_out :: "tool_env \<Rightarrow> issue_category \<Rightarrow> json" where
  "issue_category_out E c =
     JObj (obj_of
       [(''id'', jnat (icat_id c)), (''name'', JStr (te_wrap E ''issue_category.name'' (icat_name c))),
        (''project'', nullable (id_name_out E ''project.name'') (icat_project c)),
        (''assigned_to'', nullable (id_name_out E ''user.name'') (icat_assigned_to c))])"

section \<open>Lists that are cut\<close>

text \<open>An answer without a pagination object has no place for the mark of a cut.\<close>

lemma unmarked_cut:
  assumes "top_level_array (JObj m) = Some xs" "''pagination'' \<notin> fst ` set m" "oc_max_items caps < length xs"
  obtains ys where "ok ff caps (JObj m) = \<lparr>ct_is_error = False, ct_structured = JObj (replace_array ys m)\<rparr>"
    and "length ys \<le> oc_max_items caps"
proof -
  have keys: "fst ` set (replace_array ys m) = fst ` set m" for ys
    by (induction ys m rule: replace_array.induct) auto
  have twice: "replace_array ys (replace_array zs m) = replace_array ys m" for ys zs
    by (induction zs m rule: replace_array.induct) auto
  have plain: "mark_truncated (JObj (replace_array ys m)) = JObj (replace_array ys m)" for ys
    using assms(2) keys [of ys] by (auto simp: mark_truncated_def intro!: map_idI) (metis fst_conv image_eqI)
  obtain k where "apply_caps ff caps (JObj m) =
      (let w = put_array (take k (take (oc_max_items caps) xs)) (capped_items caps (JObj m) xs)
       in if k < length xs then mark_truncated w else w)"
    using apply_caps_capped [OF assms(1), of ff caps] by blast
  then have "apply_caps ff caps (JObj m) = JObj (replace_array (take k (take (oc_max_items caps) xs)) m)"
    using assms(3) by (simp add: capped_items_def put_array_def Let_def twice plain)
  then show ?thesis using that [of "take k (take (oc_max_items caps) xs)"] by (simp add: ok_def)
qed

end
