(* ===== verification/Untrusted_Text.thy ===== *)
theory Untrusted_Text
  imports Issue_Output
begin

text \<open>
  Where text from Redmine may stand in the answer of an issue tool. Every string of the JSON form of an
  issue is either one of a fixed list of machine-written values or inside the boundary of the response.
\<close>

section \<open>Strings of a JSON value\<close>

fun json_strs :: "json \<Rightarrow> string list" where
  "json_strs (JStr s) = [s]"
| "json_strs (JArr js) = concat (map json_strs js)"
| "json_strs (JObj kvs) = concat (map (\<lambda>kv. json_strs (snd kv)) kvs)"
| "json_strs _ = []"

definition strs_in :: "string set \<Rightarrow> json \<Rightarrow> bool" where
  "strs_in A v \<longleftrightarrow> set (json_strs v) \<subseteq> A"

named_theorems strs_simps

lemma strs_in_simps [strs_simps]:
  "strs_in A JNull" "strs_in A (JBool b)" "strs_in A (JInt n)" "strs_in A (JFloat r)" "strs_in A (jnat m)"
  "strs_in A (JStr s) = (s \<in> A)"
  "strs_in A (JArr js) = (\<forall>j\<in>set js. strs_in A j)"
  "strs_in A (jlist enc xs) = (\<forall>x\<in>set xs. strs_in A (enc x))"
  "strs_in A (nullable enc v) = (\<forall>x\<in>set_option v. strs_in A (enc x))"
  by (auto simp: strs_in_def jnat_def jlist_def nullable_def split: option.split)

abbreviation entries_in :: "string set \<Rightarrow> json_object \<Rightarrow> bool" where
  "entries_in A kvs \<equiv> list_all (\<lambda>kv. strs_in A (snd kv)) kvs"

lemma entries_in_insert: "entries_in A m \<Longrightarrow> strs_in A v \<Longrightarrow> entries_in A (obj_insert k v m)"
  by (induction k v m rule: obj_insert.induct) auto

lemma entries_in_foldl:
  "entries_in A m \<Longrightarrow> entries_in A kvs \<Longrightarrow> entries_in A (foldl (\<lambda>m (k, v). obj_insert k v m) m kvs)"
  by (induction kvs arbitrary: m) (simp_all add: entries_in_insert split_beta)

lemma strs_in_obj_of: "entries_in A kvs \<Longrightarrow> strs_in A (JObj (obj_of kvs))"
  using entries_in_foldl [of A "[]" kvs] by (auto simp: obj_of_def strs_in_def list_all_iff)

lemma entries_in_present [strs_simps]: "entries_in A (present k enc v) = (\<forall>x\<in>set_option v. strs_in A (enc x))"
  by (auto simp: present_def split: option.split)

lemma strs_in_mono: "strs_in A v \<Longrightarrow> A \<subseteq> B \<Longrightarrow> strs_in B v"
  by (auto simp: strs_in_def)

section \<open>Parts of an issue\<close>

definition wrapped :: "tool_env \<Rightarrow> string set" where
  "wrapped E = {te_wrap E kind x | kind x. CHR ''<'' \<notin> set kind}"

lemma te_wrap_wrapped [strs_simps]: "CHR ''<'' \<notin> set kind \<Longrightarrow> te_wrap E kind x \<in> wrapped E"
  by (auto simp: wrapped_def)

lemma id_name_wrapped: "CHR ''<'' \<notin> set kind \<Longrightarrow> strs_in (wrapped E) (id_name_out E kind v)"
  by (simp add: id_name_out_def strs_in_obj_of strs_simps)

lemma child_wrapped: "strs_in (wrapped E) (issue_child_leaf_out E l)" "strs_in (wrapped E) (issue_child_out E c)"
  by (simp_all add: issue_child_leaf_out_def issue_child_out_def strs_in_obj_of strs_simps id_name_wrapped)

lemma custom_field_wrapped: "strs_in (wrapped E) (custom_field_value_out E n name v)"
  by (cases "(E, v)" rule: custom_value_out.cases)
    (simp_all add: custom_field_value_out_def strs_in_obj_of strs_simps)

lemma status_tag_wrapped: "strs_in (wrapped E) (allowed_status_out E a)" "strs_in (wrapped E) (tag_out E t)"
  by (simp_all add: allowed_status_out_def tag_out_def strs_in_obj_of strs_simps)

text \<open>The strings that are not wrapped: points in time, links, relation types and content types.\<close>

definition journal_machine_text :: "journal \<Rightarrow> string set" where
  "journal_machine_text j = {jr_created_on j} \<union> set_option (jr_updated_on j)"

definition attachment_machine_text :: "tool_env \<Rightarrow> attachment \<Rightarrow> string set" where
  "attachment_machine_text E a =
     {at_created_on a, content_url_apply E (at_content_url a)} \<union> set_option (at_content_type a)"

definition issue_machine_text :: "tool_env \<Rightarrow> issue \<Rightarrow> string set" where
  "issue_machine_text E i =
     {isu_created_on i, isu_updated_on i} \<union> set_option (isu_start_date i) \<union> set_option (isu_due_date i) \<union>
     set_option (isu_closed_on i) \<union>
     (\<Union>js\<in>set_option (isu_journals i). \<Union>j\<in>set js. journal_machine_text j) \<union>
     (\<Union>as\<in>set_option (isu_attachments i). \<Union>a\<in>set as. attachment_machine_text E a) \<union>
     (\<Union>rs\<in>set_option (isu_relations i). irl_relation_type ` set rs)"

lemma journal_strs: "strs_in (wrapped E \<union> journal_machine_text j) (journal_out E j)"
  by (auto simp: journal_out_def strs_simps journal_machine_text_def
      intro!: strs_in_obj_of id_name_wrapped [THEN strs_in_mono])

lemma attachment_strs: "strs_in (wrapped E \<union> attachment_machine_text E a) (attachment_out E a)"
  by (auto simp: attachment_out_def strs_simps attachment_machine_text_def
      intro!: strs_in_obj_of id_name_wrapped [THEN strs_in_mono])

lemma relation_strs: "strs_in {irl_relation_type r} (relation_out r)"
  by (auto simp: relation_out_def strs_simps intro!: strs_in_obj_of)

lemma journals_shown: "x \<in> set_option (fst (page_journals js l f)) \<Longrightarrow> \<exists>y. js = Some y \<and> set x \<subseteq> set y"
  by (auto simp: page_journals_def Let_def split: option.split_asm dest: in_set_takeD in_set_dropD)

lemma journals_strs:
  assumes "js \<in> set_option (fst (page_journals (isu_journals i) l f))" "j \<in> set js"
  shows "strs_in (wrapped E \<union> issue_machine_text E i) (journal_out E j)"
  using journals_shown [OF assms(1)] assms(2)
  by (intro strs_in_mono [OF journal_strs]) (auto simp: issue_machine_text_def)

lemma attachments_strs:
  "as \<in> set_option (isu_attachments i) \<Longrightarrow> a \<in> set as \<Longrightarrow> strs_in (wrapped E \<union> issue_machine_text E i) (attachment_out E a)"
  by (intro strs_in_mono [OF attachment_strs]) (auto simp: issue_machine_text_def)

lemma relations_strs:
  "rs \<in> set_option (isu_relations i) \<Longrightarrow> r \<in> set rs \<Longrightarrow> strs_in (wrapped E \<union> issue_machine_text E i) (relation_out r)"
  by (intro strs_in_mono [OF relation_strs]) (auto simp: issue_machine_text_def)

lemma dates_strs:
  "isu_created_on i \<in> issue_machine_text E i" "isu_updated_on i \<in> issue_machine_text E i"
  "d \<in> set_option (isu_start_date i) \<Longrightarrow> d \<in> issue_machine_text E i"
  "d \<in> set_option (isu_due_date i) \<Longrightarrow> d \<in> issue_machine_text E i"
  "d \<in> set_option (isu_closed_on i) \<Longrightarrow> d \<in> issue_machine_text E i"
  by (auto simp: issue_machine_text_def)

lemmas text_parts = id_name_wrapped [THEN strs_in_mono, OF _ Un_upper1] child_wrapped [THEN strs_in_mono, OF Un_upper1]
  custom_field_wrapped [THEN strs_in_mono, OF Un_upper1] status_tag_wrapped [THEN strs_in_mono, OF Un_upper1]

lemma paging_strs: "strs_in A (journal_pagination_json p)"
  by (simp add: journal_pagination_json_def strs_in_obj_of strs_simps)

text \<open>
  C22. Text that users wrote reaches the model only inside the boundary. Every string of the full form of
  an issue is wrapped in the delimiters of the response, except dates and times, download links,
  relation types and the content types of attachments. The same holds for the summary of an issue in a
  list, with its two points in time.
\<close>

theorem issue_text_wrapped:
  "set (json_strs (issue_detail_out E i journal_limit journal_offset agile tags_enabled)) \<subseteq> wrapped E \<union> issue_machine_text E i \<and>
   set (json_strs (issue_summary_out E fs i)) \<subseteq> wrapped E \<union> {isu_created_on i, isu_updated_on i}"
proof -
  let ?A = "wrapped E \<union> issue_machine_text E i"
  have "strs_in ?A (issue_detail_out E i journal_limit journal_offset agile tags_enabled)"
    unfolding issue_detail_out_def split_beta
    by (intro strs_in_obj_of, unfold list_all_append list.pred_inject snd_conv entries_in_present, intro conjI TrueI)
      (simp_all add: strs_simps text_parts paging_strs journals_strs attachments_strs relations_strs dates_strs strs_in_obj_of)
  moreover have "strs_in (wrapped E \<union> {isu_created_on i, isu_updated_on i}) (issue_summary_out E fs i)"
    unfolding issue_summary_out_def
    by (intro strs_in_obj_of, unfold list_all_append list.pred_inject snd_conv entries_in_present, intro conjI TrueI)
      (auto simp: strs_simps given_def intro!: id_name_wrapped [THEN strs_in_mono])
  ultimately show ?thesis by (simp add: strs_in_def)
qed

end
