(* ===== verification/Http_Transport.thy ===== *)
theory Http_Transport
  imports Render Attachments Rate_Limit Token_Verifier Config Rest_Api
begin

text \<open>
  The HTTP transport (\<^verbatim>\<open>transport/http.rs\<close>): the two classes of rate limits, the table of routes with
  their layers, the revocation endpoint of the resource server, the host check and the headers of the
  file route. Parsing of an authority, of a form and of base64, and the check of a header value, are
  those of the crates that do it. What axum and tower do with the table is not modelled.
\<close>

section \<open>Requests and answers\<close>

record request_authority =
  ra_host :: string
  ra_port :: "nat option"

record edge_request =
  eq_authorization :: "string list"
  eq_peer :: "ip_addr option"
  eq_host :: "string option"
  eq_uri_authority :: "(string \<times> nat option) option"
  eq_content_type :: "string option"
  eq_body :: string

datatype reply_body = NoContent | TextBody string | JsonReply json | FileContents "uuid \<times> ustr"

record edge_reply =
  er_status :: nat
  er_headers :: "(string \<times> string) list"
  er_body :: reply_body

text \<open>The functions of the crates.\<close>

record edge_env =
  ee_crypto :: crypto
  ee_to_str :: "string \<Rightarrow> string option"
  ee_header :: "string \<Rightarrow> bool"
  ee_authority :: "string \<Rightarrow> (string \<times> nat option) option"
  ee_form :: "string \<Rightarrow> (string \<times> string) list"
  ee_b64_decode :: "string \<Rightarrow> string option"
  ee_utf8 :: "string \<Rightarrow> bool"

section \<open>Rate limiting\<close>

datatype limit_key = KeyIp ip_addr | KeyToken digest | KeyFallback

definition standard_key :: "edge_env \<Rightarrow> edge_request \<Rightarrow> limit_key" where
  "standard_key W req =
     (case extract_bearer (ee_to_str W) (eq_authorization req) of
        Inr token \<Rightarrow> KeyToken (verifier_digest (ee_crypto W) token)
      | Inl _ \<Rightarrow> (case eq_peer req of Some ip \<Rightarrow> KeyIp ip | None \<Rightarrow> KeyFallback))"

definition strict_key :: "edge_request \<Rightarrow> limit_key option" where
  "strict_key req = map_option KeyIp (eq_peer req)"

definition too_many_requests :: "edge_env \<Rightarrow> nat \<Rightarrow> edge_reply" where
  "too_many_requests W secs =
     \<lparr>er_status = 429,
      er_headers = [(''retry-after'', if ee_header W (nat_str secs) then nat_str secs else ''1''),
                    (''cache-control'', ''no-store'')],
      er_body = JsonReply (JObj (obj_of [(''error'', JStr ''rate_limited'')]))\<rparr>"

definition apply_decision :: "edge_env \<Rightarrow> decision \<Rightarrow> edge_reply option" where
  "apply_decision W d = (case d of Allow _ \<Rightarrow> None | Deny secs _ \<Rightarrow> Some (too_many_requests W secs))"

text \<open>The hasher of the limiter and the order of its maps; \<open>None\<close> lets the request through.\<close>

record limiter_env =
  le_hash :: "limit_key \<Rightarrow> 64 word"
  le_iter :: "limit_key shard \<Rightarrow> (limit_key \<times> bucket) list"

definition rate_limit_standard ::
    "edge_env \<Rightarrow> limiter_env \<Rightarrow> instant \<Rightarrow> edge_request \<Rightarrow> limit_key limiter \<Rightarrow> edge_reply option \<times> limit_key limiter" where
  "rate_limit_standard W L now req lm =
     (case check (le_hash L) (le_iter L) (standard_key W req) now lm of (d, lm') \<Rightarrow> (apply_decision W d, lm'))"

definition rate_limit_strict ::
    "edge_env \<Rightarrow> limiter_env \<Rightarrow> instant \<Rightarrow> edge_request \<Rightarrow> limit_key limiter \<Rightarrow> edge_reply option \<times> limit_key limiter" where
  "rate_limit_strict W L now req lm =
     (case strict_key req of
        None \<Rightarrow> (Some (too_many_requests W 1), lm)
      | Some key \<Rightarrow> (case check (le_hash L) (le_iter L) key now lm of (d, lm') \<Rightarrow> (apply_decision W d, lm')))"

definition build_limiters :: "http_settings \<Rightarrow> (limit_key limiter \<times> limit_key limiter) option" where
  "build_limiters cfg =
     (let rl = hs_rate_limit cfg
      in if \<not> rl_enabled rl then None
         else Some (limiter_new (rl_standard_rps rl) (rl_standard_burst rl) (rl_max_keys rl),
                    limiter_new (rl_strict_rps rl) (rl_strict_burst rl) (rl_max_keys rl)))"

section \<open>Discovery documents\<close>

datatype discovery_mode = DmOauth | DmOAuthProxy

definition discovery_from_auth :: "config_auth \<Rightarrow> (discovery_mode \<times> oauth_config) option" where
  "discovery_from_auth auth =
     (case auth of
        CfgOAuth oauth \<Rightarrow> Some (DmOauth, oauth)
      | CfgOAuthProxy proxy \<Rightarrow> Some (DmOAuthProxy, op_resource proxy)
      | _ \<Rightarrow> None)"

definition strip_slash :: "string \<Rightarrow> string" where
  "strip_slash raw = (case strip_suffix raw ''/'' of Some t \<Rightarrow> t | None \<Rightarrow> raw)"

text \<open>\<open>show_url\<close> is \<^verbatim>\<open>Url::as_str\<close>.\<close>

definition issuer :: "(url_q \<Rightarrow> string) \<Rightarrow> config \<Rightarrow> oauth_config \<Rightarrow> string" where
  "issuer show_url cfg oauth =
     (case oc_discovery_as oauth of
        DiscoveryRedmine \<Rightarrow> strip_slash (show_url (rm_url (co_redmine cfg)))
      | DiscoverySelfHosted \<Rightarrow> strip_slash (show_url (oc_base_url oauth)))"

definition jstrs :: "string list \<Rightarrow> json" where
  "jstrs ss = JArr (map JStr ss)"

definition protected_resource :: "(url_q \<Rightarrow> string) \<Rightarrow> config \<Rightarrow> oauth_config \<Rightarrow> string \<Rightarrow> json" where
  "protected_resource show_url cfg oauth mcp_path =
     JObj (obj_of
       [(''resource'', JStr (strip_slash (show_url (oc_base_url oauth)) @ mcp_path)),
        (''authorization_servers'', jstrs [issuer show_url cfg oauth]),
        (''scopes_supported'', jstrs (oc_scopes oauth)),
        (''bearer_methods_supported'', jstrs [''header'']),
        (''resource_name'', JStr ''ruprogress-mcp'')])"

definition authorization_server :: "(url_q \<Rightarrow> string) \<Rightarrow> config \<Rightarrow> oauth_config \<Rightarrow> discovery_mode \<Rightarrow> json" where
  "authorization_server show_url cfg oauth mode =
     (case mode of
        DmOauth \<Rightarrow>
          (let redmine_base = strip_slash (show_url (rm_url (co_redmine cfg)))
           in JObj (obj_of
                [(''issuer'', JStr (issuer show_url cfg oauth)),
                 (''authorization_endpoint'', JStr (redmine_base @ ''/oauth/authorize'')),
                 (''token_endpoint'', JStr (redmine_base @ ''/oauth/token'')),
                 (''revocation_endpoint'', JStr (redmine_base @ ''/oauth/revoke'')),
                 (''response_types_supported'', jstrs [''code'']),
                 (''grant_types_supported'', jstrs [''authorization_code'', ''refresh_token'']),
                 (''code_challenge_methods_supported'', jstrs [''S256'']),
                 (''token_endpoint_auth_methods_supported'', jstrs [''client_secret_basic'', ''client_secret_post'']),
                 (''scopes_supported'', jstrs (oc_scopes oauth))]))
      | DmOAuthProxy \<Rightarrow>
          (let base = strip_slash (show_url (oc_base_url oauth))
           in JObj (obj_of
                [(''issuer'', JStr (issuer show_url cfg oauth)),
                 (''authorization_endpoint'', JStr (base @ ''/authorize'')),
                 (''token_endpoint'', JStr (base @ ''/token'')),
                 (''registration_endpoint'', JStr (base @ ''/register'')),
                 (''revocation_endpoint'', JStr (base @ ''/revoke'')),
                 (''response_types_supported'', jstrs [''code'']),
                 (''grant_types_supported'', jstrs [''authorization_code'', ''refresh_token'']),
                 (''code_challenge_methods_supported'', jstrs [''S256'']),
                 (''token_endpoint_auth_methods_supported'', jstrs [''none'']),
                 (''authorization_response_iss_parameter_supported'', JBool True),
                 (''scopes_supported'', jstrs (oc_scopes oauth))])))"

section \<open>Routes\<close>

datatype auth_layer = NoAuth | RequireBearer | RequireProxyBearer
datatype limit_class = NotLimited | StandardClass | StrictClass
datatype handler =
    HMcp | HLivez | HReadyz | HServeFile | HProtectedResource | HAuthorizationServer | HRevoke
  | HRegister | HAuthorize | HAuthCallback | HToken | HProxyRevoke

record mounted =
  mt_path :: string
  mt_handler :: handler
  mt_auth :: auth_layer
  mt_limit :: limit_class
  mt_host_check :: bool
  mt_cache_control :: "string option"

definition layer_class :: "http_settings \<Rightarrow> limit_class \<Rightarrow> limit_class" where
  "layer_class cfg c = (if rl_enabled (hs_rate_limit cfg) then c else NotLimited)"

definition mcp_auth :: "config_auth \<Rightarrow> auth_layer" where
  "mcp_auth auth =
     (case discovery_from_auth auth of
        Some (DmOauth, _) \<Rightarrow> RequireBearer
      | Some (DmOAuthProxy, _) \<Rightarrow> RequireProxyBearer
      | None \<Rightarrow> NoAuth)"

text \<open>The host check of the MCP route is inside rmcp's service.\<close>

definition mcp_route :: "config \<Rightarrow> http_settings \<Rightarrow> mounted" where
  "mcp_route cfg http =
     \<lparr>mt_path = hs_mcp_path http, mt_handler = HMcp, mt_auth = mcp_auth (co_auth cfg),
      mt_limit = layer_class http StandardClass, mt_host_check = True, mt_cache_control = None\<rparr>"

definition health_route :: "string \<Rightarrow> handler \<Rightarrow> mounted" where
  "health_route p h =
     \<lparr>mt_path = p, mt_handler = h, mt_auth = NoAuth, mt_limit = NotLimited, mt_host_check = False,
      mt_cache_control = Some ''no-store''\<rparr>"

definition health_routes :: "mounted list" where
  "health_routes = [health_route ''/livez'' HLivez, health_route ''/readyz'' HReadyz, health_route ''/health'' HReadyz]"

definition files_route :: "http_settings \<Rightarrow> mounted" where
  "files_route http =
     \<lparr>mt_path = ''/files/{uuid}'', mt_handler = HServeFile, mt_auth = NoAuth,
      mt_limit = layer_class http StandardClass, mt_host_check = True, mt_cache_control = Some ''no-store''\<rparr>"

definition public_route :: "string \<Rightarrow> handler \<Rightarrow> limit_class \<Rightarrow> string option \<Rightarrow> mounted" where
  "public_route p h c cc =
     \<lparr>mt_path = p, mt_handler = h, mt_auth = NoAuth, mt_limit = c, mt_host_check = False, mt_cache_control = cc\<rparr>"

definition well_known_routes :: "oauth_config \<Rightarrow> string \<Rightarrow> mounted list" where
  "well_known_routes oauth mcp_path =
     [public_route (''/.well-known/oauth-protected-resource'' @ mcp_path) HProtectedResource NotLimited (Some ''public, max-age=300''),
      public_route
        (case oc_discovery_as oauth of
           DiscoveryRedmine \<Rightarrow> ''/.well-known/oauth-authorization-server'' @ mcp_path
         | DiscoverySelfHosted \<Rightarrow> ''/.well-known/oauth-authorization-server'')
        HAuthorizationServer NotLimited (Some ''public, max-age=300'')]"

definition proxy_flow_routes :: "http_settings \<Rightarrow> mounted list" where
  "proxy_flow_routes http =
     map (\<lambda>(p, h). public_route p h (layer_class http StrictClass) None)
       [(''/register'', HRegister), (''/authorize'', HAuthorize), (''/auth/callback'', HAuthCallback),
        (''/token'', HToken), (''/revoke'', HProxyRevoke)]"

definition router_routes :: "config \<Rightarrow> http_settings \<Rightarrow> mounted list" where
  "router_routes cfg http =
     [mcp_route cfg http] @ health_routes @ [files_route http] @
     (case discovery_from_auth (co_auth cfg) of
        None \<Rightarrow> []
      | Some (mode, oauth) \<Rightarrow>
          well_known_routes oauth (hs_mcp_path http) @
          (if mode = DmOauth then [public_route ''/revoke'' HRevoke NotLimited None] else proxy_flow_routes http))"

record cors =
  cors_origins :: "string list"
  cors_methods :: "string list"
  cors_headers :: "string list"
  cors_exposed :: "string list"

section \<open>Revocation\<close>

definition MAX_REVOKE_BODY_BYTES :: nat where
  "MAX_REVOKE_BODY_BYTES = 8 * 1024"

definition request_is_form :: "edge_env \<Rightarrow> edge_request \<Rightarrow> bool" where
  "request_is_form W req =
     (case eq_content_type req of
        None \<Rightarrow> False
      | Some raw \<Rightarrow>
          (case ee_to_str W raw of
             None \<Rightarrow> False
           | Some v \<Rightarrow>
               eq_ignore_ascii_case (trim (case split_once v '';'' of Some (first, _) \<Rightarrow> first | None \<Rightarrow> v))
                 ''application/x-www-form-urlencoded''))"

text \<open>The fields of a form in a \<^verbatim>\<open>HashMap\<close>: of two with the same name the later one counts.\<close>

definition form_field :: "(string \<times> string) list \<Rightarrow> string \<Rightarrow> string option" where
  "form_field fs k = map_of (rev fs) k"

definition client_credential :: "edge_env \<Rightarrow> string option \<Rightarrow> (string \<times> string) list \<Rightarrow> credential option" where
  "client_credential W auth_header fs =
     (case auth_header of
        Some value \<Rightarrow>
          (case ee_to_str W value of
             None \<Rightarrow> None
           | Some t \<Rightarrow>
               (case strip_prefix t ''Basic '' of
                  None \<Rightarrow> None
                | Some encoded \<Rightarrow>
                    (case ee_b64_decode W encoded of
                       None \<Rightarrow> None
                     | Some decoded \<Rightarrow>
                         if \<not> ee_utf8 W decoded then None
                         else map_option (\<lambda>(user, pass). Basic user pass) (split_once decoded '':''))))
      | None \<Rightarrow>
          (case (form_field fs ''client_id'', form_field fs ''client_secret'') of
             (Some cid, Some secret) \<Rightarrow> Some (Basic cid secret)
           | _ \<Rightarrow> None))"

definition revoke_error :: "nat \<Rightarrow> json_object \<Rightarrow> edge_reply" where
  "revoke_error status fs = \<lparr>er_status = status, er_headers = [], er_body = JsonReply (JObj (obj_of fs))\<rparr>"

text \<open>
  The handler. \<open>answer\<close> is Redmine's answer to the revocation of a token with a hint by a credential;
  the last component of the result is the request that was sent, if one was.
\<close>

definition revoke_handler ::
    "edge_env \<Rightarrow> (credential \<Rightarrow> secret \<Rightarrow> string option \<Rightarrow> redmine_error + unit) \<Rightarrow>
     edge_request \<Rightarrow> token_verifier \<Rightarrow> edge_reply \<times> token_verifier \<times> (credential \<times> secret \<times> string option) option" where
  "revoke_handler W answer req v =
     (if \<not> request_is_form W req
      then (\<lparr>er_status = 415, er_headers = [],
             er_body = TextBody ''unsupported media type: expected application/x-www-form-urlencoded''\<rparr>, v, None)
      else if length (eq_body req) > MAX_REVOKE_BODY_BYTES
      then (\<lparr>er_status = 413, er_headers = [], er_body = TextBody ''payload too large''\<rparr>, v, None)
      else
        (let fs = ee_form W (eq_body req)
         in case form_field fs ''token'' of
              None \<Rightarrow> (revoke_error 400 [(''error'', JStr ''invalid_request''), (''error_description'', JStr ''token is required'')], v, None)
            | Some token \<Rightarrow>
                if token = []
                then (revoke_error 400 [(''error'', JStr ''invalid_request''), (''error_description'', JStr ''token is required'')], v, None)
                else
                  (case client_credential W (case eq_authorization req of h # _ \<Rightarrow> Some h | [] \<Rightarrow> None) fs of
                     None \<Rightarrow>
                       (revoke_error 400 [(''error'', JStr ''invalid_client''),
                          (''error_description'', JStr ''client authentication is required'')], v, None)
                   | Some cred \<Rightarrow>
                       (let hint = form_field fs ''token_type_hint''
                        in case answer cred token hint of
                             Inr _ \<Rightarrow>
                               (\<lparr>er_status = 200, er_headers = [], er_body = NoContent\<rparr>,
                                purge (ee_crypto W) token v, Some (cred, token, hint))
                           | Inl e \<Rightarrow>
                               (revoke_error (case error_status e of Some s \<Rightarrow> s | None \<Rightarrow> 502) [(''error'', JStr ''invalid_client'')],
                                v, Some (cred, token, hint))))))"

section \<open>Cross-origin requests\<close>

definition cors_layer :: "edge_env \<Rightarrow> http_settings \<Rightarrow> cors option" where
  "cors_layer W cfg =
     (let origins = filter (ee_header W) (hs_allowed_origins cfg)
      in if origins = [] then None
         else Some \<lparr>cors_origins = origins, cors_methods = [''POST'', ''OPTIONS''],
                    cors_headers = [''content-type'', ''authorization'', ''mcp-protocol-version''],
                    cors_exposed = [''mcp-protocol-version'']\<rparr>)"

section \<open>Files\<close>

definition normalize_host :: "string \<Rightarrow> string" where
  "normalize_host host = to_ascii_lowercase (trim_end_matches (CHR '']'') (trim_start_matches (CHR ''['') host))"

definition parse_request_host :: "edge_env \<Rightarrow> string \<Rightarrow> request_authority option" where
  "parse_request_host W raw =
     map_option (\<lambda>(h, p). \<lparr>ra_host = normalize_host h, ra_port = p\<rparr>) (ee_authority W (trim raw))"

definition authority_of :: "edge_env \<Rightarrow> edge_request \<Rightarrow> request_authority option" where
  "authority_of W req =
     (case eq_host req of
        Some host \<Rightarrow> (case ee_to_str W host of None \<Rightarrow> None | Some h \<Rightarrow> parse_request_host W h)
      | None \<Rightarrow> map_option (\<lambda>(h, p). \<lparr>ra_host = normalize_host h, ra_port = p\<rparr>) (eq_uri_authority req))"

definition host_is_allowed :: "edge_env \<Rightarrow> request_authority \<Rightarrow> string list \<Rightarrow> bool" where
  "host_is_allowed W host allowed_hosts \<longleftrightarrow>
     allowed_hosts = [] \<or>
     list_ex (\<lambda>a. ra_host a = ra_host host \<and> (case ra_port a of Some p \<Rightarrow> ra_port host = Some p | None \<Rightarrow> True))
       (List.map_filter (parse_request_host W) allowed_hosts)"

definition validate_files_host :: "edge_env \<Rightarrow> edge_request \<Rightarrow> string list \<Rightarrow> nat \<times> string + unit" where
  "validate_files_host W req allowed_hosts =
     (case authority_of W req of
        None \<Rightarrow> Inl (400, ''Bad Request: missing or invalid Host header'')
      | Some a \<Rightarrow>
          if host_is_allowed W a allowed_hosts then Inr () else Inl (403, ''Forbidden: Host header is not allowed''))"

text \<open>The bytes of a scalar value in UTF-8.\<close>

definition attr_char :: "nat \<Rightarrow> bool" where
  "attr_char b \<longleftrightarrow> 65 \<le> b \<and> b \<le> 90 \<or> 97 \<le> b \<and> b \<le> 122 \<or> 48 \<le> b \<and> b \<le> 57 \<or> b \<in> {45, 46, 95, 126}"

definition hex_upper :: "nat \<Rightarrow> char" where
  "hex_upper d = (if d < 10 then char_of (48 + d) else char_of (55 + d))"

definition percent_encode_attr_char :: "nat list \<Rightarrow> string" where
  "percent_encode_attr_char bytes =
     concat (map (\<lambda>b. if attr_char b then [char_of b] else [CHR ''%'', hex_upper (b div 16), hex_upper (b mod 16)]) bytes)"

definition ascii_fallback :: "ustr \<Rightarrow> string" where
  "ascii_fallback filename =
     (let s = map (\<lambda>c. if 33 \<le> c \<and> c \<le> 126 \<and> c \<noteq> 34 \<and> c \<noteq> 92 then char_of c else CHR ''_'') filename
      in if s = [] then ''attachment'' else s)"

definition content_disposition :: "edge_env \<Rightarrow> ustr \<Rightarrow> string" where
  "content_disposition W filename =
     (let value = ''attachment; filename='' @ [char_of (34 :: nat)] @ ascii_fallback filename @ [char_of (34 :: nat)] @
                  ''; filename*=UTF-8'' @ [char_of (39 :: nat), char_of (39 :: nat)] @
                  percent_encode_attr_char (utf8_bytes filename)
      in if ee_header W value then value else ''attachment'')"

definition content_type_header :: "edge_env \<Rightarrow> string option \<Rightarrow> string" where
  "content_type_header W ct =
     (case ct of Some v \<Rightarrow> if ee_header W v then v else ''application/octet-stream'' | None \<Rightarrow> ''application/octet-stream'')"

definition not_found :: edge_reply where
  "not_found = \<lparr>er_status = 404, er_headers = [], er_body = TextBody ''not found''\<rparr>"

text \<open>\<open>opens\<close> tells whether the stored file can be opened.\<close>

definition serve_file ::
    "edge_env \<Rightarrow> attachment_config \<Rightarrow> (uuid \<times> ustr \<Rightarrow> bool) \<Rightarrow> instant \<Rightarrow> uuid \<Rightarrow> attachment_store \<Rightarrow> edge_reply \<times> attachment_store" where
  "serve_file W cfg opens now u st =
     (case get_file cfg now u st of
        (None, st') \<Rightarrow> (not_found, st')
      | (Some stored, st') \<Rightarrow>
          if \<not> opens (sf_path stored) then (not_found, st')
          else (\<lparr>er_status = 200,
                 er_headers = [(''content-type'', content_type_header W (sf_content_type stored)),
                               (''content-length'', if ee_header W (nat_str (sf_size stored)) then nat_str (sf_size stored) else ''0''),
                               (''content-disposition'', content_disposition W (sf_filename stored))],
                 er_body = FileContents (sf_path stored)\<rparr>, st'))"

definition files_handler ::
    "edge_env \<Rightarrow> string list \<Rightarrow> attachment_config \<Rightarrow> (uuid \<times> ustr \<Rightarrow> bool) \<Rightarrow> instant \<Rightarrow> edge_request \<Rightarrow> uuid \<Rightarrow>
     attachment_store \<Rightarrow> edge_reply \<times> attachment_store" where
  "files_handler W allowed_hosts cfg opens now req u st =
     (case validate_files_host W req allowed_hosts of
        Inl (status, message) \<Rightarrow> (\<lparr>er_status = status, er_headers = [], er_body = TextBody message\<rparr>, st)
      | Inr _ \<Rightarrow> serve_file W cfg opens now u st)"

section \<open>Floods\<close>

lemma lm_lookup_new [simp]:
  fixes h :: "'k \<Rightarrow> 64 word"
  shows "lm_lookup h (limiter_new rps burst max_keys) k = None"
proof -
  let ?lm = "limiter_new rps burst max_keys :: 'k limiter"
  have "lm_shards ?lm ! i = fmempty" if "i < length (lm_shards ?lm)" for i
    using that by (simp add: limiter_new_def)
  then show ?thesis using lm_inv_index [OF lm_inv_new, of h rps burst max_keys k] by (simp add: lm_lookup_def)
qed

lemma lm_capacity_new [simp]: "lm_capacity (limiter_new rps burst max_keys) = of_nat burst"
  by (simp add: limiter_new_def)

lemma lookup_after_check:
  assumes "shard_index h lm key < length (lm_shards lm)" and "shard_index h lm k < length (lm_shards lm)"
    and "lm_lookup h lm k = None" and "k \<noteq> key"
  shows "lm_lookup h (snd (check h iter key now lm)) k = None"
  using assms
  by (cases "shard_index h lm k = shard_index h lm key")
    (auto simp: lm_lookup_def check_def shard_check_def evict_oldest_def Let_def case_prod_beta shard_index_def
      nth_list_update split: option.split)

lemma fresh_key_allowed:
  assumes "lm_lookup h lm key = None" and "1 \<le> lm_capacity lm"
  shows "\<exists>r. fst (check h iter key now lm) = Allow r"
  using assms by (intro exI [of _ False]) (simp add: check_decision bucket_take_def bucket_new_def Let_def elapsed_secs_def)

fun run_standard :: "edge_env \<Rightarrow> limiter_env \<Rightarrow> (instant \<times> edge_request) list \<Rightarrow> limit_key limiter \<Rightarrow> edge_reply option list" where
  "run_standard W L [] lm = []"
| "run_standard W L ((now, req) # reqs) lm =
     (case rate_limit_standard W L now req lm of (reply, lm') \<Rightarrow> reply # run_standard W L reqs lm')"

lemma run_standard_fresh:
  assumes "\<And>k. shard_index (le_hash L) lm k < length (lm_shards lm)"
    and "1 \<le> lm_capacity lm" and "distinct (map (standard_key W \<circ> snd) reqs)"
    and "\<And>r. r \<in> set reqs \<Longrightarrow> lm_lookup (le_hash L) lm (standard_key W (snd r)) = None"
  shows "run_standard W L reqs lm = replicate (length reqs) None"
  using assms
proof (induction reqs arbitrary: lm)
  case (Cons r reqs)
  obtain now req where r: "r = (now, req)" by (cases r)
  let ?key = "standard_key W req" and ?lm = "snd (check (le_hash L) (le_iter L) (standard_key W req) now lm)"
  have "lm_lookup (le_hash L) lm ?key = None" using Cons.prems(4) [of r] r by simp
  then obtain b where allow: "fst (check (le_hash L) (le_iter L) ?key now lm) = Allow b"
    using fresh_key_allowed [OF _ Cons.prems(2)] by blast
  have "run_standard W L reqs ?lm = replicate (length reqs) None"
  proof (rule Cons.IH)
    show "shard_index (le_hash L) ?lm k < length (lm_shards ?lm)" for k using Cons.prems(1) by simp
    show "1 \<le> lm_capacity ?lm" "distinct (map (standard_key W \<circ> snd) reqs)"
      using Cons.prems(2,3) by (simp_all add: comp_def)
    show "lm_lookup (le_hash L) ?lm (standard_key W (snd q)) = None" if "q \<in> set reqs" for q
    proof (rule lookup_after_check)
      have "standard_key W req \<notin> (standard_key W \<circ> snd) ` set reqs" using Cons.prems(3) r by simp
      then show "standard_key W (snd q) \<noteq> standard_key W req" using that by (force simp: image_iff)
      show "lm_lookup (le_hash L) lm (standard_key W (snd q)) = None" using Cons.prems(4) that by simp
    qed (rule Cons.prems(1))+
  qed
  then show ?case using allow by (simp add: r rate_limit_standard_def apply_decision_def case_prod_beta)
qed simp

text \<open>
  The limit on the MCP route does not stop a flood of made-up tokens. The standard class is keyed by
  the token of the request before anything has verified it: requests that carry well-formed bearer
  tokens with pairwise different digests are all let through, however many there are, whoever sends
  them and however fast, although the limiter allows only \<open>burst\<close> requests at once.
\<close>

theorem fresh_tokens_never_limited:
  assumes "1 \<le> burst" and "\<And>r. r \<in> set reqs \<Longrightarrow> \<exists>token. extract_bearer (ee_to_str W) (eq_authorization (snd r)) = Inr token"
    and "distinct (map (standard_key W \<circ> snd) reqs)"
  shows "run_standard W L reqs (limiter_new rps burst max_keys) = replicate (length reqs) None"
  by (rule run_standard_fresh)
    (use assms lm_inv_index [OF lm_inv_new, of "le_hash L" rps burst max_keys] in simp_all)

section \<open>What is mounted\<close>

text \<open>
  The layers of the router. The MCP route requires a token exactly in the two OAuth modes, and no
  other route does. With rate limiting on, the MCP route and the file route are in the standard
  class and every endpoint of the proxy in the strict one; what stays without a limit is the health
  routes, the discovery documents and the revocation endpoint of the plain OAuth mode.
\<close>

theorem router_layers:
  "list_all (\<lambda>m. (mt_auth m \<noteq> NoAuth) = (mt_handler m = HMcp \<and> discovery_from_auth (co_auth cfg) \<noteq> None)) (router_routes cfg http) \<and>
   list_all (\<lambda>m. mt_limit m =
       (if \<not> rl_enabled (hs_rate_limit http) \<or>
           mt_handler m \<in> {HLivez, HReadyz, HProtectedResource, HAuthorizationServer, HRevoke} then NotLimited
        else if mt_handler m \<in> {HMcp, HServeFile} then StandardClass else StrictClass)) (router_routes cfg http) \<and>
   list_all (\<lambda>m. mt_host_check m = (mt_handler m \<in> {HMcp, HServeFile})) (router_routes cfg http)"
  by (cases "co_auth cfg")
    (simp_all add: router_routes_def mcp_route_def mcp_auth_def discovery_from_auth_def health_routes_def health_route_def
      files_route_def well_known_routes_def public_route_def proxy_flow_routes_def layer_class_def)

lemma map_of_obj_of: "map_of (obj_of kvs) = map_of (rev kvs)"
proof -
  have "wf_obj m \<Longrightarrow> map_of (foldl (\<lambda>m (k, v). obj_insert k v m) m kvs) = map_of m ++ map_of (rev kvs)" for m
  proof (induction kvs arbitrary: m)
    case (Cons kv kvs)
    obtain k v where kv: "kv = (k, v)" by (cases kv)
    have "map_of (obj_insert k v m) = (map_of m)(k \<mapsto> v)"
      using Cons.prems by (auto simp: fun_eq_iff map_of_obj_insert)
    then show ?case
      using Cons.IH [OF wf_obj_insert [OF Cons.prems]] by (simp add: kv fun_eq_iff map_add_def split: option.split)
  qed simp
  then show ?thesis by (simp add: obj_of_def wf_obj_def)
qed

text \<open>
  The documents name what is there. In proxy mode every endpoint of the authorization-server
  document is the public base followed by the path of a mounted route with the right handler, and
  the document itself is mounted at the root location, since such a configuration always has this
  server as its own authorization server.
\<close>

theorem proxy_endpoints_mounted:
  assumes "co_auth cfg = CfgOAuthProxy proxy" and "oc_discovery_as (op_resource proxy) = DiscoverySelfHosted"
  shows "case authorization_server show_url cfg (op_resource proxy) DmOAuthProxy of
      JObj doc \<Rightarrow>
        list_all (\<lambda>(field, h). \<exists>m. m \<in> set (router_routes cfg http) \<and> mt_handler m = h \<and> mt_auth m = NoAuth \<and>
           map_of doc field = Some (JStr (issuer show_url cfg (op_resource proxy) @ mt_path m)))
          [(''authorization_endpoint'', HAuthorize), (''token_endpoint'', HToken), (''registration_endpoint'', HRegister),
           (''revocation_endpoint'', HProxyRevoke)] \<and>
        (\<exists>m. m \<in> set (router_routes cfg http) \<and> mt_handler m = HAuthorizationServer \<and>
           mt_path m = ''/.well-known/oauth-authorization-server'')
    | _ \<Rightarrow> False"
proof -
  have flow: "public_route q h (layer_class http StrictClass) None \<in> set (router_routes cfg http)"
    if "(q, h) \<in> {(''/register'', HRegister), (''/authorize'', HAuthorize), (''/token'', HToken), (''/revoke'', HProxyRevoke)}" for q h
    using that assms(1) by (auto simp: router_routes_def discovery_from_auth_def proxy_flow_routes_def)
  have "public_route ''/.well-known/oauth-authorization-server'' HAuthorizationServer NotLimited (Some ''public, max-age=300'')
      \<in> set (router_routes cfg http)"
    using assms by (simp add: router_routes_def discovery_from_auth_def well_known_routes_def)
  then have doc: "\<exists>m. m \<in> set (router_routes cfg http) \<and> mt_handler m = HAuthorizationServer \<and>
      mt_path m = ''/.well-known/oauth-authorization-server''"
    by (intro exI conjI) (auto simp: public_route_def)
  have field: "\<exists>m. m \<in> set (router_routes cfg http) \<and> mt_handler m = h \<and> mt_auth m = NoAuth \<and> x = Some (JStr (b @ mt_path m))"
    if "(q, h) \<in> {(''/register'', HRegister), (''/authorize'', HAuthorize), (''/token'', HToken), (''/revoke'', HProxyRevoke)}"
      "x = Some (JStr (b @ q))" for q h b x
    using flow [OF that(1)] that(2) by (intro exI conjI) (auto simp: public_route_def)
  show ?thesis
    unfolding authorization_server_def Let_def discovery_mode.case json.case map_of_obj_of list.pred_inject prod.case
    using assms(2) by (intro conjI doc field TrueI) (simp_all add: issuer_def)
qed

text \<open>A configured path that is accepted although another route has it.\<close>

lemma accepted_path_collides:
  "parse_mcp_path (fmap_of_list [(''FASTMCP_STREAMABLE_HTTP_PATH'', ''/health'')]) = Inr ''/health'' \<and>
   (hs_mcp_path http = ''/health'' \<longrightarrow> \<not> distinct (map mt_path (router_routes cfg http)))"
  by (auto simp: parse_mcp_path_def optional_def starts_with_def is_whitespace_def byte_of_def router_routes_def
      mcp_route_def health_routes_def health_route_def contains_def)

section \<open>Revocation\<close>

text \<open>
  The revocation endpoint acts only for its caller. What is sent to Redmine is the token of the form
  with the credential the request itself carries; no request leaves for a malformed one. The cached
  verdict of the token is dropped exactly when Redmine confirmed, and the cache is untouched otherwise.
\<close>

theorem revoke_acts_for_caller:
  "case revoke_handler W answer req v of
     (reply, v', None) \<Rightarrow> v' = v \<and> er_status reply \<in> {400, 413, 415}
   | (reply, v', Some (cred, token, hint)) \<Rightarrow>
       client_credential W (case eq_authorization req of h # _ \<Rightarrow> Some h | [] \<Rightarrow> None) (ee_form W (eq_body req)) = Some cred \<and>
       form_field (ee_form W (eq_body req)) ''token'' = Some token \<and> token \<noteq> [] \<and>
       length (eq_body req) \<le> MAX_REVOKE_BODY_BYTES \<and>
       (case answer cred token hint of
          Inr _ \<Rightarrow> er_status reply = 200 \<and> v' = purge (ee_crypto W) token v
        | Inl _ \<Rightarrow> v' = v)"
  by (auto simp: revoke_handler_def revoke_error_def Let_def split: option.split sum.split)

section \<open>File names in headers\<close>

fun hex_val :: "char \<Rightarrow> nat" where
  "hex_val c = (if byte_of c < 58 then byte_of c - 48 else byte_of c - 55)"

text \<open>What a browser does with the value of the extended parameter.\<close>

fun percent_decode :: "string \<Rightarrow> nat list" where
  "percent_decode (c # cs) =
     (if c = CHR ''%''
      then (case cs of a # b # rest \<Rightarrow> (16 * hex_val a + hex_val b) # percent_decode rest | _ \<Rightarrow> [])
      else byte_of c # percent_decode cs)"
| "percent_decode [] = []"

lemma hex_val_upper: "d < 16 \<Longrightarrow> hex_val (hex_upper d) = d"
  by (simp add: hex_upper_def byte_of_def)

lemma attr_char_not_percent: "attr_char b \<Longrightarrow> char_of b \<noteq> CHR ''%'' \<and> byte_of (char_of b) = b"
proof -
  assume "attr_char b"
  then have b: "b < 256" "b \<noteq> 37" by (auto simp: attr_char_def)
  then have byte: "byte_of (char_of b) = b" by (simp add: byte_of_def)
  moreover have "byte_of CHR ''%'' = 37" by (simp add: byte_of_def)
  ultimately show ?thesis using b(2) by metis
qed

lemma percent_roundtrip: "list_all (\<lambda>b. b < 256) bs \<Longrightarrow> percent_decode (percent_encode_attr_char bs) = bs"
proof (induction bs)
  case (Cons b bs)
  then have ih: "percent_decode (percent_encode_attr_char bs) = bs" and b: "b div 16 < 16" "b mod 16 < 16" by auto
  show ?case
    using ih b attr_char_not_percent [of b] hex_val_upper [of "b div 16"] hex_val_upper [of "b mod 16"]
    by (cases "attr_char b") (simp_all add: percent_encode_attr_char_def del: hex_val.simps)
qed (simp add: percent_encode_attr_char_def)

definition visible :: "string \<Rightarrow> bool" where
  "visible s \<longleftrightarrow> list_all (\<lambda>c. 32 \<le> byte_of c \<and> byte_of c < 127) s"

lemma visible_append [simp]: "visible (a @ b) \<longleftrightarrow> visible a \<and> visible b"
  by (simp add: visible_def)

lemma visible_literals [simp]: "visible ''attachment; filename=''" "visible ''; filename*=UTF-8''"
  "visible [char_of (34 :: nat)]" "visible [char_of (39 :: nat), char_of (39 :: nat)]" "visible ''attachment''"
  by (simp_all add: visible_def byte_of_def)

lemma utf8_bytes_small: "list_all (\<lambda>c. c < 0x110000) s \<Longrightarrow> list_all (\<lambda>b. b < 256) (utf8_bytes s)"
  by (induction s) (auto simp: utf8_bytes_def utf8_def)

lemma visible_percent: "list_all (\<lambda>b. b < 256) bs \<Longrightarrow> visible (percent_encode_attr_char bs)"
proof (induction bs)
  case (Cons b bs)
  have hex: "visible [hex_upper d]" if "d < 16" for d using that by (simp add: visible_def hex_upper_def byte_of_def)
  have "visible (if attr_char b then [char_of b] else [CHR ''%'', hex_upper (b div 16), hex_upper (b mod 16)])"
    using hex [of "b div 16"] hex [of "b mod 16"] Cons.prems attr_char_not_percent [of b]
    by (auto simp: visible_def attr_char_def byte_of_def)
  then show ?case using Cons by (simp add: percent_encode_attr_char_def)
qed (simp add: percent_encode_attr_char_def visible_def)

lemma ascii_fallback_char:
  "33 \<le> c \<Longrightarrow> c \<le> 126 \<Longrightarrow> byte_of (char_of c) = c"
  by (simp add: byte_of_def)

lemma ascii_fallback_plain: "list_all (\<lambda>x. 33 \<le> byte_of x \<and> byte_of x < 127 \<and> byte_of x \<noteq> 34 \<and> byte_of x \<noteq> 92) (ascii_fallback name)"
  by (auto simp: ascii_fallback_def Let_def list_all_iff ascii_fallback_char) (simp_all add: byte_of_def)

text \<open>
  C28. A file name from Redmine cannot break out of the header. The value is the expected form with two
  parameters: the quoted one has only graphic ASCII and neither a quote nor a backslash, and the
  extended one decodes to exactly the UTF-8 bytes of the name. The value is plain ASCII, so the
  fallback for an invalid header is never used.
\<close>

theorem content_disposition_safe:
  assumes "\<And>v. visible v \<Longrightarrow> ee_header W v" and "list_all (\<lambda>c. c < 0x110000) name"
  shows "\<exists>quoted extended.
      content_disposition W name = ''attachment; filename='' @ [char_of (34 :: nat)] @ quoted @ [char_of (34 :: nat)] @
        ''; filename*=UTF-8'' @ [char_of (39 :: nat), char_of (39 :: nat)] @ extended \<and>
      list_all (\<lambda>x. 33 \<le> byte_of x \<and> byte_of x < 127 \<and> byte_of x \<noteq> 34 \<and> byte_of x \<noteq> 92) quoted \<and>
      percent_decode extended = utf8_bytes name \<and> visible extended"
proof -
  have small: "list_all (\<lambda>b. b < 256) (utf8_bytes name)" using utf8_bytes_small [OF assms(2)] .
  have "visible (ascii_fallback name)"
    using ascii_fallback_plain [of name] by (auto simp: visible_def list_all_iff)
  then have "ee_header W (''attachment; filename='' @ [char_of (34 :: nat)] @ ascii_fallback name @ [char_of (34 :: nat)] @
      ''; filename*=UTF-8'' @ [char_of (39 :: nat), char_of (39 :: nat)] @ percent_encode_attr_char (utf8_bytes name))"
    by (intro assms(1)) (simp only: visible_append visible_literals visible_percent [OF small] simp_thms)
  then show ?thesis
    using ascii_fallback_plain [of name] percent_roundtrip [OF small] visible_percent [OF small]
    unfolding content_disposition_def Let_def by (intro exI conjI) simp_all
qed

section \<open>Examples\<close>

definition example_edge :: edge_env where
  "example_edge =
     \<lparr>ee_crypto = \<lparr>sha256 = (\<lambda>s. s), base64url = (\<lambda>s. s)\<rparr>, ee_to_str = Some, ee_header = visible, ee_authority = (\<lambda>s. Some (s, None)),
      ee_form = (\<lambda>_. []), ee_b64_decode = (\<lambda>_. None), ee_utf8 = (\<lambda>_. True)\<rparr>"

definition example_bearer :: "string \<Rightarrow> edge_request" where
  "example_bearer t =
     \<lparr>eq_authorization = [''Bearer '' @ t], eq_peer = None, eq_host = None, eq_uri_authority = None, eq_content_type = None,
      eq_body = []\<rparr>"

theorem content_disposition_safe_witness:
  "\<exists>quoted extended.
      content_disposition example_edge [97, 34, 228] = ''attachment; filename='' @ [char_of (34 :: nat)] @ quoted @ [char_of (34 :: nat)] @
        ''; filename*=UTF-8'' @ [char_of (39 :: nat), char_of (39 :: nat)] @ extended \<and>
      percent_decode extended = utf8_bytes [97, 34, 228]"
proof -
  have "\<And>v. visible v \<Longrightarrow> ee_header example_edge v" by (simp add: example_edge_def)
  then show ?thesis using content_disposition_safe [of example_edge "[97, 34, 228]"] by auto
qed

theorem fresh_tokens_never_limited_witness:
  "run_standard example_edge \<lparr>le_hash = (\<lambda>_. 0), le_iter = (\<lambda>_. [])\<rparr>
     [(0, example_bearer ''a''), (0, example_bearer ''b''), (0, example_bearer ''c'')] (limiter_new 1 1 10) = [None, None, None]"
proof -
  let ?reqs = "[(0 :: nat, example_bearer ''a''), (0, example_bearer ''b''), (0, example_bearer ''c'')]"
  have bearer: "extract_bearer Some [''Bearer a''] = Inr ''a'' \<and> extract_bearer Some [''Bearer b''] = Inr ''b'' \<and>
      extract_bearer Some [''Bearer c''] = Inr ''c''"
    by (simp add: extract_bearer_def starts_with_def eq_ignore_ascii_case_def to_ascii_lowercase_def
        to_ascii_lower_def byte_of_def trim_def is_whitespace_def MAX_TOKEN_LEN_def char_of_def bit_Suc_0_iff)
  have "run_standard example_edge \<lparr>le_hash = (\<lambda>_. 0), le_iter = (\<lambda>_. [])\<rparr> ?reqs (limiter_new 1 1 10) = replicate (length ?reqs) None"
    by (rule fresh_tokens_never_limited)
      (auto simp: bearer standard_key_def verifier_digest_def example_edge_def example_bearer_def)
  then show ?thesis by (simp add: eval_nat_numeral)
qed

definition example_resource :: oauth_config where
  "example_resource =
     \<lparr>oc_base_url = \<lparr>url_scheme = ''https'', url_username = [], url_password = None, url_host_str = Some ''m'',
                     url_port_or_known_default = Some 443, url_path = ''/'', url_fragment = None, url_query = None\<rparr>,
      oc_introspect_client_id = ''i'', oc_introspect_client_secret = ''s'', oc_token_cache_ttl = 0,
      oc_discovery_as = DiscoverySelfHosted, oc_scopes = [], oc_scope_enforcement = True\<rparr>"

definition example_proxy_config :: oauth_proxy_config where
  "example_proxy_config = \<lparr>op_resource = example_resource, op_upstream_client_id = ''c'', op_upstream_client_secret = ''s'',
     op_redirects = Loopback\<rparr>"

theorem proxy_endpoints_mounted_witness:
  "\<exists>cfg http. co_auth cfg = CfgOAuthProxy example_proxy_config \<and>
     (\<exists>m. m \<in> set (router_routes cfg http) \<and> mt_handler m = HAuthorizationServer \<and>
        mt_path m = ''/.well-known/oauth-authorization-server'')"
proof -
  fix cfg0 :: config and http :: http_settings
  define cfg where "cfg = cfg0\<lparr>co_auth := CfgOAuthProxy example_proxy_config\<rparr>"
  have auth: "co_auth cfg = CfgOAuthProxy example_proxy_config" by (simp add: cfg_def)
  have self: "oc_discovery_as (op_resource example_proxy_config) = DiscoverySelfHosted"
    by (simp add: example_proxy_config_def example_resource_def)
  show ?thesis
    using proxy_endpoints_mounted [OF auth self, where show_url = "\<lambda>_. ''https://m/''" and http = http] auth
    by (auto split: json.splits)
qed

end
