(* ===== verification/Health.thy ===== *)
theory Health
  imports Http_Transport
begin

text \<open>
  The liveness and readiness endpoints (\<^verbatim>\<open>health.rs\<close>). A probe of Redmine, or of its introspection
  endpoint, is kept for a configured time under a lock that is held while a probe runs. What the probe
  was answered is an argument, \<open>None\<close> when the time-out struck first.
\<close>

section \<open>Model\<close>

definition PROBE_TIMEOUT :: duration where
  "PROBE_TIMEOUT = from_secs 5"

datatype readiness = Up | Down | NotProbed

datatype probe_result = ProbedRedmine readiness | ProbedIntrospection probe_outcome

record cached_probe =
  cp_at :: instant
  cp_checked_at :: string
  cp_result :: probe_result

record health_state =
  hl_server :: server_config
  hl_default_credential :: "credential option"
  hl_ttl :: duration
  hl_cache :: "cached_probe option"

definition health_new :: "server_config \<Rightarrow> credential option \<Rightarrow> duration \<Rightarrow> health_state" where
  "health_new cfg default_credential ttl =
     \<lparr>hl_server = cfg, hl_default_credential = default_credential, hl_ttl = ttl, hl_cache = None\<rparr>"

fun readiness_label :: "readiness \<Rightarrow> string" where
  "readiness_label Up = ''up''"
| "readiness_label Down = ''down''"
| "readiness_label NotProbed = ''not_probed''"

fun readiness_status_code :: "readiness \<Rightarrow> nat" where
  "readiness_status_code Up = 200"
| "readiness_status_code NotProbed = 200"
| "readiness_status_code Down = 503"

fun introspection_label :: "probe_outcome \<Rightarrow> string" where
  "introspection_label ProbeOk = ''ok''"
| "introspection_label ProbeMisconfigured = ''misconfigured''"
| "introspection_label ProbeUnreachable = ''unreachable''"

fun is_ready :: "probe_result \<Rightarrow> bool" where
  "is_ready (ProbedRedmine r) = (r \<noteq> Down)"
| "is_ready (ProbedIntrospection i) = (i = ProbeOk)"

fun status_code :: "probe_result \<Rightarrow> nat" where
  "status_code (ProbedRedmine r) = readiness_status_code r"
| "status_code (ProbedIntrospection ProbeOk) = 200"
| "status_code (ProbedIntrospection _) = 503"

fun redmine_label :: "probe_result \<Rightarrow> string" where
  "redmine_label (ProbedRedmine r) = readiness_label r"
| "redmine_label (ProbedIntrospection i) = introspection_label i"

definition no_store :: "nat \<Rightarrow> json \<Rightarrow> edge_reply" where
  "no_store status body = \<lparr>er_status = status, er_headers = [(''cache-control'', ''no-store'')], er_body = JsonReply body\<rparr>"

definition livez :: edge_reply where
  "livez = no_store 200 (JObj (obj_of [(''status'', JStr ''alive'')]))"

text \<open>What Redmine and its introspection endpoint answer within the time-out.\<close>

record probe_answers =
  pa_current_user :: "(redmine_error + unit) option"
  pa_introspection :: "(redmine_error + introspection) option"

definition owns_verifier :: "server_config \<Rightarrow> bool" where
  "owns_verifier cfg = (case sv_auth cfg of AuthOAuth _ \<Rightarrow> True | AuthOAuthProxy _ \<Rightarrow> True | _ \<Rightarrow> False)"

definition server_scoped :: "server_config \<Rightarrow> credential option \<Rightarrow> (mcp_error + credential) option" where
  "server_scoped cfg default_credential =
     (case sv_auth cfg of
        AuthLegacy _ \<Rightarrow>
          Some (case default_credential of
                  Some c \<Rightarrow> Inr c
                | None \<Rightarrow> Inl (InternalError ''invalid configuration: no default credential configured; use as_user(...) instead''))
      | _ \<Rightarrow> None)"

definition probe_introspection :: "probe_answers \<Rightarrow> probe_outcome" where
  "probe_introspection a = (case pa_introspection a of Some answer \<Rightarrow> probe answer | None \<Rightarrow> ProbeUnreachable)"

definition probe_redmine :: "health_state \<Rightarrow> probe_answers \<Rightarrow> readiness" where
  "probe_redmine s a =
     (case server_scoped (hl_server s) (hl_default_credential s) of
        None \<Rightarrow> NotProbed
      | Some (Inl _) \<Rightarrow> Down
      | Some (Inr _) \<Rightarrow>
          (case pa_current_user a of Some (Inr _) \<Rightarrow> Up | Some (Inl _) \<Rightarrow> Down | None \<Rightarrow> Down))"

definition health_probe :: "health_state \<Rightarrow> probe_answers \<Rightarrow> probe_result" where
  "health_probe s a =
     (if owns_verifier (hl_server s) then ProbedIntrospection (probe_introspection a) else ProbedRedmine (probe_redmine s a))"

text \<open>One request: when it holds the lock, and when and with what its probe ends should it run one.\<close>

record probe_call =
  pc_now :: instant
  pc_done :: instant
  pc_utc :: string
  pc_answers :: probe_answers

definition run_probe :: "health_state \<Rightarrow> probe_call \<Rightarrow> cached_probe" where
  "run_probe s c = \<lparr>cp_at = pc_done c, cp_checked_at = pc_utc c, cp_result = health_probe s (pc_answers c)\<rparr>"

text \<open>The probe to report, whether it was run by this call, and the state after it.\<close>

definition probe_cached :: "health_state \<Rightarrow> probe_call \<Rightarrow> cached_probe \<times> bool \<times> health_state" where
  "probe_cached s c =
     (if hl_ttl s = 0 then (run_probe s c, True, s)
      else
        (let fresh = (run_probe s c, True, s\<lparr>hl_cache := Some (run_probe s c)\<rparr>)
         in case hl_cache s of
              Some cached \<Rightarrow> if pc_now c - cp_at cached < hl_ttl s then (cached, False, s) else fresh
            | None \<Rightarrow> fresh))"

definition readyz :: "health_state \<Rightarrow> probe_call \<Rightarrow> edge_reply \<times> health_state" where
  "readyz s c =
     (case probe_cached s c of
        (p, _, s') \<Rightarrow>
          (let status = (if is_ready (cp_result p) then ''ready'' else ''not_ready'');
               body =
                 (case cp_result p of
                    ProbedRedmine _ \<Rightarrow>
                      JObj (obj_of [(''status'', JStr status), (''redmine'', JStr (redmine_label (cp_result p))),
                                    (''checked_at'', JStr (cp_checked_at p))])
                  | ProbedIntrospection outcome \<Rightarrow>
                      JObj (obj_of [(''status'', JStr status), (''redmine'', JStr (redmine_label (cp_result p))),
                                    (''checks'', JObj (obj_of [(''introspection'', JStr (introspection_label outcome))])),
                                    (''checked_at'', JStr (cp_checked_at p))]))
           in (no_store (status_code (cp_result p)) body, s')))"

section \<open>Reports\<close>

lemma status_code_ready: "status_code r = (if is_ready r then 200 else 503)"
proof (cases r)
  case (ProbedRedmine x)
  then show ?thesis by (cases x) simp_all
next
  case (ProbedIntrospection x)
  then show ?thesis by (cases x) simp_all
qed

text \<open>
  Readiness is reported consistently and says nothing more. The answer is 200 exactly when the body
  says ready and 503 otherwise, it is never cached by anyone, and the body has only the status, the
  state of Redmine, the time of the probe and, in the OAuth modes, the outcome of the introspection.
  The probe behind it was run by this very call, or is the one in the cache and younger than the
  configured time.
\<close>

theorem readyz_report:
  "\<exists>p m. (p = run_probe s c \<or> hl_cache s = Some p \<and> pc_now c - cp_at p < hl_ttl s) \<and>
     fst (readyz s c) = no_store (if is_ready (cp_result p) then 200 else 503) (JObj m) \<and>
     map_of m ''status'' = Some (JStr (if is_ready (cp_result p) then ''ready'' else ''not_ready'')) \<and>
     map_of m ''checked_at'' = Some (JStr (cp_checked_at p)) \<and>
     set (map fst m) \<subseteq> {''status'', ''redmine'', ''checks'', ''checked_at''}"
proof -
  obtain p probed s' where p: "probe_cached s c = (p, probed, s')" by (cases "probe_cached s c")
  have "p = run_probe s c \<or> hl_cache s = Some p \<and> pc_now c - cp_at p < hl_ttl s"
    using p by (auto simp: probe_cached_def Let_def split: if_split_asm option.split_asm)
  then show ?thesis
    by (intro exI [of _ p]) (cases "cp_result p"; simp add: readyz_def p Let_def status_code_ready obj_of_def no_store_def)
qed

text \<open>A server without a credential of its own to probe with is always ready.\<close>

lemma per_user_ready: "sv_auth (hl_server s) = AuthLegacyPerUser audit \<Longrightarrow> is_ready (health_probe s a)"
  by (simp add: health_probe_def owns_verifier_def probe_redmine_def server_scoped_def)

lemma legacy_ready_iff:
  "sv_auth (hl_server s) = AuthLegacy x \<Longrightarrow>
   is_ready (health_probe s a) \<longleftrightarrow> hl_default_credential s \<noteq> None \<and> (\<exists>u. pa_current_user a = Some (Inr u))"
  by (auto simp: health_probe_def owns_verifier_def probe_redmine_def server_scoped_def split: option.split sum.split)

section \<open>Probes in a time-ordered sequence\<close>

fun probe_calls :: "probe_call list \<Rightarrow> health_state \<Rightarrow> bool list" where
  "probe_calls [] s = []"
| "probe_calls (c # cs) s = (case probe_cached s c of (_, probed, s') \<Rightarrow> probed # probe_calls cs s')"

text \<open>Calls take the lock one after the other: each one's probe ends before the next call looks at the cache.\<close>

fun in_turn :: "instant \<Rightarrow> probe_call list \<Rightarrow> bool" where
  "in_turn t [] = True"
| "in_turn t (c # cs) = (t \<le> pc_now c \<and> pc_now c \<le> pc_done c \<and> in_turn (pc_done c) cs)"

lemma probe_cached_cases:
  assumes "probe_cached s c = (p, probed, s')" "0 < hl_ttl s"
  shows "hl_ttl s' = hl_ttl s"
    and "probed \<Longrightarrow> hl_cache s' = Some (run_probe s c) \<and> (\<forall>q. hl_cache s = Some q \<longrightarrow> hl_ttl s \<le> pc_now c - cp_at q)"
    and "\<not> probed \<Longrightarrow> s' = s \<and> hl_cache s = Some p"
  using assms by (auto simp: probe_cached_def Let_def split: if_split_asm option.split_asm)

abbreviation probes :: "probe_call list \<Rightarrow> health_state \<Rightarrow> nat" where
  "probes cs s \<equiv> length (filter (\<lambda>b. b) (probe_calls cs s))"

lemma probes_spaced:
  assumes "0 < hl_ttl s" "in_turn t cs" "\<forall>c\<in>set cs. pc_now c \<le> T" "hl_cache s = Some q" "cp_at q \<le> t"
  shows "probes cs s * hl_ttl s \<le> T - cp_at q"
  using assms
proof (induction cs arbitrary: s t q)
  case (Cons c cs)
  obtain p probed s' where p: "probe_cached s c = (p, probed, s')" by (cases "probe_cached s c")
  note pc = probe_cached_cases [OF p Cons.prems(1)]
  show ?case
  proof (cases probed)
    case False
    then show ?thesis using pc(3) Cons.IH [of s "pc_done c" q] Cons.prems p by simp
  next
    case True
    have gap: "hl_ttl s \<le> pc_now c - cp_at q" using pc(2) True Cons.prems(4) by simp
    have "probes cs s' * hl_ttl s \<le> T - pc_done c"
      using Cons.IH [of s' "pc_done c" "run_probe s c"] pc(1,2) True Cons.prems(1-3) by (simp add: run_probe_def)
    moreover have "pc_now c \<le> T" "pc_now c \<le> pc_done c" "cp_at q \<le> pc_now c" using Cons.prems(2,3,5) by auto
    ultimately have "hl_ttl s + probes cs s' * hl_ttl s \<le> T - cp_at q" using gap by linarith
    then show ?thesis using p True by (simp add: add.commute)
  qed
qed simp

text \<open>
  The endpoint cannot be turned against Redmine: with a cache time, the calls between two points in
  time run at most one probe more than that time fits in between, however many calls there are.
\<close>

theorem readiness_probes_bounded:
  assumes "0 < ttl" "in_turn t0 cs" "\<forall>c\<in>set cs. pc_now c \<le> T"
  shows "probes cs (health_new cfg cred ttl) \<le> (T - t0) div ttl + 1"
proof (cases cs)
  case (Cons c rest)
  obtain p probed s' where p: "probe_cached (health_new cfg cred ttl) c = (p, probed, s')"
    by (cases "probe_cached (health_new cfg cred ttl) c")
  have s': "hl_ttl s' = ttl" "hl_cache s' = Some (run_probe (health_new cfg cred ttl) c)" "probed"
    using p assms(1) by (auto simp: probe_cached_def health_new_def Let_def)
  have "probes rest s' * ttl \<le> T - pc_done c"
    using probes_spaced [of s' "pc_done c" rest T "run_probe (health_new cfg cred ttl) c"] s' assms Cons
    by (simp add: run_probe_def)
  also have "\<dots> \<le> T - t0" using assms(2) Cons by auto
  finally show ?thesis using Cons p s'(3) assms(1) by (simp add: less_eq_div_iff_mult_less_eq)
qed simp

lemma readiness_probes_bounded_witness:
  "probes [\<lparr>pc_now = 1, pc_done = 2, pc_utc = [], pc_answers = a\<rparr>, \<lparr>pc_now = 3, pc_done = 3, pc_utc = [], pc_answers = a\<rparr>]
     (health_new cfg cred 10) \<le> 1"
  using readiness_probes_bounded [of 10 0 "[\<lparr>pc_now = 1, pc_done = 2, pc_utc = [], pc_answers = a\<rparr>,
      \<lparr>pc_now = 3, pc_done = 3, pc_utc = [], pc_answers = a\<rparr>]" 5 cfg cred] by simp

end
