(* ===== verification/Upload_Source.thy ===== *)
theory Upload_Source
  imports Tool_Session "HOL-Library.Sublist"
begin

text \<open>
  Where uploaded bytes come from (\<^verbatim>\<open>tools/files.rs\<close>, the upload half, and the \<^verbatim>\<open>uploads[]\<close> part of
  \<^verbatim>\<open>tools/issues.rs\<close>): a bounded base64 argument, or a local file inside the directories the operator
  allowed. The file system is an argument that answers each call of the code on its own, so a file
  that changes between two of them is covered. Paths are Unix paths; base64 decoding and the estimate
  of its length are those of the base64 crate.
\<close>

section \<open>Environment\<close>

record file_meta =
  fm_is_file :: bool
  fm_len :: nat
  fm_dev :: nat
  fm_ino :: nat

text \<open>An open file: what \<^verbatim>\<open>fstat\<close> says of it and what reading it to the end gives.\<close>

record open_file =
  of_meta :: "file_meta option"
  of_contents :: "string option"

record upload_env =
  ue_canonicalize :: "string \<Rightarrow> string option"
  ue_stat :: "string \<Rightarrow> file_meta option"
  ue_open :: "string \<Rightarrow> open_file option"
  ue_restat :: "string \<Rightarrow> file_meta option"
  ue_utf8 :: "string \<Rightarrow> bool"
  ue_store_dir :: string
  ue_b64_estimate :: "nat \<Rightarrow> nat"
  ue_b64_decode :: "string \<Rightarrow> string option"

section \<open>Refusals\<close>

definition UPLOAD_FILE_MAX_BYTES :: nat where
  "UPLOAD_FILE_MAX_BYTES = 50 * 1024 * 1024"

definition local_storage_error :: "string \<Rightarrow> call_tool_result" where
  "local_storage_error context =
     err CMisconfigured (''the server could not '' @ context)
       (Some ''this is a server configuration problem the model cannot fix; report it to the operator'')"

definition source_required :: "string \<Rightarrow> call_tool_result" where
  "source_required context =
     err CSourceRequired (context @ '' requires exactly one of content_base64 or file_path'')
       (Some ''set exactly one source field and retry'')"

definition unsupported_source :: call_tool_result where
  "unsupported_source =
     err CUnsupportedSource ''source_url is not supported by this server; use content_base64 or file_path instead''
       (Some ''fetch the URL's bytes yourself and pass them via content_base64, or stage the file locally and use file_path'')"

definition path_not_allowed :: call_tool_result where
  "path_not_allowed =
     err CPathNotAllowed ''file_path is not inside ATTACHMENTS_DIR or a directory listed in REDMINE_MCP_UPLOAD_FILE_ROOTS, does not exist, or is not a regular file''
       (Some ''use content_base64 instead, or ask the operator to add this location to REDMINE_MCP_UPLOAD_FILE_ROOTS'')"

definition upload_too_large :: "string \<Rightarrow> nat option \<Rightarrow> nat \<Rightarrow> call_tool_result" where
  "upload_too_large context actual limit =
     (let sh = (if limit = UPLOAD_FILE_MAX_BYTES
                then (''this server's per-file upload limit'',
                      ''this server cannot upload a file this large; split the content or upload it to Redmine some other way'')
                else (''the remaining aggregate budget for this call's uploads[]'',
                      ''split the batch across multiple calls''))
      in err CFileTooLarge
           (case actual of
              Some n \<Rightarrow> context @ '': the content is '' @ nat_str n @ '' bytes, larger than '' @ fst sh @ '' ('' @ nat_str limit @ '' bytes)''
            | None \<Rightarrow> context @ '': the content is larger than '' @ fst sh @ '' ('' @ nat_str limit @ '' bytes)'')
           (Some (snd sh)))"

definition upload_rejected_as_too_large :: call_tool_result where
  "upload_rejected_as_too_large =
     err CFileTooLarge ''Redmine rejected the upload as too large''
       (Some ''the limit may be Redmine's own attachment_max_size setting, not this server's; ask the operator to check it'')"

section \<open>Base64\<close>

datatype base64_upload_error = Malformed | TooLarge call_tool_result

definition decode_upload_base64 :: "upload_env \<Rightarrow> string \<Rightarrow> string \<Rightarrow> nat \<Rightarrow> base64_upload_error + string" where
  "decode_upload_base64 F context b64 max_bytes =
     (if ue_b64_estimate F (length b64) > sat_add max_bytes 2 then Inl (TooLarge (upload_too_large context None max_bytes))
      else
        (case ue_b64_decode F b64 of
           None \<Rightarrow> Inl Malformed
         | Some decoded \<Rightarrow>
             if length decoded > max_bytes then Inl (TooLarge (upload_too_large context (Some (length decoded)) max_bytes))
             else Inr decoded))"

section \<open>Local files\<close>

fun split_on_slash :: "string \<Rightarrow> string list" where
  "split_on_slash [] = [[]]"
| "split_on_slash (c # cs) =
     (if c = CHR ''/'' then [] # split_on_slash cs
      else (case split_on_slash cs of w # ws \<Rightarrow> (c # w) # ws | [] \<Rightarrow> [[c]]))"

text \<open>The components of a canonical path, which has no \<open>.\<close> and no \<open>..\<close> in it.\<close>

definition components :: "string \<Rightarrow> string list" where
  "components p = filter (\<lambda>w. w \<noteq> []) (split_on_slash p)"

definition path_starts_with :: "string \<Rightarrow> string \<Rightarrow> bool" where
  "path_starts_with p root \<longleftrightarrow> starts_with p ''/'' = starts_with root ''/'' \<and> prefix (components root) (components p)"

definition is_absolute :: "string \<Rightarrow> bool" where
  "is_absolute p \<longleftrightarrow> starts_with p ''/''"

definition path_file_name :: "string \<Rightarrow> string option" where
  "path_file_name p = (if components p = [] then None else Some (last (components p)))"

definition read_and_validate_upload_path ::
    "upload_env \<Rightarrow> string list \<Rightarrow> string \<Rightarrow> nat \<Rightarrow> string \<Rightarrow> call_tool_result + string \<times> string option" where
  "read_and_validate_upload_path F roots context max_bytes raw =
     (if \<not> is_absolute raw then Inl path_not_allowed
      else
        (case ue_canonicalize F raw of
           None \<Rightarrow> Inl path_not_allowed
         | Some canonical \<Rightarrow>
             if \<not> list_ex (\<lambda>root. case ue_canonicalize F root of Some r \<Rightarrow> path_starts_with canonical r | None \<Rightarrow> False)
                   (roots @ [ue_store_dir F])
             then Inl path_not_allowed
             else
               (case ue_stat F canonical of
                  None \<Rightarrow> Inl path_not_allowed
                | Some pre \<Rightarrow>
                    if \<not> fm_is_file pre then Inl path_not_allowed
                    else if fm_len pre > max_bytes then Inl (upload_too_large context (Some (fm_len pre)) max_bytes)
                    else
                      (case ue_open F canonical of
                         None \<Rightarrow> Inl path_not_allowed
                       | Some h \<Rightarrow>
                           (case of_meta h of
                              None \<Rightarrow> Inl path_not_allowed
                            | Some hm \<Rightarrow>
                                if \<not> fm_is_file hm then Inl path_not_allowed
                                else
                                  (case ue_restat F canonical of
                                     None \<Rightarrow> Inl path_not_allowed
                                   | Some pm \<Rightarrow>
                                       if fm_dev pm \<noteq> fm_dev hm \<or> fm_ino pm \<noteq> fm_ino hm then Inl path_not_allowed
                                       else if fm_len hm > max_bytes
                                       then Inl (upload_too_large context (Some (fm_len hm)) max_bytes)
                                       else
                                         (case of_contents h of
                                            None \<Rightarrow> Inl (local_storage_error ''read the requested file_path'')
                                          | Some contents \<Rightarrow>
                                              Inr (contents,
                                                   (case path_file_name canonical of
                                                      Some n \<Rightarrow> if ue_utf8 F n then Some n else None
                                                    | None \<Rightarrow> None)))))))))"

section \<open>Upload tokens\<close>

definition mint_upload_token ::
    "tool_env \<Rightarrow> string \<Rightarrow> string option \<Rightarrow> (call_tool_result + upload \<Rightarrow> 'r prog) \<Rightarrow> 'r prog" where
  "mint_upload_token E body filename k =
     ask de_upload (create_upload (PBytes body) filename None) (\<lambda>r.
       case r of
         Inr u \<Rightarrow> k (Inr u)
       | Inl e \<Rightarrow>
           (case e of
              EApi status _ \<Rightarrow>
                if status = 413 \<or> status = 422 then k (Inl upload_rejected_as_too_large) else k (Inl (tool_error E e))
            | _ \<Rightarrow> k (Inl (tool_error E e))))"

section \<open>The uploads of an issue\<close>

record issue_upload_params =
  iu_filename :: "string option"
  iu_content_base64 :: "string option"
  iu_file_path :: "string option"
  iu_source_url :: "string option"
  iu_description :: "string option"

datatype issue_upload_outcome = UpProtocol mcp_error | UpInBand call_tool_result

definition ISSUE_UPLOADS_MAX_TOTAL_BYTES :: nat where
  "ISSUE_UPLOADS_MAX_TOTAL_BYTES = 100 * 1024 * 1024"

type_synonym resolved_upload = "string \<times> string option \<times> string option"

definition resolve_issue_upload ::
    "upload_env \<Rightarrow> string list \<Rightarrow> nat \<Rightarrow> issue_upload_params \<Rightarrow> nat \<Rightarrow> issue_upload_outcome + resolved_upload" where
  "resolve_issue_upload F roots idx item max_bytes =
     (let context = ''uploads['' @ nat_str idx @ '']'';
          sources = length (filter (\<lambda>s. s \<noteq> None) [iu_content_base64 item, iu_file_path item, iu_source_url item])
      in if sources \<noteq> 1 then Inl (UpInBand (source_required context))
         else if iu_source_url item \<noteq> None then Inl (UpInBand unsupported_source)
         else
           (case iu_content_base64 item of
              Some b64 \<Rightarrow>
                if iu_filename item = None then Inl (UpProtocol InvalidParams)
                else
                  (case decode_upload_base64 F context b64 max_bytes of
                     Inr bytes \<Rightarrow> Inr (bytes, iu_filename item, iu_description item)
                   | Inl Malformed \<Rightarrow> Inl (UpProtocol InvalidParams)
                   | Inl (TooLarge result) \<Rightarrow> Inl (UpInBand result))
            | None \<Rightarrow>
                (let raw_path = (case iu_file_path item of Some p \<Rightarrow> p | None \<Rightarrow> [])
                 in case read_and_validate_upload_path F roots context max_bytes raw_path of
                      Inl result \<Rightarrow> Inl (UpInBand result)
                    | Inr (contents, inferred) \<Rightarrow>
                        Inr (contents, (case iu_filename item of Some n \<Rightarrow> Some n | None \<Rightarrow> inferred), iu_description item))))"

fun resolve_uploads ::
    "upload_env \<Rightarrow> string list \<Rightarrow> nat \<Rightarrow> nat \<Rightarrow> issue_upload_params list \<Rightarrow> issue_upload_outcome + resolved_upload list" where
  "resolve_uploads F roots idx remaining [] = Inr []"
| "resolve_uploads F roots idx remaining (item # items) =
     (case resolve_issue_upload F roots idx item (min remaining UPLOAD_FILE_MAX_BYTES) of
        Inl x \<Rightarrow> Inl x
      | Inr res \<Rightarrow>
          (case resolve_uploads F roots (Suc idx) (remaining - length (fst res)) items of
             Inl x \<Rightarrow> Inl x
           | Inr rest \<Rightarrow> Inr (res # rest)))"

fun mint_uploads ::
    "tool_env \<Rightarrow> resolved_upload list \<Rightarrow> upload_ref list \<Rightarrow> nat list \<Rightarrow>
     (issue_upload_outcome + upload_ref list \<times> nat list \<Rightarrow> 'r prog) \<Rightarrow> 'r prog" where
  "mint_uploads E [] refs ids k = k (Inr (refs, ids))"
| "mint_uploads E ((bytes, filename, description) # rest) refs ids k =
     mint_upload_token E bytes filename (\<lambda>r.
       case r of
         Inl result \<Rightarrow> k (Inl (UpInBand result))
       | Inr u \<Rightarrow>
           mint_uploads E rest (refs @ [\<lparr>upr_token = upl_token u, upr_description = description\<rparr>]) (ids @ [upl_id u]) k)"

definition resolve_and_mint_issue_uploads ::
    "tool_env \<Rightarrow> upload_env \<Rightarrow> issue_upload_params list option \<Rightarrow>
     (issue_upload_outcome + upload_ref list \<times> nat list \<Rightarrow> 'r prog) \<Rightarrow> 'r prog" where
  "resolve_and_mint_issue_uploads E F uploads k =
     (case uploads of
        None \<Rightarrow> k (Inr ([], []))
      | Some items \<Rightarrow>
          if length items > 10 then k (Inl (UpProtocol InvalidParams))
          else
            (case resolve_uploads F (as_upload_file_roots (co_attachments (te_config E))) 0 ISSUE_UPLOADS_MAX_TOTAL_BYTES items of
               Inl x \<Rightarrow> k (Inl x)
             | Inr resolved \<Rightarrow> mint_uploads E resolved [] [] k))"

text \<open>
  The metadata of the uploads, in their order. The code keeps up to four of these reads in flight;
  one at a time they give the same result, only fewer reads are under way when one fails.
\<close>

fun fetch_attachments :: "nat list \<Rightarrow> attachment list \<Rightarrow> (redmine_error + attachment list \<Rightarrow> 'r prog) \<Rightarrow> 'r prog" where
  "fetch_attachments [] got k = k (Inr got)"
| "fetch_attachments (i # ids) got k =
     ask de_attachment (get_attachment i) (\<lambda>r.
       case r of Inl e \<Rightarrow> k (Inl e) | Inr a \<Rightarrow> fetch_attachments ids (got @ [a]) k)"

section \<open>Files inside the roots\<close>

definition inside_roots :: "upload_env \<Rightarrow> string list \<Rightarrow> string \<Rightarrow> bool" where
  "inside_roots F roots raw \<longleftrightarrow>
     is_absolute raw \<and>
     (\<exists>canonical root canon_root. ue_canonicalize F raw = Some canonical \<and> root \<in> set (roots @ [ue_store_dir F]) \<and>
        ue_canonicalize F root = Some canon_root \<and> prefix (components canon_root) (components canonical))"

lemma outside_refused:
  assumes "\<not> inside_roots F roots raw"
  shows "read_and_validate_upload_path F roots context max_bytes raw = Inl path_not_allowed"
proof (cases "is_absolute raw \<and> ue_canonicalize F raw \<noteq> None")
  case True
  then obtain canonical where c: "is_absolute raw" "ue_canonicalize F raw = Some canonical" by blast
  have "\<not> list_ex (\<lambda>root. case ue_canonicalize F root of Some r \<Rightarrow> path_starts_with canonical r | None \<Rightarrow> False)
      (roots @ [ue_store_dir F])"
  proof
    assume "list_ex (\<lambda>root. case ue_canonicalize F root of Some r \<Rightarrow> path_starts_with canonical r | None \<Rightarrow> False)
      (roots @ [ue_store_dir F])"
    then obtain root where "root \<in> set (roots @ [ue_store_dir F])"
      "case ue_canonicalize F root of Some r \<Rightarrow> path_starts_with canonical r | None \<Rightarrow> False"
      unfolding list_ex_iff by blast
    then show False using assms c
      by (auto simp: inside_roots_def path_starts_with_def split: option.splits)
  qed
  then show ?thesis using c by (simp only: read_and_validate_upload_path_def option.simps if_True not_True_eq_False not_False_eq_True if_False)
next
  case False
  then show ?thesis by (cases "ue_canonicalize F raw") (simp_all add: read_and_validate_upload_path_def)
qed

lemma read_path_Inr:
  assumes "read_and_validate_upload_path F roots context max_bytes raw = Inr (contents, name)"
  shows "\<exists>canonical h hm pm. ue_canonicalize F raw = Some canonical \<and> ue_open F canonical = Some h \<and>
      of_contents h = Some contents \<and> of_meta h = Some hm \<and> fm_is_file hm \<and> fm_len hm \<le> max_bytes \<and>
      ue_restat F canonical = Some pm \<and> fm_dev pm = fm_dev hm \<and> fm_ino pm = fm_ino hm"
  using assms
  by (auto simp: read_and_validate_upload_path_def not_less split: if_split_asm option.split_asm)

text \<open>
  A local file is uploaded only from where the operator allowed it. What is read comes from an
  opened regular file, no longer than the limit when it was opened, which is the file its canonical
  path leads to, and that path lies inside a configured root or the attachment store, component by
  component. A path anywhere else is refused with one and the same answer, whatever is there.
\<close>

theorem upload_path_confined:
  "case read_and_validate_upload_path F roots context max_bytes raw of
     Inr (contents, name) \<Rightarrow>
       inside_roots F roots raw \<and>
       (\<exists>canonical h hm pm. ue_canonicalize F raw = Some canonical \<and> ue_open F canonical = Some h \<and>
          of_contents h = Some contents \<and> of_meta h = Some hm \<and> fm_is_file hm \<and> fm_len hm \<le> max_bytes \<and>
          ue_restat F canonical = Some pm \<and> fm_dev pm = fm_dev hm \<and> fm_ino pm = fm_ino hm)
   | Inl e \<Rightarrow> e = path_not_allowed \<or> inside_roots F roots raw"
proof (cases "read_and_validate_upload_path F roots context max_bytes raw")
  case (Inl e)
  then show ?thesis using outside_refused [of F roots raw "context" max_bytes] by (cases "inside_roots F roots raw") auto
next
  case (Inr r)
  obtain contents name where r: "r = (contents, name)" by (cases r)
  have "inside_roots F roots raw"
    using Inr outside_refused [of F roots raw "context" max_bytes] by (cases "inside_roots F roots raw") auto
  then show ?thesis using Inr read_path_Inr [of F roots "context" max_bytes raw contents name] by (simp add: r)
qed

section \<open>The budget of a call\<close>

text \<open>Reading a file to its end gives no more than its size was when it was opened.\<close>

definition files_do_not_grow :: "upload_env \<Rightarrow> bool" where
  "files_do_not_grow F \<longleftrightarrow>
     (\<forall>p h hm c. ue_open F p = Some h \<and> of_meta h = Some hm \<and> of_contents h = Some c \<longrightarrow> length c \<le> fm_len hm)"

lemma decode_bounded: "decode_upload_base64 F context b64 m = Inr bytes \<Longrightarrow> length bytes \<le> m"
  by (auto simp: decode_upload_base64_def not_less split: if_splits option.splits)

lemma resolve_upload_bounded:
  assumes "files_do_not_grow F" and "resolve_issue_upload F roots idx item m = Inr res"
  shows "length (fst res) \<le> m"
proof (cases "iu_content_base64 item")
  case None
  then obtain c n where "read_and_validate_upload_path F roots (''uploads['' @ nat_str idx @ '']'') m
      (case iu_file_path item of Some p \<Rightarrow> p | None \<Rightarrow> []) = Inr (c, n)" "fst res = c"
    using assms(2) by (auto simp: resolve_issue_upload_def Let_def split: if_split_asm sum.split_asm)
  then have "length c \<le> m"
    using assms(1) read_path_Inr [of F roots _ m _ c n] unfolding files_do_not_grow_def by fastforce
  then show ?thesis using \<open>fst res = c\<close> by simp
next
  case (Some b64)
  then obtain bytes where "decode_upload_base64 F (''uploads['' @ nat_str idx @ '']'') b64 m = Inr bytes" "fst res = bytes"
    using assms(2) by (auto simp: resolve_issue_upload_def Let_def split: if_split_asm sum.split_asm base64_upload_error.split_asm)
  then show ?thesis using decode_bounded by metis
qed

lemma resolve_uploads_bounded:
  assumes "files_do_not_grow F" and "resolve_uploads F roots idx remaining items = Inr rs"
  shows "length rs = length items \<and> sum_list (map (length \<circ> fst) rs) \<le> remaining \<and>
    list_all (\<lambda>r. length (fst r) \<le> UPLOAD_FILE_MAX_BYTES) rs"
  using assms(2)
proof (induction items arbitrary: idx remaining rs)
  case (Cons item items)
  obtain r rest where r: "resolve_issue_upload F roots idx item (min remaining UPLOAD_FILE_MAX_BYTES) = Inr r"
    "resolve_uploads F roots (Suc idx) (remaining - length (fst r)) items = Inr rest" "rs = r # rest"
    using Cons.prems by (auto split: sum.split_asm)
  have "length (fst r) \<le> min remaining UPLOAD_FILE_MAX_BYTES" using resolve_upload_bounded [OF assms(1) r(1)] .
  then show ?case using Cons.IH [OF r(2)] r(3) by auto
qed simp

text \<open>
  C25. The uploads of one call stay within their budget before anything is sent: all items resolve,
  together to at most 100 MiB and each to at most 50 MiB, provided no file grows while it is read.
\<close>

theorem uploads_within_budget:
  assumes "files_do_not_grow F" and "resolve_uploads F roots 0 ISSUE_UPLOADS_MAX_TOTAL_BYTES items = Inr rs"
  shows "length rs = length items \<and> sum_list (map (length \<circ> fst) rs) \<le> 100 * 1024 * 1024 \<and>
    list_all (\<lambda>r. length (fst r) \<le> 50 * 1024 * 1024) rs"
  using resolve_uploads_bounded [OF assms] by (simp add: ISSUE_UPLOADS_MAX_TOTAL_BYTES_def UPLOAD_FILE_MAX_BYTES_def)

definition example_files :: "string \<Rightarrow> upload_env" where
  "example_files contents =
     (let m = \<lparr>fm_is_file = True, fm_len = 3, fm_dev = 1, fm_ino = 2\<rparr>
      in \<lparr>ue_canonicalize = Some, ue_stat = (\<lambda>_. Some m), ue_open = (\<lambda>_. Some \<lparr>of_meta = Some m, of_contents = Some contents\<rparr>),
          ue_restat = (\<lambda>_. Some m), ue_utf8 = (\<lambda>_. True), ue_store_dir = ''/d'', ue_b64_estimate = (\<lambda>n. n),
          ue_b64_decode = (\<lambda>_. None)\<rparr>)"

definition example_upload :: issue_upload_params where
  "example_upload = \<lparr>iu_filename = None, iu_content_base64 = None, iu_file_path = Some ''/d/f'', iu_source_url = None,
     iu_description = None\<rparr>"

lemma example_upload_read: "resolve_issue_upload (example_files c) [] idx example_upload UPLOAD_FILE_MAX_BYTES = Inr (c, Some ''f'', None)"
  by (simp add: resolve_issue_upload_def example_upload_def example_files_def read_and_validate_upload_path_def is_absolute_def
      starts_with_def path_starts_with_def components_def path_file_name_def UPLOAD_FILE_MAX_BYTES_def Let_def)

theorem uploads_within_budget_witness:
  "files_do_not_grow (example_files ''abc'') \<and>
   resolve_uploads (example_files ''abc'') [] 0 ISSUE_UPLOADS_MAX_TOTAL_BYTES [example_upload] = Inr [(''abc'', Some ''f'', None)] \<and>
   length [(''abc'', Some ''f'', None :: string option)] = length [example_upload]"
proof -
  have g: "files_do_not_grow (example_files ''abc'')" by (auto simp: files_do_not_grow_def example_files_def Let_def)
  have "min ISSUE_UPLOADS_MAX_TOTAL_BYTES UPLOAD_FILE_MAX_BYTES = UPLOAD_FILE_MAX_BYTES"
    by (simp add: ISSUE_UPLOADS_MAX_TOTAL_BYTES_def UPLOAD_FILE_MAX_BYTES_def)
  then have r: "resolve_uploads (example_files ''abc'') [] 0 ISSUE_UPLOADS_MAX_TOTAL_BYTES [example_upload] =
      Inr [(''abc'', Some ''f'', None)]"
    by (simp add: example_upload_read)
  show ?thesis using g r uploads_within_budget [OF g r] by blast
qed

text \<open>A file that grows after it was opened takes the call over its budget: the read has no limit of its own.\<close>

lemma growing_file_over_budget:
  "resolve_uploads (example_files (replicate (ISSUE_UPLOADS_MAX_TOTAL_BYTES + 1) CHR ''x'')) [] 0 ISSUE_UPLOADS_MAX_TOTAL_BYTES
     [example_upload] = Inr [(replicate (ISSUE_UPLOADS_MAX_TOTAL_BYTES + 1) CHR ''x'', Some ''f'', None)]"
proof -
  have "min ISSUE_UPLOADS_MAX_TOTAL_BYTES UPLOAD_FILE_MAX_BYTES = UPLOAD_FILE_MAX_BYTES"
    by (simp add: ISSUE_UPLOADS_MAX_TOTAL_BYTES_def UPLOAD_FILE_MAX_BYTES_def)
  then show ?thesis by (simp add: example_upload_read del: replicate_Suc)
qed

section \<open>Operations\<close>

lemma calls_ok_mint:
  assumes "\<And>b n. P (create_upload (PBytes b) n None)" and "\<And>r. calls_ok (k r) P"
  shows "calls_ok (mint_uploads E rs refs ids k) P"
  using assms
  by (induction rs arbitrary: refs ids)
    (auto simp: mint_upload_token_def intro!: calls_ok_askI split: sum.split redmine_error.split)

lemma at_most_mint:
  assumes "\<And>r. at_most (k r) Q n"
  shows "at_most (mint_uploads E rs refs ids k) Q (length rs + n)"
  using assms
proof (induction rs arbitrary: refs ids)
  case (Cons r rs)
  have "at_most (k x) Q (length rs + n)" for x by (rule at_most_mono [OF Cons.prems]) simp
  then show ?case
    using Cons by (cases r) (auto simp: mint_upload_token_def intro!: at_most_askI_Suc split: sum.split redmine_error.split)
qed simp

lemma resolve_uploads_length: "resolve_uploads F roots idx m items = Inr rs \<Longrightarrow> length rs = length items"
  by (induction items arbitrary: idx m rs) (auto split: sum.split_asm)

lemma at_most_uploads:
  assumes "\<And>r. at_most (k r) Q n"
  shows "at_most (resolve_and_mint_issue_uploads E F uploads k) Q (10 + n)"
proof -
  have direct: "at_most (k r) Q (10 + n)" for r by (rule at_most_mono [OF assms]) simp
  have "at_most (mint_uploads E rs refs ids k) Q (10 + n)" if "length rs \<le> 10" for rs refs ids
    using that by (intro at_most_mono [OF at_most_mint [OF assms, of E rs refs ids]]) simp
  then show ?thesis
    using direct by (auto simp: resolve_and_mint_issue_uploads_def dest!: resolve_uploads_length split: option.split sum.split)
qed

lemma calls_ok_uploads:
  assumes "\<And>b n. P (create_upload (PBytes b) n None)" and "\<And>r. calls_ok (k r) P"
  shows "calls_ok (resolve_and_mint_issue_uploads E F uploads k) P"
  using assms by (auto simp: resolve_and_mint_issue_uploads_def intro!: calls_ok_mint split: option.split sum.split)

lemma calls_ok_fetch_attachments:
  assumes "\<And>i. P (get_attachment i)" and "\<And>r. calls_ok (k r) P"
  shows "calls_ok (fetch_attachments ids got k) P"
  using assms by (induction ids arbitrary: got) (auto intro!: calls_ok_askI split: sum.split)

lemma at_most_fetch_attachments:
  assumes "\<And>i. \<not> Q (get_attachment i)" and "\<And>r. at_most (k r) Q n"
  shows "at_most (fetch_attachments ids got k) Q n"
  using assms by (induction ids arbitrary: got) (auto intro!: at_most_askI split: sum.split)

end
