(* ===== verification/Issue_Tools.thy ===== *)
theory Issue_Tools
  imports Issue_Output Upload_Source
begin

text \<open>
  The issue tools (\<^verbatim>\<open>tools/issues.rs\<close>), each as a program over the REST surface. The argument of a tool
  is its parameter structure after deserialization; a parameter error keeps only its kind.
\<close>

section \<open>Reading\<close>

record get_redmine_issue_params =
  gi_issue_id :: nat
  gi_include_journals :: bool
  gi_include_attachments :: bool
  gi_include_custom_fields :: bool
  gi_journal_limit :: "nat option"
  gi_journal_offset :: "nat option"
  gi_include_watchers :: bool
  gi_include_relations :: bool
  gi_include_children :: bool
  gi_include_allowed_statuses :: bool

definition issue_includes :: "get_redmine_issue_params \<Rightarrow> issue_include list" where
  "issue_includes p =
     (if gi_include_journals p \<or> gi_journal_limit p \<noteq> None then [Journals] else []) @
     (if gi_include_attachments p then [Attachments] else []) @
     (if gi_include_watchers p then [Watchers] else []) @
     (if gi_include_relations p then [Relations] else []) @
     (if gi_include_children p then [Children] else []) @
     (if gi_include_allowed_statuses p then [AllowedStatuses] else [])"

definition get_redmine_issue :: "tool_env \<Rightarrow> get_redmine_issue_params \<Rightarrow> tool_result prog" where
  "get_redmine_issue E p =
     with_scoped E (ask de_issue (get_issue (gi_issue_id p) (issue_includes p)) (\<lambda>r. or_fail E r (\<lambda>i.
       let i = (if gi_include_custom_fields p then i else i\<lparr>isu_custom_fields := None\<rparr>);
           finish = (\<lambda>agile. ok_out E (issue_detail_out E i (gi_journal_limit p) (gi_journal_offset p) agile
                                 (pf_tags (co_plugins (te_config E)))))
       in if pf_agile (co_plugins (te_config E))
          then ask de_agile (get_agile_data (gi_issue_id p)) (\<lambda>r.
                 case r of
                   Inr row \<Rightarrow> finish (Some (case row of Some a \<Rightarrow> a | None \<Rightarrow> agile_data_default))
                 | Inl _ \<Rightarrow> finish None)
          else finish None)))"

datatype assigned_to_ref = AssignedId nat | AssignedLiteral string

definition resolve_assigned_to :: "assigned_to_ref \<Rightarrow> mcp_error + user_filter" where
  "resolve_assigned_to r =
     (case r of AssignedId n \<Rightarrow> Inr (UserId n) | AssignedLiteral s \<Rightarrow> if s = ''me'' then Inr UserMe else Inl InvalidParams)"

record list_redmine_issues_params =
  li_project_id :: "project_ref option"
  li_status_id :: "nat option"
  li_tracker_id :: "nat option"
  li_assigned_to_id :: "assigned_to_ref option"
  li_priority_id :: "nat option"
  li_fixed_version_id :: "nat option"
  li_sort :: "string option"
  li_limit :: "nat option"
  li_offset :: "nat option"
  li_include_pagination_info :: bool
  li_fields :: "string list option"

definition extra_param :: "string \<Rightarrow> nat option \<Rightarrow> (string \<times> string) list" where
  "extra_param k v = (case v of Some n \<Rightarrow> [(k, nat_str n)] | None \<Rightarrow> [])"

text \<open>The extra parameters are a \<^verbatim>\<open>BTreeMap\<close>, listed here in the order of its keys.\<close>

definition list_redmine_issues :: "tool_env \<Rightarrow> list_redmine_issues_params \<Rightarrow> tool_result prog" where
  "list_redmine_issues E p =
     or_invalid (resolve_issue_fields (li_fields p)) (\<lambda>fs.
     or_invalid (transposed resolve_project_ref (li_project_id p)) (\<lambda>project.
     or_invalid (transposed resolve_assigned_to (li_assigned_to_id p)) (\<lambda>assigned_to.
       let q = \<lparr>iq_project = project, iq_status = map_option StatusId (li_status_id p), iq_assigned_to = assigned_to,
                iq_updated_on = None, iq_sort = li_sort p,
                iq_extra = extra_param ''fixed_version_id'' (li_fixed_version_id p) @
                           extra_param ''priority_id'' (li_priority_id p) @ extra_param ''tracker_id'' (li_tracker_id p)\<rparr>
       in with_scoped E
            (ask de_issue_page
               (list_issues_page q (clamp_issues_limit (li_limit p)) (case li_offset p of Some n \<Rightarrow> n | None \<Rightarrow> 0)) (\<lambda>r.
             or_fail E r (\<lambda>pg.
               ok_out E (issues_output (map (issue_summary_out E fs) (pg_items pg))
                           (given (li_include_pagination_info p) (from_page pg)))))))))"

record search_redmine_issues_params =
  sp_query :: string
  sp_limit :: "nat option"
  sp_offset :: "nat option"
  sp_include_pagination_info :: bool
  sp_fields :: "string list option"
  sp_scope :: "search_scope option"
  sp_open_issues :: bool

text \<open>The issues that were read, by id; of two with the same id the later one counts.\<close>

definition by_id :: "issue list \<Rightarrow> nat \<rightharpoonup> issue" where
  "by_id issues = map_of (rev (map (\<lambda>i. (isu_id i, i)) issues))"

definition search_redmine_issues :: "tool_env \<Rightarrow> search_redmine_issues_params \<Rightarrow> tool_result prog" where
  "search_redmine_issues E p =
     (if blank_text E (sp_query p) then invalid_params
      else or_invalid (resolve_issue_fields (sp_fields p)) (\<lambda>fs.
        with_scoped E
          (ask de_search_page
             (search_issues_page (sp_query p) (sp_scope p) (sp_open_issues p) (clamp_issues_limit (sp_limit p))
                (case sp_offset p of Some n \<Rightarrow> n | None \<Rightarrow> 0)) (\<lambda>r.
           or_fail E r (\<lambda>pg.
             let ids = map srs_id (filter (\<lambda>x. srs_kind x = ''issue'') (pg_items pg));
                 finish = (\<lambda>hydrated.
                   ok_out E (issues_output (map (issue_summary_out E fs) (List.map_filter (by_id hydrated) ids))
                               (given (sp_include_pagination_info p) (from_page pg))))
             in if ids = [] then finish []
                else ask de_issues (list_issues_by_id ids) (\<lambda>r. or_fail E r finish))))))"

definition list_subtasks_tool :: "tool_env \<Rightarrow> nat \<Rightarrow> tool_result prog" where
  "list_subtasks_tool E issue_id =
     with_scoped E (ask de_issues (list_subtasks issue_id) (\<lambda>r. or_fail E r (\<lambda>issues.
       ok_out E (JObj (obj_of [(''subtasks'', jlist (issue_summary_out E issue_field_set_all) issues)])))))"

definition private_note_out :: "tool_env \<Rightarrow> journal \<Rightarrow> json option" where
  "private_note_out E j =
     (case jr_notes j of
        Some notes \<Rightarrow>
          if notes = [] then None
          else Some (JObj (obj_of
            [(''id'', jnat (jr_id j)), (''user'', nullable (id_name_out E ''user.name'') (jr_user j)),
             (''notes'', JStr (te_wrap E ''journal.notes'' notes)), (''created_on'', JStr (jr_created_on j))]))
      | None \<Rightarrow> None)"

definition get_private_notes :: "tool_env \<Rightarrow> nat \<Rightarrow> tool_result prog" where
  "get_private_notes E issue_id =
     with_scoped E (ask de_issue (get_issue issue_id [Journals]) (\<lambda>r. or_fail E r (\<lambda>i.
       ok_out E (JObj (obj_of
         [(''private_notes'',
           JArr (List.map_filter (private_note_out E)
             (filter (\<lambda>j. jr_private_notes j = Some True) (case isu_journals i of Some js \<Rightarrow> js | None \<Rightarrow> []))))])))))"

section \<open>Creating\<close>

record create_redmine_issue_params =
  cp_project_id :: project_ref
  cp_subject :: string
  cp_description :: "string option"
  cp_tracker_id :: "nat option"
  cp_status_id :: "nat option"
  cp_priority_id :: "nat option"
  cp_assigned_to_id :: "nat option"
  cp_category_id :: "nat option"
  cp_fixed_version_id :: "nat option"
  cp_parent_issue_id :: "nat option"
  cp_start_date :: "string option"
  cp_due_date :: "string option"
  cp_done_ratio :: "nat option"
  cp_estimated_hours :: "rat option"
  cp_is_private :: "bool option"
  cp_uploads :: "issue_upload_params list option"
  cp_tag_list :: "string list option"
  cp_custom_fields :: "issue_custom_field_entry list option"

fun validate_tag_list :: "string list \<Rightarrow> mcp_error + string list" where
  "validate_tag_list [] = Inr []"
| "validate_tag_list (t # ts) =
     (let trimmed = trim t
      in if trimmed = [] then Inl InvalidParams
         else if CHR '','' \<in> set trimmed then Inl InvalidParams
         else (case validate_tag_list ts of Inl e \<Rightarrow> Inl e | Inr rest \<Rightarrow> Inr (trimmed # rest)))"

definition tags_misconfigured :: "tool_result prog" where
  "tags_misconfigured =
     err_out CMisconfigured ''tag_list requires the AlphaNodes additional_tags plugin''
       (Some ''set REDMINE_TAGS_ENABLED=true, or omit tag_list'')"

definition or_cf :: "cf_outcome + 'a \<Rightarrow> ('a \<Rightarrow> tool_result prog) \<Rightarrow> tool_result prog" where
  "or_cf r k = (case r of Inl (CfProtocol e) \<Rightarrow> Done (Inl e) | Inl (CfInBand x) \<Rightarrow> Done (Inr x) | Inr v \<Rightarrow> k v)"

definition or_upload :: "issue_upload_outcome + 'a \<Rightarrow> ('a \<Rightarrow> tool_result prog) \<Rightarrow> tool_result prog" where
  "or_upload r k = (case r of Inl (UpProtocol e) \<Rightarrow> Done (Inl e) | Inl (UpInBand x) \<Rightarrow> Done (Inr x) | Inr v \<Rightarrow> k v)"

definition send_create :: "issue_create \<Rightarrow> bool \<Rightarrow> (redmine_error + issue \<Rightarrow> 'r prog) \<Rightarrow> 'r prog" where
  "send_create new has_uploads k =
     ask de_issue (if has_uploads then create_issue_with_attachments (PIssueCreate new) else create_issue (PIssueCreate new)) k"

definition issue_written :: "tool_env \<Rightarrow> issue \<Rightarrow> agile_data option \<Rightarrow> fill list option \<Rightarrow> tool_result prog" where
  "issue_written E i agile autofilled =
     ok_out E (JObj (obj_of
       ([(''success'', JBool True),
         (''issue'', issue_detail_out E i None None agile (pf_tags (co_plugins (te_config E))))] @
        present ''autofilled_custom_fields''
          (jlist (\<lambda>f. custom_field_value_out E (fl_id f) (fl_name f) (Some (fl_value f)))) autofilled)))"

text \<open>
  A write that is tried once more, with filled fields, when Redmine rejected it for required ones.
  \<open>send\<close> is the write and \<open>retry\<close> the write with other custom fields.
\<close>

definition write_recovering ::
    "tool_env \<Rightarrow> autofill_target \<Rightarrow> custom_field_write list option \<Rightarrow>
     ((redmine_error + issue \<Rightarrow> tool_result prog) \<Rightarrow> tool_result prog) \<Rightarrow>
     (custom_field_write list \<Rightarrow> (redmine_error + issue \<Rightarrow> tool_result prog) \<Rightarrow> tool_result prog) \<Rightarrow>
     (issue \<Rightarrow> fill list option \<Rightarrow> tool_result prog) \<Rightarrow> tool_result prog" where
  "write_recovering E target cfs send retry k =
     send (\<lambda>r.
       case r of
         Inr i \<Rightarrow> k i None
       | Inl e \<Rightarrow>
           recover_required_fields E target cfs e (\<lambda>rec.
             case rec of
               None \<Rightarrow> Done (Inr (tool_error E e))
             | Some (GiveUp result) \<Rightarrow> Done (Inr result)
             | Some (Retry merged fills) \<Rightarrow>
                 retry merged (\<lambda>r.
                   case r of
                     Inr i \<Rightarrow> k i (Some fills)
                   | Inl e2 \<Rightarrow>
                       Done (Inr (case retry_still_missing_required_fields e2 of Some x \<Rightarrow> x | None \<Rightarrow> tool_error E e2)))))"

definition create_payload ::
    "create_redmine_issue_params \<Rightarrow> project_ident \<Rightarrow> string list option \<Rightarrow> custom_field_write list option \<Rightarrow>
     upload_ref list \<Rightarrow> issue_create" where
  "create_payload p project_id tag_list cfs uploads =
     \<lparr>icr_project_id = project_id, icr_subject = cp_subject p, icr_tracker_id = cp_tracker_id p,
      icr_status_id = cp_status_id p, icr_priority_id = cp_priority_id p, icr_category_id = cp_category_id p,
      icr_fixed_version_id = cp_fixed_version_id p, icr_description = cp_description p,
      icr_assigned_to_id = cp_assigned_to_id p, icr_parent_issue_id = cp_parent_issue_id p,
      icr_start_date = cp_start_date p, icr_due_date = cp_due_date p, icr_done_ratio = cp_done_ratio p,
      icr_estimated_hours = cp_estimated_hours p, icr_is_private = cp_is_private p, icr_uploads = uploads,
      icr_tag_list = tag_list, icr_custom_fields = cfs\<rparr>"

definition create_redmine_issue :: "tool_env \<Rightarrow> upload_env \<Rightarrow> create_redmine_issue_params \<Rightarrow> tool_result prog" where
  "create_redmine_issue E F p =
     (if blank_text E (cp_subject p) then invalid_params
      else if cp_tag_list p \<noteq> None \<and> \<not> pf_tags (co_plugins (te_config E)) then tags_misconfigured
      else
        or_invalid (transposed validate_tag_list (cp_tag_list p)) (\<lambda>tag_list.
        or_invalid (resolve_project_ref (cp_project_id p)) (\<lambda>project_id.
          with_scoped E
            (resolve_issue_custom_fields E project_id (cp_custom_fields p) (\<lambda>r. or_cf r (\<lambda>cfs.
             resolve_and_mint_issue_uploads E F (cp_uploads p) (\<lambda>r. or_upload r (\<lambda>(uploads, ids).
               let new = create_payload p project_id tag_list cfs uploads; has_uploads = (ids \<noteq> [])
               in write_recovering E (TargetCreate project_id) (icr_custom_fields new) (send_create new has_uploads)
                    (\<lambda>merged. send_create (new\<lparr>icr_custom_fields := Some merged\<rparr>) has_uploads)
                    (\<lambda>i autofilled. issue_written E i None autofilled)))))))))"

section \<open>Updating\<close>

datatype clearable_field = AssignedToId | CategoryId | FixedVersionId | ParentIssueId | StartDate | DueDate | EstimatedHours

record update_redmine_issue_params =
  up_issue_id :: nat
  up_subject :: "string option"
  up_description :: "string option"
  up_tracker_id :: "nat option"
  up_status_id :: "nat option"
  up_priority_id :: "nat option"
  up_assigned_to_id :: "nat option"
  up_category_id :: "nat option"
  up_fixed_version_id :: "nat option"
  up_parent_issue_id :: "nat option"
  up_start_date :: "string option"
  up_due_date :: "string option"
  up_done_ratio :: "nat option"
  up_estimated_hours :: "rat option"
  up_is_private :: "bool option"
  up_notes :: "string option"
  up_private_notes :: "bool option"
  up_uploads :: "issue_upload_params list option"
  up_story_points :: "nat option option"
  up_agile_sprint_id :: "nat option"
  up_agile_position :: "nat option"
  up_tag_list :: "string list option"
  up_custom_fields :: "issue_custom_field_entry list option"
  up_clear_fields :: "clearable_field list option"

definition is_some_nonempty :: "'a list option \<Rightarrow> bool" where
  "is_some_nonempty v = (case v of Some xs \<Rightarrow> xs \<noteq> [] | None \<Rightarrow> False)"

definition update_has_core_change :: "update_redmine_issue_params \<Rightarrow> bool" where
  "update_has_core_change p \<longleftrightarrow>
     up_subject p \<noteq> None \<or> up_description p \<noteq> None \<or> up_tracker_id p \<noteq> None \<or> up_status_id p \<noteq> None \<or>
     up_priority_id p \<noteq> None \<or> up_assigned_to_id p \<noteq> None \<or> up_category_id p \<noteq> None \<or>
     up_fixed_version_id p \<noteq> None \<or> up_parent_issue_id p \<noteq> None \<or> up_start_date p \<noteq> None \<or>
     up_due_date p \<noteq> None \<or> up_done_ratio p \<noteq> None \<or> up_estimated_hours p \<noteq> None \<or> up_is_private p \<noteq> None \<or>
     up_notes p \<noteq> None \<or> up_tag_list p \<noteq> None \<or> is_some_nonempty (up_clear_fields p) \<or>
     is_some_nonempty (up_uploads p) \<or> is_some_nonempty (up_custom_fields p)"

definition clear_or :: "clearable_field list \<Rightarrow> clearable_field \<Rightarrow> 'a option \<Rightarrow> 'a field_update" where
  "clear_or clear f v = (if f \<in> set clear then Clear else from_option v)"

fun sets_field :: "update_redmine_issue_params \<Rightarrow> clearable_field \<Rightarrow> bool" where
  "sets_field p AssignedToId = (up_assigned_to_id p \<noteq> None)"
| "sets_field p CategoryId = (up_category_id p \<noteq> None)"
| "sets_field p FixedVersionId = (up_fixed_version_id p \<noteq> None)"
| "sets_field p ParentIssueId = (up_parent_issue_id p \<noteq> None)"
| "sets_field p StartDate = (up_start_date p \<noteq> None)"
| "sets_field p DueDate = (up_due_date p \<noteq> None)"
| "sets_field p EstimatedHours = (up_estimated_hours p \<noteq> None)"

definition update_clear_conflict :: "update_redmine_issue_params \<Rightarrow> clearable_field option" where
  "update_clear_conflict p = (case up_clear_fields p of None \<Rightarrow> None | Some clear \<Rightarrow> find (sets_field p) clear)"

definition has_agile_change :: "update_redmine_issue_params \<Rightarrow> bool" where
  "has_agile_change p \<longleftrightarrow> up_story_points p \<noteq> None \<or> up_agile_sprint_id p \<noteq> None \<or> up_agile_position p \<noteq> None"

definition update_payload ::
    "update_redmine_issue_params \<Rightarrow> string list option \<Rightarrow> custom_field_write list option \<Rightarrow> upload_ref list \<Rightarrow> issue_update" where
  "update_payload p tag_list cfs uploads =
     (let clear = (case up_clear_fields p of Some fs \<Rightarrow> fs | None \<Rightarrow> [])
      in \<lparr>iup_subject = up_subject p, iup_description = up_description p, iup_tracker_id = up_tracker_id p,
          iup_status_id = up_status_id p, iup_priority_id = up_priority_id p,
          iup_category_id = clear_or clear CategoryId (up_category_id p),
          iup_fixed_version_id = clear_or clear FixedVersionId (up_fixed_version_id p),
          iup_assigned_to_id = clear_or clear AssignedToId (up_assigned_to_id p),
          iup_parent_issue_id = clear_or clear ParentIssueId (up_parent_issue_id p),
          iup_start_date = clear_or clear StartDate (up_start_date p),
          iup_due_date = clear_or clear DueDate (up_due_date p), iup_done_ratio = up_done_ratio p,
          iup_estimated_hours = clear_or clear EstimatedHours (up_estimated_hours p),
          iup_is_private = up_is_private p, iup_notes = up_notes p, iup_private_notes = up_private_notes p,
          iup_uploads = uploads, iup_tag_list = tag_list, iup_custom_fields = cfs\<rparr>)"

definition agile_failure_result :: "tool_env \<Rightarrow> redmine_error \<Rightarrow> bool \<Rightarrow> call_tool_result" where
  "agile_failure_result E e core_already_applied =
     (let result = tool_error E e
      in case ct_structured result of
           JObj m \<Rightarrow>
             (case map_of m ''error'' of
                Some (JStr message) \<Rightarrow>
                  if core_already_applied
                  then result\<lparr>ct_structured := JObj (obj_insert ''error''
                         (JStr (''the issue's core fields were already updated successfully; only the agile fields failed to apply: ''
                                @ message)) m)\<rparr>
                  else result
              | _ \<Rightarrow> result)
         | _ \<Rightarrow> result)"

definition or_agile_fail :: "tool_env \<Rightarrow> bool \<Rightarrow> redmine_error + 'a \<Rightarrow> ('a \<Rightarrow> tool_result prog) \<Rightarrow> tool_result prog" where
  "or_agile_fail E core r k = (case r of Inl e \<Rightarrow> Done (Inr (agile_failure_result E e core)) | Inr v \<Rightarrow> k v)"

text \<open>The last part of an update: the agile row is read, merged with the change, written and read again.\<close>

definition agile_part ::
    "tool_env \<Rightarrow> update_redmine_issue_params \<Rightarrow> (agile_data option \<Rightarrow> tool_result prog) \<Rightarrow> tool_result prog" where
  "agile_part E p k =
     (if has_agile_change p
      then
        (let core = update_has_core_change p
         in ask de_agile (get_agile_data (up_issue_id p)) (\<lambda>r. or_agile_fail E core r (\<lambda>row.
              let change = \<lparr>agc_story_points = up_story_points p, agc_sprint_id = up_agile_sprint_id p,
                            agc_position = up_agile_position p\<rparr>
              in ask de_unit (update_agile_data (up_issue_id p) (PAgile (merge_over row change))) (\<lambda>r.
                   or_agile_fail E core r (\<lambda>_.
                   ask de_agile (get_agile_data (up_issue_id p)) (\<lambda>r. or_agile_fail E core r (\<lambda>again.
                     k (Some (case again of Some a \<Rightarrow> a | None \<Rightarrow> agile_data_default)))))))))
      else k None)"

definition attachments_part ::
    "tool_env \<Rightarrow> nat list \<Rightarrow> issue \<Rightarrow> (issue \<Rightarrow> tool_result prog) \<Rightarrow> tool_result prog" where
  "attachments_part E ids i k =
     (if ids = [] then k i
      else fetch_attachments ids [] (\<lambda>r. or_fail E r (\<lambda>as. k (i\<lparr>isu_attachments := Some as\<rparr>))))"

definition update_redmine_issue :: "tool_env \<Rightarrow> upload_env \<Rightarrow> update_redmine_issue_params \<Rightarrow> tool_result prog" where
  "update_redmine_issue E F p =
     (if up_notes p = Some [] then invalid_params
      else if update_clear_conflict p \<noteq> None then invalid_params
      else if \<not> update_has_core_change p \<and> \<not> has_agile_change p then invalid_params
      else if has_agile_change p \<and> \<not> pf_agile (co_plugins (te_config E))
      then err_out CMisconfigured ''story_points/agile_sprint_id/agile_position require the RedmineUP Agile plugin''
             (Some ''set REDMINE_AGILE_ENABLED=true, or omit these parameters'')
      else if up_tag_list p \<noteq> None \<and> \<not> pf_tags (co_plugins (te_config E)) then tags_misconfigured
      else
        or_invalid (transposed validate_tag_list (up_tag_list p)) (\<lambda>tag_list.
        with_scoped E
          (resolve_issue_custom_fields_for_update E (up_issue_id p) (up_custom_fields p) (\<lambda>r. or_cf r (\<lambda>cfs.
           resolve_and_mint_issue_uploads E F (up_uploads p) (\<lambda>r. or_upload r (\<lambda>(uploads, ids).
             let patch = update_payload p tag_list cfs uploads;
                 rest = (\<lambda>i autofilled. attachments_part E ids i (\<lambda>i. agile_part E p (\<lambda>agile. issue_written E i agile autofilled)))
             in if update_has_core_change p
                then write_recovering E (TargetUpdate (up_issue_id p)) (iup_custom_fields patch)
                       (ask de_issue (update_issue (up_issue_id p) (PIssueUpdate patch)))
                       (\<lambda>merged. ask de_issue (update_issue (up_issue_id p) (PIssueUpdate (patch\<lparr>iup_custom_fields := Some merged\<rparr>))))
                       rest
                else ask de_issue (get_issue (up_issue_id p) []) (\<lambda>r. or_fail E r (\<lambda>i. rest i None)))))))))"

section \<open>Deleting\<close>

record delete_redmine_issue_params =
  dp_issue_id :: nat
  dp_confirm_delete :: bool
  dp_confirm_delete_with_children :: bool

record delete_impact =
  di_children_count :: nat
  di_journals_count :: nat
  di_attachments_count :: nat
  di_relations_count :: nat
  di_time_entries_count :: nat

definition delete_impact_json :: "delete_impact \<Rightarrow> json" where
  "delete_impact_json d =
     JObj (obj_of
       [(''children_count'', jnat (di_children_count d)), (''journals_count'', jnat (di_journals_count d)),
        (''attachments_count'', jnat (di_attachments_count d)), (''relations_count'', jnat (di_relations_count d)),
        (''time_entries_count'', jnat (di_time_entries_count d))])"

definition option_length :: "'a list option \<Rightarrow> nat" where
  "option_length v = (case v of Some xs \<Rightarrow> length xs | None \<Rightarrow> 0)"

definition delete_refused :: "string \<Rightarrow> error_code \<Rightarrow> string \<Rightarrow> delete_impact \<Rightarrow> json" where
  "delete_refused message code hint impact =
     JObj (obj_of [(''success'', JBool False), (''error'', JStr message), (''code'', JStr (code_str code)),
                   (''hint'', JStr hint), (''impact'', delete_impact_json impact)])"

definition delete_redmine_issue :: "tool_env \<Rightarrow> delete_redmine_issue_params \<Rightarrow> tool_result prog" where
  "delete_redmine_issue E p =
     with_scoped E
       (ask de_issue (get_issue (dp_issue_id p) [Journals, Attachments, Relations]) (\<lambda>r. or_fail E r (\<lambda>i.
        ask de_issues (list_subtasks (dp_issue_id p)) (\<lambda>r. or_fail E r (\<lambda>children.
        ask de_time_entry_page
          (list_time_entries_page
             \<lparr>tq_project_id = None, tq_issue_id = Some (dp_issue_id p), tq_user_id = None, tq_spent_on = None, tq_extra = []\<rparr> 1 0)
          (\<lambda>r. or_fail E r (\<lambda>time_entries.
           let impact = \<lparr>di_children_count = length children, di_journals_count = option_length (isu_journals i),
                         di_attachments_count = option_length (isu_attachments i),
                         di_relations_count = option_length (isu_relations i), di_time_entries_count = pg_total_count time_entries\<rparr>
           in if \<not> dp_confirm_delete p
              then ok_out E (delete_refused ''deletion requires confirm_delete=true; nothing has been deleted''
                     CConfirmationRequired
                     ''review impact, then retry with confirm_delete=true (and confirm_delete_with_children=true if children_count > 0)''
                     impact)
              else if di_children_count impact > 0 \<and> \<not> dp_confirm_delete_with_children p
              then ok_out E (delete_refused
                     (''issue has '' @ nat_str (di_children_count impact) @
                      '' direct subtask(s); deleting it cascade-deletes them all, with no way to keep them'')
                     CChildrenPresent
                     ''retry with confirm_delete_with_children=true to proceed, or reassign/detach the subtasks first''
                     impact)
              else ask de_unit (delete_issue (dp_issue_id p)) (\<lambda>r. or_fail E r (\<lambda>_.
                     ok_out E (JObj (obj_of
                       [(''success'', JBool True), (''deleted_issue_id'', jnat (dp_issue_id p)),
                        (''cascade_deleted'', jnat (di_children_count impact))])))))))))))"

section \<open>Copying\<close>

record copy_issue_params =
  cy_issue_id :: nat
  cy_project_id :: "project_ref option"
  cy_subject :: "string option"
  cy_link_original :: bool
  cy_copy_subtasks :: bool
  cy_assigned_to_id :: "nat option"
  cy_tracker_id :: "nat option"
  cy_priority_id :: "nat option"
  cy_category_id :: "nat option"
  cy_fixed_version_id :: "nat option"
  cy_description :: "string option"

definition COPY_MAX_TOTAL :: nat where
  "COPY_MAX_TOTAL = 50"

definition COPY_MAX_DEPTH :: nat where
  "COPY_MAX_DEPTH = 5"

definition or_else :: "'a option \<Rightarrow> 'a option \<Rightarrow> 'a option" where
  "or_else a b = (case a of Some x \<Rightarrow> Some x | None \<Rightarrow> b)"

definition root_copy :: "copy_issue_params \<Rightarrow> project_ident \<Rightarrow> issue \<Rightarrow> issue_create" where
  "root_copy p target source =
     \<lparr>icr_project_id = target, icr_subject = (case cy_subject p of Some t \<Rightarrow> t | None \<Rightarrow> isu_subject source),
      icr_tracker_id = Some (case cy_tracker_id p of Some n \<Rightarrow> n | None \<Rightarrow> idn_id (isu_tracker source)),
      icr_status_id = None,
      icr_priority_id = Some (case cy_priority_id p of Some n \<Rightarrow> n | None \<Rightarrow> idn_id (isu_priority source)),
      icr_category_id = or_else (cy_category_id p) (map_option idn_id (isu_category source)),
      icr_fixed_version_id = or_else (cy_fixed_version_id p) (map_option idn_id (isu_fixed_version source)),
      icr_description = or_else (cy_description p) (isu_description source),
      icr_assigned_to_id = or_else (cy_assigned_to_id p) (map_option idn_id (isu_assigned_to source)),
      icr_parent_issue_id = None, icr_start_date = isu_start_date source, icr_due_date = isu_due_date source,
      icr_done_ratio = isu_done_ratio source, icr_estimated_hours = isu_estimated_hours source,
      icr_is_private = isu_is_private source, icr_uploads = [], icr_tag_list = None, icr_custom_fields = None\<rparr>"

definition child_copy :: "project_ident \<Rightarrow> nat \<Rightarrow> issue \<Rightarrow> issue_create" where
  "child_copy target new_parent_id child =
     \<lparr>icr_project_id = target, icr_subject = isu_subject child, icr_tracker_id = Some (idn_id (isu_tracker child)),
      icr_status_id = None, icr_priority_id = Some (idn_id (isu_priority child)),
      icr_category_id = map_option idn_id (isu_category child),
      icr_fixed_version_id = map_option idn_id (isu_fixed_version child), icr_description = isu_description child,
      icr_assigned_to_id = map_option idn_id (isu_assigned_to child), icr_parent_issue_id = Some new_parent_id,
      icr_start_date = isu_start_date child, icr_due_date = isu_due_date child, icr_done_ratio = isu_done_ratio child,
      icr_estimated_hours = isu_estimated_hours child, icr_is_private = isu_is_private child, icr_uploads = [],
      icr_tag_list = None, icr_custom_fields = None\<rparr>"

text \<open>
  The state of the copy of subtasks: the queue of sources with their copies and their depth, the
  number of issues created so far, how many of them are subtasks and whether the copy is partial.
\<close>

record copy_state =
  cs_queue :: "(nat \<times> nat \<times> nat) list"
  cs_total :: nat
  cs_copied :: nat
  cs_truncated :: bool

text \<open>
  Both loops of the code as one recursion: \<open>children\<close> are the children of the queue entry in work
  that are left, \<open>parent\<close> and \<open>depth\<close> are its copy and its depth.
\<close>

function copy_loop ::
    "project_ident \<Rightarrow> issue list \<Rightarrow> nat \<Rightarrow> nat \<Rightarrow> copy_state \<Rightarrow> (copy_state \<Rightarrow> tool_result prog) \<Rightarrow> tool_result prog" where
  "copy_loop target (child # children) parent depth st k =
     (if cs_total st \<ge> COPY_MAX_TOTAL then k (st\<lparr>cs_truncated := True\<rparr>)
      else ask de_issue (create_issue (PIssueCreate (child_copy target parent child))) (\<lambda>r.
             case r of
               Inr new_child \<Rightarrow>
                 copy_loop target children parent depth
                   (st\<lparr>cs_copied := cs_copied st + 1, cs_total := cs_total st + 1,
                      cs_queue := cs_queue st @ [(isu_id child, isu_id new_child, depth + 1)]\<rparr>) k
             | Inl _ \<Rightarrow> copy_loop target children parent depth (st\<lparr>cs_truncated := True\<rparr>) k))"
| "copy_loop target [] parent depth st k =
     (case cs_queue st of
        [] \<Rightarrow> k st
      | (source_id, new_parent_id, d) # queue \<Rightarrow>
          if d \<ge> COPY_MAX_DEPTH then copy_loop target [] parent depth (st\<lparr>cs_queue := queue, cs_truncated := True\<rparr>) k
          else ask de_issues (list_subtasks source_id) (\<lambda>r.
                 case r of
                   Inl _ \<Rightarrow> copy_loop target [] parent depth (st\<lparr>cs_queue := queue, cs_truncated := True\<rparr>) k
                 | Inr children \<Rightarrow> copy_loop target children new_parent_id d (st\<lparr>cs_queue := queue\<rparr>) k))"
  by pat_completeness auto

termination
  by (relation "inv_image (less_than <*lex*> less_than)
      (\<lambda>(target, children, parent, depth, st, k). (length (cs_queue st) + 2 * (COPY_MAX_TOTAL - cs_total st), length children))")
    auto

declare copy_loop.simps [simp del]

definition copy_issue :: "tool_env \<Rightarrow> copy_issue_params \<Rightarrow> tool_result prog" where
  "copy_issue E p =
     with_scoped E
       (ask de_issue (get_issue (cy_issue_id p) []) (\<lambda>r. or_fail E r (\<lambda>source.
        or_invalid (case cy_project_id p of Some ref \<Rightarrow> resolve_project_ref ref
                    | None \<Rightarrow> Inr (ProjectId (idn_id (isu_project source)))) (\<lambda>target.
        ask de_issue (create_issue (PIssueCreate (root_copy p target source))) (\<lambda>r. or_fail E r (\<lambda>created.
          let finish = (\<lambda>st. ok_out E (JObj (obj_of
                 [(''success'', JBool True),
                  (''issue'', issue_detail_out E created None None None (pf_tags (co_plugins (te_config E)))),
                  (''subtasks_copied'', jnat (cs_copied st)), (''subtasks_truncated'', JBool (cs_truncated st))])));
              start = (\<lambda>queue. \<lparr>cs_queue = queue, cs_total = 1, cs_copied = 0, cs_truncated = False\<rparr>);
              subtasks = (if cy_copy_subtasks p
                          then copy_loop target [] 0 0 (start [(cy_issue_id p, isu_id created, 0)]) finish
                          else finish (start []))
          in if cy_link_original p
             then ask de_relation
                    (create_relation (cy_issue_id p)
                       (PRelation \<lparr>rlc_issue_to_id = isu_id created, rlc_relation_type = Some ''copied_to'', rlc_delay = None\<rparr>))
                    (\<lambda>_. subtasks)
             else subtasks))))))"

section \<open>Relations, watchers, notes and categories\<close>

definition RELATION_TYPES :: "string list" where
  "RELATION_TYPES =
     [''relates'', ''duplicates'', ''duplicated'', ''blocks'', ''blocked'', ''precedes'', ''follows'', ''copied_to'', ''copied_from'']"

datatype manage_relation_action = RelationList | RelationCreate | RelationDelete

record manage_issue_relation_params =
  mr_action :: manage_relation_action
  mr_issue_id :: "nat option"
  mr_issue_to_id :: "nat option"
  mr_relation_id :: "nat option"
  mr_relation_type :: "string option"
  mr_delay :: "int option"

definition read_only_refusal :: "string \<Rightarrow> string \<Rightarrow> tool_result prog" where
  "read_only_refusal tool action =
     err_out CReadOnly
       (''this server is running in read-only mode; '' @ tool @ ''(action='' @ [char_of (34 :: nat)] @ action @ [char_of (34 :: nat)] @ '') is disabled'')
       (Some (''use action='' @ [char_of (34 :: nat)] @ ''list'' @ [char_of (34 :: nat)] @ '' instead, or ask the operator to disable read-only mode''))"

definition manage_issue_relation :: "tool_env \<Rightarrow> manage_issue_relation_params \<Rightarrow> tool_result prog" where
  "manage_issue_relation E p =
     (if (case mr_relation_type p of Some rt \<Rightarrow> rt \<notin> set RELATION_TYPES | None \<Rightarrow> False) then invalid_params
      else with_scoped E
        (case mr_action p of
           RelationList \<Rightarrow>
             require (mr_issue_id p) (\<lambda>issue_id.
               ask de_relations (list_relations issue_id) (\<lambda>r. or_fail E r (\<lambda>relations.
                 ok_out E (JObj (obj_of [(''success'', JBool True), (''relations'', jlist relation_out relations)])))))
         | RelationCreate \<Rightarrow>
             if co_read_only (te_config E) then read_only_refusal ''manage_issue_relation'' ''create''
             else require (mr_issue_id p) (\<lambda>issue_id. require (mr_issue_to_id p) (\<lambda>issue_to_id.
               ask de_relation
                 (create_relation issue_id
                    (PRelation \<lparr>rlc_issue_to_id = issue_to_id, rlc_relation_type = mr_relation_type p, rlc_delay = mr_delay p\<rparr>))
                 (\<lambda>r. or_fail E r (\<lambda>relation.
                    ok_out E (JObj (obj_of [(''success'', JBool True), (''relation'', relation_out relation)]))))))
         | RelationDelete \<Rightarrow>
             if co_read_only (te_config E) then read_only_refusal ''manage_issue_relation'' ''delete''
             else require (mr_relation_id p) (\<lambda>relation_id.
               ask de_unit (delete_relation relation_id) (\<lambda>r. or_fail E r (\<lambda>_.
                 ok_out E (JObj (obj_of [(''success'', JBool True), (''deleted_relation_id'', jnat relation_id)])))))))"

datatype manage_watcher_action = WatcherAdd | WatcherRemove

record manage_issue_watcher_params =
  mw_action :: manage_watcher_action
  mw_issue_id :: nat
  mw_user_id :: nat

definition manage_issue_watcher :: "tool_env \<Rightarrow> manage_issue_watcher_params \<Rightarrow> tool_result prog" where
  "manage_issue_watcher E p =
     with_scoped E
       (ask de_unit
          (case mw_action p of
             WatcherAdd \<Rightarrow> add_watcher (mw_issue_id p) (PUserId (mw_user_id p))
           | WatcherRemove \<Rightarrow> remove_watcher (mw_issue_id p) (mw_user_id p))
          (\<lambda>r. or_fail E r (\<lambda>_.
             ok_out E (JObj (obj_of
               [(''success'', JBool True), (''issue_id'', jnat (mw_issue_id p)), (''user_id'', jnat (mw_user_id p))])))))"

datatype manage_note_action = NoteEdit | NoteSetPrivate

record manage_issue_note_params =
  mn_action :: manage_note_action
  mn_journal_id :: nat
  mn_notes :: "string option"
  mn_private_notes :: "bool option"
  mn_is_private :: "bool option"

definition note_written :: "tool_env \<Rightarrow> nat \<Rightarrow> journal_update \<Rightarrow> tool_result prog" where
  "note_written E journal_id patch =
     ask de_unit (update_journal journal_id (PJournal patch)) (\<lambda>r. or_fail E r (\<lambda>_.
       ok_out E (JObj (obj_of
         ([(''success'', JBool True), (''journal_id'', jnat journal_id)] @
          present ''notes'' JStr (jru_notes patch) @ present ''private_notes'' JBool (jru_private_notes patch))))))"

definition manage_issue_note :: "tool_env \<Rightarrow> manage_issue_note_params \<Rightarrow> tool_result prog" where
  "manage_issue_note E p =
     with_scoped E
       (case mn_action p of
          NoteEdit \<Rightarrow>
            require (mn_notes p) (\<lambda>notes.
              note_written E (mn_journal_id p) \<lparr>jru_notes = Some notes, jru_private_notes = mn_private_notes p\<rparr>)
        | NoteSetPrivate \<Rightarrow>
            require (mn_is_private p) (\<lambda>is_private.
              note_written E (mn_journal_id p) \<lparr>jru_notes = None, jru_private_notes = Some is_private\<rparr>))"

datatype manage_category_action = CategoryList | CategoryCreate | CategoryUpdate | CategoryDelete

record manage_issue_category_params =
  mc_action :: manage_category_action
  mc_project_id :: "project_ref option"
  mc_category_id :: "nat option"
  mc_name :: "string option"
  mc_assigned_to_id :: "nat option"
  mc_reassign_to_id :: "nat option"

definition category_written :: "tool_env \<Rightarrow> issue_category \<Rightarrow> tool_result prog" where
  "category_written E c = ok_out E (JObj (obj_of [(''success'', JBool True), (''category'', issue_category_out E c)]))"

definition manage_issue_category :: "tool_env \<Rightarrow> manage_issue_category_params \<Rightarrow> tool_result prog" where
  "manage_issue_category E p =
     with_scoped E
       (case mc_action p of
          CategoryList \<Rightarrow>
            require (mc_project_id p) (\<lambda>ref. or_invalid (resolve_project_ref ref) (\<lambda>project_id.
              ask de_categories (list_issue_categories project_id) (\<lambda>r. or_fail E r (\<lambda>categories.
                ok_out E (JObj (obj_of [(''success'', JBool True), (''categories'', jlist (issue_category_out E) categories)]))))))
        | CategoryCreate \<Rightarrow>
            if co_read_only (te_config E) then read_only_refusal ''manage_issue_category'' ''create''
            else require (mc_project_id p) (\<lambda>ref. or_invalid (resolve_project_ref ref) (\<lambda>project_id.
              require (case mc_name p of Some n \<Rightarrow> if blank_text E n then None else Some n | None \<Rightarrow> None) (\<lambda>name.
                ask de_category
                  (create_issue_category project_id (PCategoryCreate \<lparr>cgc_name = name, cgc_assigned_to_id = mc_assigned_to_id p\<rparr>))
                  (\<lambda>r. or_fail E r (category_written E)))))
        | CategoryUpdate \<Rightarrow>
            if co_read_only (te_config E) then read_only_refusal ''manage_issue_category'' ''update''
            else require (mc_category_id p) (\<lambda>category_id.
              if (case mc_name p of Some n \<Rightarrow> blank_text E n | None \<Rightarrow> False) then invalid_params
              else ask de_category
                     (update_issue_category category_id
                        (PCategoryUpdate \<lparr>cgu_name = mc_name p, cgu_assigned_to_id = mc_assigned_to_id p\<rparr>))
                     (\<lambda>r. or_fail E r (category_written E)))
        | CategoryDelete \<Rightarrow>
            if co_read_only (te_config E) then read_only_refusal ''manage_issue_category'' ''delete''
            else require (mc_category_id p) (\<lambda>category_id.
              ask de_unit (delete_issue_category category_id (mc_reassign_to_id p)) (\<lambda>r. or_fail E r (\<lambda>_.
                ok_out E (JObj (obj_of [(''success'', JBool True), (''deleted_category_id'', jnat category_id)]))))))"

section \<open>A call of an issue tool\<close>

datatype issue_call =
    GetRedmineIssue get_redmine_issue_params
  | ListRedmineIssues list_redmine_issues_params
  | SearchRedmineIssues search_redmine_issues_params
  | ListSubtasks nat
  | GetPrivateNotes nat
  | CreateRedmineIssue create_redmine_issue_params
  | UpdateRedmineIssue update_redmine_issue_params
  | DeleteRedmineIssue delete_redmine_issue_params
  | CopyIssue copy_issue_params
  | ManageIssueRelation manage_issue_relation_params
  | ManageIssueWatcher manage_issue_watcher_params
  | ManageIssueNote manage_issue_note_params
  | ManageIssueCategory manage_issue_category_params

fun call_name :: "issue_call \<Rightarrow> string" where
  "call_name (GetRedmineIssue _) = ''get_redmine_issue''"
| "call_name (ListRedmineIssues _) = ''list_redmine_issues''"
| "call_name (SearchRedmineIssues _) = ''search_redmine_issues''"
| "call_name (ListSubtasks _) = ''list_subtasks''"
| "call_name (GetPrivateNotes _) = ''get_private_notes''"
| "call_name (CreateRedmineIssue _) = ''create_redmine_issue''"
| "call_name (UpdateRedmineIssue _) = ''update_redmine_issue''"
| "call_name (DeleteRedmineIssue _) = ''delete_redmine_issue''"
| "call_name (CopyIssue _) = ''copy_issue''"
| "call_name (ManageIssueRelation _) = ''manage_issue_relation''"
| "call_name (ManageIssueWatcher _) = ''manage_issue_watcher''"
| "call_name (ManageIssueNote _) = ''manage_issue_note''"
| "call_name (ManageIssueCategory _) = ''manage_issue_category''"

fun issue_tool :: "tool_env \<Rightarrow> upload_env \<Rightarrow> issue_call \<Rightarrow> tool_result prog" where
  "issue_tool E F (GetRedmineIssue p) = get_redmine_issue E p"
| "issue_tool E F (ListRedmineIssues p) = list_redmine_issues E p"
| "issue_tool E F (SearchRedmineIssues p) = search_redmine_issues E p"
| "issue_tool E F (ListSubtasks n) = list_subtasks_tool E n"
| "issue_tool E F (GetPrivateNotes n) = get_private_notes E n"
| "issue_tool E F (CreateRedmineIssue p) = create_redmine_issue E F p"
| "issue_tool E F (UpdateRedmineIssue p) = update_redmine_issue E F p"
| "issue_tool E F (DeleteRedmineIssue p) = delete_redmine_issue E p"
| "issue_tool E F (CopyIssue p) = copy_issue E p"
| "issue_tool E F (ManageIssueRelation p) = manage_issue_relation E p"
| "issue_tool E F (ManageIssueWatcher p) = manage_issue_watcher E p"
| "issue_tool E F (ManageIssueNote p) = manage_issue_note E p"
| "issue_tool E F (ManageIssueCategory p) = manage_issue_category E p"

text \<open>The action of a call, under the names of the schema.\<close>

fun relation_action_str :: "manage_relation_action \<Rightarrow> string" where
  "relation_action_str RelationList = ''list''"
| "relation_action_str RelationCreate = ''create''"
| "relation_action_str RelationDelete = ''delete''"

fun watcher_action_str :: "manage_watcher_action \<Rightarrow> string" where
  "watcher_action_str WatcherAdd = ''add''"
| "watcher_action_str WatcherRemove = ''remove''"

fun note_action_str :: "manage_note_action \<Rightarrow> string" where
  "note_action_str NoteEdit = ''edit''"
| "note_action_str NoteSetPrivate = ''set_private''"

fun category_action_str :: "manage_category_action \<Rightarrow> string" where
  "category_action_str CategoryList = ''list''"
| "category_action_str CategoryCreate = ''create''"
| "category_action_str CategoryUpdate = ''update''"
| "category_action_str CategoryDelete = ''delete''"

fun issue_call_action :: "issue_call \<Rightarrow> string option" where
  "issue_call_action (ManageIssueRelation p) = Some (relation_action_str (mr_action p))"
| "issue_call_action (ManageIssueWatcher p) = Some (watcher_action_str (mw_action p))"
| "issue_call_action (ManageIssueNote p) = Some (note_action_str (mn_action p))"
| "issue_call_action (ManageIssueCategory p) = Some (category_action_str (mc_action p))"
| "issue_call_action _ = None"

definition issue_router :: "(upload_env, issue_call) router" where
  "issue_router =
     \<lparr>rt_tool = (\<lambda>F E c. issue_tool E F c), rt_name = call_name, rt_action = issue_call_action, rt_names = issues_tools,
      rt_sound = (\<lambda>_ _ _. True)\<rparr>"

end
