(* ===== verification/Issue_Safety.thy ===== *)
theory Issue_Safety
  imports Issue_Tools Config_Safety
begin

text \<open>
  What the issue tools do to Redmine, whatever it answers: which operations they perform, how many
  of them write, and on what condition.
\<close>

section \<open>Reads and writes\<close>

lemma calls_ok_refusal [simp]: "calls_ok (read_only_refusal tool action) P" "calls_ok tags_misconfigured P"
  "calls_ok (issue_written E i agile autofilled) P" "calls_ok (category_written E c) P"
  by (simp_all add: read_only_refusal_def tags_misconfigured_def issue_written_def category_written_def)

lemma calls_ok_or_cf: "(\<And>v. r = Inr v \<Longrightarrow> calls_ok (k v) P) \<Longrightarrow> calls_ok (or_cf r k) P"
  by (simp add: or_cf_def split: sum.split cf_outcome.split)

lemma calls_ok_or_upload: "(\<And>v. r = Inr v \<Longrightarrow> calls_ok (k v) P) \<Longrightarrow> calls_ok (or_upload r k) P"
  by (simp add: or_upload_def split: sum.split issue_upload_outcome.split)

lemma calls_ok_or_agile_fail: "(\<And>v. r = Inr v \<Longrightarrow> calls_ok (k v) P) \<Longrightarrow> calls_ok (or_agile_fail E core r k) P"
  by (simp add: or_agile_fail_def split: sum.split)

lemmas tool_calls = calls_okI calls_ok_or_cf calls_ok_or_upload calls_ok_or_agile_fail

subsection \<open>The tools that read\<close>

lemma get_redmine_issue_reads: "calls_ok (get_redmine_issue E p) op_reads"
  by (auto simp: get_redmine_issue_def Let_def intro!: tool_calls split: sum.split)

lemma list_redmine_issues_reads: "calls_ok (list_redmine_issues E p) op_reads"
  by (auto simp: list_redmine_issues_def Let_def intro!: tool_calls)

lemma search_redmine_issues_reads: "calls_ok (search_redmine_issues E p) op_reads"
  by (auto simp: search_redmine_issues_def Let_def intro!: tool_calls)

lemma list_subtasks_tool_reads: "calls_ok (list_subtasks_tool E n) op_reads"
  by (auto simp: list_subtasks_tool_def intro!: tool_calls)

lemma get_private_notes_reads: "calls_ok (get_private_notes E n) op_reads"
  by (auto simp: get_private_notes_def intro!: tool_calls)

lemma manage_issue_relation_reads:
  "co_read_only (te_config E) \<or> mr_action p = RelationList \<Longrightarrow> calls_ok (manage_issue_relation E p) op_reads"
  by (auto simp: manage_issue_relation_def intro!: tool_calls split: manage_relation_action.split)

lemma manage_issue_category_reads:
  "co_read_only (te_config E) \<or> mc_action p = CategoryList \<Longrightarrow> calls_ok (manage_issue_category E p) op_reads"
  by (auto simp: manage_issue_category_def intro!: tool_calls split: manage_category_action.split)

lemmas reading_tools =
  get_redmine_issue_reads list_redmine_issues_reads search_redmine_issues_reads list_subtasks_tool_reads
  get_private_notes_reads manage_issue_relation_reads manage_issue_category_reads

definition example_unicode :: unicode where
  "example_unicode = \<lparr>uc_chars = map of_char, uc_alphanumeric = (\<lambda>_. True), uc_lowercase = (\<lambda>c. [c])\<rparr>"

definition example_tool_env :: "config \<Rightarrow> tool_env" where
  "example_tool_env cfg =
     \<lparr>te_config = cfg, te_scoped = Inr (ApiKey ''k''), te_random = (\<lambda>_. CHR ''x''), te_float = (\<lambda>_. ''0''),
      te_status = nat_str, te_unicode = example_unicode, te_url = (\<lambda>_. None), te_url_with = (\<lambda>_ p _ _. p)\<rparr>"

section \<open>Deleting\<close>

abbreviation delete_looks :: "nat \<Rightarrow> redmine_op list" where
  "delete_looks n \<equiv>
     [get_issue n [Journals, Attachments, Relations], list_subtasks n,
      list_time_entries_page
        \<lparr>tq_project_id = None, tq_issue_id = Some n, tq_user_id = None, tq_spent_on = None, tq_extra = []\<rparr> 1 0]"

lemma delete_issue_writes: "\<not> op_reads (delete_issue n)"
  by (simp add: op_reads_def rest_op_defs rest_req_defs)

lemma delete_not_read [simp]: "op_reads op \<Longrightarrow> op \<noteq> delete_issue n" "op_reads op \<Longrightarrow> delete_issue n \<noteq> op"
  using delete_issue_writes by auto

lemma run_plumbing [simp]:
  "run (ok_out E out) S h = (Inr (ok (te_float E) (te_caps E) out), h)"
  "run (or_fail E (Inl e) k) S h = (Inr (tool_error E e), h)"
  "run (or_fail E (Inr v) k) S h = run (k v) S h"
  by (simp_all add: ok_out_def or_fail_def)

lemma snd_run_or_fail_ok: "snd (run (or_fail E r (\<lambda>_. ok_out E out)) S h) = h"
  by (cases r) simp_all

text \<open>
  C19. Deletion is confirmed or does not happen. The tool looks at the issue, its subtasks and its time
  entries, in this order, and performs nothing but these reads and the deletion. It deletes exactly
  when all three reads succeeded, the caller confirmed, and the issue has no subtasks or the caller
  confirmed their deletion as well.
\<close>

theorem delete_needs_confirmation:
  "let n = dp_issue_id p; ops = snd (run (delete_redmine_issue E p) S [])
   in list_all (\<lambda>op. op_reads op \<or> op = delete_issue n) ops \<and>
      (delete_issue n \<in> set ops \<longleftrightarrow>
        (\<exists>c i children m. te_scoped E = Inr c \<and> S [] (delete_looks n ! 0) = Inr (AIssue i) \<and>
           S (take 1 (delete_looks n)) (delete_looks n ! 1) = Inr (AIssues children) \<and>
           S (take 2 (delete_looks n)) (delete_looks n ! 2) = Inr (ATimeEntryPage m) \<and>
           dp_confirm_delete p \<and> (children = [] \<or> dp_confirm_delete_with_children p)))"
proof -
  let ?n = "dp_issue_id p"
  let ?r0 = "S [] (delete_looks ?n ! 0)" and ?r1 = "S (take 1 (delete_looks ?n)) (delete_looks ?n ! 1)"
    and ?r2 = "S (take 2 (delete_looks ?n)) (delete_looks ?n ! 2)"
  have de: "de_issue a = Some i \<longleftrightarrow> a = AIssue i" "de_issues a = Some is \<longleftrightarrow> a = AIssues is"
    "de_time_entry_page a = Some m \<longleftrightarrow> a = ATimeEntryPage m" for a i m "is"
    by (cases a; simp)+
  show ?thesis
  proof (cases "te_scoped E")
    case (Inl e)
    then show ?thesis by (simp add: delete_redmine_issue_def with_scoped_def)
  next
    case scoped: (Inr c)
    show ?thesis
    proof (cases "decode_answer de_issue ?r0")
      case (Inl e)
      then have "\<not> (\<exists>i. ?r0 = Inr (AIssue i))" by (auto simp: decode_answer_def)
      then show ?thesis using scoped Inl by (simp add: delete_redmine_issue_def with_scoped_def)
    next
      case r0: (Inr i)
      show ?thesis
      proof (cases "decode_answer de_issues ?r1")
        case (Inl e)
        then have "\<not> (\<exists>cs. ?r1 = Inr (AIssues cs))" by (auto simp: decode_answer_def)
        then show ?thesis using scoped r0 Inl by (simp add: delete_redmine_issue_def with_scoped_def)
      next
        case r1: (Inr children)
        show ?thesis
        proof (cases "decode_answer de_time_entry_page ?r2")
          case (Inl e)
          then have "\<not> (\<exists>m. ?r2 = Inr (ATimeEntryPage m))" by (auto simp: decode_answer_def)
          then show ?thesis using scoped r0 r1 Inl by (simp add: delete_redmine_issue_def with_scoped_def)
        next
          case r2: (Inr m)
          have "?r0 = Inr (AIssue i)" "?r1 = Inr (AIssues children)" "?r2 = Inr (ATimeEntryPage m)"
            using r0 r1 r2 by (auto simp: decode_answer_Inr de)
          then show ?thesis
            using scoped r0 r1 r2
            by (simp add: delete_redmine_issue_def with_scoped_def Let_def snd_run_or_fail_ok)
        qed
      qed
    qed
  qed
qed

section \<open>Copying\<close>

definition creates_issue :: "redmine_op \<Rightarrow> bool" where
  "creates_issue op \<longleftrightarrow>
     (case op of [] \<Rightarrow> False | r # _ \<Rightarrow> rr_method (fst r) = POST \<and> rr_path (fst r) = ''issues.json'')"

definition created :: "redmine_op \<Rightarrow> redmine_error + answer \<Rightarrow> bool" where
  "created op a \<longleftrightarrow> creates_issue op \<and> (case a of Inr (AIssue _) \<Rightarrow> True | _ \<Rightarrow> False)"

lemma read_creates_nothing [simp]: "op_reads op \<Longrightarrow> \<not> creates_issue op"
  by (cases op) (auto simp: op_reads_def creates_issue_def)

lemma created_read [simp]: "op_reads op \<Longrightarrow> \<not> created op a"
  by (simp add: created_def)

lemma creates_issue_eqs [simp]:
  "creates_issue (create_issue new)" "creates_issue (create_issue_with_attachments new)"
  "\<not> creates_issue (create_relation n rel)" "\<not> creates_issue (create_upload b f ct)"
  by (simp_all add: creates_issue_def rest_op_defs rest_req_defs)

lemma at_most_ans_plumbing [simp]:
  "at_most_ans invalid_params Q n" "at_most_ans (ok_out E out) Q n" "at_most_ans (err_out c m hint) Q n"
  by (simp_all add: invalid_params_def ok_out_def err_out_def)

lemma at_most_ans_mono: "at_most_ans p Q n \<Longrightarrow> n \<le> m \<Longrightarrow> at_most_ans p Q m"
proof (induction p arbitrary: n m)
  case (Call op k)
  have "if Q op a then 0 < m \<and> at_most_ans (k a) Q (m - 1) else at_most_ans (k a) Q m" for a
    using Call.prems Call.IH [of "k a" "if Q op a then n - 1 else n" "if Q op a then m - 1 else m"]
    by (auto split: if_splits dest!: spec [of _ a])
  then show ?case by (simp only: at_most_ans.simps) blast
qed simp

lemma at_most_ans_askI: "(\<And>a. \<not> Q op a) \<Longrightarrow> (\<And>r. at_most_ans (k r) Q n) \<Longrightarrow> at_most_ans (ask dec op k) Q n"
  by (simp add: ask_def)

lemma at_most_ans_or_fail: "(\<And>v. r = Inr v \<Longrightarrow> at_most_ans (k v) Q n) \<Longrightarrow> at_most_ans (or_fail E r k) Q n"
  by (cases r) (simp_all add: or_fail_def)

lemma at_most_ans_with_scoped: "at_most_ans p Q n \<Longrightarrow> at_most_ans (with_scoped E p) Q n"
  by (cases "te_scoped E") (simp_all add: with_scoped_def)

lemma at_most_ans_or_invalid: "(\<And>v. r = Inr v \<Longrightarrow> at_most_ans (k v) Q n) \<Longrightarrow> at_most_ans (or_invalid r k) Q n"
  by (cases r) (simp_all add: or_invalid_def)

text \<open>Creating an issue counts only when its answer is an issue.\<close>

lemma at_most_created_ask:
  assumes "\<And>i. at_most_ans (k (Inr i)) created n" and "\<And>e. at_most_ans (k (Inl e)) created (Suc n)"
  shows "at_most_ans (ask de_issue (create_issue new) k) created (Suc n)"
proof -
  have "if created (create_issue new) a then at_most_ans (k (decode_answer de_issue a)) created n
        else at_most_ans (k (decode_answer de_issue a)) created (Suc n)" for a
  proof (cases "created (create_issue new) a")
    case True
    then obtain i where "a = Inr (AIssue i)" by (auto simp: created_def split: sum.splits answer.splits)
    then show ?thesis using True assms(1) by (simp add: decode_answer_def)
  next
    case False
    then have "\<exists>e. decode_answer de_issue a = Inl e"
      by (cases a) (auto simp: created_def decode_answer_def split: answer.splits)
    then show ?thesis using False assms(2) by auto
  qed
  then show ?thesis by (simp add: ask_def)
qed

lemma copy_loop_bounded:
  assumes "\<And>st. at_most_ans (k st) created 0"
  shows "at_most_ans (copy_loop target children parent depth st k) created (COPY_MAX_TOTAL - cs_total st)"
  using assms
proof (induction target children parent depth st k rule: copy_loop.induct)
  case (1 target child children parent depth st k)
  show ?case
  proof (cases "cs_total st \<ge> COPY_MAX_TOTAL")
    case True
    then show ?thesis using 1(3) at_most_ans_mono by (auto simp: copy_loop.simps(1))
  next
    case False
    then have total: "COPY_MAX_TOTAL - cs_total st = Suc (COPY_MAX_TOTAL - (cs_total st + 1))" by simp
    have "at_most_ans (copy_loop target children parent depth (st\<lparr>cs_truncated := True\<rparr>) k) created (COPY_MAX_TOTAL - cs_total st)"
      using 1(1) [OF False 1(3)] by simp
    moreover have "at_most_ans (copy_loop target children parent depth
        (st\<lparr>cs_copied := cs_copied st + 1, cs_total := cs_total st + 1,
           cs_queue := cs_queue st @ [(isu_id child, isu_id i, depth + 1)]\<rparr>) k) created (COPY_MAX_TOTAL - (cs_total st + 1))" for i :: issue
      using 1(2) [OF False 1(3), of i] by simp
    ultimately show ?thesis
      using False by (simp add: copy_loop.simps(1) total at_most_created_ask)
  qed
next
  case (2 target parent depth st k)
  show ?case
  proof (cases "cs_queue st")
    case Nil
    then show ?thesis using at_most_ans_mono [OF 2(4) [of st]] by (simp add: copy_loop.simps(2))
  next
    case (Cons q queue)
    obtain source new_parent d where q: "q = (source, new_parent, d)" by (cases q)
    show ?thesis
    proof (cases "d \<ge> COPY_MAX_DEPTH")
      case True
      then show ?thesis using 2(1) [OF Cons q [symmetric] refl True 2(4)] Cons q by (simp add: copy_loop.simps(2))
    next
      case False
      have "at_most_ans (copy_loop target [] parent depth (st\<lparr>cs_queue := queue, cs_truncated := True\<rparr>) k) created
          (COPY_MAX_TOTAL - cs_total st)"
        using 2(2) [OF Cons q [symmetric] refl False 2(4)] by simp
      moreover have "at_most_ans (copy_loop target cs new_parent d (st\<lparr>cs_queue := queue\<rparr>) k) created
          (COPY_MAX_TOTAL - cs_total st)" for cs
        using 2(3) [OF Cons q [symmetric] refl False 2(4)] by simp
      ultimately show ?thesis
        using False Cons q by (auto simp: copy_loop.simps(2) intro!: at_most_ans_askI split: sum.split)
    qed
  qed
qed

text \<open>
  C24. One call of \<^verbatim>\<open>copy_issue\<close> creates at most 50 issues, the copy of the source included, however
  large and however deep the tree of subtasks is and whatever Redmine answers; and it ends.
\<close>

theorem copy_issue_bounded:
  "length (filter (\<lambda>(op, a). created op a) (run_log (copy_issue E p) S [])) \<le> 50"
proof -
  have loop: "at_most_ans (copy_loop target [] 0 0 \<lparr>cs_queue = q, cs_total = 1, cs_copied = 0, cs_truncated = False\<rparr>
      (\<lambda>st. ok_out E (out st))) created 49" for target q out
    using copy_loop_bounded [of "\<lambda>st. ok_out E (out st)" target "[]" 0 0
        "\<lparr>cs_queue = q, cs_total = 1, cs_copied = 0, cs_truncated = False\<rparr>"]
    by (simp add: COPY_MAX_TOTAL_def)
  have "at_most_ans (copy_issue E p) created (Suc 49)"
    unfolding copy_issue_def Let_def
    by (intro at_most_ans_with_scoped at_most_created_ask at_most_ans_askI at_most_ans_or_fail at_most_ans_or_invalid)
      (auto simp: or_fail_def created_def intro!: at_most_ans_askI loop [unfolded One_nat_def] split: sum.split)
  then show ?thesis using run_at_most_ans [of "copy_issue E p" created "Suc 49" S "[]"] by simp
qed

section \<open>Writing with recovery\<close>

definition updates_issue :: "redmine_op \<Rightarrow> bool" where
  "updates_issue op \<longleftrightarrow>
     (case op of
        [] \<Rightarrow> False
      | r # _ \<Rightarrow> rr_method (fst r) = PUT \<and> (case rr_body (fst r) of JsonBody _ (PIssueUpdate _) \<Rightarrow> True | _ \<Rightarrow> False))"

lemma updates_issue_eqs [simp]:
  "updates_issue (update_issue n (PIssueUpdate patch))" "\<not> updates_issue (update_agile_data n (PAgile attrs))"
  "\<not> updates_issue (create_upload b f ct)" "op_reads op \<Longrightarrow> \<not> updates_issue op"
  by (cases op; simp add: updates_issue_def op_reads_def rest_op_defs rest_req_defs)+

lemma at_most_if: "(b \<Longrightarrow> at_most p Q n) \<Longrightarrow> (\<not> b \<Longrightarrow> at_most q Q n) \<Longrightarrow> at_most (if b then p else q) Q n"
  by simp

lemma at_most_tools [simp]: "at_most tags_misconfigured Q n" "at_most (issue_written E i agile autofilled) Q n"
  by (simp_all add: tags_misconfigured_def issue_written_def)

lemma at_most_or_cf: "(\<And>v. r = Inr v \<Longrightarrow> at_most (k v) Q n) \<Longrightarrow> at_most (or_cf r k) Q n"
  by (simp add: or_cf_def split: sum.split cf_outcome.split)

lemma at_most_or_upload: "(\<And>v. r = Inr v \<Longrightarrow> at_most (k v) Q n) \<Longrightarrow> at_most (or_upload r k) Q n"
  by (simp add: or_upload_def split: sum.split issue_upload_outcome.split)

lemma at_most_or_agile_fail: "(\<And>v. r = Inr v \<Longrightarrow> at_most (k v) Q n) \<Longrightarrow> at_most (or_agile_fail E core r k) Q n"
  by (simp add: or_agile_fail_def split: sum.split)

lemmas at_most_steps = at_mostI at_most_or_cf at_most_or_upload at_most_or_agile_fail

text \<open>The lookups around a write count for nothing when only other operations are counted.\<close>

lemma at_most_resolve_cf:
  assumes "\<And>op. op_reads op \<Longrightarrow> \<not> Q op" and "\<And>r. at_most (k r) Q n"
  shows "at_most (resolve_issue_custom_fields E project es k) Q n"
  using assms
  by (auto simp: resolve_issue_custom_fields_def intro!: at_most_askI split: option.split sum.split)

lemma at_most_resolve_cf_update:
  assumes "\<And>op. op_reads op \<Longrightarrow> \<not> Q op" and "\<And>r. at_most (k r) Q n"
  shows "at_most (resolve_issue_custom_fields_for_update E m es k) Q n"
  using assms
  by (auto simp: resolve_issue_custom_fields_for_update_def intro!: at_most_askI at_most_resolve_cf
      split: option.split sum.split)

lemma at_most_definitions:
  assumes "\<And>op. op_reads op \<Longrightarrow> \<not> Q op" and "\<And>r. at_most (k r) Q n"
  shows "at_most (fetch_definitions_for_autofill target k) Q n"
  using assms
  by (auto simp: fetch_definitions_for_autofill_def fetch_project_definitions_def Let_def intro!: at_most_askI
      split: autofill_target.split sum.split redmine_error.split)

lemma at_most_recover:
  assumes "\<And>op. op_reads op \<Longrightarrow> \<not> Q op" and "at_most (k None) Q n" and "\<And>x. at_most (k (Some (GiveUp x))) Q n"
    and "\<And>m f. cf_autofill_required (co_custom_fields (te_config E)) \<Longrightarrow> at_most (k (Some (Retry m f))) Q n"
  shows "at_most (recover_required_fields E target cfs e k) Q n"
  using assms
  by (auto simp: recover_required_fields_def Let_def intro!: at_most_definitions split: sum.split)

definition write_attempts :: "tool_env \<Rightarrow> nat" where
  "write_attempts E = (if cf_autofill_required (co_custom_fields (te_config E)) then 2 else 1)"

lemma at_most_write_recovering:
  assumes reads: "\<And>op. op_reads op \<Longrightarrow> \<not> Q op"
    and send: "\<And>k n. (\<And>r. at_most (k r) Q n) \<Longrightarrow> at_most (send k) Q (Suc n)"
    and retry: "\<And>m k n. (\<And>r. at_most (k r) Q n) \<Longrightarrow> at_most (retry m k) Q (Suc n)"
    and rest: "\<And>i a. at_most (k i a) Q 0"
  shows "at_most (write_recovering E target cfs send retry k) Q (write_attempts E)"
proof -
  have k: "at_most (k i a) Q n" for i a n by (rule at_most_mono [OF rest]) simp
  have again: "at_most (retry m (\<lambda>r. case r of
                     Inr i \<Rightarrow> k i (Some fills)
                   | Inl e2 \<Rightarrow> Done (Inr (case retry_still_missing_required_fields e2 of Some x \<Rightarrow> x | None \<Rightarrow> tool_error E e2)))) Q (Suc 0)"
    for m fills by (rule retry) (simp add: k split: sum.split)
  show ?thesis
  proof (cases "cf_autofill_required (co_custom_fields (te_config E))")
    case True
    then show ?thesis
      unfolding write_recovering_def write_attempts_def
      by (auto simp: numeral_2_eq_2 k intro!: send at_most_recover again reads split: sum.split option.split required_field_recovery.split)
  next
    case False
    then show ?thesis
      unfolding write_recovering_def write_attempts_def
      by (auto simp: k intro!: send at_most_recover reads split: sum.split option.split required_field_recovery.split)
  qed
qed

lemma at_most_uploads_none:
  assumes "\<And>b f. \<not> Q (create_upload (PBytes b) f None)" and "\<And>r. at_most (k r) Q n"
  shows "at_most (resolve_and_mint_issue_uploads E F uploads k) Q n"
proof -
  have "at_most (mint_uploads E rs refs ids k) Q n" for rs refs ids
    using assms
    by (induction rs arbitrary: refs ids)
      (auto simp: mint_upload_token_def intro!: at_most_askI split: sum.split redmine_error.split)
  then show ?thesis using assms by (auto simp: resolve_and_mint_issue_uploads_def split: option.split sum.split)
qed

lemma create_at_most: "at_most (create_redmine_issue E F p) creates_issue (write_attempts E)"
  by (auto simp: create_redmine_issue_def Let_def send_create_def
      intro!: at_most_steps at_most_resolve_cf at_most_uploads_none at_most_write_recovering at_most_askI_Suc)

lemma at_most_attachments_part:
  assumes "\<And>op. op_reads op \<Longrightarrow> \<not> Q op" and "\<And>i. at_most (k i) Q n"
  shows "at_most (attachments_part E ids i k) Q n"
  using assms by (auto simp: attachments_part_def intro!: at_most_fetch_attachments at_most_steps)

lemma at_most_agile_part:
  assumes "\<And>op. op_reads op \<Longrightarrow> \<not> Q op" and "\<And>attrs. \<not> Q (update_agile_data (up_issue_id p) (PAgile attrs))"
    and "\<And>a. at_most (k a) Q n"
  shows "at_most (agile_part E p k) Q n"
  using assms by (auto simp: agile_part_def Let_def intro!: at_most_steps)

lemma update_at_most: "at_most (update_redmine_issue E F p) updates_issue (write_attempts E)"
  by (auto simp: update_redmine_issue_def Let_def
      intro!: at_most_steps at_most_resolve_cf_update at_most_uploads_none at_most_write_recovering at_most_askI_Suc
        at_most_attachments_part at_most_agile_part)

text \<open>
  C23. A write is tried at most twice, and only once when the operator did not enable autofill: a call
  of \<^verbatim>\<open>create_redmine_issue\<close> sends at most that many creations and a call of \<^verbatim>\<open>update_redmine_issue\<close>
  at most that many updates of the issue, whatever Redmine answers.
\<close>

theorem issue_write_retried_once:
  "length (filter creates_issue (snd (run (create_redmine_issue E F cp) S []))) \<le> write_attempts E \<and>
   length (filter updates_issue (snd (run (update_redmine_issue E F up) S []))) \<le> write_attempts E \<and>
   write_attempts E \<le> 2"
proof -
  have "length (filter Q (snd (run prg S []))) \<le> n" if "at_most prg Q n" for prg :: "tool_result prog" and Q n
    using run_at_most [OF that, of S "[]"] by auto
  then show ?thesis using create_at_most update_at_most by (simp add: write_attempts_def)
qed

section \<open>Routes\<close>

lemma routes_resolve_cf:
  "wf_ident project \<Longrightarrow> (\<And>r. calls_ok (k r) paths_ok) \<Longrightarrow> calls_ok (resolve_issue_custom_fields E project es k) paths_ok"
  by (auto simp: resolve_issue_custom_fields_def intro!: calls_ok_askI routes split: option.split sum.split)

lemma routes_resolve_cf_update:
  "(\<And>r. calls_ok (k r) paths_ok) \<Longrightarrow> calls_ok (resolve_issue_custom_fields_for_update E m es k) paths_ok"
  by (auto simp: resolve_issue_custom_fields_for_update_def intro!: calls_ok_askI routes routes_resolve_cf
      split: option.split sum.split)

lemma routes_project_definitions:
  "wf_ident project \<Longrightarrow> (\<And>r. calls_ok (k r) paths_ok) \<Longrightarrow> calls_ok (fetch_project_definitions project k) paths_ok"
  by (auto simp: fetch_project_definitions_def Let_def intro!: calls_ok_askI routes split: sum.split redmine_error.split)

fun wf_target :: "autofill_target \<Rightarrow> bool" where
  "wf_target (TargetCreate project) = wf_ident project"
| "wf_target (TargetUpdate n) = True"

lemma routes_recover:
  assumes "wf_target target" and "\<And>r. calls_ok (k r) paths_ok"
  shows "calls_ok (recover_required_fields E target cfs e k) paths_ok"
proof -
  have "calls_ok (fetch_definitions_for_autofill target k') paths_ok" if "\<And>r. calls_ok (k' r) paths_ok" for k' :: "_ \<Rightarrow> 'a prog"
    using assms(1) that
    by (cases target) (auto simp: fetch_definitions_for_autofill_def intro!: calls_ok_askI routes routes_project_definitions split: sum.split)
  then show ?thesis
    using assms(2) by (auto simp: recover_required_fields_def Let_def split: sum.split)
qed

lemma routes_write_recovering:
  assumes "wf_target target" and "\<And>k. (\<And>r. calls_ok (k r) paths_ok) \<Longrightarrow> calls_ok (send k) paths_ok"
    and "\<And>m k. (\<And>r. calls_ok (k r) paths_ok) \<Longrightarrow> calls_ok (retry m k) paths_ok" and "\<And>i a. calls_ok (k i a) paths_ok"
  shows "calls_ok (write_recovering E target cfs send retry k) paths_ok"
  unfolding write_recovering_def
  using assms by (auto intro!: assms(2,3) routes_recover split: sum.split option.split required_field_recovery.split)

lemma routes_copy_loop:
  "(\<And>st. calls_ok (k st) paths_ok) \<Longrightarrow> calls_ok (copy_loop target children parent depth st k) paths_ok"
proof (induction target children parent depth st k rule: copy_loop.induct)
  case (1 target child children parent depth st k)
  then show ?case by (auto simp: copy_loop.simps(1) intro!: calls_ok_askI routes split: sum.split)
next
  case (2 target parent depth st k)
  show ?case
  proof (cases "cs_queue st")
    case Nil
    then show ?thesis using 2(4) by (simp add: copy_loop.simps(2))
  next
    case (Cons q queue)
    obtain source new_parent d where q: "(source, new_parent, d) = q" by (cases q) auto
    have "calls_ok (copy_loop target [] parent depth (st\<lparr>cs_queue := queue, cs_truncated := True\<rparr>) k) paths_ok"
      using 2(1,2) [OF Cons q refl _ 2(4)] by blast
    moreover have "calls_ok (copy_loop target cs new_parent d (st\<lparr>cs_queue := queue\<rparr>) k) paths_ok" if "\<not> COPY_MAX_DEPTH \<le> d" for cs
      using 2(3) [OF Cons q refl that 2(4)] .
    ultimately show ?thesis
      by (subst copy_loop.simps(2)) (simp add: Cons q [symmetric] calls_ok_askI routes split: sum.split)
  qed
qed

lemma routes_reading:
  "calls_ok (get_redmine_issue E gp) paths_ok" "calls_ok (list_redmine_issues E lp) paths_ok"
  "calls_ok (search_redmine_issues E sp) paths_ok" "calls_ok (list_subtasks_tool E n) paths_ok"
  "calls_ok (get_private_notes E n) paths_ok"
  by (auto simp: get_redmine_issue_def list_redmine_issues_def search_redmine_issues_def list_subtasks_tool_def
      get_private_notes_def Let_def intro!: tool_calls routes split: sum.split)

lemma routes_create: "calls_ok (create_redmine_issue E F p) paths_ok"
  by (auto simp: create_redmine_issue_def Let_def send_create_def dest: resolve_project_ref_wf
      intro!: tool_calls routes routes_resolve_cf calls_ok_uploads routes_write_recovering)

lemma routes_update: "calls_ok (update_redmine_issue E F p) paths_ok"
  by (auto simp: update_redmine_issue_def Let_def attachments_part_def agile_part_def
      intro!: tool_calls routes routes_resolve_cf_update calls_ok_uploads routes_write_recovering calls_ok_fetch_attachments)

lemma routes_delete_copy: "calls_ok (delete_redmine_issue E dp) paths_ok" "calls_ok (copy_issue E cp) paths_ok"
  by (auto simp: delete_redmine_issue_def copy_issue_def Let_def intro!: tool_calls routes routes_copy_loop)

lemma routes_managing:
  "calls_ok (manage_issue_relation E rp) paths_ok" "calls_ok (manage_issue_watcher E wp) paths_ok"
  "calls_ok (manage_issue_note E np) paths_ok" "calls_ok (manage_issue_category E cp) paths_ok"
  by (auto simp: manage_issue_relation_def manage_issue_watcher_def manage_issue_note_def note_written_def
      manage_issue_category_def dest: resolve_project_ref_wf intro!: tool_calls routes
      split: manage_relation_action.split manage_watcher_action.split manage_note_action.split manage_category_action.split)

lemma issue_action_known:
  "relation_action_str a = ''list'' \<or> relation_action_str a = ''create'' \<or> relation_action_str a = ''delete''"
  "watcher_action_str b = ''add'' \<or> watcher_action_str b = ''remove''"
  "note_action_str n = ''edit'' \<or> note_action_str n = ''set_private''"
  "category_action_str d = ''list'' \<or> category_action_str d = ''create'' \<or> category_action_str d = ''update'' \<or>
   category_action_str d = ''delete''"
  by ((cases a; simp), (cases b; simp), (cases n; simp), (cases d; simp))

lemma issue_action_reading:
  "relation_action_str a \<in> {''list'', ''get''} \<longleftrightarrow> a = RelationList"
  "category_action_str d \<in> {''list'', ''get''} \<longleftrightarrow> d = CategoryList"
  by (cases a; simp) (cases d; simp)

interpretation issue_module: tool_router issue_router
proof unfold_locales
  fix c :: issue_call and F E
  show "rt_name issue_router c \<in> set (rt_names issue_router)"
    by (cases c) (simp_all add: issue_router_def tool_lists)
  show "covered (rt_name issue_router c) (rt_action issue_router c)"
    by (cases c) (simp_all add: issue_router_def covered_def TOOL_SCOPES_def issue_action_known)
  show "calls_ok (rt_tool issue_router F E c) op_reads"
    if "reading (rt_name issue_router c) (rt_action issue_router c)"
    using that issue_action_reading
    by (cases c) (auto simp: issue_router_def reading_def write_tools_all_def PARTIAL_WRITE_def reading_tools)
  show "calls_ok (rt_tool issue_router F E c) op_reads"
    if "co_read_only (te_config E)" "rt_name issue_router c \<notin> set write_tools_all"
    using that by (cases c) (simp_all add: issue_router_def write_tools_all_def reading_tools)
  show "calls_ok (rt_tool issue_router F E c) paths_ok"
    by (cases c) (simp_all add: issue_router_def routes_reading routes_create routes_update routes_delete_copy routes_managing)
qed

section \<open>Caps on lists\<close>

text \<open>
  A list can be cut silently. Without \<^verbatim>\<open>include_pagination_info\<close>, which is the default, a page of
  \<^verbatim>\<open>list_redmine_issues\<close> with more issues than the configured cap comes back as a success with fewer
  issues and nothing else: there is no place in the answer that says so.
\<close>

theorem list_cut_unmarked:
  assumes "te_scoped E = Inr c" and "\<not> li_include_pagination_info p"
    and "resolve_issue_fields (li_fields p) = Inr fs" and "li_project_id p = None" and "li_assigned_to_id p = None"
    and "\<And>op. S [] op = Inr (AIssuePage pg)" and "oc_max_items (te_caps E) < length (pg_items pg)"
  shows "\<exists>ys. fst (run (list_redmine_issues E p) S []) =
      Inr \<lparr>ct_is_error = False, ct_structured = JObj [(''issues'', JArr ys)]\<rparr> \<and> length ys < length (pg_items pg)"
proof -
  obtain ys where "ok (te_float E) (te_caps E) (issues_output (map (issue_summary_out E fs) (pg_items pg)) None) =
      \<lparr>ct_is_error = False, ct_structured = JObj [(''issues'', JArr ys)]\<rparr>" "length ys \<le> oc_max_items (te_caps E)"
    using unmarked_cut [of "[(''issues'', JArr (map (issue_summary_out E fs) (pg_items pg)))]"
        "map (issue_summary_out E fs) (pg_items pg)" "te_caps E" "te_float E"] assms(7)
    by (auto simp: top_level_array_def issues_output_def present_def obj_of_def)
  then show ?thesis
    using assms
    by (intro exI [of _ ys])
      (simp add: list_redmine_issues_def or_invalid_def transposed_def Let_def with_scoped_def decode_answer_def given_def)
qed

definition example_issue :: issue where
  "example_issue =
     (let n = \<lparr>idn_id = 1, idn_name = ''n''\<rparr>
      in \<lparr>isu_id = 1, isu_project = n, isu_tracker = n, isu_status = n, isu_priority = n, isu_author = n, isu_assigned_to = None,
          isu_parent = None, isu_category = None, isu_fixed_version = None, isu_subject = ''s'', isu_description = None,
          isu_done_ratio = None, isu_is_private = None, isu_estimated_hours = None, isu_spent_hours = None,
          isu_start_date = None, isu_due_date = None, isu_created_on = ''d'', isu_updated_on = ''d'', isu_closed_on = None,
          isu_custom_fields = None, isu_journals = None, isu_attachments = None, isu_relations = None, isu_watchers = None,
          isu_children = None, isu_tags = None, isu_allowed_statuses = None\<rparr>)"

definition example_list_call :: list_redmine_issues_params where
  "example_list_call =
     \<lparr>li_project_id = None, li_status_id = None, li_tracker_id = None, li_assigned_to_id = None, li_priority_id = None,
      li_fixed_version_id = None, li_sort = None, li_limit = None, li_offset = None, li_include_pagination_info = False,
      li_fields = None\<rparr>"

theorem list_cut_unmarked_witness:
  "\<exists>cfg ys. fst (run (list_redmine_issues (example_tool_env cfg) example_list_call)
       (\<lambda>_ _. Inr (AIssuePage \<lparr>pg_items = [example_issue, example_issue], pg_total_count = 2, pg_offset = 0, pg_limit = 25,
                                pg_truncated = False\<rparr>)) []) =
     Inr \<lparr>ct_is_error = False, ct_structured = JObj [(''issues'', JArr ys)]\<rparr> \<and> length ys < 2"
proof -
  obtain cfg0 where "from_map example_env (example_vars ''k'') KindHttp = Inr cfg0" using example_accepted [of "''k''"] by auto
  define cfg where "cfg = cfg0\<lparr>co_max_response_items := 1\<rparr>"
  have caps: "oc_max_items (te_caps (example_tool_env cfg)) < length [example_issue, example_issue]"
    by (simp add: te_caps_def example_tool_env_def cfg_def)
  have fs: "resolve_issue_fields (li_fields example_list_call) = Inr issue_field_set_all"
    by (simp add: example_list_call_def resolve_issue_fields_def)
  define pg where "pg = \<lparr>pg_items = [example_issue, example_issue], pg_total_count = 2, pg_offset = 0, pg_limit = 25, pg_truncated = False\<rparr>"
  have "\<exists>ys. fst (run (list_redmine_issues (example_tool_env cfg) example_list_call) (\<lambda>_ _. Inr (AIssuePage pg)) []) =
      Inr \<lparr>ct_is_error = False, ct_structured = JObj [(''issues'', JArr ys)]\<rparr> \<and> length ys < length (pg_items pg)"
    by (rule list_cut_unmarked [OF _ _ fs, where c = "ApiKey ''k''"])
      (use caps in \<open>simp_all add: example_tool_env_def example_list_call_def pg_def\<close>)
  then show ?thesis unfolding pg_def by (intro exI [of _ cfg]) (simp add: numeral_2_eq_2)
qed

section \<open>Journals\<close>

text \<open>A caller that reads journals page by page, as long as it is told that there are more.\<close>

fun walk_journals :: "nat \<Rightarrow> journal list \<Rightarrow> nat \<Rightarrow> nat \<Rightarrow> journal list" where
  "walk_journals 0 js n off = []"
| "walk_journals (Suc fuel) js n off =
     (case page_journals (Some js) (Some n) (Some off) of
        (Some shown, Some paging) \<Rightarrow> shown @ (if jp_has_more paging then walk_journals fuel js n (off + n) else [])
      | _ \<Rightarrow> [])"

lemma walk_journals_drop:
  assumes "0 < n" and "length js \<le> u64_max" and "length js < off + n * fuel" and "off \<le> length js"
  shows "walk_journals fuel js n off = drop off js"
  using assms(3,4)
proof (induction fuel arbitrary: off)
  case (Suc fuel)
  have count: "length (take n (drop off js)) = min n (length js - off)" by simp
  show ?case
  proof (cases "off + n < length js")
    case True
    then have "walk_journals fuel js n (off + n) = drop (off + n) js" using Suc by (simp add: algebra_simps)
    then show ?thesis
      using True assms(2) by (simp add: page_journals_def Let_def count sat_add_exact) (metis add.commute append_take_drop_id drop_drop)
  next
    case False
    then have "min n (length js - off) = length js - off" by simp
    then show ?thesis using False Suc.prems(2) assms(2) by (simp add: page_journals_def Let_def count sat_add_exact)
  qed
qed simp

text \<open>
  Paging loses no journal and shows none twice: a caller that starts at the beginning with any
  positive limit and asks for the next page while \<^verbatim>\<open>has_more\<close> is set gets every journal once, in
  order, and is told to stop.
\<close>

theorem journal_pages_complete:
  assumes "0 < n" and "length js \<le> u64_max"
  shows "walk_journals (Suc (length js)) js n 0 = js"
proof -
  have "length js < 0 + n * Suc (length js)" using assms(1) by (cases n) simp_all
  then show ?thesis using walk_journals_drop [OF assms, of 0 "Suc (length js)"] by (simp del: walk_journals.simps)
qed

theorem journal_pages_complete_witness:
  "let j = \<lparr>jr_id = 1, jr_user = None, jr_notes = None, jr_created_on = [], jr_updated_on = None, jr_updated_by = None,
            jr_private_notes = None\<rparr>
   in walk_journals (Suc (length [j, j, j])) [j, j, j] 2 0 = [j, j, j]"
  unfolding Let_def by (rule journal_pages_complete) (simp_all add: u64_max_def)

end
