(* ===== verification/Time_Tools.thy ===== *)
theory Time_Tools
  imports Issue_Output
begin

text \<open>
  The time-tracking tools (\<^verbatim>\<open>tools/time.rs\<close>): listing time entries and activities, logging and changing
  one entry, and the import of many, which validates all of them before it sends the first.
\<close>

section \<open>Shared shapes\<close>

definition time_entry_out :: "tool_env \<Rightarrow> time_entry \<Rightarrow> json" where
  "time_entry_out E e =
     JObj (obj_of
       [(''id'', jnat (ten_id e)), (''project'', id_name_out E ''time_entry.project.name'' (ten_project e)),
        (''issue_id'', nullable jnat (ten_issue e)), (''user'', id_name_out E ''time_entry.user.name'' (ten_user e)),
        (''activity'', id_name_out E ''time_entry.activity.name'' (ten_activity e)), (''hours'', JFloat (ten_hours e)),
        (''comments'', nullable (\<lambda>c. JStr (te_wrap E ''time_entry.comments'' c)) (ten_comments e)),
        (''spent_on'', JStr (ten_spent_on e)), (''created_on'', JStr (ten_created_on e)),
        (''updated_on'', JStr (ten_updated_on e))])"

datatype user_ref = UserRefId nat | UserRefLiteral string

definition resolve_user_ref :: "user_ref \<Rightarrow> mcp_error + user_filter" where
  "resolve_user_ref r =
     (case r of UserRefId n \<Rightarrow> Inr (UserId n) | UserRefLiteral s \<Rightarrow> if s = ''me'' then Inr UserMe else Inl InvalidParams)"

fun build_spent_on :: "string option \<Rightarrow> string option \<Rightarrow> string option" where
  "build_spent_on (Some from_date) (Some to_date) = Some (''><'' @ from_date @ ''|'' @ to_date)"
| "build_spent_on (Some from_date) None = Some (''>='' @ from_date)"
| "build_spent_on None (Some to_date) = Some (''<='' @ to_date)"
| "build_spent_on None None = None"

definition describe_error :: "tool_env \<Rightarrow> redmine_error \<Rightarrow> string" where
  "describe_error E e =
     (let get = (\<lambda>k otherwise.
            case ct_structured (tool_error E e) of
              JObj m \<Rightarrow> (case map_of m k of Some (JStr s) \<Rightarrow> s | _ \<Rightarrow> otherwise)
            | _ \<Rightarrow> otherwise)
      in get ''code'' ''UNEXPECTED_RESPONSE'' @ '': '' @ get ''error'' ''unknown error'')"

section \<open>Listing\<close>

definition clamp_time_entries_limit :: "nat option \<Rightarrow> nat" where
  "clamp_time_entries_limit limit = max 1 (min 100 (case limit of Some n \<Rightarrow> n | None \<Rightarrow> 25))"

record list_time_entries_params =
  lt_project_id :: "project_ref option"
  lt_issue_id :: "nat option"
  lt_user_id :: "user_ref option"
  lt_from_date :: "string option"
  lt_to_date :: "string option"
  lt_limit :: "nat option"
  lt_offset :: "nat option"

definition list_time_entries_tool :: "tool_env \<Rightarrow> list_time_entries_params \<Rightarrow> tool_result prog" where
  "list_time_entries_tool E p =
     or_invalid (transposed resolve_project_ref (lt_project_id p)) (\<lambda>project.
     or_invalid (transposed resolve_user_ref (lt_user_id p)) (\<lambda>user.
       let q = \<lparr>tq_project_id = project, tq_issue_id = lt_issue_id p, tq_user_id = user,
                tq_spent_on = build_spent_on (lt_from_date p) (lt_to_date p), tq_extra = []\<rparr>
       in with_scoped E
            (ask de_time_entry_page
               (list_time_entries_page q (clamp_time_entries_limit (lt_limit p)) (case lt_offset p of Some n \<Rightarrow> n | None \<Rightarrow> 0))
               (\<lambda>r. or_fail E r (\<lambda>pg.
                  ok_out E (JObj (obj_of
                    [(''time_entries'', jlist (time_entry_out E) (pg_items pg)),
                     (''pagination'', pagination_json (from_page pg))])))))))"

definition activity_out :: "tool_env \<Rightarrow> nat \<Rightarrow> string \<Rightarrow> bool option \<Rightarrow> bool option \<Rightarrow> json" where
  "activity_out E n name active is_default =
     JObj (obj_of [(''id'', jnat n), (''name'', JStr (te_wrap E ''time_entry_activity.name'' name)),
                   (''active'', nullable JBool active), (''is_default'', nullable JBool is_default)])"

definition activities_written :: "tool_env \<Rightarrow> json list \<Rightarrow> tool_result prog" where
  "activities_written E activities = ok_out E (JObj (obj_of [(''time_entry_activities'', JArr activities)]))"

definition list_time_entry_activities_tool :: "tool_env \<Rightarrow> project_ref option \<Rightarrow> tool_result prog" where
  "list_time_entry_activities_tool E project_id =
     with_scoped E
       (case project_id of
          Some ref \<Rightarrow>
            or_invalid (resolve_project_ref ref) (\<lambda>project.
              ask de_project (get_project project [TimeEntryActivities]) (\<lambda>r. or_fail E r (\<lambda>p.
                activities_written E
                  (map (\<lambda>a. activity_out E (idn_id a) (idn_name a) None None)
                     (case prj_time_entry_activities p of Some as \<Rightarrow> as | None \<Rightarrow> [])))))
        | None \<Rightarrow>
            ask de_enumerations list_time_entry_activities (\<lambda>r. or_fail E r (\<lambda>as.
              activities_written E (map (\<lambda>a. activity_out E (enu_id a) (enu_name a) (enu_active a) (enu_is_default a)) as))))"

section \<open>One entry\<close>

datatype manage_time_entry_action = TimeEntryCreate | TimeEntryUpdate

record manage_time_entry_params =
  mt_action :: manage_time_entry_action
  mt_hours :: "rat option"
  mt_project_id :: "project_ref option"
  mt_issue_id :: "nat option"
  mt_user_id :: "nat option"
  mt_time_entry_id :: "nat option"
  mt_activity_id :: "nat option"
  mt_comments :: "string option"
  mt_spent_on :: "string option"

definition time_entry_written :: "tool_env \<Rightarrow> time_entry \<Rightarrow> tool_result prog" where
  "time_entry_written E e = ok_out E (JObj (obj_of [(''success'', JBool True), (''time_entry'', time_entry_out E e)]))"

definition manage_time_entry :: "tool_env \<Rightarrow> manage_time_entry_params \<Rightarrow> tool_result prog" where
  "manage_time_entry E p =
     with_scoped E
       (case mt_action p of
          TimeEntryCreate \<Rightarrow>
            require (mt_hours p) (\<lambda>hours.
              if hours \<le> 0 then invalid_params
              else if mt_project_id p = None \<and> mt_issue_id p = None then invalid_params
              else or_invalid (transposed resolve_project_ref (mt_project_id p)) (\<lambda>project.
                ask de_time_entry
                  (create_time_entry (PTimeEntryCreate
                     \<lparr>tec_issue_id = mt_issue_id p, tec_project_id = project, tec_spent_on = mt_spent_on p, tec_hours = hours,
                      tec_activity_id = mt_activity_id p, tec_comments = mt_comments p, tec_user_id = mt_user_id p\<rparr>))
                  (\<lambda>r. or_fail E r (time_entry_written E))))
        | TimeEntryUpdate \<Rightarrow>
            require (mt_time_entry_id p) (\<lambda>n.
              if (case mt_hours p of Some hours \<Rightarrow> hours \<le> 0 | None \<Rightarrow> False) then invalid_params
              else ask de_time_entry
                (update_time_entry n (PTimeEntryUpdate
                   \<lparr>teu_hours = mt_hours p, teu_activity_id = mt_activity_id p, teu_comments = mt_comments p,
                    teu_spent_on = mt_spent_on p\<rparr>))
                (\<lambda>r. or_fail E r (time_entry_written E))))"

section \<open>The import\<close>

definition IMPORT_MAX_ENTRIES :: nat where
  "IMPORT_MAX_ENTRIES = 500"

record import_entry_params =
  ie_hours :: rat
  ie_project_id :: "project_ref option"
  ie_issue_id :: "nat option"
  ie_user_id :: "nat option"
  ie_activity_id :: "nat option"
  ie_comments :: "string option"
  ie_spent_on :: "string option"

record import_entry_result =
  ir_index :: nat
  ir_attempted :: bool
  ir_success :: bool
  ir_time_entry :: "json option"
  ir_error :: "string option"

definition import_result_json :: "import_entry_result \<Rightarrow> json" where
  "import_result_json x =
     JObj (obj_of
       [(''index'', jnat (ir_index x)), (''attempted'', JBool (ir_attempted x)), (''success'', JBool (ir_success x)),
        (''time_entry'', nullable (\<lambda>j. j) (ir_time_entry x)), (''error'', nullable JStr (ir_error x))])"

text \<open>The first loop: every entry is checked and its project resolved.\<close>

fun resolve_import :: "import_entry_params list \<Rightarrow> mcp_error + project_ident option list" where
  "resolve_import [] = Inr []"
| "resolve_import (e # es) =
     (if ie_hours e \<le> 0 then Inl InvalidParams
      else if ie_project_id e = None \<and> ie_issue_id e = None then Inl InvalidParams
      else (case transposed resolve_project_ref (ie_project_id e) of
              Inl failure \<Rightarrow> Inl failure
            | Inr project \<Rightarrow> (case resolve_import es of Inl failure \<Rightarrow> Inl failure | Inr projects \<Rightarrow> Inr (project # projects))))"

definition import_create :: "import_entry_params \<Rightarrow> project_ident option \<Rightarrow> time_entry_create" where
  "import_create e project =
     \<lparr>tec_issue_id = ie_issue_id e, tec_project_id = project, tec_spent_on = ie_spent_on e, tec_hours = ie_hours e,
      tec_activity_id = ie_activity_id e, tec_comments = ie_comments e, tec_user_id = ie_user_id e\<rparr>"

record import_state =
  im_results :: "import_entry_result list"
  im_succeeded :: nat
  im_failed :: nat
  im_stopped :: bool

text \<open>The second loop; the counters are bounded by the number of entries and do not saturate.\<close>

fun import_loop ::
    "tool_env \<Rightarrow> bool \<Rightarrow> nat \<Rightarrow> (import_entry_params \<times> project_ident option) list \<Rightarrow> import_state \<Rightarrow>
     (import_state \<Rightarrow> 'r prog) \<Rightarrow> 'r prog" where
  "import_loop E stop_on_error index [] st k = k st"
| "import_loop E stop_on_error index ((e, project) # rest) st k =
     (if im_stopped st
      then import_loop E stop_on_error (index + 1) rest
             (st\<lparr>im_results := im_results st @
                [\<lparr>ir_index = index, ir_attempted = False, ir_success = False, ir_time_entry = None, ir_error = None\<rparr>]\<rparr>) k
      else ask de_time_entry (create_time_entry (PTimeEntryCreate (import_create e project))) (\<lambda>r.
        import_loop E stop_on_error (index + 1) rest
          (case r of
             Inr entry \<Rightarrow>
               st\<lparr>im_succeeded := im_succeeded st + 1,
                  im_results := im_results st @
                    [\<lparr>ir_index = index, ir_attempted = True, ir_success = True,
                      ir_time_entry = Some (time_entry_out E entry), ir_error = None\<rparr>]\<rparr>
           | Inl failure \<Rightarrow>
               st\<lparr>im_failed := im_failed st + 1,
                  im_results := im_results st @
                    [\<lparr>ir_index = index, ir_attempted = True, ir_success = False, ir_time_entry = None,
                      ir_error = Some (describe_error E failure)\<rparr>],
                  im_stopped := (stop_on_error \<or> im_stopped st)\<rparr>) k))"

definition import_start :: import_state where
  "import_start = \<lparr>im_results = [], im_succeeded = 0, im_failed = 0, im_stopped = False\<rparr>"

definition import_output :: "nat \<Rightarrow> import_state \<Rightarrow> json" where
  "import_output n st =
     JObj (obj_of
       [(''total'', jnat n), (''attempted'', jnat (im_succeeded st + im_failed st)), (''succeeded'', jnat (im_succeeded st)),
        (''failed'', jnat (im_failed st)), (''results'', jlist import_result_json (im_results st))])"

definition import_time_entries :: "tool_env \<Rightarrow> import_entry_params list \<Rightarrow> bool \<Rightarrow> tool_result prog" where
  "import_time_entries E entries stop_on_error =
     (if entries = [] then invalid_params
      else if length entries > IMPORT_MAX_ENTRIES then invalid_params
      else or_invalid (resolve_import entries) (\<lambda>projects.
        with_scoped E
          (import_loop E stop_on_error 0 (zip entries projects) import_start (\<lambda>st.
             ok_out E (import_output (length entries) st)))))"

section \<open>What the import does\<close>

definition answered :: "redmine_error + answer \<Rightarrow> bool" where
  "answered a \<longleftrightarrow> (case decode_answer de_time_entry a of Inr _ \<Rightarrow> True | Inl _ \<Rightarrow> False)"

definition import_op :: "import_entry_params \<times> project_ident option \<Rightarrow> redmine_op" where
  "import_op x = create_time_entry (PTimeEntryCreate (import_create (fst x) (snd x)))"

text \<open>What the loop does to its state on a list of entries: \<open>L\<close> is the log of its calls.\<close>

definition import_done ::
    "bool \<Rightarrow> nat \<Rightarrow> (import_entry_params \<times> project_ident option) list \<Rightarrow> import_state \<Rightarrow>
     (redmine_op \<times> (redmine_error + answer)) list \<Rightarrow> import_state \<Rightarrow> bool" where
  "import_done stop index xs st L st' \<longleftrightarrow>
     (\<exists>R. im_results st' = im_results st @ R \<and> length L \<le> length xs \<and> length R = length xs \<and>
       map fst L = map import_op (take (length L) xs) \<and>
       map ir_index R = [index..<index + length xs] \<and>
       map ir_attempted R = replicate (length L) True @ replicate (length xs - length L) False \<and>
       map ir_success R = map (answered \<circ> snd) L @ replicate (length xs - length L) False \<and>
       im_succeeded st' = im_succeeded st + length (filter (answered \<circ> snd) L) \<and>
       im_failed st' = im_failed st + length (filter (Not \<circ> answered \<circ> snd) L) \<and>
       (length L < length xs \<longrightarrow> im_stopped st \<or> stop \<and> L \<noteq> [] \<and> \<not> answered (snd (last L))))"

lemma import_done_skip:
  assumes "import_done stop (index + 1) xs (st\<lparr>im_results := im_results st @ [r]\<rparr>) [] st'" "im_stopped st"
    "ir_index r = index" "\<not> ir_attempted r" "\<not> ir_success r"
  shows "import_done stop index (x # xs) st [] st'"
proof -
  obtain R where "im_results st' = im_results st @ r # R" "length R = length xs"
    "map ir_index R = [index + 1..<index + 1 + length xs]" "map ir_attempted R = replicate (length xs) False"
    "map ir_success R = replicate (length xs) False" "im_succeeded st' = im_succeeded st" "im_failed st' = im_failed st"
    using assms(1) by (auto simp: import_done_def)
  then show ?thesis
    using assms(2-5) unfolding import_done_def by (intro exI [of _ "r # R"]) (simp add: upt_conv_Cons del: upt_Suc)
qed

lemma import_done_step:
  assumes "import_done stop (index + 1) xs st1 L st'"
    "im_results st1 = im_results st @ [r]" "ir_index r = index" "ir_attempted r" "ir_success r = answered a"
    "im_succeeded st1 = im_succeeded st + (if answered a then 1 else 0)"
    "im_failed st1 = im_failed st + (if answered a then 0 else 1)"
    "im_stopped st1 \<Longrightarrow> stop \<and> \<not> answered a \<and> L = []"
  shows "import_done stop index (x # xs) st ((import_op x, a) # L) st'"
proof -
  obtain R where R: "im_results st' = im_results st @ r # R" "length L \<le> length xs" "length R = length xs"
    "map fst L = map import_op (take (length L) xs)" "map ir_index R = [index + 1..<index + 1 + length xs]"
    "map ir_attempted R = replicate (length L) True @ replicate (length xs - length L) False"
    "map ir_success R = map (answered \<circ> snd) L @ replicate (length xs - length L) False"
    "im_succeeded st' = im_succeeded st1 + length (filter (answered \<circ> snd) L)"
    "im_failed st' = im_failed st1 + length (filter (Not \<circ> answered \<circ> snd) L)"
    "length L < length xs \<longrightarrow> im_stopped st1 \<or> stop \<and> L \<noteq> [] \<and> \<not> answered (snd (last L))"
    using assms(1,2) by (auto simp: import_done_def)
  show ?thesis
    unfolding import_done_def
    by (intro exI [of _ "r # R"] conjI)
      (use R assms(3-8) in \<open>auto simp: upt_conv_Cons simp del: upt_Suc\<close>)
qed

lemma import_loop_stopped:
  "im_stopped st \<Longrightarrow> \<exists>st'. import_loop E stop index xs st k = k st' \<and> import_done stop index xs st [] st'"
proof (induction xs arbitrary: index st)
  case Nil
  then show ?case by (auto simp: import_done_def)
next
  case (Cons x xs)
  let ?r = "\<lparr>ir_index = index, ir_attempted = False, ir_success = False, ir_time_entry = None, ir_error = None\<rparr>"
  obtain e project where x: "x = (e, project)" by (cases x)
  obtain st' where "import_loop E stop (index + 1) xs (st\<lparr>im_results := im_results st @ [?r]\<rparr>) k = k st'"
    "import_done stop (index + 1) xs (st\<lparr>im_results := im_results st @ [?r]\<rparr>) [] st'"
    using Cons.IH [of "st\<lparr>im_results := im_results st @ [?r]\<rparr>" "index + 1"] Cons.prems by auto
  then show ?case
    using Cons.prems x import_done_skip [where r = ?r and st = st and index = index and xs = xs and st' = st'] by auto
qed

lemma import_loop_run:
  "\<not> im_stopped st \<Longrightarrow>
   \<exists>L st'. import_done stop index xs st L st' \<and>
     run_log (import_loop E stop index xs st k) S h = L @ run_log (k st') S (h @ map fst L) \<and>
     fst (run (import_loop E stop index xs st k) S h) = fst (run (k st') S (h @ map fst L))"
proof (induction xs arbitrary: index st h)
  case Nil
  then show ?case by (intro exI [of _ "[]"] exI [of _ st]) (simp add: import_done_def)
next
  case (Cons x xs)
  obtain e project where x: "x = (e, project)" by (cases x)
  define a where "a = S h (import_op x)"
  define st1 where "st1 =
    (case decode_answer de_time_entry a of
       Inr entry \<Rightarrow>
         st\<lparr>im_succeeded := im_succeeded st + 1,
            im_results := im_results st @ [\<lparr>ir_index = index, ir_attempted = True, ir_success = True,
              ir_time_entry = Some (time_entry_out E entry), ir_error = None\<rparr>]\<rparr>
     | Inl failure \<Rightarrow>
         st\<lparr>im_failed := im_failed st + 1,
            im_results := im_results st @ [\<lparr>ir_index = index, ir_attempted = True, ir_success = False, ir_time_entry = None,
              ir_error = Some (describe_error E failure)\<rparr>],
            im_stopped := (stop \<or> im_stopped st)\<rparr>)"
  have unfold: "run_log (import_loop E stop index (x # xs) st k) S h =
      (import_op x, a) # run_log (import_loop E stop (index + 1) xs st1 k) S (h @ [import_op x])"
    "run (import_loop E stop index (x # xs) st k) S h = run (import_loop E stop (index + 1) xs st1 k) S (h @ [import_op x])"
    using Cons.prems by (simp_all add: x ask_def a_def st1_def import_op_def)
  have step: "import_done stop index (x # xs) st ((import_op x, a) # L) st'"
    if "import_done stop (index + 1) xs st1 L st'" "im_stopped st1 \<Longrightarrow> L = []" for L st'
    by (rule import_done_step [OF that(1), where r = "last (im_results st1)"])
      (use Cons.prems that(2) in \<open>auto simp: st1_def answered_def split: sum.splits\<close>)
  show ?case
  proof (cases "im_stopped st1")
    case True
    then obtain st' where "import_loop E stop (index + 1) xs st1 k = k st'" "import_done stop (index + 1) xs st1 [] st'"
      using import_loop_stopped by blast
    then show ?thesis
      using step [of "[]" st'] unfold by (intro exI [of _ "[(import_op x, a)]"] exI [of _ st']) simp
  next
    case False
    then obtain L st' where "import_done stop (index + 1) xs st1 L st'"
      "run_log (import_loop E stop (index + 1) xs st1 k) S (h @ [import_op x]) = L @ run_log (k st') S (h @ import_op x # map fst L)"
      "fst (run (import_loop E stop (index + 1) xs st1 k) S (h @ [import_op x])) = fst (run (k st') S (h @ import_op x # map fst L))"
      using Cons.IH [of st1 "index + 1" "h @ [import_op x]"] by auto
    then show ?thesis
      using step [of L st'] False unfold by (intro exI [of _ "(import_op x, a) # L"] exI [of _ st']) simp
  qed
qed

lemma resolve_import_length: "resolve_import es = Inr ps \<Longrightarrow> length ps = length es"
  by (induction es arbitrary: ps) (auto split: if_splits sum.splits)


text \<open>
  But not all outcomes are shown. The list of outcomes is cut like any other list, although its length
  is bounded by the call itself, and the answer has no pagination object to say so: of an import of
  more entries than the cap, the caller learns how many failed but not which.
\<close>

theorem import_outcomes_cut:
  assumes "te_scoped E = Inr c" and "resolve_import entries = Inr projects" and "length entries \<le> 500"
    and "oc_max_items (te_caps E) < length entries"
  shows "\<exists>m ys. fst (run (import_time_entries E entries stop_on_error) S []) = Inr \<lparr>ct_is_error = False, ct_structured = JObj m\<rparr> \<and>
      map fst m = [''attempted'', ''failed'', ''results'', ''succeeded'', ''total''] \<and>
      map_of m ''results'' = Some (JArr ys) \<and> length ys < length entries"
proof -
  have ne: "entries \<noteq> []" using assms(4) by auto
  obtain L st where d: "import_done stop_on_error 0 (zip entries projects) import_start L st"
    and f: "fst (run (import_time_entries E entries stop_on_error) S []) = Inr (ok (te_float E) (te_caps E) (import_output (length entries) st))"
    using import_loop_run [of import_start stop_on_error 0 "zip entries projects" E "\<lambda>st. ok_out E (import_output (length entries) st)" S "[]"]
      assms ne by (auto simp: import_start_def ok_out_def import_time_entries_def IMPORT_MAX_ENTRIES_def or_invalid_def with_scoped_def)
  have len: "length (im_results st) = length entries"
    using d resolve_import_length [OF assms(2)] by (auto simp: import_done_def import_start_def)
  define m where "m = obj_of
       [(''total'', jnat (length entries)), (''attempted'', jnat (im_succeeded st + im_failed st)), (''succeeded'', jnat (im_succeeded st)),
        (''failed'', jnat (im_failed st)), (''results'', jlist import_result_json (im_results st))]"
  have m: "m = [(''attempted'', jnat (im_succeeded st + im_failed st)), (''failed'', jnat (im_failed st)),
      (''results'', JArr (map import_result_json (im_results st))), (''succeeded'', jnat (im_succeeded st)), (''total'', jnat (length entries))]"
    by (simp add: m_def obj_of_def jlist_def)
  obtain ys where "ok (te_float E) (te_caps E) (JObj m) = \<lparr>ct_is_error = False, ct_structured = JObj (replace_array ys m)\<rparr>"
    "length ys \<le> oc_max_items (te_caps E)"
    using unmarked_cut [of m "map import_result_json (im_results st)" "te_caps E" "te_float E"] len assms(4)
    by (auto simp: m top_level_array_def jnat_def)
  then show ?thesis
    using f assms(4) by (intro exI [of _ "replace_array ys m"] exI [of _ ys]) (simp add: import_output_def m_def [symmetric], simp add: m jnat_def)
qed

section \<open>The module\<close>

fun time_entry_action_str :: "manage_time_entry_action \<Rightarrow> string" where
  "time_entry_action_str TimeEntryCreate = ''create''"
| "time_entry_action_str TimeEntryUpdate = ''update''"

datatype time_call =
    ListTimeEntries list_time_entries_params
  | ManageTimeEntry manage_time_entry_params
  | ListTimeEntryActivities "project_ref option"
  | ImportTimeEntries "import_entry_params list" bool

fun time_call_name :: "time_call \<Rightarrow> string" where
  "time_call_name (ListTimeEntries _) = ''list_time_entries''"
| "time_call_name (ManageTimeEntry _) = ''manage_time_entry''"
| "time_call_name (ListTimeEntryActivities _) = ''list_time_entry_activities''"
| "time_call_name (ImportTimeEntries _ _) = ''import_time_entries''"

fun time_call_action :: "time_call \<Rightarrow> string option" where
  "time_call_action (ManageTimeEntry p) = Some (time_entry_action_str (mt_action p))"
| "time_call_action _ = None"

fun time_tool :: "unit \<Rightarrow> tool_env \<Rightarrow> time_call \<Rightarrow> tool_result prog" where
  "time_tool w E (ListTimeEntries p) = list_time_entries_tool E p"
| "time_tool w E (ManageTimeEntry p) = manage_time_entry E p"
| "time_tool w E (ListTimeEntryActivities p) = list_time_entry_activities_tool E p"
| "time_tool w E (ImportTimeEntries p q) = import_time_entries E p q"

definition time_router :: "(unit, time_call) router" where
  "time_router =
     \<lparr>rt_tool = time_tool, rt_name = time_call_name, rt_action = time_call_action, rt_names = time_tools, rt_sound = (\<lambda>_ _ _. True)\<rparr>"

lemma time_reads:
  "calls_ok (list_time_entries_tool E lp) op_reads" "calls_ok (list_time_entry_activities_tool E ap) op_reads"
  by (auto simp: list_time_entries_tool_def list_time_entry_activities_tool_def activities_written_def Let_def
      intro!: calls_okI split: option.split)

lemma calls_ok_import_loop:
  assumes "\<And>x. P (import_op x)" and "\<And>st. calls_ok (k st) P"
  shows "calls_ok (import_loop E stop index xs st k) P"
  using assms by (induction xs arbitrary: index st) (auto simp: import_op_def intro!: calls_okI)

lemma time_stays:
  "calls_ok (list_time_entries_tool E lp) paths_ok" "calls_ok (list_time_entry_activities_tool E ap) paths_ok"
  "calls_ok (manage_time_entry E mp) paths_ok" "calls_ok (import_time_entries E es stop) paths_ok"
  by (auto simp: list_time_entries_tool_def list_time_entry_activities_tool_def activities_written_def
      manage_time_entry_def time_entry_written_def import_time_entries_def import_op_def Let_def
      dest: resolve_project_ref_wf intro!: calls_okI routes calls_ok_import_loop
      split: option.split manage_time_entry_action.split)

lemma time_action_known [simp]: "time_entry_action_str a = ''create'' \<or> time_entry_action_str a = ''update''"
  by (cases a) simp_all

interpretation time_module: tool_router time_router
proof unfold_locales
  fix c :: time_call and w E
  show "rt_name time_router c \<in> set (rt_names time_router)"
    by (cases c) (simp_all add: time_router_def tool_lists)
  show "covered (rt_name time_router c) (rt_action time_router c)"
    by (cases c) (simp_all add: time_router_def covered_def TOOL_SCOPES_def)
  show reads: "calls_ok (rt_tool time_router w E c) op_reads"
    if "reading (rt_name time_router c) (rt_action time_router c)"
    using that by (cases c) (simp_all add: time_router_def reading_def write_tools_all_def time_reads)
  show "calls_ok (rt_tool time_router w E c) op_reads"
    if "co_read_only (te_config E)" "rt_name time_router c \<notin> set write_tools_all"
    using that reads by (cases c) (simp_all add: time_router_def reading_def PARTIAL_WRITE_def)
  show "calls_ok (rt_tool time_router w E c) paths_ok" if "rt_sound time_router w E c"
    by (cases c) (simp_all add: time_router_def time_stays)
qed

end
