(* ===== verification/Wiki_Tools.thy ===== *)
theory Wiki_Tools
  imports Issue_Output
begin

text \<open>
  The full-text search and the wiki tool (\<^verbatim>\<open>tools/search_wiki.rs\<close>). A page title is validated before it
  becomes a segment of a path; the encoding of the segment is that of the client.
\<close>

section \<open>Search\<close>

definition EXCERPT_MAX_CHARS :: nat where
  "EXCERPT_MAX_CHARS = 200"

definition clamp_search_entire_limit :: "nat option \<Rightarrow> nat" where
  "clamp_search_entire_limit limit = max 1 (min 100 (case limit of Some n \<Rightarrow> n | None \<Rightarrow> 100))"

record search_entire_params =
  se_query :: string
  se_resources :: "search_resource list option"
  se_limit :: "nat option"
  se_offset :: "nat option"

text \<open>The cut counts characters, not bytes; the result is wrapped at once.\<close>

definition truncate_excerpt :: "ustr \<Rightarrow> ustr" where
  "truncate_excerpt s = (if length s \<le> EXCERPT_MAX_CHARS then s else take EXCERPT_MAX_CHARS s)"

definition wrap_excerpt :: "tool_env \<Rightarrow> string \<Rightarrow> string" where
  "wrap_excerpt E d =
     map char_of (utf8_bytes (wrap (boundary_new (te_random E)) ''search_result.excerpt''
       (truncate_excerpt (uc_chars (te_unicode E) d))))"

definition result_bucket :: "search_result \<Rightarrow> string" where
  "result_bucket x = (case from_raw_type (srs_kind x) of Some k \<Rightarrow> wire_param k | None \<Rightarrow> ''unknown'')"

definition search_result_out :: "tool_env \<Rightarrow> search_result \<Rightarrow> json" where
  "search_result_out E x =
     JObj (obj_of [(''id'', jnat (srs_id x)), (''type'', JStr (result_bucket x)),
                   (''title'', JStr (te_wrap E ''search_result.title'' (srs_title x))),
                   (''excerpt'', nullable (\<lambda>d. JStr (wrap_excerpt E d)) (srs_description x))])"

text \<open>The results per type: a counter for each type that occurs.\<close>

definition results_by_type :: "search_result list \<Rightarrow> json" where
  "results_by_type xs =
     JObj (obj_of (map (\<lambda>b. (b, jnat (length (filter (\<lambda>x. result_bucket x = b) xs)))) (remdups (map result_bucket xs))))"

definition search_entire_redmine :: "tool_env \<Rightarrow> search_entire_params \<Rightarrow> tool_result prog" where
  "search_entire_redmine E p =
     (if blank_text E (se_query p) then invalid_params
      else
        (let resources = (case se_resources p of Some rs \<Rightarrow> rs | None \<Rightarrow> [SearchIssues, SearchWikiPages])
         in with_scoped E
              (ask de_search_page
                 (search_entire_page (se_query p) resources (clamp_search_entire_limit (se_limit p))
                    (case se_offset p of Some n \<Rightarrow> n | None \<Rightarrow> 0))
                 (\<lambda>r. or_fail E r (\<lambda>pg.
                    ok_out E (JObj (obj_of
                      [(''results'', jlist (search_result_out E) (pg_items pg)),
                       (''results_by_type'', results_by_type (pg_items pg)),
                       (''pagination'', pagination_json (from_page pg))])))))))"

section \<open>Wiki pages\<close>

datatype manage_wiki_page_action = WikiList | WikiGet | WikiCreate | WikiUpdate | WikiDelete | WikiRename

fun wiki_action_str :: "manage_wiki_page_action \<Rightarrow> string" where
  "wiki_action_str WikiList = ''list''"
| "wiki_action_str WikiGet = ''get''"
| "wiki_action_str WikiCreate = ''create''"
| "wiki_action_str WikiUpdate = ''update''"
| "wiki_action_str WikiDelete = ''delete''"
| "wiki_action_str WikiRename = ''rename''"

record manage_wiki_page_params =
  mp_action :: manage_wiki_page_action
  mp_project_id :: project_ref
  mp_wiki_page_title :: "string option"
  mp_version :: "nat option"
  mp_include_attachments :: "bool option"
  mp_text :: "string option"
  mp_comments :: "string option"
  mp_new_title :: "string option"
  mp_redirect_existing_links :: "bool option"

definition wiki_page_list_item_out :: "wiki_page_list_item \<Rightarrow> json" where
  "wiki_page_list_item_out i =
     JObj (obj_of
       [(''title'', JStr (wli_title i)), (''parent_title'', nullable JStr (wli_parent i)), (''version'', jnat (wli_version i)),
        (''created_on'', JStr (wli_created_on i)), (''updated_on'', nullable JStr (wli_updated_on i))])"

definition wiki_page_out :: "tool_env \<Rightarrow> wiki_page \<Rightarrow> json" where
  "wiki_page_out E p =
     JObj (obj_of
       [(''title'', JStr (wkp_title p)), (''text'', nullable (\<lambda>t. JStr (te_wrap E ''wiki_page.text'' t)) (wkp_text p)),
        (''version'', jnat (wkp_version p)), (''author'', nullable (id_name_out E ''user.name'') (wkp_author p)),
        (''comments'', nullable (\<lambda>c. JStr (te_wrap E ''wiki_page.comments'' c)) (wkp_comments p)),
        (''parent_title'', nullable JStr (wkp_parent p)), (''project_id'', nullable jnat (map_option idn_id (wkp_project p))),
        (''created_on'', JStr (wkp_created_on p)), (''updated_on'', nullable JStr (wkp_updated_on p)),
        (''attachments'', nullable (jlist (attachment_out E)) (wkp_attachments p))])"

text \<open>\<^verbatim>\<open>ManageWikiPageOutput\<close>: fields that are not set are \<^verbatim>\<open>null\<close>.\<close>

definition wiki_written :: "tool_env \<Rightarrow> json option \<Rightarrow> json option \<Rightarrow> string option \<Rightarrow> string option \<Rightarrow> tool_result prog" where
  "wiki_written E pages page_out deleted_title message =
     ok_out E (JObj (obj_of
       [(''success'', JBool True), (''pages'', nullable (\<lambda>j. j) pages), (''page'', nullable (\<lambda>j. j) page_out),
        (''deleted_title'', nullable JStr deleted_title), (''message'', nullable JStr message)]))"

definition wiki_page_written :: "tool_env \<Rightarrow> wiki_page \<Rightarrow> tool_result prog" where
  "wiki_page_written E p = wiki_written E None (Some (wiki_page_out E p)) None None"

text \<open>A title that passed, as characters and as the text it was given by.\<close>

definition resolve_wiki_title :: "tool_env \<Rightarrow> string \<Rightarrow> mcp_error + ustr" where
  "resolve_wiki_title E s =
     (case wiki_title_new (uc_chars (te_unicode E) s) of Inl _ \<Rightarrow> Inl InvalidParams | Inr t \<Rightarrow> Inr t)"

definition require_title ::
    "tool_env \<Rightarrow> manage_wiki_page_params \<Rightarrow> (string \<Rightarrow> ustr \<Rightarrow> tool_result prog) \<Rightarrow> tool_result prog" where
  "require_title E p k = require (mp_wiki_page_title p) (\<lambda>raw. or_invalid (resolve_wiki_title E raw) (k raw))"

definition wiki_read_only_refusal :: "manage_wiki_page_action \<Rightarrow> tool_result prog" where
  "wiki_read_only_refusal action =
     err_out CReadOnly
       (''this server is running in read-only mode; manage_redmine_wiki_page(action='' @ [char_of (34 :: nat)] @
        wiki_action_str action @ [char_of (34 :: nat)] @ '') is disabled'')
       (Some (''use action='' @ [char_of (34 :: nat)] @ ''list'' @ [char_of (34 :: nat)] @ '' or action='' @ [char_of (34 :: nat)] @
              ''get'' @ [char_of (34 :: nat)] @ '' instead, or ask the operator to disable read-only mode''))"

text \<open>Creating and updating send the same request; the segment is the encoded title.\<close>

definition wiki_upsert :: "tool_env \<Rightarrow> (ustr \<Rightarrow> string) \<Rightarrow> project_ident \<Rightarrow> manage_wiki_page_params \<Rightarrow> tool_result prog" where
  "wiki_upsert E enc project p =
     (if co_read_only (te_config E) then wiki_read_only_refusal (mp_action p)
      else require_title E p (\<lambda>raw title. require (mp_text p) (\<lambda>txt.
        ask de_wiki_page
          (upsert_wiki_page project (enc title)
             (PWikiPage \<lparr>wpw_text = txt, wpw_comments = mp_comments p, wpw_title = None, wpw_redirect_existing_links = None\<rparr>))
          (\<lambda>r. or_fail E r (wiki_page_written E)))))"

text \<open>
  Renaming reads the page, writes it under its old title with the new one in the payload, and reads it
  under the new title to see whether Redmine did it.
\<close>

definition wiki_rename :: "tool_env \<Rightarrow> (ustr \<Rightarrow> string) \<Rightarrow> project_ident \<Rightarrow> manage_wiki_page_params \<Rightarrow> tool_result prog" where
  "wiki_rename E enc project p =
     (if co_read_only (te_config E) then wiki_read_only_refusal (mp_action p)
      else require_title E p (\<lambda>raw old_title. require (mp_new_title p) (\<lambda>new_raw.
        if new_raw = raw then invalid_params
        else or_invalid (resolve_wiki_title E new_raw) (\<lambda>new_title.
          ask de_wiki_page (get_wiki_page project (enc old_title) None False) (\<lambda>r. or_fail E r (\<lambda>current.
          ask de_unit
            (write_wiki_page project (enc old_title)
               (PWikiPage \<lparr>wpw_text = (case wkp_text current of Some t \<Rightarrow> t | None \<Rightarrow> []), wpw_comments = mp_comments p,
                           wpw_title = Some new_raw,
                           wpw_redirect_existing_links = given (mp_redirect_existing_links p = Some False) ''0''\<rparr>))
            (\<lambda>r. or_fail E r (\<lambda>_.
               ask de_wiki_page (get_wiki_page project (enc new_title) None False) (\<lambda>r.
                 case r of
                   Inl ENotFound \<Rightarrow>
                     err_out CForbidden ''the wiki page was updated but its title did not change; the configured credential likely lacks the rename_wiki_pages permission''
                       (Some ''ask the user for an account with rename_wiki_pages, or update the page's text without attempting a rename'')
                 | _ \<Rightarrow> or_fail E r (wiki_page_written E))))))))))"

definition manage_redmine_wiki_page ::
    "tool_env \<Rightarrow> (ustr \<Rightarrow> string) \<Rightarrow> manage_wiki_page_params \<Rightarrow> tool_result prog" where
  "manage_redmine_wiki_page E enc p =
     or_invalid (resolve_project_ref (mp_project_id p)) (\<lambda>project.
       with_scoped E
         (case mp_action p of
            WikiList \<Rightarrow>
              ask de_wiki_pages (list_wiki_pages project) (\<lambda>r. or_fail E r (\<lambda>pages.
                wiki_written E (Some (jlist wiki_page_list_item_out pages)) None None None))
          | WikiGet \<Rightarrow>
              require_title E p (\<lambda>raw title.
                ask de_wiki_page
                  (get_wiki_page project (enc title) (mp_version p) (case mp_include_attachments p of Some b \<Rightarrow> b | None \<Rightarrow> True))
                  (\<lambda>r. or_fail E r (wiki_page_written E)))
          | WikiCreate \<Rightarrow> wiki_upsert E enc project p
          | WikiUpdate \<Rightarrow> wiki_upsert E enc project p
          | WikiDelete \<Rightarrow>
              if co_read_only (te_config E) then wiki_read_only_refusal (mp_action p)
              else require_title E p (\<lambda>raw title.
                ask de_unit (delete_wiki_page project (enc title)) (\<lambda>r. or_fail E r (\<lambda>_.
                  wiki_written E None None (Some raw)
                    (Some ''wiki page deleted; any child pages were un-parented, not deleted''))))
          | WikiRename \<Rightarrow> wiki_rename E enc project p))"

section \<open>The module\<close>

text \<open>
  A title that ends in a dot makes a path with two dots in it, which the guard refuses; the calls
  without one are sound when the encoder is.
\<close>

definition undotted :: "tool_env \<Rightarrow> string option \<Rightarrow> bool" where
  "undotted E s = (case s of Some raw \<Rightarrow> last (uc_chars (te_unicode E) raw) \<noteq> 46 | None \<Rightarrow> True)"

datatype wiki_call =
    SearchEntireRedmine search_entire_params
  | ManageRedmineWikiPage manage_wiki_page_params

fun wiki_call_name :: "wiki_call \<Rightarrow> string" where
  "wiki_call_name (SearchEntireRedmine _) = ''search_entire_redmine''"
| "wiki_call_name (ManageRedmineWikiPage _) = ''manage_redmine_wiki_page''"

fun wiki_call_action :: "wiki_call \<Rightarrow> string option" where
  "wiki_call_action (ManageRedmineWikiPage p) = Some (wiki_action_str (mp_action p))"
| "wiki_call_action _ = None"

fun wiki_tool :: "(ustr \<Rightarrow> string) \<Rightarrow> tool_env \<Rightarrow> wiki_call \<Rightarrow> tool_result prog" where
  "wiki_tool w E (SearchEntireRedmine p) = search_entire_redmine E p"
| "wiki_tool w E (ManageRedmineWikiPage p) = manage_redmine_wiki_page E w p"

fun wiki_sound :: "(ustr \<Rightarrow> string) \<Rightarrow> tool_env \<Rightarrow> wiki_call \<Rightarrow> bool" where
  "wiki_sound enc E (SearchEntireRedmine p) = True"
| "wiki_sound enc E (ManageRedmineWikiPage p) =
     (segment_encoder enc \<and> undotted E (mp_wiki_page_title p) \<and> undotted E (mp_new_title p))"

definition wiki_router :: "(ustr \<Rightarrow> string, wiki_call) router" where
  "wiki_router =
     \<lparr>rt_tool = wiki_tool, rt_name = wiki_call_name, rt_action = wiki_call_action, rt_names = search_wiki_tools, rt_sound = wiki_sound\<rparr>"

lemma calls_ok_require_title:
  "(\<And>raw t. mp_wiki_page_title p = Some raw \<Longrightarrow> resolve_wiki_title E raw = Inr t \<Longrightarrow> calls_ok (k raw t) P) \<Longrightarrow>
   calls_ok (require_title E p k) P"
  by (auto simp: require_title_def intro!: calls_okI)

lemma calls_ok_wiki [simp]:
  "calls_ok (wiki_written E pages pg d m) P" "calls_ok (wiki_page_written E w) P" "calls_ok (wiki_read_only_refusal a) P"
  by (simp_all add: wiki_written_def wiki_page_written_def wiki_read_only_refusal_def)

lemma resolved_segment:
  assumes "segment_encoder enc" and "resolve_wiki_title E raw = Inr t" and "undotted E (Some raw)"
  shows "segment_ok (enc t)"
proof -
  have t: "t = uc_chars (te_unicode E) raw" "wiki_title_new t = Inr t"
    using assms(2) by (auto simp: resolve_wiki_title_def wiki_title_new_def split: if_splits)
  moreover have "last t \<noteq> 46" "t \<noteq> [46]" using assms(3) t by (auto simp: undotted_def)
  ultimately show ?thesis using assms(1) by (auto simp: segment_encoder_def segment_ok_def)
qed

lemma search_wiki_reads: "calls_ok (search_entire_redmine E p) op_reads"
  by (auto simp: search_entire_redmine_def Let_def intro!: calls_okI)

lemma wiki_page_reads:
  assumes "co_read_only (te_config E) \<or> mp_action p \<in> {WikiList, WikiGet}"
  shows "calls_ok (manage_redmine_wiki_page E enc p) op_reads"
  using assms
  by (auto simp: manage_redmine_wiki_page_def wiki_upsert_def wiki_rename_def
      intro!: calls_okI calls_ok_require_title split: manage_wiki_page_action.split)

lemma wiki_upsert_stays:
  assumes "segment_encoder enc" and "undotted E (mp_wiki_page_title p)" and "wf_ident project"
  shows "calls_ok (wiki_upsert E enc project p) paths_ok"
  using assms by (auto simp: wiki_upsert_def intro!: calls_okI calls_ok_require_title routes resolved_segment)

lemma wiki_rename_stays:
  assumes "segment_encoder enc" and "undotted E (mp_wiki_page_title p)" and "undotted E (mp_new_title p)" and "wf_ident project"
  shows "calls_ok (wiki_rename E enc project p) paths_ok"
  using assms
  by (auto simp: wiki_rename_def intro!: calls_okI calls_ok_require_title routes resolved_segment split: sum.split redmine_error.split)

lemma wiki_page_stays:
  assumes "segment_encoder enc" and "undotted E (mp_wiki_page_title p)" and "undotted E (mp_new_title p)"
  shows "calls_ok (manage_redmine_wiki_page E enc p) paths_ok"
  using assms
  by (auto simp: manage_redmine_wiki_page_def dest: resolve_project_ref_wf
      intro!: calls_okI calls_ok_require_title routes resolved_segment wiki_upsert_stays wiki_rename_stays
      split: manage_wiki_page_action.split)

lemma search_wiki_stays: "calls_ok (search_entire_redmine E p) paths_ok"
  by (auto simp: search_entire_redmine_def Let_def intro!: calls_okI routes)

lemma wiki_action_known:
  "wiki_action_str a = ''list'' \<or> wiki_action_str a = ''get'' \<or> wiki_action_str a = ''create'' \<or> wiki_action_str a = ''update'' \<or>
   wiki_action_str a = ''delete'' \<or> wiki_action_str a = ''rename''"
  by (cases a) simp_all

lemma wiki_action_reading: "wiki_action_str a \<in> {''list'', ''get''} \<longleftrightarrow> a \<in> {WikiList, WikiGet}"
  by (cases a) simp_all

interpretation wiki_module: tool_router wiki_router
proof unfold_locales
  fix c :: wiki_call and w E
  show "rt_name wiki_router c \<in> set (rt_names wiki_router)"
    by (cases c) (simp_all add: wiki_router_def tool_lists)
  show "covered (rt_name wiki_router c) (rt_action wiki_router c)"
    by (cases c) (simp_all add: wiki_router_def covered_def TOOL_SCOPES_def wiki_action_known)
  show "calls_ok (rt_tool wiki_router w E c) op_reads"
    if "reading (rt_name wiki_router c) (rt_action wiki_router c)"
    using that wiki_action_reading
    by (cases c) (auto simp: wiki_router_def reading_def PARTIAL_WRITE_def search_wiki_reads intro!: wiki_page_reads)
  show "calls_ok (rt_tool wiki_router w E c) op_reads"
    if "co_read_only (te_config E)" "rt_name wiki_router c \<notin> set write_tools_all"
    using that by (cases c) (simp_all add: wiki_router_def search_wiki_reads wiki_page_reads)
  show "calls_ok (rt_tool wiki_router w E c) paths_ok" if "rt_sound wiki_router w E c"
    using that by (cases c) (simp_all add: wiki_router_def search_wiki_stays wiki_page_stays)
qed

end
