(* ===== verification/Discovery_Tools.thy ===== *)
theory Discovery_Tools
  imports Issue_Output
begin

text \<open>
  The tools that look things up (\<^verbatim>\<open>tools/discovery.rs\<close>) and the one that describes the server
  (\<^verbatim>\<open>tools/meta.rs\<close>). All of them only read.
\<close>

section \<open>Instance-wide lists\<close>

definition tracker_out :: "tool_env \<Rightarrow> tracker \<Rightarrow> json" where
  "tracker_out E t =
     JObj (obj_of [(''id'', jnat (trk_id t)), (''name'', JStr (te_wrap E ''tracker.name'' (trk_name t))),
                   (''description'', nullable (\<lambda>d. JStr (te_wrap E ''tracker.description'' d)) (trk_description t))])"

definition list_redmine_trackers :: "tool_env \<Rightarrow> tool_result prog" where
  "list_redmine_trackers E =
     with_scoped E (ask de_trackers list_trackers (\<lambda>r. or_fail E r (\<lambda>ts.
       ok_out E (JObj (obj_of [(''trackers'', jlist (tracker_out E) ts)])))))"

definition list_project_trackers :: "tool_env \<Rightarrow> project_ref \<Rightarrow> tool_result prog" where
  "list_project_trackers E project_id =
     or_invalid (resolve_project_ref project_id) (\<lambda>project.
       with_scoped E (ask de_project (get_project project [Trackers]) (\<lambda>r. or_fail E r (\<lambda>p.
         ok_out E (JObj (obj_of
           [(''trackers'', jlist (id_name_out E ''tracker.name'') (case prj_trackers p of Some ts \<Rightarrow> ts | None \<Rightarrow> []))]))))))"

definition issue_status_out :: "tool_env \<Rightarrow> issue_status \<Rightarrow> json" where
  "issue_status_out E s =
     JObj (obj_of [(''id'', jnat (ist_id s)), (''name'', JStr (te_wrap E ''issue_status.name'' (ist_name s))),
                   (''is_closed'', nullable JBool (ist_is_closed s)),
                   (''description'', nullable (\<lambda>d. JStr (te_wrap E ''issue_status.description'' d)) (ist_description s))])"

definition list_redmine_issue_statuses :: "tool_env \<Rightarrow> tool_result prog" where
  "list_redmine_issue_statuses E =
     with_scoped E (ask de_statuses list_issue_statuses (\<lambda>r. or_fail E r (\<lambda>ss.
       ok_out E (JObj (obj_of [(''issue_statuses'', jlist (issue_status_out E) ss)])))))"

definition issue_priority_out :: "tool_env \<Rightarrow> enumeration \<Rightarrow> json" where
  "issue_priority_out E p =
     JObj (obj_of [(''id'', jnat (enu_id p)), (''name'', JStr (te_wrap E ''issue_priority.name'' (enu_name p))),
                   (''active'', nullable JBool (enu_active p)), (''is_default'', nullable JBool (enu_is_default p))])"

definition list_redmine_issue_priorities :: "tool_env \<Rightarrow> tool_result prog" where
  "list_redmine_issue_priorities E =
     with_scoped E (ask de_enumerations list_issue_priorities (\<lambda>r. or_fail E r (\<lambda>ps.
       ok_out E (JObj (obj_of [(''issue_priorities'', jlist (issue_priority_out E) ps)])))))"

section \<open>Users\<close>

definition clamp_users_limit :: "nat option \<Rightarrow> nat" where
  "clamp_users_limit limit = max 1 (min 100 (case limit of Some n \<Rightarrow> n | None \<Rightarrow> 25))"

record list_redmine_users_params =
  lu_name :: "string option"
  lu_group_id :: "nat option"
  lu_limit :: "nat option"
  lu_offset :: "nat option"

definition user_out :: "tool_env \<Rightarrow> redmine_user \<Rightarrow> json" where
  "user_out E u =
     JObj (obj_of
       [(''id'', jnat (usr_id u)), (''login'', nullable JStr (usr_login u)),
        (''firstname'', JStr (te_wrap E ''user.firstname'' (usr_firstname u))),
        (''lastname'', JStr (te_wrap E ''user.lastname'' (usr_lastname u))),
        (''mail'', nullable JStr (usr_mail u)), (''created_on'', JStr (usr_created_on u))])"

text \<open>An answer of 403 has its own explanation; every other error has the common one.\<close>

definition or_forbidden ::
    "tool_env \<Rightarrow> string \<Rightarrow> string \<Rightarrow> redmine_error + 'a \<Rightarrow> ('a \<Rightarrow> tool_result prog) \<Rightarrow> tool_result prog" where
  "or_forbidden E message hint r k =
     (case r of Inl EForbidden \<Rightarrow> err_out CForbidden message (Some hint) | _ \<Rightarrow> or_fail E r k)"

definition list_redmine_users :: "tool_env \<Rightarrow> list_redmine_users_params \<Rightarrow> tool_result prog" where
  "list_redmine_users E p =
     with_scoped E
       (ask de_user_page
          (list_users \<lparr>uq_name = lu_name p, uq_group_id = lu_group_id p, uq_status = None\<rparr> (clamp_users_limit (lu_limit p))
             (case lu_offset p of Some n \<Rightarrow> n | None \<Rightarrow> 0))
          (\<lambda>r. or_forbidden E
             ''the configured Redmine credential is not an administrator (403 forbidden); list_redmine_users requires admin privileges''
             ''do not retry; call get_current_user to check your own identity, or ask the user for an account with admin privileges''
             r (\<lambda>pg.
               ok_out E (JObj (obj_of
                 [(''users'', jlist (user_out E) (pg_items pg)), (''pagination'', pagination_json (from_page pg))])))))"

definition get_current_user :: "tool_env \<Rightarrow> tool_result prog" where
  "get_current_user E =
     with_scoped E (ask de_user current_user (\<lambda>r. or_fail E r (\<lambda>u.
       ok_out E (JObj (obj_of
         [(''id'', jnat (usr_id u)), (''login'', nullable JStr (usr_login u)),
          (''firstname'', JStr (te_wrap E ''user.firstname'' (usr_firstname u))),
          (''lastname'', JStr (te_wrap E ''user.lastname'' (usr_lastname u))),
          (''mail'', nullable JStr (usr_mail u)), (''admin'', nullable JBool (usr_admin u)),
          (''created_on'', JStr (usr_created_on u)), (''last_login_on'', nullable JStr (usr_last_login_on u))])))))"

section \<open>Saved queries\<close>

definition saved_query_out :: "tool_env \<Rightarrow> saved_query \<Rightarrow> json" where
  "saved_query_out E q =
     JObj (obj_of [(''id'', jnat (sqy_id q)), (''name'', JStr (te_wrap E ''query.name'' (sqy_name q))),
                   (''is_public'', nullable JBool (sqy_is_public q)), (''project_id'', nullable jnat (sqy_project_id q))])"

definition list_redmine_queries :: "tool_env \<Rightarrow> tool_result prog" where
  "list_redmine_queries E =
     with_scoped E (ask de_query_page list_saved_queries (\<lambda>r. or_fail E r (\<lambda>pg.
       ok_out E (JObj (obj_of
         [(''queries'', jlist (saved_query_out E) (pg_items pg)), (''pagination'', pagination_json (from_page pg))])))))"

section \<open>The server itself\<close>

text \<open>What the process knows of itself: its package version and, in the proxy mode, the sizes of two stores.\<close>

record server_facts =
  sf_version :: string
  sf_proxy_counts :: "(nat \<times> nat) option"

definition plugin_flags_json :: "plugin_flags \<Rightarrow> json" where
  "plugin_flags_json f =
     JObj (obj_of [(''agile'', JBool (pf_agile f)), (''checklists'', JBool (pf_checklists f)), (''products'', JBool (pf_products f)),
                   (''crm'', JBool (pf_crm f)), (''dmsf'', JBool (pf_dmsf f)), (''tags'', JBool (pf_tags f))])"

definition proxy_counts :: "config \<Rightarrow> server_facts \<Rightarrow> nat option \<times> nat option" where
  "proxy_counts cfg facts =
     (case co_auth cfg of
        CfgOAuthProxy _ \<Rightarrow> (map_option fst (sf_proxy_counts facts), map_option snd (sf_proxy_counts facts))
      | _ \<Rightarrow> (None, None))"

definition server_info :: "tool_env \<Rightarrow> server_facts \<Rightarrow> redmine_user option \<Rightarrow> json" where
  "server_info E facts user =
     (let cfg = te_config E
      in JObj (obj_of
        [(''server_version'', JStr (sf_version facts)), (''read_only_mode'', JBool (co_read_only cfg)),
         (''auth_mode'', JStr (auth_mode_label cfg)), (''transport'', JStr (transport_label (co_transport cfg))),
         (''current_user'',
          nullable (\<lambda>u. JObj (obj_of
            [(''id'', jnat (usr_id u)), (''login'', nullable JStr (usr_login u)),
             (''name'', JStr (te_wrap E ''user.name'' (usr_firstname u @ '' '' @ usr_lastname u)))])) user),
         (''plugin_flags'', plugin_flags_json (co_plugins cfg)),
         (''oauth_scope_enforcement'', nullable JBool (map_option oc_scope_enforcement (oauth_resource cfg))),
         (''autofill_required_custom_fields'', JBool (cf_autofill_required (co_custom_fields cfg))),
         (''required_custom_field_defaults_count'', jnat (length (cf_defaults (co_custom_fields cfg)))),
         (''registered_clients'', nullable jnat (fst (proxy_counts cfg facts))),
         (''active_sessions'', nullable jnat (snd (proxy_counts cfg facts))),
         (''redmine_version'', nullable (\<lambda>v. JStr (version_str v)) (rm_version (co_redmine cfg))),
         (''redmine_version_advisory'', nullable JStr (redmine_version_advisory cfg))]))"

text \<open>Without a credential, and when Redmine does not answer, the rest is still reported.\<close>

definition get_mcp_server_info :: "tool_env \<Rightarrow> server_facts \<Rightarrow> tool_result prog" where
  "get_mcp_server_info E facts =
     (case te_scoped E of
        Inr _ \<Rightarrow>
          ask de_user current_user (\<lambda>r. ok_out E (server_info E facts (case r of Inr u \<Rightarrow> Some u | Inl _ \<Rightarrow> None)))
      | Inl _ \<Rightarrow> ok_out E (server_info E facts None))"

text \<open>The tool always answers, whatever the state of the credential and of Redmine.\<close>

lemma server_info_always: "returns (get_mcp_server_info E facts) (\<lambda>r. \<exists>v. r = Inr v \<and> \<not> ct_is_error v)"
  by (auto simp: get_mcp_server_info_def ok_def intro!: returns_askI split: sum.split)

section \<open>The module\<close>

datatype discovery_call =
    ListRedmineTrackers
  | ListProjectTrackers project_ref
  | ListRedmineIssueStatuses
  | ListRedmineIssuePriorities
  | ListRedmineUsers list_redmine_users_params
  | GetCurrentUser
  | ListRedmineQueries

fun discovery_call_name :: "discovery_call \<Rightarrow> string" where
  "discovery_call_name ListRedmineTrackers = ''list_redmine_trackers''"
| "discovery_call_name (ListProjectTrackers _) = ''list_project_trackers''"
| "discovery_call_name ListRedmineIssueStatuses = ''list_redmine_issue_statuses''"
| "discovery_call_name ListRedmineIssuePriorities = ''list_redmine_issue_priorities''"
| "discovery_call_name (ListRedmineUsers _) = ''list_redmine_users''"
| "discovery_call_name GetCurrentUser = ''get_current_user''"
| "discovery_call_name ListRedmineQueries = ''list_redmine_queries''"

fun discovery_tool :: "unit \<Rightarrow> tool_env \<Rightarrow> discovery_call \<Rightarrow> tool_result prog" where
  "discovery_tool w E ListRedmineTrackers = list_redmine_trackers E"
| "discovery_tool w E (ListProjectTrackers p) = list_project_trackers E p"
| "discovery_tool w E ListRedmineIssueStatuses = list_redmine_issue_statuses E"
| "discovery_tool w E ListRedmineIssuePriorities = list_redmine_issue_priorities E"
| "discovery_tool w E (ListRedmineUsers p) = list_redmine_users E p"
| "discovery_tool w E GetCurrentUser = get_current_user E"
| "discovery_tool w E ListRedmineQueries = list_redmine_queries E"

definition discovery_router :: "(unit, discovery_call) router" where
  "discovery_router =
     \<lparr>rt_tool = discovery_tool, rt_name = discovery_call_name, rt_action = (\<lambda>_. None), rt_names = discovery_tools, rt_sound = (\<lambda>_ _ _. True)\<rparr>"

text \<open>The module of the server information has one tool, without parameters.\<close>

definition meta_router :: "(server_facts, unit) router" where
  "meta_router =
     \<lparr>rt_tool = (\<lambda>facts E _. get_mcp_server_info E facts), rt_name = (\<lambda>_. ''get_mcp_server_info''), rt_action = (\<lambda>_. None),
      rt_names = meta_tools, rt_sound = (\<lambda>_ _ _. True)\<rparr>"

lemma calls_ok_or_forbidden:
  "(\<And>v. r = Inr v \<Longrightarrow> calls_ok (k v) P) \<Longrightarrow> calls_ok (or_forbidden E m h r k) P"
  by (auto simp: or_forbidden_def intro!: calls_ok_or_fail split: sum.split redmine_error.split)

lemmas discovery_defs =
  list_redmine_trackers_def list_project_trackers_def list_redmine_issue_statuses_def list_redmine_issue_priorities_def
  list_redmine_users_def get_current_user_def list_redmine_queries_def

lemma discovery_reads: "calls_ok (discovery_tool w E c) op_reads"
  by (cases c) (auto simp: discovery_defs intro!: calls_okI calls_ok_or_forbidden)

lemma discovery_stays: "calls_ok (discovery_tool w E c) paths_ok"
  by (cases c) (auto simp: discovery_defs dest: resolve_project_ref_wf intro!: calls_okI calls_ok_or_forbidden routes)

interpretation discovery_module: tool_router discovery_router
proof unfold_locales
  show "rt_name discovery_router c \<in> set (rt_names discovery_router)" for c
    by (cases c) (simp_all add: discovery_router_def tool_lists)
  show "covered (rt_name discovery_router c) (rt_action discovery_router c)" for c
    by (cases c) (simp_all add: discovery_router_def covered_def TOOL_SCOPES_def)
qed (simp_all add: discovery_router_def discovery_reads discovery_stays)

interpretation meta_module: tool_router meta_router
  by unfold_locales
    (auto simp: meta_router_def get_mcp_server_info_def tool_lists covered_def TOOL_SCOPES_def intro!: calls_okI routes split: sum.split)

end
