(* ===== verification/Project_Tools.thy ===== *)
theory Project_Tools
  imports Discovery_Tools "HOL-Library.Product_Lexorder" "HOL-Library.Multiset"
begin

text \<open>
  The project tools (\<^verbatim>\<open>tools/projects.rs\<close>) and the Gantt projection (\<^verbatim>\<open>tools/gantt.rs\<close>). Two of them send
  several requests at once; here these are sent in the order in which they are named, all of them,
  and of several errors the first in this order is reported. The date that lies a number of days back
  is an argument.
\<close>

section \<open>Projects and their fields\<close>

definition project_out :: "tool_env \<Rightarrow> project \<Rightarrow> json" where
  "project_out E p =
     JObj (obj_of [(''id'', jnat (prj_id p)), (''name'', JStr (te_wrap E ''project.name'' (prj_name p))),
                   (''identifier'', JStr (prj_identifier p)),
                   (''description'', nullable (\<lambda>d. JStr (te_wrap E ''project.description'' d)) (prj_description p))])"

definition list_redmine_projects :: "tool_env \<Rightarrow> tool_result prog" where
  "list_redmine_projects E =
     with_scoped E (ask de_project_page (list_projects []) (\<lambda>r. or_fail E r (\<lambda>pg.
       ok_out E (JObj (obj_of
         [(''projects'', jlist (project_out E) (pg_items pg)), (''pagination'', pagination_json (from_page pg))])))))"

definition custom_field_out :: "custom_field_definition \<Rightarrow> json" where
  "custom_field_out f =
     JObj (obj_of
       [(''id'', jnat (cdf_id f)), (''name'', JStr (cdf_name f)), (''field_format'', JStr (cdf_field_format f)),
        (''is_required'', nullable JBool (cdf_is_required f)), (''multiple'', nullable JBool (cdf_multiple f)),
        (''default_value'', nullable JStr (cdf_default_value f)),
        (''possible_values'', nullable (jlist JStr) (cdf_possible_values f))])"

text \<open>The dash in a hint, in UTF-8.\<close>

definition em_dash :: string where
  "em_dash = map char_of [226 :: nat, 128, 148]"

definition lists_id :: "id_name list option \<Rightarrow> nat \<Rightarrow> bool" where
  "lists_id xs n = (case xs of Some ys \<Rightarrow> list_ex (\<lambda>y. idn_id y = n) ys | None \<Rightarrow> False)"

definition field_applies :: "nat \<Rightarrow> nat option \<Rightarrow> custom_field_definition \<Rightarrow> bool" where
  "field_applies project tracker_id f \<longleftrightarrow>
     cdf_customized_type f = Some ''issue'' \<and>
     ((case cdf_is_for_all f of Some b \<Rightarrow> b | None \<Rightarrow> False) \<or> lists_id (cdf_projects f) project) \<and>
     (case tracker_id of None \<Rightarrow> True | Some t \<Rightarrow> lists_id (cdf_trackers f) t)"

definition list_project_issue_custom_fields :: "tool_env \<Rightarrow> project_ref \<Rightarrow> nat option \<Rightarrow> tool_result prog" where
  "list_project_issue_custom_fields E project_id tracker_id =
     or_invalid (resolve_project_ref project_id) (\<lambda>project.
       with_scoped E (ask de_project (get_project project []) (\<lambda>r. or_fail E r (\<lambda>p.
         ask de_definitions list_custom_field_definitions (\<lambda>r.
           or_forbidden E
             ''the configured Redmine credential is not an administrator (403 forbidden); GET /custom_fields.json is an admin-only endpoint on Redmine's side''
             (''do not retry; ask the user for an account with admin privileges '' @ em_dash @
              '' the field data itself is not necessarily sensitive, only the endpoint is admin-gated'')
             r (\<lambda>ds.
               ok_out E (JObj (obj_of
                 [(''custom_fields'', jlist custom_field_out (filter (field_applies (prj_id p) tracker_id) ds))]))))))))"

section \<open>The summary\<close>

text \<open>One more occurrence of a name in the map from names to counts, which is sorted by name.\<close>

fun count_name :: "string \<Rightarrow> (string \<times> nat) list \<Rightarrow> (string \<times> nat) list" where
  "count_name x [] = [(x, 1)]"
| "count_name x ((y, n) # m) =
     (if x < y then (x, 1) # (y, n) # m else if x = y then (y, n + 1) # m else (y, n) # count_name x m)"

definition bucket_counts :: "string list \<Rightarrow> (string \<times> nat) list" where
  "bucket_counts names = sort_key (\<lambda>(x, n). (- int n, x)) (fold count_name names [])"

definition breakdown :: "(string \<Rightarrow> string) \<Rightarrow> string list \<Rightarrow> json" where
  "breakdown show names =
     jlist (\<lambda>(x, n). JObj (obj_of [(''name'', JStr (show x)), (''count'', jnat n)])) (bucket_counts names)"

definition SUMMARY_SAMPLE_LIMIT :: nat where
  "SUMMARY_SAMPLE_LIMIT = 100"

definition project_query :: "project_ident \<Rightarrow> status_filter \<Rightarrow> issue_query" where
  "project_query project status =
     \<lparr>iq_project = Some project, iq_status = Some status, iq_assigned_to = None, iq_updated_on = None, iq_sort = None, iq_extra = []\<rparr>"

definition assignee_name :: "issue \<Rightarrow> string" where
  "assignee_name i = (case isu_assigned_to i of None \<Rightarrow> ''Unassigned'' | Some a \<Rightarrow> idn_name a)"

definition project_status_out ::
    "tool_env \<Rightarrow> nat \<Rightarrow> project \<Rightarrow> issue page \<Rightarrow> nat \<Rightarrow> nat \<Rightarrow> nat \<Rightarrow> nat \<Rightarrow> json" where
  "project_status_out E days p sample opened closed created_count updated_count =
     JObj (obj_of
       [(''project_id'', jnat (prj_id p)), (''project_name'', JStr (te_wrap E ''project.name'' (prj_name p))),
        (''analysis_period_days'', jnat days),
        (''recent_activity'', JObj (obj_of [(''created_count'', jnat created_count), (''updated_count'', jnat updated_count)])),
        (''totals'', JObj (obj_of [(''total'', jnat (pg_total_count sample)), (''open'', jnat opened), (''closed'', jnat closed)])),
        (''status_breakdown'', breakdown (\<lambda>x. x) (map (idn_name \<circ> isu_status) (pg_items sample))),
        (''priority_breakdown'', breakdown (\<lambda>x. x) (map (idn_name \<circ> isu_priority) (pg_items sample))),
        (''assignee_breakdown'',
         breakdown (\<lambda>x. if x = ''Unassigned'' then x else te_wrap E ''issue.assigned_to.name'' x) (map assignee_name (pg_items sample))),
        (''sample_size'', jnat (length (pg_items sample))),
        (''sample_truncated'', JBool (length (pg_items sample) < pg_total_count sample))])"

definition summarize_project_status :: "tool_env \<Rightarrow> (nat \<Rightarrow> string) \<Rightarrow> nat \<Rightarrow> nat option \<Rightarrow> tool_result prog" where
  "summarize_project_status E days_ago project_id days_param =
     (let days = max 1 (case days_param of Some n \<Rightarrow> n | None \<Rightarrow> 30);
          project = ProjectId project_id; cutoff = ''>='' @ days_ago days
      in with_scoped E
        (ask de_project (get_project project []) (\<lambda>r1.
         ask de_issue_page
           (list_issues_page ((project_query project StatusAll)\<lparr>iq_sort := Some ''updated_on:desc''\<rparr>) SUMMARY_SAMPLE_LIMIT 0) (\<lambda>r2.
         ask de_issue_page (list_issues_page (project_query project StatusOpen) 1 0) (\<lambda>r3.
         ask de_issue_page (list_issues_page (project_query project StatusClosed) 1 0) (\<lambda>r4.
         ask de_issue_page
           (list_issues_page ((project_query project StatusAll)\<lparr>iq_extra := [(''created_on'', cutoff)]\<rparr>) 1 0) (\<lambda>r5.
         ask de_issue_page
           (list_issues_page ((project_query project StatusAll)\<lparr>iq_updated_on := Some cutoff\<rparr>) 1 0) (\<lambda>r6.
           or_fail E r1 (\<lambda>p. or_fail E r2 (\<lambda>sample. or_fail E r3 (\<lambda>opened. or_fail E r4 (\<lambda>closed.
           or_fail E r5 (\<lambda>created_page. or_fail E r6 (\<lambda>updated_page.
             ok_out E (project_status_out E days p sample (pg_total_count opened) (pg_total_count closed)
                         (pg_total_count created_page) (pg_total_count updated_page))))))))))))))))"

section \<open>Versions\<close>

fun version_status_str :: "version_status \<Rightarrow> string" where
  "version_status_str VersionOpen = ''open''"
| "version_status_str VersionLocked = ''locked''"
| "version_status_str VersionClosed = ''closed''"

definition version_out :: "tool_env \<Rightarrow> project_version \<Rightarrow> json" where
  "version_out E v =
     JObj (obj_of
       [(''id'', jnat (vsn_id v)), (''name'', JStr (te_wrap E ''version.name'' (vsn_name v))),
        (''description'', nullable (\<lambda>d. JStr (te_wrap E ''version.description'' d)) (vsn_description v)),
        (''status'', JStr (vsn_status v)), (''due_date'', nullable JStr (vsn_due_date v)),
        (''sharing'', nullable JStr (vsn_sharing v)), (''project_id'', jnat (idn_id (vsn_project v)))])"

definition list_redmine_versions :: "tool_env \<Rightarrow> project_ref \<Rightarrow> version_status option \<Rightarrow> tool_result prog" where
  "list_redmine_versions E project_id status_filter =
     or_invalid (resolve_project_ref project_id) (\<lambda>project.
       with_scoped E (ask de_versions (list_versions project) (\<lambda>r. or_fail E r (\<lambda>vs.
         ok_out E (JObj (obj_of
           [(''versions'',
             jlist (version_out E)
               (filter (\<lambda>v. case status_filter of None \<Rightarrow> True | Some s \<Rightarrow> vsn_status v = version_status_str s) vs))]))))))"

datatype manage_version_action = VersionCreate | VersionUpdate | VersionDelete

record manage_version_params =
  mv_action :: manage_version_action
  mv_project_id :: "project_ref option"
  mv_version_id :: "nat option"
  mv_name :: "string option"
  mv_description :: "string option"
  mv_status :: "version_status option"
  mv_due_date :: "string option"
  mv_sharing :: "sharing_mode option"
  mv_wiki_page_title :: "string option"

definition version_payload :: "manage_version_params \<Rightarrow> string option \<Rightarrow> payload" where
  "version_payload p name =
     PVersion \<lparr>vwr_name = name, vwr_description = mv_description p, vwr_status = mv_status p, vwr_due_date = mv_due_date p,
               vwr_sharing = mv_sharing p, vwr_wiki_page_title = mv_wiki_page_title p\<rparr>"

definition version_written :: "tool_env \<Rightarrow> project_version option \<Rightarrow> nat option \<Rightarrow> tool_result prog" where
  "version_written E v deleted =
     ok_out E (JObj (obj_of [(''success'', JBool True), (''version'', nullable (version_out E) v),
                             (''deleted_version_id'', nullable jnat deleted)]))"

definition manage_redmine_version :: "tool_env \<Rightarrow> manage_version_params \<Rightarrow> tool_result prog" where
  "manage_redmine_version E p =
     with_scoped E
       (case mv_action p of
          VersionCreate \<Rightarrow>
            require (mv_project_id p) (\<lambda>ref. or_invalid (resolve_project_ref ref) (\<lambda>project.
              require (mv_name p) (\<lambda>name.
                ask de_version (create_version project (version_payload p (Some name))) (\<lambda>r.
                  or_fail E r (\<lambda>v. version_written E (Some v) None)))))
        | VersionUpdate \<Rightarrow>
            require (mv_version_id p) (\<lambda>n.
              ask de_version (update_version n (version_payload p (mv_name p))) (\<lambda>r.
                or_fail E r (\<lambda>v. version_written E (Some v) None)))
        | VersionDelete \<Rightarrow>
            require (mv_version_id p) (\<lambda>n.
              ask de_unit (delete_version n) (\<lambda>r. or_fail E r (\<lambda>_. version_written E None (Some n)))))"

section \<open>Members, roles and modules\<close>

definition principal_out :: "nat \<Rightarrow> string \<Rightarrow> json" where
  "principal_out n name = JObj (obj_of [(''id'', jnat n), (''name'', JStr name)])"

definition membership_out :: "tool_env \<Rightarrow> membership \<Rightarrow> json" where
  "membership_out E m =
     JObj (obj_of
       [(''id'', jnat (mbs_id m)),
        (''user'', nullable (\<lambda>u. principal_out (idn_id u) (te_wrap E ''membership.user.name'' (idn_name u))) (mbs_user m)),
        (''group'', nullable (\<lambda>g. principal_out (idn_id g) (te_wrap E ''membership.group.name'' (idn_name g))) (mbs_group m)),
        (''roles'', jlist (\<lambda>r. principal_out (idn_id r) (idn_name r)) (mbs_roles m))])"

definition list_project_members :: "tool_env \<Rightarrow> project_ref \<Rightarrow> tool_result prog" where
  "list_project_members E project_id =
     or_invalid (resolve_project_ref project_id) (\<lambda>project.
       with_scoped E (ask de_membership_page (list_memberships project) (\<lambda>r. or_fail E r (\<lambda>pg.
         ok_out E (JObj (obj_of
           [(''memberships'', jlist (membership_out E) (pg_items pg)), (''pagination'', pagination_json (from_page pg))]))))))"

definition list_redmine_roles :: "tool_env \<Rightarrow> tool_result prog" where
  "list_redmine_roles E =
     with_scoped E (ask de_roles list_roles (\<lambda>r. or_fail E r (\<lambda>rs.
       ok_out E (JObj (obj_of [(''roles'', jlist (\<lambda>x. principal_out (rol_id x) (rol_name x)) rs)])))))"

definition get_project_modules :: "tool_env \<Rightarrow> project_ref \<Rightarrow> tool_result prog" where
  "get_project_modules E project_id =
     or_invalid (resolve_project_ref project_id) (\<lambda>project.
       with_scoped E (ask de_project (get_project project [EnabledModules]) (\<lambda>r. or_fail E r (\<lambda>p.
         ok_out E (JObj (obj_of
           [(''project_id'', jnat (prj_id p)), (''project_name'', JStr (te_wrap E ''project.name'' (prj_name p))),
            (''enabled_modules'',
             jlist (\<lambda>m. JStr (idn_name m)) (case prj_enabled_modules p of Some ms \<Rightarrow> ms | None \<Rightarrow> []))]))))))"

datatype manage_member_action = MemberAdd | MemberUpdate | MemberRemove

record manage_member_params =
  mm_action :: manage_member_action
  mm_project_id :: "project_ref option"
  mm_membership_id :: "nat option"
  mm_user_id :: "nat option"
  mm_group_id :: "nat option"
  mm_role_ids :: "nat list option"

text \<open>Exactly one of the two principals.\<close>

fun principal_id :: "nat option \<Rightarrow> nat option \<Rightarrow> nat option" where
  "principal_id (Some user_id) None = Some user_id"
| "principal_id None (Some group_id) = Some group_id"
| "principal_id _ _ = None"

definition some_roles :: "nat list option \<Rightarrow> nat list option" where
  "some_roles v = (case v of Some rs \<Rightarrow> if rs = [] then None else Some rs | None \<Rightarrow> None)"

definition member_written :: "tool_env \<Rightarrow> membership option \<Rightarrow> nat option \<Rightarrow> tool_result prog" where
  "member_written E m deleted =
     ok_out E (JObj (obj_of [(''success'', JBool True), (''membership'', nullable (membership_out E) m),
                             (''deleted_membership_id'', nullable jnat deleted)]))"

definition manage_project_member :: "tool_env \<Rightarrow> manage_member_params \<Rightarrow> tool_result prog" where
  "manage_project_member E p =
     with_scoped E
       (case mm_action p of
          MemberAdd \<Rightarrow>
            require (mm_project_id p) (\<lambda>ref. or_invalid (resolve_project_ref ref) (\<lambda>project.
              require (principal_id (mm_user_id p) (mm_group_id p)) (\<lambda>principal.
              require (some_roles (mm_role_ids p)) (\<lambda>role_ids.
                ask de_membership
                  (create_membership project (PMembershipCreate \<lparr>mbc_user_id = principal, mbc_role_ids = role_ids\<rparr>)) (\<lambda>r.
                  or_fail E r (\<lambda>m. member_written E (Some m) None))))))
        | MemberUpdate \<Rightarrow>
            require (mm_membership_id p) (\<lambda>n. require (some_roles (mm_role_ids p)) (\<lambda>role_ids.
              ask de_membership (update_membership n (PMembershipUpdate \<lparr>mbu_role_ids = role_ids\<rparr>)) (\<lambda>r.
                or_fail E r (\<lambda>m. member_written E (Some m) None))))
        | MemberRemove \<Rightarrow>
            require (mm_membership_id p) (\<lambda>n.
              ask de_unit (delete_membership n) (\<lambda>r. or_fail E r (\<lambda>_. member_written E None (Some n)))))"

section \<open>The Gantt projection\<close>

definition clamp_gantt_limit :: "nat option \<Rightarrow> nat" where
  "clamp_gantt_limit limit = max 1 (min 500 (case limit of Some n \<Rightarrow> n | None \<Rightarrow> 100))"

record get_gantt_chart_params =
  gp_project_id :: project_ref
  gp_start_date_after :: "string option"
  gp_due_date_before :: "string option"
  gp_include_closed :: "bool option"
  gp_limit :: "nat option"

definition gantt_issue_out :: "tool_env \<Rightarrow> issue \<Rightarrow> json" where
  "gantt_issue_out E i =
     JObj (obj_of
       [(''id'', jnat (isu_id i)), (''subject'', JStr (te_wrap E ''issue.subject'' (isu_subject i))),
        (''tracker'', JStr (idn_name (isu_tracker i))), (''status'', JStr (idn_name (isu_status i))),
        (''start_date'', nullable JStr (isu_start_date i)), (''due_date'', nullable JStr (isu_due_date i)),
        (''done_ratio'', nullable jnat (isu_done_ratio i)), (''parent_id'', nullable jnat (isu_parent i))])"

definition milestone_out :: "tool_env \<Rightarrow> project_version \<Rightarrow> json" where
  "milestone_out E v =
     JObj (obj_of
       [(''id'', jnat (vsn_id v)), (''name'', JStr (te_wrap E ''version.name'' (vsn_name v))),
        (''due_date'', nullable JStr (vsn_due_date v)), (''status'', JStr (vsn_status v))])"

definition get_gantt_chart :: "tool_env \<Rightarrow> get_gantt_chart_params \<Rightarrow> tool_result prog" where
  "get_gantt_chart E p =
     or_invalid (resolve_project_ref (gp_project_id p)) (\<lambda>project.
       let status = (if gp_include_closed p = Some True then StatusAll else StatusOpen);
           q = (project_query project status)
                 \<lparr>iq_sort := Some ''start_date:asc'',
                  iq_extra := (case gp_due_date_before p of Some d \<Rightarrow> [(''due_date'', ''<='' @ d)] | None \<Rightarrow> []) @
                              (case gp_start_date_after p of Some d \<Rightarrow> [(''start_date'', ''>='' @ d)] | None \<Rightarrow> [])\<rparr>
       in with_scoped E
         (ask de_project (get_project project []) (\<lambda>r1.
          ask de_issue_page (list_issues_page q (clamp_gantt_limit (gp_limit p)) 0) (\<lambda>r2.
          ask de_versions (list_versions project) (\<lambda>r3.
            or_fail E r1 (\<lambda>pr. or_fail E r2 (\<lambda>pg. or_fail E r3 (\<lambda>vs.
              ok_out E (JObj (obj_of
                [(''project_id'', jnat (prj_id pr)), (''project_name'', JStr (te_wrap E ''project.name'' (prj_name pr))),
                 (''issues'', jlist (gantt_issue_out E) (pg_items pg)), (''milestones'', jlist (milestone_out E) vs),
                 (''pagination'', pagination_json (from_page pg))]))))))))))"

section \<open>The breakdowns\<close>

lemma count_name_map:
  "sorted_wrt (<) (map fst m) \<Longrightarrow>
   sorted_wrt (<) (map fst (count_name x m)) \<and> set (map fst (count_name x m)) = insert x (set (map fst m)) \<and>
   map_of (count_name x m) = (map_of m)(x \<mapsto> (case map_of m x of Some n \<Rightarrow> n + 1 | None \<Rightarrow> 1))"
proof (induction m)
  case (Cons yn m)
  obtain y n where yn: "yn = (y, n)" by (cases yn)
  have notin: "map_of m z = None" if "z \<le> y" for z
    using Cons.prems that by (force simp: yn map_of_eq_None_iff)
  consider "x < y" | "x = y" | "y < x" by fastforce
  then show ?case
  proof cases
    case 1
    then show ?thesis using Cons.prems notin [of x] by (auto simp: yn)
  next
    case 2
    then show ?thesis using Cons.prems by (auto simp: yn)
  next
    case 3
    then show ?thesis using Cons.prems Cons.IH by (auto simp: yn fun_eq_iff)
  qed
qed simp

lemma fold_count_name:
  assumes "sorted_wrt (<) (map fst m)"
  shows "sorted_wrt (<) (map fst (fold count_name names m)) \<and>
    map_of (fold count_name names m) x =
      (if count_list names x = 0 then map_of m x else Some (count_list names x + (case map_of m x of Some n \<Rightarrow> n | None \<Rightarrow> 0)))"
  using assms
proof (induction names arbitrary: m)
  case (Cons y names)
  have sw: "sorted_wrt (<) (map fst (count_name y m))"
    and mo: "map_of (count_name y m) x = (if x = y then Some (case map_of m y of Some n \<Rightarrow> n + 1 | None \<Rightarrow> 1) else map_of m x)"
    using count_name_map [OF Cons.prems, of y] by simp_all
  show ?case using Cons.IH [OF sw] unfolding mo by (cases "x = y"; cases "map_of m y") simp_all
qed simp

text \<open>
  C39. A breakdown is exact. For every name among those of the sample there is one entry, with the number of
  its occurrences, and there is no other; the entries come with the counts descending, equal counts by
  name, and the counts add up to the size of the sample.
\<close>

theorem bucket_counts_exact:
  "set (bucket_counts names) = (\<lambda>x. (x, count_list names x)) ` set names \<and> distinct (map fst (bucket_counts names)) \<and>
   sorted (map (\<lambda>(x, n). (- int n, x)) (bucket_counts names)) \<and> sum_list (map snd (bucket_counts names)) = length names"
proof -
  define m where "m = fold count_name names []"
  have sw: "sorted_wrt (<) (map fst m)" and mo: "\<And>x. map_of m x = (if count_list names x = 0 then None else Some (count_list names x))"
    using fold_count_name [of "[]" names] by (auto simp: m_def)
  have d: "distinct (map fst m)" using sw by (simp add: strict_sorted_iff)
  have st: "set m = (\<lambda>x. (x, count_list names x)) ` set names"
  proof -
    have "(x, n) \<in> set m \<longleftrightarrow> x \<in> set names \<and> n = count_list names x" for x n
      unfolding map_of_eq_Some_iff [OF d, symmetric] mo by (auto simp: count_list_0_iff)
    then show ?thesis by auto
  qed
  have p: "mset (bucket_counts names) = mset m" by (simp add: bucket_counts_def m_def)
  then have "set (bucket_counts names) = set m" by (rule mset_eq_setD)
  moreover have "distinct (map fst (bucket_counts names))"
    using d p by (metis mset_eq_imp_distinct_iff mset_map)
  moreover have "sum_list (map snd (bucket_counts names)) = sum_list (map snd m)"
    by (metis mset_map p sum_mset_sum_list)
  moreover have "sum_list (map snd m) = (\<Sum>x \<in> set names. count_list names x)"
  proof -
    have "sum_list (map snd m) = (\<Sum>e \<in> set m. snd e)" using d by (simp add: sum_list_distinct_conv_sum_set distinct_map)
    also have "\<dots> = (\<Sum>x \<in> set names. count_list names x)" by (simp add: st sum.reindex inj_on_def)
    finally show ?thesis .
  qed
  moreover have "(\<Sum>x \<in> set names. count_list names x) = length names" by (rule sum_count_set) simp_all
  moreover have "sorted (map (\<lambda>(x, n). (- int n, x)) (bucket_counts names))" by (simp add: bucket_counts_def)
  ultimately show ?thesis using st by simp
qed

section \<open>The module\<close>

datatype project_call =
    ListRedmineProjects
  | ListProjectIssueCustomFields project_ref "nat option"
  | SummarizeProjectStatus nat "nat option"
  | ListRedmineVersions project_ref "version_status option"
  | ManageRedmineVersion manage_version_params
  | ListProjectMembers project_ref
  | ListRedmineRoles
  | GetProjectModules project_ref
  | ManageProjectMember manage_member_params

fun project_call_name :: "project_call \<Rightarrow> string" where
  "project_call_name ListRedmineProjects = ''list_redmine_projects''"
| "project_call_name (ListProjectIssueCustomFields _ _) = ''list_project_issue_custom_fields''"
| "project_call_name (SummarizeProjectStatus _ _) = ''summarize_project_status''"
| "project_call_name (ListRedmineVersions _ _) = ''list_redmine_versions''"
| "project_call_name (ManageRedmineVersion _) = ''manage_redmine_version''"
| "project_call_name (ListProjectMembers _) = ''list_project_members''"
| "project_call_name ListRedmineRoles = ''list_redmine_roles''"
| "project_call_name (GetProjectModules _) = ''get_project_modules''"
| "project_call_name (ManageProjectMember _) = ''manage_project_member''"

fun project_tool :: "(nat \<Rightarrow> string) \<Rightarrow> tool_env \<Rightarrow> project_call \<Rightarrow> tool_result prog" where
  "project_tool w E ListRedmineProjects = list_redmine_projects E"
| "project_tool w E (ListProjectIssueCustomFields p q) = list_project_issue_custom_fields E p q"
| "project_tool w E (SummarizeProjectStatus p q) = summarize_project_status E w p q"
| "project_tool w E (ListRedmineVersions p q) = list_redmine_versions E p q"
| "project_tool w E (ManageRedmineVersion p) = manage_redmine_version E p"
| "project_tool w E (ListProjectMembers p) = list_project_members E p"
| "project_tool w E ListRedmineRoles = list_redmine_roles E"
| "project_tool w E (GetProjectModules p) = get_project_modules E p"
| "project_tool w E (ManageProjectMember p) = manage_project_member E p"

definition project_router :: "(nat \<Rightarrow> string, project_call) router" where
  "project_router =
     \<lparr>rt_tool = project_tool, rt_name = project_call_name, rt_action = (\<lambda>_. None), rt_names = projects_tools, rt_sound = (\<lambda>_ _ _. True)\<rparr>"

definition gantt_router :: "(unit, get_gantt_chart_params) router" where
  "gantt_router =
     \<lparr>rt_tool = (\<lambda>_ E p. get_gantt_chart E p), rt_name = (\<lambda>_. ''get_gantt_chart''), rt_action = (\<lambda>_. None),
      rt_names = gantt_tools, rt_sound = (\<lambda>_ _ _. True)\<rparr>"

lemma project_reads:
  "calls_ok (list_redmine_projects E) op_reads" "calls_ok (list_project_issue_custom_fields E ref tracker) op_reads"
  "calls_ok (summarize_project_status E ago n days) op_reads" "calls_ok (list_redmine_versions E ref st) op_reads"
  "calls_ok (list_project_members E ref) op_reads" "calls_ok (list_redmine_roles E) op_reads"
  "calls_ok (get_project_modules E ref) op_reads"
  by (auto simp: list_redmine_projects_def list_project_issue_custom_fields_def summarize_project_status_def
      list_redmine_versions_def list_project_members_def list_redmine_roles_def get_project_modules_def Let_def
      intro!: calls_okI calls_ok_or_forbidden)

lemma calls_ok_written [simp]: "calls_ok (version_written E v d) P" "calls_ok (member_written E m d) P"
  by (simp_all add: version_written_def member_written_def)

lemma project_listing_stays:
  "calls_ok (list_redmine_projects E) paths_ok" "calls_ok (list_project_issue_custom_fields E ref tracker) paths_ok"
  "calls_ok (summarize_project_status E ago n days) paths_ok" "calls_ok (list_redmine_versions E ref st) paths_ok"
  "calls_ok (list_project_members E ref) paths_ok" "calls_ok (list_redmine_roles E) paths_ok"
  "calls_ok (get_project_modules E ref) paths_ok"
  by (auto simp: list_redmine_projects_def list_project_issue_custom_fields_def summarize_project_status_def
      list_redmine_versions_def list_project_members_def list_redmine_roles_def get_project_modules_def Let_def
      dest: resolve_project_ref_wf intro!: calls_okI calls_ok_or_forbidden routes)

lemma project_managing_stays:
  "calls_ok (manage_redmine_version E vp) paths_ok" "calls_ok (manage_project_member E mp) paths_ok"
  by (auto simp: manage_redmine_version_def manage_project_member_def dest: resolve_project_ref_wf
      intro!: calls_okI routes split: manage_version_action.split manage_member_action.split)

lemmas project_stays = project_listing_stays project_managing_stays

interpretation project_module: tool_router project_router
proof unfold_locales
  fix c :: project_call and w E
  show "rt_name project_router c \<in> set (rt_names project_router)"
    by (cases c) (simp_all add: project_router_def tool_lists)
  show "covered (rt_name project_router c) (rt_action project_router c)"
    by (cases c) (simp_all add: project_router_def covered_def TOOL_SCOPES_def)
  show reads: "calls_ok (rt_tool project_router w E c) op_reads"
    if "reading (rt_name project_router c) (rt_action project_router c)"
    using that by (cases c) (simp_all add: project_router_def reading_def write_tools_all_def project_reads)
  show "calls_ok (rt_tool project_router w E c) op_reads"
    if "co_read_only (te_config E)" "rt_name project_router c \<notin> set write_tools_all"
    using that reads by (cases c) (simp_all add: project_router_def reading_def PARTIAL_WRITE_def)
  show "calls_ok (rt_tool project_router w E c) paths_ok" if "rt_sound project_router w E c"
    by (cases c) (simp_all add: project_router_def project_stays)
qed

interpretation gantt_module: tool_router gantt_router
  by unfold_locales
    (auto simp: gantt_router_def get_gantt_chart_def tool_lists covered_def TOOL_SCOPES_def Let_def dest: resolve_project_ref_wf intro!: calls_okI routes)

end
