(* ===== verification/Checklist_Tools.thy ===== *)
theory Checklist_Tools
  imports Issue_Output
begin

text \<open>
  The checklist tools (\<^verbatim>\<open>tools/plugins/checklists.rs\<close>). The arguments are checked before the credential is
  looked up.
\<close>

definition checklist_item_out :: "tool_env \<Rightarrow> checklist_item \<Rightarrow> json" where
  "checklist_item_out E i =
     JObj (obj_of
       [(''id'', jnat (cki_id i)), (''subject'', JStr (te_wrap E ''checklist_item.subject'' (cki_subject i))),
        (''is_done'', nullable JBool (cki_is_done i)), (''is_section'', nullable JBool (cki_is_section i)),
        (''position'', nullable jnat (cki_position i)), (''created_on'', nullable JStr (cki_created_at i)),
        (''updated_on'', nullable JStr (cki_updated_at i))])"

definition get_checklist :: "tool_env \<Rightarrow> nat \<Rightarrow> tool_result prog" where
  "get_checklist E issue_id =
     with_scoped E (ask de_checklist (list_checklist_items issue_id) (\<lambda>r. or_fail E r (\<lambda>items.
       ok_out E (JObj (obj_of
         [(''issue_id'', jnat issue_id), (''total_count'', jnat (length items)),
          (''items'', jlist (checklist_item_out E) items)])))))"

record create_checklist_item_params =
  cc_issue_id :: nat
  cc_subject :: string
  cc_is_section :: "bool option"
  cc_is_done :: "bool option"
  cc_position :: "nat option"

definition create_checklist_item_tool :: "tool_env \<Rightarrow> create_checklist_item_params \<Rightarrow> tool_result prog" where
  "create_checklist_item_tool E p =
     (if blank_text E (cc_subject p) then invalid_params
      else if cc_position p = Some 0 then invalid_params
      else
        (let is_section = (case cc_is_section p of Some b \<Rightarrow> b | None \<Rightarrow> False);
             is_done = (case cc_is_done p of Some b \<Rightarrow> b | None \<Rightarrow> False)
         in with_scoped E
              (ask de_checklist_created
                 (create_checklist_item (cc_issue_id p)
                    (PChecklistCreate \<lparr>ckc_subject = cc_subject p, ckc_is_section = Some is_section,
                                       ckc_is_done = Some is_done, ckc_position = cc_position p\<rparr>))
                 (\<lambda>r. or_fail E r (\<lambda>item.
                    ok_out E (JObj (obj_of
                      [(''success'', JBool True), (''issue_id'', jnat (cc_issue_id p)),
                       (''checklist_item_id'', nullable jnat item),
                       (''subject'', JStr (te_wrap E ''checklist_item.subject'' (cc_subject p))),
                       (''is_section'', JBool is_section), (''is_done'', JBool is_done),
                       (''position'', nullable jnat (cc_position p))])))))))"

record update_checklist_item_params =
  uc_checklist_item_id :: nat
  uc_subject :: "string option"
  uc_is_done :: "bool option"
  uc_position :: "nat option"

text \<open>The names of the fields that a call gives, in the order in which the code pushes them.\<close>

definition updated_fields :: "(string \<times> bool) list \<Rightarrow> string list" where
  "updated_fields fs = map fst (filter snd fs)"

definition checklist_updated_fields :: "update_checklist_item_params \<Rightarrow> string list" where
  "checklist_updated_fields p =
     updated_fields [(''subject'', uc_subject p \<noteq> None), (''is_done'', uc_is_done p \<noteq> None), (''position'', uc_position p \<noteq> None)]"

definition given_blank :: "tool_env \<Rightarrow> string option \<Rightarrow> bool" where
  "given_blank E s = (case s of Some x \<Rightarrow> blank_text E x | None \<Rightarrow> False)"

definition update_checklist_item_tool :: "tool_env \<Rightarrow> update_checklist_item_params \<Rightarrow> tool_result prog" where
  "update_checklist_item_tool E p =
     (if given_blank E (uc_subject p) then invalid_params
      else if uc_position p = Some 0 then invalid_params
      else if checklist_updated_fields p = [] then invalid_params
      else
        with_scoped E
          (ask de_unit
             (update_checklist_item (uc_checklist_item_id p)
                (PChecklistUpdate \<lparr>cku_subject = uc_subject p, cku_is_done = uc_is_done p, cku_position = uc_position p\<rparr>))
             (\<lambda>r. or_fail E r (\<lambda>_.
                ok_out E (JObj (obj_of
                  [(''success'', JBool True), (''checklist_item_id'', jnat (uc_checklist_item_id p)),
                   (''updated_fields'', jlist JStr (checklist_updated_fields p))]))))))"

section \<open>The module\<close>

datatype checklist_call =
    GetChecklist nat
  | CreateChecklistItem create_checklist_item_params
  | UpdateChecklistItem update_checklist_item_params

fun checklist_call_name :: "checklist_call \<Rightarrow> string" where
  "checklist_call_name (GetChecklist _) = ''get_checklist''"
| "checklist_call_name (CreateChecklistItem _) = ''create_checklist_item''"
| "checklist_call_name (UpdateChecklistItem _) = ''update_checklist_item''"

fun checklist_tool :: "unit \<Rightarrow> tool_env \<Rightarrow> checklist_call \<Rightarrow> tool_result prog" where
  "checklist_tool w E (GetChecklist p) = get_checklist E p"
| "checklist_tool w E (CreateChecklistItem p) = create_checklist_item_tool E p"
| "checklist_tool w E (UpdateChecklistItem p) = update_checklist_item_tool E p"

definition checklist_router :: "(unit, checklist_call) router" where
  "checklist_router =
     \<lparr>rt_tool = checklist_tool, rt_name = checklist_call_name, rt_action = (\<lambda>_. None), rt_names = checklists_tools, rt_sound = (\<lambda>_ _ _. True)\<rparr>"

lemma checklist_reads: "calls_ok (get_checklist E n) op_reads"
  by (auto simp: get_checklist_def intro!: calls_okI)

lemma checklist_stays:
  "calls_ok (get_checklist E n) paths_ok" "calls_ok (create_checklist_item_tool E cp) paths_ok"
  "calls_ok (update_checklist_item_tool E up) paths_ok"
  by (auto simp: get_checklist_def create_checklist_item_tool_def update_checklist_item_tool_def Let_def
      intro!: calls_okI routes)

interpretation checklist_module: tool_router checklist_router
proof unfold_locales
  fix c :: checklist_call and w E
  show "rt_name checklist_router c \<in> set (rt_names checklist_router)"
    by (cases c) (simp_all add: checklist_router_def tool_lists)
  show "covered (rt_name checklist_router c) (rt_action checklist_router c)"
    by (cases c) (simp_all add: checklist_router_def covered_def TOOL_SCOPES_def)
  show reads: "calls_ok (rt_tool checklist_router w E c) op_reads"
    if "reading (rt_name checklist_router c) (rt_action checklist_router c)"
    using that by (cases c) (simp_all add: checklist_router_def reading_def write_tools_all_def checklist_reads)
  show "calls_ok (rt_tool checklist_router w E c) op_reads"
    if "co_read_only (te_config E)" "rt_name checklist_router c \<notin> set write_tools_all"
    using that reads by (cases c) (simp_all add: checklist_router_def reading_def PARTIAL_WRITE_def)
  show "calls_ok (rt_tool checklist_router w E c) paths_ok" if "rt_sound checklist_router w E c"
    by (cases c) (simp_all add: checklist_router_def checklist_stays)
qed

end
