(* ===== verification/Product_Tools.thy ===== *)
theory Product_Tools
  imports Checklist_Tools
begin

text \<open>
  The product tool (\<^verbatim>\<open>tools/plugins/products.rs\<close>). The plugin has no deletion. A project is named by any
  identifier for a listing, but a new product takes a number only.
\<close>

definition quoted :: "string \<Rightarrow> string" where
  "quoted s = [char_of (34 :: nat)] @ s @ [char_of (34 :: nat)]"

text \<open>The refusal of the plugin tools that list and get; they differ in their name only.\<close>

definition plugin_refusal :: "string \<Rightarrow> string \<Rightarrow> tool_result prog" where
  "plugin_refusal tool action =
     err_out CReadOnly
       (''this server is running in read-only mode; '' @ tool @ ''(action='' @ quoted action @ '') is disabled'')
       (Some (''use action='' @ quoted ''list'' @ '' or action='' @ quoted ''get'' @
              '' instead, or ask the operator to disable read-only mode''))"

definition clamp_plugin_limit :: "nat option \<Rightarrow> nat" where
  "clamp_plugin_limit limit = max 1 (min 100 (case limit of Some n \<Rightarrow> n | None \<Rightarrow> 100))"

definition product_out :: "tool_env \<Rightarrow> product \<Rightarrow> json" where
  "product_out E p =
     JObj (obj_of
       [(''id'', jnat (pdt_id p)), (''name'', JStr (te_wrap E ''product.name'' (pdt_name p))),
        (''description'', nullable (\<lambda>d. JStr (te_wrap E ''product.description'' d)) (pdt_description p)),
        (''code'', nullable (\<lambda>c. JStr (te_wrap E ''product.code'' c)) (pdt_code p)),
        (''price'', nullable JFloat (pdt_price p)), (''currency'', nullable JStr (pdt_currency p)),
        (''status_id'', nullable jnat (pdt_status_id p)), (''category_id'', nullable jnat (pdt_category_id p)),
        (''project_id'', nullable jnat (pdt_project_id p)),
        (''tag_list'', nullable (jlist (\<lambda>t. JStr (te_wrap E ''product.tag'' t))) (pdt_tag_list p)),
        (''custom_fields'',
         nullable (jlist (\<lambda>c. custom_field_value_out E (cfd_id c) (cfd_name c) (cfd_value c))) (pdt_custom_fields p)),
        (''created_on'', nullable JStr (pdt_created_on p)), (''updated_on'', nullable JStr (pdt_updated_on p))])"

datatype manage_product_action = ProductList | ProductGet | ProductCreate | ProductUpdate

fun product_action_str :: "manage_product_action \<Rightarrow> string" where
  "product_action_str ProductList = ''list''"
| "product_action_str ProductGet = ''get''"
| "product_action_str ProductCreate = ''create''"
| "product_action_str ProductUpdate = ''update''"

record manage_product_params =
  pp_action :: manage_product_action
  pp_project_id :: "project_ref option"
  pp_limit :: "nat option"
  pp_offset :: "nat option"
  pp_product_id :: "nat option"
  pp_name :: "string option"
  pp_description :: "string option"
  pp_code :: "string option"
  pp_price :: "rat option"
  pp_currency :: "string option"
  pp_status_id :: "nat option"
  pp_category_id :: "nat option"
  pp_tag_list :: "string list option"
  pp_custom_fields :: "custom_field_entry list option"

text \<open>\<^verbatim>\<open>ManageProductOutput\<close>: fields that are not set are \<^verbatim>\<open>null\<close>.\<close>

definition product_answer ::
    "tool_env \<Rightarrow> product page option \<Rightarrow> product option \<Rightarrow> string list option \<Rightarrow> tool_result prog" where
  "product_answer E pg p fs =
     ok_out E (JObj (obj_of
       [(''success'', JBool True), (''products'', nullable (\<lambda>g. jlist (product_out E) (pg_items g)) pg),
        (''pagination'', nullable (\<lambda>g. pagination_json (from_page g)) pg), (''product'', nullable (product_out E) p),
        (''updated_fields'', nullable (jlist JStr) fs)]))"

definition validate_status_id :: "nat option \<Rightarrow> mcp_error + unit" where
  "validate_status_id s = (case s of None \<Rightarrow> Inr () | Some n \<Rightarrow> if n = 1 \<or> n = 2 then Inr () else Inl InvalidParams)"

definition product_write_of :: "manage_product_params \<Rightarrow> nat option \<Rightarrow> product_write" where
  "product_write_of p project =
     \<lparr>pdw_name = pp_name p, pdw_description = pp_description p, pdw_code = pp_code p, pdw_price = pp_price p,
      pdw_currency = pp_currency p, pdw_status_id = pp_status_id p, pdw_category_id = pp_category_id p,
      pdw_project_id = project, pdw_tag_list = pp_tag_list p,
      pdw_custom_fields = map_option custom_field_entries_to_write (pp_custom_fields p)\<rparr>"

text \<open>The numeric project of a new product, if it has one; a slug is an error.\<close>

definition numeric_project :: "project_ident option \<Rightarrow> mcp_error + nat option" where
  "numeric_project po =
     (case po of None \<Rightarrow> Inr None | Some (ProjectId n) \<Rightarrow> Inr (Some n) | Some (Identifier _) \<Rightarrow> Inl InvalidParams)"

definition product_create :: "tool_env \<Rightarrow> manage_product_params \<Rightarrow> tool_result prog" where
  "product_create E p =
     (if co_read_only (te_config E) then plugin_refusal ''manage_product'' (product_action_str (pp_action p))
      else require (pp_name p) (\<lambda>name.
        if blank_text E name then invalid_params
        else or_invalid (validate_status_id (pp_status_id p)) (\<lambda>_.
          or_invalid (transposed resolve_project_ref (pp_project_id p)) (\<lambda>po.
            or_invalid (numeric_project po) (\<lambda>project.
              ask de_product (create_product (PProduct (product_write_of p project))) (\<lambda>r. or_fail E r (\<lambda>made.
                product_answer E None (Some made) None)))))))"

definition product_updated_fields :: "manage_product_params \<Rightarrow> string list" where
  "product_updated_fields p =
     updated_fields
       [(''name'', pp_name p \<noteq> None), (''description'', pp_description p \<noteq> None), (''code'', pp_code p \<noteq> None),
        (''price'', pp_price p \<noteq> None), (''currency'', pp_currency p \<noteq> None), (''status_id'', pp_status_id p \<noteq> None),
        (''category_id'', pp_category_id p \<noteq> None), (''tag_list'', pp_tag_list p \<noteq> None),
        (''custom_fields'', pp_custom_fields p \<noteq> None)]"

definition product_update :: "tool_env \<Rightarrow> manage_product_params \<Rightarrow> tool_result prog" where
  "product_update E p =
     (if co_read_only (te_config E) then plugin_refusal ''manage_product'' (product_action_str (pp_action p))
      else require (pp_product_id p) (\<lambda>n.
        if given_blank E (pp_name p) then invalid_params
        else or_invalid (validate_status_id (pp_status_id p)) (\<lambda>_.
          if product_updated_fields p = [] then invalid_params
          else
            ask de_product (update_product n (PProduct (product_write_of p None))) (\<lambda>r. or_fail E r (\<lambda>made.
              product_answer E None (Some made) (Some (product_updated_fields p)))))))"

definition manage_product :: "tool_env \<Rightarrow> manage_product_params \<Rightarrow> tool_result prog" where
  "manage_product E p =
     with_scoped E
       (case pp_action p of
          ProductList \<Rightarrow>
            or_invalid (transposed resolve_project_ref (pp_project_id p)) (\<lambda>po.
              ask de_product_page
                (list_products po (clamp_plugin_limit (pp_limit p)) (case pp_offset p of Some n \<Rightarrow> n | None \<Rightarrow> 0))
                (\<lambda>r. or_fail E r (\<lambda>pg. product_answer E (Some pg) None None)))
        | ProductGet \<Rightarrow>
            require (pp_product_id p) (\<lambda>n.
              ask de_product (get_product n) (\<lambda>r. or_fail E r (\<lambda>got. product_answer E None (Some got) None)))
        | ProductCreate \<Rightarrow> product_create E p
        | ProductUpdate \<Rightarrow> product_update E p)"

section \<open>The module\<close>

definition product_router :: "(unit, manage_product_params) router" where
  "product_router =
     \<lparr>rt_tool = (\<lambda>_. manage_product), rt_name = (\<lambda>_. ''manage_product''),
      rt_action = (\<lambda>p. Some (product_action_str (pp_action p))), rt_names = products_tools, rt_sound = (\<lambda>_ _ _. True)\<rparr>"

lemma calls_ok_product [simp]: "calls_ok (plugin_refusal tool a) P" "calls_ok (product_answer E pg p fs) P"
  by (simp_all add: plugin_refusal_def product_answer_def)

lemma transposed_wf: "transposed resolve_project_ref v = Inr po \<Longrightarrow> pred_option wf_ident po"
  by (auto simp: transposed_def dest: resolve_project_ref_wf split: option.splits sum.splits)

lemma product_reads:
  assumes "co_read_only (te_config E) \<or> pp_action p \<in> {ProductList, ProductGet}"
  shows "calls_ok (manage_product E p) op_reads"
  using assms
  by (auto simp: manage_product_def product_create_def product_update_def intro!: calls_okI split: manage_product_action.split)

lemma product_stays: "calls_ok (manage_product E p) paths_ok"
  by (auto simp: manage_product_def product_create_def product_update_def dest: transposed_wf
      intro!: calls_okI routes split: manage_product_action.split)

lemma product_action_reading: "product_action_str a \<in> {''list'', ''get''} \<longleftrightarrow> a \<in> {ProductList, ProductGet}"
  by (cases a) simp_all

interpretation product_module: tool_router product_router
proof unfold_locales
  fix c :: manage_product_params and w E
  show "calls_ok (rt_tool product_router w E c) op_reads"
    if "reading (rt_name product_router c) (rt_action product_router c)"
    using that product_action_reading by (auto simp: product_router_def reading_def PARTIAL_WRITE_def intro!: product_reads)
  show "calls_ok (rt_tool product_router w E c) op_reads" if "co_read_only (te_config E)"
    using that by (simp add: product_router_def product_reads)
qed (simp_all add: product_router_def tool_lists covered_def TOOL_SCOPES_def product_stays)

end
