(* ===== verification/Contact_Tools.thy ===== *)
theory Contact_Tools
  imports Product_Tools
begin

text \<open>
  The contact tool (\<^verbatim>\<open>tools/plugins/crm.rs\<close>). What a member of a project may have written is wrapped; the
  ways to reach a person are given back as they are.
\<close>

definition contact_address_out :: "contact_address \<Rightarrow> json" where
  "contact_address_out a =
     JObj (obj_of
       [(''street1'', nullable JStr (cad_street1 a)),
        (''street2'', nullable JStr (cad_street2 a)),
        (''city'', nullable JStr (cad_city a)),
        (''region'', nullable JStr (cad_region a)),
        (''country'', nullable JStr (cad_country a)),
        (''postcode'', nullable JStr (cad_postcode a))])"

definition contact_out :: "tool_env \<Rightarrow> contact \<Rightarrow> json" where
  "contact_out E c =
     JObj (obj_of
       [(''id'', jnat (cnt_id c)),
        (''first_name'', nullable (\<lambda>s. JStr (te_wrap E ''contact.first_name'' s)) (cnt_first_name c)),
        (''last_name'', nullable (\<lambda>s. JStr (te_wrap E ''contact.last_name'' s)) (cnt_last_name c)),
        (''middle_name'', nullable (\<lambda>s. JStr (te_wrap E ''contact.middle_name'' s)) (cnt_middle_name c)),
        (''company'', nullable (\<lambda>s. JStr (te_wrap E ''contact.company'' s)) (cnt_company c)),
        (''job_title'', nullable (\<lambda>s. JStr (te_wrap E ''contact.job_title'' s)) (cnt_job_title c)),
        (''phone'', nullable JStr (cnt_phone c)),
        (''email'', nullable JStr (cnt_email c)),
        (''website'', nullable JStr (cnt_website c)),
        (''skype_name'', nullable JStr (cnt_skype_name c)),
        (''birthday'', nullable JStr (cnt_birthday c)),
        (''background'', nullable (\<lambda>s. JStr (te_wrap E ''contact.background'' s)) (cnt_background c)),
        (''address'', nullable contact_address_out (cnt_address c)),
        (''is_company'', nullable JBool (cnt_is_company c)),
        (''tags'', nullable (jlist (\<lambda>t. JStr (te_wrap E ''contact.tag'' t))) (cnt_tags c)),
        (''visibility'', nullable jnat (cnt_visibility c)),
        (''assigned_to'', nullable (id_name_out E ''contact.assigned_to.name'') (cnt_assigned_to c)),
        (''created_on'', nullable JStr (cnt_created_on c)), (''updated_on'', nullable JStr (cnt_updated_on c))])"

datatype manage_contact_action =
    ContactList
  | ContactGet
  | ContactCreate
  | ContactUpdate
  | ContactDelete
  | ContactAssign
  | ContactRemove

fun contact_action_str :: "manage_contact_action \<Rightarrow> string" where
  "contact_action_str ContactList = ''list''"
| "contact_action_str ContactGet = ''get''"
| "contact_action_str ContactCreate = ''create''"
| "contact_action_str ContactUpdate = ''update''"
| "contact_action_str ContactDelete = ''delete''"
| "contact_action_str ContactAssign = ''assign_to_project''"
| "contact_action_str ContactRemove = ''remove_from_project''"

record contact_address_params =
  ap_street1 :: "string option"
  ap_street2 :: "string option"
  ap_city :: "string option"
  ap_region :: "string option"
  ap_country :: "string option"
  ap_postcode :: "string option"

text \<open>The include values of the parameters are those of the client, one by one.\<close>

record manage_contact_params =
  mcon_action :: manage_contact_action
  mcon_project_id :: "project_ref option"
  mcon_search :: "string option"
  mcon_tags :: "string option"
  mcon_assigned_to_id :: "nat option"
  mcon_limit :: "nat option"
  mcon_offset :: "nat option"
  mcon_contact_id :: "nat option"
  mcon_include :: "contact_include list option"
  mcon_first_name :: "string option"
  mcon_last_name :: "string option"
  mcon_middle_name :: "string option"
  mcon_company :: "string option"
  mcon_job_title :: "string option"
  mcon_phone :: "string option"
  mcon_email :: "string option"
  mcon_website :: "string option"
  mcon_skype_name :: "string option"
  mcon_birthday :: "string option"
  mcon_background :: "string option"
  mcon_address :: "contact_address_params option"
  mcon_is_company :: "bool option"
  mcon_visibility :: "nat option"

definition address_into :: "contact_address_params \<Rightarrow> contact_address_write" where
  "address_into a =
     \<lparr>caw_street1 = ap_street1 a, caw_street2 = ap_street2 a, caw_city = ap_city a,
      caw_region = ap_region a, caw_country = ap_country a, caw_postcode = ap_postcode a\<rparr>"

definition validate_visibility :: "nat option \<Rightarrow> mcp_error + unit" where
  "validate_visibility v = (case v of None \<Rightarrow> Inr () | Some n \<Rightarrow> if n \<le> 2 then Inr () else Inl InvalidParams)"

text \<open>\<^verbatim>\<open>ManageContactOutput\<close>: fields that are not set are \<^verbatim>\<open>null\<close>.\<close>

record contact_answer_parts =
  cp_page :: "contact page option"
  cp_contact :: "contact option"
  cp_updated_fields :: "string list option"
  cp_deleted_contact_id :: "nat option"
  cp_message :: "string option"

definition contact_nothing :: contact_answer_parts where
  "contact_nothing =
     \<lparr>cp_page = None, cp_contact = None, cp_updated_fields = None, cp_deleted_contact_id = None, cp_message = None\<rparr>"

definition contact_answer :: "tool_env \<Rightarrow> contact_answer_parts \<Rightarrow> tool_result prog" where
  "contact_answer E a =
     ok_out E (JObj (obj_of
       [(''success'', JBool True), (''contacts'', nullable (\<lambda>g. jlist (contact_out E) (pg_items g)) (cp_page a)),
        (''pagination'', nullable (\<lambda>g. pagination_json (from_page g)) (cp_page a)),
        (''contact'', nullable (contact_out E) (cp_contact a)),
        (''updated_fields'', nullable (jlist JStr) (cp_updated_fields a)),
        (''deleted_contact_id'', nullable jnat (cp_deleted_contact_id a)), (''message'', nullable JStr (cp_message a))]))"

definition require_contact_project ::
    "manage_contact_params \<Rightarrow> (project_ident \<Rightarrow> tool_result prog) \<Rightarrow> tool_result prog" where
  "require_contact_project p k = require (mcon_project_id p) (\<lambda>ref. or_invalid (resolve_project_ref ref) k)"

text \<open>The payload of a creation and of an update, which differ in the project.\<close>

definition contact_write_of :: "manage_contact_params \<Rightarrow> project_ident option \<Rightarrow> contact_write" where
  "contact_write_of p project =
     \<lparr>cnw_first_name = mcon_first_name p, cnw_last_name = mcon_last_name p, cnw_middle_name = mcon_middle_name p,
      cnw_company = mcon_company p, cnw_job_title = mcon_job_title p, cnw_phone = mcon_phone p,
      cnw_email = mcon_email p, cnw_website = mcon_website p, cnw_skype_name = mcon_skype_name p,
      cnw_birthday = mcon_birthday p, cnw_background = mcon_background p,
      cnw_address_attributes = map_option address_into (mcon_address p), cnw_is_company = mcon_is_company p,
      cnw_visibility = mcon_visibility p, cnw_assigned_to_id = mcon_assigned_to_id p, cnw_project_id = project\<rparr>"

definition contact_create :: "tool_env \<Rightarrow> manage_contact_params \<Rightarrow> tool_result prog" where
  "contact_create E p =
     require (mcon_first_name p) (\<lambda>first_name.
       if blank_text E first_name then invalid_params
       else or_invalid (validate_visibility (mcon_visibility p)) (\<lambda>_.
         require_contact_project p (\<lambda>project.
           ask de_contact (create_contact (PContact (contact_write_of p (Some project)))) (\<lambda>r. or_fail E r (\<lambda>made.
             contact_answer E (contact_nothing\<lparr>cp_contact := Some made\<rparr>))))))"

definition contact_updated_fields :: "manage_contact_params \<Rightarrow> string list" where
  "contact_updated_fields p =
     updated_fields
       [(''first_name'', mcon_first_name p \<noteq> None),
        (''last_name'', mcon_last_name p \<noteq> None),
        (''middle_name'', mcon_middle_name p \<noteq> None),
        (''company'', mcon_company p \<noteq> None),
        (''job_title'', mcon_job_title p \<noteq> None),
        (''phone'', mcon_phone p \<noteq> None),
        (''email'', mcon_email p \<noteq> None),
        (''website'', mcon_website p \<noteq> None),
        (''skype_name'', mcon_skype_name p \<noteq> None),
        (''birthday'', mcon_birthday p \<noteq> None),
        (''background'', mcon_background p \<noteq> None),
        (''address'', mcon_address p \<noteq> None),
        (''is_company'', mcon_is_company p \<noteq> None),
        (''visibility'', mcon_visibility p \<noteq> None),
        (''assigned_to_id'', mcon_assigned_to_id p \<noteq> None)]"

definition contact_update :: "tool_env \<Rightarrow> manage_contact_params \<Rightarrow> tool_result prog" where
  "contact_update E p =
     require (mcon_contact_id p) (\<lambda>n.
       if given_blank E (mcon_first_name p) then invalid_params
       else or_invalid (validate_visibility (mcon_visibility p)) (\<lambda>_.
         if contact_updated_fields p = [] then invalid_params
         else
           ask de_contact (update_contact n (PContact (contact_write_of p None))) (\<lambda>r. or_fail E r (\<lambda>made.
             contact_answer E (contact_nothing\<lparr>cp_contact := Some made, cp_updated_fields := Some (contact_updated_fields p)\<rparr>)))))"

text \<open>The five actions that write, after the refusal on a read-only server.\<close>

definition contact_writes :: "tool_env \<Rightarrow> manage_contact_params \<Rightarrow> tool_result prog" where
  "contact_writes E p =
     (case mcon_action p of
        ContactCreate \<Rightarrow> contact_create E p
      | ContactUpdate \<Rightarrow> contact_update E p
      | ContactDelete \<Rightarrow>
          require (mcon_contact_id p) (\<lambda>n.
            ask de_unit (delete_contact n) (\<lambda>r. or_fail E r (\<lambda>_.
              contact_answer E (contact_nothing\<lparr>cp_deleted_contact_id := Some n\<rparr>))))
      | ContactAssign \<Rightarrow>
          require (mcon_contact_id p) (\<lambda>n. require_contact_project p (\<lambda>project.
            ask de_unit (assign_contact_to_project n (PProjectAssoc project)) (\<lambda>r. or_fail E r (\<lambda>_.
              contact_answer E (contact_nothing\<lparr>cp_message :=
                Some ''the contact was associated with the project; it was not created by this call''\<rparr>)))))
      | ContactRemove \<Rightarrow>
          require (mcon_contact_id p) (\<lambda>n. require_contact_project p (\<lambda>project.
            ask de_unit (remove_contact_from_project n project) (\<lambda>r. or_fail E r (\<lambda>_.
              contact_answer E (contact_nothing\<lparr>cp_message :=
                Some ''the contact's association with the project was removed; the contact itself was not deleted''\<rparr>)))))
      | _ \<Rightarrow> invalid_params)"

definition manage_contact :: "tool_env \<Rightarrow> manage_contact_params \<Rightarrow> tool_result prog" where
  "manage_contact E p =
     with_scoped E
       (case mcon_action p of
          ContactList \<Rightarrow>
            or_invalid (transposed resolve_project_ref (mcon_project_id p)) (\<lambda>po.
              ask de_contact_page
                (list_contacts
                   \<lparr>cq_project_id = po, cq_search = mcon_search p, cq_tags = mcon_tags p, cq_assigned_to_id = mcon_assigned_to_id p\<rparr>
                   (clamp_plugin_limit (mcon_limit p)) (case mcon_offset p of Some n \<Rightarrow> n | None \<Rightarrow> 0))
                (\<lambda>r. or_fail E r (\<lambda>pg. contact_answer E (contact_nothing\<lparr>cp_page := Some pg\<rparr>))))
        | ContactGet \<Rightarrow>
            require (mcon_contact_id p) (\<lambda>n.
              ask de_contact (get_contact n (case mcon_include p of Some inc \<Rightarrow> inc | None \<Rightarrow> [])) (\<lambda>r. or_fail E r (\<lambda>got.
                contact_answer E (contact_nothing\<lparr>cp_contact := Some got\<rparr>))))
        | _ \<Rightarrow>
            if co_read_only (te_config E) then plugin_refusal ''manage_contact'' (contact_action_str (mcon_action p))
            else contact_writes E p)"

section \<open>The module\<close>

definition contact_router :: "(unit, manage_contact_params) router" where
  "contact_router =
     \<lparr>rt_tool = (\<lambda>_. manage_contact), rt_name = (\<lambda>_. ''manage_contact''),
      rt_action = (\<lambda>p. Some (contact_action_str (mcon_action p))), rt_names = crm_tools, rt_sound = (\<lambda>_ _ _. True)\<rparr>"

lemma calls_ok_contact [simp]: "calls_ok (contact_answer E a) P"
  by (simp add: contact_answer_def)

lemma calls_ok_contact_project:
  "(\<And>project. wf_ident project \<Longrightarrow> calls_ok (k project) P) \<Longrightarrow> calls_ok (require_contact_project p k) P"
  by (auto simp: require_contact_project_def dest: resolve_project_ref_wf intro!: calls_okI)

lemma contact_reads:
  assumes "co_read_only (te_config E) \<or> mcon_action p \<in> {ContactList, ContactGet}"
  shows "calls_ok (manage_contact E p) op_reads"
  using assms by (auto simp: manage_contact_def intro!: calls_okI split: manage_contact_action.split)

lemma contact_writes_stay: "calls_ok (contact_writes E p) paths_ok"
  by (auto simp: contact_writes_def contact_create_def contact_update_def
      intro!: calls_okI calls_ok_contact_project routes split: manage_contact_action.split)

lemma contact_stays: "calls_ok (manage_contact E p) paths_ok"
  by (auto simp: manage_contact_def intro!: calls_okI contact_writes_stay routes split: manage_contact_action.split)

lemma contact_action_reading: "contact_action_str a \<in> {''list'', ''get''} \<longleftrightarrow> a \<in> {ContactList, ContactGet}"
  by (cases a) simp_all

interpretation contact_module: tool_router contact_router
proof unfold_locales
  fix c :: manage_contact_params and w E
  show "calls_ok (rt_tool contact_router w E c) op_reads"
    if "reading (rt_name contact_router c) (rt_action contact_router c)"
    using that contact_action_reading by (auto simp: contact_router_def reading_def PARTIAL_WRITE_def intro!: contact_reads)
  show "calls_ok (rt_tool contact_router w E c) op_reads" if "co_read_only (te_config E)"
    using that by (simp add: contact_router_def contact_reads)
qed (simp_all add: contact_router_def tool_lists covered_def TOOL_SCOPES_def contact_stays)

end
