(* ===== verification/File_Tools.thy ===== *)
theory File_Tools
  imports Issue_Output Upload_Source Attachments
begin

text \<open>
  The file tools (\<^verbatim>\<open>tools/files.rs\<close>): the Files module of a project, deletion of attachments, uploads, the
  download into the local store, whose steps are those of \<open>Attachments\<close>, and the sweep on demand.
\<close>

section \<open>Downloading\<close>

definition file_too_large :: "nat \<Rightarrow> nat option \<Rightarrow> call_tool_result" where
  "file_too_large limit actual =
     err CFileTooLarge
       (case actual of
          Some n \<Rightarrow> ''the attachment is '' @ nat_str n @ '' bytes, larger than the configured per-file limit ('' @ nat_str limit @ '' bytes)''
        | None \<Rightarrow> ''the attachment is larger than the configured per-file limit ('' @ nat_str limit @ '' bytes)'')
       (Some ''this attachment cannot be downloaded through this server; raise ATTACHMENT_MAX_DOWNLOAD_BYTES if that is expected'')"

definition store_full :: call_tool_result where
  "store_full =
     err CStoreFull ''the local attachment store is at capacity''
       (Some ''wait for expired entries to be cleaned up, or ask the operator to raise ATTACHMENT_STORE_MAX_BYTES'')"

definition fetch_failure :: "tool_env \<Rightarrow> tool_failure \<Rightarrow> call_tool_result" where
  "fetch_failure E f =
     (case f of
        UpstreamFailed e \<Rightarrow> tool_error E e
      | FileTooLarge limit actual \<Rightarrow> file_too_large limit actual
      | StoreFull \<Rightarrow> store_full
      | LocalStorageError what \<Rightarrow> local_storage_error what)"

text \<open>
  How the result names a file: the directory of the store, joining and printing of URLs, and printing
  of times. Exactly one of the URL and the path is given, by the transport.
\<close>

record file_texts =
  ft_store_dir :: string
  ft_join :: "url_q \<Rightarrow> string \<Rightarrow> string option"
  ft_url :: "url_q \<Rightarrow> string"
  ft_time :: "nat \<Rightarrow> string"

definition ustr_text :: "ustr \<Rightarrow> string" where
  "ustr_text s = map char_of (utf8_bytes s)"

definition stored_path :: "file_texts \<Rightarrow> stored_file \<Rightarrow> string" where
  "stored_path T f = ft_store_dir T @ ''/'' @ fst (sf_path f) @ ''/'' @ ustr_text (snd (sf_path f))"

definition stored_uri :: "file_texts \<Rightarrow> url_q \<Rightarrow> stored_file \<Rightarrow> string" where
  "stored_uri T base f =
     (case ft_join T base (''files/'' @ sf_uuid f) of
        Some u \<Rightarrow> u
      | None \<Rightarrow> ft_url T base @ ''files/'' @ sf_uuid f)"

definition get_redmine_attachment_output :: "file_texts \<Rightarrow> transport_config \<Rightarrow> stored_file \<Rightarrow> json" where
  "get_redmine_attachment_output T transport f =
     JObj (obj_of
       ((case transport of
           TransportStdio \<Rightarrow> [(''file_path'', JStr (stored_path T f)), (''uri_type'', JStr ''file'')]
         | TransportHttp h \<Rightarrow> [(''uri'', JStr (stored_uri T (hs_public_base h) f)), (''uri_type'', JStr ''http'')]) @
        [(''filename'', JStr (ustr_text (sf_filename f))), (''content_type'', nullable JStr (sf_content_type f)),
         (''size'', jnat (sf_size f)), (''expires_at'', JStr (ft_time T (sf_expires_at f))),
         (''attachment_id'', jnat (sf_attachment_id f))]))"

definition attachment_meta_of :: "unicode \<Rightarrow> attachment \<Rightarrow> attachment_meta" where
  "attachment_meta_of U a =
     \<lparr>am_id = at_id a, am_filename = uc_chars U (at_filename a), am_filesize = at_filesize a, am_content_type = at_content_type a\<rparr>"

text \<open>The whole call: the metadata is read from Redmine, the rest happens in the store.\<close>

definition fetched :: "tool_env \<Rightarrow> file_texts \<Rightarrow> tool_failure + stored_file \<Rightarrow> tool_result" where
  "fetched E T res =
     Inr (case res of
            Inl f \<Rightarrow> fetch_failure E f
          | Inr stored \<Rightarrow> ok (te_float E) (te_caps E) (get_redmine_attachment_output T (co_transport (te_config E)) stored))"

definition get_redmine_attachment_tool ::
    "tool_env \<Rightarrow> file_texts \<Rightarrow> attachment_config \<Rightarrow> fetch_env \<Rightarrow> nat \<Rightarrow> attachment_store \<Rightarrow>
     (tool_result \<times> attachment_store) prog" where
  "get_redmine_attachment_tool E T cfg w n st =
     (case te_scoped E of
        Inl e \<Rightarrow> Done (Inl e, st)
      | Inr _ \<Rightarrow>
          ask de_attachment (get_attachment n) (\<lambda>r.
            Done (apfst (fetched E T)
                    (get_redmine_attachment cfg w (map_sum (\<lambda>e. e) (attachment_meta_of (te_unicode E)) r) st))))"

text \<open>The sweep on demand; the number of megabytes is exact here, rounded to an \<^verbatim>\<open>f64\<close> in the code.\<close>

definition cleanup_attachment_files :: "tool_env \<Rightarrow> sweep_result \<times> attachment_store \<Rightarrow> tool_result \<times> attachment_store" where
  "cleanup_attachment_files E swept =
     (Inr (ok (te_float E) (te_caps E) (JObj (obj_of
        [(''cleaned_files'', jnat (sw_removed_files (fst swept))), (''cleaned_bytes'', jnat (sw_removed_bytes (fst swept))),
         (''cleaned_mb'', JFloat (of_nat (sw_removed_bytes (fst swept)) / 1048576))]))),
      snd swept)"

section \<open>The Files module\<close>

definition file_entry_out :: "tool_env \<Rightarrow> attachment \<Rightarrow> json" where
  "file_entry_out E a =
     JObj (obj_of
       [(''id'', jnat (at_id a)), (''filename'', JStr (at_filename a)), (''filesize'', jnat (at_filesize a)),
        (''content_type'', nullable JStr (at_content_type a)),
        (''description'', nullable (\<lambda>d. JStr (te_wrap E ''attachment.description'' d)) (at_description a)),
        (''content_url'', JStr (content_url_apply E (at_content_url a))), (''digest'', nullable JStr (at_digest a)),
        (''downloads'', nullable jnat (at_downloads a)), (''author'', nullable (id_name_out E ''user.name'') (at_author a)),
        (''version'', nullable (id_name_out E ''version.name'') (at_version a)), (''created_on'', JStr (at_created_on a))])"

definition list_files :: "tool_env \<Rightarrow> project_ref \<Rightarrow> tool_result prog" where
  "list_files E project_id =
     or_invalid (resolve_project_ref project_id) (\<lambda>project.
       with_scoped E (ask de_files (list_project_files project) (\<lambda>r. or_fail E r (\<lambda>fs.
         ok_out E (JObj (obj_of [(''files'', jlist (file_entry_out E) fs)]))))))"

definition delete_file :: "tool_env \<Rightarrow> nat \<Rightarrow> bool \<Rightarrow> tool_result prog" where
  "delete_file E file_id confirm =
     (if \<not> confirm
      then
        err_out CConfirmationRequired
          ''deleting an attachment requires confirm_delete_any_attachment=true; Redmine's API does not indicate whether this id is a project file or an issue/wiki attachment, so this server cannot restrict the scope for you''
          (Some ''retry with confirm_delete_any_attachment=true if you intend to delete this attachment'')
      else
        with_scoped E (ask de_unit (delete_attachment file_id) (\<lambda>r. or_fail E r (\<lambda>_.
          ok_out E (JObj (obj_of [(''success'', JBool True), (''deleted_file_id'', jnat file_id)]))))))"

record upload_file_params =
  uf_project_id :: project_ref
  uf_filename :: "string option"
  uf_content_base64 :: "string option"
  uf_file_path :: "string option"
  uf_source_url :: "string option"
  uf_description :: "string option"
  uf_version_id :: "nat option"

text \<open>
  The bytes of a call and the name of the file, from exactly one source. \<open>tool\<close> names the caller in
  the refusals; the document tool of the plugin has the same code.
\<close>

definition upload_source ::
    "tool_env \<Rightarrow> upload_env \<Rightarrow> string \<Rightarrow> string option \<Rightarrow> string option \<Rightarrow> string option \<Rightarrow> string option \<Rightarrow>
     (string \<Rightarrow> string option \<Rightarrow> tool_result prog) \<Rightarrow> tool_result prog" where
  "upload_source E F tool name content_base64 file_path source_url k =
     (if length (filter (\<lambda>s. s \<noteq> None) [content_base64, file_path, source_url]) \<noteq> 1 then Done (Inr (source_required tool))
      else if source_url \<noteq> None then Done (Inr unsupported_source)
      else
        (case content_base64 of
           Some b64 \<Rightarrow>
             if name = None then invalid_params
             else
               (case decode_upload_base64 F tool b64 UPLOAD_FILE_MAX_BYTES of
                  Inr bytes \<Rightarrow> k bytes name
                | Inl Malformed \<Rightarrow> invalid_params
                | Inl (TooLarge result) \<Rightarrow> Done (Inr result))
         | None \<Rightarrow>
             (case read_and_validate_upload_path F (as_upload_file_roots (co_attachments (te_config E))) tool UPLOAD_FILE_MAX_BYTES
                     (case file_path of Some p \<Rightarrow> p | None \<Rightarrow> []) of
                Inl result \<Rightarrow> Done (Inr result)
              | Inr (contents, inferred) \<Rightarrow> k contents (case name of Some n \<Rightarrow> Some n | None \<Rightarrow> inferred))))"

definition upload_file :: "tool_env \<Rightarrow> upload_env \<Rightarrow> upload_file_params \<Rightarrow> tool_result prog" where
  "upload_file E F p =
     upload_source E F ''upload_file'' (uf_filename p) (uf_content_base64 p) (uf_file_path p) (uf_source_url p) (\<lambda>body filename.
       or_invalid (resolve_project_ref (uf_project_id p)) (\<lambda>project.
         with_scoped E (mint_upload_token E body filename (\<lambda>minted.
           case minted of
             Inl result \<Rightarrow> Done (Inr result)
           | Inr u \<Rightarrow>
               ask de_unit
                 (create_project_file project
                    (PProjectFile \<lparr>pfc_token = upl_token u, pfc_filename = None, pfc_content_type = None,
                                   pfc_description = uf_description p, pfc_version_id = uf_version_id p\<rparr>))
                 (\<lambda>r. or_fail E r (\<lambda>_.
                    ask de_attachment (get_attachment (upl_id u)) (\<lambda>r. or_fail E r (\<lambda>a.
                      ok_out E (file_entry_out E a)))))))))"

section \<open>The module\<close>

text \<open>What the module meets outside Redmine: the sources of uploads and the state of the store. Only answers are kept here.\<close>

record file_world =
  fw_uploads :: upload_env
  fw_texts :: file_texts
  fw_config :: attachment_config
  fw_fetch :: fetch_env
  fw_store :: attachment_store
  fw_swept :: "sweep_result \<times> attachment_store"

datatype file_call =
    GetRedmineAttachment nat
  | ListFiles project_ref
  | DeleteFile nat bool
  | UploadFile upload_file_params
  | CleanupAttachmentFiles

fun file_call_name :: "file_call \<Rightarrow> string" where
  "file_call_name (GetRedmineAttachment _) = ''get_redmine_attachment''"
| "file_call_name (ListFiles _) = ''list_files''"
| "file_call_name (DeleteFile _ _) = ''delete_file''"
| "file_call_name (UploadFile _) = ''upload_file''"
| "file_call_name CleanupAttachmentFiles = ''cleanup_attachment_files''"

fun file_tool :: "file_world \<Rightarrow> tool_env \<Rightarrow> file_call \<Rightarrow> tool_result prog" where
  "file_tool w E (GetRedmineAttachment p) = map_prog fst (get_redmine_attachment_tool E (fw_texts w) (fw_config w) (fw_fetch w) p (fw_store w))"
| "file_tool w E (ListFiles p) = list_files E p"
| "file_tool w E (DeleteFile p q) = delete_file E p q"
| "file_tool w E (UploadFile p) = upload_file E (fw_uploads w) p"
| "file_tool w E CleanupAttachmentFiles = Done (fst (cleanup_attachment_files E (fw_swept w)))"

definition file_router :: "(file_world, file_call) router" where
  "file_router =
     \<lparr>rt_tool = file_tool, rt_name = file_call_name, rt_action = (\<lambda>_. None), rt_names = files_tools, rt_sound = (\<lambda>_ _ _. True)\<rparr>"

lemma calls_ok_mint_one:
  assumes "\<And>b n. P (create_upload (PBytes b) n None)" and "\<And>r. calls_ok (k r) P"
  shows "calls_ok (mint_upload_token E body filename k) P"
  using assms by (auto simp: mint_upload_token_def intro!: calls_ok_askI split: sum.split redmine_error.split)

lemma calls_ok_upload_source:
  "(\<And>body n. calls_ok (k body n) P) \<Longrightarrow> calls_ok (upload_source E F tool name b64 path url k) P"
  by (auto simp: upload_source_def split: option.split sum.split base64_upload_error.split)

lemma file_reads:
  "calls_ok (get_redmine_attachment_tool E T cfg fe n st) op_reads" "calls_ok (list_files E ref) op_reads"
  by (auto simp: get_redmine_attachment_tool_def list_files_def intro!: calls_okI split: sum.split)

lemma file_stays:
  "calls_ok (get_redmine_attachment_tool E T cfg fe n st) paths_ok" "calls_ok (list_files E ref) paths_ok"
  "calls_ok (delete_file E n confirm) paths_ok" "calls_ok (upload_file E F up) paths_ok"
  by (auto simp: get_redmine_attachment_tool_def list_files_def delete_file_def upload_file_def dest: resolve_project_ref_wf
      intro!: calls_okI routes calls_ok_upload_source calls_ok_mint_one split: sum.split)

interpretation file_module: tool_router file_router
proof unfold_locales
  fix c :: file_call and w E
  show "rt_name file_router c \<in> set (rt_names file_router)"
    by (cases c) (simp_all add: file_router_def tool_lists)
  show "covered (rt_name file_router c) (rt_action file_router c)"
    by (cases c) (simp_all add: file_router_def covered_def TOOL_SCOPES_def)
  show reads: "calls_ok (rt_tool file_router w E c) op_reads"
    if "reading (rt_name file_router c) (rt_action file_router c)"
    using that by (cases c) (simp_all add: file_router_def reading_def write_tools_all_def file_reads)
  show "calls_ok (rt_tool file_router w E c) op_reads"
    if "co_read_only (te_config E)" "rt_name file_router c \<notin> set write_tools_all"
    using that reads by (cases c) (simp_all add: file_router_def reading_def PARTIAL_WRITE_def)
  show "calls_ok (rt_tool file_router w E c) paths_ok" if "rt_sound file_router w E c"
    by (cases c) (simp_all add: file_router_def file_stays)
qed

end
