(* ===== verification/Document_Tools.thy ===== *)
theory Document_Tools
  imports File_Tools Product_Tools
begin

text \<open>
  The document tool (\<^verbatim>\<open>tools/plugins/dmsf.rs\<close>). A new document is uploaded and then committed; an update
  adds a revision, whose title and name default to those of the newest one.
\<close>

definition document_out :: "tool_env \<Rightarrow> dmsf_node \<Rightarrow> json" where
  "document_out E n =
     JObj (obj_of
       [(''id'', jnat (dmn_id n)), (''type'', nullable JStr (dmn_kind n)), (''filename'', nullable JStr (dmn_filename n)),
        (''title'', nullable JStr (dmn_title n)), (''name'', nullable JStr (dmn_name n)),
        (''description'', nullable (\<lambda>d. JStr (te_wrap E ''document.description'' d)) (dmn_description n)),
        (''version'', nullable JStr (dmn_version n)), (''size'', nullable jnat (dmn_size n)),
        (''content_type'', nullable JStr (dmn_content_type n)), (''folder_id'', nullable jnat (dmn_folder_id n)),
        (''project_id'', nullable jnat (dmn_project_id n)),
        (''author'', nullable (\<lambda>a. JObj (obj_of [(''id'', jnat (idn_id a)), (''name'', JStr (idn_name a))])) (dmn_author n)),
        (''created_on'', nullable JStr (dmn_created_on n)), (''updated_on'', nullable JStr (dmn_updated_on n))])"

definition document_not_found :: call_tool_result where
  "document_not_found =
     err CNotFound ''the requested DMSF document was not found or carries no revision this client can make sense of''
       (Some ''verify document_id is correct; it may have been deleted, or the credential cannot see it'')"

datatype manage_document_action = DocumentList | DocumentGet | DocumentCreate | DocumentUpdate

fun document_action_str :: "manage_document_action \<Rightarrow> string" where
  "document_action_str DocumentList = ''list''"
| "document_action_str DocumentGet = ''get''"
| "document_action_str DocumentCreate = ''create''"
| "document_action_str DocumentUpdate = ''update''"

record manage_document_params =
  md_action :: manage_document_action
  md_project_id :: "project_ref option"
  md_folder_id :: "nat option"
  md_limit :: "nat option"
  md_offset :: "nat option"
  md_document_id :: "nat option"
  md_content_base64 :: "string option"
  md_file_path :: "string option"
  md_source_url :: "string option"
  md_name :: "string option"
  md_title :: "string option"
  md_description :: "string option"
  md_comment :: "string option"
  md_version :: "string option"
  md_custom_fields :: "custom_field_entry list option"

text \<open>\<^verbatim>\<open>ManageDocumentOutput\<close>: fields that are not set are \<^verbatim>\<open>null\<close>.\<close>

record document_answer_parts =
  da_page :: "dmsf_node page option"
  da_document :: "dmsf_node option"
  da_document_id :: "nat option"
  da_updated_fields :: "string list option"
  da_note :: "string option"

definition document_nothing :: document_answer_parts where
  "document_nothing = \<lparr>da_page = None, da_document = None, da_document_id = None, da_updated_fields = None, da_note = None\<rparr>"

definition document_answer :: "tool_env \<Rightarrow> document_answer_parts \<Rightarrow> tool_result prog" where
  "document_answer E a =
     ok_out E (JObj (obj_of
       [(''success'', JBool True), (''documents'', nullable (\<lambda>g. jlist (document_out E) (pg_items g)) (da_page a)),
        (''pagination'', nullable (\<lambda>g. pagination_json (from_page g)) (da_page a)),
        (''document'', nullable (document_out E) (da_document a)), (''document_id'', nullable jnat (da_document_id a)),
        (''updated_fields'', nullable (jlist JStr) (da_updated_fields a)), (''note'', nullable JStr (da_note a))]))"

definition require_document_project ::
    "manage_document_params \<Rightarrow> (project_ident \<Rightarrow> tool_result prog) \<Rightarrow> tool_result prog" where
  "require_document_project p k = require (md_project_id p) (\<lambda>ref. or_invalid (resolve_project_ref ref) k)"

definition read_document :: "tool_env \<Rightarrow> nat \<Rightarrow> (dmsf_node \<Rightarrow> tool_result prog) \<Rightarrow> tool_result prog" where
  "read_document E n k =
     ask de_dmsf_file (get_dmsf_file n) (\<lambda>r. or_fail E r (\<lambda>found.
       case found of None \<Rightarrow> Done (Inr document_not_found) | Some node \<Rightarrow> k node))"

text \<open>The message of a failed commit says that the upload went through.\<close>

definition commit_failed :: "call_tool_result \<Rightarrow> call_tool_result" where
  "commit_failed result =
     (case ct_structured result of
        JObj m \<Rightarrow>
          (case map_of m ''error'' of
             Some (JStr message) \<Rightarrow>
               result\<lparr>ct_structured := JObj (obj_insert ''error''
                 (JStr (''the file was uploaded successfully, but committing it to DMSF failed: '' @ message)) m)\<rparr>
           | _ \<Rightarrow> result)
      | _ \<Rightarrow> result)"

definition commit_note :: "nat option \<Rightarrow> string" where
  "commit_note document_id =
     (case document_id of
        None \<Rightarrow> ''the commit response named no document id; call action='' @ quoted ''list'' @ '' to find the new document''
      | Some n \<Rightarrow>
          ''the commit response is sparse by design (id/name only); call manage_document(action='' @ quoted ''get'' @
          '', document_id='' @ nat_str n @ '') for full metadata'')"

definition document_version :: "manage_document_params \<Rightarrow> mcp_error + dmsf_version option" where
  "document_version p =
     (case md_version p of
        None \<Rightarrow> Inr None
      | Some s \<Rightarrow> (case dmsf_version_from_str s of Some v \<Rightarrow> Inr (Some v) | None \<Rightarrow> Inl InvalidParams))"

definition document_commit ::
    "tool_env \<Rightarrow> manage_document_params \<Rightarrow> dmsf_version option \<Rightarrow> project_ident \<Rightarrow> string \<Rightarrow> upload \<Rightarrow> tool_result prog" where
  "document_commit E p version project name u =
     ask de_dmsf_committed
       (commit_dmsf_upload project
          (PDmsfCommit
             \<lparr>dcr_uploaded_file =
                \<lparr>duf_token = upl_token u, duf_name = name, duf_title = md_title p, duf_description = md_description p,
                 duf_comment = md_comment p, duf_version_major = map_option dvn_major version,
                 duf_version_minor = map_option dvn_minor version, duf_version_patch = map_option dvn_patch version,
                 duf_custom_field_values = map_option custom_field_entries_to_write (md_custom_fields p)\<rparr>,
              dcr_folder_id = md_folder_id p\<rparr>))
       (\<lambda>r. case r of
              Inl e \<Rightarrow> Done (Inr (commit_failed (tool_error E e)))
            | Inr nodes \<Rightarrow>
                (let document_id = (case nodes of [] \<Rightarrow> None | n # _ \<Rightarrow> Some (dmn_id n))
                 in document_answer E (document_nothing\<lparr>da_document_id := document_id, da_note := Some (commit_note document_id)\<rparr>)))"

definition document_create :: "tool_env \<Rightarrow> upload_env \<Rightarrow> manage_document_params \<Rightarrow> tool_result prog" where
  "document_create E F p =
     or_invalid (document_version p) (\<lambda>version.
       upload_source E F ''manage_document'' (md_name p) (md_content_base64 p) (md_file_path p) (md_source_url p) (\<lambda>body found.
         require found (\<lambda>name.
           require_document_project p (\<lambda>project.
             with_scoped E (mint_upload_token E body (Some name) (\<lambda>minted.
               case minted of
                 Inl result \<Rightarrow> Done (Inr result)
               | Inr u \<Rightarrow> document_commit E p version project name u))))))"

definition document_updated_fields :: "manage_document_params \<Rightarrow> string list" where
  "document_updated_fields p =
     updated_fields
       [(''title'', md_title p \<noteq> None), (''name'', md_name p \<noteq> None), (''description'', md_description p \<noteq> None),
        (''comment'', md_comment p \<noteq> None), (''custom_fields'', md_custom_fields p \<noteq> None)]"

definition or_current :: "string option \<Rightarrow> string option \<Rightarrow> string" where
  "or_current asked current =
     (case asked of Some s \<Rightarrow> s | None \<Rightarrow> (case current of Some s \<Rightarrow> s | None \<Rightarrow> []))"

definition revision_of :: "manage_document_params \<Rightarrow> dmsf_node \<Rightarrow> dmsf_revision_write" where
  "revision_of p current =
     \<lparr>drw_title = or_current (md_title p) (dmn_title current), drw_name = or_current (md_name p) (dmn_name current),
      drw_description = md_description p, drw_comment = md_comment p,
      drw_custom_field_values = map_option custom_field_entries_to_write (md_custom_fields p)\<rparr>"

definition document_update :: "tool_env \<Rightarrow> manage_document_params \<Rightarrow> tool_result prog" where
  "document_update E p =
     require (md_document_id p) (\<lambda>n.
       if md_title p = None \<and> md_name p = None \<and> md_description p = None \<and> md_comment p = None \<and> md_custom_fields p = None
       then invalid_params
       else
         with_scoped E (read_document E n (\<lambda>current.
           ask de_unit (create_dmsf_revision n (PDmsfRevision (revision_of p current))) (\<lambda>r. or_fail E r (\<lambda>_.
             document_answer E
               (document_nothing\<lparr>da_document_id := Some n, da_updated_fields := Some (document_updated_fields p),
                                  da_note := Some ''a new revision was created; earlier revisions still exist''\<rparr>))))))"

definition manage_document :: "tool_env \<Rightarrow> upload_env \<Rightarrow> manage_document_params \<Rightarrow> tool_result prog" where
  "manage_document E F p =
     (case md_action p of
        DocumentList \<Rightarrow>
          require_document_project p (\<lambda>project.
            with_scoped E
              (ask de_dmsf_page
                 (list_dmsf_nodes project (md_folder_id p) (clamp_plugin_limit (md_limit p))
                    (case md_offset p of Some n \<Rightarrow> n | None \<Rightarrow> 0))
                 (\<lambda>r. or_fail E r (\<lambda>pg. document_answer E (document_nothing\<lparr>da_page := Some pg\<rparr>)))))
      | DocumentGet \<Rightarrow>
          require (md_document_id p) (\<lambda>n.
            with_scoped E (read_document E n (\<lambda>node. document_answer E (document_nothing\<lparr>da_document := Some node\<rparr>))))
      | DocumentCreate \<Rightarrow>
          if co_read_only (te_config E) then plugin_refusal ''manage_document'' (document_action_str (md_action p))
          else document_create E F p
      | DocumentUpdate \<Rightarrow>
          if co_read_only (te_config E) then plugin_refusal ''manage_document'' (document_action_str (md_action p))
          else document_update E p)"

section \<open>The module\<close>

definition document_router :: "(upload_env, manage_document_params) router" where
  "document_router =
     \<lparr>rt_tool = (\<lambda>F E p. manage_document E F p), rt_name = (\<lambda>_. ''manage_document''),
      rt_action = (\<lambda>p. Some (document_action_str (md_action p))), rt_names = dmsf_tools, rt_sound = (\<lambda>_ _ _. True)\<rparr>"

lemma calls_ok_document [simp]: "calls_ok (document_answer E a) P"
  by (simp add: document_answer_def)

lemma calls_ok_document_project:
  "(\<And>project. wf_ident project \<Longrightarrow> calls_ok (k project) P) \<Longrightarrow> calls_ok (require_document_project p k) P"
  by (auto simp: require_document_project_def dest: resolve_project_ref_wf intro!: calls_okI)

lemma calls_ok_read_document:
  "P (get_dmsf_file n) \<Longrightarrow> (\<And>node. calls_ok (k node) P) \<Longrightarrow> calls_ok (read_document E n k) P"
  by (auto simp: read_document_def intro!: calls_okI split: option.split)

lemma document_reads:
  assumes "co_read_only (te_config E) \<or> md_action p \<in> {DocumentList, DocumentGet}"
  shows "calls_ok (manage_document E F p) op_reads"
  using assms
  by (auto simp: manage_document_def intro!: calls_okI calls_ok_document_project calls_ok_read_document
      split: manage_document_action.split)

lemma document_writes_stay: "calls_ok (document_create E F p) paths_ok" "calls_ok (document_update E p) paths_ok"
  by (auto simp: document_create_def document_commit_def document_update_def Let_def
      intro!: calls_okI routes calls_ok_upload_source calls_ok_mint_one calls_ok_document_project calls_ok_read_document
      split: sum.split)

lemma document_stays: "calls_ok (manage_document E F p) paths_ok"
  by (auto simp: manage_document_def document_writes_stay
      intro!: calls_okI routes calls_ok_document_project calls_ok_read_document split: manage_document_action.split)

lemma document_action_known:
  "document_action_str a = ''list'' \<or> document_action_str a = ''get'' \<or> document_action_str a = ''create'' \<or> document_action_str a = ''update''"
  by (cases a) simp_all

lemma document_action_reading: "document_action_str a \<in> {''list'', ''get''} \<longleftrightarrow> a \<in> {DocumentList, DocumentGet}"
  by (cases a) simp_all

interpretation document_module: tool_router document_router
proof unfold_locales
  fix c :: manage_document_params and w E
  show "calls_ok (rt_tool document_router w E c) op_reads"
    if "reading (rt_name document_router c) (rt_action document_router c)"
    using that document_action_reading by (auto simp: document_router_def reading_def PARTIAL_WRITE_def intro!: document_reads)
  show "calls_ok (rt_tool document_router w E c) op_reads" if "co_read_only (te_config E)"
    using that by (simp add: document_router_def document_reads)
qed (simp_all add: document_router_def tool_lists covered_def TOOL_SCOPES_def document_stays document_action_known)

end
