(* ===== verification/Server_Tools.thy ===== *)
theory Server_Tools
  imports Issue_Safety Time_Tools Wiki_Tools Project_Tools Contact_Tools Document_Tools
begin

text \<open>
  The tools of the whole server: the modules merged in the order of \<^verbatim>\<open>RedmineMcp::new\<close>, each of which keeps
  the contract of \<open>Tool_Contract\<close>, and what follows for every tool at once.
\<close>

definition server_router where
  "server_router =
     merge (merge (merge (merge (merge (merge (merge (merge (merge (merge (merge
       meta_router discovery_router) project_router) issue_router) time_router) wiki_router) gantt_router) file_router)
       checklist_router) product_router) contact_router) document_router"

interpretation lookups: merged_routers meta_router discovery_router
  by (intro merged_routers.intro meta_module.tool_router_axioms discovery_module.tool_router_axioms)

interpretation server: tool_router server_router
  unfolding server_router_def
  by (intro merge_router lookups.merged project_module.tool_router_axioms issue_module.tool_router_axioms
      time_module.tool_router_axioms wiki_module.tool_router_axioms gantt_module.tool_router_axioms
      file_module.tool_router_axioms checklist_module.tool_router_axioms product_module.tool_router_axioms
      contact_module.tool_router_axioms document_module.tool_router_axioms)

section \<open>Every tool has a handler\<close>

lemma merge_simps [simp]:
  "rt_tool (merge A B) (w, v) E (Inl x) = rt_tool A w E x" "rt_tool (merge A B) (w, v) E (Inr y) = rt_tool B v E y"
  "rt_name (merge A B) (Inl x) = rt_name A x" "rt_name (merge A B) (Inr y) = rt_name B y"
  "rt_action (merge A B) (Inl x) = rt_action A x" "rt_action (merge A B) (Inr y) = rt_action B y"
  "rt_sound (merge A B) (w, v) E (Inl x) = rt_sound A w E x" "rt_sound (merge A B) (w, v) E (Inr y) = rt_sound B v E y"
  "rt_names (merge A B) = rt_names A @ rt_names B"
  by (simp_all add: merge_def)

lemma range_merge: "range (rt_name (merge A B)) = range (rt_name A) \<union> range (rt_name B)"
  by (auto simp: merge_def image_iff split: sum.splits) (metis old.sum.simps(5,6))+

lemma range_names: "(\<And>c. rt_name R c \<in> set ns) \<Longrightarrow> set ns \<subseteq> rt_name R ` cs \<Longrightarrow> range (rt_name R) = set ns"
  by auto

lemma single_ranges:
  "range (rt_name meta_router) = set meta_tools" "range (rt_name gantt_router) = set gantt_tools"
  "range (rt_name product_router) = set products_tools" "range (rt_name contact_router) = set crm_tools"
  "range (rt_name document_router) = set dmsf_tools"
  by (auto simp: meta_router_def gantt_router_def product_router_def contact_router_def document_router_def tool_lists)

lemma issue_range: "range (rt_name issue_router) = set issues_tools"
  using issue_module.named
  by (intro range_names [where cs = "{GetRedmineIssue undefined, ListRedmineIssues undefined, SearchRedmineIssues undefined,
      ListSubtasks undefined, GetPrivateNotes undefined, CreateRedmineIssue undefined,
      UpdateRedmineIssue undefined, DeleteRedmineIssue undefined, CopyIssue undefined,
      ManageIssueRelation undefined, ManageIssueWatcher undefined, ManageIssueNote undefined,
      ManageIssueCategory undefined}"])
    (simp_all add: issue_router_def issues_tools_def)

lemma discovery_range: "range (rt_name discovery_router) = set discovery_tools"
  using discovery_module.named
  by (intro range_names [where cs = "{ListRedmineTrackers, ListProjectTrackers undefined, ListRedmineIssueStatuses,
      ListRedmineIssuePriorities, ListRedmineUsers undefined, GetCurrentUser, ListRedmineQueries}"])
    (simp_all add: discovery_router_def discovery_tools_def)

lemma project_range: "range (rt_name project_router) = set projects_tools"
  using project_module.named
  by (intro range_names [where cs = "{ListRedmineProjects, ListProjectIssueCustomFields undefined undefined,
      SummarizeProjectStatus undefined undefined, ListRedmineVersions undefined undefined,
      ManageRedmineVersion undefined, ListProjectMembers undefined, ListRedmineRoles,
      GetProjectModules undefined, ManageProjectMember undefined}"])
    (simp_all add: project_router_def projects_tools_def)

lemma time_range: "range (rt_name time_router) = set time_tools"
  using time_module.named
  by (intro range_names [where cs = "{ListTimeEntries undefined, ManageTimeEntry undefined, ListTimeEntryActivities undefined,
      ImportTimeEntries undefined undefined}"])
    (simp_all add: time_router_def time_tools_def)

lemma wiki_range: "range (rt_name wiki_router) = set search_wiki_tools"
  using wiki_module.named
  by (intro range_names [where cs = "{SearchEntireRedmine undefined, ManageRedmineWikiPage undefined}"])
    (simp_all add: wiki_router_def search_wiki_tools_def)

lemma file_range: "range (rt_name file_router) = set files_tools"
  using file_module.named
  by (intro range_names [where cs = "{GetRedmineAttachment undefined, ListFiles undefined, DeleteFile undefined undefined,
      UploadFile undefined, CleanupAttachmentFiles}"])
    (simp_all add: file_router_def files_tools_def)

lemma checklist_range: "range (rt_name checklist_router) = set checklists_tools"
  using checklist_module.named
  by (intro range_names [where cs = "{GetChecklist undefined, CreateChecklistItem undefined, UpdateChecklistItem undefined}"])
    (simp_all add: checklist_router_def checklists_tools_def)

lemmas ranges = single_ranges issue_range discovery_range project_range time_range wiki_range file_range checklist_range

lemma server_range: "range (rt_name server_router) = set all_tools"
  by (simp add: server_router_def range_merge ranges all_tools_def Un_assoc)

section \<open>What a call can do\<close>

text \<open>A concrete surrounding for the examples, and where the calls of two modules are in the merged router.\<close>

definition example_file_world :: file_world where
  "example_file_world =
     (let e = \<lparr>re_wall = 0, re_uuid = ''u'', re_create_ok = True, re_restrict_ok = True\<rparr>;
          st = \<lparr>st_inner = \<lparr>in_entries = fmempty, in_in_flight = 0\<rparr>, st_disk = fmempty\<rparr>
      in \<lparr>fw_uploads = example_files [],
          fw_texts = \<lparr>ft_store_dir = ''/store'', ft_join = (\<lambda>_ _. None), ft_url = (\<lambda>_. ''http://h/''), ft_time = nat_str\<rparr>,
          fw_config = \<lparr>ac_expires_after = 60, ac_max_download_bytes = 10, ac_max_store_bytes = 100, ac_max_utc = 1000\<rparr>,
          fw_fetch = \<lparr>fe_first = e, fe_sweep_wall = 0, fe_removable = (\<lambda>_. True), fe_parse = Some, fe_listing = None, fe_second = e,
                      fe_wall_create = 0, fe_file_ok = True, fe_stream = Inr [], fe_now = 0, fe_wall = 0\<rparr>,
          fw_store = st, fw_swept = (\<lparr>sw_removed_files = 0, sw_removed_bytes = 0\<rparr>, st)\<rparr>)"

definition example_world where
  "example_world =
     (((((((((((\<lparr>sf_version = ''1'', sf_proxy_counts = None\<rparr>, ()), \<lambda>_ :: nat. ''2026-01-01''), example_files []), ()), example_enc), ()),
       example_file_world), ()), ()), ()), example_files [])"

definition at_issue where
  "at_issue c = Inl (Inl (Inl (Inl (Inl (Inl (Inl (Inl (Inr c))))))))"

definition at_wiki where
  "at_wiki c = Inl (Inl (Inl (Inl (Inl (Inl (Inr c))))))"

lemma at_simps [simp]:
  "rt_name server_router (at_issue c) = call_name c" "rt_action server_router (at_issue c) = issue_call_action c"
  "rt_name server_router (at_wiki d) = wiki_call_name d" "rt_action server_router (at_wiki d) = wiki_call_action d"
  "rt_tool server_router example_world E (at_issue c) = issue_tool E (example_files []) c"
  "rt_tool server_router example_world E (at_wiki d) = wiki_tool example_enc E d"
  "rt_sound server_router example_world E (at_wiki d) = wiki_sound example_enc E d"
  by (simp_all add: server_router_def at_issue_def at_wiki_def issue_router_def wiki_router_def example_world_def)

lemma example_config:
  obtains cfg where "from_map example_env (example_vars ''k'') KindHttp = Inr cfg"
  using example_accepted [of "''k''"] by auto

text \<open>
  C7. A read-only server does not write. When the configuration is read-only, every call of every tool that
  the router still offers sends only GET requests, whatever its arguments and whatever Redmine
  answers; this includes the tools that both read and write.
\<close>

theorem read_only_server:
  assumes "co_read_only (te_config E)" and "routed (server_config_of (te_config E)) (rt_name server_router c)"
  shows "list_all op_reads (snd (run (rt_tool server_router w E c) S []))"
  by (rule server.read_only_run [OF assms])

theorem read_only_server_witness:
  "\<exists>cfg. co_read_only cfg \<and> routed (server_config_of cfg) (rt_name server_router (at_issue (ListSubtasks 7))) \<and>
     list_all op_reads
       (snd (run (rt_tool server_router example_world (example_tool_env cfg) (at_issue (ListSubtasks 7))) (\<lambda>_ _. Inr (AIssues [])) []))"
proof -
  obtain cfg0 where "from_map example_env (example_vars ''k'') KindHttp = Inr cfg0" by (rule example_config)
  define cfg where "cfg = cfg0\<lparr>co_read_only := True\<rparr>"
  have ro: "co_read_only (te_config (example_tool_env cfg))" by (simp add: cfg_def example_tool_env_def)
  have rt: "routed (server_config_of (te_config (example_tool_env cfg))) (rt_name server_router (at_issue (ListSubtasks 7)))"
    by (simp add: routed_def all_tools_def issues_tools_def PLUGIN_TOOLS_def write_tools_all_def)
  show ?thesis
    using read_only_server [OF ro rt, of example_world "\<lambda>_ _. Inr (AIssues [])"] ro rt
    by (intro exI [of _ cfg]) (simp add: example_tool_env_def)
qed

text \<open>
  C8. A token with reading scopes does not write, whatever the mode of the server. A call that passes the
  gate with no more than the reading scopes, and whose arguments name its action by a string, sends
  only GET requests; the tools of the plugins without scopes are the only exception.
\<close>

theorem read_scopes_only_read:
  assumes "held \<subseteq> set READ_SCOPES" and "scope_gate (rt_name server_router c) args held = None"
    and "names_action args (rt_action server_router c)" and "rt_name server_router c \<notin> set unscoped_writes"
  shows "list_all op_reads (snd (run (rt_tool server_router w E c) S []))"
  by (rule server.read_scope_run [OF assms])

definition example_relations :: issue_call where
  "example_relations =
     ManageIssueRelation \<lparr>mr_action = RelationList, mr_issue_id = Some 7, mr_issue_to_id = None, mr_relation_id = None,
                          mr_relation_type = None, mr_delay = None\<rparr>"

theorem read_scopes_only_read_witness:
  "scope_gate (rt_name server_router (at_issue example_relations)) (Some [(''action'', JStr ''list'')]) {''view_issues''} = None \<and>
   (\<exists>cfg. list_all op_reads
      (snd (run (rt_tool server_router example_world (example_tool_env cfg) (at_issue example_relations)) (\<lambda>_ _. Inr (ARelations [])) [])))"
proof -
  have g: "scope_gate (rt_name server_router (at_issue example_relations)) (Some [(''action'', JStr ''list'')]) {''view_issues''} = None"
    by (simp add: example_relations_def scope_gate_def is_admin_def ADMIN_SCOPE_def required_for_call_def TOOL_SCOPES_def
        action_str_def missing_def)
  have "list_all op_reads
      (snd (run (rt_tool server_router example_world (example_tool_env cfg) (at_issue example_relations)) (\<lambda>_ _. Inr (ARelations [])) []))"
    for cfg
    by (rule read_scopes_only_read [OF _ g])
      (simp_all add: READ_SCOPES_def example_relations_def names_action_def action_str_def unscoped_writes_def)
  with g show ?thesis by blast
qed

text \<open>
  C36. No call escapes the scope table. The handlers have exactly the names of the router, each name has a
  rule, and every action that a handler accepts is in the rule of its tool: a call whose arguments name
  its action by a string is never passed on unchecked.
\<close>

theorem every_call_checked:
  assumes "names_action args (rt_action server_router c)"
  shows "range (rt_name server_router) = set all_tools \<and>
    required_for_call (rt_name server_router c) args \<notin> {Unchecked, Unmapped}"
  using server_range server.checked_call [OF assms] by simp

theorem every_call_checked_witness:
  "required_for_call ''manage_issue_relation'' (Some [(''action'', JStr ''list'')]) \<noteq> Unchecked"
proof -
  have "names_action (Some [(''action'', JStr ''list'')]) (rt_action server_router (at_issue example_relations))"
    by (simp add: example_relations_def names_action_def action_str_def)
  from every_call_checked [OF this] show ?thesis by (simp add: example_relations_def)
qed


definition example_wiki_call :: wiki_call where
  "example_wiki_call =
     ManageRedmineWikiPage
       \<lparr>mp_action = WikiGet, mp_project_id = RefId 1, mp_wiki_page_title = Some ''Home'', mp_version = None,
        mp_include_attachments = None, mp_text = None, mp_comments = None, mp_new_title = None, mp_redirect_existing_links = None\<rparr>"


end
