(* ===== verification/Document_Safety.thy ===== *)
theory Document_Safety
  imports Document_Tools Issue_Safety
begin

text \<open>
  What the file tools and the document tool send: where the uploaded bytes come from, what a revision
  replaces, and how a version is read.
\<close>

section \<open>Sources of uploads\<close>

definition sent_bytes :: "redmine_op \<Rightarrow> string set" where
  "sent_bytes op = {b. \<exists>r \<in> set op. \<exists>ct. rr_body (fst r) = BytesBody ct (PBytes b)}"

text \<open>The bytes are the decoded argument, of bounded length, or those of an opened file inside the roots.\<close>

definition from_source :: "tool_env \<Rightarrow> upload_env \<Rightarrow> string option \<Rightarrow> string option \<Rightarrow> string \<Rightarrow> bool" where
  "from_source E F b64 path b \<longleftrightarrow>
     (\<exists>s. b64 = Some s \<and> path = None \<and> ue_b64_decode F s = Some b \<and> length b \<le> UPLOAD_FILE_MAX_BYTES) \<or>
     (\<exists>raw canonical h. b64 = None \<and> path = Some raw \<and>
        inside_roots F (as_upload_file_roots (co_attachments (te_config E))) raw \<and>
        ue_canonicalize F raw = Some canonical \<and> ue_open F canonical = Some h \<and> of_contents h = Some b)"

lemma upload_source_calls:
  assumes "\<And>b n. from_source E F b64 path b \<Longrightarrow> calls_ok (k b n) P"
  shows "calls_ok (upload_source E F tool name b64 path url k) P"
proof (cases "length (filter (\<lambda>s. s \<noteq> None) [b64, path, url]) = 1 \<and> url = None")
  case False
  then show ?thesis by (auto simp: upload_source_def)
next
  case True
  let ?roots = "as_upload_file_roots (co_attachments (te_config E))"
  show ?thesis
  proof (cases b64)
    case (Some s)
    then have p: "path = None" using True by (cases path) simp_all
    have "calls_ok (k b name) P" if "decode_upload_base64 F tool s UPLOAD_FILE_MAX_BYTES = Inr b" for b
      using that assms [of b name] Some p
      by (auto simp: from_source_def decode_upload_base64_def not_less split: if_splits option.splits)
    then show ?thesis using Some True by (auto simp: upload_source_def split: sum.split base64_upload_error.split)
  next
    case None
    then obtain raw where p: "path = Some raw" using True by (cases path) auto
    have "calls_ok (k b n) P" if "read_and_validate_upload_path F ?roots tool UPLOAD_FILE_MAX_BYTES raw = Inr (b, m)" for b m n
    proof (rule assms)
      have "inside_roots F ?roots raw" using that outside_refused [of F ?roots raw tool UPLOAD_FILE_MAX_BYTES] by fastforce
      then show "from_source E F b64 path b" using read_path_Inr [OF that] None p by (auto simp: from_source_def)
    qed
    then show ?thesis using None p True by (auto simp: upload_source_def split: sum.split)
  qed
qed

lemma sent_bytes_simps [simp]:
  "sent_bytes (create_upload (PBytes b) n ct) = {b}" "sent_bytes (create_project_file project pl) = {}"
  "sent_bytes (commit_dmsf_upload project pl) = {}" "sent_bytes (create_dmsf_revision i pl) = {}"
  by (auto simp: sent_bytes_def rest_op_defs rest_req_defs)

lemma sent_bytes_read [simp]:
  "sent_bytes (get_attachment i) = {}" "sent_bytes (get_dmsf_file i) = {}" "sent_bytes (list_dmsf_nodes project fo l off) = {}"
  by (auto simp: sent_bytes_def rest_op_defs rest_req_defs)

lemma mint_sends:
  assumes "b \<in> B" and "\<And>r. calls_ok (k r) (\<lambda>op. sent_bytes op \<subseteq> B)"
  shows "calls_ok (mint_upload_token E b n k) (\<lambda>op. sent_bytes op \<subseteq> B)"
  using assms by (auto simp: mint_upload_token_def intro!: calls_ok_askI split: sum.split redmine_error.split)

text \<open>
  C20. Nothing else is uploaded. Whatever bytes \<^verbatim>\<open>upload_file\<close> or \<^verbatim>\<open>manage_document\<close> sends as a file, they are the
  decoded content argument of this call, at most 50 MiB of it, or what was read from a file that the
  call names and whose canonical path lies inside a directory the operator allowed.
\<close>

theorem uploads_from_sources:
  "list_all (\<lambda>op. sent_bytes op \<subseteq> {b. from_source E F (uf_content_base64 up) (uf_file_path up) b})
     (snd (run (upload_file E F up) S [])) \<and>
   list_all (\<lambda>op. sent_bytes op \<subseteq> {b. from_source E F (md_content_base64 dp) (md_file_path dp) b})
     (snd (run (manage_document E F dp) S []))"
proof -
  have "calls_ok (upload_file E F up) (\<lambda>op. sent_bytes op \<subseteq> {b. from_source E F (uf_content_base64 up) (uf_file_path up) b})"
    by (auto simp: upload_file_def intro!: upload_source_calls calls_okI mint_sends split: sum.split)
  moreover have "calls_ok (manage_document E F dp)
      (\<lambda>op. sent_bytes op \<subseteq> {b. from_source E F (md_content_base64 dp) (md_file_path dp) b})"
    by (auto simp: manage_document_def document_create_def document_commit_def document_update_def Let_def
        intro!: upload_source_calls calls_okI mint_sends calls_ok_document_project calls_ok_read_document
        split: sum.split manage_document_action.split)
  ultimately show ?thesis by (intro conjI run_all)
qed

section \<open>Deleting files\<close>

text \<open>An attachment is deleted only after confirmation, and then in one request.\<close>

lemma delete_file_confirmed:
  "snd (run (delete_file E n confirm) S []) = (if confirm \<and> \<not> isl (te_scoped E) then [delete_attachment n] else [])"
  by (cases "te_scoped E")
    (auto simp: delete_file_def with_scoped_def err_out_def snd_run_or_fail_ok)

section \<open>Revisions\<close>

text \<open>
  A revision is made of the newest one. An update performs no operation but the read of the document
  and, when that gave a document, one write: the title and the name that were given, or those the
  document has now, and nothing of the other fields that was not given.
\<close>

theorem document_revised_once:
  "snd (run (document_update E p) S []) =
     (case md_document_id p of
        None \<Rightarrow> []
      | Some n \<Rightarrow>
          if document_updated_fields p = [] \<or> isl (te_scoped E) then []
          else get_dmsf_file n #
            (case decode_answer de_dmsf_file (S [] (get_dmsf_file n)) of
               Inr (Some current) \<Rightarrow> [create_dmsf_revision n (PDmsfRevision (revision_of p current))]
             | _ \<Rightarrow> []))"
proof -
  have none: "document_updated_fields p = [] \<longleftrightarrow>
      md_title p = None \<and> md_name p = None \<and> md_description p = None \<and> md_comment p = None \<and> md_custom_fields p = None"
    by (auto simp: document_updated_fields_def updated_fields_def)
  show ?thesis
    by (cases "te_scoped E"; cases "md_document_id p")
      (auto simp: document_update_def none require_def invalid_params_def with_scoped_def read_document_def
        document_answer_def snd_run_or_fail_ok or_fail_def split: sum.split option.split)
qed

text \<open>
  A blank title can be sent. The parameter says that the current title is the default and that the
  server never sends a blank one, on which the plugin fails; but a document whose newest revision
  has no title, updated without one, is written with an empty title.
\<close>

theorem blank_title_sent:
  assumes "te_scoped E = Inr c" and "md_document_id p = Some n" and "md_title p = None" and "md_description p = Some d"
    and "S [] (get_dmsf_file n) = Inr (ADmsfFile found)" and "dfs_revisions found \<noteq> []"
    and "drv_title (last (dfs_revisions found)) = None"
  shows "\<exists>w. drw_title w = [] \<and>
    snd (run (document_update E p) S []) = [get_dmsf_file n, create_dmsf_revision n (PDmsfRevision w)]"
proof -
  obtain current where "into_node found = Some current" "dmn_title current = None"
    using assms(6,7) by (auto simp: into_node_def Let_def)
  then show ?thesis
    using assms
    by (intro exI [of _ "revision_of p current"])
      (simp add: document_update_def require_def with_scoped_def read_document_def decode_answer_def
        document_answer_def snd_run_or_fail_ok or_current_def revision_of_def)
qed

section \<open>Versions of documents\<close>

definition dmsf_version_str :: "dmsf_version \<Rightarrow> string" where
  "dmsf_version_str v = nat_str (dvn_major v) @ ''.'' @ nat_str (dvn_minor v) @ ''.'' @ nat_str (dvn_patch v)"

lemma parse_parts_le: "parse_parts ps = Some ns \<Longrightarrow> length ns = length ps \<and> list_all (\<lambda>n. n \<le> 4294967295) ns"
  by (induction ps arbitrary: ns)
    (auto simp: parse_u32_def Let_def dest!: digits_value_le split: option.splits if_splits)

lemma dmsf_version_bounds:
  assumes "dmsf_version_from_str s = Some v"
  shows "dvn_major v \<le> 4294967295 \<and> dvn_minor v \<le> 4294967295 \<and> dvn_patch v \<le> 4294967295"
proof -
  obtain ns where ns: "parse_parts (split_char (CHR ''.'') [] s) = Some ns" "length ns \<le> 3"
      "v = \<lparr>dvn_major = (ns @ replicate (3 - length ns) 0) ! 0, dvn_minor = (ns @ replicate (3 - length ns) 0) ! 1,
            dvn_patch = (ns @ replicate (3 - length ns) 0) ! 2\<rparr>"
    using assms parse_parts_le by (fastforce simp: dmsf_version_from_str_def Let_def split: if_splits option.splits)
  have "(ns @ replicate (3 - length ns) 0) ! i \<le> 4294967295" if "i < 3" for i
    using parse_parts_le [OF ns(1)] ns(2) that by (auto simp: nth_append list_all_length)
  then show ?thesis using ns(3) by simp
qed

text \<open>
  The version of a document reads back as it is printed in full, exactly when its numbers fit 32 bits;
  reading yields only such versions, so a second reading of the full form changes nothing.
\<close>

lemma dmsf_version_roundtrip:
  "(dmsf_version_from_str (dmsf_version_str v) = Some v \<longleftrightarrow>
      dvn_major v \<le> 4294967295 \<and> dvn_minor v \<le> 4294967295 \<and> dvn_patch v \<le> 4294967295) \<and>
   (\<forall>s w. dmsf_version_from_str s = Some w \<longrightarrow> dmsf_version_from_str (dmsf_version_str w) = Some w)"
proof -
  have dot: "CHR ''.'' \<notin> set (nat_str n)" for n by (rule nat_str_free) (simp add: is_ascii_digit_def byte_of_def)
  have split: "split_char (CHR ''.'') [] (dmsf_version_str w) = [nat_str (dvn_major w), nat_str (dvn_minor w), nat_str (dvn_patch w)]" for w
    by (simp add: dmsf_version_str_def split_char_sep split_char_free dot)
  have "dmsf_version_str w \<noteq> []" for w by (simp add: dmsf_version_str_def)
  then have rt: "dmsf_version_from_str (dmsf_version_str w) = Some w \<longleftrightarrow>
      dvn_major w \<le> 4294967295 \<and> dvn_minor w \<le> 4294967295 \<and> dvn_patch w \<le> 4294967295" for w
    by (simp add: dmsf_version_from_str_def split parse_u32_nat_str)
  then show ?thesis using dmsf_version_bounds by blast
qed

end
