(* ===== verification/Spec2Isabelle.thy ===== *)
theory Spec2Isabelle
  imports Endpoint_Flows Rate_Limit Attachment_Quota Rest_Api Config_Safety Schema Untrusted_Text Health
    Server_Tools Document_Safety
begin

text \<open>
  Verification of \<^bold>\<open>ruprogress-mcp\<close>, an MCP server in Rust that gives a language model access to a Redmine
  installation. Sources are named relative to \<^verbatim>\<open>src/crates/ruprogress-mcp/src\<close>; \<^verbatim>\<open>rc/\<close> stands for
  \<^verbatim>\<open>src/crates/redmine-client/src\<close>.

  \<^bold>\<open>The program.\<close> A request arrives over stdio or HTTP. Over HTTP it passes the rate limiter and, in the two OAuth
  modes, a middleware that resolves its bearer token: in the plain mode the token of Redmine, which is
  verified by introspection and cached; in the proxy mode a token of the server's own OAuth
  authorization server, which stands in for a token of Redmine kept in its stores. The router then checks
  the scopes of the call and hands it to a tool. A tool validates its arguments, takes the credential of
  the call, sends REST requests through the client, and answers with JSON in which text from Redmine is
  wrapped in a boundary and whose lists are capped.

  \<^bold>\<open>Theories and sources.\<close>

  \<^item> \<open>Prelude\<close>: time, saturating arithmetic, ASCII and Unicode strings, finite maps; shared lemmas.
  \<^item> \<open>Bounded_Store\<close>: the helpers of \<^verbatim>\<open>oauth/proxy/store.rs\<close> and the two locales \<open>capped_map\<close> and \<open>capped_store\<close>,
    the contract every bounded map with deadlines keeps. They are interpreted on the stores of
    \<open>Transaction_Store\<close>, \<open>Upstream_Store\<close>, \<open>Code_Store\<close>, \<open>Token_Store\<close> and \<open>Refresh_Store\<close>, which with
    \<open>Client_Registry\<close> model the rest of \<^verbatim>\<open>store.rs\<close>; \<open>Proxy_State\<close> puts them together.
  \<^item> \<open>Pkce\<close>, \<open>Redirect\<close>, \<open>Scopes\<close>: \<^verbatim>\<open>oauth/proxy/pkce.rs\<close>, \<^verbatim>\<open>oauth/proxy/redirect.rs\<close>, \<^verbatim>\<open>oauth/scopes.rs\<close>.
  \<^item> \<open>Redmine_Error\<close>, \<open>Token_Verifier\<close>: \<^verbatim>\<open>rc/error.rs\<close>, the wire models of OAuth, and \<^verbatim>\<open>auth/oauth.rs\<close>.
  \<^item> \<open>Endpoints\<close>, \<open>Endpoint_Safety\<close>, \<open>Endpoint_Flows\<close>: \<^verbatim>\<open>oauth/proxy/endpoints.rs\<close> and \<^verbatim>\<open>auth/proxy.rs\<close>, first the
    handlers, then the reachable states of the whole proxy, then what a flow of several requests does.
  \<^item> \<open>Rate_Limit\<close>: \<^verbatim>\<open>ratelimit.rs\<close>. \<open>Attachments\<close>, \<open>Attachment_Quota\<close>: \<^verbatim>\<open>attachments.rs\<close> and the download tool.
  \<^item> \<open>Http_Client\<close>, \<open>Redmine_Ids\<close>, \<open>Rest_Api\<close>: \<^verbatim>\<open>rc/client.rs\<close>, \<^verbatim>\<open>rc/retry.rs\<close>, \<^verbatim>\<open>rc/page.rs\<close>, \<^verbatim>\<open>rc/ids.rs\<close>, every REST
    operation with its route and query. \<open>Redmine_Model\<close>, \<open>Plugin_Model\<close>: the structures of \<^verbatim>\<open>rc/model\<close> and
    \<^verbatim>\<open>rc/model/plugins\<close>, with the readers that are written by hand.
  \<^item> \<open>Json\<close>, \<open>Output_Caps\<close>, \<open>Schema\<close>: \<^verbatim>\<open>serde_json\<close> values, \<^verbatim>\<open>tools/output.rs\<close> with \<^verbatim>\<open>error.rs\<close>, \<^verbatim>\<open>tools/schema.rs\<close>. The
    locale \<open>prefix_fits\<close> has the laws under which the binary search for the cut is right.
  \<^item> \<open>Tool_Scope\<close>, \<open>Server_Router\<close>, \<open>Config\<close>, \<open>Config_Safety\<close>: \<^verbatim>\<open>auth/scope.rs\<close>, \<^verbatim>\<open>server.rs\<close> with
    \<^verbatim>\<open>readonly.rs\<close>, \<^verbatim>\<open>panic_guard.rs\<close>, \<^verbatim>\<open>auth/per_user.rs\<close> and \<^verbatim>\<open>auth/legacy.rs\<close>, and \<^verbatim>\<open>config.rs\<close>.
  \<^item> \<open>Render\<close>: \<^verbatim>\<open>render.rs\<close>. \<open>Tool_Session\<close>: a tool as a program of REST calls, its results and errors.
  \<^item> \<open>Custom_Fields\<close>, \<open>Upload_Source\<close>, \<open>Issue_Output\<close>, \<open>Issue_Tools\<close>: \<^verbatim>\<open>tools/custom_fields.rs\<close>, the upload half of
    \<^verbatim>\<open>tools/files.rs\<close>, and \<^verbatim>\<open>tools/issues.rs\<close>. \<open>Issue_Safety\<close> and \<open>Untrusted_Text\<close> hold the theorems about them.
  \<^item> \<open>Time_Tools\<close>, \<open>Discovery_Tools\<close>, \<open>Wiki_Tools\<close>, \<open>Project_Tools\<close>, \<open>File_Tools\<close>: the other modules of \<^verbatim>\<open>tools\<close>, that is
    \<^verbatim>\<open>time.rs\<close>, \<^verbatim>\<open>discovery.rs\<close> with \<^verbatim>\<open>meta.rs\<close>, \<^verbatim>\<open>search_wiki.rs\<close>, \<^verbatim>\<open>projects.rs\<close> with \<^verbatim>\<open>gantt.rs\<close>, and \<^verbatim>\<open>files.rs\<close>.
    \<open>Checklist_Tools\<close>, \<open>Product_Tools\<close>, \<open>Contact_Tools\<close>, \<open>Document_Tools\<close>: \<^verbatim>\<open>tools/plugins\<close>. \<open>Document_Safety\<close> has the
    theorems about uploads and documents.
  \<^item> \<open>Tool_Contract\<close>: the contract of a module of tools, the locale \<open>tool_router\<close>: read-only it only reads, its
    reading actions only read, the scope table covers its actions, and its requests stay on their routes.
    Each module interprets it; the locale \<open>merged_routers\<close> shows that merging two modules keeps it.
    \<open>Server_Tools\<close> merges the twelve modules as \<^verbatim>\<open>RedmineMcp::new\<close> does and reads off the theorems about the server.
  \<^item> \<open>Http_Transport\<close>, \<open>Health\<close>: \<^verbatim>\<open>transport/http.rs\<close>, \<^verbatim>\<open>oauth/metadata.rs\<close> and \<^verbatim>\<open>health.rs\<close>.

  \<^bold>\<open>State and concurrency.\<close> State is a record that operations return updated. A handler that awaits
  something between two critical sections is split there, and the interleavings of such parts are
  inductive step relations (\<open>redeem_step\<close>, \<open>refresh_step\<close>, \<open>att_step\<close>, the steps of the proxy and of the
  verifier), whose reachable states carry the invariants. Each part reads the clock once. A tool is a
  value of type \<open>prog\<close>, a tree of REST calls that continues with the answer; \<open>run\<close> plays it against a
  server that may answer each call by the whole history of calls, so what is shown of a tool holds
  whatever Redmine answers, also when it changes in between. The fetches of attachments that the code
  runs a few at a time, and the requests it joins, are in order here.

  \<^bold>\<open>What the theorems show.\<close> For the proxy: no open redirect, codes and refresh tokens are used once in every
  interleaving, replay and reuse end the session, revocation and failed refreshes end it, a flow from the
  callback to an authenticated call succeeds, all stores stay within their caps. For the verifier: what
  the cache accepts was introspected as active and is unexpired. For the limiter: it refines independent
  token buckets and bounds the requests it lets through. For the client: retries, pages, paths. For
  attachments: the quota invariant and that a download settles its reservation on every path. For the
  configuration: what is accepted is safe, and secrets do not show. For the router: the scope check is
  exact, it misses no tool and no action, and credentials come from the request. For all tools of the
  server together: read-only they send only reads, a token with reading scopes makes them send only reads,
  and no argument steers a request off its route. For single tools: deletion is confirmed, copies and retries are bounded, uploads come from the allowed places and within the
  budget, custom fields are resolved and filled exactly as documented, and what users wrote stays inside
  the boundary. For the edge: the layers of every route, the revocation endpoint, safe file names and
  bounded probes. Theorems with no number are of the same kind and stand beside the definitions.

  \<^bold>\<open>Abstractions.\<close> Points in time are natural numbers of nanoseconds that saturate as the code does; an \<^verbatim>\<open>f64\<close> is
  a rational number. A string is a list of bytes where the code compares or measures bytes and a list of
  scalar values where it looks at characters. A dictionary with no order is a finite map, and where the
  order of iteration matters it is an argument. Dates and times are the texts they are printed as. Of a
  protocol error for wrong parameters only its kind is kept.

  \<^bold>\<open>Parameters.\<close> Arguments stand for what is not in the repository: the answers of Redmine, random bytes,
  SHA-256 and base64, the parser of the \<^verbatim>\<open>url\<close> crate and how it prints, serde's derived code, reqwest, the
  hasher, the file system, the Unicode tables, and the schemas that schemars generates. Theorems that
  rely on one of them state what they rely on as a hypothesis and have a witness.

  \<^bold>\<open>Fuel.\<close> Two functions have a bound on their steps: the substitution of schema references, for which the
  depth of the definitions is shown to be enough, and the walk through the pages of journals, for which the
  number of journals is. Every other loop is a terminating function.

  \<^bold>\<open>Not modelled.\<close> Start-up (\<^verbatim>\<open>main.rs\<close>), \<^verbatim>\<open>logging.rs\<close> and the stdio transport are glue around libraries, as are the wiring of
  axum and tower and the graceful shutdown in \<^verbatim>\<open>transport/http.rs\<close>. The code that serde and schemars derive, the
  descriptions of the tools and the log lines are not modelled either.
\<close>

end
